(* ===== verification/Prelude.thy ===== *)
theory Prelude
  imports Main "HOL-Library.Word" "HOL-Library.Monad_Syntax"
begin

text \<open>
  Shared vocabulary of the development: the C integer types and their
  conversions, C's truncating remainder, byte arrays with a bounds-checked
  \<open>memcpy\<close>, and the list lemmas the buffer components use.
  An access outside an array is undefined in C; here it is the value
  \<^term>\<open>None\<close>, so that a theorem with a \<^term>\<open>Some\<close> result is also a
  theorem of memory safety.
\<close>

unbundle bit_operations_syntax

named_theorems consts_simp
named_theorems state_simp

type_synonym u8 = "8 word"
type_synonym u16 = "16 word"
type_synonym u32 = "32 word"

section \<open>C integer conversions\<close>

text \<open>Conversion of a mathematical integer to \<open>uint16_t\<close>, \<open>uint32_t\<close>
  and \<open>int32_t\<close>, with the wrap-around written out.\<close>

definition to_u16 :: "int \<Rightarrow> nat" where
  "to_u16 n = nat (n mod 65536)"

definition to_u32 :: "int \<Rightarrow> nat" where
  "to_u32 n = nat (n mod 4294967296)"

definition to_i32 :: "int \<Rightarrow> int" where
  "to_i32 n = (n + 2147483648) mod 4294967296 - 2147483648"

lemma to_u16_id [simp]: "0 \<le> n \<Longrightarrow> n < 65536 \<Longrightarrow> to_u16 n = nat n"
  by (simp add: to_u16_def)

lemma to_u16_nat [simp]: "n < 65536 \<Longrightarrow> to_u16 (int n) = n"
  by (simp add: to_u16_def)

lemma to_u16_less: "to_u16 n < 65536"
  by (simp add: to_u16_def nat_less_iff)

lemma to_u32_id [simp]: "0 \<le> n \<Longrightarrow> n < 4294967296 \<Longrightarrow> to_u32 n = nat n"
  by (simp add: to_u32_def)

lemma to_u32_nat [simp]: "n < 4294967296 \<Longrightarrow> to_u32 (int n) = n"
  by (simp add: to_u32_def)

lemma to_u32_less: "to_u32 n < 4294967296"
  by (simp add: to_u32_def nat_less_iff)

lemma to_i32_id [simp]: "- 2147483648 \<le> n \<Longrightarrow> n < 2147483648 \<Longrightarrow> to_i32 n = n"
  by (simp add: to_i32_def)

text \<open>The elapsed time by a 32-bit tick that wraps around.\<close>

lemma to_u32_elapsed:
  assumes "b \<le> a" and "a - b < 2 ^ 32"
  shows "to_u32 (int (to_u32 (int a)) - int (to_u32 (int b))) = a - b"
proof -
  have "(int a mod 4294967296 - int b mod 4294967296) mod 4294967296 = (int a - int b) mod 4294967296"
    by (rule mod_diff_eq)
  also have "int a - int b = int (a - b)" using assms(1) by (simp add: of_nat_diff)
  also have "int (a - b) mod 4294967296 = int (a - b)" using assms(2) by simp
  finally show ?thesis by (simp add: to_u32_def)
qed

lemma nat_word: "x < 2 ^ 32 \<Longrightarrow> unat (word_of_nat x :: u32) = x"
  by (simp add: unat_of_nat)

text \<open>C's \<open>%\<close> truncates towards zero.\<close>

definition c_rem :: "int \<Rightarrow> int \<Rightarrow> int" where
  "c_rem a b = sgn a * (\<bar>a\<bar> mod \<bar>b\<bar>)"

lemma c_rem_nonneg [simp]: "0 \<le> a \<Longrightarrow> 0 \<le> b \<Longrightarrow> c_rem a b = a mod b"
  by (cases "a = 0") (auto simp: c_rem_def)

text \<open>The distance from position \<open>r\<close> to position \<open>w\<close> round a ring of \<open>n\<close> cells.\<close>

lemma ring_dist:
  assumes "r < n" and "w < n"
  shows "(int w + int n - int r) mod int n = (if r \<le> w then int w - int r else int w + int n - int r)"
proof (cases "r \<le> w")
  case True
  have "(int w + int n - int r) mod int n = ((int w - int r) + int n) mod int n"
    by (simp add: algebra_simps)
  also have "\<dots> = int w - int r" using True assms by (simp only: mod_add_self2) simp
  finally show ?thesis using True by simp
next
  case False
  then show ?thesis using assms by simp
qed

lemma ring_dist1:
  assumes "r < n" and "w < n"
  shows "(int r + int n - int w - 1) mod int n = int n - 1 - (int w + int n - int r) mod int n"
proof (cases "r \<le> w")
  case True
  then show ?thesis using assms by (simp add: ring_dist)
next
  case False
  then have "(int r + int n - int w - 1) mod int n = (int (r - 1) + int n - int w) mod int n"
    by (simp add: of_nat_diff algebra_simps)
  also have "\<dots> = int (r - 1) - int w"
    using False assms by (subst ring_dist) (auto simp: of_nat_diff)
  finally show ?thesis using False assms by (simp add: ring_dist of_nat_diff)
qed

section \<open>Byte arrays\<close>

text \<open>\<open>mem_read src off n\<close> reads \<open>n\<close> bytes at \<open>src + off\<close>;
  \<open>mem_write dst off xs\<close> stores \<open>xs\<close> at \<open>dst + off\<close>.
  \<open>memcpy (dst + doff, src + soff, n)\<close> is the one after the other.\<close>

definition mem_read :: "'a list \<Rightarrow> nat \<Rightarrow> nat \<Rightarrow> 'a list option" where
  "mem_read src off n =
     (if off + n \<le> length src then Some (take n (drop off src)) else None)"

definition mem_write :: "'a list \<Rightarrow> nat \<Rightarrow> 'a list \<Rightarrow> 'a list option" where
  "mem_write dst off xs =
     (if off + length xs \<le> length dst
      then Some (take off dst @ xs @ drop (off + length xs) dst) else None)"

definition memcpy :: "'a list \<Rightarrow> nat \<Rightarrow> 'a list \<Rightarrow> nat \<Rightarrow> nat \<Rightarrow> 'a list option" where
  "memcpy dst doff src soff n =
     do { xs \<leftarrow> mem_read src soff n; mem_write dst doff xs }"

definition mem_get :: "'a list \<Rightarrow> nat \<Rightarrow> 'a option" where
  "mem_get xs i = (if i < length xs then Some (xs ! i) else None)"

definition seg :: "'a list \<Rightarrow> nat \<Rightarrow> nat \<Rightarrow> 'a list" where
  "seg xs a b = take (b - a) (drop a xs)"

lemma length_seg [simp]: "length (seg xs a b) = min (b - a) (length xs - a)"
  by (simp add: seg_def)

lemma seg_empty [simp]: "b \<le> a \<Longrightarrow> seg xs a b = []"
  by (simp add: seg_def)

lemma seg_append:
  assumes "a \<le> b" and "b \<le> c"
  shows "seg xs a b @ seg xs b c = seg xs a c"
proof -
  have "take (c - a) (drop a xs) = take ((b - a) + (c - b)) (drop a xs)"
    using assms by simp
  also have "\<dots> = take (b - a) (drop a xs) @ take (c - b) (drop b xs)"
    using assms by (simp only: take_add drop_drop) simp
  finally show ?thesis by (simp add: seg_def)
qed

lemma take_seg: "a \<le> b \<Longrightarrow> take n (seg xs a b) = seg xs a (min (a + n) b)"
  by (auto simp: seg_def min_def)

lemma drop_seg: "drop n (seg xs a b) = seg xs (a + n) b"
  by (simp add: seg_def drop_take add.commute diff_diff_left)

lemma nth_seg: "a + i < b \<Longrightarrow> b \<le> length xs \<Longrightarrow> seg xs a b ! i = xs ! (a + i)"
  by (simp add: seg_def)

lemma seg_Cons: "a < b \<Longrightarrow> b \<le> length xs \<Longrightarrow> seg xs a b = xs ! a # seg xs (Suc a) b"
  by (simp add: seg_def Cons_nth_drop_Suc [symmetric] take_Cons')

lemma seg_whole [simp]: "seg xs 0 (length xs) = xs"
  by (simp add: seg_def)

lemma mem_get_in [simp]: "i < length xs \<Longrightarrow> mem_get xs i = Some (xs ! i)"
  by (simp add: mem_get_def)

lemma mem_read_seg: "off + n \<le> length src \<Longrightarrow> mem_read src off n = Some (seg src off (off + n))"
  by (simp add: mem_read_def seg_def)

lemma seg_Nil_iff [simp]: "seg xs a b = [] \<longleftrightarrow> b \<le> a \<or> length xs \<le> a"
  by (auto simp: seg_def)

lemma mem_write_ok: "off + length xs \<le> length dst \<Longrightarrow> \<exists>dst'. mem_write dst off xs = Some dst'"
  by (simp add: mem_write_def)

lemma mem_write_length: "mem_write dst off xs = Some dst' \<Longrightarrow> length dst' = length dst"
  by (auto simp: mem_write_def split: if_splits)

text \<open>A write leaves every seg outside the written range as it was, and the
  written range reads back.\<close>

lemma seg_mem_write_before:
  "mem_write dst off xs = Some dst' \<Longrightarrow> b \<le> off \<Longrightarrow> seg dst' a b = seg dst a b"
  by (auto simp: mem_write_def seg_def drop_take split: if_splits)

lemma seg_mem_write_after:
  "mem_write dst off xs = Some dst' \<Longrightarrow> off + length xs \<le> a \<Longrightarrow> seg dst' a b = seg dst a b"
  by (auto simp: mem_write_def seg_def split: if_splits)

lemma seg_mem_write_same:
  "mem_write dst off xs = Some dst' \<Longrightarrow> seg dst' off (off + length xs) = xs"
  by (auto simp: mem_write_def seg_def split: if_splits)

lemma memcpy_whole:
  "doff + length src \<le> length dst \<Longrightarrow>
   memcpy dst doff src 0 (length src) = mem_write dst doff src"
  by (simp add: memcpy_def mem_read_def)

text \<open>A scan for a terminator splits the list at its first occurrence.\<close>

lemma takeWhile_split:
  "t \<in> set xs \<Longrightarrow> \<exists>zs. xs = takeWhile (\<lambda>c. c \<noteq> t) xs @ t # zs"
  by (induction xs) auto

end
