(* ===== verification/Fifo_Interface.thy ===== *)
theory Fifo_Interface
  imports Prelude
begin

text \<open>
  The contract the byte buffers of the core share: what their clients rely on
  when they put bytes in one end and take them from the other.
  The CDC transmit queue, the CDC receive queue and the virtio ring buffer
  are interpreted in the theories that model them.
\<close>

text \<open>A run of a client that follows the callers of the code: it never offers
  more than the room it was told (\<open>USBSerial::write\<close> cuts its portion to
  \<open>CDC_TransmitQueue_WriteSize\<close>), and takes what the buffer gives. The result
  is the bytes accepted, the bytes returned and the final state.\<close>

datatype fifo_op = Put "u8 list" | Get nat

fun fifo_run :: "('s \<Rightarrow> nat) \<Rightarrow> (u8 list \<Rightarrow> 's \<Rightarrow> 's option) \<Rightarrow>
    (nat \<Rightarrow> 's \<Rightarrow> (u8 list \<times> 's) option) \<Rightarrow> 's \<Rightarrow> fifo_op list \<Rightarrow>
    (u8 list \<times> u8 list \<times> 's) option" where
  "fifo_run room put get s [] = Some ([], [], s)"
| "fifo_run room put get s (Put xs # ops) =
     do { s' \<leftarrow> put (take (room s) xs) s;
          (ins, outs, s'') \<leftarrow> fifo_run room put get s' ops;
          Some (take (room s) xs @ ins, outs, s'') }"
| "fifo_run room put get s (Get n # ops) =
     do { (ys, s') \<leftarrow> get n s;
          (ins, outs, s'') \<leftarrow> fifo_run room put get s' ops;
          Some (ins, ys @ outs, s'') }"

locale byte_fifo =
  fixes inv :: "'s \<Rightarrow> bool"
    and content :: "'s \<Rightarrow> u8 list"
    and room :: "'s \<Rightarrow> nat"
    and put :: "u8 list \<Rightarrow> 's \<Rightarrow> 's option"
    and get :: "nat \<Rightarrow> 's \<Rightarrow> (u8 list \<times> 's) option"
  assumes put_law: "inv s \<Longrightarrow> length xs \<le> room s \<Longrightarrow>
      \<exists>s'. put xs s = Some s' \<and> inv s' \<and> content s' = content s @ xs"
    and get_law: "inv s \<Longrightarrow>
      \<exists>ys s'. get n s = Some (ys, s') \<and> inv s' \<and> content s = ys @ content s'"
begin

lemma run_in_order:
  assumes "inv s"
  shows "\<exists>ins outs s'. fifo_run room put get s ops = Some (ins, outs, s') \<and> inv s' \<and>
           content s @ ins = outs @ content s'"
  using assms
proof (induction ops arbitrary: s)
  case Nil
  then show ?case by simp
next
  case (Cons op ops)
  show ?case
  proof (cases op)
    case (Put xs)
    have "length (take (room s) xs) \<le> room s" by simp
    from put_law [OF Cons.prems this] obtain s1
      where s1: "put (take (room s) xs) s = Some s1" "inv s1"
        "content s1 = content s @ take (room s) xs" by blast
    from Cons.IH [OF s1(2)] obtain ins outs s2
      where "fifo_run room put get s1 ops = Some (ins, outs, s2)" "inv s2"
        "content s1 @ ins = outs @ content s2" by blast
    with s1 Put show ?thesis by auto
  next
    case (Get n)
    from get_law [OF Cons.prems] obtain ys s1
      where s1: "get n s = Some (ys, s1)" "inv s1" "content s = ys @ content s1" by blast
    from Cons.IH [OF s1(2)] obtain ins outs s2
      where "fifo_run room put get s1 ops = Some (ins, outs, s2)" "inv s2"
        "content s1 @ ins = outs @ content s2" by blast
    with s1 Get show ?thesis by auto
  qed
qed

text \<open>In particular nothing is reordered, invented or lost: from an empty
  buffer, what came out is a prefix of what went in.\<close>

lemma run_prefix:
  assumes "inv s" and "content s = []"
    and "fifo_run room put get s ops = Some (ins, outs, s')"
  shows "ins = outs @ content s'"
  using run_in_order [OF assms(1), of ops] assms(2,3) by auto

lemma run_inv:
  "inv s \<Longrightarrow> fifo_run room put get s ops = Some (ins, outs, s') \<Longrightarrow> inv s'"
  using run_in_order [of s ops] by auto

end

text \<open>A buffer of fixed capacity whose \<open>room\<close> is exact, with a reader that asks
  for a number of bytes and gets some if there are any.\<close>

locale bounded_fifo = byte_fifo +
  fixes capacity :: nat
  assumes room_law: "inv s \<Longrightarrow> length (content s) + room s = capacity"
begin

lemma content_bound: "inv s \<Longrightarrow> length (content s) \<le> capacity"
  using room_law [of s] by simp

lemma run_backlog:
  assumes "inv s" and "content s = []"
    and "fifo_run room put get s ops = Some (ins, outs, s')"
  shows "length ins \<le> length outs + capacity"
proof -
  have "ins = outs @ content s'" using run_prefix [OF assms] .
  moreover have "length (content s') \<le> capacity"
    using content_bound run_inv [OF assms(1,3)] by blast
  ultimately show ?thesis by simp
qed

end

end
