(* ===== verification/Ring.thy ===== *)
theory Ring
  imports Prelude
begin

text \<open>
  The bytes between a read and a write position of a cyclic buffer, and what
  storing and taking bytes, in one piece or split at the end of the array, does
  to them. Shared by the CDC transmit queue and the virtio ring buffer.
\<close>

definition ring_content :: "'a list \<Rightarrow> nat \<Rightarrow> nat \<Rightarrow> 'a list" where
  "ring_content buf r w =
     (if r \<le> w then seg buf r w else seg buf r (length buf) @ seg buf 0 w)"

definition ring_step :: "nat \<Rightarrow> nat \<Rightarrow> nat \<Rightarrow> nat" where
  "ring_step n i k = (if i + k \<ge> n then i + k - n else i + k)"

lemma ring_step_mod: "i < n \<Longrightarrow> k \<le> n \<Longrightarrow> (i + k) mod n = ring_step n i k"
  by (auto simp: ring_step_def le_mod_geq)

lemma ring_step_less: "i < n \<Longrightarrow> k \<le> n \<Longrightarrow> ring_step n i k < n"
  by (auto simp: ring_step_def)

lemma ring_content_empty [simp]: "ring_content buf r r = []"
  by (simp add: ring_content_def)

lemma length_ring_content:
  "r < length buf \<Longrightarrow> w < length buf \<Longrightarrow>
   length (ring_content buf r w) = (if r \<le> w then w - r else w + length buf - r)"
  by (auto simp: ring_content_def)

lemma ring_content_dist:
  "r < length buf \<Longrightarrow> w < length buf \<Longrightarrow>
   int (length (ring_content buf r w)) = (int w + int (length buf) - int r) mod int (length buf)"
  by (simp add: ring_dist length_ring_content of_nat_diff)

lemma ring_content_less: "r < length buf \<Longrightarrow> w < length buf \<Longrightarrow> length (ring_content buf r w) < length buf"
  by (auto simp: length_ring_content)

section \<open>Storing\<close>

lemma ring_put_flat:
  assumes rw: "r < length buf" "w < length buf"
    and fits: "length (ring_content buf r w) + length xs < length buf"
    and flat: "w + length xs \<le> length buf"
    and b: "mem_write buf w xs = Some buf'"
  shows "ring_content buf' r (ring_step (length buf) w (length xs)) = ring_content buf r w @ xs"
proof -
  have len: "length buf' = length buf" using b by (rule mem_write_length)
  have xs: "seg buf' w (w + length xs) = xs" using b by (rule seg_mem_write_same)
  have before: "\<And>a e. e \<le> w \<Longrightarrow> seg buf' a e = seg buf a e"
    using b by (rule seg_mem_write_before)
  have after: "\<And>a e. w + length xs \<le> a \<Longrightarrow> seg buf' a e = seg buf a e"
    using b by (rule seg_mem_write_after)
  show ?thesis
  proof (cases "r \<le> w")
    case True
    have "seg buf' r (w + length xs) = seg buf r w @ xs"
      using True seg_append [of r w "w + length xs" buf'] by (simp add: xs before)
    moreover have "w + length xs = length buf \<Longrightarrow> 0 < r"
      using fits rw True by (simp add: length_ring_content)
    ultimately show ?thesis
      using True flat len by (auto simp: ring_content_def ring_step_def)
  next
    case False
    then have lt: "w + length xs < r"
      using fits rw by (simp add: length_ring_content)
    have "seg buf' 0 (w + length xs) = seg buf 0 w @ xs"
      using seg_append [of 0 w "w + length xs" buf'] by (simp add: xs before)
    moreover have "seg buf' r (length buf) = seg buf r (length buf)"
      using lt after by simp
    ultimately show ?thesis
      using False lt rw len by (simp add: ring_content_def ring_step_def)
  qed
qed

lemma ring_put_split:
  assumes rw: "r < length buf" "w < length buf"
    and fits: "length (ring_content buf r w) + length xs < length buf"
    and wraps: "w + length xs \<ge> length buf"
    and b1: "mem_write buf w (take (length buf - w) xs) = Some buf1"
    and b2: "mem_write buf1 0 (drop (length buf - w) xs) = Some buf'"
  shows "ring_content buf' r (ring_step (length buf) w (length xs)) = ring_content buf r w @ xs"
proof -
  let ?n = "length buf" and ?t = "take (length buf - w) xs" and ?d = "drop (length buf - w) xs"
  have len: "length buf' = ?n"
    using mem_write_length [OF b1] mem_write_length [OF b2] by simp
  have lt: "length ?t = ?n - w" using wraps by simp
  have ld: "length ?d = w + length xs - ?n" using wraps rw by simp
  have rw': "r \<le> w" and room: "w + length xs - ?n < r"
    using fits wraps rw by (auto simp: length_ring_content split: if_splits)
  have tail: "seg buf' r ?n = seg buf r w @ ?t"
  proof -
    have "seg buf' r ?n = seg buf1 r ?n"
      using seg_mem_write_after [OF b2, of r] room ld by simp
    also have "\<dots> = seg buf1 r w @ seg buf1 w ?n"
      using rw' rw seg_append [of r w ?n buf1] by simp
    also have "seg buf1 r w = seg buf r w"
      using seg_mem_write_before [OF b1] by simp
    also have "seg buf1 w ?n = ?t"
      using seg_mem_write_same [OF b1] lt rw by simp
    finally show ?thesis .
  qed
  have head: "seg buf' 0 (w + length xs - ?n) = ?d"
    using seg_mem_write_same [OF b2] ld by simp
  have "ring_content buf' r (ring_step ?n w (length xs)) = seg buf' r ?n @ seg buf' 0 (w + length xs - ?n)"
    using wraps room len by (simp add: ring_content_def ring_step_def)
  then show ?thesis
    using tail head rw' by (simp add: ring_content_def)
qed

section \<open>Taking\<close>

lemma ring_take_flat:
  assumes "r < length buf" "w < length buf"
    and "k \<le> length (ring_content buf r w)" and "r + k \<le> length buf"
  shows "seg buf r (r + k) = take k (ring_content buf r w)"
    and "ring_content buf (ring_step (length buf) r k) w = drop k (ring_content buf r w)"
proof -
  have le: "r \<le> w \<Longrightarrow> r + k \<le> w" using assms by (simp add: length_ring_content)
  show "seg buf r (r + k) = take k (ring_content buf r w)"
    using le assms by (auto simp: ring_content_def take_seg min_def)
  show "ring_content buf (ring_step (length buf) r k) w = drop k (ring_content buf r w)"
    using le assms by (auto simp: ring_content_def ring_step_def drop_seg)
qed

lemma ring_take_split:
  assumes "r < length buf" "w < length buf"
    and "k \<le> length (ring_content buf r w)" and "r + k \<ge> length buf"
  shows "seg buf r (length buf) @ seg buf 0 (k - (length buf - r)) = take k (ring_content buf r w)"
    and "ring_content buf (ring_step (length buf) r k) w = drop k (ring_content buf r w)"
proof -
  have lt: "w < r" and le: "k - (length buf - r) \<le> w"
    using assms by (auto simp: length_ring_content split: if_splits)
  show "seg buf r (length buf) @ seg buf 0 (k - (length buf - r)) = take k (ring_content buf r w)"
    using lt le assms by (simp add: ring_content_def take_seg min_def)
  show "ring_content buf (ring_step (length buf) r k) w = drop k (ring_content buf r w)"
    using lt le assms by (auto simp: ring_content_def ring_step_def drop_seg add.commute)
qed

end
