(* ===== verification/Cdc_Queue.thy ===== *)
theory Cdc_Queue
  imports Fifo_Interface Ring
begin

text \<open>
  The cyclic buffers of the USB CDC serial port,
  \<^verbatim>\<open>cores/arduino/stm32/usb/cdc/cdc_queue.c\<close>, for a full-speed device (no
  \<^verbatim>\<open>USE_USB_HS\<close>, the first entry of the board's menu). A pointer into a
  queue's buffer is its offset, the null pointer is \<^term>\<open>None\<close>, and a call that
  accesses a byte outside an array has no result. The positions are \<^verbatim>\<open>uint16_t\<close>;
  the code computes with them after promotion to \<^verbatim>\<open>int\<close>.
\<close>

definition CDC_QUEUE_MAX_PACKET_SIZE :: nat where
  [consts_simp]: "CDC_QUEUE_MAX_PACKET_SIZE = 64"

definition CDC_TRANSMIT_QUEUE_BUFFER_SIZE :: nat where
  [consts_simp]: "CDC_TRANSMIT_QUEUE_BUFFER_SIZE = to_u16 (int (CDC_QUEUE_MAX_PACKET_SIZE * 2))"

definition CDC_RECEIVE_QUEUE_BUFFER_SIZE :: nat where
  [consts_simp]: "CDC_RECEIVE_QUEUE_BUFFER_SIZE = to_u16 (int (CDC_QUEUE_MAX_PACKET_SIZE * 3))"

section \<open>The transmit queue\<close>

record tx_queue =
  tq_buffer :: "u8 list"
  tq_write :: nat
  tq_read :: nat
  tq_reserved :: nat

definition CDC_TransmitQueue_Init :: "tx_queue \<Rightarrow> tx_queue" where
  "CDC_TransmitQueue_Init q = q\<lparr>tq_read := 0, tq_write := 0\<rparr>"

definition CDC_TransmitQueue_WriteSize :: "tx_queue \<Rightarrow> int" where
  "CDC_TransmitQueue_WriteSize q =
     c_rem (int (tq_read q) + int CDC_TRANSMIT_QUEUE_BUFFER_SIZE - int (tq_write q) - 1)
           (int CDC_TRANSMIT_QUEUE_BUFFER_SIZE)"

definition CDC_TransmitQueue_ReadSize :: "tx_queue \<Rightarrow> int" where
  "CDC_TransmitQueue_ReadSize q =
     c_rem (int (tq_write q) + int CDC_TRANSMIT_QUEUE_BUFFER_SIZE - int (tq_read q))
           (int CDC_TRANSMIT_QUEUE_BUFFER_SIZE)"

definition CDC_TransmitQueue_Enqueue :: "tx_queue \<Rightarrow> u8 list \<Rightarrow> nat \<Rightarrow> tx_queue option" where
  "CDC_TransmitQueue_Enqueue q buffer sz =
     (let sizeToEnd = to_u32 (int CDC_TRANSMIT_QUEUE_BUFFER_SIZE - int (tq_write q)) in
      do { b \<leftarrow> (if sizeToEnd > sz
                 then memcpy (tq_buffer q) (tq_write q) buffer 0 sz
                 else do { b1 \<leftarrow> memcpy (tq_buffer q) (tq_write q) buffer 0 sizeToEnd;
                           memcpy b1 0 buffer sizeToEnd (sz - sizeToEnd) });
           Some (q\<lparr>tq_buffer := b,
                   tq_write := to_u16 (int (to_u32 (int (tq_write q) + int sz)
                                            mod CDC_TRANSMIT_QUEUE_BUFFER_SIZE))\<rparr>) })"

text \<open>The result is the offset of the block in the buffer and its size.\<close>

definition CDC_TransmitQueue_ReadBlock :: "tx_queue \<Rightarrow> (nat \<times> nat) \<times> tx_queue" where
  "CDC_TransmitQueue_ReadBlock q =
     (let sz = (if tq_write q \<ge> tq_read q then to_u16 (int (tq_write q) - int (tq_read q))
                  else to_u16 (int CDC_TRANSMIT_QUEUE_BUFFER_SIZE - int (tq_read q)))
      in ((tq_read q, sz), q\<lparr>tq_reserved := sz\<rparr>))"

definition CDC_TransmitQueue_CommitRead :: "tx_queue \<Rightarrow> tx_queue" where
  "CDC_TransmitQueue_CommitRead q =
     q\<lparr>tq_read := to_u16 (int ((tq_read q + tq_reserved q) mod CDC_TRANSMIT_QUEUE_BUFFER_SIZE))\<rparr>"

section \<open>The receive queue\<close>

record rx_queue =
  rq_buffer :: "u8 list"
  rq_write :: nat
  rq_read :: nat
  rq_length :: nat

definition CDC_ReceiveQueue_Init :: "rx_queue \<Rightarrow> rx_queue" where
  "CDC_ReceiveQueue_Init q =
     q\<lparr>rq_read := 0, rq_write := 0, rq_length := CDC_RECEIVE_QUEUE_BUFFER_SIZE\<rparr>"

definition CDC_ReceiveQueue_ReserveBlock :: "rx_queue \<Rightarrow> nat option \<times> rx_queue" where
  "CDC_ReceiveQueue_ReserveBlock q =
     (let limit = to_u16 (int CDC_RECEIVE_QUEUE_BUFFER_SIZE - int CDC_QUEUE_MAX_PACKET_SIZE);
          read = rq_read q in
      if read \<le> rq_write q then
        if rq_write q < limit \<or> (rq_write q = limit \<and> read > 0) then (Some (rq_write q), q)
        else if read > CDC_QUEUE_MAX_PACKET_SIZE then
          (let q' = q\<lparr>rq_length := rq_write q, rq_write := 0\<rparr> in (Some (rq_write q'), q'))
        else (None, q)
      else if rq_write q + CDC_QUEUE_MAX_PACKET_SIZE < read then (Some (rq_write q), q)
      else (None, q))"

definition CDC_ReceiveQueue_CommitBlock :: "rx_queue \<Rightarrow> nat \<Rightarrow> rx_queue" where
  "CDC_ReceiveQueue_CommitBlock q sz =
     (let q1 = q\<lparr>rq_write := to_u16 (int (rq_write q) + int sz)\<rparr>;
          q2 = (if rq_write q1 \<ge> rq_length q1
                then q1\<lparr>rq_length := CDC_RECEIVE_QUEUE_BUFFER_SIZE\<rparr> else q1)
      in if rq_write q2 \<ge> CDC_RECEIVE_QUEUE_BUFFER_SIZE then q2\<lparr>rq_write := 0\<rparr> else q2)"

definition CDC_ReceiveQueue_ReadSize :: "rx_queue \<Rightarrow> int" where
  "CDC_ReceiveQueue_ReadSize q =
     (let write = int (rq_write q); len = int (rq_length q) in
      if write \<ge> int (rq_read q) then write - int (rq_read q)
      else len + write - int (rq_read q))"

text \<open>\<open>rq_rewind len\<close> is the tail every reader ends with:
  \<open>if (queue->read >= length) queue->read = 0;\<close>\<close>

definition rq_rewind :: "nat \<Rightarrow> rx_queue \<Rightarrow> rx_queue" where
  "rq_rewind len q = (if rq_read q \<ge> len then q\<lparr>rq_read := 0\<rparr> else q)"

text \<open>The readers load \<open>write\<close> and \<open>length\<close> once, at their start, and then work with
  the loaded values. \<open>Dequeue_at\<close> and its kin are the rest of each function, after
  the two loads, so that an interrupt between the loads and the rest can be
  modelled too.\<close>

definition CDC_ReceiveQueue_Dequeue_at :: "nat \<Rightarrow> nat \<Rightarrow> rx_queue \<Rightarrow> (int \<times> rx_queue) option" where
  "CDC_ReceiveQueue_Dequeue_at write len q =
     (let q1 = (if rq_read q = len then q\<lparr>rq_read := 0\<rparr> else q) in
      if write = rq_read q1 then Some (-1, q1)
      else do { ch \<leftarrow> mem_get (rq_buffer q1) (rq_read q1);
                let q2 = q1\<lparr>rq_read := to_u16 (int (rq_read q1) + 1)\<rparr>;
                Some (uint ch, rq_rewind len q2) })"

definition CDC_ReceiveQueue_Dequeue :: "rx_queue \<Rightarrow> (int \<times> rx_queue) option" where
  "CDC_ReceiveQueue_Dequeue q = CDC_ReceiveQueue_Dequeue_at (rq_write q) (rq_length q) q"

definition CDC_ReceiveQueue_Peek :: "rx_queue \<Rightarrow> (int \<times> rx_queue) option" where
  "CDC_ReceiveQueue_Peek q =
     (let write = rq_write q; len = rq_length q; q1 = rq_rewind len q in
      if write = rq_read q1 then Some (-1, q1)
      else do { ch \<leftarrow> mem_get (rq_buffer q1) (rq_read q1); Some (uint ch, q1) })"

text \<open>The bytes the code stores to the caller's \<open>buffer\<close> are the result; their
  number is the returned \<open>size\<close>.\<close>

definition rq_available :: "nat \<Rightarrow> nat \<Rightarrow> rx_queue \<Rightarrow> nat" where
  "rq_available write len q =
     (if write \<ge> rq_read q then to_u16 (int write - int (rq_read q))
      else to_u16 (int len - int (rq_read q)))"

definition CDC_ReceiveQueue_Read_at ::
    "nat \<Rightarrow> nat \<Rightarrow> rx_queue \<Rightarrow> nat \<Rightarrow> (u8 list \<times> rx_queue) option" where
  "CDC_ReceiveQueue_Read_at write len q sz =
     (let q1 = rq_rewind len q;
          available = rq_available write len q1;
          sz' = (if available < sz then available else sz)
      in do { bytes \<leftarrow> mem_read (rq_buffer q1) (rq_read q1) sz';
              let q2 = q1\<lparr>rq_read := to_u16 (int (rq_read q1) + int sz')\<rparr>;
              Some (bytes, rq_rewind len q2) })"

definition CDC_ReceiveQueue_Read :: "rx_queue \<Rightarrow> nat \<Rightarrow> (u8 list \<times> rx_queue) option" where
  "CDC_ReceiveQueue_Read q sz = CDC_ReceiveQueue_Read_at (rq_write q) (rq_length q) q sz"

text \<open>The \<open>for\<close> loop of \<open>ReadUntil\<close>: \<open>k\<close> iterations are left, \<open>i\<close> is the loop
  variable and \<open>out\<close> what was stored to \<open>buffer\<close> so far.\<close>

fun read_until_loop ::
    "u8 list \<Rightarrow> nat \<Rightarrow> u8 \<Rightarrow> nat \<Rightarrow> nat \<Rightarrow> u8 list \<Rightarrow> (bool \<times> nat \<times> u8 list) option" where
  "read_until_loop buf start terminator 0 i out = Some (False, i, out)"
| "read_until_loop buf start terminator (Suc k) i out =
     do { ch \<leftarrow> mem_get buf (start + i);
          if ch = terminator then Some (True, i, out)
          else read_until_loop buf start terminator k (Suc i) (out @ [ch]) }"

definition CDC_ReceiveQueue_ReadUntil ::
    "rx_queue \<Rightarrow> u8 \<Rightarrow> nat \<Rightarrow> ((bool \<times> nat \<times> u8 list) \<times> rx_queue) option" where
  "CDC_ReceiveQueue_ReadUntil q terminator sz =
     (let write = rq_write q; len = rq_length q;
          q1 = rq_rewind len q;
          available = rq_available write len q1;
          sz' = (if available < sz then available else sz)
      in do { (found, i, out) \<leftarrow> read_until_loop (rq_buffer q1) (rq_read q1) terminator sz' 0 [];
              let q2 = (if found
                        then q1\<lparr>rq_read := to_u16 (int (rq_read q1) + int (to_u16 (int i + 1)))\<rparr>
                        else q1\<lparr>rq_read := to_u16 (int (rq_read q1) + int sz')\<rparr>);
              Some ((found, (if found then i else sz'), out), rq_rewind len q2) })"

section \<open>The transmit queue is a FIFO of 127 bytes\<close>

lemma tx_size [simp]: "CDC_TRANSMIT_QUEUE_BUFFER_SIZE = 128"
  by (simp add: consts_simp)

lemma rx_size [simp]: "CDC_RECEIVE_QUEUE_BUFFER_SIZE = 192"
  by (simp add: consts_simp)

lemma packet_size [simp]: "CDC_QUEUE_MAX_PACKET_SIZE = 64"
  by (simp add: consts_simp)

definition tx_inv :: "tx_queue \<Rightarrow> bool" where
  "tx_inv q \<longleftrightarrow> length (tq_buffer q) = CDC_TRANSMIT_QUEUE_BUFFER_SIZE \<and>
     tq_write q < CDC_TRANSMIT_QUEUE_BUFFER_SIZE \<and> tq_read q < CDC_TRANSMIT_QUEUE_BUFFER_SIZE"

definition tx_content :: "tx_queue \<Rightarrow> u8 list" where
  "tx_content q = ring_content (tq_buffer q) (tq_read q) (tq_write q)"

lemma tx_init: "length (tq_buffer q) = CDC_TRANSMIT_QUEUE_BUFFER_SIZE \<Longrightarrow>
    tx_inv (CDC_TransmitQueue_Init q) \<and> tx_content (CDC_TransmitQueue_Init q) = []"
  by (simp add: tx_inv_def tx_content_def CDC_TransmitQueue_Init_def)

lemma tx_content_bound: "tx_inv q \<Longrightarrow> length (tx_content q) \<le> 127"
  using ring_content_less [of "tq_read q" "tq_buffer q" "tq_write q"]
  by (auto simp: tx_inv_def tx_content_def)

lemma tx_ReadSize: "tx_inv q \<Longrightarrow> CDC_TransmitQueue_ReadSize q = int (length (tx_content q))"
  by (simp add: CDC_TransmitQueue_ReadSize_def tx_inv_def tx_content_def ring_content_dist)

lemma tx_WriteSize:
  "tx_inv q \<Longrightarrow> CDC_TransmitQueue_WriteSize q = 127 - int (length (tx_content q))"
  using ring_dist1 [of "tq_read q" 128 "tq_write q"]
  by (simp add: CDC_TransmitQueue_WriteSize_def tx_inv_def tx_content_def ring_content_dist)

lemma tx_Enqueue:
  assumes inv: "tx_inv q" and fits: "length xs + length (tx_content q) \<le> 127"
  shows "\<exists>q'. CDC_TransmitQueue_Enqueue q xs (length xs) = Some q' \<and> tx_inv q' \<and>
           tx_content q' = tx_content q @ xs \<and>
           tq_read q' = tq_read q \<and> tq_reserved q' = tq_reserved q"
proof -
  let ?w = "tq_write q" and ?b = "tq_buffer q" and ?k = "length xs"
  from inv have len: "length ?b = 128" and w: "?w < 128" and r: "tq_read q < 128"
    by (simp_all add: tx_inv_def)
  have w': "to_u16 (int (to_u32 (int ?w + int ?k) mod 128)) = ring_step 128 ?w ?k"
    using w fits ring_step_mod [of ?w 128 ?k] by (simp flip: of_nat_add)
  have toEnd: "to_u32 (int 128 - int ?w) = 128 - ?w"
    using w by (simp add: nat_diff_distrib')
  have step: "ring_step 128 ?w ?k < 128"
    using w fits by (simp add: ring_step_less)
  show ?thesis
  proof (cases "128 - ?w > ?k")
    case True
    then have "?w + ?k \<le> length ?b" using len by simp
    then obtain b where b: "mem_write ?b ?w xs = Some b"
      using mem_write_ok by blast
    have "CDC_TransmitQueue_Enqueue q xs ?k =
        Some (q\<lparr>tq_buffer := b, tq_write := ring_step 128 ?w ?k\<rparr>)"
      unfolding CDC_TransmitQueue_Enqueue_def Let_def tx_size toEnd w'
      using True len b by (simp add: memcpy_whole)
    moreover have "ring_content b (tq_read q) (ring_step 128 ?w ?k) = tx_content q @ xs"
      using ring_put_flat [of "tq_read q" ?b ?w xs b] True fits b len w r
      by (simp add: tx_content_def)
    ultimately show ?thesis
      using step r len mem_write_length [OF b] by (simp add: tx_inv_def tx_content_def)
  next
    case False
    obtain b1 where b1: "mem_write ?b ?w (take (128 - ?w) xs) = Some b1"
      using len w False mem_write_ok [of ?w "take (128 - ?w) xs" ?b] by auto
    have "0 + length (drop (128 - ?w) xs) \<le> length b1"
      using fits mem_write_length [OF b1] len by simp
    then obtain b where b: "mem_write b1 0 (drop (128 - ?w) xs) = Some b"
      using mem_write_ok by blast
    have "memcpy ?b ?w xs 0 (128 - ?w) = Some b1"
      using b1 False by (simp add: memcpy_def mem_read_def)
    moreover have "memcpy b1 0 xs (128 - ?w) (?k - (128 - ?w)) = Some b"
      using b False by (simp add: memcpy_def mem_read_def)
    ultimately have "CDC_TransmitQueue_Enqueue q xs ?k =
        Some (q\<lparr>tq_buffer := b, tq_write := ring_step 128 ?w ?k\<rparr>)"
      unfolding CDC_TransmitQueue_Enqueue_def Let_def tx_size toEnd w'
      using False by simp
    moreover have "ring_content b (tq_read q) (ring_step 128 ?w ?k) = tx_content q @ xs"
      using ring_put_split [of "tq_read q" ?b ?w xs b1 b] False fits b1 b len w r
      by (simp add: tx_content_def)
    ultimately show ?thesis
      using step r len mem_write_length [OF b1] mem_write_length [OF b]
      by (simp add: tx_inv_def tx_content_def)
  qed
qed

text \<open>The block handed to the USB core is a prefix of the content, it is empty
  only when the queue is, and committing it removes exactly these bytes.\<close>

lemma tx_ReadBlock:
  assumes inv: "tx_inv q"
  shows "\<exists>off sz q'. CDC_TransmitQueue_ReadBlock q = ((off, sz), q') \<and> tx_inv q' \<and>
           tx_content q' = tx_content q \<and> off = tq_read q \<and> tq_reserved q' = sz \<and>
           tq_buffer q' = tq_buffer q \<and> tq_read q' = tq_read q \<and> tq_write q' = tq_write q \<and>
           sz \<le> length (tx_content q) \<and> off + sz \<le> 128 \<and>
           (sz = 0 \<longleftrightarrow> tx_content q = [])"
  using inv
  by (auto simp: CDC_TransmitQueue_ReadBlock_def Let_def tx_inv_def tx_content_def
      ring_content_def simp flip: of_nat_diff)

lemma tx_block_bytes:
  assumes "tx_inv q" "n \<le> length (tx_content q)" "tq_read q + n \<le> 128"
  shows "mem_read (tq_buffer q) (tq_read q) n = Some (take n (tx_content q))"
  using assms ring_take_flat(1) [of "tq_read q" "tq_buffer q" "tq_write q" n]
  by (simp add: tx_inv_def tx_content_def mem_read_seg)

lemma tx_CommitRead:
  assumes inv: "tx_inv q" and res: "tq_reserved q \<le> length (tx_content q)"
    "tq_read q + tq_reserved q \<le> 128"
  shows "tx_inv (CDC_TransmitQueue_CommitRead q) \<and>
    tx_content (CDC_TransmitQueue_CommitRead q) = drop (tq_reserved q) (tx_content q)"
proof -
  have k: "tq_reserved q \<le> 128" using res by simp
  have "to_u16 (int ((tq_read q + tq_reserved q) mod 128)) = ring_step 128 (tq_read q) (tq_reserved q)"
    using inv k ring_step_mod [of "tq_read q" 128 "tq_reserved q"]
      ring_step_less [of "tq_read q" 128 "tq_reserved q"]
    by (simp add: tx_inv_def)
  then show ?thesis
    using inv res k ring_step_less [of "tq_read q" 128 "tq_reserved q"]
      ring_take_flat(2) [of "tq_read q" "tq_buffer q" "tq_write q" "tq_reserved q"]
    by (simp add: CDC_TransmitQueue_CommitRead_def tx_inv_def tx_content_def)
qed

text \<open>The queue satisfies the buffer contract: the writer is \<open>USBSerial::write\<close>,
  the reader the USB core, which takes a block and commits it when the transfer
  has completed.\<close>

definition tx_put :: "u8 list \<Rightarrow> tx_queue \<Rightarrow> tx_queue option" where
  "tx_put xs q = CDC_TransmitQueue_Enqueue q xs (length xs)"

definition tx_room :: "tx_queue \<Rightarrow> nat" where
  "tx_room q = nat (CDC_TransmitQueue_WriteSize q)"

definition tx_send :: "nat \<Rightarrow> tx_queue \<Rightarrow> (u8 list \<times> tx_queue) option" where
  "tx_send n q =
     (case CDC_TransmitQueue_ReadBlock q of
        ((off, sz), q') \<Rightarrow>
          do { bytes \<leftarrow> mem_read (tq_buffer q') off sz; Some (bytes, CDC_TransmitQueue_CommitRead q') })"

lemma tx_send_law:
  assumes inv: "tx_inv q"
  shows "\<exists>ys q'. tx_send n q = Some (ys, q') \<and> tx_inv q' \<and> tx_content q = ys @ tx_content q'"
proof -
  from tx_ReadBlock [OF inv] obtain off sz q1
    where q1: "CDC_TransmitQueue_ReadBlock q = ((off, sz), q1)" "tx_inv q1"
      "tx_content q1 = tx_content q" "off = tq_read q1" "tq_reserved q1 = sz"
      "sz \<le> length (tx_content q1)" "off + sz \<le> 128" by auto
  have "mem_read (tq_buffer q1) off sz = Some (take sz (tx_content q1))"
    using tx_block_bytes [of q1 sz] q1 by simp
  moreover have "tx_inv (CDC_TransmitQueue_CommitRead q1) \<and>
      tx_content (CDC_TransmitQueue_CommitRead q1) = drop sz (tx_content q1)"
    using tx_CommitRead [of q1] q1 by simp
  ultimately show ?thesis
    using q1 by (simp add: tx_send_def)
qed

interpretation tx: bounded_fifo tx_inv tx_content tx_room tx_put tx_send 127
proof unfold_locales
  fix q and xs :: "u8 list"
  assume "tx_inv q" "length xs \<le> tx_room q"
  then show "\<exists>q'. tx_put xs q = Some q' \<and> tx_inv q' \<and> tx_content q' = tx_content q @ xs"
    using tx_Enqueue [of q xs] tx_content_bound [of q]
    by (fastforce simp: tx_put_def tx_room_def tx_WriteSize)
next
  fix q n
  assume "tx_inv q"
  then show "\<exists>ys q'. tx_send n q = Some (ys, q') \<and> tx_inv q' \<and> tx_content q = ys @ tx_content q'"
    by (rule tx_send_law)
next
  fix q
  assume "tx_inv q"
  then show "length (tx_content q) + tx_room q = 127"
    using tx_content_bound [of q] by (simp add: tx_room_def tx_WriteSize)
qed

end
