(* ===== verification/Cdc_Rx_Queue.thy ===== *)
theory Cdc_Rx_Queue
  imports Cdc_Queue
begin

text \<open>
  The receive queue of \<^verbatim>\<open>cdc_queue.c\<close> is a FIFO although its writer, the USB
  interrupt, needs a flat block of a whole packet and so may leave the end of the
  array unused (\<open>length\<close> is where the readers turn round). \<open>rx_inv\<close> is the
  invariant of the positions, \<open>rx_content\<close> the bytes waiting, \<open>rx_block\<close> says that a
  packet at the reserved offset overwrites none of them, and \<open>rx_view\<close> how far a
  reader that loaded \<open>write\<close> and \<open>length\<close> some interrupts ago may go.
\<close>

definition rx_inv :: "rx_queue \<Rightarrow> bool" where
  "rx_inv q \<longleftrightarrow> length (rq_buffer q) = CDC_RECEIVE_QUEUE_BUFFER_SIZE \<and>
     rq_length q \<le> CDC_RECEIVE_QUEUE_BUFFER_SIZE \<and>
     CDC_RECEIVE_QUEUE_BUFFER_SIZE - CDC_QUEUE_MAX_PACKET_SIZE \<le> rq_length q \<and>
     (if rq_read q \<le> rq_write q then rq_write q < rq_length q else rq_read q \<le> rq_length q)"

definition rx_content :: "rx_queue \<Rightarrow> u8 list" where
  "rx_content q =
     (if rq_read q \<le> rq_write q then seg (rq_buffer q) (rq_read q) (rq_write q)
      else seg (rq_buffer q) (rq_read q) (rq_length q) @ seg (rq_buffer q) 0 (rq_write q))"

definition rx_block :: "rx_queue \<Rightarrow> nat \<Rightarrow> bool" where
  "rx_block q off \<longleftrightarrow> off = rq_write q \<and>
     (if rq_read q \<le> rq_write q
      then off + CDC_QUEUE_MAX_PACKET_SIZE \<le> CDC_RECEIVE_QUEUE_BUFFER_SIZE \<and>
           (off + CDC_QUEUE_MAX_PACKET_SIZE = CDC_RECEIVE_QUEUE_BUFFER_SIZE \<longrightarrow> 0 < rq_read q)
      else off + CDC_QUEUE_MAX_PACKET_SIZE < rq_read q)"

definition rx_view :: "nat \<Rightarrow> nat \<Rightarrow> rx_queue \<Rightarrow> bool" where
  "rx_view w l q \<longleftrightarrow>
     (if rq_read q \<le> w
      then w < l \<and> w < rq_length q \<and> (w \<le> rq_write q \<or> rq_write q < rq_read q)
      else w \<le> rq_write q \<and> rq_write q < rq_read q \<and> l = rq_length q)"

text \<open>What a reader does to the queue: it moves the read position forward,
  possibly round the end, and never past the write position.\<close>

definition rx_moved :: "rx_queue \<Rightarrow> rx_queue \<Rightarrow> bool" where
  "rx_moved q q' \<longleftrightarrow> rq_buffer q' = rq_buffer q \<and> rq_write q' = rq_write q \<and>
     rq_length q' = rq_length q \<and>
     (if rq_read q \<le> rq_write q then rq_read q \<le> rq_read q' \<and> rq_read q' \<le> rq_write q
      else rq_read q \<le> rq_read q' \<or> rq_read q' \<le> rq_write q)"

lemma rx_init:
  "length (rq_buffer q) = CDC_RECEIVE_QUEUE_BUFFER_SIZE \<Longrightarrow>
   rx_inv (CDC_ReceiveQueue_Init q) \<and> rx_content (CDC_ReceiveQueue_Init q) = []"
  by (simp add: rx_inv_def rx_content_def CDC_ReceiveQueue_Init_def)

lemma rx_ReadSize: "rx_inv q \<Longrightarrow> CDC_ReceiveQueue_ReadSize q = int (length (rx_content q))"
  by (auto simp: rx_inv_def rx_content_def CDC_ReceiveQueue_ReadSize_def Let_def of_nat_diff)

section \<open>The writer\<close>

lemma rx_ReserveBlock:
  assumes inv: "rx_inv q" and res: "CDC_ReceiveQueue_ReserveBlock q = (r, q')"
  shows "rx_inv q'" and "rx_content q' = rx_content q" and "rq_buffer q' = rq_buffer q"
    and "r = None \<Longrightarrow> q' = q" and "r = Some off \<Longrightarrow> rx_block q' off"
  using assms
  by (auto simp: CDC_ReceiveQueue_ReserveBlock_def Let_def rx_inv_def rx_content_def rx_block_def
      split: if_splits)

text \<open>A reservation is refused only when no packet would fit anywhere.\<close>

lemma rx_Reserve_refused:
  assumes "rx_inv q" and "CDC_ReceiveQueue_ReserveBlock q = (None, q')"
  shows "64 \<le> length (rx_content q)"
  using assms
  by (auto simp: CDC_ReceiveQueue_ReserveBlock_def Let_def rx_inv_def rx_content_def
      split: if_splits)

lemma rx_block_fits: "rx_block q off \<Longrightarrow> rx_inv q \<Longrightarrow> off + 64 \<le> length (rq_buffer q)"
  by (auto simp: rx_block_def rx_inv_def split: if_splits)

lemma rx_CommitBlock:
  assumes inv: "rx_inv q" and blk: "rx_block q off" and le: "length xs \<le> 64"
    and b: "mem_write (rq_buffer q) off xs = Some b"
  defines "q' \<equiv> CDC_ReceiveQueue_CommitBlock (q\<lparr>rq_buffer := b\<rparr>) (length xs)"
  shows "rx_inv q'" and "rx_content q' = rx_content q @ xs" and "rq_read q' = rq_read q"
proof -
  have off: "off = rq_write q" using blk by (simp add: rx_block_def)
  have len: "length b = 192" using mem_write_length [OF b] inv by (simp add: rx_inv_def)
  have same: "seg b (rq_write q) (rq_write q + length xs) = xs"
    using seg_mem_write_same [OF b] off by simp
  have before: "\<And>a e. e \<le> rq_write q \<Longrightarrow> seg b a e = seg (rq_buffer q) a e"
    using seg_mem_write_before [OF b] off by simp
  have after: "\<And>a e. rq_write q + length xs \<le> a \<Longrightarrow> seg b a e = seg (rq_buffer q) a e"
    using seg_mem_write_after [OF b] off by simp
  have app: "a \<le> rq_write q \<Longrightarrow> seg b a (rq_write q + length xs) = seg (rq_buffer q) a (rq_write q) @ xs" for a
    using seg_append [of a "rq_write q" "rq_write q + length xs" b] by (simp add: same before)
  have small: "to_u16 (int (rq_write q) + int (length xs)) = rq_write q + length xs"
    using rx_block_fits [OF blk inv] inv le off by (simp add: rx_inv_def flip: of_nat_add)
  have full: "seg b a (rq_write q + length xs) = seg b a 192" if "192 \<le> rq_write q + length xs" for a
  proof -
    have "rq_write q + length xs = 192"
      using that blk le inv by (auto simp: rx_block_def rx_inv_def split: if_splits)
    then show ?thesis by simp
  qed
  show "rx_inv q'" "rq_read q' = rq_read q"
    using inv blk le len
    by (auto simp: q'_def CDC_ReceiveQueue_CommitBlock_def Let_def small rx_inv_def rx_block_def
        split: if_splits)
  show "rx_content q' = rx_content q @ xs"
    using inv blk le len after app [of "rq_read q"] app [of 0] full [of "rq_read q"]
    by (auto simp: q'_def CDC_ReceiveQueue_CommitBlock_def Let_def small rx_inv_def rx_block_def
        rx_content_def split: if_splits)
qed

section \<open>The readers\<close>

lemma rx_moved_frame:
  assumes "rx_moved q q'"
  shows "rq_buffer q' = rq_buffer q" and "rq_write q' = rq_write q" and "rq_length q' = rq_length q"
  using assms by (simp_all add: rx_moved_def)

lemma rx_moved_block: "rx_moved q q' \<Longrightarrow> rx_inv q \<Longrightarrow> rx_block q off \<Longrightarrow> rx_block q' off"
  by (auto simp: rx_moved_def rx_block_def rx_inv_def split: if_splits)

lemma rx_view_load: "rx_inv q \<Longrightarrow> rx_view (rq_write q) (rq_length q) q"
  by (auto simp: rx_view_def rx_inv_def)

lemma rx_rewind:
  assumes "rx_inv q" and "rx_view w l q"
  shows "rx_inv (rq_rewind l q)" and "rx_content (rq_rewind l q) = rx_content q"
    and "rx_moved q (rq_rewind l q)" and "rx_view w l (rq_rewind l q)"
    and "rq_read (rq_rewind l q) < l"
  using assms
  by (auto simp: rq_rewind_def rx_inv_def rx_view_def rx_content_def rx_moved_def split: if_splits)

lemma rx_available:
  assumes "rx_inv q" and "rx_view w l q" and "rq_read q < l"
  shows "rq_available w l q = (if rq_read q \<le> w then w - rq_read q else l - rq_read q)"
  using assms
  by (auto simp: rq_available_def rx_inv_def rx_view_def simp flip: of_nat_diff split: if_splits)

text \<open>The step all readers make: \<open>n\<close> available bytes are copied from the read
  position, the position moves over them and is rewound at \<open>len\<close>.\<close>

lemma rx_advance:
  assumes inv: "rx_inv q" and view: "rx_view w l q" and rd: "rq_read q < l"
    and n: "n \<le> rq_available w l q"
  defines "q' \<equiv> rq_rewind l (q\<lparr>rq_read := rq_read q + n\<rparr>)"
  shows "mem_read (rq_buffer q) (rq_read q) n = Some (take n (rx_content q))"
    and "rx_inv q'" and "rx_content q' = drop n (rx_content q)" and "rx_moved q q'"
    and "n \<le> length (rx_content q)" and "rq_read q + n \<le> 192"
proof -
  note n' = n [unfolded rx_available [OF inv view rd]]
  show "rx_inv q'" "rx_moved q q'" "n \<le> length (rx_content q)" and le: "rq_read q + n \<le> 192"
    using inv view rd n'
    by (auto simp: q'_def rq_rewind_def rx_inv_def rx_view_def rx_moved_def rx_content_def
        split: if_splits)
  show "rx_content q' = drop n (rx_content q)"
    using inv view rd n'
    by (auto simp: q'_def rq_rewind_def rx_inv_def rx_view_def rx_content_def drop_seg
        split: if_splits)
  have "mem_read (rq_buffer q) (rq_read q) n = Some (seg (rq_buffer q) (rq_read q) (rq_read q + n))"
    using inv le by (simp add: mem_read_seg rx_inv_def)
  also have "seg (rq_buffer q) (rq_read q) (rq_read q + n) = take n (rx_content q)"
    using inv view rd n'
    by (auto simp: rx_inv_def rx_view_def rx_content_def take_seg min_def split: if_splits)
  finally show "mem_read (rq_buffer q) (rq_read q) n = Some (take n (rx_content q))" .
qed

lemma rx_moved_trans: "rx_moved q q1 \<Longrightarrow> rx_moved q1 q2 \<Longrightarrow> rx_moved q q2"
  by (auto simp: rx_moved_def split: if_splits)

lemma rx_moved_read [intro]:
  "(if rq_read q \<le> rq_write q then rq_read q \<le> r \<and> r \<le> rq_write q
    else rq_read q \<le> r \<or> r \<le> rq_write q) \<Longrightarrow> rx_moved q (q\<lparr>rq_read := r\<rparr>)"
  by (simp add: rx_moved_def)

lemma rx_rewind_eq:
  "rx_inv q \<Longrightarrow> rx_view w l q \<Longrightarrow>
   (if rq_read q = l then q\<lparr>rq_read := 0\<rparr> else q) = rq_rewind l q"
  by (auto simp: rq_rewind_def rx_view_def rx_inv_def split: if_splits)

definition rx_seen :: "nat \<Rightarrow> nat \<Rightarrow> rx_queue \<Rightarrow> nat" where
  "rx_seen w l q = rq_available w l (rq_rewind l q)"

lemma rx_seen_fresh:
  assumes "rx_inv q"
  shows "rx_seen (rq_write q) (rq_length q) q = 0 \<longleftrightarrow> rx_content q = []"
proof -
  note view = rx_view_load [OF assms]
  let ?q = "rq_rewind (rq_length q) q"
  have w: "rq_write ?q = rq_write q" "rq_length ?q = rq_length q"
    using rx_moved_frame rx_rewind(3) [OF assms view] by auto
  have "rx_seen (rq_write q) (rq_length q) q = 0 \<longleftrightarrow> rx_content ?q = []"
    using rx_available [OF rx_rewind(1,4,5) [OF assms view]] rx_rewind(1,5) [OF assms view] w
    by (auto simp: rx_seen_def rx_content_def rx_inv_def split: if_splits)
  then show ?thesis using rx_rewind(2) [OF assms view] by simp
qed

lemma rx_Dequeue_at:
  assumes inv: "rx_inv q" and view: "rx_view w l q"
  shows "\<exists>r q'. CDC_ReceiveQueue_Dequeue_at w l q = Some (r, q') \<and> rx_inv q' \<and> rx_moved q q' \<and>
    (if rx_seen w l q = 0 then r = -1 \<and> rx_content q' = rx_content q
     else rx_content q \<noteq> [] \<and> r = uint (hd (rx_content q)) \<and> rx_content q' = tl (rx_content q))"
proof -
  let ?q = "rq_rewind l q"
  note q1 = rx_rewind [OF inv view]
  have seen: "rx_seen w l q = (if rq_read ?q \<le> w then w - rq_read ?q else l - rq_read ?q)"
    using rx_available [OF q1(1,4,5)] by (simp add: rx_seen_def)
  show ?thesis
  proof (cases "rx_seen w l q = 0")
    case True
    then have "w = rq_read ?q" using seen q1(5) by (auto split: if_splits)
    then show ?thesis
      using True q1 by (simp add: CDC_ReceiveQueue_Dequeue_at_def rx_rewind_eq [OF inv view])
  next
    case False
    then have ne: "w \<noteq> rq_read ?q" and n: "1 \<le> rq_available w l ?q"
      using seen by (auto simp: rx_seen_def split: if_splits)
    note adv = rx_advance [OF q1(1,4,5) n]
    have "rx_content ?q \<noteq> []" using adv(5) by auto
    moreover have "mem_get (rq_buffer ?q) (rq_read ?q) = Some (hd (rx_content ?q))"
      using adv(1) \<open>rx_content ?q \<noteq> []\<close>
      by (auto simp: mem_read_def mem_get_def take_Suc hd_drop_conv_nth split: if_splits)
    moreover have "to_u16 (int (rq_read ?q) + 1) = rq_read ?q + 1"
      using adv(6) by (simp add: nat_add_distrib)
    ultimately show ?thesis
      using False ne q1(2) adv(2,3) rx_moved_trans [OF q1(3) adv(4)]
      by (simp add: CDC_ReceiveQueue_Dequeue_at_def rx_rewind_eq [OF inv view] Let_def drop_Suc)
  qed
qed

lemma rx_seen_less:
  assumes "rx_inv q" and "rx_view w l q"
  shows "rx_seen w l q \<le> length (rx_content q)"
proof -
  note q1 = rx_rewind [OF assms]
  have "rx_seen w l q \<le> length (rx_content (rq_rewind l q))"
    using rx_advance(5) [OF q1(1,4,5), of "rx_seen w l q"] by (simp add: rx_seen_def)
  then show ?thesis using q1(2) by simp
qed

lemma rx_Read_at:
  fixes n :: nat
  assumes inv: "rx_inv q" and view: "rx_view w l q"
  defines "k \<equiv> min n (rx_seen w l q)"
  shows "\<exists>q'. CDC_ReceiveQueue_Read_at w l q n = Some (take k (rx_content q), q') \<and>
    rx_inv q' \<and> rx_moved q q' \<and> rx_content q' = drop k (rx_content q)"
proof -
  let ?q = "rq_rewind l q"
  note q1 = rx_rewind [OF inv view]
  have k: "k \<le> rq_available w l ?q" by (simp add: k_def rx_seen_def)
  note adv = rx_advance [OF q1(1,4,5) k]
  have "to_u16 (int (rq_read ?q) + int k) = rq_read ?q + k"
    using adv(6) by (simp flip: of_nat_add)
  moreover have "(if rq_available w l ?q < n then rq_available w l ?q else n) = k"
    by (simp add: k_def rx_seen_def)
  ultimately show ?thesis
    using q1(2) adv(1-3) rx_moved_trans [OF q1(3) adv(4)]
    by (simp add: CDC_ReceiveQueue_Read_at_def Let_def)
qed

lemma read_until_loop:
  "start + i + k \<le> length buf \<Longrightarrow>
   read_until_loop buf start t k i out =
     (let xs = seg buf (start + i) (start + i + k); ys = takeWhile (\<lambda>c. c \<noteq> t) xs in
      if t \<in> set xs then Some (True, i + length ys, out @ ys) else Some (False, i + k, out @ xs))"
proof (induction k arbitrary: i out)
  case 0
  then show ?case by simp
next
  case (Suc k)
  have cons: "seg buf (start + i) (start + i + Suc k) =
      buf ! (start + i) # seg buf (start + Suc i) (start + Suc i + k)"
    using Suc.prems by (simp add: seg_Cons)
  show ?case
    using Suc.prems Suc.IH [of "Suc i" "out @ [buf ! (start + i)]"] unfolding cons
    by (simp add: Let_def)
qed

lemma rx_ReadUntil:
  assumes inv: "rx_inv q"
  shows "\<exists>found out q'. CDC_ReceiveQueue_ReadUntil q t n = Some ((found, length out, out), q') \<and>
    rx_inv q' \<and> rx_moved q q' \<and> t \<notin> set out \<and> length out \<le> n \<and>
    rx_content q = (if found then out @ [t] else out) @ rx_content q'"
proof -
  let ?w = "rq_write q" and ?l = "rq_length q"
  note view = rx_view_load [OF inv]
  define q1 where "q1 = rq_rewind ?l q"
  note rew = rx_rewind [OF inv view, folded q1_def]
  define k where "k = min n (rq_available ?w ?l q1)"
  have sz: "(if rq_available ?w ?l q1 < n then rq_available ?w ?l q1 else n) = k"
    by (simp add: k_def)
  have k: "k \<le> rq_available ?w ?l q1" and kn: "k \<le> n" by (simp_all add: k_def)
  note adv = rx_advance [OF rew(1,4,5) k]
  define xs where "xs = take k (rx_content q1)"
  define ys where "ys = takeWhile (\<lambda>c. c \<noteq> t) xs"
  have len: "length xs = k" using adv(5) by (simp add: xs_def)
  have fits: "rq_read q1 + k \<le> length (rq_buffer q1)"
    using adv(1) by (simp add: mem_read_def split: if_splits)
  have seg: "seg (rq_buffer q1) (rq_read q1) (rq_read q1 + k) = xs"
    using adv(1) mem_read_seg [OF fits] by (simp add: xs_def)
  have loop: "read_until_loop (rq_buffer q1) (rq_read q1) t k 0 [] =
      (if t \<in> set xs then Some (True, length ys, ys) else Some (False, k, xs))"
    using read_until_loop [of "rq_read q1" 0 k "rq_buffer q1" t "[]"] fits
    by (simp add: seg Let_def ys_def)
  show ?thesis
  proof (cases "t \<in> set xs")
    case True
    from takeWhile_split [OF this, folded ys_def] obtain zs where zs: "xs = ys @ t # zs" ..
    have le: "Suc (length ys) \<le> k" using arg_cong [OF zs, of length] len by simp
    then have m: "Suc (length ys) \<le> rq_available ?w ?l q1" using k by simp
    note advm = rx_advance [OF rew(1,4,5) m]
    have pos: "to_u16 (int (rq_read q1) + int (to_u16 (int (length ys) + 1))) =
        rq_read q1 + Suc (length ys)"
      using advm(6) by (simp add: nat_add_distrib)
    have "CDC_ReceiveQueue_ReadUntil q t n =
        Some ((True, length ys, ys), rq_rewind ?l (q1\<lparr>rq_read := rq_read q1 + Suc (length ys)\<rparr>))"
      unfolding CDC_ReceiveQueue_ReadUntil_def Let_def q1_def [symmetric] sz loop
      using True pos by simp
    moreover have "take (Suc (length ys)) (rx_content q1) = ys @ [t]"
    proof -
      have "take (Suc (length ys)) (rx_content q1) = take (Suc (length ys)) xs"
        using le by (simp add: xs_def min_absorb1)
      also have "\<dots> = ys @ [t]" by (simp add: zs)
      finally show ?thesis .
    qed
    then have "rx_content q = (ys @ [t]) @
        rx_content (rq_rewind ?l (q1\<lparr>rq_read := rq_read q1 + Suc (length ys)\<rparr>))"
      using advm(3) rew(2) by (metis append_take_drop_id)
    moreover have "t \<notin> set ys" by (auto simp: ys_def dest: set_takeWhileD)
    moreover have "length ys \<le> n" using le kn by simp
    ultimately show ?thesis
      using advm(2) rx_moved_trans [OF rew(3) advm(4)] by force
  next
    case False
    have "CDC_ReceiveQueue_ReadUntil q t n =
        Some ((False, k, xs), rq_rewind ?l (q1\<lparr>rq_read := rq_read q1 + k\<rparr>))"
      unfolding CDC_ReceiveQueue_ReadUntil_def Let_def q1_def [symmetric] sz loop
      using False adv(6) by (simp flip: of_nat_add)
    moreover have "rx_content q = xs @ rx_content (rq_rewind ?l (q1\<lparr>rq_read := rq_read q1 + k\<rparr>))"
      using adv(3) rew(2) by (simp add: xs_def)
    ultimately show ?thesis
      using False adv(2) rx_moved_trans [OF rew(3) adv(4)] len kn by force
  qed
qed

lemma rx_Peek:
  assumes inv: "rx_inv q"
  shows "\<exists>r q'. CDC_ReceiveQueue_Peek q = Some (r, q') \<and> rx_inv q' \<and> rx_moved q q' \<and>
    rx_content q' = rx_content q \<and>
    r = (case rx_content q of [] \<Rightarrow> -1 | c # cs \<Rightarrow> uint c)"
proof -
  note view = rx_view_load [OF inv]
  let ?q = "rq_rewind (rq_length q) q"
  note rew = rx_rewind [OF inv view]
  have frame: "rq_buffer ?q = rq_buffer q" "rq_write ?q = rq_write q" "rq_length ?q = rq_length q"
    using rx_moved_frame [OF rew(3)] by auto
  show ?thesis
  proof (cases "rq_write q = rq_read ?q")
    case True
    then have "rx_content ?q = []" using frame by (simp add: rx_content_def)
    then show ?thesis using True rew by (simp add: CDC_ReceiveQueue_Peek_def Let_def)
  next
    case False
    have "rq_read ?q < length (rq_buffer ?q) \<and>
        rx_content ?q = rq_buffer ?q ! rq_read ?q # tl (rx_content ?q)"
      using False rew(1,5) frame
      by (auto simp: rx_inv_def rx_content_def seg_Cons split: if_splits)
    then show ?thesis
      using False rew by (auto simp: CDC_ReceiveQueue_Peek_def Let_def split: list.splits)
  qed
qed

section \<open>The receive queue as a FIFO\<close>

text \<open>The writer of the contract is the arrival of a packet: a block is reserved, the
  USB core stores the packet there, the interrupt commits it. No packet is accepted
  while no block can be reserved.\<close>

definition rx_packet :: "u8 list \<Rightarrow> rx_queue \<Rightarrow> rx_queue option" where
  "rx_packet xs q =
     (case CDC_ReceiveQueue_ReserveBlock q of
        (None, q') \<Rightarrow> if xs = [] then Some q' else None
      | (Some off, q') \<Rightarrow>
          do { b \<leftarrow> mem_write (rq_buffer q') off xs;
               Some (CDC_ReceiveQueue_CommitBlock (q'\<lparr>rq_buffer := b\<rparr>) (length xs)) })"

definition rx_room :: "rx_queue \<Rightarrow> nat" where
  "rx_room q = (case CDC_ReceiveQueue_ReserveBlock q of
      (None, _) \<Rightarrow> 0 | (Some _, _) \<Rightarrow> CDC_QUEUE_MAX_PACKET_SIZE)"

definition rx_take :: "nat \<Rightarrow> rx_queue \<Rightarrow> (u8 list \<times> rx_queue) option" where
  "rx_take n q = CDC_ReceiveQueue_Read q n"

lemma rx_packet_law:
  assumes inv: "rx_inv q" and le: "length xs \<le> rx_room q"
  shows "\<exists>q'. rx_packet xs q = Some q' \<and> rx_inv q' \<and> rx_content q' = rx_content q @ xs"
proof (cases "CDC_ReceiveQueue_ReserveBlock q")
  case (Pair r q1)
  note res = rx_ReserveBlock [OF inv Pair]
  show ?thesis
  proof (cases r)
    case None
    then show ?thesis using Pair res le by (simp add: rx_packet_def rx_room_def)
  next
    case (Some off)
    then have blk: "rx_block q1 off" by (rule res(5))
    have small: "length xs \<le> 64" using le Pair Some by (simp add: rx_room_def)
    have "off + length xs \<le> length (rq_buffer q1)"
      using rx_block_fits [OF blk res(1)] small by simp
    then obtain b where b: "mem_write (rq_buffer q1) off xs = Some b"
      using mem_write_ok by blast
    show ?thesis
      using rx_CommitBlock [OF res(1) blk small b] Pair Some b res(2)
      by (simp add: rx_packet_def)
  qed
qed

interpretation rx: byte_fifo rx_inv rx_content rx_room rx_packet rx_take
proof unfold_locales
  fix q and xs :: "u8 list"
  assume "rx_inv q" "length xs \<le> rx_room q"
  then show "\<exists>q'. rx_packet xs q = Some q' \<and> rx_inv q' \<and> rx_content q' = rx_content q @ xs"
    by (rule rx_packet_law)
next
  fix q n
  assume inv: "rx_inv q"
  from rx_Read_at [OF inv rx_view_load [OF inv], of n]
  show "\<exists>ys q'. rx_take n q = Some (ys, q') \<and> rx_inv q' \<and> rx_content q = ys @ rx_content q'"
    by (auto simp: rx_take_def CDC_ReceiveQueue_Read_def)
qed

end
