(* ===== verification/Usb_Cdc.thy ===== *)
theory Usb_Cdc
  imports Cdc_Rx_Queue
begin

text \<open>
  The USB CDC device: the class driver \<^verbatim>\<open>cores/arduino/stm32/usb/cdc/usbd_cdc.c\<close> and
  the serial interface behind it, \<^verbatim>\<open>usbd_cdc_if.c\<close>. Both files define a static
  \<^verbatim>\<open>USBD_CDC_Init\<close> and \<^verbatim>\<open>USBD_CDC_DeInit\<close>; those of \<^verbatim>\<open>usbd_cdc_if.c\<close> carry the
  suffix \<open>_itf\<close>. The calls into the USB low level driver, the control pipe of the
  device library, the backup register and the reset are recorded in \<open>usb_log\<close>, in
  order, with the arguments the code gives them. The value of the millisecond tick
  is an argument of the functions that read it.
\<close>

section \<open>State\<close>

datatype usb_status = USBD_OK | USBD_BUSY | USBD_EMEM | USBD_FAIL

datatype usb_speed = USBD_SPEED_HIGH | USBD_SPEED_FULL | USBD_SPEED_LOW

datatype usb_ep_type = USBD_EP_TYPE_CTRL | USBD_EP_TYPE_ISOC | USBD_EP_TYPE_BULK | USBD_EP_TYPE_INTR

datatype usb_call =
    LL_OpenEP u8 usb_ep_type nat
  | LL_CloseEP u8
  | LL_Transmit u8 "nat option" nat
  | LL_PrepareReceive u8 "nat option" nat
  | CtlSendData "u8 list"
  | CtlPrepareRx nat
  | CtlError
  | BKUPWrite u32
  | SystemReset
  | Core_Init
  | Core_RegisterClass
  | Core_Start
  | Core_Stop
  | Core_DeInit

record setup_req =
  bmRequest :: u8
  bRequest :: u8
  wValue :: u16
  wIndex :: u16
  wLength :: u16

record line_coding =
  bitrate :: u32
  format :: u8
  paritytype :: u8
  datatype_bits :: u8

record cdc_handle =
  hc_data :: "u8 list"
  CmdOpCode :: u8
  CmdLength :: u8
  RxBuffer :: "nat option"
  TxBuffer :: "nat option"
  RxLength :: nat
  TxLength :: nat
  TxState :: nat
  RxState :: nat

record usb_cdc =
  TransmitQueue :: tx_queue
  ReceiveQueue :: rx_queue
  dtrState :: bool
  rtsState :: bool
  receivePended :: bool
  transmitStart :: nat
  CDC_initialized :: bool
  CDC_DTR_enabled :: bool
  linecoding :: line_coding
  pClassData :: "cdc_handle option"
  pUserData :: bool
  dev_state :: nat
  dev_speed :: usb_speed
  in_total_length :: "u8 \<Rightarrow> nat"
  in_maxpacket :: "u8 \<Rightarrow> nat"
  in_is_used :: "u8 \<Rightarrow> bool"
  out_is_used :: "u8 \<Rightarrow> bool"
  in_bInterval :: "u8 \<Rightarrow> nat"
  backup_reg :: u32
  usb_log :: "usb_call list"

definition log_call :: "usb_call \<Rightarrow> usb_cdc \<Rightarrow> usb_cdc" where
  "log_call c s = s\<lparr>usb_log := usb_log s @ [c]\<rparr>"

definition CDC_OUT_EP :: u8 where [consts_simp]: "CDC_OUT_EP = 0x01"
definition CDC_IN_EP :: u8 where [consts_simp]: "CDC_IN_EP = 0x82"
definition CDC_CMD_EP :: u8 where [consts_simp]: "CDC_CMD_EP = 0x83"
definition CDC_CMD_PACKET_SIZE :: nat where [consts_simp]: "CDC_CMD_PACKET_SIZE = 8"
definition CDC_DATA_HS_MAX_PACKET_SIZE :: nat where [consts_simp]: "CDC_DATA_HS_MAX_PACKET_SIZE = 512"
definition CDC_DATA_FS_MAX_PACKET_SIZE :: nat where [consts_simp]: "CDC_DATA_FS_MAX_PACKET_SIZE = 64"
definition CDC_BINTERVAL :: nat where [consts_simp]: "CDC_BINTERVAL = 0x10"
definition CDC_REQ_MAX_DATA_SIZE :: nat where [consts_simp]: "CDC_REQ_MAX_DATA_SIZE = 7"
definition USB_MAX_EP0_SIZE :: nat where [consts_simp]: "USB_MAX_EP0_SIZE = 64"
definition USBD_STATE_CONFIGURED :: nat where [consts_simp]: "USBD_STATE_CONFIGURED = 3"
definition USB_CDC_TRANSMIT_TIMEOUT :: nat where [consts_simp]: "USB_CDC_TRANSMIT_TIMEOUT = 3"
definition MAGIC_CDC_RATE :: u32 where [consts_simp]: "MAGIC_CDC_RATE = 1200"
definition MAGIC_CDC_FLAG :: u32 where [consts_simp]: "MAGIC_CDC_FLAG = 0xAF"
definition CLS_DTR :: u16 where [consts_simp]: "CLS_DTR = 1"
definition CLS_RTS :: u16 where [consts_simp]: "CLS_RTS = 2"

text \<open>The index of an endpoint in \<^verbatim>\<open>pdev->ep_in\<close>, \<^verbatim>\<open>CDC_IN_EP & 0xFU\<close>.\<close>

definition ep_index :: "u8 \<Rightarrow> u8" where
  "ep_index ep = ep AND 0xF"

text \<open>\<^verbatim>\<open>USBD_LL_OpenEP\<close> hands the packet size to \<^verbatim>\<open>HAL_PCD_EP_Open\<close>, which stores it as
  the endpoint's \<^verbatim>\<open>maxpacket\<close>.\<close>

definition USBD_LL_OpenEP :: "u8 \<Rightarrow> usb_ep_type \<Rightarrow> nat \<Rightarrow> usb_cdc \<Rightarrow> usb_cdc" where
  "USBD_LL_OpenEP ep t mps s =
     (let s1 = log_call (LL_OpenEP ep t mps) s in
      if ep AND 0x80 = 0x80 then s1\<lparr>in_maxpacket := (in_maxpacket s1)(ep_index ep := mps)\<rparr> else s1)"

section \<open>Buffers of the class (usbd\_cdc.c)\<close>

definition USBD_CDC_RegisterInterface :: "bool \<Rightarrow> usb_cdc \<Rightarrow> usb_status \<times> usb_cdc" where
  "USBD_CDC_RegisterInterface fops s =
     (if \<not> fops then (USBD_FAIL, s) else (USBD_OK, s\<lparr>pUserData := True\<rparr>))"

definition USBD_CDC_SetTxBuffer :: "nat option \<Rightarrow> nat \<Rightarrow> usb_cdc \<Rightarrow> usb_status \<times> usb_cdc" where
  "USBD_CDC_SetTxBuffer pbuff len s =
     (case pClassData s of
        None \<Rightarrow> (USBD_FAIL, s)
      | Some hcdc \<Rightarrow> (USBD_OK, s\<lparr>pClassData := Some (hcdc\<lparr>TxBuffer := pbuff, TxLength := len\<rparr>)\<rparr>))"

definition USBD_CDC_SetRxBuffer :: "nat option \<Rightarrow> usb_cdc \<Rightarrow> usb_status \<times> usb_cdc" where
  "USBD_CDC_SetRxBuffer pbuff s =
     (case pClassData s of
        None \<Rightarrow> (USBD_FAIL, s)
      | Some hcdc \<Rightarrow> (USBD_OK, s\<lparr>pClassData := Some (hcdc\<lparr>RxBuffer := pbuff\<rparr>)\<rparr>))"

definition USBD_CDC_TransmitPacket :: "usb_cdc \<Rightarrow> usb_status \<times> usb_cdc" where
  "USBD_CDC_TransmitPacket s =
     (case pClassData s of
        None \<Rightarrow> (USBD_FAIL, s)
      | Some hcdc \<Rightarrow>
          if TxState hcdc = 0
          then (USBD_OK,
                log_call (LL_Transmit CDC_IN_EP (TxBuffer hcdc) (TxLength hcdc))
                  (s\<lparr>pClassData := Some (hcdc\<lparr>TxState := 1\<rparr>),
                     in_total_length := (in_total_length s)(ep_index CDC_IN_EP := TxLength hcdc)\<rparr>))
          else (USBD_BUSY, s))"

definition prepare_out :: "cdc_handle \<Rightarrow> usb_cdc \<Rightarrow> usb_cdc" where
  "prepare_out hcdc s =
     (if dev_speed s = USBD_SPEED_HIGH
      then log_call (LL_PrepareReceive CDC_OUT_EP (RxBuffer hcdc) CDC_DATA_HS_MAX_PACKET_SIZE) s
      else log_call (LL_PrepareReceive CDC_OUT_EP (RxBuffer hcdc) CDC_DATA_FS_MAX_PACKET_SIZE) s)"

definition USBD_CDC_ReceivePacket :: "usb_cdc \<Rightarrow> usb_status \<times> usb_cdc" where
  "USBD_CDC_ReceivePacket s =
     (case pClassData s of
        None \<Rightarrow> (USBD_FAIL, s)
      | Some hcdc \<Rightarrow> (USBD_OK, prepare_out hcdc s))"

definition USBD_CDC_ClearBuffer :: "usb_cdc \<Rightarrow> usb_status \<times> usb_cdc" where
  "USBD_CDC_ClearBuffer s =
     (case pClassData s of
        None \<Rightarrow> (USBD_FAIL, s)
      | Some _ \<Rightarrow> (USBD_OK, log_call (LL_PrepareReceive CDC_OUT_EP None 0) s))"

section \<open>The serial interface (usbd\_cdc\_if.c)\<close>

text \<open>\<open>CDC_continue_transmit\<close> reads \<^verbatim>\<open>hcdc->TxState\<close> through the handle's class data:
  undefined while the device is not configured.\<close>

definition CDC_continue_transmit :: "nat \<Rightarrow> usb_cdc \<Rightarrow> usb_cdc option" where
  "CDC_continue_transmit tick s =
     do { hcdc \<leftarrow> pClassData s;
          Some (if TxState hcdc = 0 then
                  (case CDC_TransmitQueue_ReadBlock (TransmitQueue s) of
                     ((buffer, sz), q) \<Rightarrow>
                       (let s1 = s\<lparr>TransmitQueue := q\<rparr> in
                        if sz > 0 then
                          (let s2 = s1\<lparr>transmitStart := tick\<rparr>;
                               s3 = snd (USBD_CDC_SetTxBuffer (Some buffer) sz s2)
                           in snd (USBD_CDC_TransmitPacket s3))
                        else s1))
                else s) }"

definition CDC_resume_receive :: "usb_cdc \<Rightarrow> bool \<times> usb_cdc" where
  "CDC_resume_receive s =
     (if \<not> receivePended s then
        (case CDC_ReceiveQueue_ReserveBlock (ReceiveQueue s) of
           (block, q) \<Rightarrow>
             (let s1 = s\<lparr>ReceiveQueue := q\<rparr> in
              case block of
                Some off \<Rightarrow>
                  (let s2 = s1\<lparr>receivePended := True\<rparr>;
                       s3 = snd (USBD_CDC_SetRxBuffer (Some off) s2)
                   in (True, snd (USBD_CDC_ReceivePacket s3)))
              | None \<Rightarrow> (False, s1)))
      else (False, s))"

definition USBD_CDC_Init_itf :: "usb_cdc \<Rightarrow> usb_cdc" where
  "USBD_CDC_Init_itf s =
     (let s1 = s\<lparr>TransmitQueue := CDC_TransmitQueue_Init (TransmitQueue s),
                 ReceiveQueue := CDC_ReceiveQueue_Init (ReceiveQueue s),
                 receivePended := True\<rparr> in
      case CDC_ReceiveQueue_ReserveBlock (ReceiveQueue s1) of
        (block, q) \<Rightarrow> snd (USBD_CDC_SetRxBuffer block (s1\<lparr>ReceiveQueue := q\<rparr>)))"

definition USBD_CDC_DeInit_itf :: "usb_cdc \<Rightarrow> usb_cdc" where
  "USBD_CDC_DeInit_itf s = s"

text \<open>\<open>pbuf\<close> is the byte view of what the caller passes: the handle's data area or the
  eight bytes of the setup request. The result is its content afterwards.\<close>

definition bytes_to_u32 :: "u8 \<Rightarrow> u8 \<Rightarrow> u8 \<Rightarrow> u8 \<Rightarrow> u32" where
  "bytes_to_u32 b0 b1 b2 b3 =
     ucast b0 OR push_bit 8 (ucast b1) OR push_bit 16 (ucast b2) OR push_bit 24 (ucast b3)"

definition pbuf_wValue :: "u8 list \<Rightarrow> u16" where
  "pbuf_wValue pbuf = ucast (pbuf ! 2) OR push_bit 8 (ucast (pbuf ! 3))"

definition SET_LINE_CODING :: "u8 list \<Rightarrow> usb_cdc \<Rightarrow> usb_cdc" where
  "SET_LINE_CODING pbuf s =
     (let lc = \<lparr>bitrate = bytes_to_u32 (pbuf ! 0) (pbuf ! 1) (pbuf ! 2) (pbuf ! 3),
                format = pbuf ! 4, paritytype = pbuf ! 5, datatype_bits = pbuf ! 6\<rparr>;
          s1 = s\<lparr>linecoding := lc\<rparr>;
          regV = backup_reg s1 in
      if bitrate lc = MAGIC_CDC_RATE \<and> regV \<noteq> MAGIC_CDC_FLAG
      then log_call SystemReset
             (log_call (BKUPWrite MAGIC_CDC_FLAG) (s1\<lparr>backup_reg := MAGIC_CDC_FLAG\<rparr>))
      else s1)"

definition GET_LINE_CODING :: "usb_cdc \<Rightarrow> u8 list \<Rightarrow> u8 list" where
  "GET_LINE_CODING s pbuf =
     (let lc = linecoding s in
      pbuf[0 := ucast (bitrate lc), 1 := ucast (drop_bit 8 (bitrate lc)),
           2 := ucast (drop_bit 16 (bitrate lc)), 3 := ucast (drop_bit 24 (bitrate lc)),
           4 := format lc, 5 := paritytype lc, 6 := datatype_bits lc])"

definition SET_CONTROL_LINE_STATE :: "u8 list \<Rightarrow> usb_cdc \<Rightarrow> usb_cdc" where
  "SET_CONTROL_LINE_STATE pbuf s =
     (let dtr = (if CDC_DTR_enabled s then pbuf_wValue pbuf AND CLS_DTR \<noteq> 0 else True);
          s1 = s\<lparr>dtrState := dtr\<rparr>;
          s2 = (if dtr then s1\<lparr>transmitStart := 0\<rparr> else s1)
      in s2\<lparr>rtsState := (pbuf_wValue pbuf AND CLS_RTS \<noteq> 0)\<rparr>)"

definition USBD_CDC_Control :: "u8 \<Rightarrow> u8 list \<Rightarrow> usb_cdc \<Rightarrow> u8 list \<times> usb_cdc" where
  "USBD_CDC_Control cmd pbuf s =
     (if cmd = 0x20 then (pbuf, SET_LINE_CODING pbuf s)
      else if cmd = 0x21 then (GET_LINE_CODING s pbuf, s)
      else if cmd = 0x22 then (pbuf, SET_CONTROL_LINE_STATE pbuf s)
      else (pbuf, s))"

definition USBD_CDC_Receive :: "nat \<Rightarrow> usb_cdc \<Rightarrow> usb_cdc" where
  "USBD_CDC_Receive len s =
     (let s1 = s\<lparr>ReceiveQueue := CDC_ReceiveQueue_CommitBlock (ReceiveQueue s) (to_u16 (int len)),
                 receivePended := False\<rparr> in
      case CDC_resume_receive s1 of
        (resumed, s2) \<Rightarrow> if \<not> resumed then snd (USBD_CDC_ClearBuffer s2) else s2)"

definition USBD_CDC_TransmitCplt :: "nat \<Rightarrow> usb_cdc \<Rightarrow> usb_cdc option" where
  "USBD_CDC_TransmitCplt tick s =
     CDC_continue_transmit tick
       (s\<lparr>transmitStart := 0, TransmitQueue := CDC_TransmitQueue_CommitRead (TransmitQueue s)\<rparr>)"

text \<open>The status of the two library calls is an argument of \<open>CDC_init\<close>; the interface
  registration is the one modelled above.\<close>

definition CDC_init :: "usb_status \<Rightarrow> usb_status \<Rightarrow> usb_cdc \<Rightarrow> usb_cdc" where
  "CDC_init init_status class_status s =
     (if \<not> CDC_initialized s then
        (let s1 = log_call Core_Init s in
         if init_status = USBD_OK then
           (let s2 = log_call Core_RegisterClass s1 in
            if class_status = USBD_OK then
              (case USBD_CDC_RegisterInterface True s2 of
                 (st, s3) \<Rightarrow>
                   if st = USBD_OK then (log_call Core_Start s3)\<lparr>CDC_initialized := True\<rparr> else s3)
            else s2)
         else s1)
      else s)"

definition CDC_deInit :: "usb_cdc \<Rightarrow> usb_cdc" where
  "CDC_deInit s =
     (if CDC_initialized s
      then (log_call Core_DeInit (USBD_CDC_DeInit_itf (log_call Core_Stop s)))\<lparr>CDC_initialized := False\<rparr>
      else s)"

definition CDC_connected :: "nat \<Rightarrow> usb_cdc \<Rightarrow> bool" where
  "CDC_connected tick s =
     (let transmitTime = transmitStart s;
          transmitTime' = (if transmitTime \<noteq> 0 then to_u32 (int tick - int transmitTime) else transmitTime)
      in dev_state s = USBD_STATE_CONFIGURED \<and> transmitTime' < USB_CDC_TRANSMIT_TIMEOUT \<and> dtrState s)"

definition CDC_enableDTR :: "bool \<Rightarrow> usb_cdc \<Rightarrow> usb_cdc" where
  "CDC_enableDTR enable s = s\<lparr>CDC_DTR_enabled := enable\<rparr>"

section \<open>What the recording calls leave alone\<close>

lemma log_call_simps [simp]:
  "usb_log (log_call c s) = usb_log s @ [c]"
  "TransmitQueue (log_call c s) = TransmitQueue s" "ReceiveQueue (log_call c s) = ReceiveQueue s"
  "receivePended (log_call c s) = receivePended s" "pClassData (log_call c s) = pClassData s"
  "in_total_length (log_call c s) = in_total_length s" "in_maxpacket (log_call c s) = in_maxpacket s"
  "backup_reg (log_call c s) = backup_reg s" "linecoding (log_call c s) = linecoding s"
  "dev_speed (log_call c s) = dev_speed s" "dev_state (log_call c s) = dev_state s"
  "dtrState (log_call c s) = dtrState s" "pUserData (log_call c s) = pUserData s"
  "transmitStart (log_call c s) = transmitStart s"
  by (simp_all add: log_call_def)

lemma open_ep_simps [simp]:
  "pClassData (USBD_LL_OpenEP ep t n s) = pClassData s"
  "TransmitQueue (USBD_LL_OpenEP ep t n s) = TransmitQueue s"
  "ReceiveQueue (USBD_LL_OpenEP ep t n s) = ReceiveQueue s"
  "dev_speed (USBD_LL_OpenEP ep t n s) = dev_speed s"
  "in_maxpacket (USBD_LL_OpenEP ep t n s) =
     (if ep AND 0x80 = 0x80 then (in_maxpacket s)(ep_index ep := n) else in_maxpacket s)"
  by (simp_all add: USBD_LL_OpenEP_def Let_def)

lemma prepare_out_simps [simp]:
  "TransmitQueue (prepare_out h s) = TransmitQueue s" "ReceiveQueue (prepare_out h s) = ReceiveQueue s"
  "in_maxpacket (prepare_out h s) = in_maxpacket s" "pClassData (prepare_out h s) = pClassData s"
  "receivePended (prepare_out h s) = receivePended s" "in_total_length (prepare_out h s) = in_total_length s"
  by (simp_all add: prepare_out_def)

end
