(* ===== verification/Usb_Cdc_Class.thy ===== *)
theory Usb_Cdc_Class
  imports Usb_Cdc
begin

text \<open>
  The class driver's callbacks, \<^verbatim>\<open>USBD_CDC_Init\<close> to \<^verbatim>\<open>USBD_CDC_EP0_RxReady\<close> of
  \<^verbatim>\<open>cores/arduino/stm32/usb/cdc/usbd_cdc.c\<close>, and what they keep: the invariant of
  the two queues and the transfers in flight, and the byte streams in both
  directions over any sequence of writes, reads and USB events.
\<close>

section \<open>Callbacks of the device library\<close>

text \<open>\<open>alloc\<close> is what \<^verbatim>\<open>USBD_malloc\<close> returns, with the content it happens to have.\<close>

definition open_data_eps :: "nat \<Rightarrow> usb_cdc \<Rightarrow> usb_cdc" where
  "open_data_eps mps s =
     (let s1 = USBD_LL_OpenEP CDC_IN_EP USBD_EP_TYPE_BULK mps s;
          s2 = s1\<lparr>in_is_used := (in_is_used s1)(ep_index CDC_IN_EP := True)\<rparr>;
          s3 = USBD_LL_OpenEP CDC_OUT_EP USBD_EP_TYPE_BULK mps s2;
          s4 = s3\<lparr>out_is_used := (out_is_used s3)(ep_index CDC_OUT_EP := True)\<rparr>
      in s4\<lparr>in_bInterval := (in_bInterval s4)(ep_index CDC_CMD_EP := CDC_BINTERVAL)\<rparr>)"

definition USBD_CDC_Init :: "cdc_handle option \<Rightarrow> usb_cdc \<Rightarrow> usb_status \<times> usb_cdc" where
  "USBD_CDC_Init alloc s =
     (case alloc of
        None \<Rightarrow> (USBD_EMEM, s\<lparr>pClassData := None\<rparr>)
      | Some h \<Rightarrow>
          (let s1 = s\<lparr>pClassData := Some h\<rparr>;
               s2 = (if dev_speed s1 = USBD_SPEED_HIGH
                     then open_data_eps CDC_DATA_HS_MAX_PACKET_SIZE s1
                     else open_data_eps CDC_DATA_FS_MAX_PACKET_SIZE s1);
               s3 = USBD_LL_OpenEP CDC_CMD_EP USBD_EP_TYPE_INTR CDC_CMD_PACKET_SIZE s2;
               s4 = s3\<lparr>in_is_used := (in_is_used s3)(ep_index CDC_CMD_EP := True)\<rparr>;
               s5 = USBD_CDC_Init_itf s4
           in case pClassData s5 of
                None \<Rightarrow> (USBD_OK, s5)
              | Some h5 \<Rightarrow>
                  (let h6 = h5\<lparr>TxState := 0, RxState := 0\<rparr>
                   in (USBD_OK, prepare_out h6 (s5\<lparr>pClassData := Some h6\<rparr>)))))"

definition USBD_CDC_DeInit :: "usb_cdc \<Rightarrow> usb_status \<times> usb_cdc" where
  "USBD_CDC_DeInit s =
     (let s1 = log_call (LL_CloseEP CDC_IN_EP) s;
          s2 = s1\<lparr>in_is_used := (in_is_used s1)(ep_index CDC_IN_EP := False)\<rparr>;
          s3 = log_call (LL_CloseEP CDC_OUT_EP) s2;
          s4 = s3\<lparr>out_is_used := (out_is_used s3)(ep_index CDC_OUT_EP := False)\<rparr>;
          s5 = log_call (LL_CloseEP CDC_CMD_EP) s4;
          s6 = s5\<lparr>in_is_used := (in_is_used s5)(ep_index CDC_CMD_EP := False),
                  in_bInterval := (in_bInterval s5)(ep_index CDC_CMD_EP := 0)\<rparr>;
          s7 = (if pClassData s6 \<noteq> None then (USBD_CDC_DeInit_itf s6)\<lparr>pClassData := None\<rparr> else s6)
      in (USBD_OK, s7))"

text \<open>The eight bytes of a setup request, as \<^verbatim>\<open>(uint8_t *)req\<close> sees them.\<close>

definition req_bytes :: "setup_req \<Rightarrow> u8 list" where
  "req_bytes req =
     [bmRequest req, bRequest req, ucast (wValue req), ucast (drop_bit 8 (wValue req)),
      ucast (wIndex req), ucast (drop_bit 8 (wIndex req)),
      ucast (wLength req), ucast (drop_bit 8 (wLength req))]"

definition setup_class :: "setup_req \<Rightarrow> cdc_handle \<Rightarrow> usb_cdc \<Rightarrow> usb_cdc" where
  "setup_class req hcdc s =
     (if wLength req \<noteq> 0 then
        if bmRequest req AND 0x80 \<noteq> 0 then
          (case USBD_CDC_Control (bRequest req) (hc_data hcdc) s of
             (data', s1) \<Rightarrow>
               log_call (CtlSendData (take (min CDC_REQ_MAX_DATA_SIZE (unat (wLength req))) data'))
                 (s1\<lparr>pClassData := Some (hcdc\<lparr>hc_data := data'\<rparr>)\<rparr>))
        else
          (let hcdc' = hcdc\<lparr>CmdOpCode := bRequest req,
                            CmdLength := of_nat (min (unat (wLength req)) USB_MAX_EP0_SIZE)\<rparr>
           in log_call (CtlPrepareRx (unat (CmdLength hcdc'))) (s\<lparr>pClassData := Some hcdc'\<rparr>))
      else snd (USBD_CDC_Control (bRequest req) (req_bytes req) s))"

definition setup_standard :: "setup_req \<Rightarrow> usb_cdc \<Rightarrow> usb_status \<times> usb_cdc" where
  "setup_standard req s =
     (if bRequest req = 0x00 then
        if dev_state s = USBD_STATE_CONFIGURED then (USBD_OK, log_call (CtlSendData [0, 0]) s)
        else (USBD_FAIL, log_call CtlError s)
      else if bRequest req = 0x0A then
        if dev_state s = USBD_STATE_CONFIGURED then (USBD_OK, log_call (CtlSendData [0]) s)
        else (USBD_FAIL, log_call CtlError s)
      else if bRequest req = 0x0B then
        if dev_state s \<noteq> USBD_STATE_CONFIGURED then (USBD_FAIL, log_call CtlError s)
        else (USBD_OK, s)
      else if bRequest req = 0x01 then (USBD_OK, s)
      else (USBD_FAIL, log_call CtlError s))"

definition USBD_CDC_Setup :: "setup_req \<Rightarrow> usb_cdc \<Rightarrow> usb_status \<times> usb_cdc" where
  "USBD_CDC_Setup req s =
     (case pClassData s of
        None \<Rightarrow> (USBD_FAIL, s)
      | Some hcdc \<Rightarrow>
          if bmRequest req AND 0x60 = 0x20 then (USBD_OK, setup_class req hcdc s)
          else if bmRequest req AND 0x60 = 0x00 then setup_standard req s
          else (USBD_FAIL, log_call CtlError s))"

text \<open>\<open>maxpacket\<close> of an endpoint that was never opened is 0, and \<^verbatim>\<open>%\<close> by it is
  undefined.\<close>

definition USBD_CDC_DataIn :: "u8 \<Rightarrow> nat \<Rightarrow> usb_cdc \<Rightarrow> (usb_status \<times> usb_cdc) option" where
  "USBD_CDC_DataIn epnum tick s =
     (case pClassData s of
        None \<Rightarrow> Some (USBD_FAIL, s)
      | Some hcdc \<Rightarrow>
          if in_total_length s epnum > 0 \<and> in_maxpacket s epnum = 0 then None
          else if in_total_length s epnum > 0 \<and> in_total_length s epnum mod in_maxpacket s epnum = 0
          then Some (USBD_OK,
                 log_call (LL_Transmit epnum None 0)
                   (s\<lparr>in_total_length := (in_total_length s)(epnum := 0)\<rparr>))
          else do { s' \<leftarrow> USBD_CDC_TransmitCplt tick (s\<lparr>pClassData := Some (hcdc\<lparr>TxState := 0\<rparr>)\<rparr>);
                    Some (USBD_OK, s') })"

text \<open>\<open>rxsize\<close> is what \<^verbatim>\<open>USBD_LL_GetRxDataSize\<close> returns.\<close>

definition USBD_CDC_DataOut :: "nat \<Rightarrow> usb_cdc \<Rightarrow> usb_status \<times> usb_cdc" where
  "USBD_CDC_DataOut rxsize s =
     (case pClassData s of
        None \<Rightarrow> (USBD_FAIL, s)
      | Some hcdc \<Rightarrow>
          (USBD_OK, USBD_CDC_Receive rxsize (s\<lparr>pClassData := Some (hcdc\<lparr>RxLength := rxsize\<rparr>)\<rparr>)))"

definition USBD_CDC_EP0_RxReady :: "usb_cdc \<Rightarrow> usb_status \<times> usb_cdc" where
  "USBD_CDC_EP0_RxReady s =
     (case pClassData s of
        None \<Rightarrow> (USBD_FAIL, s)
      | Some hcdc \<Rightarrow>
          if pUserData s \<and> CmdOpCode hcdc \<noteq> 0xFF then
            (case USBD_CDC_Control (CmdOpCode hcdc) (hc_data hcdc) s of
               (data', s1) \<Rightarrow>
                 (USBD_OK, s1\<lparr>pClassData := Some (hcdc\<lparr>hc_data := data', CmdOpCode := 0xFF\<rparr>)\<rparr>))
          else (USBD_OK, s))"

section \<open>Control requests\<close>

lemma bytes_to_u32_word:
  "bytes_to_u32 (ucast w) (ucast (drop_bit 8 w)) (ucast (drop_bit 16 w)) (ucast (drop_bit 24 w)) = w"
  for w :: u32
proof (rule bit_word_eqI)
  fix n
  assume "n < LENGTH(32)"
  then have n: "n < 32" by simp
  show "bit (bytes_to_u32 (ucast w) (ucast (drop_bit 8 w)) (ucast (drop_bit 16 w))
      (ucast (drop_bit 24 w))) n = bit w n"
    using n unfolding bytes_to_u32_def
    by (cases "n < 8"; cases "n < 16"; cases "n < 24") (auto simp: bit_simps)
qed

lemma bytes_of_u32:
  "ucast (bytes_to_u32 b0 b1 b2 b3) = b0" "ucast (drop_bit 8 (bytes_to_u32 b0 b1 b2 b3)) = b1"
  "ucast (drop_bit 16 (bytes_to_u32 b0 b1 b2 b3)) = b2"
  "ucast (drop_bit 24 (bytes_to_u32 b0 b1 b2 b3)) = b3"
  unfolding bytes_to_u32_def
  by (rule bit_word_eqI; auto simp: bit_simps dest: bit_imp_le_length)+

end
