(* ===== verification/Cdc_System.thy ===== *)
theory Cdc_System
  imports Usb_Cdc_Class
begin

text \<open>
  The serial port as a whole: the writer \<^verbatim>\<open>USBSerial::write\<close>, the reader
  \<^verbatim>\<open>USBSerial::readBytes\<close>, and the USB events. An event is one call of the
  class driver from the USB interrupt, together with what the core did before it
  raised the event: it has sent the bytes the last \<^verbatim>\<open>USBD_LL_Transmit\<close> named, or
  stored a packet where the last reception was armed. The invariant says which
  block is in flight and where a packet may be stored; the stream theorem says
  that the host sees exactly what was written and the sketch reads exactly what
  the host sent, in order, with a zero length packet in between or not.
\<close>

section \<open>Events\<close>

text \<open>The last transfer started on the data IN endpoint, as the calls record it.\<close>

definition in_transfer :: "(nat option \<times> nat) option \<Rightarrow> usb_call \<Rightarrow> (nat option \<times> nat) option" where
  "in_transfer t c =
     (case c of LL_Transmit ep b n \<Rightarrow> if ep_index ep = ep_index CDC_IN_EP then Some (b, n) else t
      | _ \<Rightarrow> t)"

definition last_in :: "usb_call list \<Rightarrow> (nat option \<times> nat) option" where
  "last_in cs = foldl in_transfer None cs"

text \<open>The buffer and the size the data OUT endpoint was last armed for.\<close>

definition out_armed :: "(nat option \<times> nat) option \<Rightarrow> usb_call \<Rightarrow> (nat option \<times> nat) option" where
  "out_armed t c =
     (case c of LL_PrepareReceive ep b n \<Rightarrow> if ep = CDC_OUT_EP then Some (b, n) else t
      | _ \<Rightarrow> t)"

definition last_out :: "usb_call list \<Rightarrow> (nat option \<times> nat) option" where
  "last_out cs = foldl out_armed None cs"

definition bytes_sent :: "usb_cdc \<Rightarrow> u8 list option" where
  "bytes_sent s =
     (case last_in (usb_log s) of
        Some (Some off, n) \<Rightarrow> mem_read (tq_buffer (TransmitQueue s)) off n
      | _ \<Rightarrow> Some [])"

text \<open>One turn of the loop of \<^verbatim>\<open>USBSerial::write\<close> and of \<^verbatim>\<open>USBSerial::readBytes\<close>.\<close>

definition write_portion :: "u8 list \<Rightarrow> nat \<Rightarrow> usb_cdc \<Rightarrow> (u8 list \<times> usb_cdc) option" where
  "write_portion xs tick s =
     (let portion = take (nat (CDC_TransmitQueue_WriteSize (TransmitQueue s))) xs in
      if portion \<noteq> [] then
        do { q \<leftarrow> CDC_TransmitQueue_Enqueue (TransmitQueue s) portion (length portion);
             s' \<leftarrow> CDC_continue_transmit tick (s\<lparr>TransmitQueue := q\<rparr>);
             Some (portion, s') }
      else Some ([], s))"

definition read_portion :: "nat \<Rightarrow> usb_cdc \<Rightarrow> (u8 list \<times> usb_cdc) option" where
  "read_portion n s =
     do { (bytes, q) \<leftarrow> CDC_ReceiveQueue_Read (ReceiveQueue s) n;
          Some (bytes, snd (CDC_resume_receive (s\<lparr>ReceiveQueue := q\<rparr>))) }"

datatype cdc_event =
    Ev_Write "u8 list" nat
  | Ev_Sent nat
  | Ev_Packet "u8 list"
  | Ev_Read nat
  | Ev_Setup setup_req
  | Ev_Ep0 "u8 list"

record cdc_io =
  io_written :: "u8 list"
  io_sent :: "u8 list"
  io_arrived :: "u8 list"
  io_read :: "u8 list"

definition no_io :: cdc_io where
  "no_io = \<lparr>io_written = [], io_sent = [], io_arrived = [], io_read = []\<rparr>"

text \<open>An event that the state does not allow (a completion with no transfer
  pending, a packet with no reception armed) does not happen.\<close>

definition packet_arrives :: "u8 list \<Rightarrow> usb_cdc \<Rightarrow> (cdc_io \<times> usb_cdc) option" where
  "packet_arrives xs s =
     (case pClassData s of
        Some h \<Rightarrow>
          (case RxBuffer h of
             Some off \<Rightarrow>
               if receivePended s \<and> length xs \<le> CDC_DATA_FS_MAX_PACKET_SIZE then
                 do { b \<leftarrow> mem_write (rq_buffer (ReceiveQueue s)) off xs;
                      Some (no_io\<lparr>io_arrived := xs\<rparr>,
                        snd (USBD_CDC_DataOut (length xs)
                          (s\<lparr>ReceiveQueue := (ReceiveQueue s)\<lparr>rq_buffer := b\<rparr>\<rparr>))) }
               else Some (no_io, s)
           | None \<Rightarrow> Some (no_io, s))
      | None \<Rightarrow> Some (no_io, s))"

definition transfer_done :: "nat \<Rightarrow> usb_cdc \<Rightarrow> (cdc_io \<times> usb_cdc) option" where
  "transfer_done tick s =
     (case pClassData s of
        Some h \<Rightarrow>
          if TxState h = 1 then
            do { bytes \<leftarrow> bytes_sent s;
                 (st, s') \<leftarrow> USBD_CDC_DataIn (ep_index CDC_IN_EP) tick s;
                 Some (no_io\<lparr>io_sent := bytes\<rparr>, s') }
          else Some (no_io, s)
      | None \<Rightarrow> Some (no_io, s))"

definition ep0_data :: "u8 list \<Rightarrow> usb_cdc \<Rightarrow> usb_cdc" where
  "ep0_data xs s =
     (case pClassData s of
        Some h \<Rightarrow>
          (case mem_write (hc_data h) 0 (take (unat (CmdLength h)) xs) of
             Some d \<Rightarrow> snd (USBD_CDC_EP0_RxReady (s\<lparr>pClassData := Some (h\<lparr>hc_data := d\<rparr>)\<rparr>))
           | None \<Rightarrow> s)
      | None \<Rightarrow> s)"

definition cdc_step :: "cdc_event \<Rightarrow> usb_cdc \<Rightarrow> (cdc_io \<times> usb_cdc) option" where
  "cdc_step ev s =
     (case ev of
        Ev_Write xs tick \<Rightarrow> do { (w, s') \<leftarrow> write_portion xs tick s; Some (no_io\<lparr>io_written := w\<rparr>, s') }
      | Ev_Sent tick \<Rightarrow> transfer_done tick s
      | Ev_Packet xs \<Rightarrow> packet_arrives xs s
      | Ev_Read n \<Rightarrow> do { (r, s') \<leftarrow> read_portion n s; Some (no_io\<lparr>io_read := r\<rparr>, s') }
      | Ev_Setup req \<Rightarrow> Some (no_io, snd (USBD_CDC_Setup req s))
      | Ev_Ep0 xs \<Rightarrow> Some (no_io, ep0_data xs s))"

definition io_append :: "cdc_io \<Rightarrow> cdc_io \<Rightarrow> cdc_io" where
  "io_append a b =
     \<lparr>io_written = io_written a @ io_written b, io_sent = io_sent a @ io_sent b,
      io_arrived = io_arrived a @ io_arrived b, io_read = io_read a @ io_read b\<rparr>"

fun cdc_run :: "cdc_event list \<Rightarrow> usb_cdc \<Rightarrow> (cdc_io \<times> usb_cdc) option" where
  "cdc_run [] s = Some (no_io, s)"
| "cdc_run (ev # evs) s =
     do { (io, s') \<leftarrow> cdc_step ev s;
          (io', s'') \<leftarrow> cdc_run evs s';
          Some (io_append io io', s'') }"

section \<open>The invariant\<close>

definition tx_flight :: "usb_cdc \<Rightarrow> nat \<Rightarrow> bool" where
  "tx_flight s txstate \<longleftrightarrow>
     (let q = TransmitQueue s; n = tq_reserved q; ep = ep_index CDC_IN_EP in
      if txstate = 0 then tx_content q = []
      else txstate = 1 \<and> 0 < n \<and> n \<le> length (tx_content q) \<and> tq_read q + n \<le> 128 \<and>
        (last_in (usb_log s) = Some (Some (tq_read q), n) \<and> in_total_length s ep = n \<or>
         last_in (usb_log s) = Some (None, 0) \<and> in_total_length s ep = 0))"

definition rx_armed :: "usb_cdc \<Rightarrow> nat option \<Rightarrow> bool" where
  "rx_armed s rxbuffer \<longleftrightarrow>
     (receivePended s \<longrightarrow> (\<exists>off. rxbuffer = Some off \<and> rx_block (ReceiveQueue s) off \<and>
        last_out (usb_log s) = Some (Some off, CDC_DATA_FS_MAX_PACKET_SIZE)))"

definition cdc_inv :: "usb_cdc \<Rightarrow> bool" where
  "cdc_inv s \<longleftrightarrow> tx_inv (TransmitQueue s) \<and> rx_inv (ReceiveQueue s) \<and>
     0 < in_maxpacket s (ep_index CDC_IN_EP) \<and> dev_speed s = USBD_SPEED_FULL \<and>
     (case pClassData s of None \<Rightarrow> False | Some h \<Rightarrow> tx_flight s (TxState h) \<and> rx_armed s (RxBuffer h))"

text \<open>The bytes written and not yet seen by the host: a block that is followed by a
  zero length packet has been seen already.\<close>

definition unsent :: "usb_cdc \<Rightarrow> u8 list" where
  "unsent s =
     (if tx_content (TransmitQueue s) \<noteq> [] \<and> in_total_length s (ep_index CDC_IN_EP) = 0
      then drop (tq_reserved (TransmitQueue s)) (tx_content (TransmitQueue s))
      else tx_content (TransmitQueue s))"

text \<open>The number of completions a queue still needs at most.\<close>

definition tx_todo :: "usb_cdc \<Rightarrow> nat" where
  "tx_todo s =
     (if tx_content (TransmitQueue s) = [] then 0
      else 2 * length (tx_content (TransmitQueue s)) -
           (if in_total_length s (ep_index CDC_IN_EP) = 0 then 1 else 0))"

lemma in_ep [simp]: "ep_index CDC_IN_EP = 2"
  by (simp add: ep_index_def consts_simp)

lemma in_ep_index [simp]: "ep_index 2 = 2"
  by (simp add: ep_index_def)

lemma last_in_append [simp]: "last_in (cs @ ds) = foldl in_transfer (last_in cs) ds"
  by (simp add: last_in_def)

lemma in_transfer_simps [simp]:
  "in_transfer t (LL_Transmit ep b n) = (if ep_index ep = 2 then Some (b, n) else t)"
  "in_transfer t (LL_PrepareReceive ep b n) = t"
  "in_transfer t (CtlSendData d) = t"
  "in_transfer t (CtlPrepareRx n) = t"
  "in_transfer t CtlError = t"
  "in_transfer t (BKUPWrite w) = t"
  "in_transfer t SystemReset = t"
  by (simp_all add: in_transfer_def)

lemma last_out_append [simp]: "last_out (cs @ ds) = foldl out_armed (last_out cs) ds"
  by (simp add: last_out_def)

lemma out_armed_simps [simp]:
  "out_armed t (LL_PrepareReceive ep b n) = (if ep = CDC_OUT_EP then Some (b, n) else t)"
  "out_armed t (LL_Transmit ep b n) = t"
  "out_armed t (CtlSendData d) = t"
  "out_armed t (CtlPrepareRx n) = t"
  "out_armed t CtlError = t"
  "out_armed t (BKUPWrite w) = t"
  "out_armed t SystemReset = t"
  by (simp_all add: out_armed_def)

text \<open>\<open>tx_same\<close> and \<open>rx_same\<close>: an operation that leaves one direction alone.\<close>

definition tx_same :: "usb_cdc \<Rightarrow> usb_cdc \<Rightarrow> bool" where
  "tx_same s s' \<longleftrightarrow> TransmitQueue s' = TransmitQueue s \<and> in_total_length s' = in_total_length s \<and>
     in_maxpacket s' = in_maxpacket s \<and> last_in (usb_log s') = last_in (usb_log s) \<and>
     map_option TxState (pClassData s') = map_option TxState (pClassData s)"

definition rx_same :: "usb_cdc \<Rightarrow> usb_cdc \<Rightarrow> bool" where
  "rx_same s s' \<longleftrightarrow> ReceiveQueue s' = ReceiveQueue s \<and> receivePended s' = receivePended s \<and>
     dev_speed s' = dev_speed s \<and> last_out (usb_log s') = last_out (usb_log s) \<and>
     map_option RxBuffer (pClassData s') = map_option RxBuffer (pClassData s)"

definition tx_ok :: "usb_cdc \<Rightarrow> bool" where
  "tx_ok s \<longleftrightarrow> tx_inv (TransmitQueue s) \<and> 0 < in_maxpacket s 2 \<and>
     (case pClassData s of None \<Rightarrow> False | Some h \<Rightarrow> tx_flight s (TxState h))"

definition rx_ok :: "usb_cdc \<Rightarrow> bool" where
  "rx_ok s \<longleftrightarrow> rx_inv (ReceiveQueue s) \<and> dev_speed s = USBD_SPEED_FULL \<and>
     (case pClassData s of None \<Rightarrow> False | Some h \<Rightarrow> rx_armed s (RxBuffer h))"

lemma cdc_inv_split: "cdc_inv s \<longleftrightarrow> tx_ok s \<and> rx_ok s"
  by (auto simp: cdc_inv_def tx_ok_def rx_ok_def split: option.splits)

lemma tx_same_ok: "tx_same s s' \<Longrightarrow> tx_ok s \<Longrightarrow> tx_ok s' \<and> unsent s' = unsent s"
  by (auto simp: tx_same_def tx_ok_def tx_flight_def unsent_def Let_def split: option.splits)

lemma rx_same_ok: "rx_same s s' \<Longrightarrow> rx_ok s \<Longrightarrow> rx_ok s' \<and> ReceiveQueue s' = ReceiveQueue s"
  by (auto simp: rx_same_def rx_ok_def rx_armed_def split: option.splits)

lemma same_trans:
  "tx_same s s1 \<Longrightarrow> tx_same s1 s2 \<Longrightarrow> tx_same s s2"
  "rx_same s s1 \<Longrightarrow> rx_same s1 s2 \<Longrightarrow> rx_same s s2"
  by (simp_all add: tx_same_def rx_same_def)

section \<open>Every operation keeps the invariant\<close>

lemma continue_idle:
  assumes "tx_inv (TransmitQueue s)" and "pClassData s = Some h" and "TxState h = 0"
    and mps: "0 < in_maxpacket s 2"
  shows "\<exists>s'. CDC_continue_transmit tick s = Some s' \<and> tx_ok s' \<and> rx_same s s' \<and>
           unsent s' = tx_content (TransmitQueue s) \<and>
           tx_todo s' = 2 * length (tx_content (TransmitQueue s))"
proof -
  from tx_ReadBlock [OF assms(1)] obtain off sz q
    where q: "CDC_TransmitQueue_ReadBlock (TransmitQueue s) = ((off, sz), q)" "tx_inv q"
      "tx_content q = tx_content (TransmitQueue s)" "off = tq_read q" "tq_reserved q = sz"
      "sz \<le> length (tx_content q)" "off + sz \<le> 128" "sz = 0 \<longleftrightarrow> tx_content q = []"
    by auto
  show ?thesis
  proof (cases "sz = 0")
    case True
    then show ?thesis
      using q assms
      by (auto simp: CDC_continue_transmit_def tx_ok_def rx_same_def unsent_def tx_flight_def tx_todo_def Let_def)
  next
    case False
    then show ?thesis
      using q assms
      by (auto simp: CDC_continue_transmit_def USBD_CDC_SetTxBuffer_def USBD_CDC_TransmitPacket_def
          tx_ok_def rx_same_def unsent_def tx_flight_def tx_todo_def Let_def ep_index_def consts_simp)
  qed
qed

lemma continue_busy:
  "pClassData s = Some h \<Longrightarrow> TxState h \<noteq> 0 \<Longrightarrow> CDC_continue_transmit tick s = Some s"
  by (simp add: CDC_continue_transmit_def)

lemma write_portion_ok:
  assumes ok: "tx_ok s"
  shows "\<exists>w s'. write_portion xs tick s = Some (w, s') \<and> tx_ok s' \<and> rx_same s s' \<and>
    unsent s' = unsent s @ w \<and> w = take (127 - length (tx_content (TransmitQueue s))) xs"
proof -
  let ?q = "TransmitQueue s"
  let ?w = "take (127 - length (tx_content ?q)) xs"
  from ok obtain h where h: "pClassData s = Some h" and fl: "tx_flight s (TxState h)"
    and inv: "tx_inv ?q" and mps: "0 < in_maxpacket s 2"
    by (auto simp: tx_ok_def split: option.splits)
  have room: "nat (CDC_TransmitQueue_WriteSize ?q) = 127 - length (tx_content ?q)"
    using tx_WriteSize [OF inv] tx_content_bound [OF inv] by simp
  show ?thesis
  proof (cases "?w = []")
    case True
    then show ?thesis using ok room by (auto simp: write_portion_def rx_same_def Let_def)
  next
    case False
    have "length ?w + length (tx_content ?q) \<le> 127"
      using tx_content_bound [OF inv] by simp
    from tx_Enqueue [OF inv this] obtain q where q: "CDC_TransmitQueue_Enqueue ?q ?w (length ?w) = Some q"
      "tx_inv q" "tx_content q = tx_content ?q @ ?w" "tq_read q = tq_read ?q"
      "tq_reserved q = tq_reserved ?q" by auto
    let ?s = "s\<lparr>TransmitQueue := q\<rparr>"
    show ?thesis
    proof (cases "TxState h = 0")
      case True
      with continue_idle [of ?s h tick] h q mps obtain s'
        where s': "CDC_continue_transmit tick ?s = Some s'" "tx_ok s'" "rx_same ?s s'"
          "unsent s' = tx_content q" by auto
      moreover have "unsent s = []" using True fl by (simp add: unsent_def tx_flight_def Let_def)
      moreover have "tx_content ?q = []" using True fl by (simp add: tx_flight_def Let_def)
      ultimately show ?thesis
        using False q(1,3) room by (auto simp: write_portion_def Let_def rx_same_def)
    next
      case busy: False
      have "tx_ok ?s" "unsent ?s = unsent s @ ?w"
        using busy fl h q mps by (auto simp: tx_ok_def tx_flight_def unsent_def Let_def)
      moreover have "CDC_continue_transmit tick ?s = Some ?s"
        using busy h by (simp add: continue_busy)
      ultimately show ?thesis
        using False q(1) room by (auto simp: write_portion_def Let_def rx_same_def)
    qed
  qed
qed

lemma transfer_done_ok:
  assumes ok: "tx_ok s"
  shows "\<exists>io s'. transfer_done tick s = Some (io, s') \<and> tx_ok s' \<and> rx_same s s' \<and>
    unsent s = io_sent io @ unsent s' \<and> io_written io = [] \<and> io_arrived io = [] \<and> io_read io = [] \<and>
    tx_todo s' \<le> tx_todo s - 1"
proof -
  let ?q = "TransmitQueue s" and ?n = "tq_reserved (TransmitQueue s)"
  from ok obtain h where h: "pClassData s = Some h" and fl: "tx_flight s (TxState h)"
    and inv: "tx_inv ?q" and mps: "0 < in_maxpacket s 2"
    by (auto simp: tx_ok_def split: option.splits)
  show ?thesis
  proof (cases "TxState h = 0")
    case True
    then show ?thesis
      using h ok fl by (auto simp: transfer_done_def rx_same_def no_io_def tx_todo_def tx_flight_def Let_def)
  next
    case busy: False
    then have tx: "TxState h = 1" and n: "0 < ?n" "?n \<le> length (tx_content ?q)" "tq_read ?q + ?n \<le> 128"
      and fl': "last_in (usb_log s) = Some (Some (tq_read ?q), ?n) \<and> in_total_length s 2 = ?n \<or>
         last_in (usb_log s) = Some (None, 0) \<and> in_total_length s 2 = 0"
      using fl by (simp_all add: tx_flight_def Let_def)
    have ne: "tx_content ?q \<noteq> []" using n by auto
    note com = tx_CommitRead [OF inv n(2,3)]
    have rd: "mem_read (tq_buffer ?q) (tq_read ?q) ?n = Some (take ?n (tx_content ?q))"
      using tx_block_bytes [OF inv n(2,3)] .
    let ?s = "s\<lparr>pClassData := Some (h\<lparr>TxState := 0\<rparr>), transmitStart := 0,
                TransmitQueue := CDC_TransmitQueue_CommitRead ?q\<rparr>"
    from continue_idle [of ?s "h\<lparr>TxState := 0\<rparr>" tick] com mps obtain s'
      where s': "CDC_continue_transmit tick ?s = Some s'" "tx_ok s'" "rx_same ?s s'"
        "unsent s' = drop ?n (tx_content ?q)"
        "tx_todo s' = 2 * length (drop ?n (tx_content ?q))" by auto
    have cplt: "USBD_CDC_TransmitCplt tick (s\<lparr>pClassData := Some (h\<lparr>TxState := 0\<rparr>)\<rparr>) = Some s'"
      using s'(1) by (simp add: USBD_CDC_TransmitCplt_def)
    have rx: "rx_same s s'" using s'(3) h by (simp add: rx_same_def)
    from fl' show ?thesis
    proof
      assume d: "last_in (usb_log s) = Some (Some (tq_read ?q), ?n) \<and> in_total_length s 2 = ?n"
      have sent: "bytes_sent s = Some (take ?n (tx_content ?q))"
        using d rd by (simp add: bytes_sent_def)
      have uns: "unsent s = tx_content ?q" using d n ne by (simp add: unsent_def)
      show ?thesis
      proof (cases "?n mod in_maxpacket s 2 = 0")
        case True
        let ?z = "log_call (LL_Transmit 2 None 0) (s\<lparr>in_total_length := (in_total_length s)(2 := 0)\<rparr>)"
        have "USBD_CDC_DataIn 2 tick s = Some (USBD_OK, ?z)"
          using h d n True mps by (simp add: USBD_CDC_DataIn_def)
        moreover have "tx_ok ?z" "rx_same s ?z" "unsent ?z = drop ?n (tx_content ?q)"
          "tx_todo ?z \<le> tx_todo s - 1"
          using h inv mps tx n ne d
          by (auto simp: tx_ok_def tx_flight_def rx_same_def unsent_def tx_todo_def Let_def)
        ultimately show ?thesis
          using sent h tx uns by (auto simp: transfer_done_def no_io_def)
      next
        case False
        then have "USBD_CDC_DataIn 2 tick s = Some (USBD_OK, s')"
          using h d n mps cplt by (simp add: USBD_CDC_DataIn_def)
        then show ?thesis
          using sent h tx uns s'(2,4,5) rx d n ne
          by (auto simp: transfer_done_def no_io_def tx_todo_def)
      qed
    next
      assume d: "last_in (usb_log s) = Some (None, 0) \<and> in_total_length s 2 = 0"
      have "bytes_sent s = Some []" "unsent s = drop ?n (tx_content ?q)"
        using d ne by (simp_all add: bytes_sent_def unsent_def)
      moreover have "USBD_CDC_DataIn 2 tick s = Some (USBD_OK, s')"
        using h d cplt by (simp add: USBD_CDC_DataIn_def)
      ultimately show ?thesis
        using h tx s'(2,4,5) rx d n ne by (auto simp: transfer_done_def no_io_def tx_todo_def)
    qed
  qed
qed

lemma prepare_out_same: "tx_same s (prepare_out h s)"
  by (simp add: prepare_out_def tx_same_def)

lemma resume_ok:
  assumes inv: "rx_inv (ReceiveQueue s)" and fs: "dev_speed s = USBD_SPEED_FULL" and h: "pClassData s = Some h" and armed: "rx_armed s (RxBuffer h)"
    and res: "CDC_resume_receive s = (r, s')"
  shows "rx_ok s'" and "tx_same s s'" and "rx_content (ReceiveQueue s') = rx_content (ReceiveQueue s)"
    and "receivePended s' \<or> 64 \<le> length (rx_content (ReceiveQueue s))" and "receivePended s' \<longleftrightarrow> receivePended s \<or> r"
proof -
  have "rx_ok s' \<and> tx_same s s' \<and> rx_content (ReceiveQueue s') = rx_content (ReceiveQueue s) \<and>
    (receivePended s' \<or> 64 \<le> length (rx_content (ReceiveQueue s))) \<and> (receivePended s' \<longleftrightarrow> receivePended s \<or> r)"
  proof (cases "receivePended s")
    case True
    then show ?thesis
      using inv fs h armed res by (auto simp: CDC_resume_receive_def rx_ok_def tx_same_def)
  next
    case False
    obtain b q where q: "CDC_ReceiveQueue_ReserveBlock (ReceiveQueue s) = (b, q)"
      by (cases "CDC_ReceiveQueue_ReserveBlock (ReceiveQueue s)")
    note rq = rx_ReserveBlock [OF inv q]
    show ?thesis
    proof (cases b)
      case None
      then have "s' = s\<lparr>ReceiveQueue := q\<rparr>" and "\<not> r" and "64 \<le> length (rx_content (ReceiveQueue s))"
        using False q res rx_Reserve_refused [OF inv] by (simp_all add: CDC_resume_receive_def)
      then show ?thesis
        using rq(1,2) fs h False by (simp add: rx_ok_def rx_armed_def tx_same_def)
    next
      case (Some off)
      then have "rx_block q off" by (rule rq(5))
      then show ?thesis
        using False q res rq(1,2) fs h Some
        by (auto simp: CDC_resume_receive_def USBD_CDC_SetRxBuffer_def USBD_CDC_ReceivePacket_def
            prepare_out_def rx_ok_def rx_armed_def tx_same_def Let_def)
    qed
  qed
  then show "rx_ok s'" "tx_same s s'" "rx_content (ReceiveQueue s') = rx_content (ReceiveQueue s)"
    "receivePended s' \<or> 64 \<le> length (rx_content (ReceiveQueue s))" "receivePended s' \<longleftrightarrow> receivePended s \<or> r" by auto
qed

lemma clear_buffer_same: "tx_same s (snd (USBD_CDC_ClearBuffer s))"
  by (auto simp: USBD_CDC_ClearBuffer_def tx_same_def split: option.splits)

lemma clear_buffer_ok:
  "rx_ok s \<Longrightarrow> \<not> receivePended s \<Longrightarrow>
     rx_ok (snd (USBD_CDC_ClearBuffer s)) \<and> ReceiveQueue (snd (USBD_CDC_ClearBuffer s)) = ReceiveQueue s"
  by (auto simp: USBD_CDC_ClearBuffer_def rx_ok_def rx_armed_def split: option.splits)

lemma receive_ok:
  assumes inv: "rx_inv (CDC_ReceiveQueue_CommitBlock (ReceiveQueue s) len)" and fs: "dev_speed s = USBD_SPEED_FULL" and h: "pClassData s = Some h"
    and len: "len < 65536"
  shows "rx_ok (USBD_CDC_Receive len s) \<and> tx_same s (USBD_CDC_Receive len s) \<and>
    rx_content (ReceiveQueue (USBD_CDC_Receive len s)) =
      rx_content (CDC_ReceiveQueue_CommitBlock (ReceiveQueue s) len)"
proof -
  let ?s = "s\<lparr>ReceiveQueue := CDC_ReceiveQueue_CommitBlock (ReceiveQueue s) len, receivePended := False\<rparr>"
  obtain r s1 where r: "CDC_resume_receive ?s = (r, s1)" by (cases "CDC_resume_receive ?s")
  have "rx_armed ?s (RxBuffer h)" by (simp add: rx_armed_def)
  from resume_ok [OF _ _ _ this r] inv fs h
  have ok: "rx_ok s1" "tx_same ?s s1"
    "rx_content (ReceiveQueue s1) = rx_content (CDC_ReceiveQueue_CommitBlock (ReceiveQueue s) len)"
    "receivePended s1 \<longleftrightarrow> r"
    by simp_all
  have tx: "tx_same s s1" using ok(2) by (simp add: tx_same_def)
  have eq: "USBD_CDC_Receive len s = (if \<not> r then snd (USBD_CDC_ClearBuffer s1) else s1)"
    using r len by (simp add: USBD_CDC_Receive_def)
  then show ?thesis
    using ok(1,3,4) tx clear_buffer_ok [OF ok(1)] same_trans(1) [OF tx clear_buffer_same] by simp
qed

lemma packet_arrives_ok:
  assumes ok: "rx_ok s"
  shows "\<exists>io s'. packet_arrives xs s = Some (io, s') \<and> rx_ok s' \<and> tx_same s s' \<and>
    rx_content (ReceiveQueue s') = rx_content (ReceiveQueue s) @ io_arrived io \<and>
    io_written io = [] \<and> io_sent io = [] \<and> io_read io = []"
proof -
  from ok obtain h where h: "pClassData s = Some h" and armed: "rx_armed s (RxBuffer h)"
    and inv: "rx_inv (ReceiveQueue s)" and fs: "dev_speed s = USBD_SPEED_FULL"
    by (auto simp: rx_ok_def split: option.splits)
  show ?thesis
  proof (cases "receivePended s \<and> length xs \<le> 64")
    case False
    then show ?thesis
      using h ok by (auto simp: packet_arrives_def no_io_def tx_same_def consts_simp split: option.splits)
  next
    case True
    then obtain off where off: "RxBuffer h = Some off" "rx_block (ReceiveQueue s) off"
      using armed by (auto simp: rx_armed_def)
    have "off + length xs \<le> length (rq_buffer (ReceiveQueue s))"
      using rx_block_fits [OF off(2) inv] True by simp
    then obtain b where b: "mem_write (rq_buffer (ReceiveQueue s)) off xs = Some b"
      using mem_write_ok by blast
    have le: "length xs \<le> 64" using True by simp
    note com = rx_CommitBlock(1,2) [OF inv off(2) le b]
    let ?s = "s\<lparr>ReceiveQueue := (ReceiveQueue s)\<lparr>rq_buffer := b\<rparr>,
                pClassData := Some (h\<lparr>RxLength := length xs\<rparr>)\<rparr>"
    have lt: "length xs < 65536" using le by simp
    from receive_ok [of ?s "length xs", OF _ _ _ lt] com fs
    have "rx_ok (USBD_CDC_Receive (length xs) ?s)" "tx_same ?s (USBD_CDC_Receive (length xs) ?s)"
      "rx_content (ReceiveQueue (USBD_CDC_Receive (length xs) ?s)) = rx_content (ReceiveQueue s) @ xs"
      by simp_all
    moreover from this(2) have "tx_same s (USBD_CDC_Receive (length xs) ?s)"
      using h by (simp add: tx_same_def)
    ultimately show ?thesis
      using True h off(1) b
      by (simp add: packet_arrives_def USBD_CDC_DataOut_def no_io_def consts_simp)
  qed
qed

lemma read_portion_ok:
  assumes ok: "rx_ok s"
  shows "\<exists>r s'. read_portion n s = Some (r, s') \<and> rx_ok s' \<and> tx_same s s' \<and>
    rx_content (ReceiveQueue s) = r @ rx_content (ReceiveQueue s') \<and>
    (receivePended s' \<or> 64 \<le> length (rx_content (ReceiveQueue s')))"
proof -
  from ok obtain h where h: "pClassData s = Some h" and armed: "rx_armed s (RxBuffer h)"
    and inv: "rx_inv (ReceiveQueue s)" and fs: "dev_speed s = USBD_SPEED_FULL"
    by (auto simp: rx_ok_def split: option.splits)
  from rx_Read_at [OF inv rx_view_load [OF inv], of n] obtain k q
    where q: "CDC_ReceiveQueue_Read (ReceiveQueue s) n = Some (take k (rx_content (ReceiveQueue s)), q)"
      "rx_inv q" "rx_moved (ReceiveQueue s) q" "rx_content q = drop k (rx_content (ReceiveQueue s))"
    by (auto simp: CDC_ReceiveQueue_Read_def)
  let ?s = "s\<lparr>ReceiveQueue := q\<rparr>"
  obtain b s' where r: "CDC_resume_receive ?s = (b, s')" by (cases "CDC_resume_receive ?s")
  have "rx_armed ?s (RxBuffer h)"
    using armed rx_moved_block [OF q(3) inv] by (auto simp: rx_armed_def)
  from resume_ok [OF _ _ _ this r] q(2) fs h
  have "rx_ok s'" "tx_same ?s s'" "rx_content (ReceiveQueue s') = rx_content q"
    "receivePended s' \<or> 64 \<le> length (rx_content q)"
    by simp_all
  moreover from this(2) have "tx_same s s'" by (simp add: tx_same_def)
  ultimately show ?thesis
    using q(1,4) r by (simp add: read_portion_def)
qed

lemma control_same:
  assumes "USBD_CDC_Control cmd pbuf s = (d, s')"
  shows "tx_same s s'" and "rx_same s s'" and "pClassData s' = pClassData s"
  using assms
  by (auto simp: USBD_CDC_Control_def SET_LINE_CODING_def SET_CONTROL_LINE_STATE_def Let_def
      tx_same_def rx_same_def split: if_splits)

lemma setup_standard_same:
  "tx_same s (snd (setup_standard req s))" "rx_same s (snd (setup_standard req s))"
  by (auto simp: setup_standard_def tx_same_def rx_same_def)

lemma setup_class_same:
  assumes "pClassData s = Some h"
  shows "tx_same s (setup_class req h s) \<and> rx_same s (setup_class req h s)"
proof -
  obtain d1 s1 where c1: "USBD_CDC_Control (bRequest req) (hc_data h) s = (d1, s1)"
    by (cases "USBD_CDC_Control (bRequest req) (hc_data h) s")
  obtain d2 s2 where c2: "USBD_CDC_Control (bRequest req) (req_bytes req) s = (d2, s2)"
    by (cases "USBD_CDC_Control (bRequest req) (req_bytes req) s")
  show ?thesis
    using assms control_same [OF c1] control_same [OF c2] c1 c2
    by (auto simp: setup_class_def Let_def tx_same_def rx_same_def)
qed

lemma setup_same:
  "tx_same s (snd (USBD_CDC_Setup req s)) \<and> rx_same s (snd (USBD_CDC_Setup req s))"
proof (cases "pClassData s")
  case None
  then show ?thesis by (simp add: USBD_CDC_Setup_def tx_same_def rx_same_def)
next
  case (Some h)
  then show ?thesis
    using setup_class_same [OF Some, of req] setup_standard_same [of s req]
    by (auto simp: USBD_CDC_Setup_def tx_same_def rx_same_def)
qed

lemma ep0_same: "tx_same s (ep0_data xs s) \<and> rx_same s (ep0_data xs s)"
proof (cases "pClassData s")
  case None
  then show ?thesis by (simp add: ep0_data_def tx_same_def rx_same_def)
next
  case (Some h)
  show ?thesis
  proof (cases "mem_write (hc_data h) 0 (take (unat (CmdLength h)) xs)")
    case None
    then show ?thesis using Some by (simp add: ep0_data_def tx_same_def rx_same_def)
  next
    case d: (Some d)
    let ?s = "s\<lparr>pClassData := Some (h\<lparr>hc_data := d\<rparr>)\<rparr>"
    obtain d' s' where c: "USBD_CDC_Control (CmdOpCode h) d ?s = (d', s')"
      by (cases "USBD_CDC_Control (CmdOpCode h) d ?s")
    show ?thesis
      using Some d c control_same [OF c]
      by (auto simp: ep0_data_def USBD_CDC_EP0_RxReady_def tx_same_def rx_same_def)
  qed
qed

section \<open>The byte streams\<close>

lemma no_io_simps [simp]:
  "io_written no_io = []" "io_sent no_io = []" "io_arrived no_io = []" "io_read no_io = []"
  by (simp_all add: no_io_def)

lemma cdc_step_ok:
  assumes inv: "cdc_inv s"
  shows "\<exists>io s'. cdc_step ev s = Some (io, s') \<and> cdc_inv s' \<and>
    unsent s @ io_written io = io_sent io @ unsent s' \<and>
    rx_content (ReceiveQueue s) @ io_arrived io = io_read io @ rx_content (ReceiveQueue s')"
proof -
  from inv have tx: "tx_ok s" and rx: "rx_ok s" by (simp_all add: cdc_inv_split)
  note keep = tx_same_ok [OF _ tx] rx_same_ok [OF _ rx]
  show ?thesis
  proof (cases ev)
    case (Ev_Write xs tick)
    with write_portion_ok [OF tx, of xs tick] keep(2) show ?thesis
      by (force simp: cdc_step_def cdc_inv_split)
  next
    case (Ev_Sent tick)
    with transfer_done_ok [OF tx, of tick] keep(2) show ?thesis
      by (force simp: cdc_step_def cdc_inv_split)
  next
    case (Ev_Packet xs)
    with packet_arrives_ok [OF rx, of xs] keep(1) show ?thesis
      by (force simp: cdc_step_def cdc_inv_split)
  next
    case (Ev_Read n)
    with read_portion_ok [OF rx, of n] keep(1) show ?thesis
      by (force simp: cdc_step_def cdc_inv_split)
  next
    case (Ev_Setup req)
    with setup_same [of s req] keep show ?thesis by (simp add: cdc_step_def cdc_inv_split)
  next
    case (Ev_Ep0 xs)
    with ep0_same [of s xs] keep show ?thesis by (simp add: cdc_step_def cdc_inv_split)
  qed
qed

lemma cdc_run_streams:
  assumes "cdc_inv s"
  shows "\<exists>io s'. cdc_run evs s = Some (io, s') \<and> cdc_inv s' \<and>
    unsent s @ io_written io = io_sent io @ unsent s' \<and>
    rx_content (ReceiveQueue s) @ io_arrived io = io_read io @ rx_content (ReceiveQueue s')"
  using assms
proof (induction evs arbitrary: s)
  case Nil
  then show ?case by simp
next
  case (Cons ev evs)
  from cdc_step_ok [OF Cons.prems, of ev] obtain io1 s1
    where 1: "cdc_step ev s = Some (io1, s1)" "cdc_inv s1"
      "unsent s @ io_written io1 = io_sent io1 @ unsent s1"
      "rx_content (ReceiveQueue s) @ io_arrived io1 = io_read io1 @ rx_content (ReceiveQueue s1)"
    by blast
  from Cons.IH [OF 1(2)] obtain io2 s2
    where 2: "cdc_run evs s1 = Some (io2, s2)" "cdc_inv s2"
      "unsent s1 @ io_written io2 = io_sent io2 @ unsent s2"
      "rx_content (ReceiveQueue s1) @ io_arrived io2 = io_read io2 @ rx_content (ReceiveQueue s2)"
    by blast
  have "unsent s @ io_written io1 @ io_written io2 = io_sent io1 @ io_sent io2 @ unsent s2"
    using 1(3) 2(3) by (metis append_assoc)
  moreover have "rx_content (ReceiveQueue s) @ io_arrived io1 @ io_arrived io2 =
      io_read io1 @ io_read io2 @ rx_content (ReceiveQueue s2)"
    using 1(4) 2(4) by (metis append_assoc)
  ultimately show ?case
    using 1(1) 2(1,2) by (simp add: io_append_def)
qed

section \<open>Start and progress\<close>

text \<open>The state \<^verbatim>\<open>USBD_CDC_Init\<close> leaves a full-speed device in, whatever it was before.\<close>

lemma init_itf_rx:
  assumes "length (rq_buffer (ReceiveQueue s)) = 192" and "pClassData s = Some h"
  shows "\<exists>q. USBD_CDC_Init_itf s = s\<lparr>TransmitQueue := CDC_TransmitQueue_Init (TransmitQueue s),
      ReceiveQueue := q, receivePended := True, pClassData := Some (h\<lparr>RxBuffer := Some 0\<rparr>)\<rparr> \<and>
    rx_inv q \<and> rx_content q = [] \<and> rx_block q 0"
proof -
  let ?q = "CDC_ReceiveQueue_Init (ReceiveQueue s)"
  have "CDC_ReceiveQueue_ReserveBlock ?q = (Some 0, ?q)"
    by (simp add: CDC_ReceiveQueue_ReserveBlock_def CDC_ReceiveQueue_Init_def Let_def)
  moreover have "rx_block ?q 0" by (simp add: rx_block_def CDC_ReceiveQueue_Init_def)
  ultimately show ?thesis
    using assms rx_init [of "ReceiveQueue s"]
    by (intro exI [of _ ?q]) (simp add: USBD_CDC_Init_itf_def USBD_CDC_SetRxBuffer_def Let_def)
qed

lemma cdc_init_ok:
  assumes "length (tq_buffer (TransmitQueue s)) = 128" and "length (rq_buffer (ReceiveQueue s)) = 192"
    and "dev_speed s = USBD_SPEED_FULL"
  shows "cdc_inv (snd (USBD_CDC_Init (Some h) s)) \<and> unsent (snd (USBD_CDC_Init (Some h) s)) = [] \<and>
    rx_content (ReceiveQueue (snd (USBD_CDC_Init (Some h) s))) = []"
proof -
  let ?s2 = "open_data_eps 64 (s\<lparr>pClassData := Some h\<rparr>)"
  let ?s3 = "USBD_LL_OpenEP CDC_CMD_EP USBD_EP_TYPE_INTR 8 ?s2"
  let ?s4 = "?s3\<lparr>in_is_used := (in_is_used ?s3)(ep_index CDC_CMD_EP := True)\<rparr>"
  have s4: "pClassData ?s4 = Some h" "TransmitQueue ?s4 = TransmitQueue s"
    "ReceiveQueue ?s4 = ReceiveQueue s" "in_maxpacket ?s4 2 = 64"
    "dev_speed ?s4 = USBD_SPEED_FULL"
    using assms(3) by (simp_all add: open_data_eps_def Let_def consts_simp ep_index_def)
  from init_itf_rx [of ?s4 h] s4 assms(2) obtain q
    where q: "USBD_CDC_Init_itf ?s4 = ?s4\<lparr>TransmitQueue := CDC_TransmitQueue_Init (TransmitQueue ?s4),
      ReceiveQueue := q, receivePended := True, pClassData := Some (h\<lparr>RxBuffer := Some 0\<rparr>)\<rparr>"
      "rx_inv q" "rx_content q = []" "rx_block q 0" by auto
  let ?h = "h\<lparr>RxBuffer := Some 0, TxState := 0, RxState := 0\<rparr>"
  let ?s5 = "?s4\<lparr>TransmitQueue := CDC_TransmitQueue_Init (TransmitQueue ?s4),
      ReceiveQueue := q, receivePended := True, pClassData := Some ?h\<rparr>"
  have "snd (USBD_CDC_Init (Some h) s) = prepare_out ?h ?s5"
    using q(1) assms(3)
    by (simp add: USBD_CDC_Init_def Let_def CDC_DATA_FS_MAX_PACKET_SIZE_def CDC_CMD_PACKET_SIZE_def)
  moreover have "tx_inv (CDC_TransmitQueue_Init (TransmitQueue s))"
    "tx_content (CDC_TransmitQueue_Init (TransmitQueue s)) = []"
    using tx_init [of "TransmitQueue s"] assms(1) by simp_all
  ultimately show ?thesis
    using q(2-4) s4 by (simp add: prepare_out_def cdc_inv_def tx_flight_def rx_armed_def unsent_def)
qed

lemma in_flight: "tx_ok s \<Longrightarrow> tx_content (TransmitQueue s) \<noteq> [] \<Longrightarrow> map_option TxState (pClassData s) = Some 1"
  by (auto simp: tx_ok_def tx_flight_def Let_def split: option.splits if_splits)

lemma todo_zero: "tx_todo s = 0 \<Longrightarrow> unsent s = [] \<and> tx_content (TransmitQueue s) = []"
  by (cases "tx_content (TransmitQueue s)") (auto simp: tx_todo_def unsent_def split: if_splits)

lemma cdc_drain_run:
  assumes "cdc_inv s" and "tx_todo s \<le> k"
  shows "\<exists>io s'. cdc_run (replicate k (Ev_Sent tick)) s = Some (io, s') \<and>
    io_sent io = unsent s \<and> tx_content (TransmitQueue s') = []"
  using assms
proof (induction k arbitrary: s)
  case 0
  then show ?case using todo_zero [of s] by simp
next
  case (Suc k)
  then have ok: "tx_ok s" "rx_ok s" by (simp_all add: cdc_inv_split)
  from transfer_done_ok [OF ok(1), of tick] obtain io1 s1
    where 1: "transfer_done tick s = Some (io1, s1)" "tx_ok s1" "rx_same s s1"
      "unsent s = io_sent io1 @ unsent s1" "tx_todo s1 \<le> tx_todo s - 1" by blast
  have "cdc_inv s1" using 1(2) rx_same_ok [OF 1(3) ok(2)] by (simp add: cdc_inv_split)
  moreover have "tx_todo s1 \<le> k" using 1(5) Suc.prems(2) by simp
  ultimately obtain io2 s2 where "cdc_run (replicate k (Ev_Sent tick)) s1 = Some (io2, s2)"
    "io_sent io2 = unsent s1" "tx_content (TransmitQueue s2) = []"
    using Suc.IH by blast
  then show ?case using 1(1,4) by (simp add: cdc_step_def io_append_def)
qed

lemma tx_todo_bound: "tx_inv (TransmitQueue s) \<Longrightarrow> tx_todo s \<le> 254"
  using tx_content_bound [of "TransmitQueue s"] by (auto simp: tx_todo_def)

end
