(* ===== verification/Usb_Cdc_Desc.thy ===== *)
theory Usb_Cdc_Desc
  imports Usb_Cdc_Class
begin

text \<open>
  The descriptors of the CDC device, the tables of
  \<^verbatim>\<open>cores/arduino/stm32/usb/cdc/usbd_cdc.c\<close> (self powered, full and high speed), one
  descriptor a line, and their agreement with each other and with the endpoints
  \<^verbatim>\<open>USBD_CDC_Init\<close> opens.
\<close>

definition LOBYTE :: "nat \<Rightarrow> u8" where [consts_simp]: "LOBYTE x = of_nat (x mod 256)"
definition HIBYTE :: "nat \<Rightarrow> u8" where [consts_simp]: "HIBYTE x = of_nat (x div 256 mod 256)"
definition USB_LEN_DEV_QUALIFIER_DESC :: u8 where [consts_simp]: "USB_LEN_DEV_QUALIFIER_DESC = 0x0A"
definition USB_DESC_TYPE_CONFIGURATION :: u8 where [consts_simp]: "USB_DESC_TYPE_CONFIGURATION = 2"
definition USB_DESC_TYPE_INTERFACE :: u8 where [consts_simp]: "USB_DESC_TYPE_INTERFACE = 4"
definition USB_DESC_TYPE_ENDPOINT :: u8 where [consts_simp]: "USB_DESC_TYPE_ENDPOINT = 5"
definition USB_DESC_TYPE_DEVICE_QUALIFIER :: u8 where [consts_simp]: "USB_DESC_TYPE_DEVICE_QUALIFIER = 6"
definition USB_DESC_TYPE_OTHER_SPEED_CONFIGURATION :: u8 where
  [consts_simp]: "USB_DESC_TYPE_OTHER_SPEED_CONFIGURATION = 7"
definition USB_CDC_CONFIG_DESC_SIZ :: nat where [consts_simp]: "USB_CDC_CONFIG_DESC_SIZ = 67"
definition USBD_MAX_POWER :: u8 where [consts_simp]: "USBD_MAX_POWER = 0x32"

definition USBD_CDC_DeviceQualifierDesc :: "u8 list" where
  "USBD_CDC_DeviceQualifierDesc =
     [USB_LEN_DEV_QUALIFIER_DESC, USB_DESC_TYPE_DEVICE_QUALIFIER, 0x00, 0x02, 0x00, 0x00,
        0x00, 0x40, 0x01, 0x00]"

definition USBD_CDC_CfgHSDesc :: "u8 list" where
  "USBD_CDC_CfgHSDesc =
     [0x09, USB_DESC_TYPE_CONFIGURATION, of_nat USB_CDC_CONFIG_DESC_SIZ, 0x00, 0x02, 0x01,
        0x00, 0xC0, USBD_MAX_POWER,
      0x09, USB_DESC_TYPE_INTERFACE, 0x00, 0x00, 0x01, 0x02, 0x02, 0x00, 0x00,
      0x05, 0x24, 0x00, 0x10, 0x01,
      0x05, 0x24, 0x01, 0x00, 0x01,
      0x04, 0x24, 0x02, 0x02,
      0x05, 0x24, 0x06, 0x00, 0x01,
      0x07, USB_DESC_TYPE_ENDPOINT, CDC_CMD_EP, 0x03, LOBYTE CDC_CMD_PACKET_SIZE,
        HIBYTE CDC_CMD_PACKET_SIZE, of_nat CDC_BINTERVAL,
      0x09, USB_DESC_TYPE_INTERFACE, 0x01, 0x00, 0x02, 0x0A, 0x00, 0x00, 0x00,
      0x07, USB_DESC_TYPE_ENDPOINT, CDC_OUT_EP, 0x02, LOBYTE CDC_DATA_HS_MAX_PACKET_SIZE,
        HIBYTE CDC_DATA_HS_MAX_PACKET_SIZE, 0x00,
      0x07, USB_DESC_TYPE_ENDPOINT, CDC_IN_EP, 0x02, LOBYTE CDC_DATA_HS_MAX_PACKET_SIZE,
        HIBYTE CDC_DATA_HS_MAX_PACKET_SIZE, 0x00]"

definition USBD_CDC_CfgFSDesc :: "u8 list" where
  "USBD_CDC_CfgFSDesc =
     [0x09, USB_DESC_TYPE_CONFIGURATION, of_nat USB_CDC_CONFIG_DESC_SIZ, 0x00, 0x02, 0x01,
        0x00, 0xC0, USBD_MAX_POWER,
      0x09, USB_DESC_TYPE_INTERFACE, 0x00, 0x00, 0x01, 0x02, 0x02, 0x00, 0x00,
      0x05, 0x24, 0x00, 0x10, 0x01,
      0x05, 0x24, 0x01, 0x00, 0x01,
      0x04, 0x24, 0x02, 0x02,
      0x05, 0x24, 0x06, 0x00, 0x01,
      0x07, USB_DESC_TYPE_ENDPOINT, CDC_CMD_EP, 0x03, LOBYTE CDC_CMD_PACKET_SIZE,
        HIBYTE CDC_CMD_PACKET_SIZE, of_nat CDC_BINTERVAL,
      0x09, USB_DESC_TYPE_INTERFACE, 0x01, 0x00, 0x02, 0x0A, 0x00, 0x00, 0x00,
      0x07, USB_DESC_TYPE_ENDPOINT, CDC_OUT_EP, 0x02, LOBYTE CDC_DATA_FS_MAX_PACKET_SIZE,
        HIBYTE CDC_DATA_FS_MAX_PACKET_SIZE, 0x00,
      0x07, USB_DESC_TYPE_ENDPOINT, CDC_IN_EP, 0x02, LOBYTE CDC_DATA_FS_MAX_PACKET_SIZE,
        HIBYTE CDC_DATA_FS_MAX_PACKET_SIZE, 0x00]"

definition USBD_CDC_OtherSpeedCfgDesc :: "u8 list" where
  "USBD_CDC_OtherSpeedCfgDesc =
     [0x09, USB_DESC_TYPE_OTHER_SPEED_CONFIGURATION, of_nat USB_CDC_CONFIG_DESC_SIZ, 0x00,
        0x02, 0x01, 0x04, 0xC0, USBD_MAX_POWER,
      0x09, USB_DESC_TYPE_INTERFACE, 0x00, 0x00, 0x01, 0x02, 0x02, 0x00, 0x00,
      0x05, 0x24, 0x00, 0x10, 0x01,
      0x05, 0x24, 0x01, 0x00, 0x01,
      0x04, 0x24, 0x02, 0x02,
      0x05, 0x24, 0x06, 0x00, 0x01,
      0x07, USB_DESC_TYPE_ENDPOINT, CDC_CMD_EP, 0x03, LOBYTE CDC_CMD_PACKET_SIZE,
        HIBYTE CDC_CMD_PACKET_SIZE, of_nat CDC_BINTERVAL,
      0x09, USB_DESC_TYPE_INTERFACE, 0x01, 0x00, 0x02, 0x0A, 0x00, 0x00, 0x00,
      0x07, USB_DESC_TYPE_ENDPOINT, CDC_OUT_EP, 0x02, 0x40, 0x00, 0x00,
      0x07, USB_DESC_TYPE_ENDPOINT, CDC_IN_EP, 0x02, 0x40, 0x00, 0x00]"

text \<open>The getters hand out the table and its length.\<close>

definition USBD_CDC_GetFSCfgDesc :: "u8 list \<times> nat" where
  "USBD_CDC_GetFSCfgDesc = (USBD_CDC_CfgFSDesc, to_u16 (int (length USBD_CDC_CfgFSDesc)))"

definition USBD_CDC_GetHSCfgDesc :: "u8 list \<times> nat" where
  "USBD_CDC_GetHSCfgDesc = (USBD_CDC_CfgHSDesc, to_u16 (int (length USBD_CDC_CfgHSDesc)))"

definition USBD_CDC_GetOtherSpeedCfgDesc :: "u8 list \<times> nat" where
  "USBD_CDC_GetOtherSpeedCfgDesc =
     (USBD_CDC_OtherSpeedCfgDesc, to_u16 (int (length USBD_CDC_OtherSpeedCfgDesc)))"

definition USBD_CDC_GetDeviceQualifierDescriptor :: "u8 list \<times> nat" where
  "USBD_CDC_GetDeviceQualifierDescriptor =
     (USBD_CDC_DeviceQualifierDesc, to_u16 (int (length USBD_CDC_DeviceQualifierDesc)))"

section \<open>Reading a configuration the way a host does\<close>

text \<open>A host walks the table by the length byte of each descriptor; \<open>n\<close> bounds the
  number of descriptors.\<close>

fun desc_split :: "nat \<Rightarrow> u8 list \<Rightarrow> u8 list list option" where
  "desc_split n [] = Some []"
| "desc_split 0 (b # bs) = None"
| "desc_split (Suc n) (b # bs) =
     (if unat b < 2 \<or> length (b # bs) < unat b then None
      else map_option ((#) (take (unat b) (b # bs))) (desc_split n (drop (unat b) (b # bs))))"

definition is_type :: "u8 \<Rightarrow> u8 list \<Rightarrow> bool" where
  "is_type t d \<longleftrightarrow> d ! 1 = t"

definition ep_of :: "u8 list \<Rightarrow> u8 \<times> u8 \<times> nat" where
  "ep_of d = (d ! 2, d ! 3, unat (d ! 4) + 256 * unat (d ! 5))"

text \<open>The endpoint descriptors that follow each interface descriptor.\<close>

fun interfaces :: "u8 list list \<Rightarrow> (u8 list \<times> u8 list list) list" where
  "interfaces [] = []"
| "interfaces (d # ds) =
     (if is_type USB_DESC_TYPE_INTERFACE d
      then (d, filter (is_type USB_DESC_TYPE_ENDPOINT)
                 (takeWhile (\<lambda>e. \<not> is_type USB_DESC_TYPE_INTERFACE e) ds)) # interfaces ds
      else interfaces ds)"

definition config_ok :: "u8 \<Rightarrow> u8 list \<Rightarrow> bool" where
  "config_ok t bs \<longleftrightarrow>
     (case desc_split (length bs) bs of
        Some (cfg # ds) \<Rightarrow>
          length cfg = 9 \<and> is_type t cfg \<and> unat (cfg ! 2) + 256 * unat (cfg ! 3) = length bs \<and>
          unat (cfg ! 4) = length (interfaces ds) \<and>
          map (\<lambda>(i, _). unat (i ! 2)) (interfaces ds) = [0..<length (interfaces ds)] \<and>
          (\<forall>(i, eps) \<in> set (interfaces ds). length i = 9 \<and> unat (i ! 4) = length eps \<and>
             (\<forall>e \<in> set eps. length e = 7))
      | _ \<Rightarrow> False)"

definition config_eps :: "u8 list \<Rightarrow> (u8 \<times> u8 \<times> nat) list" where
  "config_eps bs =
     (case desc_split (length bs) bs of
        Some ds \<Rightarrow> map ep_of (filter (is_type USB_DESC_TYPE_ENDPOINT) ds) | None \<Rightarrow> [])"

text \<open>The endpoints the device opened, in the order of the calls, with the transfer
  type as a descriptor codes it.\<close>

fun ep_type_code :: "usb_ep_type \<Rightarrow> u8" where
  "ep_type_code USBD_EP_TYPE_CTRL = 0"
| "ep_type_code USBD_EP_TYPE_ISOC = 1"
| "ep_type_code USBD_EP_TYPE_BULK = 2"
| "ep_type_code USBD_EP_TYPE_INTR = 3"

fun opened_eps :: "usb_call list \<Rightarrow> (u8 \<times> u8 \<times> nat) list" where
  "opened_eps [] = []"
| "opened_eps (LL_OpenEP a t n # cs) = (a, ep_type_code t, n) # opened_eps cs"
| "opened_eps (c # cs) = opened_eps cs"

lemmas desc_defs = config_ok_def config_eps_def is_type_def ep_of_def consts_simp
  USBD_CDC_CfgFSDesc_def USBD_CDC_CfgHSDesc_def USBD_CDC_OtherSpeedCfgDesc_def

lemma opened_append [simp]: "opened_eps (cs @ ds) = opened_eps cs @ opened_eps ds"
  by (induction cs rule: opened_eps.induct) simp_all

lemma config_tables:
  "config_ok USB_DESC_TYPE_CONFIGURATION USBD_CDC_CfgFSDesc"
  "config_ok USB_DESC_TYPE_CONFIGURATION USBD_CDC_CfgHSDesc"
  "config_ok USB_DESC_TYPE_OTHER_SPEED_CONFIGURATION USBD_CDC_OtherSpeedCfgDesc"
  by code_simp+

lemma config_eps_tables:
  "config_eps USBD_CDC_CfgFSDesc = [(0x83, 3, 8), (0x01, 2, 64), (0x82, 2, 64)]"
  "config_eps USBD_CDC_CfgHSDesc = [(0x83, 3, 8), (0x01, 2, 512), (0x82, 2, 512)]"
  "config_eps USBD_CDC_OtherSpeedCfgDesc = [(0x83, 3, 8), (0x01, 2, 64), (0x82, 2, 64)]"
  by code_simp+

lemma config_lengths:
  "length USBD_CDC_CfgFSDesc = 67" "length USBD_CDC_CfgHSDesc = 67"
  "length USBD_CDC_OtherSpeedCfgDesc = 67"
  by code_simp+

lemma init_itf_log: "usb_log (USBD_CDC_Init_itf s) = usb_log s"
  by (auto simp: USBD_CDC_Init_itf_def USBD_CDC_SetRxBuffer_def Let_def split: prod.split option.split)

lemma init_itf_class: "pClassData s = Some h \<Longrightarrow> \<exists>h'. pClassData (USBD_CDC_Init_itf s) = Some h'"
  by (auto simp: USBD_CDC_Init_itf_def USBD_CDC_SetRxBuffer_def Let_def split: prod.split option.split)

lemma open_data_eps_log:
  "usb_log (open_data_eps n s) =
     usb_log s @ [LL_OpenEP CDC_IN_EP USBD_EP_TYPE_BULK n, LL_OpenEP CDC_OUT_EP USBD_EP_TYPE_BULK n]"
  "pClassData (open_data_eps n s) = pClassData s" "dev_speed (open_data_eps n s) = dev_speed s"
  by (simp_all add: open_data_eps_def USBD_LL_OpenEP_def Let_def)

text \<open>The endpoints \<^verbatim>\<open>USBD_CDC_Init\<close> opens.\<close>

lemma init_opens:
  "opened_eps (usb_log (snd (USBD_CDC_Init (Some h) s))) =
     opened_eps (usb_log s) @
     (let n = (if dev_speed s = USBD_SPEED_HIGH then 512 else 64)
      in [(0x82, 2, n), (0x01, 2, n), (0x83, 3, 8)])"
proof -
  have open_log: "usb_log (USBD_LL_OpenEP ep t n r) = usb_log r @ [LL_OpenEP ep t n]" for ep t n r
    by (simp add: USBD_LL_OpenEP_def Let_def)
  have prep: "opened_eps (usb_log (prepare_out h6 r)) = opened_eps (usb_log r)" for h6 r
    by (simp add: prepare_out_def)
  show ?thesis
    by (auto simp: USBD_CDC_Init_def Let_def open_log prep init_itf_log open_data_eps_log consts_simp
        split: option.split dest!: init_itf_class)
qed

end
