(* ===== verification/Cdc_Properties.thy ===== *)
theory Cdc_Properties
  imports Cdc_System Usb_Cdc_Desc "HOL-Library.Multiset"
begin

text \<open>
  The properties of the USB serial port: its two queues under any interleaving of
  their clients, the streams through the whole driver, that what is queued gets
  sent, flow control, and the control requests (line coding, the 1200 baud
  request for the boot loader, the line state that \<^verbatim>\<open>CDC_connected\<close> reads).
\<close>

section \<open>Streams\<close>

definition fresh_cdc :: usb_cdc where
  "fresh_cdc =
     \<lparr>TransmitQueue = \<lparr>tq_buffer = replicate 128 0, tq_write = 0, tq_read = 0, tq_reserved = 0\<rparr>,
      ReceiveQueue = \<lparr>rq_buffer = replicate 192 0, rq_write = 0, rq_read = 0, rq_length = 0\<rparr>,
      dtrState = False, rtsState = False, receivePended = True, transmitStart = 0,
      CDC_initialized = True, CDC_DTR_enabled = True,
      linecoding = \<lparr>bitrate = 115200, format = 0, paritytype = 0, datatype_bits = 8\<rparr>,
      pClassData = None, pUserData = True, dev_state = 3, dev_speed = USBD_SPEED_FULL,
      in_total_length = (\<lambda>_. 0), in_maxpacket = (\<lambda>_. 0), in_is_used = (\<lambda>_. False),
      out_is_used = (\<lambda>_. False), in_bInterval = (\<lambda>_. 0), backup_reg = 0, usb_log = []\<rparr>"

definition raw_handle :: cdc_handle where
  "raw_handle =
     \<lparr>hc_data = replicate 512 0, CmdOpCode = 0, CmdLength = 0, RxBuffer = None, TxBuffer = None,
      RxLength = 0, TxLength = 0, TxState = 7, RxState = 7\<rparr>"



text \<open>C4: Nothing queued is left behind: once the sketch stops writing, at most 254
  completions of the data IN endpoint (zero length packets included) deliver every
  byte the host has not seen, and leave the transmit queue empty.\<close>

theorem cdc_write_drains:
  assumes "cdc_inv s" and "254 \<le> k"
  shows "\<exists>io s'. cdc_run (replicate k (Ev_Sent tick)) s = Some (io, s') \<and>
    io_sent io = unsent s \<and> CDC_TransmitQueue_ReadSize (TransmitQueue s') = 0"
proof -
  have "tx_todo s \<le> k" using assms tx_todo_bound [of s] by (simp add: cdc_inv_def)
  from cdc_drain_run [OF assms(1) this, of tick] obtain io s'
    where run: "cdc_run (replicate k (Ev_Sent tick)) s = Some (io, s')"
      "io_sent io = unsent s" "tx_content (TransmitQueue s') = []" by blast
  from run(1) cdc_run_streams [OF assms(1), of "replicate k (Ev_Sent tick)"]
  have "cdc_inv s'" by simp
  then show ?thesis using run tx_ReadSize [of "TransmitQueue s'"] by (simp add: cdc_inv_def)
qed

theorem cdc_write_drains_witness:
  "\<exists>io s'. cdc_run (replicate 254 (Ev_Sent 1)) (snd (USBD_CDC_Init (Some raw_handle) fresh_cdc))
     = Some (io, s') \<and> io_sent io = unsent (snd (USBD_CDC_Init (Some raw_handle) fresh_cdc)) \<and>
     CDC_TransmitQueue_ReadSize (TransmitQueue s') = 0"
  by (rule cdc_write_drains) (simp_all add: cdc_init_ok fresh_cdc_def)

text \<open>C5: Flow control: after any read by the sketch, the endpoint is armed for a full packet
  at the buffer of the handle, an offset whose 64 bytes lie inside the buffer and hold no
  unread byte, unless at least 64 bytes are still waiting to be read.\<close>

theorem cdc_read_rearms:
  assumes "cdc_inv s" and "read_portion n s = Some (bytes, s')"
  shows "(\<exists>h off. receivePended s' \<and> pClassData s' = Some h \<and> RxBuffer h = Some off \<and>
            last_out (usb_log s') = Some (Some off, 64) \<and> rx_block (ReceiveQueue s') off \<and> off + 64 \<le> length (rq_buffer (ReceiveQueue s'))) \<or>
         64 \<le> CDC_ReceiveQueue_ReadSize (ReceiveQueue s')"
proof -
  from assms(1) have "rx_ok s" by (simp add: cdc_inv_split)
  from read_portion_ok [OF this, of n] assms(2)
  have s': "rx_ok s'" "receivePended s' \<or> 64 \<le> length (rx_content (ReceiveQueue s'))" by auto
  then show ?thesis
    using rx_ReadSize [of "ReceiveQueue s'"] rx_block_fits [of "ReceiveQueue s'"]
    by (auto simp: rx_ok_def rx_armed_def consts_simp split: option.splits)
qed

theorem cdc_read_rearms_witness:
  "\<exists>s bytes s'. cdc_inv s \<and> read_portion 0 s = Some (bytes, s') \<and>
    ((\<exists>h off. receivePended s' \<and> pClassData s' = Some h \<and> RxBuffer h = Some off \<and>
            last_out (usb_log s') = Some (Some off, 64) \<and> rx_block (ReceiveQueue s') off \<and> off + 64 \<le> length (rq_buffer (ReceiveQueue s'))) \<or>
         64 \<le> CDC_ReceiveQueue_ReadSize (ReceiveQueue s'))"
proof -
  let ?s = "snd (USBD_CDC_Init (Some raw_handle) fresh_cdc)"
  have inv: "cdc_inv ?s" by (simp add: cdc_init_ok fresh_cdc_def)
  then obtain bytes s' where r: "read_portion 0 ?s = Some (bytes, s')"
    using read_portion_ok [of ?s 0] by (auto simp: cdc_inv_split)
  show ?thesis using inv r cdc_read_rearms [OF inv r] by blast
qed

text \<open>A transfer that ends on a packet boundary is closed by exactly one zero length
  packet: the completion of a transfer of \<open>n > 0\<close> bytes with \<open>n\<close> a multiple of the
  packet size only queues the empty packet and keeps the transmitter busy; the next
  completion, and that of every other transfer, frees the transmitter and commits
  the block.\<close>

theorem cdc_zero_length_packet:
  assumes "pClassData s = Some h" and "0 < in_maxpacket s 2"
  shows "(if 0 < in_total_length s 2 \<and> in_maxpacket s 2 dvd in_total_length s 2
          then \<exists>s1. USBD_CDC_DataIn 2 tick s = Some (USBD_OK, s1) \<and>
                 usb_log s1 = usb_log s @ [LL_Transmit 2 None 0] \<and>
                 TransmitQueue s1 = TransmitQueue s \<and> pClassData s1 = pClassData s \<and>
                 in_total_length s1 2 = 0
          else USBD_CDC_DataIn 2 tick s =
                 map_option (Pair USBD_OK) (CDC_continue_transmit tick
                   (s\<lparr>pClassData := Some (h\<lparr>TxState := 0\<rparr>), transmitStart := 0,
                      TransmitQueue := CDC_TransmitQueue_CommitRead (TransmitQueue s)\<rparr>)))"
  using assms
  by (auto simp: USBD_CDC_DataIn_def USBD_CDC_TransmitCplt_def CDC_continue_transmit_def
      dvd_eq_mod_eq_0 split: option.splits)

theorem cdc_zero_length_packet_witness:
  "\<exists>s1. USBD_CDC_DataIn 2 0 (fresh_cdc\<lparr>pClassData := Some raw_handle,
       in_maxpacket := (\<lambda>_. 64), in_total_length := (\<lambda>_. 64)\<rparr>) = Some (USBD_OK, s1) \<and>
     usb_log s1 = [LL_Transmit 2 None 0]"
  using cdc_zero_length_packet [of "fresh_cdc\<lparr>pClassData := Some raw_handle,
       in_maxpacket := (\<lambda>_. 64), in_total_length := (\<lambda>_. 64)\<rparr>" raw_handle 0]
  by (auto simp: fresh_cdc_def)

section \<open>Control requests\<close>

definition line_req :: "u8 \<Rightarrow> u8 \<Rightarrow> u16 \<Rightarrow> u16 \<Rightarrow> setup_req" where
  "line_req rt rq v len = \<lparr>bmRequest = rt, bRequest = rq, wValue = v, wIndex = 0, wLength = len\<rparr>"

lemma set_line_coding_simps [simp]:
  "linecoding (SET_LINE_CODING pbuf s) =
     \<lparr>bitrate = bytes_to_u32 (pbuf ! 0) (pbuf ! 1) (pbuf ! 2) (pbuf ! 3),
      format = pbuf ! 4, paritytype = pbuf ! 5, datatype_bits = pbuf ! 6\<rparr>"
  "pClassData (SET_LINE_CODING pbuf s) = pClassData s"
  by (simp_all add: SET_LINE_CODING_def Let_def)



text \<open>The request for the boot loader: of all line codings, exactly a bit rate of
  1200 while the backup register does not hold the magic value already writes that
  value and resets the chip, in this order; otherwise the control request causes no
  write and no reset. In particular the request is not repeated after the reset.\<close>

theorem touch_1200_resets_once:
  "usb_log (snd (USBD_CDC_Control 0x20 pbuf s)) =
     usb_log s @
     (if bytes_to_u32 (pbuf ! 0) (pbuf ! 1) (pbuf ! 2) (pbuf ! 3) = 1200 \<and> backup_reg s \<noteq> 0xAF
      then [BKUPWrite 0xAF, SystemReset] else []) \<and>
   usb_log (snd (USBD_CDC_Control 0x20 pbuf' (snd (USBD_CDC_Control 0x20 pbuf s)))) =
     usb_log (snd (USBD_CDC_Control 0x20 pbuf s)) @
     (if bytes_to_u32 (pbuf' ! 0) (pbuf' ! 1) (pbuf' ! 2) (pbuf' ! 3) = 1200 \<and> backup_reg s \<noteq> 0xAF \<and>
         bytes_to_u32 (pbuf ! 0) (pbuf ! 1) (pbuf ! 2) (pbuf ! 3) \<noteq> 1200
      then [BKUPWrite 0xAF, SystemReset] else [])"
  by (simp add: USBD_CDC_Control_def SET_LINE_CODING_def Let_def consts_simp)

text \<open>The port counts as connected exactly while the device is configured, the host
  holds DTR, and no transfer has been pending for 3 ms; the age of a transfer is right
  across the wrap-around of the 32-bit millisecond tick.\<close>

theorem connected_iff:
  assumes "0 < transmitStart s" and "transmitStart s < 2 ^ 32" and "d < 2 ^ 32"
  shows "CDC_connected tick (s\<lparr>transmitStart := 0\<rparr>) =
      (dev_state s = USBD_STATE_CONFIGURED \<and> dtrState s) \<and>
    CDC_connected (to_u32 (int (transmitStart s) + int d)) s =
     (dev_state s = USBD_STATE_CONFIGURED \<and> dtrState s \<and> d < 3)"
proof -
  have "to_u32 (int (to_u32 (int (transmitStart s) + int d)) - int (transmitStart s)) = d"
    using assms by (simp add: to_u32_def mod_diff_left_eq)
  then show ?thesis
    using assms(1) by (auto simp: CDC_connected_def Let_def consts_simp)
qed

theorem connected_iff_witness:
  "(CDC_connected (to_u32 (int 4294967295 + int 2)) (fresh_cdc\<lparr>transmitStart := 4294967295, dtrState := True\<rparr>)
     \<longleftrightarrow> (2::nat) < 3)"
  using connected_iff [where d = 2 and s = "fresh_cdc\<lparr>transmitStart := 4294967295, dtrState := True\<rparr>"]
  by (simp add: fresh_cdc_def consts_simp)

section \<open>Descriptors\<close>

text \<open>Each configuration descriptor splits exactly, by its length bytes, into a
  configuration header with the right total length and as many interfaces, numbered
  from 0, as it announces, each followed by as many endpoint descriptors as it
  announces; and the endpoints it announces (address, type, packet size) are those
  \<^verbatim>\<open>USBD_CDC_Init\<close> opens at that speed.\<close>

theorem configuration_matches_endpoints:
  "config_ok USB_DESC_TYPE_CONFIGURATION (fst USBD_CDC_GetFSCfgDesc) \<and>
   config_ok USB_DESC_TYPE_CONFIGURATION (fst USBD_CDC_GetHSCfgDesc) \<and>
   config_ok USB_DESC_TYPE_OTHER_SPEED_CONFIGURATION (fst USBD_CDC_GetOtherSpeedCfgDesc) \<and>
   snd USBD_CDC_GetFSCfgDesc = 67 \<and> snd USBD_CDC_GetHSCfgDesc = 67 \<and> snd USBD_CDC_GetOtherSpeedCfgDesc = 67 \<and>
   mset (opened_eps (usb_log (snd (USBD_CDC_Init (Some h) (s\<lparr>usb_log := []\<rparr>))))) =
     mset (config_eps (fst (if dev_speed s = USBD_SPEED_HIGH then USBD_CDC_GetHSCfgDesc
                            else USBD_CDC_GetFSCfgDesc)))"
  using config_tables config_lengths
  by (simp add: USBD_CDC_GetFSCfgDesc_def USBD_CDC_GetHSCfgDesc_def
      USBD_CDC_GetOtherSpeedCfgDesc_def init_opens config_eps_tables Let_def)

end
