(* ===== verification/Cdc_Rx_Race.thy ===== *)
theory Cdc_Rx_Race
  imports Cdc_Rx_Queue
begin

text \<open>
  The receive queue has no lock: \<^verbatim>\<open>CDC_ReceiveQueue_Read\<close> runs in the main thread
  while the USB interrupt commits packets and reserves blocks in the same queue
  (\<^verbatim>\<open>USBD_CDC_Receive\<close> of \<^verbatim>\<open>usbd_cdc_if.c\<close>). Here the reader is cut into its accesses
  to shared memory: the load of \<open>write\<close>, the load of \<open>length\<close>, the first rewind, every
  byte of the \<open>memcpy\<close>, the store of \<open>read\<close>, the second rewind, and the call of
  \<^verbatim>\<open>CDC_resume_receive\<close> that follows in \<^verbatim>\<open>USBSerial::readBytes\<close>. An interrupt may come
  between any two of them. The step relation is the interleaving; the invariant says
  the loaded values still bound what may be read.
\<close>

section \<open>The machine\<close>

datatype reader_pc =
    R_idle
  | R_wrote nat nat
  | R_loaded nat nat nat
  | R_rewound nat nat nat
  | R_copy nat nat nat "u8 list"
  | R_stored nat nat "u8 list"
  | R_resume "u8 list"

record rx_sys =
  sys_queue :: rx_queue
  sys_armed :: "nat option"
  sys_pc :: reader_pc
  sys_arrived :: "u8 list"
  sys_read :: "u8 list"

text \<open>The interrupt: the core has stored a packet at the armed offset,
  \<^verbatim>\<open>CDC_ReceiveQueue_CommitBlock\<close> accepts it and \<^verbatim>\<open>CDC_ReceiveQueue_ReserveBlock\<close> looks
  for the place of the next.\<close>

definition rx_irq :: "u8 list \<Rightarrow> nat \<Rightarrow> rx_queue \<Rightarrow> (nat option \<times> rx_queue) option" where
  "rx_irq xs off q =
     do { b \<leftarrow> mem_write (rq_buffer q) off xs;
          Some (CDC_ReceiveQueue_ReserveBlock
                 (CDC_ReceiveQueue_CommitBlock (q\<lparr>rq_buffer := b\<rparr>) (length xs))) }"

text \<open>The size the reader settles on after its first rewind.\<close>

definition read_size :: "nat \<Rightarrow> nat \<Rightarrow> nat \<Rightarrow> rx_queue \<Rightarrow> nat" where
  "read_size n w l q = (if rq_available w l q < n then rq_available w l q else n)"

inductive rx_step :: "rx_sys \<Rightarrow> rx_sys \<Rightarrow> bool" where
  irq: "sys_armed s = Some off \<Longrightarrow> length xs \<le> CDC_QUEUE_MAX_PACKET_SIZE \<Longrightarrow>
     rx_irq xs off (sys_queue s) = Some (r, q') \<Longrightarrow>
     rx_step s (s\<lparr>sys_queue := q', sys_armed := r, sys_arrived := sys_arrived s @ xs\<rparr>)"
| load_write: "sys_pc s = R_idle \<Longrightarrow>
     rx_step s (s\<lparr>sys_pc := R_wrote n (rq_write (sys_queue s))\<rparr>)"
| load_length: "sys_pc s = R_wrote n w \<Longrightarrow>
     rx_step s (s\<lparr>sys_pc := R_loaded n w (rq_length (sys_queue s))\<rparr>)"
| rewind: "sys_pc s = R_loaded n w l \<Longrightarrow>
     rx_step s (s\<lparr>sys_pc := R_rewound n w l, sys_queue := rq_rewind l (sys_queue s)\<rparr>)"
| begin_copy: "sys_pc s = R_rewound n w l \<Longrightarrow>
     rx_step s (s\<lparr>sys_pc := R_copy (read_size n w l (sys_queue s)) w l []\<rparr>)"
| copy_byte: "sys_pc s = R_copy k w l out \<Longrightarrow> length out < k \<Longrightarrow>
     mem_get (rq_buffer (sys_queue s)) (rq_read (sys_queue s) + length out) = Some ch \<Longrightarrow>
     rx_step s (s\<lparr>sys_pc := R_copy k w l (out @ [ch])\<rparr>)"
| store_read: "sys_pc s = R_copy k w l out \<Longrightarrow> length out = k \<Longrightarrow>
     rx_step s (s\<lparr>sys_pc := R_stored w l out,
       sys_queue := (sys_queue s)\<lparr>rq_read := to_u16 (int (rq_read (sys_queue s)) + int k)\<rparr>\<rparr>)"
| rewind_again: "sys_pc s = R_stored w l out \<Longrightarrow>
     rx_step s (s\<lparr>sys_pc := R_resume out, sys_queue := rq_rewind l (sys_queue s)\<rparr>)"
| resume: "sys_pc s = R_resume out \<Longrightarrow> sys_armed s = None \<Longrightarrow>
     CDC_ReceiveQueue_ReserveBlock (sys_queue s) = (r, q') \<Longrightarrow>
     rx_step s (s\<lparr>sys_pc := R_idle, sys_queue := q', sys_armed := r, sys_read := sys_read s @ out\<rparr>)"
| no_resume: "sys_pc s = R_resume out \<Longrightarrow> sys_armed s = Some off \<Longrightarrow>
     rx_step s (s\<lparr>sys_pc := R_idle, sys_read := sys_read s @ out\<rparr>)"

text \<open>The states the machine can reach from a freshly initialised queue.\<close>

definition rx_start :: "u8 list \<Rightarrow> rx_sys" where
  "rx_start buf =
     (let q = CDC_ReceiveQueue_Init \<lparr>rq_buffer = buf, rq_write = 0, rq_read = 0, rq_length = 0\<rparr>;
          (r, q') = CDC_ReceiveQueue_ReserveBlock q
      in \<lparr>sys_queue = q', sys_armed = r, sys_pc = R_idle, sys_arrived = [], sys_read = []\<rparr>)"

inductive rx_reach :: "u8 list \<Rightarrow> rx_sys \<Rightarrow> bool" where
  start: "length buf = CDC_RECEIVE_QUEUE_BUFFER_SIZE \<Longrightarrow> rx_reach buf (rx_start buf)"
| step: "rx_reach buf s \<Longrightarrow> rx_step s s' \<Longrightarrow> rx_reach buf s'"

section \<open>The invariant\<close>

text \<open>The bytes the reader has taken out of the queue but not yet returned.\<close>

fun pc_taken :: "reader_pc \<Rightarrow> u8 list" where
  "pc_taken (R_stored w l out) = out"
| "pc_taken (R_resume out) = out"
| "pc_taken _ = []"

fun pc_inv :: "reader_pc \<Rightarrow> rx_queue \<Rightarrow> bool" where
  "pc_inv R_idle q = True"
| "pc_inv (R_wrote n w) q = rx_view w (rq_length q) q"
| "pc_inv (R_loaded n w l) q = rx_view w l q"
| "pc_inv (R_rewound n w l) q = (rx_view w l q \<and> rq_read q < l)"
| "pc_inv (R_copy k w l out) q =
     (rx_view w l q \<and> rq_read q < l \<and> k \<le> rq_available w l q \<and> length out \<le> k \<and>
      out = take (length out) (rx_content q))"
| "pc_inv (R_stored w l out) q = rx_view w l q"
| "pc_inv (R_resume out) q = True"

definition race_inv :: "rx_sys \<Rightarrow> bool" where
  "race_inv s \<longleftrightarrow> rx_inv (sys_queue s) \<and>
     (\<forall>off. sys_armed s = Some off \<longrightarrow> rx_block (sys_queue s) off) \<and>
     pc_inv (sys_pc s) (sys_queue s) \<and>
     sys_arrived s = sys_read s @ pc_taken (sys_pc s) @ rx_content (sys_queue s)"

lemma rx_irq_view:
  assumes inv: "rx_inv q" and blk: "rx_block q off" and le: "length xs \<le> 64"
    and b: "mem_write (rq_buffer q) off xs = Some b"
    and res: "CDC_ReceiveQueue_ReserveBlock (CDC_ReceiveQueue_CommitBlock (q\<lparr>rq_buffer := b\<rparr>) (length xs)) = (r, q')"
  shows "rx_view w l q \<Longrightarrow> rx_view w l q'"
    and "rx_view w (rq_length q) q \<Longrightarrow> rx_view w (rq_length q') q'"
    and "rq_read q' = rq_read q"
proof -
  have small: "to_u16 (int (rq_write q) + int (length xs)) = rq_write q + length xs"
    using rx_block_fits [OF blk inv] inv le blk by (simp add: rx_inv_def rx_block_def flip: of_nat_add)
  note defs = CDC_ReceiveQueue_ReserveBlock_def CDC_ReceiveQueue_CommitBlock_def Let_def small
    rx_inv_def rx_block_def rx_view_def
  show "rx_view w l q \<Longrightarrow> rx_view w l q'"
    using inv blk le res by (auto simp: defs split: if_splits)
  show "rx_view w (rq_length q) q \<Longrightarrow> rx_view w (rq_length q') q'"
    using inv blk le res by (auto simp: defs split: if_splits)
  show "rq_read q' = rq_read q"
    using res by (auto simp: defs split: if_splits)
qed

lemma rx_store:
  assumes inv: "rx_inv q" and view: "rx_view w l q" and rd: "rq_read q < l"
    and n: "n \<le> rq_available w l q"
  defines "q' \<equiv> q\<lparr>rq_read := rq_read q + n\<rparr>"
  shows "rx_inv q'" and "rx_view w l q'" and "rx_content q' = drop n (rx_content q)" and "rx_moved q q'"
proof -
  note n' = n [unfolded rx_available [OF inv view rd]]
  show "rx_inv q'" "rx_view w l q'" "rx_moved q q'"
    using inv view rd n' by (auto simp: q'_def rx_inv_def rx_view_def rx_moved_def split: if_splits)
  show "rx_content q' = drop n (rx_content q)"
    using inv view rd n'
    by (auto simp: q'_def rx_inv_def rx_view_def rx_content_def drop_seg split: if_splits)
qed

lemma irq_pc_inv:
  assumes "pc_inv pc q" and "\<And>w l. rx_view w l q \<Longrightarrow> rx_view w l q'"
    and "\<And>w. rx_view w (rq_length q) q \<Longrightarrow> rx_view w (rq_length q') q'"
    and "rq_read q' = rq_read q" and "rx_content q' = rx_content q @ xs"
  shows "pc_inv pc q'"
proof (cases pc)
  case (R_copy k w l out)
  have "length out \<le> length (rx_content q)"
    using assms(1) R_copy by (simp, metis length_take min.cobounded2 min.commute)
  moreover have "rq_available w l q' = rq_available w l q"
    using assms(4) by (simp add: rq_available_def)
  ultimately show ?thesis using assms R_copy by simp
qed (use assms in auto)

lemma race_irq:
  assumes inv: "race_inv s" and armed: "sys_armed s = Some off" and le: "length xs \<le> 64"
    and irq: "rx_irq xs off (sys_queue s) = Some (r, q')"
  shows "race_inv (s\<lparr>sys_queue := q', sys_armed := r, sys_arrived := sys_arrived s @ xs\<rparr>)"
proof -
  let ?q = "sys_queue s"
  have rx: "rx_inv ?q" and blk: "rx_block ?q off" and pc: "pc_inv (sys_pc s) ?q"
    and st: "sys_arrived s = sys_read s @ pc_taken (sys_pc s) @ rx_content ?q"
    using inv armed by (simp_all add: race_inv_def)
  obtain b where b: "mem_write (rq_buffer ?q) off xs = Some b"
    and res: "CDC_ReceiveQueue_ReserveBlock
       (CDC_ReceiveQueue_CommitBlock (?q\<lparr>rq_buffer := b\<rparr>) (length xs)) = (r, q')"
    using irq by (auto simp: rx_irq_def split: bind_splits)
  note com = rx_CommitBlock [OF rx blk le b]
  note rs = rx_ReserveBlock [OF com(1) res]
  note v = rx_irq_view [OF rx blk le b res]
  have "rx_content q' = rx_content ?q @ xs" using rs(2) com(2) by simp
  with irq_pc_inv [OF pc v(1) v(2) v(3) this] show ?thesis
    using rs(1,5) st by (simp add: race_inv_def)
qed

lemma race_main:
  assumes inv: "race_inv s" and "rx_inv q'" and "rx_moved (sys_queue s) q'"
    and "pc_inv pc q'" and "pc_taken (sys_pc s) @ rx_content (sys_queue s) = pc_taken pc @ rx_content q'"
  shows "race_inv (s\<lparr>sys_pc := pc, sys_queue := q'\<rparr>)"
  using assms rx_moved_block [of "sys_queue s" q'] by (auto simp: race_inv_def)

lemma rx_moved_refl: "rx_moved q q"
  by (simp add: rx_moved_def)

lemma race_step_inv:
  assumes "rx_step s s'" and "race_inv s"
  shows "race_inv s'"
  using assms
proof (induction rule: rx_step.induct)
  case (irq s off xs r q')
  then show ?case using race_irq [of s off xs r q'] by simp
next
  case (load_write s n)
  then have "rx_inv (sys_queue s)" by (simp add: race_inv_def)
  with load_write race_main [of s "sys_queue s" "R_wrote n (rq_write (sys_queue s))"] show ?case
    by (simp add: rx_view_load rx_moved_refl)
next
  case (load_length s n w)
  then have "rx_inv (sys_queue s)" "rx_view w (rq_length (sys_queue s)) (sys_queue s)"
    by (simp_all add: race_inv_def)
  with load_length race_main [of s "sys_queue s" "R_loaded n w (rq_length (sys_queue s))"] show ?case
    by (simp add: rx_moved_refl)
next
  case (rewind s n w l)
  then have i: "rx_inv (sys_queue s)" "rx_view w l (sys_queue s)" by (simp_all add: race_inv_def)
  from rewind race_main [of s "rq_rewind l (sys_queue s)" "R_rewound n w l"] show ?case
    using rx_rewind [OF i] by simp
next
  case (begin_copy s n w l)
  then have "rx_inv (sys_queue s)" "rx_view w l (sys_queue s) \<and> rq_read (sys_queue s) < l"
    by (simp_all add: race_inv_def)
  with begin_copy race_main [of s "sys_queue s" "R_copy (read_size n w l (sys_queue s)) w l []"]
  show ?case by (simp add: rx_moved_refl read_size_def)
next
  case (copy_byte s k w l out ch)
  let ?q = "sys_queue s"
  have i: "rx_inv ?q" "rx_view w l ?q" "rq_read ?q < l" "k \<le> rq_available w l ?q"
    "out = take (length out) (rx_content ?q)" "length out < k"
    using copy_byte by (simp_all add: race_inv_def)
  note adv = rx_advance [OF i(1-4)]
  have "rq_read ?q + length out < length (rq_buffer ?q)"
    using adv(6) i(1,6) by (simp add: rx_inv_def)
  then have "ch = rq_buffer ?q ! (rq_read ?q + length out)"
    using copy_byte(3) by simp
  also have "\<dots> = take k (drop (rq_read ?q) (rq_buffer ?q)) ! length out"
    using i(6) adv(6) i(1) by (simp add: rx_inv_def)
  also have "take k (drop (rq_read ?q) (rq_buffer ?q)) = take k (rx_content ?q)"
    using adv(1) by (simp add: mem_read_def split: if_splits)
  finally have "take (Suc (length out)) (rx_content ?q) = out @ [ch]"
    using i(5,6) adv(5) by (simp add: take_Suc_conv_app_nth)
  with i have "pc_inv (R_copy k w l (out @ [ch])) ?q" by simp
  with i copy_byte race_main [of s ?q "R_copy k w l (out @ [ch])"] show ?case
    by (simp add: rx_moved_refl)
next
  case (store_read s k w l out)
  let ?q = "sys_queue s"
  have i: "rx_inv ?q" "rx_view w l ?q" "rq_read ?q < l" "k \<le> rq_available w l ?q"
    "out = take k (rx_content ?q)"
    using store_read by (simp_all add: race_inv_def)
  note st = rx_store [OF i(1-4)]
  have "to_u16 (int (rq_read ?q) + int k) = rq_read ?q + k"
    using rx_advance(6) [OF i(1-4)] by (simp flip: of_nat_add)
  with st store_read i race_main [of s "?q\<lparr>rq_read := rq_read ?q + k\<rparr>" "R_stored w l out"]
  show ?case by simp
next
  case (rewind_again s w l out)
  then have i: "rx_inv (sys_queue s)" "rx_view w l (sys_queue s)" by (simp_all add: race_inv_def)
  from rewind_again race_main [of s "rq_rewind l (sys_queue s)" "R_resume out"] show ?case
    using rx_rewind [OF i] by simp
next
  case (resume s out r q')
  then have i: "rx_inv (sys_queue s)" by (simp add: race_inv_def)
  from rx_ReserveBlock [OF i resume(3)] resume show ?case by (simp add: race_inv_def)
next
  case (no_resume s out off)
  then show ?case by (simp add: race_inv_def)
qed

lemma race_start:
  assumes "length buf = 192"
  shows "race_inv (rx_start buf)"
proof -
  let ?q = "CDC_ReceiveQueue_Init \<lparr>rq_buffer = buf, rq_write = 0, rq_read = 0, rq_length = 0\<rparr>"
  obtain r q where q: "CDC_ReceiveQueue_ReserveBlock ?q = (r, q)"
    by (cases "CDC_ReceiveQueue_ReserveBlock ?q")
  have i: "rx_inv ?q" "rx_content ?q = []" using rx_init [of "\<lparr>rq_buffer = buf, rq_write = 0, rq_read = 0, rq_length = 0\<rparr>"] assms by auto
  from rx_ReserveBlock [OF i(1) q] i(2) q show ?thesis
    by (simp add: race_inv_def rx_start_def)
qed

lemma race_reach: "rx_reach buf s \<Longrightarrow> race_inv s"
  by (induction rule: rx_reach.induct) (auto intro: race_start race_step_inv)

section \<open>Properties\<close>





end
