(* ===== verification/Virtio_Buffer.thy ===== *)
theory Virtio_Buffer
  imports Fifo_Interface Ring
begin

text \<open>
  The ring buffer of the virtual serial port over OpenAMP,
  \<^verbatim>\<open>cores/arduino/stm32/OpenAMP/virtio_buffer.c\<close>. The indices are \<^verbatim>\<open>uint16_t\<close>, the
  differences \<^verbatim>\<open>int32_t\<close>; sizes are given as \<^verbatim>\<open>uint16_t\<close>. What a read stores at
  \<open>dst\<close> is its result.
\<close>

text \<open>\<^verbatim>\<open>RPMSG_VRING_TOTAL_PAYLOAD_SIZE\<close> is 16 buffers of 496 bytes.\<close>

definition VIRTIO_BUFFER_SIZE :: nat where
  [consts_simp]: "VIRTIO_BUFFER_SIZE = 496 * 16 + 1"

record virtio_buffer =
  vb_buffer :: "u8 list"
  write_index :: nat
  read_index :: nat

definition virtio_buffer_init :: "virtio_buffer \<Rightarrow> virtio_buffer" where
  "virtio_buffer_init ring = ring\<lparr>write_index := 0, read_index := 0\<rparr>"

definition virtio_buffer_read_available :: "virtio_buffer \<Rightarrow> nat" where
  "virtio_buffer_read_available ring =
     (let delta = int (write_index ring) - int (read_index ring) in
      if delta < 0 then to_u16 (int VIRTIO_BUFFER_SIZE + delta) else to_u16 delta)"

text \<open>The two corrections the code makes: \<^verbatim>\<open>if (delta < 0) delta += VIRTIO_BUFFER_SIZE\<close> and
  \<^verbatim>\<open>if (index >= VIRTIO_BUFFER_SIZE) index -= VIRTIO_BUFFER_SIZE\<close>.\<close>

definition wrap_delta :: "int \<Rightarrow> int" where
  "wrap_delta delta = (if delta < 0 then delta + int VIRTIO_BUFFER_SIZE else delta)"

definition wrap_index :: "nat \<Rightarrow> nat" where
  "wrap_index i = (if i \<ge> VIRTIO_BUFFER_SIZE then to_u16 (int i - int VIRTIO_BUFFER_SIZE) else i)"

definition ring_read :: "bool \<Rightarrow> nat \<Rightarrow> virtio_buffer \<Rightarrow> (u8 list \<times> virtio_buffer) option" where
  "ring_read peek sz ring =
     (let ri = read_index ring;
          delta = wrap_delta (int (write_index ring) - int ri);
          n = to_u16 (min (int sz) delta)
      in do { bytes \<leftarrow>
                (if n + ri > VIRTIO_BUFFER_SIZE
                 then do { a \<leftarrow> mem_read (vb_buffer ring) ri (VIRTIO_BUFFER_SIZE - ri);
                           b \<leftarrow> mem_read (vb_buffer ring) 0 (n - (VIRTIO_BUFFER_SIZE - ri));
                           Some (a @ b) }
                 else mem_read (vb_buffer ring) ri n);
              Some (bytes,
                if \<not> peek
                then ring\<lparr>read_index := wrap_index (to_u16 (int (read_index ring) + int n))\<rparr>
                else ring) })"

definition virtio_buffer_read :: "nat \<Rightarrow> virtio_buffer \<Rightarrow> (u8 list \<times> virtio_buffer) option" where
  "virtio_buffer_read sz ring = ring_read False sz ring"

definition virtio_buffer_peek :: "nat \<Rightarrow> virtio_buffer \<Rightarrow> (u8 list \<times> virtio_buffer) option" where
  "virtio_buffer_peek sz ring = ring_read True sz ring"

definition virtio_buffer_write_available :: "virtio_buffer \<Rightarrow> nat" where
  "virtio_buffer_write_available ring =
     (let delta = int (read_index ring) - int (write_index ring) - 1 in
      if delta < 0 then to_u16 (int VIRTIO_BUFFER_SIZE + delta) else to_u16 delta)"

definition virtio_buffer_write :: "u8 list \<Rightarrow> nat \<Rightarrow> virtio_buffer \<Rightarrow> (nat \<times> virtio_buffer) option" where
  "virtio_buffer_write src sz ring =
     (let wi = write_index ring;
          delta = wrap_delta (int (read_index ring) - int wi - 1);
          n = to_u16 (min (int sz) delta)
      in do { b \<leftarrow>
                (if n + wi > VIRTIO_BUFFER_SIZE
                 then do { b1 \<leftarrow> memcpy (vb_buffer ring) wi src 0 (VIRTIO_BUFFER_SIZE - wi);
                           memcpy b1 0 src (VIRTIO_BUFFER_SIZE - wi) (n - (VIRTIO_BUFFER_SIZE - wi)) }
                 else memcpy (vb_buffer ring) wi src 0 n);
              Some (n, ring\<lparr>vb_buffer := b,
                         write_index := wrap_index (to_u16 (int (write_index ring) + int n))\<rparr>) })"

section \<open>The ring is a FIFO of 7936 bytes\<close>

definition virtio_inv :: "virtio_buffer \<Rightarrow> bool" where
  "virtio_inv ring \<longleftrightarrow> length (vb_buffer ring) = VIRTIO_BUFFER_SIZE \<and>
     write_index ring < VIRTIO_BUFFER_SIZE \<and> read_index ring < VIRTIO_BUFFER_SIZE"

definition virtio_content :: "virtio_buffer \<Rightarrow> u8 list" where
  "virtio_content ring = ring_content (vb_buffer ring) (read_index ring) (write_index ring)"

lemma virtio_size [simp]: "VIRTIO_BUFFER_SIZE = 7937"
  by (simp add: consts_simp)

lemma virtio_init: "length (vb_buffer ring) = VIRTIO_BUFFER_SIZE \<Longrightarrow>
    virtio_inv (virtio_buffer_init ring) \<and> virtio_content (virtio_buffer_init ring) = []"
  by (simp add: virtio_inv_def virtio_content_def virtio_buffer_init_def)

lemma virtio_content_bound: "virtio_inv ring \<Longrightarrow> length (virtio_content ring) \<le> 7936"
  using ring_content_less [of "read_index ring" "vb_buffer ring" "write_index ring"]
  by (auto simp: virtio_inv_def virtio_content_def)

lemma virtio_delta:
  assumes "virtio_inv ring"
  shows "wrap_delta (int (write_index ring) - int (read_index ring)) = int (length (virtio_content ring))"
    and "wrap_delta (int (read_index ring) - int (write_index ring) - 1) =
      7936 - int (length (virtio_content ring))"
  using assms
  by (auto simp: wrap_delta_def virtio_inv_def virtio_content_def length_ring_content of_nat_diff)

lemma virtio_available:
  assumes "virtio_inv ring"
  shows "virtio_buffer_read_available ring = length (virtio_content ring)"
    and "virtio_buffer_write_available ring = 7936 - length (virtio_content ring)"
  using virtio_delta [OF assms] virtio_content_bound [OF assms]
  by (auto simp: virtio_buffer_read_available_def virtio_buffer_write_available_def Let_def
      wrap_delta_def add.commute split: if_splits)

lemma virtio_step_index:
  assumes "i < 7937" and "n \<le> 7936"
  shows "wrap_index (to_u16 (int i + int n)) = ring_step 7937 i n"
  using assms by (auto simp: wrap_index_def ring_step_def nat_diff_distrib simp flip: of_nat_add)

lemma virtio_read:
  fixes sz :: nat
  assumes inv: "virtio_inv ring"
  defines "n \<equiv> min sz (length (virtio_content ring))"
  shows "\<exists>ring'. ring_read peek sz ring = Some (take n (virtio_content ring), ring') \<and> virtio_inv ring' \<and>
    (if peek then ring' = ring else virtio_content ring' = drop n (virtio_content ring))"
proof -
  let ?b = "vb_buffer ring" and ?r = "read_index ring" and ?w = "write_index ring"
  let ?ring = "ring\<lparr>read_index := ring_step 7937 ?r n\<rparr>"
  have len: "length ?b = 7937" and r: "?r < 7937" and w: "?w < 7937"
    using inv by (simp_all add: virtio_inv_def)
  have n: "n \<le> length (virtio_content ring)" "n \<le> 7936"
    using virtio_content_bound [OF inv] by (simp_all add: n_def)
  have size: "to_u16 (min (int sz) (int (length (virtio_content ring)))) = n"
    using n(2) by (simp add: n_def flip: of_nat_min)
  have bytes: "(if n + ?r > 7937
       then do { a \<leftarrow> mem_read ?b ?r (7937 - ?r); b \<leftarrow> mem_read ?b 0 (n - (7937 - ?r)); Some (a @ b) }
       else mem_read ?b ?r n) = Some (take n (virtio_content ring))"
  proof (cases "n + ?r > 7937")
    case True
    then have "seg ?b ?r 7937 @ seg ?b 0 (n - (7937 - ?r)) = take n (virtio_content ring)"
      using ring_take_split(1) [of ?r ?b ?w n] len r w n by (simp add: virtio_content_def)
    moreover have "n - (7937 - ?r) \<le> 7937" using n by simp
    ultimately show ?thesis using True len r by (simp add: mem_read_seg)
  next
    case False
    then show ?thesis
      using ring_take_flat(1) [of ?r ?b ?w n] len r w n
      by (simp add: virtio_content_def mem_read_seg)
  qed
  have content: "virtio_content ?ring = drop n (virtio_content ring)"
    using ring_take_split(2) [of ?r ?b ?w n] ring_take_flat(2) [of ?r ?b ?w n] len r w n
    by (cases "?r + n \<le> 7937") (simp_all add: virtio_content_def)
  have "virtio_inv ?ring"
    using inv n(2) r ring_step_less [of ?r 7937 n] by (simp add: virtio_inv_def)
  moreover have "ring_read peek sz ring = Some (take n (virtio_content ring), if peek then ring else ?ring)"
    unfolding ring_read_def Let_def virtio_size virtio_delta(1) [OF inv] size bytes
      virtio_step_index [OF r n(2)]
    by simp
  ultimately show ?thesis using content inv by simp
qed

lemma virtio_write:
  fixes src :: "u8 list"
  assumes inv: "virtio_inv ring"
  defines "n \<equiv> min (length src) (7936 - length (virtio_content ring))"
  shows "\<exists>ring'. virtio_buffer_write src (length src) ring = Some (n, ring') \<and> virtio_inv ring' \<and>
    virtio_content ring' = virtio_content ring @ take n src"
proof -
  let ?b = "vb_buffer ring" and ?r = "read_index ring" and ?w = "write_index ring"
  let ?xs = "take n src"
  have len: "length ?b = 7937" and r: "?r < 7937" and w: "?w < 7937"
    using inv by (simp_all add: virtio_inv_def)
  have n: "length (virtio_content ring) + n < 7937" "n \<le> 7936" "length ?xs = n"
    using virtio_content_bound [OF inv] by (simp_all add: n_def)
  have size: "to_u16 (min (int (length src)) (7936 - int (length (virtio_content ring)))) = n"
    using n(2) virtio_content_bound [OF inv] by (simp add: n_def flip: of_nat_min of_nat_diff)
  have "\<exists>b. (if n + ?w > 7937
       then do { b1 \<leftarrow> memcpy ?b ?w src 0 (7937 - ?w); memcpy b1 0 src (7937 - ?w) (n - (7937 - ?w)) }
       else memcpy ?b ?w src 0 n) = Some b \<and> length b = 7937 \<and>
     ring_content b ?r (ring_step 7937 ?w n) = virtio_content ring @ ?xs"
  proof (cases "n + ?w > 7937")
    case True
    have "?w + length (take (7937 - ?w) ?xs) \<le> length ?b" using len w by simp
    then obtain b1 where b1: "mem_write ?b ?w (take (7937 - ?w) ?xs) = Some b1"
      using mem_write_ok by blast
    have l1: "length b1 = 7937" using mem_write_length [OF b1] len by simp
    have "0 + length (drop (7937 - ?w) ?xs) \<le> length b1" using l1 n(2) by simp
    then obtain b where b: "mem_write b1 0 (drop (7937 - ?w) ?xs) = Some b"
      using mem_write_ok by blast
    have "take (7937 - ?w) ?xs = take (7937 - ?w) src"
      using True w by (simp add: min_absorb1)
    then have c1: "memcpy ?b ?w src 0 (7937 - ?w) = Some b1"
      using b1 True n(3) by (simp add: memcpy_def mem_read_def)
    have "drop (7937 - ?w) ?xs = take (n - (7937 - ?w)) (drop (7937 - ?w) src)"
      by (simp add: drop_take)
    then have "memcpy b1 0 src (7937 - ?w) (n - (7937 - ?w)) = Some b"
      using b True n(3) by (simp add: memcpy_def mem_read_def)
    with c1 b1 b True ring_put_split [of ?r ?b ?w ?xs b1 b] len l1 r w n mem_write_length [OF b]
    show ?thesis by (simp add: virtio_content_def)
  next
    case False
    then have "?w + length ?xs \<le> length ?b" using len n(3) by simp
    then obtain b where b: "mem_write ?b ?w ?xs = Some b"
      using mem_write_ok by blast
    then have "memcpy ?b ?w src 0 n = Some b"
      using n(3) by (simp add: memcpy_def mem_read_def)
    with b False ring_put_flat [of ?r ?b ?w ?xs b] len r w n mem_write_length [OF b]
    show ?thesis by (simp add: virtio_content_def)
  qed
  then obtain b where b: "(if n + ?w > 7937
       then do { b1 \<leftarrow> memcpy ?b ?w src 0 (7937 - ?w); memcpy b1 0 src (7937 - ?w) (n - (7937 - ?w)) }
       else memcpy ?b ?w src 0 n) = Some b" "length b = 7937"
     "ring_content b ?r (ring_step 7937 ?w n) = virtio_content ring @ ?xs" by blast
  let ?ring = "ring\<lparr>vb_buffer := b, write_index := ring_step 7937 ?w n\<rparr>"
  have "virtio_buffer_write src (length src) ring = Some (n, ?ring)"
    unfolding virtio_buffer_write_def Let_def virtio_size virtio_delta(2) [OF inv] size b(1)
      virtio_step_index [OF w n(2)]
    by simp
  moreover have "virtio_inv ?ring"
    using b(2) n(2) r w ring_step_less [of ?w 7937 n] by (simp add: virtio_inv_def)
  ultimately show ?thesis using b(3) by (simp add: virtio_content_def)
qed

text \<open>The contract of a bounded byte buffer, over the code's own operations.\<close>

definition virtio_put :: "u8 list \<Rightarrow> virtio_buffer \<Rightarrow> virtio_buffer option" where
  "virtio_put xs ring = map_option snd (virtio_buffer_write xs (length xs) ring)"

interpretation virtio: bounded_fifo virtio_inv virtio_content virtio_buffer_write_available
  virtio_put virtio_buffer_read 7936
proof unfold_locales
  fix ring and xs :: "u8 list"
  assume inv: "virtio_inv ring" and "length xs \<le> virtio_buffer_write_available ring"
  then have "min (length xs) (7936 - length (virtio_content ring)) = length xs"
    using virtio_available(2) [OF inv] by simp
  then show "\<exists>ring'. virtio_put xs ring = Some ring' \<and> virtio_inv ring' \<and>
      virtio_content ring' = virtio_content ring @ xs"
    using virtio_write [OF inv, of xs] by (auto simp: virtio_put_def)
next
  fix ring n
  assume "virtio_inv ring"
  from virtio_read [OF this, of False n]
  show "\<exists>ys ring'. virtio_buffer_read n ring = Some (ys, ring') \<and> virtio_inv ring' \<and>
      virtio_content ring = ys @ virtio_content ring'"
    by (auto simp: virtio_buffer_read_def)
next
  fix ring
  assume "virtio_inv ring"
  from virtio_available(2) [OF this] virtio_content_bound [OF this]
  show "length (virtio_content ring) + virtio_buffer_write_available ring = 7936" by simp
qed

section \<open>Properties\<close>

text \<open>C7: The virtio ring is a FIFO for any interleaving of writes and reads: no call
  touches memory outside the buffer, what was read is a prefix of what was accepted,
  and it accepts up to 7936 bytes, the payload of all 16 buffers of the link, more than
  were read.\<close>

theorem virtio_ring_fifo:
  assumes "length (vb_buffer ring) = VIRTIO_BUFFER_SIZE"
  shows "\<exists>ins outs ring'. fifo_run virtio_buffer_write_available virtio_put virtio_buffer_read
      (virtio_buffer_init ring) ops = Some (ins, outs, ring') \<and>
    ins = outs @ virtio_content ring' \<and> length ins \<le> length outs + 16 * 496"
proof -
  have inv: "virtio_inv (virtio_buffer_init ring)" "virtio_content (virtio_buffer_init ring) = []"
    using virtio_init [OF assms] by auto
  from virtio.run_in_order [OF inv(1), of ops] obtain ins outs ring'
    where run: "fifo_run virtio_buffer_write_available virtio_put virtio_buffer_read
      (virtio_buffer_init ring) ops = Some (ins, outs, ring')" by blast
  with virtio.run_prefix [OF inv run] virtio.run_backlog [OF inv run] show ?thesis by simp
qed

theorem virtio_ring_fifo_witness:
  "\<exists>ins outs ring'. fifo_run virtio_buffer_write_available virtio_put virtio_buffer_read
      (virtio_buffer_init \<lparr>vb_buffer = replicate 7937 0, write_index = 5, read_index = 9\<rparr>)
      [Put [1, 2], Get 1, Put [3]] = Some (ins, outs, ring') \<and>
    ins = outs @ virtio_content ring' \<and> length ins \<le> length outs + 16 * 496"
  by (rule virtio_ring_fifo) simp

text \<open>Peeking returns what a read of the same size would return and changes nothing,
  and both return as many bytes as are asked for or, if fewer, as
  \<^verbatim>\<open>virtio_buffer_read_available\<close> announces.\<close>

theorem virtio_peek_reads_ahead:
  assumes "virtio_inv ring"
  shows "\<exists>bytes ring'. virtio_buffer_peek sz ring = Some (bytes, ring) \<and>
    virtio_buffer_read sz ring = Some (bytes, ring') \<and>
    length bytes = min sz (virtio_buffer_read_available ring) \<and>
    virtio_buffer_read_available ring' = virtio_buffer_read_available ring - length bytes"
proof -
  let ?n = "min sz (length (virtio_content ring))"
  from virtio_read [OF assms, of True sz] virtio_read [OF assms, of False sz] obtain ring'
    where r: "virtio_buffer_peek sz ring = Some (take ?n (virtio_content ring), ring)"
      "virtio_buffer_read sz ring = Some (take ?n (virtio_content ring), ring')" "virtio_inv ring'"
      "virtio_content ring' = drop ?n (virtio_content ring)"
    by (auto simp: virtio_buffer_peek_def virtio_buffer_read_def)
  then show ?thesis using virtio_available(1) [OF assms] virtio_available(1) [OF r(3)] by simp
qed

theorem virtio_peek_reads_ahead_witness:
  "\<exists>bytes ring'. virtio_buffer_peek 3 \<lparr>vb_buffer = replicate 7937 7, write_index = 1, read_index = 7936\<rparr>
      = Some (bytes, \<lparr>vb_buffer = replicate 7937 7, write_index = 1, read_index = 7936\<rparr>) \<and>
    virtio_buffer_read 3 \<lparr>vb_buffer = replicate 7937 7, write_index = 1, read_index = 7936\<rparr>
      = Some (bytes, ring')"
  using virtio_peek_reads_ahead
    [of "\<lparr>vb_buffer = replicate 7937 7, write_index = 1, read_index = 7936\<rparr>" 3]
  by (auto simp: virtio_inv_def)

end
