(* ===== verification/Itoa.thy ===== *)
theory Itoa
  imports Prelude
begin

text \<open>
  Number to string conversion, \<^verbatim>\<open>cores/arduino/itoa.c\<close>. \<^verbatim>\<open>long\<close> is a 32-bit
  integer here. The destination pointer is a flag (is it NULL), the result the bytes
  stored there, with the terminating zero; \<^term>\<open>Some None\<close> is the return value 0,
  with nothing stored, and \<^term>\<open>None\<close> undefined behaviour: a write behind
  \<^verbatim>\<open>char tmp[33]\<close>, or the negation of \<^verbatim>\<open>LONG_MIN\<close>.
\<close>

definition digit_char :: "nat \<Rightarrow> u8" where
  "digit_char i = (if i < 10 then of_nat (i + 48) else of_nat (i + 97 - 10))"

text \<open>The loop \<^verbatim>\<open>while (v || tp == tmp)\<close>; \<open>room\<close> cells of \<open>tmp\<close> are free.\<close>

fun digit_loop :: "nat \<Rightarrow> nat \<Rightarrow> nat \<Rightarrow> u8 list \<Rightarrow> u8 list option" where
  "digit_loop 0 radix v tmp = (if v \<noteq> 0 \<or> tmp = [] then None else Some tmp)"
| "digit_loop (Suc room) radix v tmp =
     (if v \<noteq> 0 \<or> tmp = []
      then digit_loop room radix (v div radix) (tmp @ [digit_char (v mod radix)])
      else Some tmp)"

definition ltoa :: "int \<Rightarrow> bool \<Rightarrow> int \<Rightarrow> u8 list option option" where
  "ltoa val string_null radix =
     (if string_null then Some None
      else if radix > 36 \<or> radix \<le> 1 then Some None
      else (let sign = (radix = 10 \<and> val < 0) in
            if sign \<and> val = - 2147483648 then None
            else (let v = (if sign then to_u32 (- val) else to_u32 val) in
                  do { tmp \<leftarrow> digit_loop 33 (nat radix) v [];
                       Some (Some ((if sign then [45] else []) @ rev tmp @ [0])) })))"

definition itoa :: "int \<Rightarrow> bool \<Rightarrow> int \<Rightarrow> u8 list option option" where
  "itoa val string_null radix = ltoa val string_null radix"

definition ultoa :: "nat \<Rightarrow> bool \<Rightarrow> int \<Rightarrow> u8 list option option" where
  "ultoa v string_null radix =
     (if string_null then Some None
      else if radix > 36 \<or> radix \<le> 1 then Some None
      else do { tmp \<leftarrow> digit_loop 33 (nat radix) v [];
                Some (Some (rev tmp @ [0])) })"

definition utoa :: "nat \<Rightarrow> bool \<Rightarrow> int \<Rightarrow> u8 list option option" where
  "utoa v string_null radix = ultoa v string_null radix"

section \<open>Reading the digits back\<close>

definition digit_value :: "u8 \<Rightarrow> nat" where
  "digit_value c = (if unat c < 97 then unat c - 48 else unat c - 87)"

fun digits_value :: "nat \<Rightarrow> nat \<Rightarrow> u8 list \<Rightarrow> nat" where
  "digits_value radix acc [] = acc"
| "digits_value radix acc (c # cs) = digits_value radix (acc * radix + digit_value c) cs"

text \<open>The little-endian value of the digits the loop has stored.\<close>

fun value_le :: "nat \<Rightarrow> u8 list \<Rightarrow> nat" where
  "value_le radix [] = 0"
| "value_le radix (c # cs) = digit_value c + radix * value_le radix cs"

lemma digit_char_value: "i < 36 \<Longrightarrow> digit_value (digit_char i) = i"
proof -
  have "\<forall>i \<in> set [0..<36]. digit_value (digit_char i) = i" by code_simp
  then show "i < 36 \<Longrightarrow> digit_value (digit_char i) = i" by simp
qed

lemma digits_value_append:
  "digits_value radix acc (xs @ [c]) = digits_value radix acc xs * radix + digit_value c"
  by (induction xs arbitrary: acc) auto

lemma digits_value_rev: "digits_value radix 0 (rev xs) = value_le radix xs"
  by (induction xs) (simp_all add: digits_value_append algebra_simps)

lemma value_le_append:
  "value_le radix (xs @ [c]) = value_le radix xs + radix ^ length xs * digit_value c"
  by (induction xs) (simp_all add: algebra_simps)

text \<open>The loop invariant: what is stored and what is left make up the value, every
  stored character is a digit of the radix, and the last one stored is not a leading
  zero once more follow.\<close>

lemma digit_loop_ok:
  assumes "2 \<le> radix" and "radix \<le> 36" and "v < radix ^ room" and "0 < room \<or> tmp \<noteq> []"
  shows "\<exists>ds. digit_loop room radix v tmp = Some (tmp @ ds) \<and>
    (v = 0 \<and> tmp \<noteq> [] \<longrightarrow> ds = []) \<and> (v \<noteq> 0 \<or> tmp = [] \<longrightarrow> ds \<noteq> []) \<and>
    (v \<noteq> 0 \<longrightarrow> last ds \<noteq> digit_char 0) \<and> length ds \<le> room \<and>
    value_le radix ds = v \<and> set ds \<subseteq> digit_char ` {..<radix} \<and> (v = 0 \<longrightarrow> length ds \<le> 1)"
  using assms
proof (induction room arbitrary: v tmp)
  case 0
  then show ?case by simp
next
  case (Suc room)
  show ?case
  proof (cases "v \<noteq> 0 \<or> tmp = []")
    case False
    then show ?thesis by simp
  next
    case go: True
    have lt: "v div radix < radix ^ room"
      using Suc.prems(1,3) by (simp add: less_mult_imp_div_less mult.commute)
    from Suc.IH [OF Suc.prems(1,2) lt, of "tmp @ [digit_char (v mod radix)]"] obtain ds
      where ds: "digit_loop room radix (v div radix) (tmp @ [digit_char (v mod radix)]) =
          Some (tmp @ digit_char (v mod radix) # ds)"
        "v div radix = 0 \<longrightarrow> ds = []" "v div radix \<noteq> 0 \<longrightarrow> ds \<noteq> []"
        "v div radix \<noteq> 0 \<longrightarrow> last ds \<noteq> digit_char 0" "length ds \<le> room"
        "value_le radix ds = v div radix" "set ds \<subseteq> digit_char ` {..<radix}" by auto
    have digit: "v mod radix < radix" using Suc.prems(1) by simp
    then have val: "digit_value (digit_char (v mod radix)) = v mod radix"
      using Suc.prems(2) by (simp add: digit_char_value)
    have nz: "v mod radix \<noteq> 0 \<Longrightarrow> digit_char (v mod radix) \<noteq> digit_char 0"
      using val digit_char_value [of 0] by auto
    have "v \<noteq> 0 \<Longrightarrow> v div radix = 0 \<Longrightarrow> v mod radix \<noteq> 0"
      using div_mult_mod_eq [of v radix] by auto
    then have "v \<noteq> 0 \<longrightarrow> last (digit_char (v mod radix) # ds) \<noteq> digit_char 0"
      using ds(2-4) nz by auto
    moreover have "value_le radix (digit_char (v mod radix) # ds) = v"
      using val ds(6) by simp
    ultimately show ?thesis
      using go ds digit by (intro exI [of _ "digit_char (v mod radix) # ds"]) auto
  qed
qed

lemma unsigned_digits:
  assumes "2 \<le> radix" and "radix \<le> 36" and "v < 2 ^ 32"
  shows "\<exists>ds. digit_loop 33 radix v [] = Some ds \<and> digits_value radix 0 (rev ds) = v \<and>
    1 \<le> length ds \<and> length ds \<le> 32 \<and> set ds \<subseteq> digit_char ` {..<radix} \<and>
    (hd (rev ds) = digit_char 0 \<longrightarrow> rev ds = [digit_char 0]) \<and>
    (length ds = 1 \<or> radix ^ (length ds - 1) \<le> v)"
proof -
  have "(2::nat) ^ 33 \<le> radix ^ 33" "(2::nat) ^ 32 \<le> radix ^ 32" using assms(1) by (simp_all only: power_mono)
  then have lt: "v < radix ^ 33" "v < radix ^ 32" using assms(3) by auto
  have room: "0 < (33::nat) \<or> ([] :: u8 list) \<noteq> []" by simp
  from digit_loop_ok [OF assms(1,2) lt(1) room] obtain ds
    where ds: "digit_loop 33 radix v [] = Some ds" "ds \<noteq> []" "v \<noteq> 0 \<longrightarrow> last ds \<noteq> digit_char 0"
      "value_le radix ds = v" "set ds \<subseteq> digit_char ` {..<radix}" "v = 0 \<longrightarrow> length ds \<le> 1"
    unfolding append_Nil by (elim exE conjE) (rule that, simp_all only: simp_thms)
  obtain cs c where cs: "ds = cs @ [c]" using ds(2) by (metis rev_exhaust)
  have big: "radix ^ length cs \<le> v" if "v \<noteq> 0"
  proof -
    obtain i where i: "c = digit_char i" "i < radix" using cs ds(5) by auto
    then have "digit_value c = i" using assms(2) digit_char_value [of i] by simp
    moreover have "i \<noteq> 0"
    proof
      assume "i = 0"
      then show False using i ds(3) that cs by simp
    qed
    ultimately have "radix ^ length cs \<le> radix ^ length cs * digit_value c" by simp
    moreover have "v = value_le radix cs + radix ^ length cs * digit_value c"
      using ds(4) cs by (simp add: value_le_append)
    ultimately show ?thesis by linarith
  qed
  have "length ds \<le> 32"
  proof (cases "v = 0")
    case False
    have "radix ^ length cs < radix ^ 32" by (rule le_less_trans [OF big [OF False] lt(2)])
    moreover have "1 < radix" using assms(1) by simp
    ultimately have "length cs < 32" by (rule power_less_imp_less_exp [rotated])
    then show ?thesis using cs by simp
  qed (use ds(6) in simp)
  moreover have "1 \<le> length ds" using ds(2) by (cases ds) auto
  moreover have "hd (rev ds) = digit_char 0 \<longrightarrow> rev ds = [digit_char 0]"
    using ds(3,6) cs by auto
  moreover have "length ds = 1 \<or> radix ^ (length ds - 1) \<le> v"
    using big ds(6) cs by (cases "v = 0") auto
  ultimately show ?thesis using ds(1,4,5) by (auto simp: digits_value_rev)
qed

lemma decimal_short: "radix = 10 \<Longrightarrow> v < 2 ^ 32 \<Longrightarrow> n = 1 \<or> radix ^ (n - 1) \<le> v \<Longrightarrow> n \<le> 10" for radix v n :: nat
proof (rule ccontr)
  assume r: "radix = 10" and v: "v < 2 ^ 32" and n: "n = 1 \<or> radix ^ (n - 1) \<le> v" and "\<not> n \<le> 10"
  then have "(10::nat) ^ 10 \<le> 10 ^ (n - 1)" by (intro power_increasing) auto
  then show False using r v n \<open>\<not> n \<le> 10\<close> by auto
qed

section \<open>Properties\<close>

text \<open>C21: Every signed conversion in a radix from 2 to 36 (the decimal one of \<^verbatim>\<open>LONG_MIN\<close>
  apart) ends, stays within \<^verbatim>\<open>char tmp[33]\<close>, and stores at most 33 bytes: a minus sign
  exactly for negative decimal numbers, then digits of the radix without a leading
  zero whose value is the number (its unsigned bit pattern in the other radices), then
  the terminating zero.\<close>

theorem ltoa_roundtrip:
  assumes "2 \<le> radix" and "radix \<le> 36" and "- (2 ^ 31) \<le> val" and "val < 2 ^ 31"
    and "radix = 10 \<longrightarrow> val \<noteq> - (2 ^ 31)"
  shows "\<exists>digits. ltoa val False radix =
      Some (Some ((if radix = 10 \<and> val < 0 then [45] else []) @ digits @ [0])) \<and>
    int (digits_value (nat radix) 0 digits) = (if radix = 10 then \<bar>val\<bar> else val mod 2 ^ 32) \<and>
    set digits \<subseteq> digit_char ` {..<nat radix} \<and> 1 \<le> length digits \<and> length digits \<le> 32 \<and>
    (hd digits = digit_char 0 \<longrightarrow> digits = [digit_char 0]) \<and>
    (radix = 10 \<longrightarrow> length digits \<le> 10)"
proof -
  let ?sign = "radix = 10 \<and> val < 0"
  let ?v = "if ?sign then to_u32 (- val) else to_u32 val"
  have r: "2 \<le> nat radix" "nat radix \<le> 36" using assms(1,2) by auto
  have v: "?v < 2 ^ 32" using to_u32_less by simp
  have val: "int ?v = (if radix = 10 then \<bar>val\<bar> else val mod 2 ^ 32)"
    using assms(3-5) by (auto simp: to_u32_def)
  from unsigned_digits [OF r v] obtain ds
    where ds: "digit_loop 33 (nat radix) ?v [] = Some ds" "digits_value (nat radix) 0 (rev ds) = ?v"
      "1 \<le> length ds" "length ds \<le> 32" "set ds \<subseteq> digit_char ` {..<nat radix}"
      "hd (rev ds) = digit_char 0 \<longrightarrow> rev ds = [digit_char 0]"
      "length ds = 1 \<or> nat radix ^ (length ds - 1) \<le> ?v" by blast
  have "ltoa val False radix = Some (Some ((if ?sign then [45] else []) @ rev ds @ [0]))"
    using assms ds(1) by (auto simp: ltoa_def Let_def)
  moreover have "radix = 10 \<longrightarrow> length (rev ds) \<le> 10"
    using decimal_short [OF _ v ds(7)] by simp
  ultimately show ?thesis
    using ds(2-6) val by (intro exI [of _ "rev ds"]) (auto dest: arg_cong [of "rev ds" _ rev])
qed

theorem ltoa_roundtrip_witness:
  "\<exists>digits. ltoa (-1200) False 10 = Some (Some ([45] @ digits @ [0])) \<and>
    int (digits_value 10 0 digits) = 1200"
  using ltoa_roundtrip [of 10 "-1200"] by auto

text \<open>Two unsigned numbers that fit 32 bits give the same string in the same radix
  only if they are equal: the conversion loses nothing.\<close>

theorem ultoa_injective:
  assumes "2 \<le> radix" and "radix \<le> 36" and "v < 2 ^ 32" and "w < 2 ^ 32"
    and "ultoa v False radix = ultoa w False radix"
  shows "v = w"
proof -
  have r: "2 \<le> nat radix" "nat radix \<le> 36" using assms(1,2) by auto
  from unsigned_digits [OF r assms(3)] unsigned_digits [OF r assms(4)] obtain ds es
    where "digit_loop 33 (nat radix) v [] = Some ds" "digits_value (nat radix) 0 (rev ds) = v"
      "digit_loop 33 (nat radix) w [] = Some es" "digits_value (nat radix) 0 (rev es) = w"
    by blast
  then show ?thesis using assms(1,2,5) by (simp add: ultoa_def)
qed

theorem ultoa_injective_witness: "(4294967295 :: nat) = 4294967295"
  by (rule ultoa_injective [of 2]) simp_all

end
