(* ===== verification/Lan8742.thy ===== *)
theory Lan8742
  imports Prelude
begin

text \<open>
  The driver of the LAN8742 Ethernet PHY, \<^verbatim>\<open>libraries/OpenPLC_Net/src/lan8742.c\<close>. The
  bus functions registered with \<^verbatim>\<open>LAN8742_RegisterBusIO\<close> are components of the object,
  as in the code; \<open>'p\<close> is the state of what they talk to. A bus function returns its
  status, negative for an error, and a read its value.
\<close>

section \<open>Registers and status codes\<close>

definition LAN8742_BCR :: u32 where [consts_simp]: "LAN8742_BCR = 0x00"
definition LAN8742_BSR :: u32 where [consts_simp]: "LAN8742_BSR = 0x01"
definition LAN8742_SMR :: u32 where [consts_simp]: "LAN8742_SMR = 0x12"
definition LAN8742_ISFR :: u32 where [consts_simp]: "LAN8742_ISFR = 0x1D"
definition LAN8742_IMR :: u32 where [consts_simp]: "LAN8742_IMR = 0x1E"
definition LAN8742_PHYSCSR :: u32 where [consts_simp]: "LAN8742_PHYSCSR = 0x1F"

definition LAN8742_BCR_LOOPBACK :: u32 where [consts_simp]: "LAN8742_BCR_LOOPBACK = 0x4000"
definition LAN8742_BCR_SPEED_SELECT :: u32 where [consts_simp]: "LAN8742_BCR_SPEED_SELECT = 0x2000"
definition LAN8742_BCR_AUTONEGO_EN :: u32 where [consts_simp]: "LAN8742_BCR_AUTONEGO_EN = 0x1000"
definition LAN8742_BCR_POWER_DOWN :: u32 where [consts_simp]: "LAN8742_BCR_POWER_DOWN = 0x0800"
definition LAN8742_BCR_DUPLEX_MODE :: u32 where [consts_simp]: "LAN8742_BCR_DUPLEX_MODE = 0x0100"
definition LAN8742_BSR_LINK_STATUS :: u32 where [consts_simp]: "LAN8742_BSR_LINK_STATUS = 0x0004"
definition LAN8742_SMR_PHY_ADDR :: u32 where [consts_simp]: "LAN8742_SMR_PHY_ADDR = 0x001F"
definition LAN8742_PHYSCSR_AUTONEGO_DONE :: u32 where [consts_simp]: "LAN8742_PHYSCSR_AUTONEGO_DONE = 0x1000"
definition LAN8742_PHYSCSR_HCDSPEEDMASK :: u32 where [consts_simp]: "LAN8742_PHYSCSR_HCDSPEEDMASK = 0x001C"
definition LAN8742_PHYSCSR_10BT_FD :: u32 where [consts_simp]: "LAN8742_PHYSCSR_10BT_FD = 0x0014"
definition LAN8742_PHYSCSR_100BTX_HD :: u32 where [consts_simp]: "LAN8742_PHYSCSR_100BTX_HD = 0x0008"
definition LAN8742_PHYSCSR_100BTX_FD :: u32 where [consts_simp]: "LAN8742_PHYSCSR_100BTX_FD = 0x0018"
definition LAN8742_MAX_DEV_ADDR :: u32 where [consts_simp]: "LAN8742_MAX_DEV_ADDR = 31"

definition LAN8742_STATUS_READ_ERROR :: int where [consts_simp]: "LAN8742_STATUS_READ_ERROR = -5"
definition LAN8742_STATUS_WRITE_ERROR :: int where [consts_simp]: "LAN8742_STATUS_WRITE_ERROR = -4"
definition LAN8742_STATUS_ADDRESS_ERROR :: int where [consts_simp]: "LAN8742_STATUS_ADDRESS_ERROR = -3"
definition LAN8742_STATUS_ERROR :: int where [consts_simp]: "LAN8742_STATUS_ERROR = -1"
definition LAN8742_STATUS_OK :: int where [consts_simp]: "LAN8742_STATUS_OK = 0"
definition LAN8742_STATUS_LINK_DOWN :: int where [consts_simp]: "LAN8742_STATUS_LINK_DOWN = 1"
definition LAN8742_STATUS_100MBITS_FULLDUPLEX :: int where [consts_simp]: "LAN8742_STATUS_100MBITS_FULLDUPLEX = 2"
definition LAN8742_STATUS_100MBITS_HALFDUPLEX :: int where [consts_simp]: "LAN8742_STATUS_100MBITS_HALFDUPLEX = 3"
definition LAN8742_STATUS_10MBITS_FULLDUPLEX :: int where [consts_simp]: "LAN8742_STATUS_10MBITS_FULLDUPLEX = 4"
definition LAN8742_STATUS_10MBITS_HALFDUPLEX :: int where [consts_simp]: "LAN8742_STATUS_10MBITS_HALFDUPLEX = 5"
definition LAN8742_STATUS_AUTONEGO_NOTDONE :: int where [consts_simp]: "LAN8742_STATUS_AUTONEGO_NOTDONE = 6"

section \<open>The object\<close>

text \<open>A null function pointer is \<^term>\<open>None\<close>; the three mandatory functions are not
  null in a registered object, so the object holds the functions themselves.\<close>

record 'p lan8742_IOCtx =
  io_Init :: "('p \<Rightarrow> int \<times> 'p) option"
  io_DeInit :: "('p \<Rightarrow> int \<times> 'p) option"
  io_WriteReg :: "(u32 \<Rightarrow> u32 \<Rightarrow> u32 \<Rightarrow> 'p \<Rightarrow> int \<times> 'p) option"
  io_ReadReg :: "(u32 \<Rightarrow> u32 \<Rightarrow> 'p \<Rightarrow> (int \<times> u32) \<times> 'p) option"
  io_GetTick :: "('p \<Rightarrow> int) option"

record 'p lan8742_Object =
  DevAddr :: u32
  Is_Initialized :: u32
  IO_Init :: "('p \<Rightarrow> int \<times> 'p) option"
  IO_DeInit :: "('p \<Rightarrow> int \<times> 'p) option"
  WriteReg :: "u32 \<Rightarrow> u32 \<Rightarrow> u32 \<Rightarrow> 'p \<Rightarrow> int \<times> 'p"
  ReadReg :: "u32 \<Rightarrow> u32 \<Rightarrow> 'p \<Rightarrow> (int \<times> u32) \<times> 'p"
  GetTick :: "'p \<Rightarrow> int"

definition LAN8742_RegisterBusIO ::
    "'p lan8742_Object option \<Rightarrow> 'p lan8742_IOCtx \<Rightarrow> int \<times> 'p lan8742_Object option" where
  "LAN8742_RegisterBusIO pObj ioctx =
     (case (pObj, io_ReadReg ioctx, io_WriteReg ioctx, io_GetTick ioctx) of
        (Some obj, Some rd, Some wr, Some tick) \<Rightarrow>
          (LAN8742_STATUS_OK,
           Some (obj\<lparr>IO_Init := io_Init ioctx, IO_DeInit := io_DeInit ioctx,
                     ReadReg := rd, WriteReg := wr, GetTick := tick\<rparr>))
      | _ \<Rightarrow> (LAN8742_STATUS_ERROR, pObj))"

text \<open>The loop over the device addresses, with \<open>k\<close> addresses left.\<close>

fun init_scan :: "'p lan8742_Object \<Rightarrow> nat \<Rightarrow> u32 \<Rightarrow> int \<Rightarrow> u32 \<Rightarrow> 'p \<Rightarrow> int \<times> u32 \<times> 'p" where
  "init_scan obj 0 addr status dev p = (status, dev, p)"
| "init_scan obj (Suc k) addr status dev p =
     (case ReadReg obj addr LAN8742_SMR p of
        ((r, regvalue), p') \<Rightarrow>
          if r < 0 then init_scan obj k (addr + 1) LAN8742_STATUS_READ_ERROR dev p'
          else if regvalue AND LAN8742_SMR_PHY_ADDR = addr then (LAN8742_STATUS_OK, addr, p')
          else init_scan obj k (addr + 1) status dev p')"

definition LAN8742_Init :: "'p lan8742_Object \<Rightarrow> 'p \<Rightarrow> int \<times> 'p lan8742_Object \<times> 'p" where
  "LAN8742_Init obj p =
     (if Is_Initialized obj = 0 then
        (let p1 = (case IO_Init obj of Some f \<Rightarrow> snd (f p) | None \<Rightarrow> p);
             (status, dev, p2) =
               init_scan obj (unat (LAN8742_MAX_DEV_ADDR + 1)) 0 LAN8742_STATUS_OK (LAN8742_MAX_DEV_ADDR + 1) p1;
             status' = (if dev > LAN8742_MAX_DEV_ADDR then LAN8742_STATUS_ADDRESS_ERROR else status);
             obj1 = obj\<lparr>DevAddr := dev\<rparr>
         in (status', if status' = LAN8742_STATUS_OK then obj1\<lparr>Is_Initialized := 1\<rparr> else obj1, p2))
      else (LAN8742_STATUS_OK, obj, p))"

definition LAN8742_DeInit :: "'p lan8742_Object \<Rightarrow> 'p \<Rightarrow> int \<times> 'p lan8742_Object \<times> 'p" where
  "LAN8742_DeInit obj p =
     (if Is_Initialized obj \<noteq> 0 then
        (case IO_DeInit obj of
           Some f \<Rightarrow>
             (case f p of (r, p') \<Rightarrow>
                if r < 0 then (LAN8742_STATUS_ERROR, obj, p')
                else (LAN8742_STATUS_OK, obj\<lparr>Is_Initialized := 0\<rparr>, p'))
         | None \<Rightarrow> (LAN8742_STATUS_OK, obj\<lparr>Is_Initialized := 0\<rparr>, p))
      else (LAN8742_STATUS_OK, obj, p))"

section \<open>Register operations\<close>

text \<open>Seven functions read a register, change it and write it back in the same way.\<close>

definition modify_reg :: "u32 \<Rightarrow> (u32 \<Rightarrow> u32) \<Rightarrow> 'p lan8742_Object \<Rightarrow> 'p \<Rightarrow> int \<times> 'p" where
  "modify_reg reg f obj p =
     (case ReadReg obj (DevAddr obj) reg p of
        ((r, readval), p1) \<Rightarrow>
          if r \<ge> 0 then
            (case WriteReg obj (DevAddr obj) reg (f readval) p1 of
               (w, p2) \<Rightarrow> (if w < 0 then LAN8742_STATUS_WRITE_ERROR else LAN8742_STATUS_OK, p2))
          else (LAN8742_STATUS_READ_ERROR, p1))"

definition LAN8742_DisablePowerDownMode :: "'p lan8742_Object \<Rightarrow> 'p \<Rightarrow> int \<times> 'p" where
  "LAN8742_DisablePowerDownMode = modify_reg LAN8742_BCR (\<lambda>v. v AND NOT LAN8742_BCR_POWER_DOWN)"

definition LAN8742_EnablePowerDownMode :: "'p lan8742_Object \<Rightarrow> 'p \<Rightarrow> int \<times> 'p" where
  "LAN8742_EnablePowerDownMode = modify_reg LAN8742_BCR (\<lambda>v. v OR LAN8742_BCR_POWER_DOWN)"

definition LAN8742_StartAutoNego :: "'p lan8742_Object \<Rightarrow> 'p \<Rightarrow> int \<times> 'p" where
  "LAN8742_StartAutoNego = modify_reg LAN8742_BCR (\<lambda>v. v OR LAN8742_BCR_AUTONEGO_EN)"

definition LAN8742_EnableLoopbackMode :: "'p lan8742_Object \<Rightarrow> 'p \<Rightarrow> int \<times> 'p" where
  "LAN8742_EnableLoopbackMode = modify_reg LAN8742_BCR (\<lambda>v. v OR LAN8742_BCR_LOOPBACK)"

definition LAN8742_DisableLoopbackMode :: "'p lan8742_Object \<Rightarrow> 'p \<Rightarrow> int \<times> 'p" where
  "LAN8742_DisableLoopbackMode = modify_reg LAN8742_BCR (\<lambda>v. v AND NOT LAN8742_BCR_LOOPBACK)"

definition LAN8742_EnableIT :: "u32 \<Rightarrow> 'p lan8742_Object \<Rightarrow> 'p \<Rightarrow> int \<times> 'p" where
  "LAN8742_EnableIT it = modify_reg LAN8742_IMR (\<lambda>v. v OR it)"

definition LAN8742_DisableIT :: "u32 \<Rightarrow> 'p lan8742_Object \<Rightarrow> 'p \<Rightarrow> int \<times> 'p" where
  "LAN8742_DisableIT it = modify_reg LAN8742_IMR (\<lambda>v. v AND NOT it)"

definition LAN8742_ClearIT :: "u32 \<Rightarrow> 'p lan8742_Object \<Rightarrow> 'p \<Rightarrow> int \<times> 'p" where
  "LAN8742_ClearIT it obj p =
     (case ReadReg obj (DevAddr obj) LAN8742_ISFR p of
        ((r, _), p') \<Rightarrow> (if r < 0 then LAN8742_STATUS_READ_ERROR else LAN8742_STATUS_OK, p'))"

definition LAN8742_GetITStatus :: "u32 \<Rightarrow> 'p lan8742_Object \<Rightarrow> 'p \<Rightarrow> int \<times> 'p" where
  "LAN8742_GetITStatus it obj p =
     (case ReadReg obj (DevAddr obj) LAN8742_ISFR p of
        ((r, readval), p') \<Rightarrow>
          (if r \<ge> 0 then (if readval AND it = it then 1 else 0) else LAN8742_STATUS_READ_ERROR, p'))"

definition forced_mode :: "u32 \<Rightarrow> int" where
  "forced_mode bcr =
     (if bcr AND LAN8742_BCR_SPEED_SELECT = LAN8742_BCR_SPEED_SELECT \<and>
         bcr AND LAN8742_BCR_DUPLEX_MODE = LAN8742_BCR_DUPLEX_MODE
      then LAN8742_STATUS_100MBITS_FULLDUPLEX
      else if bcr AND LAN8742_BCR_SPEED_SELECT = LAN8742_BCR_SPEED_SELECT
      then LAN8742_STATUS_100MBITS_HALFDUPLEX
      else if bcr AND LAN8742_BCR_DUPLEX_MODE = LAN8742_BCR_DUPLEX_MODE
      then LAN8742_STATUS_10MBITS_FULLDUPLEX
      else LAN8742_STATUS_10MBITS_HALFDUPLEX)"

definition negotiated_mode :: "u32 \<Rightarrow> int" where
  "negotiated_mode scsr =
     (if scsr AND LAN8742_PHYSCSR_AUTONEGO_DONE = 0 then LAN8742_STATUS_AUTONEGO_NOTDONE
      else if scsr AND LAN8742_PHYSCSR_HCDSPEEDMASK = LAN8742_PHYSCSR_100BTX_FD
      then LAN8742_STATUS_100MBITS_FULLDUPLEX
      else if scsr AND LAN8742_PHYSCSR_HCDSPEEDMASK = LAN8742_PHYSCSR_100BTX_HD
      then LAN8742_STATUS_100MBITS_HALFDUPLEX
      else if scsr AND LAN8742_PHYSCSR_HCDSPEEDMASK = LAN8742_PHYSCSR_10BT_FD
      then LAN8742_STATUS_10MBITS_FULLDUPLEX
      else LAN8742_STATUS_10MBITS_HALFDUPLEX)"

definition LAN8742_GetLinkState :: "'p lan8742_Object \<Rightarrow> 'p \<Rightarrow> int \<times> 'p" where
  "LAN8742_GetLinkState obj p =
     (case ReadReg obj (DevAddr obj) LAN8742_BSR p of ((r1, _), p1) \<Rightarrow>
      if r1 < 0 then (LAN8742_STATUS_READ_ERROR, p1) else
      (case ReadReg obj (DevAddr obj) LAN8742_BSR p1 of ((r2, bsr), p2) \<Rightarrow>
       if r2 < 0 then (LAN8742_STATUS_READ_ERROR, p2) else
       if bsr AND LAN8742_BSR_LINK_STATUS = 0 then (LAN8742_STATUS_LINK_DOWN, p2) else
       (case ReadReg obj (DevAddr obj) LAN8742_BCR p2 of ((r3, bcr), p3) \<Rightarrow>
        if r3 < 0 then (LAN8742_STATUS_READ_ERROR, p3) else
        if bcr AND LAN8742_BCR_AUTONEGO_EN \<noteq> LAN8742_BCR_AUTONEGO_EN then (forced_mode bcr, p3)
        else
          (case ReadReg obj (DevAddr obj) LAN8742_PHYSCSR p3 of ((r4, scsr), p4) \<Rightarrow>
           if r4 < 0 then (LAN8742_STATUS_READ_ERROR, p4) else (negotiated_mode scsr, p4)))))"

definition LAN8742_SetLinkState :: "int \<Rightarrow> 'p lan8742_Object \<Rightarrow> 'p \<Rightarrow> int \<times> 'p" where
  "LAN8742_SetLinkState LinkState obj p =
     (case ReadReg obj (DevAddr obj) LAN8742_BCR p of ((r, v), p1) \<Rightarrow>
      if r \<ge> 0 then
        (let bcr = v AND NOT (LAN8742_BCR_AUTONEGO_EN OR LAN8742_BCR_SPEED_SELECT OR LAN8742_BCR_DUPLEX_MODE);
             (status, bcr') =
               (if LinkState = LAN8742_STATUS_100MBITS_FULLDUPLEX
                then (LAN8742_STATUS_OK, bcr OR (LAN8742_BCR_SPEED_SELECT OR LAN8742_BCR_DUPLEX_MODE))
                else if LinkState = LAN8742_STATUS_100MBITS_HALFDUPLEX
                then (LAN8742_STATUS_OK, bcr OR LAN8742_BCR_SPEED_SELECT)
                else if LinkState = LAN8742_STATUS_10MBITS_FULLDUPLEX
                then (LAN8742_STATUS_OK, bcr OR LAN8742_BCR_DUPLEX_MODE)
                else (LAN8742_STATUS_ERROR, bcr))
         in if status = LAN8742_STATUS_OK then
              (case WriteReg obj (DevAddr obj) LAN8742_BCR bcr' p1 of
                 (w, p2) \<Rightarrow> (if w < 0 then LAN8742_STATUS_WRITE_ERROR else status, p2))
            else (status, p1))
      else (LAN8742_STATUS_READ_ERROR, p1))"

section \<open>Bits of the control register\<close>

lemma bit_mask_set:
  assumes "n < 32"
  shows "(a :: u32) AND 2 ^ n = 2 ^ n \<longleftrightarrow> bit a n"
proof
  assume "a AND 2 ^ n = 2 ^ n"
  then have "bit (a AND 2 ^ n) n" using assms by (simp add: bit_simps)
  then show "bit a n" by (simp add: bit_simps)
next
  assume "bit a n"
  then show "a AND 2 ^ n = 2 ^ n" by (intro bit_word_eqI) (auto simp: bit_simps)
qed

lemma bcr_bits:
  "a AND LAN8742_BCR_SPEED_SELECT = LAN8742_BCR_SPEED_SELECT \<longleftrightarrow> bit a 13"
  "a AND LAN8742_BCR_AUTONEGO_EN = LAN8742_BCR_AUTONEGO_EN \<longleftrightarrow> bit a 12"
  "a AND LAN8742_BCR_DUPLEX_MODE = LAN8742_BCR_DUPLEX_MODE \<longleftrightarrow> bit a 8"
  using bit_mask_set [of 13 a] bit_mask_set [of 12 a] bit_mask_set [of 8 a]
  by (simp_all add: consts_simp)

lemma forced_mode_bits:
  "forced_mode a =
     (if bit a 13 \<and> bit a 8 then LAN8742_STATUS_100MBITS_FULLDUPLEX
      else if bit a 13 then LAN8742_STATUS_100MBITS_HALFDUPLEX
      else if bit a 8 then LAN8742_STATUS_10MBITS_FULLDUPLEX else LAN8742_STATUS_10MBITS_HALFDUPLEX)"
  by (simp only: forced_mode_def bcr_bits)

lemma self_clear_or:
  assumes "w AND 0x8200 = (0 :: u16)" and "m AND 0x8200 = (0 :: u32)"
  shows "(ucast w OR m) AND 0x8200 = (0 :: u32)"
proof -
  have "(ucast w AND 0x8200 :: u32) = ucast (w AND 0x8200)" by (simp add: unsigned_and_eq)
  then show ?thesis using assms by (simp add: bit.conj_disj_distrib2)
qed

lemma self_clear_and:
  assumes "w AND 0x8200 = (0 :: u16)"
  shows "(ucast w AND m) AND 0x8200 = (0 :: u32)"
proof -
  have "(ucast w AND 0x8200 :: u32) = ucast (w AND 0x8200)" by (simp add: unsigned_and_eq)
  then show ?thesis using assms by (simp add: and.assoc and.commute and.left_commute)
qed

lemma ucast_round:
  "(ucast (ucast w OR m :: u32) :: u16) = w OR ucast m"
  "(ucast (ucast w AND m :: u32) :: u16) = w AND ucast m" for w :: u16
  by (rule bit_word_eqI; auto simp: bit_simps)+
section \<open>Finding the device\<close>

definition responds :: "'p lan8742_Object \<Rightarrow> 'p \<Rightarrow> nat \<Rightarrow> bool" where
  "responds obj p a =
     (case ReadReg obj (of_nat a) LAN8742_SMR p of
        ((r, v), _) \<Rightarrow> r \<ge> 0 \<and> v AND LAN8742_SMR_PHY_ADDR = of_nat a)"

lemma init_scan:
  assumes quiet: "\<And>a. snd (ReadReg obj a LAN8742_SMR p) = p" and "a + k = 32"
    and "status = LAN8742_STATUS_OK \<or> status = LAN8742_STATUS_READ_ERROR"
  shows "(\<exists>b. a \<le> b \<and> b < 32 \<and> responds obj p b \<and> (\<forall>c. a \<le> c \<and> c < b \<longrightarrow> \<not> responds obj p c) \<and>
            init_scan obj k (of_nat a) status dev p = (LAN8742_STATUS_OK, of_nat b, p)) \<or>
         (\<forall>c. a \<le> c \<and> c < 32 \<longrightarrow> \<not> responds obj p c) \<and>
            (\<exists>st. init_scan obj k (of_nat a) status dev p = (st, dev, p))"
  using assms(2,3)
proof (induction k arbitrary: a status)
  case 0
  then show ?case by auto
next
  case (Suc k)
  obtain r v where rd: "ReadReg obj (of_nat a) LAN8742_SMR p = ((r, v), p)"
    using quiet [of "of_nat a"] by (metis prod.collapse)
  show ?case
  proof (cases "responds obj p a")
    case True
    then have "init_scan obj (Suc k) (of_nat a) status dev p = (LAN8742_STATUS_OK, of_nat a, p)"
      using rd by (simp add: responds_def)
    then show ?thesis using True Suc.prems(1) by (intro disjI1 exI [of _ a]) auto
  next
    case False
    define st where "st = (if r < 0 then LAN8742_STATUS_READ_ERROR else status)"
    have next_addr: "init_scan obj (Suc k) (of_nat a) status dev p = init_scan obj k (of_nat (Suc a)) st dev p"
      using rd False by (auto simp: responds_def st_def add.commute)
    have "Suc a + k = 32" "st = LAN8742_STATUS_OK \<or> st = LAN8742_STATUS_READ_ERROR"
      using Suc.prems by (auto simp: st_def)
    note ih = Suc.IH [OF this]
    have step: "(\<forall>c. Suc a \<le> c \<and> c < b \<longrightarrow> \<not> responds obj p c) \<Longrightarrow>
        (\<forall>c. a \<le> c \<and> c < b \<longrightarrow> \<not> responds obj p c)" for b
      using False by (metis Suc_leI le_neq_implies_less)
    from ih show ?thesis
    proof
      assume "\<exists>b. Suc a \<le> b \<and> b < 32 \<and> responds obj p b \<and>
          (\<forall>c. Suc a \<le> c \<and> c < b \<longrightarrow> \<not> responds obj p c) \<and>
          init_scan obj k (of_nat (Suc a)) st dev p = (LAN8742_STATUS_OK, of_nat b, p)"
      then obtain b where b: "Suc a \<le> b" "b < 32" "responds obj p b"
        "\<forall>c. Suc a \<le> c \<and> c < b \<longrightarrow> \<not> responds obj p c"
        "init_scan obj k (of_nat (Suc a)) st dev p = (LAN8742_STATUS_OK, of_nat b, p)" by blast
      then show ?thesis using step [OF b(4)] next_addr by (intro disjI1 exI [of _ b]) simp
    next
      assume "(\<forall>c. Suc a \<le> c \<and> c < 32 \<longrightarrow> \<not> responds obj p c) \<and>
          (\<exists>s. init_scan obj k (of_nat (Suc a)) st dev p = (s, dev, p))"
      then show ?thesis using step [of 32] next_addr by simp
    qed
  qed
qed

lemma phy_init:
  assumes "Is_Initialized obj = 0" and quiet: "\<And>a. snd (ReadReg obj a LAN8742_SMR p) = p"
    and "IO_Init obj = None \<or> (\<exists>f. IO_Init obj = Some f \<and> snd (f p) = p)"
  shows "(\<exists>b < 32. responds obj p b \<and> (\<forall>c < b. \<not> responds obj p c) \<and>
            LAN8742_Init obj p = (LAN8742_STATUS_OK, obj\<lparr>DevAddr := of_nat b, Is_Initialized := 1\<rparr>, p)) \<or>
         (\<forall>c < 32. \<not> responds obj p c) \<and>
            LAN8742_Init obj p = (LAN8742_STATUS_ADDRESS_ERROR, obj\<lparr>DevAddr := 32\<rparr>, p)"
proof -
  have p: "(case IO_Init obj of Some f \<Rightarrow> snd (f p) | None \<Rightarrow> p) = p" using assms(3) by auto
  have small: "\<not> (of_nat b :: u32) > LAN8742_MAX_DEV_ADDR" if "b < 32" for b
    using that by (simp add: word_less_nat_alt unat_of_nat take_bit_nat_eq_self consts_simp)
  from init_scan [OF quiet, of 0 32 LAN8742_STATUS_OK "LAN8742_MAX_DEV_ADDR + 1"] small show ?thesis
    by (auto simp: LAN8742_Init_def p assms(1) consts_simp Let_def)
qed

section \<open>The bus contract\<close>

text \<open>What the driver relies on when the bus works: a register read returns the 16-bit
  register and leaves the two configuration registers alone; a write of one of them
  stores the low 16 bits and leaves the other alone. The self-clearing bits of the
  control register (soft reset, restart of the negotiation) read as zero. Status
  registers may change at any access.\<close>

locale phy_bus =
  fixes obj :: "'p lan8742_Object"
    and inv :: "'p \<Rightarrow> bool"
    and reg :: "'p \<Rightarrow> u32 \<Rightarrow> u16"
  assumes read_law: "inv p \<Longrightarrow>
      \<exists>p'. ReadReg obj (DevAddr obj) r p = ((0, ucast (reg p r)), p') \<and> inv p' \<and>
        reg p' LAN8742_BCR = reg p LAN8742_BCR \<and> reg p' LAN8742_IMR = reg p LAN8742_IMR"
    and write_law: "inv p \<Longrightarrow> r \<in> {LAN8742_BCR, LAN8742_IMR} \<Longrightarrow>
      (r = LAN8742_BCR \<Longrightarrow> v AND 0x8200 = 0) \<Longrightarrow>
      \<exists>p'. WriteReg obj (DevAddr obj) r v p = (0, p') \<and> inv p' \<and> reg p' r = ucast v \<and>
        (\<forall>r' \<in> {LAN8742_BCR, LAN8742_IMR}. r' \<noteq> r \<longrightarrow> reg p' r' = reg p r')"
    and self_clearing: "inv p \<Longrightarrow> reg p LAN8742_BCR AND 0x8200 = 0"
begin

lemma modify:
  assumes "inv p" and "r \<in> {LAN8742_BCR, LAN8742_IMR}"
    and "r = LAN8742_BCR \<Longrightarrow> f (ucast (reg p r)) AND 0x8200 = 0"
  shows "\<exists>p'. modify_reg r f obj p = (LAN8742_STATUS_OK, p') \<and> inv p' \<and>
    reg p' r = ucast (f (ucast (reg p r))) \<and>
    (\<forall>r' \<in> {LAN8742_BCR, LAN8742_IMR}. r' \<noteq> r \<longrightarrow> reg p' r' = reg p r')"
proof -
  from read_law [OF assms(1), of r] obtain p1
    where p1: "ReadReg obj (DevAddr obj) r p = ((0, ucast (reg p r)), p1)" "inv p1"
      "reg p1 LAN8742_BCR = reg p LAN8742_BCR" "reg p1 LAN8742_IMR = reg p LAN8742_IMR" by blast
  from write_law [OF p1(2) assms(2), of "f (ucast (reg p r))"] assms(3) obtain p2
    where p2: "WriteReg obj (DevAddr obj) r (f (ucast (reg p r))) p1 = (0, p2)" "inv p2"
      "reg p2 r = ucast (f (ucast (reg p r)))"
      "\<forall>r' \<in> {LAN8742_BCR, LAN8742_IMR}. r' \<noteq> r \<longrightarrow> reg p2 r' = reg p1 r'" by blast
  then show ?thesis using p1 by (auto simp: modify_reg_def consts_simp)
qed

text \<open>The four switches of the control register and the interrupt mask.\<close>

lemma control_bits:
  assumes "inv p"
  shows "\<exists>p'. LAN8742_EnablePowerDownMode obj p = (LAN8742_STATUS_OK, p') \<and> inv p' \<and>
      reg p' LAN8742_BCR = reg p LAN8742_BCR OR 0x0800"
    and "\<exists>p'. LAN8742_DisablePowerDownMode obj p = (LAN8742_STATUS_OK, p') \<and> inv p' \<and>
      reg p' LAN8742_BCR = reg p LAN8742_BCR AND NOT 0x0800"
    and "\<exists>p'. LAN8742_EnableLoopbackMode obj p = (LAN8742_STATUS_OK, p') \<and> inv p' \<and>
      reg p' LAN8742_BCR = reg p LAN8742_BCR OR 0x4000"
    and "\<exists>p'. LAN8742_DisableLoopbackMode obj p = (LAN8742_STATUS_OK, p') \<and> inv p' \<and>
      reg p' LAN8742_BCR = reg p LAN8742_BCR AND NOT 0x4000"
    and "\<exists>p'. LAN8742_StartAutoNego obj p = (LAN8742_STATUS_OK, p') \<and> inv p' \<and>
      reg p' LAN8742_BCR = reg p LAN8742_BCR OR 0x1000"
proof -
  have not16: "(4294965247 :: u16) = - 2049" "(4294950911 :: u16) = - 16385" by code_simp+
  show "\<exists>p'. LAN8742_EnablePowerDownMode obj p = (LAN8742_STATUS_OK, p') \<and> inv p' \<and>
      reg p' LAN8742_BCR = reg p LAN8742_BCR OR 0x0800"
    "\<exists>p'. LAN8742_DisablePowerDownMode obj p = (LAN8742_STATUS_OK, p') \<and> inv p' \<and>
      reg p' LAN8742_BCR = reg p LAN8742_BCR AND NOT 0x0800"
    "\<exists>p'. LAN8742_EnableLoopbackMode obj p = (LAN8742_STATUS_OK, p') \<and> inv p' \<and>
      reg p' LAN8742_BCR = reg p LAN8742_BCR OR 0x4000"
    "\<exists>p'. LAN8742_DisableLoopbackMode obj p = (LAN8742_STATUS_OK, p') \<and> inv p' \<and>
      reg p' LAN8742_BCR = reg p LAN8742_BCR AND NOT 0x4000"
    "\<exists>p'. LAN8742_StartAutoNego obj p = (LAN8742_STATUS_OK, p') \<and> inv p' \<and>
      reg p' LAN8742_BCR = reg p LAN8742_BCR OR 0x1000"
  using modify [OF assms, of LAN8742_BCR "\<lambda>v. v OR LAN8742_BCR_POWER_DOWN"]
    modify [OF assms, of LAN8742_BCR "\<lambda>v. v AND NOT LAN8742_BCR_POWER_DOWN"]
    modify [OF assms, of LAN8742_BCR "\<lambda>v. v OR LAN8742_BCR_LOOPBACK"]
    modify [OF assms, of LAN8742_BCR "\<lambda>v. v AND NOT LAN8742_BCR_LOOPBACK"]
    modify [OF assms, of LAN8742_BCR "\<lambda>v. v OR LAN8742_BCR_AUTONEGO_EN"]
    self_clear_or [OF self_clearing [OF assms]] self_clear_and [OF self_clearing [OF assms]]
  by (auto simp: LAN8742_EnablePowerDownMode_def LAN8742_DisablePowerDownMode_def
      LAN8742_EnableLoopbackMode_def LAN8742_DisableLoopbackMode_def LAN8742_StartAutoNego_def
      ucast_round not16 consts_simp)
qed

lemma interrupt_mask:
  assumes "inv p"
  shows "\<exists>p'. LAN8742_EnableIT it obj p = (LAN8742_STATUS_OK, p') \<and> inv p' \<and>
      reg p' LAN8742_IMR = reg p LAN8742_IMR OR ucast it \<and> reg p' LAN8742_BCR = reg p LAN8742_BCR"
    and "\<exists>p'. LAN8742_DisableIT it obj p = (LAN8742_STATUS_OK, p') \<and> inv p' \<and>
      reg p' LAN8742_IMR = reg p LAN8742_IMR AND ucast (NOT it) \<and> reg p' LAN8742_BCR = reg p LAN8742_BCR"
  using modify [OF assms, of LAN8742_IMR "\<lambda>v. v OR it"]
    modify [OF assms, of LAN8742_IMR "\<lambda>v. v AND NOT it"]
  by (auto simp: LAN8742_EnableIT_def LAN8742_DisableIT_def ucast_round consts_simp)

lemma get_link:
  assumes "inv p"
  shows "\<exists>st p'. LAN8742_GetLinkState obj p = (st, p') \<and> inv p' \<and>
    reg p' LAN8742_BCR = reg p LAN8742_BCR \<and>
    (st = LAN8742_STATUS_LINK_DOWN \<or>
     (if bit (reg p LAN8742_BCR) 12 then \<exists>v. st = negotiated_mode v
      else st = forced_mode (ucast (reg p LAN8742_BCR))))"
proof -
  from read_law [OF assms, of LAN8742_BSR] obtain p1
    where 1: "ReadReg obj (DevAddr obj) LAN8742_BSR p = ((0, ucast (reg p LAN8742_BSR)), p1)"
      "inv p1" "reg p1 LAN8742_BCR = reg p LAN8742_BCR" by blast
  from read_law [OF 1(2), of LAN8742_BSR] obtain p2
    where 2: "ReadReg obj (DevAddr obj) LAN8742_BSR p1 = ((0, ucast (reg p1 LAN8742_BSR)), p2)"
      "inv p2" "reg p2 LAN8742_BCR = reg p1 LAN8742_BCR" by blast
  from read_law [OF 2(2), of LAN8742_BCR] obtain p3
    where 3: "ReadReg obj (DevAddr obj) LAN8742_BCR p2 = ((0, ucast (reg p2 LAN8742_BCR)), p3)"
      "inv p3" "reg p3 LAN8742_BCR = reg p2 LAN8742_BCR" by blast
  from read_law [OF 3(2), of LAN8742_PHYSCSR] obtain p4
    where 4: "ReadReg obj (DevAddr obj) LAN8742_PHYSCSR p3 = ((0, ucast (reg p3 LAN8742_PHYSCSR)), p4)"
      "inv p4" "reg p4 LAN8742_BCR = reg p3 LAN8742_BCR" by blast
  have "bit (ucast (reg p LAN8742_BCR) :: u32) 12 = bit (reg p LAN8742_BCR) 12"
    by (simp add: bit_simps)
  then show ?thesis
    using 1 2 3 4 by (auto simp: LAN8742_GetLinkState_def bcr_bits)
qed

lemma set_link:
  assumes "inv p"
    and "L \<in> {LAN8742_STATUS_100MBITS_FULLDUPLEX, LAN8742_STATUS_100MBITS_HALFDUPLEX,
              LAN8742_STATUS_10MBITS_FULLDUPLEX}"
  shows "\<exists>p'. LAN8742_SetLinkState L obj p = (LAN8742_STATUS_OK, p') \<and> inv p' \<and>
    \<not> bit (reg p' LAN8742_BCR) 12 \<and> forced_mode (ucast (reg p' LAN8742_BCR)) = L \<and>
    reg p' LAN8742_BCR AND NOT 0x3100 = reg p LAN8742_BCR AND NOT 0x3100"
proof -
  from read_law [OF assms(1), of LAN8742_BCR] obtain p1
    where 1: "ReadReg obj (DevAddr obj) LAN8742_BCR p = ((0, ucast (reg p LAN8742_BCR)), p1)"
      "inv p1" "reg p1 LAN8742_BCR = reg p LAN8742_BCR" by blast
  define m :: u32 where "m = (if L = LAN8742_STATUS_100MBITS_FULLDUPLEX then 0x2100
     else if L = LAN8742_STATUS_100MBITS_HALFDUPLEX then 0x2000 else 0x0100)"
  define v :: u32 where "v = (ucast (reg p LAN8742_BCR) AND NOT 0x3100) OR m"
  have m: "m \<in> {0x2100, 0x2000, 0x0100}" by (simp add: m_def)
  have "(ucast (reg p LAN8742_BCR) AND NOT 0x3100 :: u32) = ucast (reg p LAN8742_BCR AND NOT 0x3100)"
    by (rule bit_word_eqI) (auto simp: bit_simps dest: bit_imp_le_length)
  moreover have "(reg p LAN8742_BCR AND NOT 0x3100) AND 0x8200 = 0"
    using self_clearing [OF assms(1)] by (simp add: and.assoc and.commute and.left_commute)
  ultimately have "v AND 0x8200 = 0"
    using m self_clear_or [of "reg p LAN8742_BCR AND NOT 0x3100" m] by (auto simp: v_def)
  with write_law [OF 1(2), of LAN8742_BCR v] obtain p2
    where 2: "WriteReg obj (DevAddr obj) LAN8742_BCR v p1 = (0, p2)" "inv p2"
      "reg p2 LAN8742_BCR = ucast v" by auto
  have "LAN8742_SetLinkState L obj p = (LAN8742_STATUS_OK, p2)"
    using 1(1) 2(1) assms(2)
    by (auto simp: LAN8742_SetLinkState_def Let_def v_def m_def consts_simp split: if_splits)
  moreover have "ucast v AND NOT 0x3100 = reg p LAN8742_BCR AND NOT 0x3100"
  proof -
    have "(ucast v :: u16) = (reg p LAN8742_BCR AND NOT 0x3100) OR ucast m"
      by (rule bit_word_eqI) (auto simp: v_def bit_simps)
    moreover have "(ucast m :: u16) AND NOT 0x3100 = 0" using m by auto
    ultimately show ?thesis by (simp only: bit.conj_disj_distrib2 and.assoc and.idem or.right_neutral)
  qed
  moreover have "\<not> bit (ucast v :: u16) 12" "forced_mode (ucast (ucast v :: u16)) = L"
  proof -
    have b: "bit (ucast (ucast v :: u16) :: u32) 13 = bit m 13" "bit (ucast (ucast v :: u16) :: u32) 8 = bit m 8"
      "\<not> bit m 12" "bit (ucast v :: u16) 12 = bit m 12"
      using m by (auto simp: v_def bit_simps)
    then show "\<not> bit (ucast v :: u16) 12" by simp
    show "forced_mode (ucast (ucast v :: u16)) = L"
      using assms(2) unfolding forced_mode_bits b(1,2) by (auto simp: m_def consts_simp)
  qed
  ultimately show ?thesis using 2(2,3) by auto
qed

lemma set_link_10_half:
  assumes "inv p"
  shows "\<exists>p'. LAN8742_SetLinkState LAN8742_STATUS_10MBITS_HALFDUPLEX obj p = (LAN8742_STATUS_ERROR, p') \<and>
    inv p' \<and> reg p' LAN8742_BCR = reg p LAN8742_BCR"
  using read_law [OF assms, of LAN8742_BCR]
  by (auto simp: LAN8742_SetLinkState_def Let_def consts_simp)

lemma set_get_link:
  assumes "inv p"
    and "L \<in> {LAN8742_STATUS_100MBITS_FULLDUPLEX, LAN8742_STATUS_100MBITS_HALFDUPLEX,
              LAN8742_STATUS_10MBITS_FULLDUPLEX}"
  shows "\<exists>p1 st p2. LAN8742_SetLinkState L obj p = (LAN8742_STATUS_OK, p1) \<and> inv p1 \<and>
    reg p1 LAN8742_BCR AND NOT 0x3100 = reg p LAN8742_BCR AND NOT 0x3100 \<and>
    LAN8742_GetLinkState obj p1 = (st, p2) \<and> st \<in> {L, LAN8742_STATUS_LINK_DOWN}"
proof -
  from set_link [OF assms] obtain p1
    where p1: "LAN8742_SetLinkState L obj p = (LAN8742_STATUS_OK, p1)" "inv p1"
      "\<not> bit (reg p1 LAN8742_BCR) 12" "forced_mode (ucast (reg p1 LAN8742_BCR)) = L"
      "reg p1 LAN8742_BCR AND NOT 0x3100 = reg p LAN8742_BCR AND NOT 0x3100" by blast
  from get_link [OF p1(2)] p1(3,4) obtain st p2
    where "LAN8742_GetLinkState obj p1 = (st, p2)" "st \<in> {L, LAN8742_STATUS_LINK_DOWN}" by auto
  then show ?thesis using p1 by blast
qed

end

end
