(* ===== verification/Ethernetif.thy ===== *)
theory Ethernetif
  imports Lan8742
begin

text \<open>
  The Ethernet interface below LwIP, \<^verbatim>\<open>libraries/OpenPLC_Net/src/ethernetif.c\<close>: the bus
  functions of the PHY, the link supervision, the hardware address, the transmit
  descriptors, the pool of receive buffers and the chaining of received buffers.
  The HAL and LwIP are parameters: the state of the management bus is \<open>'p\<close>, that of
  the receive DMA \<open>'d\<close>, and the calls that only have effects there are recorded in
  \<open>eth_log\<close>. \<^verbatim>\<open>netif_set_up\<close> and its kin set the flags of the interface.
\<close>

section \<open>State\<close>

datatype eth_duplex = ETH_FULLDUPLEX_MODE | ETH_HALFDUPLEX_MODE
datatype eth_speed = ETH_SPEED_10M | ETH_SPEED_100M
datatype rx_alloc = RX_ALLOC_OK | RX_ALLOC_ERROR
datatype err_t = ERR_OK | ERR_IF | ERR_MEM

datatype netif_flag = NETIF_FLAG_BROADCAST | NETIF_FLAG_ETHARP
datatype tx_feature =
  ETH_TX_PACKETS_FEATURES_CSUM | ETH_TX_PACKETS_FEATURES_CRCPAD |
  ETH_CHECKSUM_IPHDR_PAYLOAD_INSERT_PHDR_CALC | ETH_CRC_PAD_INSERT

datatype eth_call =
    ETH_Init "u8 list"
  | ETH_Stop
  | ETH_SetMACConfig eth_duplex eth_speed
  | ETH_Start_IT
  | ETH_Transmit "(nat \<times> nat) list" nat
  | Netif_set_up
  | Netif_set_down
  | Netif_set_link_up
  | Netif_set_link_down
  | Error_Handler

record 'p hal =
  HAL_ETH_ReadPHYRegister :: "u32 \<Rightarrow> u32 \<Rightarrow> 'p \<Rightarrow> (bool \<times> u32) \<times> 'p"
  HAL_ETH_WritePHYRegister :: "u32 \<Rightarrow> u32 \<Rightarrow> u32 \<Rightarrow> 'p \<Rightarrow> bool \<times> 'p"
  HAL_ETH_SetMDIOClockRange :: "'p \<Rightarrow> 'p"
  HAL_GetTick :: "'p \<Rightarrow> nat"

record 'p eth =
  LAN8742 :: "'p lan8742_Object"
  mdio :: 'p
  mac_running :: bool
  mac_config :: "eth_duplex \<times> eth_speed"
  netif_up :: bool
  netif_link_up :: bool
  netif_name :: string
  netif_mtu :: nat
  netif_flags :: "netif_flag set"
  TxConfig :: "tx_feature set"
  hwaddr :: "u8 list"
  EthRxEvent :: u8
  RxAllocStatus :: rx_alloc
  RX_POOL :: "nat list"
  eth_log :: "eth_call list"

definition eth_call :: "eth_call \<Rightarrow> 'p eth \<Rightarrow> 'p eth" where
  "eth_call c s =
     (let s1 = s\<lparr>eth_log := eth_log s @ [c]\<rparr> in
      case c of
        ETH_Stop \<Rightarrow> s1\<lparr>mac_running := False\<rparr>
      | ETH_SetMACConfig d v \<Rightarrow> s1\<lparr>mac_config := (d, v)\<rparr>
      | ETH_Start_IT \<Rightarrow> s1\<lparr>mac_running := True\<rparr>
      | Netif_set_up \<Rightarrow> s1\<lparr>netif_up := True\<rparr>
      | Netif_set_down \<Rightarrow> s1\<lparr>netif_up := False\<rparr>
      | Netif_set_link_up \<Rightarrow> s1\<lparr>netif_link_up := True\<rparr>
      | Netif_set_link_down \<Rightarrow> s1\<lparr>netif_link_up := False\<rparr>
      | _ \<Rightarrow> s1)"

section \<open>PHY bus functions\<close>

definition ETH_PHY_IO_Init :: "'p hal \<Rightarrow> 'p \<Rightarrow> int \<times> 'p" where
  "ETH_PHY_IO_Init hal p = (0, HAL_ETH_SetMDIOClockRange hal p)"

definition ETH_PHY_IO_DeInit :: "'p \<Rightarrow> int \<times> 'p" where
  "ETH_PHY_IO_DeInit p = (0, p)"

definition ETH_PHY_IO_ReadReg :: "'p hal \<Rightarrow> u32 \<Rightarrow> u32 \<Rightarrow> 'p \<Rightarrow> (int \<times> u32) \<times> 'p" where
  "ETH_PHY_IO_ReadReg hal dev_addr reg_addr p =
     (case HAL_ETH_ReadPHYRegister hal dev_addr reg_addr p of
        ((ok, v), p') \<Rightarrow> if \<not> ok then ((-1, v), p') else ((0, v), p'))"

definition ETH_PHY_IO_WriteReg :: "'p hal \<Rightarrow> u32 \<Rightarrow> u32 \<Rightarrow> u32 \<Rightarrow> 'p \<Rightarrow> int \<times> 'p" where
  "ETH_PHY_IO_WriteReg hal dev_addr reg_addr reg_val p =
     (case HAL_ETH_WritePHYRegister hal dev_addr reg_addr reg_val p of
        (ok, p') \<Rightarrow> if \<not> ok then (-1, p') else (0, p'))"

definition ETH_PHY_IO_GetTick :: "'p hal \<Rightarrow> 'p \<Rightarrow> int" where
  "ETH_PHY_IO_GetTick hal p = to_i32 (int (HAL_GetTick hal p))"

definition LAN8742_IOCtx :: "'p hal \<Rightarrow> 'p lan8742_IOCtx" where
  "LAN8742_IOCtx hal =
     \<lparr>io_Init = Some (ETH_PHY_IO_Init hal), io_DeInit = Some ETH_PHY_IO_DeInit,
      io_WriteReg = Some (ETH_PHY_IO_WriteReg hal), io_ReadReg = Some (ETH_PHY_IO_ReadReg hal),
      io_GetTick = Some (ETH_PHY_IO_GetTick hal)\<rparr>"

text \<open>The object after a successful \<^verbatim>\<open>LAN8742_RegisterBusIO\<close> and \<^verbatim>\<open>LAN8742_Init\<close>, with the
  device found at address \<open>dev\<close>.\<close>

definition registered_phy :: "'p hal \<Rightarrow> u32 \<Rightarrow> 'p lan8742_Object" where
  "registered_phy hal dev =
     \<lparr>DevAddr = dev, Is_Initialized = 1, IO_Init = Some (ETH_PHY_IO_Init hal),
      IO_DeInit = Some ETH_PHY_IO_DeInit, WriteReg = ETH_PHY_IO_WriteReg hal,
      ReadReg = ETH_PHY_IO_ReadReg hal, GetTick = ETH_PHY_IO_GetTick hal\<rparr>"

section \<open>Link supervision\<close>

definition link_mode :: "int \<Rightarrow> (eth_duplex \<times> eth_speed) option" where
  "link_mode st =
     (if st = LAN8742_STATUS_100MBITS_FULLDUPLEX then Some (ETH_FULLDUPLEX_MODE, ETH_SPEED_100M)
      else if st = LAN8742_STATUS_100MBITS_HALFDUPLEX then Some (ETH_HALFDUPLEX_MODE, ETH_SPEED_100M)
      else if st = LAN8742_STATUS_10MBITS_FULLDUPLEX then Some (ETH_FULLDUPLEX_MODE, ETH_SPEED_10M)
      else if st = LAN8742_STATUS_10MBITS_HALFDUPLEX then Some (ETH_HALFDUPLEX_MODE, ETH_SPEED_10M)
      else None)"

definition ethernet_link_check_state :: "'p eth \<Rightarrow> 'p eth" where
  "ethernet_link_check_state s =
     (case LAN8742_GetLinkState (LAN8742 s) (mdio s) of
        (PHYLinkState, p) \<Rightarrow>
          (let s1 = s\<lparr>mdio := p\<rparr> in
           if netif_link_up s1 \<and> PHYLinkState \<le> LAN8742_STATUS_LINK_DOWN then
             eth_call Netif_set_link_down (eth_call Netif_set_down (eth_call ETH_Stop s1))
           else if \<not> netif_link_up s1 \<and> PHYLinkState > LAN8742_STATUS_LINK_DOWN then
             (case link_mode PHYLinkState of
                Some (duplex, speed) \<Rightarrow>
                  (let s2 = eth_call ETH_Start_IT (eth_call (ETH_SetMACConfig duplex speed) s1);
                       s3 = s2\<lparr>EthRxEvent := 1\<rparr>
                   in eth_call Netif_set_link_up (eth_call Netif_set_up s3))
              | None \<Rightarrow> s1)
           else s1))"

section \<open>Hardware address and initialisation\<close>

definition openplc_make_mac_from_uid :: "u32 \<Rightarrow> u32 \<Rightarrow> u32 \<Rightarrow> u8 list" where
  "openplc_make_mac_from_uid u0 u1 u2 =
     (let h = u0 XOR push_bit 7 u1 XOR drop_bit 3 u2 XOR 0xA5C39E17 in
      [0x02, ucast (drop_bit 24 h), ucast (drop_bit 16 h), ucast (drop_bit 8 h), ucast h,
       ucast (u0 XOR u1 XOR u2)])"

text \<open>\<open>hal_ok\<close> is the result of \<^verbatim>\<open>HAL_ETH_Init\<close>, which is given the hardware address;
  \<open>pool\<close> are the buffers \<^verbatim>\<open>LWIP_MEMPOOL_INIT\<close> puts into the pool. A set of features is a
  combination of flags.\<close>

definition ETH_MAX_PAYLOAD :: nat where [consts_simp]: "ETH_MAX_PAYLOAD = 1500"

definition low_level_init ::
    "'p hal \<Rightarrow> u32 \<times> u32 \<times> u32 \<Rightarrow> bool \<Rightarrow> nat list \<Rightarrow> 'p eth \<Rightarrow> 'p eth" where
  "low_level_init hal uid hal_ok pool s =
     (case uid of (u0, u1, u2) \<Rightarrow>
      (let MACAddr = openplc_make_mac_from_uid u0 u1 u2;
           s1 = (eth_call (ETH_Init MACAddr) s)
                \<lparr>TxConfig := {ETH_TX_PACKETS_FEATURES_CSUM, ETH_TX_PACKETS_FEATURES_CRCPAD,
                              ETH_CHECKSUM_IPHDR_PAYLOAD_INSERT_PHDR_CALC, ETH_CRC_PAD_INSERT},
                 RX_POOL := pool, hwaddr := MACAddr, netif_mtu := ETH_MAX_PAYLOAD,
                 netif_flags := netif_flags s \<union> {NETIF_FLAG_BROADCAST, NETIF_FLAG_ETHARP}\<rparr>;
           obj = the (snd (LAN8742_RegisterBusIO (Some (LAN8742 s1)) (LAN8742_IOCtx hal)))
       in case LAN8742_Init obj (mdio s1) of
            (st, obj', p) \<Rightarrow>
              (let s2 = s1\<lparr>LAN8742 := obj', mdio := p\<rparr> in
               if st \<noteq> LAN8742_STATUS_OK
               then eth_call Netif_set_down (eth_call Netif_set_link_down s2)
               else if hal_ok then ethernet_link_check_state s2
               else eth_call Error_Handler s2)))"

definition ethernetif_init ::
    "'p hal \<Rightarrow> u32 \<times> u32 \<times> u32 \<Rightarrow> bool \<Rightarrow> nat list \<Rightarrow> 'p eth \<Rightarrow> err_t \<times> 'p eth" where
  "ethernetif_init hal uid hal_ok pool s =
     (ERR_OK, low_level_init hal uid hal_ok pool (s\<lparr>netif_name := ''st''\<rparr>))"

text \<open>The tick of the HAL is a 32-bit counter.\<close>

definition sys_now :: "'p hal \<Rightarrow> 'p \<Rightarrow> u32" where
  "sys_now hal p = of_nat (HAL_GetTick hal p)"

section \<open>Transmission\<close>

text \<open>The pbuf chain is given as the list of its payload addresses and lengths; \<open>tot_len\<close>
  is that of its head. \<^verbatim>\<open>Txbuffer[ETH_TX_DESC_CNT]\<close> is filled in order.\<close>

definition ETH_TX_DESC_CNT :: nat where [consts_simp]: "ETH_TX_DESC_CNT = 4"

fun tx_fill :: "(nat \<times> nat) list \<Rightarrow> (nat \<times> nat) list \<Rightarrow> (nat \<times> nat) list option" where
  "tx_fill [] out = Some out"
| "tx_fill (q # qs) out =
     (if length out \<ge> ETH_TX_DESC_CNT then None else tx_fill qs (out @ [q]))"

definition low_level_output :: "(nat \<times> nat) list \<Rightarrow> nat \<Rightarrow> 'p eth \<Rightarrow> err_t \<times> 'p eth" where
  "low_level_output p tot_len s =
     (case tx_fill p [] of
        None \<Rightarrow> (ERR_IF, s)
      | Some Txbuffer \<Rightarrow> (ERR_OK, eth_call (ETH_Transmit Txbuffer tot_len) s))"

section \<open>Receive buffers\<close>

definition ETH_RX_BUFFER_CNT :: nat where [consts_simp]: "ETH_RX_BUFFER_CNT = 12"

definition HAL_ETH_RxAllocateCallback :: "'p eth \<Rightarrow> nat option \<times> 'p eth" where
  "HAL_ETH_RxAllocateCallback s =
     (case RX_POOL s of
        p # rest \<Rightarrow> (Some p, s\<lparr>RX_POOL := rest\<rparr>)
      | [] \<Rightarrow> (None, s\<lparr>RxAllocStatus := RX_ALLOC_ERROR\<rparr>))"

definition pbuf_free_custom :: "nat \<Rightarrow> 'p eth \<Rightarrow> 'p eth" where
  "pbuf_free_custom p s =
     (let s1 = s\<lparr>RX_POOL := p # RX_POOL s\<rparr> in
      if RxAllocStatus s1 = RX_ALLOC_ERROR then s1\<lparr>RxAllocStatus := RX_ALLOC_OK\<rparr> else s1)"

definition HAL_ETH_RxCpltCallback :: "'p eth \<Rightarrow> 'p eth" where
  "HAL_ETH_RxCpltCallback s = s\<lparr>EthRxEvent := 1\<rparr>"

definition ethernetif_rx_event_pending :: "'p eth \<Rightarrow> u8" where
  "ethernetif_rx_event_pending s = EthRxEvent s"

definition ethernetif_rx_event_clear :: "'p eth \<Rightarrow> 'p eth" where
  "ethernetif_rx_event_clear s = s\<lparr>EthRxEvent := 0\<rparr>"

text \<open>\<open>read_data\<close> is \<^verbatim>\<open>HAL_ETH_ReadData\<close>, \<open>input\<close> is \<^verbatim>\<open>netif->input\<close> and tells whether it
  accepted the packet, \<open>free\<close> is \<^verbatim>\<open>pbuf_free\<close>. The loop of \<^verbatim>\<open>ethernetif_input\<close> ends when
  there is no packet left; a driver that always has one keeps it going.\<close>

definition low_level_input :: "('p eth \<Rightarrow> nat option \<times> 'p eth) \<Rightarrow> 'p eth \<Rightarrow> nat option \<times> 'p eth" where
  "low_level_input read_data s =
     (if RxAllocStatus s = RX_ALLOC_OK then read_data s else (None, s))"

partial_function (option) ethernetif_input ::
    "('p eth \<Rightarrow> nat option \<times> 'p eth) \<Rightarrow> (nat \<Rightarrow> 'p eth \<Rightarrow> bool \<times> 'p eth) \<Rightarrow>
     (nat \<Rightarrow> 'p eth \<Rightarrow> 'p eth) \<Rightarrow> 'p eth \<Rightarrow> 'p eth option" where
  "ethernetif_input read_data input free s =
     (case low_level_input read_data s of
        (None, s1) \<Rightarrow> Some s1
      | (Some p, s1) \<Rightarrow>
          (case input p s1 of
             (ok, s2) \<Rightarrow> ethernetif_input read_data input free (if \<not> ok then free p s2 else s2)))"

section \<open>Chaining received buffers\<close>

text \<open>The pbufs live in a store, by their addresses; the fields are those the callback
  touches. A pbuf is named by the buffer that is part of it.\<close>

record pbuf =
  pb_next :: "nat option"
  pb_tot_len :: nat
  pb_len :: nat

type_synonym pbuf_store = "nat \<Rightarrow> pbuf"

partial_function (option) add_tot_len :: "nat option \<Rightarrow> nat \<Rightarrow> pbuf_store \<Rightarrow> pbuf_store option" where
  "add_tot_len p Length h =
     (case p of
        None \<Rightarrow> Some h
      | Some a \<Rightarrow>
          (let h' = h(a := (h a)\<lparr>pb_tot_len := to_u16 (int (pb_tot_len (h a)) + int Length)\<rparr>)
           in add_tot_len (pb_next (h' a)) Length h'))"

definition HAL_ETH_RxLinkCallback ::
    "nat option \<Rightarrow> nat option \<Rightarrow> nat \<Rightarrow> nat \<Rightarrow> pbuf_store \<Rightarrow>
     (nat option \<times> nat option \<times> pbuf_store) option" where
  "HAL_ETH_RxLinkCallback pStart pEnd p Length h =
     (let h1 = h(p := \<lparr>pb_next = None, pb_tot_len = 0, pb_len = Length\<rparr>) in
      do { (start, h2) \<leftarrow>
             (case pStart of
                None \<Rightarrow> Some (Some p, h1)
              | Some _ \<Rightarrow>
                  do { e \<leftarrow> pEnd; Some (pStart, h1(e := (h1 e)\<lparr>pb_next := Some p\<rparr>)) });
           h3 \<leftarrow> add_tot_len start Length h2;
           Some (start, Some p, h3) })"

section \<open>A working management bus\<close>

text \<open>What the HAL promises when no transfer fails, and that the bus functions of this
  file then meet the contract the PHY driver relies on.\<close>

locale working_mdio =
  fixes hal :: "'p hal"
    and dev :: u32
    and inv :: "'p \<Rightarrow> bool"
    and reg :: "'p \<Rightarrow> u32 \<Rightarrow> u16"
  assumes hal_read: "inv p \<Longrightarrow>
      \<exists>p'. HAL_ETH_ReadPHYRegister hal dev r p = ((True, ucast (reg p r)), p') \<and> inv p' \<and>
        reg p' LAN8742_BCR = reg p LAN8742_BCR \<and> reg p' LAN8742_IMR = reg p LAN8742_IMR"
    and hal_write: "inv p \<Longrightarrow> r \<in> {LAN8742_BCR, LAN8742_IMR} \<Longrightarrow>
      (r = LAN8742_BCR \<Longrightarrow> v AND 0x8200 = 0) \<Longrightarrow>
      \<exists>p'. HAL_ETH_WritePHYRegister hal dev r v p = (True, p') \<and> inv p' \<and> reg p' r = ucast v \<and>
        (\<forall>r' \<in> {LAN8742_BCR, LAN8742_IMR}. r' \<noteq> r \<longrightarrow> reg p' r' = reg p r')"
    and hal_self_clearing: "inv p \<Longrightarrow> reg p LAN8742_BCR AND 0x8200 = 0"

sublocale working_mdio \<subseteq> phy: phy_bus "registered_phy hal dev" inv reg
proof unfold_locales
  fix p r
  assume "inv p"
  then show "\<exists>p'. ReadReg (registered_phy hal dev) (DevAddr (registered_phy hal dev)) r p = ((0, ucast (reg p r)), p') \<and> inv p' \<and>
      reg p' LAN8742_BCR = reg p LAN8742_BCR \<and> reg p' LAN8742_IMR = reg p LAN8742_IMR"
    using hal_read [of p r] by (auto simp: registered_phy_def ETH_PHY_IO_ReadReg_def)
next
  fix p r and v :: u32
  assume "inv p" "r \<in> {LAN8742_BCR, LAN8742_IMR}" "r = LAN8742_BCR \<Longrightarrow> v AND 0x8200 = 0"
  then show "\<exists>p'. WriteReg (registered_phy hal dev) (DevAddr (registered_phy hal dev)) r v p = (0, p') \<and> inv p' \<and> reg p' r = ucast v \<and>
      (\<forall>r' \<in> {LAN8742_BCR, LAN8742_IMR}. r' \<noteq> r \<longrightarrow> reg p' r' = reg p r')"
    using hal_write [of p r v] by (auto simp: registered_phy_def ETH_PHY_IO_WriteReg_def)
next
  fix p
  assume "inv p"
  then show "reg p LAN8742_BCR AND 0x8200 = 0" by (rule hal_self_clearing)
qed

text \<open>The facts of the contract, for the object of this file.\<close>

context working_mdio
begin

lemma link_roundtrip:
  "inv p \<Longrightarrow> L \<in> {LAN8742_STATUS_100MBITS_FULLDUPLEX, LAN8742_STATUS_100MBITS_HALFDUPLEX,
      LAN8742_STATUS_10MBITS_FULLDUPLEX} \<Longrightarrow>
   \<exists>p1 st p2. LAN8742_SetLinkState L (registered_phy hal dev) p = (LAN8742_STATUS_OK, p1) \<and> inv p1 \<and>
    reg p1 LAN8742_BCR AND NOT 0x3100 = reg p LAN8742_BCR AND NOT 0x3100 \<and>
    LAN8742_GetLinkState (registered_phy hal dev) p1 = (st, p2) \<and> st \<in> {L, LAN8742_STATUS_LINK_DOWN}"
  by (rule phy.set_get_link)

lemma link_10_half:
  "inv p \<Longrightarrow> \<exists>p'. LAN8742_SetLinkState LAN8742_STATUS_10MBITS_HALFDUPLEX (registered_phy hal dev) p =
     (LAN8742_STATUS_ERROR, p') \<and> inv p' \<and> reg p' LAN8742_BCR = reg p LAN8742_BCR"
  by (rule phy.set_link_10_half)

lemmas switches = phy.control_bits
lemmas masks = phy.interrupt_mask

end

section \<open>A PHY on the bus\<close>

text \<open>The management interface with one PHY on it, as its data sheet describes it: 16-bit
  registers, an address nobody answers reads as ones, and the two self-clearing bits
  of the control register do not stick.\<close>

record mdio_bus =
  mb_regs :: "u32 \<Rightarrow> u16"
  mb_addr :: u32
  mb_tick :: nat

definition mdio_hal :: "mdio_bus hal" where
  "mdio_hal =
     \<lparr>HAL_ETH_ReadPHYRegister =
        (\<lambda>a r p. ((True, if a = mb_addr p then ucast (mb_regs p r) else 0xFFFF), p)),
      HAL_ETH_WritePHYRegister =
        (\<lambda>a r v p. (True, if a = mb_addr p
           then p\<lparr>mb_regs := (mb_regs p)(r := if r = LAN8742_BCR then ucast v AND NOT 0x8200 else ucast v)\<rparr>
           else p)),
      HAL_ETH_SetMDIOClockRange = (\<lambda>p. p),
      HAL_GetTick = mb_tick\<rparr>"

definition mdio_inv :: "u32 \<Rightarrow> mdio_bus \<Rightarrow> bool" where
  "mdio_inv dev p \<longleftrightarrow> mb_addr p = dev \<and> mb_regs p LAN8742_BCR AND 0x8200 = 0"

lemma and_not_disjoint:
  assumes "w AND m = (0 :: 'a::len word)"
  shows "w AND NOT m = w"
proof (rule bit_word_eqI)
  fix n
  assume "n < LENGTH('a)"
  have "\<not> bit (w AND m) n" using assms by simp
  then show "bit (w AND NOT m) n = bit w n" using \<open>n < LENGTH('a)\<close> by (auto simp: bit_simps)
qed

lemma ucast_self_clearing:
  assumes "(v :: u32) AND 0x8200 = 0"
  shows "(ucast v :: u16) AND NOT 0x8200 = ucast v" and "(ucast v :: u16) AND 0x8200 = 0"
proof -
  have "(ucast v :: u16) AND 0x8200 = ucast (v AND 0x8200)"
    by (rule bit_word_eqI) (auto simp: bit_simps)
  then show "(ucast v :: u16) AND 0x8200 = 0" using assms by simp
  then show "(ucast v :: u16) AND NOT 0x8200 = ucast v" by (rule and_not_disjoint)
qed

interpretation mdio: working_mdio mdio_hal dev "mdio_inv dev" mb_regs
proof unfold_locales
  fix p r
  assume "mdio_inv dev p"
  then show "\<exists>p'. HAL_ETH_ReadPHYRegister mdio_hal dev r p = ((True, ucast (mb_regs p r)), p') \<and>
      mdio_inv dev p' \<and> mb_regs p' LAN8742_BCR = mb_regs p LAN8742_BCR \<and>
      mb_regs p' LAN8742_IMR = mb_regs p LAN8742_IMR"
    by (auto simp: mdio_hal_def mdio_inv_def)
next
  fix p r and v :: u32
  assume "mdio_inv dev p" "r \<in> {LAN8742_BCR, LAN8742_IMR}" "r = LAN8742_BCR \<Longrightarrow> v AND 0x8200 = 0"
  then show "\<exists>p'. HAL_ETH_WritePHYRegister mdio_hal dev r v p = (True, p') \<and> mdio_inv dev p' \<and>
      mb_regs p' r = ucast v \<and>
      (\<forall>r' \<in> {LAN8742_BCR, LAN8742_IMR}. r' \<noteq> r \<longrightarrow> mb_regs p' r' = mb_regs p r')"
    using ucast_self_clearing [of v]
    by (auto simp: mdio_hal_def mdio_inv_def consts_simp)
next
  fix p
  assume "mdio_inv dev p"
  then show "mb_regs p LAN8742_BCR AND 0x8200 = 0" by (simp add: mdio_inv_def)
qed

section \<open>Lemmas on the link, the descriptors and the buffers\<close>

text \<open>The interface and the MAC agree on the link.\<close>

definition link_inv :: "'p eth \<Rightarrow> bool" where
  "link_inv s \<longleftrightarrow> (mac_running s \<longleftrightarrow> netif_link_up s) \<and> (netif_link_up s \<longrightarrow> netif_up s)"

lemma eth_call_simps [simp]:
  "mdio (eth_call c s) = mdio s" "LAN8742 (eth_call c s) = LAN8742 s" "hwaddr (eth_call c s) = hwaddr s"
  "TxConfig (eth_call c s) = TxConfig s" "netif_mtu (eth_call c s) = netif_mtu s"
  "netif_flags (eth_call c s) = netif_flags s" "netif_name (eth_call c s) = netif_name s"
  "EthRxEvent (eth_call c s) = EthRxEvent s" "RxAllocStatus (eth_call c s) = RxAllocStatus s"
  "RX_POOL (eth_call c s) = RX_POOL s" "eth_log (eth_call c s) = eth_log s @ [c]"
  "mac_running (eth_call c s) = (c = ETH_Start_IT \<or> c \<noteq> ETH_Stop \<and> mac_running s)"
  "netif_up (eth_call c s) = (c = Netif_set_up \<or> c \<noteq> Netif_set_down \<and> netif_up s)"
  "netif_link_up (eth_call c s) = (c = Netif_set_link_up \<or> c \<noteq> Netif_set_link_down \<and> netif_link_up s)"
  "mac_config (eth_call c s) = (case c of ETH_SetMACConfig d v \<Rightarrow> (d, v) | _ \<Rightarrow> mac_config s)"
  by (cases c; simp add: eth_call_def)+

lemma link_mode_bounds: "link_mode st = Some m \<Longrightarrow> 1 < st \<and> st < 6"
  by (auto simp: link_mode_def consts_simp split: if_splits)

lemma link_check:
  assumes "LAN8742_GetLinkState (LAN8742 s) (mdio s) = (st, p)"
  defines "s' \<equiv> ethernet_link_check_state s"
  shows "link_inv s \<Longrightarrow> link_inv s'"
    and "st \<le> 1 \<Longrightarrow> \<not> netif_link_up s'"
    and "link_mode st = Some m \<Longrightarrow> netif_link_up s' \<and>
      (\<not> netif_link_up s \<longrightarrow> mac_config s' = m \<and> EthRxEvent s' = 1 \<and>
        eth_log s' = eth_log s @ [ETH_SetMACConfig (fst m) (snd m), ETH_Start_IT, Netif_set_up, Netif_set_link_up])"
    and "1 < st \<Longrightarrow> link_mode st = None \<Longrightarrow> s' = s\<lparr>mdio := p\<rparr>"
    and "netif_link_up s \<Longrightarrow> 1 < st \<Longrightarrow> s' = s\<lparr>mdio := p\<rparr>"
  using assms(1) link_mode_bounds [of st]
  by (auto simp: s'_def ethernet_link_check_state_def link_inv_def consts_simp Let_def
      split: option.splits prod.splits if_splits)

lemma tx_fill: "tx_fill qs out = (if length out + length qs \<le> 4 \<or> qs = [] then Some (out @ qs) else None)"
  by (induction qs arbitrary: out) (auto simp: consts_simp)

section \<open>The chain of a received frame\<close>

fun pbuf_chain :: "pbuf_store \<Rightarrow> nat option \<Rightarrow> nat list \<Rightarrow> bool" where
  "pbuf_chain h a [] \<longleftrightarrow> a = None"
| "pbuf_chain h a (x # xs) \<longleftrightarrow> a = Some x \<and> pbuf_chain h (pb_next (h x)) xs"

text \<open>The frame being assembled: its buffers in order, the lengths in each, and in every
  buffer the length of the rest of the frame from there on.\<close>

definition rx_frame :: "pbuf_store \<Rightarrow> nat option \<Rightarrow> nat option \<Rightarrow> (nat \<times> nat) list \<Rightarrow> bool" where
  "rx_frame h pStart pEnd bs \<longleftrightarrow>
     pbuf_chain h pStart (map fst bs) \<and> distinct (map fst bs) \<and>
     (bs \<noteq> [] \<longrightarrow> pEnd = Some (fst (last bs))) \<and>
     (\<forall>i < length bs. pb_len (h (fst (bs ! i))) = snd (bs ! i) \<and>
        pb_tot_len (h (fst (bs ! i))) = sum_list (map snd (drop i bs)))"

lemma pbuf_chain_cong:
  "(\<And>x. x \<in> set xs \<Longrightarrow> pb_next (h' x) = pb_next (h x)) \<Longrightarrow> pbuf_chain h' a xs = pbuf_chain h a xs"
  by (induction xs arbitrary: a) auto

lemma pbuf_chain_append:
  assumes "pbuf_chain h a xs" and "p \<notin> set xs" and "pb_next (h p) = None" and "distinct xs"
  shows "xs = [] \<Longrightarrow> pbuf_chain h (Some p) [p]"
    and "xs \<noteq> [] \<Longrightarrow> pbuf_chain (h(last xs := (h (last xs))\<lparr>pb_next := Some p\<rparr>)) a (xs @ [p])"
proof -
  show "xs = [] \<Longrightarrow> pbuf_chain h (Some p) [p]" using assms(3) by simp
  show "xs \<noteq> [] \<Longrightarrow> pbuf_chain (h(last xs := (h (last xs))\<lparr>pb_next := Some p\<rparr>)) a (xs @ [p])"
    using assms
  proof (induction xs arbitrary: a)
    case (Cons x xs)
    then show ?case
      by (cases "xs = []") (auto simp: fun_upd_apply split: if_splits)
  qed simp
qed

lemma add_tot_len_chain:
  assumes "pbuf_chain h a xs" and "distinct xs"
  shows "add_tot_len a n h =
    Some (\<lambda>x. if x \<in> set xs then (h x)\<lparr>pb_tot_len := to_u16 (int (pb_tot_len (h x)) + int n)\<rparr> else h x)"
  using assms
proof (induction xs arbitrary: a h)
  case Nil
  then show ?case by (simp add: add_tot_len.simps)
next
  case (Cons x xs)
  let ?h = "h(x := (h x)\<lparr>pb_tot_len := to_u16 (int (pb_tot_len (h x)) + int n)\<rparr>)"
  have "pbuf_chain ?h (pb_next (?h x)) xs"
    using Cons.prems by (subst pbuf_chain_cong [of _ _ h]) auto
  have "add_tot_len a n h = add_tot_len (pb_next (?h x)) n ?h"
    using Cons.prems by (subst add_tot_len.simps) (simp add: Let_def)
  also have "\<dots> = Some (\<lambda>y. if y \<in> set xs
      then (?h y)\<lparr>pb_tot_len := to_u16 (int (pb_tot_len (?h y)) + int n)\<rparr> else ?h y)"
    using \<open>pbuf_chain ?h (pb_next (?h x)) xs\<close> Cons.prems(2) by (intro Cons.IH) (auto simp: fun_upd_def)
  also have "\<dots> = Some (\<lambda>y. if y \<in> set (x # xs)
      then (h y)\<lparr>pb_tot_len := to_u16 (int (pb_tot_len (h y)) + int n)\<rparr> else h y)"
    using Cons.prems(2) by (auto simp: fun_eq_iff)
  finally show ?case .
qed

lemma rx_link:
  assumes frame: "rx_frame h pStart pEnd bs" and new: "p \<notin> fst ` set bs"
    and small: "sum_list (map snd bs) + n < 65536"
  shows "\<exists>pStart' h'. HAL_ETH_RxLinkCallback pStart pEnd p n h = Some (pStart', Some p, h') \<and>
    rx_frame h' pStart' (Some p) (bs @ [(p, n)])"
proof -
  let ?xs = "map fst bs"
  let ?h1 = "h(p := \<lparr>pb_next = None, pb_tot_len = 0, pb_len = n\<rparr>)"
  let ?h2 = "if bs = [] then ?h1 else ?h1(last ?xs := (?h1 (last ?xs))\<lparr>pb_next := Some p\<rparr>)"
  let ?start = "if bs = [] then Some p else pStart"
  let ?h3 = "\<lambda>x. if x \<in> set (?xs @ [p])
      then (?h2 x)\<lparr>pb_tot_len := to_u16 (int (pb_tot_len (?h2 x)) + int n)\<rparr> else ?h2 x"
  from frame have ch: "pbuf_chain h pStart ?xs" and dist: "distinct ?xs"
    and ends: "bs \<noteq> [] \<Longrightarrow> pEnd = Some (last ?xs)"
    and lens: "\<And>i. i < length bs \<Longrightarrow> pb_len (h (fst (bs ! i))) = snd (bs ! i) \<and>
        pb_tot_len (h (fst (bs ! i))) = sum_list (map snd (drop i bs))"
    by (auto simp: rx_frame_def last_map)
  have p: "p \<notin> set ?xs" using new by auto
  have ch1: "pbuf_chain ?h1 pStart ?xs"
    using ch p by (subst pbuf_chain_cong [of _ _ h]) auto
  have ch2: "pbuf_chain ?h2 ?start (?xs @ [p])"
    using pbuf_chain_append [OF ch1 p _ dist] by (cases "bs = []") (auto simp: fun_upd_def)
  have dist2: "distinct (?xs @ [p])" using dist p by simp
  have "pStart = None \<longleftrightarrow> bs = []" using ch by (cases bs) auto
  then have call: "HAL_ETH_RxLinkCallback pStart pEnd p n h = Some (?start, Some p, ?h3)"
    using ends add_tot_len_chain [OF ch2 dist2, of n]
    by (auto simp: HAL_ETH_RxLinkCallback_def Let_def split: option.splits)
  have ch3: "pbuf_chain ?h3 ?start (?xs @ [p])"
    using ch2 by (subst pbuf_chain_cong [of _ _ ?h2]) auto
  have old: "pb_len (?h3 (fst (bs ! i))) = snd (bs ! i) \<and>
      pb_tot_len (?h3 (fst (bs ! i))) = sum_list (map snd (drop i bs)) + n" if "i < length bs" for i
  proof -
    have "fst (bs ! i) \<in> set ?xs" "fst (bs ! i) \<noteq> p" using that p by force+
    moreover have "sum_list (map snd (drop i bs)) \<le> sum_list (map snd bs)"
      by (metis append_take_drop_id le_add2 map_append sum_list_append)
    ultimately show ?thesis
      using lens [OF that] small by (auto simp flip: of_nat_add)
  qed
  have "pb_len (?h3 p) = n \<and> pb_tot_len (?h3 p) = n"
    using p small last_in_set [of ?xs] by (auto simp: fun_upd_def)
  then have "rx_frame ?h3 ?start (Some p) (bs @ [(p, n)])"
    using ch3 dist2 old by (auto simp: rx_frame_def nth_append less_Suc_eq)
  then show ?thesis using call by blast
qed

text \<open>The callback for every buffer of a frame, in the order the DMA filled them.\<close>

fun link_all :: "(nat \<times> nat) list \<Rightarrow> nat option \<times> nat option \<times> pbuf_store \<Rightarrow>
    (nat option \<times> nat option \<times> pbuf_store) option" where
  "link_all [] c = Some c"
| "link_all ((p, n) # bs) (pStart, pEnd, h) =
     do { c \<leftarrow> HAL_ETH_RxLinkCallback pStart pEnd p n h; link_all bs c }"

lemma link_all_frame:
  assumes "rx_frame h pStart pEnd as" and "distinct (map fst (as @ bs))"
    and "sum_list (map snd (as @ bs)) < 65536"
  shows "\<exists>pStart' pEnd' h'. link_all bs (pStart, pEnd, h) = Some (pStart', pEnd', h') \<and>
    rx_frame h' pStart' pEnd' (as @ bs)"
  using assms
proof (induction bs arbitrary: as h pStart pEnd)
  case Nil
  then show ?case by simp
next
  case (Cons b bs)
  obtain p n where b: "b = (p, n)" by (cases b)
  have "p \<notin> fst ` set as" "sum_list (map snd as) + n < 65536" using Cons.prems(2,3) b by auto
  from rx_link [OF Cons.prems(1) this] obtain s1 h1
    where 1: "HAL_ETH_RxLinkCallback pStart pEnd p n h = Some (s1, Some p, h1)"
      "rx_frame h1 s1 (Some p) (as @ [(p, n)])" by blast
  from Cons.IH [OF 1(2)] Cons.prems(2,3) b show ?case using 1(1) by auto
qed

section \<open>The input loop\<close>

text \<open>A receive DMA that has the frames \<open>fs\<close> ready: each call of \<^verbatim>\<open>HAL_ETH_ReadData\<close>
  returns one, then none.\<close>

fun delivers :: "('p eth \<Rightarrow> nat option \<times> 'p eth) \<Rightarrow> (nat \<Rightarrow> 'p eth \<Rightarrow> bool \<times> 'p eth) \<Rightarrow>
    (nat \<Rightarrow> 'p eth \<Rightarrow> 'p eth) \<Rightarrow> 'p eth \<Rightarrow> nat list \<Rightarrow> 'p eth \<Rightarrow> bool" where
  "delivers rd inp fr s [] s' \<longleftrightarrow> low_level_input rd s = (None, s')"
| "delivers rd inp fr s (f # fs) s' \<longleftrightarrow>
     (\<exists>s1 ok s2. low_level_input rd s = (Some f, s1) \<and> inp f s1 = (ok, s2) \<and>
        delivers rd inp fr (if \<not> ok then fr f s2 else s2) fs s')"

lemma input_loop: "delivers rd inp fr s fs s' \<Longrightarrow> ethernetif_input rd inp fr s = Some s'"
  by (induction fs arbitrary: s) (subst ethernetif_input.simps; auto)+

end
