(* ===== verification/Net_Port.thy ===== *)
theory Net_Port
  imports Ethernetif
begin

text \<open>
  The network port of the board, \<^verbatim>\<open>libraries/OpenPLC_Net/src/openplc_net_port.c\<close>: start of
  LwIP and its interface, the poll function the main loop calls, and the queries.
  LwIP's own calls are recorded; its timers are the parameter \<open>timeouts\<close>, and the
  address its DHCP client obtained is a component of the state.
\<close>

datatype lwip_call =
    Lwip_init
  | Netif_add
  | Netif_set_default
  | Netif_set_link_callback
  | Dhcp_start

record 'p net =
  gnetif :: "'p eth"
  netInited :: bool
  ethernetLinkTimer :: nat
  net_ip :: u32
  dhcp_bound :: bool
  net_log :: "lwip_call list"

definition net_call :: "lwip_call \<Rightarrow> 'p net \<Rightarrow> 'p net" where
  "net_call c s = s\<lparr>net_log := net_log s @ [c]\<rparr>"

text \<open>\<open>init\<close> is \<^verbatim>\<open>ethernetif_init\<close>, which \<^verbatim>\<open>netif_add\<close> calls with the interface.\<close>

definition openplc_net_init :: "('p eth \<Rightarrow> 'p eth) \<Rightarrow> 'p net \<Rightarrow> 'p net" where
  "openplc_net_init init s =
     (if netInited s then s
      else (let s1 = net_call Netif_add ((net_call Lwip_init s)\<lparr>net_ip := 0\<rparr>);
                s2 = s1\<lparr>gnetif := init (gnetif s1)\<rparr>;
                s3 = net_call Netif_set_default s2;
                s4 = s3\<lparr>gnetif := eth_call Netif_set_up (gnetif s3)\<rparr>;
                s5 = net_call Dhcp_start (net_call Netif_set_link_callback s4)
            in s5\<lparr>netInited := True\<rparr>))"

text \<open>\<open>t1\<close> and \<open>t2\<close> are the two readings of the millisecond tick.\<close>

definition openplc_net_process ::
    "('p eth \<Rightarrow> nat option \<times> 'p eth) \<Rightarrow> (nat \<Rightarrow> 'p eth \<Rightarrow> bool \<times> 'p eth) \<Rightarrow>
     (nat \<Rightarrow> 'p eth \<Rightarrow> 'p eth) \<Rightarrow> ('p net \<Rightarrow> 'p net) \<Rightarrow> nat \<Rightarrow> nat \<Rightarrow> 'p net \<Rightarrow> 'p net option" where
  "openplc_net_process read_data input free timeouts t1 t2 s =
     (if \<not> netInited s then Some s
      else do { e1 \<leftarrow> (if ethernetif_rx_event_pending (gnetif s) \<noteq> 0
                       then ethernetif_input read_data input free (ethernetif_rx_event_clear (gnetif s))
                       else Some (gnetif s));
                let s1 = timeouts (s\<lparr>gnetif := e1\<rparr>);
                Some (if to_u32 (int t1 - int (ethernetLinkTimer s1)) \<ge> 100
                      then s1\<lparr>ethernetLinkTimer := t2,
                              gnetif := ethernet_link_check_state (gnetif s1)\<rparr>
                      else s1) })"

definition openplc_net_ip_addr :: "'p net \<Rightarrow> u32 option" where
  "openplc_net_ip_addr s = (if \<not> netInited s then None else Some (net_ip s))"

definition openplc_net_link_up :: "'p net \<Rightarrow> u8" where
  "openplc_net_link_up s =
     (if \<not> netInited s then 0 else if netif_link_up (gnetif s) then 1 else 0)"

definition openplc_net_has_ip :: "'p net \<Rightarrow> u8" where
  "openplc_net_has_ip s = (if \<not> netInited s then 0 else if dhcp_bound s then 1 else 0)"

text \<open>The address is held in network byte order: its first byte is the lowest one of the
  little-endian word. The result is the return value and the four bytes stored.\<close>

definition openplc_net_get_ipv4 :: "bool \<Rightarrow> 'p net \<Rightarrow> u8 \<times> u8 list option" where
  "openplc_net_get_ipv4 out_null s =
     (if out_null \<or> \<not> netInited s \<or> \<not> dhcp_bound s then (0, None)
      else (1, Some [ucast (net_ip s), ucast (drop_bit 8 (net_ip s)),
                     ucast (drop_bit 16 (net_ip s)), ucast (drop_bit 24 (net_ip s))]))"

end
