(* ===== verification/Net_Properties.thy ===== *)
theory Net_Properties
  imports Net_Port "HOL-Library.Multiset"
begin

text \<open>
  The properties of the Ethernet side: the PHY driver on a working bus, the link
  supervision, the receive buffers and the poll function.
\<close>

section \<open>The PHY\<close>

definition bus0 :: mdio_bus where
  "bus0 = \<lparr>mb_regs = (\<lambda>r. if r = LAN8742_BSR then 0x0004 else if r = LAN8742_SMR then 0x00E0 OR 5 else 0),
           mb_addr = 5, mb_tick = 0\<rparr>"

text \<open>On a working bus, forcing a link mode and reading the link state back returns the
  mode that was set (or that the link is down), for each of the three modes the
  function accepts, and leaves every other bit of the control register as it was.\<close>

theorem phy_link_mode_roundtrip:
  assumes "working_mdio hal dev ok reg" and "ok p"
    and "L \<in> {LAN8742_STATUS_100MBITS_FULLDUPLEX, LAN8742_STATUS_100MBITS_HALFDUPLEX,
              LAN8742_STATUS_10MBITS_FULLDUPLEX}"
  shows "\<exists>p1 st p2.
    LAN8742_SetLinkState L (registered_phy hal dev) p = (LAN8742_STATUS_OK, p1) \<and>
    reg p1 LAN8742_BCR AND NOT 0x3100 = reg p LAN8742_BCR AND NOT 0x3100 \<and>
    LAN8742_GetLinkState (registered_phy hal dev) p1 = (st, p2) \<and> st \<in> {L, LAN8742_STATUS_LINK_DOWN}"
  using working_mdio.link_roundtrip [OF assms] by blast

theorem phy_link_mode_roundtrip_witness:
  "\<exists>p1 st p2. LAN8742_SetLinkState 3 (registered_phy mdio_hal 5) bus0 = (0, p1) \<and>
    LAN8742_GetLinkState (registered_phy mdio_hal 5) p1 = (st, p2) \<and> st \<in> {3, 1}"
  using phy_link_mode_roundtrip [OF mdio.working_mdio_axioms, of 5 bus0 3]
  by (auto simp: mdio_inv_def bus0_def consts_simp)

text \<open>The mode 10 Mbit/s half duplex, which the documentation of the function lists
  as valid, is refused with a parameter error, and nothing is written.\<close>

theorem phy_refuses_10_half:
  assumes "working_mdio hal dev ok reg" and "ok p"
  shows "\<exists>p'. LAN8742_SetLinkState LAN8742_STATUS_10MBITS_HALFDUPLEX (registered_phy hal dev) p =
      (LAN8742_STATUS_ERROR, p') \<and> reg p' LAN8742_BCR = reg p LAN8742_BCR"
  using working_mdio.link_10_half [OF assms] by blast

theorem phy_refuses_10_half_witness:
  "\<exists>p'. LAN8742_SetLinkState 5 (registered_phy mdio_hal 5) bus0 = (- 1, p') \<and>
    mb_regs p' 0 = mb_regs bus0 0"
  using phy_refuses_10_half [OF mdio.working_mdio_axioms, of 5 bus0]
  by (auto simp: mdio_inv_def bus0_def consts_simp)

lemma phy_switch_pairs:
  assumes "working_mdio hal dev ok reg" and "ok p"
  shows "\<exists>p1 p2. LAN8742_EnablePowerDownMode (registered_phy hal dev) p = (LAN8742_STATUS_OK, p1) \<and>
      reg p1 LAN8742_BCR = reg p LAN8742_BCR OR 0x0800 \<and>
      LAN8742_DisablePowerDownMode (registered_phy hal dev) p1 = (LAN8742_STATUS_OK, p2) \<and>
      reg p2 LAN8742_BCR = reg p LAN8742_BCR AND NOT 0x0800"
    and "\<exists>p1 p2. LAN8742_EnableLoopbackMode (registered_phy hal dev) p = (LAN8742_STATUS_OK, p1) \<and>
      reg p1 LAN8742_BCR = reg p LAN8742_BCR OR 0x4000 \<and>
      LAN8742_DisableLoopbackMode (registered_phy hal dev) p1 = (LAN8742_STATUS_OK, p2) \<and>
      reg p2 LAN8742_BCR = reg p LAN8742_BCR AND NOT 0x4000"
proof -
  have restore: "(v OR m) AND NOT m = v AND NOT m" for v m :: u16
    by (simp add: bit.conj_disj_distrib2)
  note sw = working_mdio.switches [OF assms(1)]
  from sw(1) [OF assms(2)] obtain p1
    where "LAN8742_EnablePowerDownMode (registered_phy hal dev) p = (LAN8742_STATUS_OK, p1)" "ok p1"
      "reg p1 LAN8742_BCR = reg p LAN8742_BCR OR 0x0800" by blast
  with sw(2) [of p1] restore [of "reg p LAN8742_BCR" "0x0800"] show
    "\<exists>p1 p2. LAN8742_EnablePowerDownMode (registered_phy hal dev) p = (LAN8742_STATUS_OK, p1) \<and>
      reg p1 LAN8742_BCR = reg p LAN8742_BCR OR 0x0800 \<and>
      LAN8742_DisablePowerDownMode (registered_phy hal dev) p1 = (LAN8742_STATUS_OK, p2) \<and>
      reg p2 LAN8742_BCR = reg p LAN8742_BCR AND NOT 0x0800" by metis
  from sw(3) [OF assms(2)] obtain p1
    where "LAN8742_EnableLoopbackMode (registered_phy hal dev) p = (LAN8742_STATUS_OK, p1)" "ok p1"
      "reg p1 LAN8742_BCR = reg p LAN8742_BCR OR 0x4000" by blast
  with sw(4) [of p1] restore [of "reg p LAN8742_BCR" "0x4000"] show
    "\<exists>p1 p2. LAN8742_EnableLoopbackMode (registered_phy hal dev) p = (LAN8742_STATUS_OK, p1) \<and>
      reg p1 LAN8742_BCR = reg p LAN8742_BCR OR 0x4000 \<and>
      LAN8742_DisableLoopbackMode (registered_phy hal dev) p1 = (LAN8742_STATUS_OK, p2) \<and>
      reg p2 LAN8742_BCR = reg p LAN8742_BCR AND NOT 0x4000" by metis
qed

text \<open>Power down and loopback are independent switches: on a working bus each enable
  sets its one bit of the control register and each disable clears it, no other bit
  changes, and so a disable after an enable restores a register whose bit was clear.\<close>

theorem phy_switches:
  assumes "working_mdio hal dev ok reg" and "ok p"
  shows "(\<exists>p1 p2. LAN8742_EnablePowerDownMode (registered_phy hal dev) p = (LAN8742_STATUS_OK, p1) \<and>
      reg p1 LAN8742_BCR = reg p LAN8742_BCR OR 0x0800 \<and>
      LAN8742_DisablePowerDownMode (registered_phy hal dev) p1 = (LAN8742_STATUS_OK, p2) \<and>
      reg p2 LAN8742_BCR = reg p LAN8742_BCR AND NOT 0x0800) \<and>
    (\<exists>p1 p2. LAN8742_EnableLoopbackMode (registered_phy hal dev) p = (LAN8742_STATUS_OK, p1) \<and>
      reg p1 LAN8742_BCR = reg p LAN8742_BCR OR 0x4000 \<and>
      LAN8742_DisableLoopbackMode (registered_phy hal dev) p1 = (LAN8742_STATUS_OK, p2) \<and>
      reg p2 LAN8742_BCR = reg p LAN8742_BCR AND NOT 0x4000)"
  using phy_switch_pairs [OF assms] by blast

theorem phy_switches_witness:
  "\<exists>p1 p2. LAN8742_EnableLoopbackMode (registered_phy mdio_hal 5) bus0 = (0, p1) \<and>
    mb_regs p1 0 = 0x4000 \<and>
    LAN8742_DisableLoopbackMode (registered_phy mdio_hal 5) p1 = (0, p2) \<and> mb_regs p2 0 = 0"
  using phy_switches [OF mdio.working_mdio_axioms, of 5 bus0]
  by (auto simp: mdio_inv_def bus0_def consts_simp)

text \<open>Initialisation finds the PHY: the driver ends up with the lowest of the 32 bus
  addresses whose special mode register can be read and names that address; if there is
  none it reports an address error (never a read error) and stays uninitialised; and a
  second initialisation touches neither the bus nor the object.\<close>

theorem phy_init_finds_device:
  assumes "Is_Initialized obj = 0" and "\<And>a. snd (ReadReg obj a LAN8742_SMR p) = p"
    and "IO_Init obj = None \<or> (\<exists>f. IO_Init obj = Some f \<and> snd (f p) = p)"
  shows "(\<exists>b < 32. responds obj p b \<and> (\<forall>c < b. \<not> responds obj p c) \<and>
           LAN8742_Init obj p = (LAN8742_STATUS_OK, obj\<lparr>DevAddr := of_nat b, Is_Initialized := 1\<rparr>, p) \<and>
           LAN8742_Init (obj\<lparr>DevAddr := of_nat b, Is_Initialized := 1\<rparr>) p =
             (LAN8742_STATUS_OK, obj\<lparr>DevAddr := of_nat b, Is_Initialized := 1\<rparr>, p)) \<or>
         (\<forall>c < 32. \<not> responds obj p c) \<and>
           LAN8742_Init obj p = (LAN8742_STATUS_ADDRESS_ERROR, obj\<lparr>DevAddr := 32\<rparr>, p)"
proof -
  have again: "LAN8742_Init (obj\<lparr>DevAddr := a, Is_Initialized := 1\<rparr>) p =
      (LAN8742_STATUS_OK, obj\<lparr>DevAddr := a, Is_Initialized := 1\<rparr>, p)" for a
    by (simp add: LAN8742_Init_def)
  from phy_init [OF assms] show ?thesis using again by metis
qed

theorem phy_init_finds_device_witness:
  "\<exists>obj'. LAN8742_Init ((registered_phy mdio_hal 0)\<lparr>Is_Initialized := 0\<rparr>) bus0 = (0, obj', bus0) \<and>
    Is_Initialized obj' = 1"
proof -
  let ?obj = "(registered_phy mdio_hal 0)\<lparr>Is_Initialized := 0\<rparr>"
  have rd: "ReadReg (registered_phy mdio_hal 0) a 18 bus0 = ((0, if a = 5 then 0xE5 else 0xFFFF), bus0)" for a
    by (simp add: registered_phy_def ETH_PHY_IO_ReadReg_def mdio_hal_def bus0_def consts_simp)
  have dev5: "responds ?obj bus0 5" by (simp add: responds_def rd consts_simp)
  have "\<And>a. snd (ReadReg ?obj a LAN8742_SMR bus0) = bus0" by (simp add: rd consts_simp)
  moreover have "\<exists>f. IO_Init ?obj = Some f \<and> snd (f bus0) = bus0"
    by (simp add: registered_phy_def ETH_PHY_IO_Init_def mdio_hal_def)
  ultimately show ?thesis
    using phy_init_finds_device [of ?obj bus0] dev5 by (fastforce simp: consts_simp)
qed

section \<open>The link\<close>

text \<open>The mode of the MAC for each link state with a link.\<close>

definition modes_of_link :: "(int \<times> eth_duplex \<times> eth_speed) list" where
  "modes_of_link =
     [(LAN8742_STATUS_100MBITS_FULLDUPLEX, ETH_FULLDUPLEX_MODE, ETH_SPEED_100M),
      (LAN8742_STATUS_100MBITS_HALFDUPLEX, ETH_HALFDUPLEX_MODE, ETH_SPEED_100M),
      (LAN8742_STATUS_10MBITS_FULLDUPLEX, ETH_FULLDUPLEX_MODE, ETH_SPEED_10M),
      (LAN8742_STATUS_10MBITS_HALFDUPLEX, ETH_HALFDUPLEX_MODE, ETH_SPEED_10M)]"

lemma modes_of_link: "(st, m) \<in> set modes_of_link \<Longrightarrow> link_mode st = Some m"
  by (auto simp: modes_of_link_def link_mode_def consts_simp)

text \<open>C16: After every check the interface follows the PHY. If the PHY reports the link
  down, or cannot be read, the link is down and the MAC stopped; if it reports a mode,
  the link is up, and if it was down before, the MAC has first been configured with
  the duplex and speed of that mode and started; while the negotiation runs nothing
  changes. The MAC runs exactly while the link is up.\<close>

theorem link_follows_phy:
  assumes "link_inv s" and "LAN8742_GetLinkState (LAN8742 s) (mdio s) = (st, p)"
  defines "s' \<equiv> ethernet_link_check_state s"
  shows "link_inv s' \<and>
    (st \<le> LAN8742_STATUS_LINK_DOWN \<longrightarrow> \<not> netif_link_up s' \<and> \<not> mac_running s') \<and>
    (\<forall>m. (st, m) \<in> set modes_of_link \<longrightarrow> netif_link_up s' \<and> mac_running s' \<and>
       (\<not> netif_link_up s \<longrightarrow> mac_config s' = m \<and>
          eth_log s' = eth_log s @
            [ETH_SetMACConfig (fst m) (snd m), ETH_Start_IT, Netif_set_up, Netif_set_link_up])) \<and>
    (st = LAN8742_STATUS_AUTONEGO_NOTDONE \<longrightarrow> s' = s\<lparr>mdio := p\<rparr>)"
proof -
  note lc = link_check [OF assms(2), folded s'_def]
  have "link_inv s'" using lc(1) assms(1) .
  then show ?thesis
    using lc(2-4) by (auto simp: link_inv_def consts_simp link_mode_def dest: modes_of_link)
qed

definition eth0 :: "mdio_bus eth" where
  "eth0 = \<lparr>LAN8742 = registered_phy mdio_hal 5, mdio = bus0, mac_running = False,
     mac_config = (ETH_HALFDUPLEX_MODE, ETH_SPEED_10M), netif_up = True, netif_link_up = False,
     netif_name = '''', netif_mtu = 0, netif_flags = {}, TxConfig = {}, hwaddr = [], EthRxEvent = 0, RxAllocStatus = RX_ALLOC_OK, RX_POOL = [0..<12], eth_log = []\<rparr>"

theorem link_follows_phy_witness:
  "netif_link_up (ethernet_link_check_state eth0) \<and> mac_running (ethernet_link_check_state eth0) \<and>
   mac_config (ethernet_link_check_state eth0) = (ETH_HALFDUPLEX_MODE, ETH_SPEED_10M)"
proof -
  have st: "LAN8742_GetLinkState (LAN8742 eth0) (mdio eth0) = (5, bus0)"
    by (simp add: eth0_def registered_phy_def LAN8742_GetLinkState_def ETH_PHY_IO_ReadReg_def
        mdio_hal_def bus0_def forced_mode_def consts_simp)
  have "link_inv eth0" by (simp add: link_inv_def eth0_def)
  from link_follows_phy [OF this st] show ?thesis
    by (simp add: modes_of_link_def consts_simp eth0_def)
qed

section \<open>Bringing the interface up\<close>

lemma byte_bits:
  assumes "(ucast (drop_bit k (h :: u32)) :: u8) = ucast (drop_bit k g)" and "k \<le> n" "n < k + 8" "n < 32"
  shows "bit h n \<longleftrightarrow> bit g n"
proof -
  have "bit (ucast (drop_bit k h) :: u8) (n - k) = bit (ucast (drop_bit k g) :: u8) (n - k)"
    using assms(1) by simp
  moreover have "n - k < 8" using assms(2,3) by linarith
  ultimately show ?thesis using assms(2-4) by (simp add: bit_simps)
qed

lemma bytes_determine:
  assumes "(ucast (drop_bit 24 h) :: u8) = ucast (drop_bit 24 g)"
    "(ucast (drop_bit 16 h) :: u8) = ucast (drop_bit 16 g)"
    "(ucast (drop_bit 8 h) :: u8) = ucast (drop_bit 8 g)" "(ucast h :: u8) = ucast g"
  shows "h = (g :: u32)"
proof (rule bit_word_eqI)
  fix n assume n: "n < LENGTH(32)"
  have low: "(ucast (drop_bit 0 h) :: u8) = ucast (drop_bit 0 g)" using assms(4) by simp
  consider "n < 8" | "8 \<le> n" "n < 16" | "16 \<le> n" "n < 24" | "24 \<le> n" "n < 32" using n by fastforce
  then show "bit h n \<longleftrightarrow> bit g n"
    using byte_bits [OF low, of n] byte_bits [OF assms(3), of n] byte_bits [OF assms(2), of n]
      byte_bits [OF assms(1), of n] by cases simp_all
qed

lemma xor_cancel: "a XOR c = b XOR c \<longleftrightarrow> a = b" for a b c :: "'a::len word"
proof
  assume "a XOR c = b XOR c"
  then have "(a XOR c) XOR c = (b XOR c) XOR c" by simp
  then show "a = b" by (simp only: xor.assoc xor_self_eq xor.right_neutral)
qed simp

lemma mac_eq:
  "openplc_make_mac_from_uid u0 u1 u2 = openplc_make_mac_from_uid v0 v1 v2 \<longleftrightarrow>
   u0 XOR push_bit 7 u1 XOR drop_bit 3 u2 = v0 XOR push_bit 7 v1 XOR drop_bit 3 v2 \<and>
   (ucast (u0 XOR u1 XOR u2) :: u8) = ucast (v0 XOR v1 XOR v2)"
proof -
  have bytes: "[0x02, ucast (drop_bit 24 h), ucast (drop_bit 16 h), ucast (drop_bit 8 h), ucast h, x] =
      [0x02, ucast (drop_bit 24 g), ucast (drop_bit 16 g), ucast (drop_bit 8 g), ucast g, y] \<longleftrightarrow> h = g \<and> x = y"
    (is "?l = ?r \<longleftrightarrow> _") for h g :: u32 and x y :: u8
  proof
    assume "?l = ?r"
    then show "h = g \<and> x = y" by (intro conjI bytes_determine) (simp_all only: list.inject)
  next
    assume "h = g \<and> x = y"
    then show "?l = ?r" by (simp only:)
  qed
  show ?thesis by (simp only: openplc_make_mac_from_uid_def Let_def bytes) (simp only: xor.assoc [symmetric] xor_cancel)
qed

text \<open>The hardware address derived from the unique identifier of the chip is a
  locally administered unicast address of six bytes. With two words of the identifier fixed it is
  one-to-one in the first and in the third word; in the second word it is determined by,
  and determines, exactly the low 25 bits, so two chips whose identifiers differ only in the top
  seven bits of the second word get the same address.\<close>

theorem mac_from_uid:
  "(\<exists>b. openplc_make_mac_from_uid u0 u1 u2 = 0x02 # b \<and> length b = 5) \<and>
   (openplc_make_mac_from_uid u0 u1 u2 = openplc_make_mac_from_uid v0 u1 u2 \<longleftrightarrow> u0 = v0) \<and>
   (openplc_make_mac_from_uid u0 u1 u2 = openplc_make_mac_from_uid u0 v1 u2 \<longleftrightarrow>
      take_bit 25 u1 = take_bit 25 v1) \<and>
   (openplc_make_mac_from_uid u0 u1 u2 = openplc_make_mac_from_uid u0 u1 v2 \<longleftrightarrow> u2 = v2)"
proof (intro conjI)
  have cancel: "a XOR b = a XOR c \<longleftrightarrow> b = c" "b XOR a = c XOR a \<longleftrightarrow> b = c" for a b c :: u32
    using xor_cancel [of b a c] by (simp_all add: xor.commute)
  have low: "(ucast (a XOR b XOR c) :: u8) = ucast (d XOR b XOR c) \<longleftrightarrow> (ucast a :: u8) = ucast d" for a b c d :: u32
    by (auto simp: bit_eq_iff bit_simps)
  show "\<exists>b. openplc_make_mac_from_uid u0 u1 u2 = 0x02 # b \<and> length b = 5"
    by (simp add: openplc_make_mac_from_uid_def Let_def)
  show "openplc_make_mac_from_uid u0 u1 u2 = openplc_make_mac_from_uid v0 u1 u2 \<longleftrightarrow> u0 = v0"
    by (auto simp: mac_eq cancel)
  have push: "push_bit 7 u1 = push_bit 7 v1 \<longleftrightarrow> take_bit 25 u1 = take_bit 25 v1"
  proof
    assume p: "push_bit 7 u1 = push_bit 7 v1"
    have "bit u1 n \<longleftrightarrow> bit v1 n" if "n < 25" for n
      using arg_cong [OF p, of "\<lambda>w. bit w (n + 7)"] that by (simp add: bit_simps)
    then show "take_bit 25 u1 = take_bit 25 v1" by (intro bit_word_eqI) (auto simp: bit_simps)
  next
    assume t: "take_bit 25 u1 = take_bit 25 v1"
    have "bit u1 n \<longleftrightarrow> bit v1 n" if "n < 25" for n
      using arg_cong [OF t, of "\<lambda>w. bit w n"] that by (simp add: bit_simps)
    then show "push_bit 7 u1 = push_bit 7 v1" by (intro bit_word_eqI) (auto simp: bit_simps)
  qed
  have take: "(ucast u1 :: u8) = ucast v1" if "take_bit 25 u1 = take_bit 25 v1"
  proof -
    have "ucast u1 = (ucast (take_bit 25 u1) :: u8)" for u1 :: u32 by (rule bit_word_eqI) (auto simp: bit_simps)
    then show ?thesis using that by metis
  qed
  show "openplc_make_mac_from_uid u0 u1 u2 = openplc_make_mac_from_uid u0 v1 u2 \<longleftrightarrow>
      take_bit 25 u1 = take_bit 25 v1"
    using take low [of u1 u0 u2 v1] by (auto simp: mac_eq cancel push xor.commute xor.left_commute)
  have drop: "u2 = v2" if "drop_bit 3 u2 = drop_bit 3 v2" "(ucast u2 :: u8) = ucast v2"
  proof (rule bit_word_eqI)
    fix n assume "n < LENGTH(32)"
    then show "bit u2 n \<longleftrightarrow> bit v2 n"
      using arg_cong [OF that(1), of "\<lambda>w. bit w (n - 3)"] arg_cong [OF that(2), of "\<lambda>w. bit w n"]
      by (cases "n < 8") (auto simp: bit_simps)
  qed
  show "openplc_make_mac_from_uid u0 u1 u2 = openplc_make_mac_from_uid u0 u1 v2 \<longleftrightarrow> u2 = v2"
    using drop low [of u2 u0 u1 v2] by (auto simp: mac_eq cancel xor.commute xor.left_commute)
qed

text \<open>Bringing the interface up without a working PHY: if none of the 32 bus
  addresses answers, the interface ends down with the link down, the MAC is not started,
  the PHY object is left with the invalid address 32, and still the call reports success;
  the hardware address and the receive pool are set up all the same.\<close>

theorem init_without_phy:
  fixes hal :: "'p hal" and s :: "'p eth"
  assumes "Is_Initialized (LAN8742 s) = 0"
    and "\<And>a p. snd (HAL_ETH_ReadPHYRegister hal a LAN8742_SMR p) = p"
    and "\<And>p. HAL_ETH_SetMDIOClockRange hal p = p"
    and "\<And>a p. fst (fst (HAL_ETH_ReadPHYRegister hal a LAN8742_SMR p)) \<Longrightarrow>
       a < 32 \<Longrightarrow> snd (fst (HAL_ETH_ReadPHYRegister hal a LAN8742_SMR p)) AND LAN8742_SMR_PHY_ADDR \<noteq> a"
    and "ethernetif_init hal (u0, u1, u2) hal_ok pool s = (e, s')"
  shows "e = ERR_OK \<and> \<not> netif_up s' \<and> \<not> netif_link_up s' \<and> mac_running s' = mac_running s \<and>
    DevAddr (LAN8742 s') = 32 \<and> Is_Initialized (LAN8742 s') = 0 \<and>
    hwaddr s' = openplc_make_mac_from_uid u0 u1 u2 \<and> RX_POOL s' = pool"
proof -
  let ?obj = "(LAN8742 s)\<lparr>IO_Init := Some (ETH_PHY_IO_Init hal), IO_DeInit := Some ETH_PHY_IO_DeInit,
      ReadReg := ETH_PHY_IO_ReadReg hal, WriteReg := ETH_PHY_IO_WriteReg hal, GetTick := ETH_PHY_IO_GetTick hal\<rparr>"
  have reg: "snd (LAN8742_RegisterBusIO (Some (LAN8742 s)) (LAN8742_IOCtx hal)) = Some ?obj"
    by (simp add: LAN8742_RegisterBusIO_def LAN8742_IOCtx_def)
  have quiet: "snd (ReadReg ?obj a LAN8742_SMR p) = p" for a p
    using assms(2) [of a p] by (auto simp: ETH_PHY_IO_ReadReg_def split: prod.splits)
  have init: "\<exists>f. IO_Init ?obj = Some f \<and> snd (f p) = p" for p
    using assms(3) by (simp add: ETH_PHY_IO_Init_def)
  have "\<not> responds ?obj p b" if "b < 32" for b p
  proof -
    have small: "(of_nat b :: u32) < 32" using that by (simp add: word_less_nat_alt unat_of_nat take_bit_nat_eq_self)
    show ?thesis
      using assms(4) [OF _ small, of p]
      by (auto simp: responds_def ETH_PHY_IO_ReadReg_def split: prod.splits if_splits)
  qed
  then have "LAN8742_Init ?obj (mdio s) = (LAN8742_STATUS_ADDRESS_ERROR, ?obj\<lparr>DevAddr := 32\<rparr>, mdio s)"
    using phy_init [of ?obj "mdio s"] quiet init assms(1) by auto
  then show ?thesis
    using assms(1,5) reg
    by (auto simp: ethernetif_init_def low_level_init_def Let_def consts_simp)
qed

text \<open>A bus on which every transfer fails.\<close>

definition dead_hal :: "mdio_bus hal" where
  "dead_hal = mdio_hal\<lparr>HAL_ETH_ReadPHYRegister := (\<lambda>a r p. ((False, 0), p))\<rparr>"

theorem init_without_phy_witness:
  "\<exists>s'. ethernetif_init dead_hal (1, 2, 3) True [0, 1] (eth0\<lparr>LAN8742 := (registered_phy mdio_hal 0)\<lparr>Is_Initialized := 0\<rparr>\<rparr>) =
      (ERR_OK, s') \<and> \<not> netif_link_up s' \<and> DevAddr (LAN8742 s') = 32 \<and> RX_POOL s' = [0, 1]"
proof -
  let ?s = "eth0\<lparr>LAN8742 := (registered_phy mdio_hal 0)\<lparr>Is_Initialized := 0\<rparr>\<rparr>"
  obtain e s' where run: "ethernetif_init dead_hal (1, 2, 3) True [0, 1] ?s = (e, s')"
    by (cases "ethernetif_init dead_hal (1, 2, 3) True [0, 1] ?s")
  show ?thesis
    using init_without_phy [OF _ _ _ _ run] run by (auto simp: dead_hal_def mdio_hal_def)
qed

text \<open>A missing PHY is taken for a device: if every read of the bus succeeds and returns
  ones, as a bus with a pull-up does when nobody answers, initialisation succeeds with
  address 31, because the five address bits of the value read are then 31, and the
  link state read from that address is a link of 10 Mbit/s, half duplex.\<close>

theorem absent_phy_taken_for_device:
  assumes "Is_Initialized obj = 0" and "IO_Init obj = None \<or> (\<exists>f. IO_Init obj = Some f \<and> snd (f p) = p)"
    and "\<And>a r. ReadReg obj a r p = ((0, 0xFFFF), p)"
  shows "LAN8742_Init obj p = (LAN8742_STATUS_OK, obj\<lparr>DevAddr := 31, Is_Initialized := 1\<rparr>, p) \<and>
    LAN8742_GetLinkState (obj\<lparr>DevAddr := 31, Is_Initialized := 1\<rparr>) p = (LAN8742_STATUS_10MBITS_HALFDUPLEX, p)"
proof
  have quiet: "snd (ReadReg obj a LAN8742_SMR p) = p" for a using assms(3) by simp
  have resp: "responds obj p b \<longleftrightarrow> of_nat b = (31 :: u32)" for b
    using assms(3) by (auto simp: responds_def consts_simp)
  have "responds obj p 31" by (simp add: resp)
  moreover have "\<not> responds obj p b" if "b < 31" for b
  proof
    assume "responds obj p b"
    then have "unat (of_nat b :: u32) = 31" by (simp add: resp)
    then show False using that by (simp add: unat_of_nat take_bit_nat_eq_self)
  qed
  ultimately have "b < 32 \<Longrightarrow> responds obj p b \<Longrightarrow> b = 31" for b
    by (cases "b < 31") auto
  then show "LAN8742_Init obj p = (LAN8742_STATUS_OK, obj\<lparr>DevAddr := 31, Is_Initialized := 1\<rparr>, p)"
    using phy_init [OF assms(1) quiet assms(2)] \<open>responds obj p 31\<close> by fastforce
  show "LAN8742_GetLinkState (obj\<lparr>DevAddr := 31, Is_Initialized := 1\<rparr>) p = (LAN8742_STATUS_10MBITS_HALFDUPLEX, p)"
    using assms(3) by (simp add: LAN8742_GetLinkState_def negotiated_mode_def consts_simp)
qed

definition pulled_up_hal :: "mdio_bus hal" where
  "pulled_up_hal = mdio_hal\<lparr>HAL_ETH_ReadPHYRegister := (\<lambda>a r p. ((True, 0xFFFF), p))\<rparr>"

theorem absent_phy_taken_for_device_witness:
  "fst (LAN8742_Init ((registered_phy pulled_up_hal 0)\<lparr>Is_Initialized := 0\<rparr>) bus0) = 0 \<and>
   fst (LAN8742_GetLinkState (registered_phy pulled_up_hal 31) bus0) = 5"
proof -
  let ?obj = "(registered_phy pulled_up_hal 0)\<lparr>Is_Initialized := 0\<rparr>"
  have "ReadReg ?obj a r bus0 = ((0, 0xFFFF), bus0)" for a r
    by (simp add: registered_phy_def ETH_PHY_IO_ReadReg_def pulled_up_hal_def)
  moreover have "\<exists>f. IO_Init ?obj = Some f \<and> snd (f bus0) = bus0"
    by (simp add: registered_phy_def ETH_PHY_IO_Init_def pulled_up_hal_def mdio_hal_def)
  moreover have "?obj\<lparr>DevAddr := 31, Is_Initialized := 1\<rparr> = registered_phy pulled_up_hal 31"
    by (simp add: registered_phy_def)
  ultimately show ?thesis
    using absent_phy_taken_for_device [of ?obj bus0] by (simp add: consts_simp)
qed

section \<open>Receive buffers\<close>

text \<open>C17: The receive callback chains the buffers of a frame in the order the DMA filled
  them: starting from no chain, after any number of buffers with distinct addresses
  and a frame below 64 KiB, the list from the start pointer is exactly these buffers,
  the end pointer is the last one, every buffer has its own length, and its total
  length is that of the rest of the frame from it on.\<close>

theorem rx_chain_is_frame:
  assumes "distinct (map fst bs)" and "sum_list (map snd bs) < 65536"
  shows "\<exists>pStart pEnd h'. link_all bs (None, None, h) = Some (pStart, pEnd, h') \<and>
    pbuf_chain h' pStart (map fst bs) \<and> (bs \<noteq> [] \<longrightarrow> pEnd = Some (fst (last bs))) \<and>
    (\<forall>i < length bs. pb_len (h' (fst (bs ! i))) = snd (bs ! i) \<and>
       pb_tot_len (h' (fst (bs ! i))) = sum_list (map snd (drop i bs)))"
proof -
  have "rx_frame h None None []" by (simp add: rx_frame_def)
  from link_all_frame [OF this, of bs] assms show ?thesis by (auto simp: rx_frame_def)
qed

theorem rx_chain_is_frame_witness:
  "\<exists>pStart pEnd h'. link_all [(7, 1536), (3, 200)] (None, None, \<lambda>_. \<lparr>pb_next = Some 9, pb_tot_len = 1, pb_len = 1\<rparr>)
      = Some (pStart, pEnd, h') \<and> pbuf_chain h' pStart [7, 3] \<and> pb_tot_len (h' 7) = 1736"
  using rx_chain_is_frame [of "[(7, 1536), (3, 200)]" "\<lambda>_. \<lparr>pb_next = Some 9, pb_tot_len = 1, pb_len = 1\<rparr>"]
  by fastforce

datatype pool_op = Rx_alloc | Rx_free nat

fun pool_step :: "pool_op \<Rightarrow> 'p eth \<times> nat list \<Rightarrow> 'p eth \<times> nat list" where
  "pool_step Rx_alloc (s, out) =
     (case HAL_ETH_RxAllocateCallback s of
        (Some p, s') \<Rightarrow> (s', p # out) | (None, s') \<Rightarrow> (s', out))"
| "pool_step (Rx_free p) (s, out) =
     (if p \<in> set out then (pbuf_free_custom p s, remove1 p out) else (s, out))"

text \<open>The buffers in the pool and those handed out are always the same buffers, and the
  driver holds back only when there is none.\<close>

definition pool_inv :: "nat multiset \<Rightarrow> 'p eth \<times> nat list \<Rightarrow> bool" where
  "pool_inv all c \<longleftrightarrow> mset (RX_POOL (fst c)) + mset (snd c) = all \<and>
     (RxAllocStatus (fst c) = RX_ALLOC_ERROR \<longrightarrow> RX_POOL (fst c) = [])"

lemma pool_step_inv: "pool_inv all c \<Longrightarrow> pool_inv all (pool_step op c)"
  by (cases c; cases op)
    (auto simp: pool_inv_def HAL_ETH_RxAllocateCallback_def pbuf_free_custom_def Let_def
      split: list.splits)

lemma pool_run_inv: "pool_inv all c \<Longrightarrow> pool_inv all (fold pool_step ops c)"
  by (induction ops arbitrary: c) (simp_all add: pool_step_inv)

text \<open>C18: No receive buffer is lost or handed out twice: after any sequence of allocations
  by the DMA and frees by LwIP, the pool and the buffers in use are together exactly the
  buffers of the pool, each once; an allocation fails only when all are in use; and
  input is held back only while the pool is empty.\<close>

theorem rx_pool_conserved:
  assumes "distinct (RX_POOL s)" and "RxAllocStatus s = RX_ALLOC_OK"
    and "fold pool_step ops (s, []) = (s', used)"
  shows "distinct (RX_POOL s' @ used) \<and> set (RX_POOL s' @ used) = set (RX_POOL s) \<and>
    (fst (HAL_ETH_RxAllocateCallback s') = None \<longleftrightarrow> length used = length (RX_POOL s)) \<and>
    (RxAllocStatus s' = RX_ALLOC_ERROR \<longrightarrow> RX_POOL s' = [])"
proof -
  have "pool_inv (mset (RX_POOL s)) (s, [])" using assms(2) by (simp add: pool_inv_def)
  from pool_run_inv [OF this, of ops] assms(3)
  have inv: "mset (RX_POOL s' @ used) = mset (RX_POOL s)"
    "RxAllocStatus s' = RX_ALLOC_ERROR \<longrightarrow> RX_POOL s' = []"
    by (simp_all add: pool_inv_def)
  have "length (RX_POOL s') + length used = length (RX_POOL s)"
    using mset_eq_length [OF inv(1)] by simp
  moreover have "fst (HAL_ETH_RxAllocateCallback s') = None \<longleftrightarrow> RX_POOL s' = []"
    by (simp add: HAL_ETH_RxAllocateCallback_def split: list.splits)
  ultimately show ?thesis
    using inv assms(1) mset_eq_imp_distinct_iff [OF inv(1)] mset_eq_setD [OF inv(1)] by auto
qed

theorem rx_pool_conserved_witness:
  "\<exists>s' used. fold pool_step [Rx_alloc, Rx_alloc, Rx_free 0] (eth0, []) = (s', used) \<and>
    distinct (RX_POOL s' @ used)"
proof -
  obtain s' used where run: "fold pool_step [Rx_alloc, Rx_alloc, Rx_free 0] (eth0, []) = (s', used)"
    by (cases "fold pool_step [Rx_alloc, Rx_alloc, Rx_free 0] (eth0, [])")
  from rx_pool_conserved [OF _ _ run] run show ?thesis by (auto simp: eth0_def)
qed

section \<open>The poll function\<close>

text \<open>One poll with a receive event pending clears the event before it reads, passes
  every frame the DMA has ready to LwIP until none is left, frees those LwIP refuses,
  and so keeps an event an interrupt raises meanwhile; and it checks the link exactly
  if at least 100 ms have passed since the last check, across the wrap-around of the
  32-bit tick.\<close>

theorem net_poll:
  assumes "netInited s" and "EthRxEvent (gnetif s) \<noteq> 0"
    and "delivers rd inp fr ((gnetif s)\<lparr>EthRxEvent := 0\<rparr>) frames e'"
    and "ethernetLinkTimer (timeouts (s\<lparr>gnetif := e'\<rparr>)) = to_u32 (int T0)"
    and "T0 \<le> T" and "T - T0 < 2 ^ 32"
  shows "openplc_net_process rd inp fr timeouts (to_u32 (int T)) t2 s =
    Some (if T - T0 < 100 then timeouts (s\<lparr>gnetif := e'\<rparr>)
          else (timeouts (s\<lparr>gnetif := e'\<rparr>))
            \<lparr>ethernetLinkTimer := t2,
             gnetif := ethernet_link_check_state (gnetif (timeouts (s\<lparr>gnetif := e'\<rparr>)))\<rparr>)"
proof -
  have "to_u32 (int (to_u32 (int T)) - int (to_u32 (int T0))) = T - T0"
    by (rule to_u32_elapsed [OF assms(5,6)])
  then show ?thesis
    using assms(1,2,4) input_loop [OF assms(3)]
    by (simp add: openplc_net_process_def ethernetif_rx_event_pending_def
        ethernetif_rx_event_clear_def Let_def)
qed

definition net0 :: "mdio_bus net" where
  "net0 = \<lparr>gnetif = eth0\<lparr>EthRxEvent := 1\<rparr>, netInited = True, ethernetLinkTimer = 4294967290,
     net_ip = 0, dhcp_bound = False, net_log = []\<rparr>"

theorem net_poll_witness:
  "openplc_net_process (\<lambda>s. (None, s)) (\<lambda>_ s. (True, s)) (\<lambda>_ s. s) id (to_u32 (int 4294967300)) 4 net0 =
    Some (net0\<lparr>gnetif := eth0\<rparr>)"
proof -
  have "(eth0\<lparr>EthRxEvent := 0\<rparr>) = eth0" by (simp add: eth0_def)
  then show ?thesis
    using net_poll [of net0 "\<lambda>s. (None, s)" "\<lambda>_ s. (True, s)" "\<lambda>_ s. s" "[]" eth0 id 4294967290 4294967300 4]
    by (simp add: net0_def low_level_input_def)
qed

text \<open>A buffer that LwIP returns to an exhausted pool does not by itself make the driver
  read again: freeing raises no event, and a poll without a receive event never asks the
  DMA for data, so the frames left in the descriptors wait for the next receive
  interrupt.\<close>

theorem freed_buffer_waits_for_interrupt:
  assumes "EthRxEvent (gnetif s) = 0"
  shows "EthRxEvent (pbuf_free_custom b (gnetif s)) = 0 \<and>
    openplc_net_process rd inp fr timeouts t1 t2 (s\<lparr>gnetif := pbuf_free_custom b (gnetif s)\<rparr>) =
      openplc_net_process rd' inp' fr' timeouts t1 t2 (s\<lparr>gnetif := pbuf_free_custom b (gnetif s)\<rparr>)"
  using assms
  by (simp add: openplc_net_process_def ethernetif_rx_event_pending_def pbuf_free_custom_def Let_def)

theorem freed_buffer_waits_for_interrupt_witness:
  "openplc_net_process (\<lambda>s. (Some 3, s)) (\<lambda>_ s. (True, s)) (\<lambda>_ s. s) id 0 0 (net0\<lparr>gnetif := pbuf_free_custom 7 eth0\<rparr>) =
   openplc_net_process (\<lambda>s. (None, s)) (\<lambda>_ s. (True, s)) (\<lambda>_ s. s) id 0 0 (net0\<lparr>gnetif := pbuf_free_custom 7 eth0\<rparr>)"
  using freed_buffer_waits_for_interrupt [of "net0\<lparr>gnetif := eth0\<rparr>" 7]
  by (simp add: net0_def eth0_def)

end
