(* ===== verification/Udp_Server.thy ===== *)
theory Udp_Server
  imports Prelude
begin

text \<open>
  The discovery and reboot service on UDP port 56865,
  \<^verbatim>\<open>libraries/OpenPLC_Net/src/udp_server.c\<close>, with the names of
  \<^verbatim>\<open>cores/arduino/stm32/IAP_config.h\<close>. Strings are byte lists. The calls into LwIP
  and the HAL are recorded in order; their results are arguments.
\<close>

section \<open>State\<close>

datatype udp_call =
    Pbuf_free
  | Udp_sendto u32 u16 "u8 list"
  | Udp_BKUPWrite u32
  | HAL_Delay nat
  | Udp_SystemReset
  | Reboot_callback
  | Udp_new
  | Udp_bind nat
  | Udp_recv bool
  | Udp_disconnect
  | Udp_remove

record udp_state =
  udp_reboot_callback :: bool
  udp_server_pcb :: bool
  uid :: "u32 \<times> u32 \<times> u32"
  udp_backup_reg :: u32
  udp_log :: "udp_call list"

definition udp_call :: "udp_call \<Rightarrow> udp_state \<Rightarrow> udp_state" where
  "udp_call c s = s\<lparr>udp_log := udp_log s @ [c]\<rparr>"

definition bytes_of :: "string \<Rightarrow> u8 list" where
  "bytes_of str = map of_char str"

definition OPENPLC_SERVER_PORT :: nat where [consts_simp]: "OPENPLC_SERVER_PORT = 56865"
definition OPENPLC_DEVICE_NAME :: "u8 list" where "OPENPLC_DEVICE_NAME = bytes_of ''STM32H743''"
definition OPENPLC_CUSAPP_VERSION :: "u8 list" where "OPENPLC_CUSAPP_VERSION = bytes_of ''0.1.2''"
definition UDP_SERVER_NAME :: "u8 list" where "UDP_SERVER_NAME = bytes_of ''CUSAPP''"
definition MAGIC_ETH_FLAG :: u32 where [consts_simp]: "MAGIC_ETH_FLAG = 0xAE"

section \<open>Formatting\<close>

text \<open>\<^verbatim>\<open>%08lX\<close>: eight upper case digits.\<close>

definition upper_digit :: "nat \<Rightarrow> u8" where
  "upper_digit d = (if d < 10 then of_nat (d + 48) else of_nat (d + 55))"

definition hex8 :: "u32 \<Rightarrow> u8 list" where
  "hex8 w = map (\<lambda>i. upper_digit (unat (drop_bit (4 * i) w AND 0xF))) [7, 6, 5, 4, 3, 2, 1, 0]"

text \<open>\<^verbatim>\<open>snprintf\<close> into \<open>size\<close> bytes stores at most \<open>size - 1\<close> characters and the zero; the
  result here is the string stored.\<close>

definition snprintf :: "nat \<Rightarrow> u8 list \<Rightarrow> u8 list" where
  "snprintf sz str = take (sz - 1) str"

definition openplc_uid_hex :: "u32 \<times> u32 \<times> u32 \<Rightarrow> u8 list" where
  "openplc_uid_hex w = (case w of (u0, u1, u2) \<Rightarrow> snprintf 25 (hex8 u2 @ hex8 u1 @ hex8 u0))"

definition reply_msg :: "u32 \<times> u32 \<times> u32 \<Rightarrow> u8 list" where
  "reply_msg w =
     snprintf 96 (OPENPLC_DEVICE_NAME @ [95] @ openplc_uid_hex w @ [95] @ UDP_SERVER_NAME @ [95] @
                  OPENPLC_CUSAPP_VERSION)"

section \<open>The service\<close>

text \<open>\<open>alloc\<close> tells whether \<^verbatim>\<open>pbuf_alloc\<close> returned a buffer.\<close>

definition openplc_udp_reply :: "bool \<Rightarrow> u32 \<Rightarrow> u16 \<Rightarrow> u8 list \<Rightarrow> udp_state \<Rightarrow> udp_state" where
  "openplc_udp_reply alloc addr port msg s =
     (if \<not> alloc then s else udp_call Pbuf_free (udp_call (Udp_sendto addr port msg) s))"

definition openplc_set_eth_flag_and_reset :: "udp_state \<Rightarrow> udp_state" where
  "openplc_set_eth_flag_and_reset s =
     (let s1 = (if udp_backup_reg s \<noteq> MAGIC_ETH_FLAG
                then (udp_call (Udp_BKUPWrite MAGIC_ETH_FLAG) s)\<lparr>udp_backup_reg := MAGIC_ETH_FLAG\<rparr>
                else s)
      in udp_call Udp_SystemReset (udp_call (HAL_Delay 20) s1))"

text \<open>A received pbuf is its payload, the bytes of its first buffer; \<^term>\<open>None\<close> is a null
  pointer, of the pbuf or of its payload. \<open>recv_buf\<close> holds at most 63 bytes and a zero;
  \<^verbatim>\<open>strcmp\<close> sees it up to its first zero.\<close>

definition c_string :: "u8 list \<Rightarrow> u8 list" where
  "c_string bs = takeWhile (\<lambda>b. b \<noteq> 0) bs"

definition discover_commands :: "u8 list list" where
  "discover_commands =
     map bytes_of [''DISCOVER'', ''openplc_discover'', ''openplc_server_where_r_y'', ''ping'']"

definition recv_buf :: "u8 list \<Rightarrow> u8 list" where
  "recv_buf payload =
     (let n = (if length payload < 64 - 1 then length payload else 64 - 1)
      in take n payload @ replicate (64 - n) 0)"

definition udp_server_recv ::
    "u8 list option option \<Rightarrow> bool \<Rightarrow> u32 \<Rightarrow> u16 \<Rightarrow> udp_state \<Rightarrow> udp_state" where
  "udp_server_recv p alloc addr port s =
     (case p of
        None \<Rightarrow> s
      | Some None \<Rightarrow> udp_call Pbuf_free s
      | Some (Some payload) \<Rightarrow>
          if length payload = 0 then udp_call Pbuf_free s
          else
            (let recv_buf = recv_buf payload;
                 s1 = udp_call Pbuf_free s
             in if c_string recv_buf \<in> set discover_commands
                then openplc_udp_reply alloc addr port (reply_msg (uid s1)) s1
                else if c_string recv_buf = bytes_of ''openplc_server_reboot''
                then (if udp_reboot_callback s1 then udp_call Reboot_callback s1
                      else openplc_set_eth_flag_and_reset s1)
                else s1))"

text \<open>\<open>pcb_ok\<close> and \<open>bind_ok\<close> are the results of \<^verbatim>\<open>udp_new\<close> and \<^verbatim>\<open>udp_bind\<close>.\<close>

definition openplc_udp_server_start :: "bool \<Rightarrow> bool \<Rightarrow> bool \<Rightarrow> udp_state \<Rightarrow> udp_state" where
  "openplc_udp_server_start reboot_cb pcb_ok bind_ok s =
     (let s1 = s\<lparr>udp_reboot_callback := reboot_cb\<rparr> in
      if udp_server_pcb s1 then s1
      else (let s2 = (udp_call Udp_new s1)\<lparr>udp_server_pcb := pcb_ok\<rparr> in
            if \<not> udp_server_pcb s2 then s2
            else (let s3 = udp_call (Udp_bind OPENPLC_SERVER_PORT) s2 in
                  if \<not> bind_ok then (udp_call Udp_remove s3)\<lparr>udp_server_pcb := False\<rparr>
                  else udp_call (Udp_recv True) s3)))"

definition openplc_udp_server_stop :: "udp_state \<Rightarrow> udp_state" where
  "openplc_udp_server_stop s =
     (if udp_server_pcb s
      then (udp_call Udp_remove (udp_call Udp_disconnect (udp_call (Udp_recv False) s)))\<lparr>udp_server_pcb := False\<rparr>
      else s)"

section \<open>What the service promises\<close>

text \<open>The request a datagram carries: its first 63 bytes up to the first zero.\<close>

definition request :: "u8 list \<Rightarrow> u8 list" where
  "request payload = c_string (take 63 payload)"

lemma request_buf: "c_string (recv_buf payload) = request payload"
proof -
  have t: "takeWhile P (xs @ replicate (Suc k) (0 :: u8)) = takeWhile P xs" if "\<not> P 0" for P xs k
    using that by (induction xs) auto
  have "c_string (take 63 payload @ replicate (Suc k) 0) = c_string (take 63 payload)" for k
    unfolding c_string_def by (rule t) simp
  moreover have "64 - length payload = Suc (63 - length payload)" if "length payload < 63"
    using that by simp
  ultimately show ?thesis
    using \<open>\<And>k. c_string (take 63 payload @ replicate (Suc k) 0) = c_string (take 63 payload)\<close> [of 0]
    by (cases "length payload < 63") (auto simp: recv_buf_def request_def Let_def simp del: replicate_Suc)
qed

lemma commands_differ: "bytes_of ''openplc_server_reboot'' \<notin> set discover_commands"
  by (simp add: discover_commands_def bytes_of_def)

lemma upper_digit_inj: "d < 16 \<Longrightarrow> e < 16 \<Longrightarrow> upper_digit d = upper_digit e \<Longrightarrow> d = e"
proof -
  have "\<forall>d \<in> set [0..<16]. \<forall>e \<in> set [0..<16]. upper_digit d = upper_digit e \<longrightarrow> d = e" by code_simp
  then show "d < 16 \<Longrightarrow> e < 16 \<Longrightarrow> upper_digit d = upper_digit e \<Longrightarrow> d = e" by simp
qed

lemma nibble_less: "unat (drop_bit k w AND 0xF) < 16" for w :: u32
proof -
  have "drop_bit k w AND 0xF \<le> 0xF" by (rule word_and_le1)
  then show ?thesis by (simp add: word_le_nat_alt)
qed

lemma nibbles_eq:
  fixes v w :: u32
  assumes "\<And>i. i < 8 \<Longrightarrow> drop_bit (4 * i) v AND 0xF = drop_bit (4 * i) w AND 0xF"
  shows "v = w"
proof (rule bit_word_eqI)
  fix n
  assume "n < LENGTH(32)"
  then have n: "n < 32" by simp
  let ?i = "n div 4" and ?j = "n mod 4"
  have j: "bit (0xF :: u32) ?j"
  proof -
    have "\<forall>j \<in> set [0..<4]. bit (0xF :: u32) j" by code_simp
    then show ?thesis by simp
  qed
  have split: "4 * ?i + ?j = n" by simp
  have "bit (drop_bit (4 * ?i) v AND 0xF) ?j = bit (drop_bit (4 * ?i) w AND 0xF) ?j"
    using assms [of ?i] n by simp
  then show "bit v n = bit w n"
    using j by (simp only: bit_and_iff bit_drop_bit_eq comp_def split) simp
qed

lemma hex8_inj: "hex8 v = hex8 w \<Longrightarrow> v = w"
proof (rule nibbles_eq)
  fix i :: nat
  assume eq: "hex8 v = hex8 w" and i: "i < 8"
  have "upper_digit (unat (drop_bit (4 * j) v AND 0xF)) = upper_digit (unat (drop_bit (4 * j) w AND 0xF))"
    if "j \<in> {0, 1, 2, 3, 4, 5, 6, 7}" for j
    using eq that unfolding hex8_def by auto
  moreover have "i \<in> {0, 1, 2, 3, 4, 5, 6, 7}" using i by auto
  ultimately have "unat (drop_bit (4 * i) v AND 0xF) = unat (drop_bit (4 * i) w AND 0xF)"
    using upper_digit_inj nibble_less by blast
  then show "drop_bit (4 * i) v AND 0xF = drop_bit (4 * i) w AND 0xF"
    by (simp only: word_unat_eq_iff)
qed

lemma hex8_length [simp]: "length (hex8 w) = 8"
  by (simp add: hex8_def)

lemma reply_msg_eq:
  "reply_msg (u0, u1, u2) = bytes_of ''STM32H743_'' @ hex8 u2 @ hex8 u1 @ hex8 u0 @ bytes_of ''_CUSAPP_0.1.2''"
proof -
  have "openplc_uid_hex (u0, u1, u2) = hex8 u2 @ hex8 u1 @ hex8 u0"
    by (simp add: openplc_uid_hex_def snprintf_def)
  then show ?thesis
    by (simp add: reply_msg_def snprintf_def OPENPLC_DEVICE_NAME_def OPENPLC_CUSAPP_VERSION_def
        UDP_SERVER_NAME_def bytes_of_def)
qed

section \<open>Properties\<close>


definition idle_udp :: udp_state where
  "idle_udp = \<lparr>udp_reboot_callback = False, udp_server_pcb = False, uid = (1, 2, 3),
     udp_backup_reg = 0, udp_log = []\<rparr>"


text \<open>The discovery answer identifies the board: it is the 47 characters of device
  name, 96-bit chip id, server name and version, nothing is cut off by the two
  \<^verbatim>\<open>snprintf\<close>, and two chips with different ids give different answers.\<close>

theorem discovery_reply_identifies:
  "length (reply_msg (u0, u1, u2)) = 47 \<and>
   reply_msg (u0, u1, u2) =
     bytes_of ''STM32H743_'' @ hex8 u2 @ hex8 u1 @ hex8 u0 @ bytes_of ''_CUSAPP_0.1.2'' \<and>
   (reply_msg (u0, u1, u2) = reply_msg (v0, v1, v2) \<longleftrightarrow> (u0, u1, u2) = (v0, v1, v2))"
proof -
  have "hex8 u2 @ hex8 u1 @ hex8 u0 = hex8 v2 @ hex8 v1 @ hex8 v0 \<Longrightarrow> u2 = v2 \<and> u1 = v1 \<and> u0 = v0"
    by (auto dest: hex8_inj)
  then show ?thesis by (auto simp: reply_msg_eq bytes_of_def dest: hex8_inj)
qed

text \<open>Starting and stopping the server: a start leaves it running exactly if it was
  running or LwIP gave a control block and the port could be bound; a control block
  that could not be bound is removed; a second start opens nothing; a stop leaves it
  stopped, and every control block opened has been removed.\<close>

theorem udp_start_stop:
  "(udp_server_pcb (openplc_udp_server_start cb pcb_ok bind_ok s) \<longleftrightarrow> udp_server_pcb s \<or> pcb_ok \<and> bind_ok) \<and>
   udp_log (openplc_udp_server_start cb pcb_ok bind_ok s) = udp_log s @
     (if udp_server_pcb s then [] else if \<not> pcb_ok then [Udp_new]
      else [Udp_new, Udp_bind 56865] @ (if bind_ok then [Udp_recv True] else [Udp_remove])) \<and>
   \<not> udp_server_pcb (openplc_udp_server_stop s) \<and>
   udp_log (openplc_udp_server_stop s) = udp_log s @
     (if udp_server_pcb s then [Udp_recv False, Udp_disconnect, Udp_remove] else [])"
  by (simp add: openplc_udp_server_start_def openplc_udp_server_stop_def udp_call_def Let_def consts_simp)

end
