(* ===== verification/Eeprom.thy ===== *)
theory Eeprom
  imports Prelude
begin

text \<open>
  The EEPROM emulation in the last sector of the flash,
  \<^verbatim>\<open>libraries/EEPROM/src/utility/stm32_eeprom.c\<close>, as it is compiled for the STM32H743:
  sector erase, programming in words of 256 bits, a buffer of 16 KiB in RAM. The flash
  is the state \<open>'f\<close> of the HAL, which is a parameter; \<open>eeprom_buffer\<close> is a byte list,
  and an access outside it has no result.
\<close>

section \<open>The code\<close>

text \<open>\<^verbatim>\<open>fl_read a n\<close> is the memory-mapped flash at address \<open>a\<close>; \<^verbatim>\<open>fl_erase\<close> erases the data
  sector; \<^verbatim>\<open>fl_program\<close> programs a flash word. The last two tell whether they returned
  \<^verbatim>\<open>HAL_OK\<close>. Unlocking and locking the flash is left out: it has no result the code
  looks at.\<close>

record 'f flash_hal =
  fl_read :: "nat \<Rightarrow> nat \<Rightarrow> 'f \<Rightarrow> u8 list"
  fl_erase :: "'f \<Rightarrow> bool \<times> 'f"
  fl_program :: "nat \<Rightarrow> u8 list \<Rightarrow> 'f \<Rightarrow> bool \<times> 'f"

record 'f eeprom =
  eeprom_buffer :: "u8 list"
  flash :: 'f

definition FLASH_PAGE_SIZE :: nat where [consts_simp]: "FLASH_PAGE_SIZE = 16 * 1024"
definition E2END :: nat where [consts_simp]: "E2END = FLASH_PAGE_SIZE - 1"
definition FLASH_END :: nat where [consts_simp]: "FLASH_END = 0x081FFFFF"
definition FLASH_BASE_ADDRESS :: nat where
  [consts_simp]: "FLASH_BASE_ADDRESS = FLASH_END + 1 - FLASH_PAGE_SIZE"

definition eeprom_buffered_read_byte :: "nat \<Rightarrow> 'f eeprom \<Rightarrow> u8 option" where
  "eeprom_buffered_read_byte pos s = mem_get (eeprom_buffer s) pos"

definition eeprom_buffered_write_byte :: "nat \<Rightarrow> u8 \<Rightarrow> 'f eeprom \<Rightarrow> 'f eeprom option" where
  "eeprom_buffered_write_byte pos v s =
     (if pos < length (eeprom_buffer s)
      then Some (s\<lparr>eeprom_buffer := (eeprom_buffer s)[pos := v]\<rparr>) else None)"

definition eeprom_buffer_fill :: "'f flash_hal \<Rightarrow> 'f eeprom \<Rightarrow> 'f eeprom" where
  "eeprom_buffer_fill hal s =
     s\<lparr>eeprom_buffer := fl_read hal FLASH_BASE_ADDRESS (E2END + 1) (flash s)\<rparr>"

text \<open>The loop \<^verbatim>\<open>while (address <= address_end)\<close>; a word that cannot be programmed sets
  \<open>address\<close> behind the end.\<close>

function flush_loop :: "'f flash_hal \<Rightarrow> u8 list \<Rightarrow> nat \<Rightarrow> nat \<Rightarrow> nat \<Rightarrow> 'f \<Rightarrow> 'f option" where
  "flush_loop hal buf offset address address_end f =
     (if address \<le> address_end then
        do { data \<leftarrow> mem_read buf offset 32;
             (case fl_program hal address data f of
                (ok, f') \<Rightarrow>
                  if ok then flush_loop hal buf (offset + 32) (address + 32) address_end f'
                  else flush_loop hal buf offset (address_end + 1) address_end f') }
      else Some f)"
  by pat_completeness auto
termination by (relation "measure (\<lambda>(hal, buf, offset, address, address_end, f). address_end + 1 - address)") auto

declare flush_loop.simps [simp del]

definition eeprom_buffer_flush :: "'f flash_hal \<Rightarrow> 'f eeprom \<Rightarrow> 'f eeprom option" where
  "eeprom_buffer_flush hal s =
     (let address = FLASH_BASE_ADDRESS; address_end = FLASH_BASE_ADDRESS + E2END in
      case fl_erase hal (flash s) of
        (ok, f) \<Rightarrow>
          if ok then do { f' \<leftarrow> flush_loop hal (eeprom_buffer s) 0 address address_end f;
                          Some (s\<lparr>flash := f'\<rparr>) }
          else Some (s\<lparr>flash := f\<rparr>))"

definition eeprom_read_byte :: "'f flash_hal \<Rightarrow> nat \<Rightarrow> 'f eeprom \<Rightarrow> (u8 \<times> 'f eeprom) option" where
  "eeprom_read_byte hal pos s =
     (let s1 = eeprom_buffer_fill hal s in
      do { b \<leftarrow> eeprom_buffered_read_byte pos s1; Some (b, s1) })"

definition eeprom_write_byte :: "'f flash_hal \<Rightarrow> nat \<Rightarrow> u8 \<Rightarrow> 'f eeprom \<Rightarrow> 'f eeprom option" where
  "eeprom_write_byte hal pos v s =
     do { s1 \<leftarrow> eeprom_buffered_write_byte pos v s; eeprom_buffer_flush hal s1 }"

section \<open>Flash memory\<close>

text \<open>What the HAL and the flash promise: erasing sets the page to ones; a word that is
  erased and aligned takes the data it is programmed with, and programming a word,
  with or without success, changes no other.\<close>

locale nor_flash =
  fixes hal :: "'f flash_hal"
    and cell :: "'f \<Rightarrow> nat \<Rightarrow> u8"
  assumes read_law: "fl_read hal a n f = map (cell f) [a..<a + n]"
    and erase_law: "fl_erase hal f = (True, f') \<Longrightarrow>
      FLASH_BASE_ADDRESS \<le> x \<Longrightarrow> x \<le> FLASH_END \<Longrightarrow> cell f' x = 0xFF"
    and program_law: "fl_program hal a d f = (True, f') \<Longrightarrow> length d = 32 \<Longrightarrow> 32 dvd a \<Longrightarrow>
      (\<And>x. a \<le> x \<Longrightarrow> x < a + 32 \<Longrightarrow> cell f x = 0xFF) \<Longrightarrow>
      a \<le> x \<Longrightarrow> x < a + 32 \<Longrightarrow> cell f' x = d ! (x - a)"
    and program_frame: "fl_program hal a d f = (ok, f') \<Longrightarrow> x < a \<or> a + 32 \<le> x \<Longrightarrow> cell f' x = cell f x"
begin

text \<open>The state of the page after the loop: \<open>k\<close> words hold the new data, one word may be
  damaged, the others are still erased.\<close>

lemma flush_words:
  assumes "address_end + 1 = address + 32 * n" and "offset + 32 * n \<le> length buf" and "32 dvd address"
    and "\<And>x. address \<le> x \<Longrightarrow> x \<le> address_end \<Longrightarrow> cell f x = 0xFF"
  shows "\<exists>f' k. flush_loop hal buf offset address address_end f = Some f' \<and> k \<le> n \<and>
    (\<forall>i < 32 * k. cell f' (address + i) = buf ! (offset + i)) \<and>
    (\<forall>i < 32 * n. 32 * (k + 1) \<le> i \<longrightarrow> cell f' (address + i) = 0xFF) \<and>
    (\<forall>x. x < address \<or> address_end < x \<longrightarrow> cell f' x = cell f x) \<and>
    ((\<forall>a d g. fst (fl_program hal a d g)) \<longrightarrow> k = n)"
  using assms
proof (induction n arbitrary: offset address f)
  case 0
  then show ?case by (subst flush_loop.simps) auto
next
  case (Suc n)
  have le: "address \<le> address_end" and room: "offset + 32 \<le> length buf"
    using Suc.prems(1,2) by simp_all
  let ?data = "take 32 (drop offset buf)"
  have rd: "mem_read buf offset 32 = Some ?data" using room by (simp add: mem_read_def)
  have len: "length ?data = 32" using room by simp
  obtain ok f1 where prog: "fl_program hal address ?data f = (ok, f1)"
    by (cases "fl_program hal address ?data f")
  note frame = program_frame [OF prog]
  show ?case
  proof (cases ok)
    case True
    have prog': "fl_program hal address ?data f = (True, f1)" using prog True by simp
    have word: "cell f1 (address + j) = buf ! (offset + j)" if "j < 32" for j
      using program_law [OF prog' len Suc.prems(3), of "address + j"] that Suc.prems(1,4) room
      by simp
    have "\<And>x. address + 32 \<le> x \<Longrightarrow> x \<le> address_end \<Longrightarrow> cell f1 x = 0xFF"
      using frame Suc.prems(4) by auto
    moreover have "address_end + 1 = (address + 32) + 32 * n" "(offset + 32) + 32 * n \<le> length buf"
      "32 dvd address + 32" using Suc.prems(1-3) by simp_all
    ultimately obtain f' k
      where ih: "flush_loop hal buf (offset + 32) (address + 32) address_end f1 = Some f'" "k \<le> n"
        "\<forall>i < 32 * k. cell f' (address + 32 + i) = buf ! (offset + 32 + i)"
        "\<forall>i < 32 * n. 32 * (k + 1) \<le> i \<longrightarrow> cell f' (address + 32 + i) = 0xFF"
        "\<forall>x. x < address + 32 \<or> address_end < x \<longrightarrow> cell f' x = cell f1 x"
        "(\<forall>a d g. fst (fl_program hal a d g)) \<longrightarrow> k = n"
      using Suc.IH [of "address + 32" "offset + 32" f1] by blast
    have "flush_loop hal buf offset address address_end f = Some f'"
      using le rd prog True ih(1) by (subst flush_loop.simps) simp
    moreover have "cell f' (address + i) = buf ! (offset + i)" if "i < 32 * Suc k" for i
    proof (cases "i < 32")
      case True
      then show ?thesis using ih(5) word [of i] by simp
    next
      case False
      then show ?thesis using ih(3) that by (auto dest: spec [of _ "i - 32"])
    qed
    moreover have "cell f' (address + i) = 0xFF" if "i < 32 * Suc n" "32 * (Suc k + 1) \<le> i" for i
      using ih(4) that by (auto dest: spec [of _ "i - 32"])
    moreover have "cell f' x = cell f x" if "x < address \<or> address_end < x" for x
      using ih(5) frame [of x] that le Suc.prems(1) by auto
    ultimately show ?thesis using ih(2,6) by (intro exI [of _ f'] exI [of _ "Suc k"]) auto
  next
    case False
    have "flush_loop hal buf offset (address_end + 1) address_end f1 = Some f1"
      by (subst flush_loop.simps) simp
    then have "flush_loop hal buf offset address address_end f = Some f1"
      using le rd prog False by (subst flush_loop.simps) simp
    moreover have "cell f1 (address + i) = 0xFF" if "i < 32 * Suc n" "32 \<le> i" for i
      using frame [of "address + i"] Suc.prems(1,4) that by auto
    moreover have "cell f1 x = cell f x" if "x < address \<or> address_end < x" for x
      using frame [of x] that Suc.prems(1) by auto
    moreover have "\<not> (\<forall>a d g. fst (fl_program hal a d g))"
      using prog False by (metis fst_conv)
    ultimately show ?thesis by (intro exI [of _ f1] exI [of _ 0]) auto
  qed
qed

text \<open>Erasing and programming the page, by what the HAL answered.\<close>

lemma flush_page:
  assumes buf: "length (eeprom_buffer s) = FLASH_PAGE_SIZE" and erased: "fst (fl_erase hal (flash s))"
  shows "\<exists>s' k. eeprom_buffer_flush hal s = Some s' \<and> k \<le> FLASH_PAGE_SIZE div 32 \<and>
    eeprom_buffer s' = eeprom_buffer s \<and>
    (\<forall>i < 32 * k. cell (flash s') (FLASH_BASE_ADDRESS + i) = eeprom_buffer s ! i) \<and>
    (\<forall>i < FLASH_PAGE_SIZE. 32 * (k + 1) \<le> i \<longrightarrow> cell (flash s') (FLASH_BASE_ADDRESS + i) = 0xFF) \<and>
    ((\<forall>a d g. fst (fl_program hal a d g)) \<longrightarrow> k = FLASH_PAGE_SIZE div 32)"
proof -
  obtain f where f: "fl_erase hal (flash s) = (True, f)"
    using erased by (cases "fl_erase hal (flash s)") simp
  have ones: "cell f x = 0xFF" if "FLASH_BASE_ADDRESS \<le> x" "x \<le> FLASH_BASE_ADDRESS + E2END" for x
    using erase_law [OF f that(1)] that(2) by (simp add: consts_simp)
  have "FLASH_BASE_ADDRESS + E2END + 1 = FLASH_BASE_ADDRESS + 32 * 512"
    "0 + 32 * 512 \<le> length (eeprom_buffer s)" "32 dvd FLASH_BASE_ADDRESS"
    using buf by (simp_all add: consts_simp)
  from flush_words [OF this] ones obtain f' k
    where loop: "flush_loop hal (eeprom_buffer s) 0 FLASH_BASE_ADDRESS (FLASH_BASE_ADDRESS + E2END) f = Some f'"
      and rest: "k \<le> 512" "\<forall>i < 32 * k. cell f' (FLASH_BASE_ADDRESS + i) = eeprom_buffer s ! (0 + i)"
      "\<forall>i < 32 * 512. 32 * (k + 1) \<le> i \<longrightarrow> cell f' (FLASH_BASE_ADDRESS + i) = 0xFF"
      "(\<forall>a d g. fst (fl_program hal a d g)) \<longrightarrow> k = 512"
    by blast
  have "eeprom_buffer_flush hal s = Some (s\<lparr>flash := f'\<rparr>)"
    by (simp add: eeprom_buffer_flush_def f loop)
  then show ?thesis
    using rest by (intro exI [of _ "s\<lparr>flash := f'\<rparr>"] exI [of _ k]) (simp add: FLASH_PAGE_SIZE_def)
qed

lemma fill_is: "eeprom_buffer (eeprom_buffer_fill hal s) =
    map (cell (flash s)) [FLASH_BASE_ADDRESS..<FLASH_BASE_ADDRESS + FLASH_PAGE_SIZE]"
proof -
  have "E2END + 1 = FLASH_PAGE_SIZE" by (simp add: consts_simp)
  then show ?thesis by (simp del: upt_rec_numeral add: eeprom_buffer_fill_def read_law)
qed

lemma fill_reads:
  assumes "length b = FLASH_PAGE_SIZE"
    and "\<And>i. i < FLASH_PAGE_SIZE \<Longrightarrow> cell (flash s) (FLASH_BASE_ADDRESS + i) = b ! i"
  shows "eeprom_buffer (eeprom_buffer_fill hal s) = b"
  using assms by (intro nth_equalityI) (simp_all add: fill_is)

lemma fill_length: "length (eeprom_buffer (eeprom_buffer_fill hal s)) = FLASH_PAGE_SIZE"
  by (simp add: fill_is)

end

section \<open>A flash chip\<close>

text \<open>A page of cells that programming can only clear bits of, with words that cannot be
  programmed.\<close>

definition chip :: "(nat \<Rightarrow> bool) \<Rightarrow> (nat \<Rightarrow> u8) flash_hal" where
  "chip bad = \<lparr>fl_read = (\<lambda>a n f. map f [a..<a + n]),
     fl_erase = (\<lambda>f. (True, \<lambda>x. if FLASH_BASE_ADDRESS \<le> x \<and> x \<le> FLASH_END then 0xFF else f x)),
     fl_program = (\<lambda>a d f. if bad a then (False, f)
       else (True, \<lambda>x. if a \<le> x \<and> x < a + 32 then f x AND d ! (x - a) else f x))\<rparr>"

lemma and_ones8: "(0xFF :: u8) AND w = w"
proof -
  have "(0xFF :: u8) = - 1" by simp
  then show ?thesis by (simp only: and.left_neutral)
qed

interpretation chip: nor_flash "chip bad" "\<lambda>f. f"
  by unfold_locales (auto simp: chip_def and_ones8 split: if_splits)

section \<open>Properties\<close>

text \<open>C19: Changing one byte of the emulated EEPROM persists: when the buffer was filled from
  the flash and every erase and program operation succeeds, \<^verbatim>\<open>eeprom_write_byte\<close> completes,
  and reading afterwards gives the new value at the position written and the old value of
  every other byte.\<close>

theorem eeprom_update_persists:
  assumes "nor_flash hal cell" and "\<And>f. fst (fl_erase hal f)" and "\<And>a d f. fst (fl_program hal a d f)"
    and "pos < FLASH_PAGE_SIZE"
  shows "\<exists>s'. eeprom_write_byte hal pos v (eeprom_buffer_fill hal s) = Some s' \<and>
    (\<forall>p < FLASH_PAGE_SIZE. map_option fst (eeprom_read_byte hal p s') =
       Some (if p = pos then v else cell (flash s) (FLASH_BASE_ADDRESS + p)))"
proof -
  let ?b = "(eeprom_buffer (eeprom_buffer_fill hal s))[pos := v]"
  let ?s = "(eeprom_buffer_fill hal s)\<lparr>eeprom_buffer := ?b\<rparr>"
  have len: "length ?b = FLASH_PAGE_SIZE" using nor_flash.fill_length [OF assms(1)] by simp
  obtain s' k where s': "eeprom_buffer_flush hal ?s = Some s'"
    "\<forall>i < 32 * k. cell (flash s') (FLASH_BASE_ADDRESS + i) = ?b ! i" "k = FLASH_PAGE_SIZE div 32"
    using nor_flash.flush_page [OF assms(1), of ?s] assms(2,3) len by auto
  have k: "32 * k = FLASH_PAGE_SIZE" using s'(3) by (simp add: consts_simp)
  have w: "eeprom_write_byte hal pos v (eeprom_buffer_fill hal s) = Some s'"
    using s'(1) nor_flash.fill_length [OF assms(1)] assms(4)
    by (simp add: eeprom_write_byte_def eeprom_buffered_write_byte_def)
  have "eeprom_buffer (eeprom_buffer_fill hal s') = ?b"
    by (rule nor_flash.fill_reads [OF assms(1) len]) (use s'(2) k in simp)
  moreover have "?b ! p = (if p = pos then v else cell (flash s) (FLASH_BASE_ADDRESS + p))"
    if "p < FLASH_PAGE_SIZE" for p
    using that by (simp add: nor_flash.fill_is [OF assms(1)] nth_list_update)
  ultimately show ?thesis
    using w len by (auto simp: eeprom_read_byte_def eeprom_buffered_read_byte_def)
qed

text \<open>A word of the page that cannot be programmed stops the flush: there is a number
  of words that hold the new data, all words behind the failed one are erased, and the RAM
  buffer still holds everything that was to be written. Nothing reports the failure.\<close>

theorem eeprom_flush_failure:
  assumes "nor_flash hal cell" and "length (eeprom_buffer s) = FLASH_PAGE_SIZE"
    and "fst (fl_erase hal (flash s))"
  shows "\<exists>s' k. eeprom_buffer_flush hal s = Some s' \<and> k \<le> FLASH_PAGE_SIZE div 32 \<and>
    eeprom_buffer s' = eeprom_buffer s \<and>
    (\<forall>i < 32 * k. cell (flash s') (FLASH_BASE_ADDRESS + i) = eeprom_buffer s ! i) \<and>
    (\<forall>i < FLASH_PAGE_SIZE. 32 * (k + 1) \<le> i \<longrightarrow> cell (flash s') (FLASH_BASE_ADDRESS + i) = 0xFF)"
  using nor_flash.flush_page [OF assms] by blast

text \<open>\<^verbatim>\<open>eeprom_write_byte\<close> writes the whole RAM buffer and does not fill it first: after a
  reset, when the buffer holds zeros, writing one byte sets every other byte of the
  emulated EEPROM to zero, whatever was stored there.\<close>

theorem eeprom_first_write_clears:
  assumes "nor_flash hal cell" and "\<And>f. fst (fl_erase hal f)" and "\<And>a d f. fst (fl_program hal a d f)"
    and "pos < FLASH_PAGE_SIZE" and "eeprom_buffer s = replicate FLASH_PAGE_SIZE 0"
  shows "\<exists>s'. eeprom_write_byte hal pos v s = Some s' \<and>
    (\<forall>p < FLASH_PAGE_SIZE. cell (flash s') (FLASH_BASE_ADDRESS + p) = (if p = pos then v else 0))"
proof -
  let ?s = "s\<lparr>eeprom_buffer := (replicate FLASH_PAGE_SIZE 0)[pos := v]\<rparr>"
  obtain s' k where s': "eeprom_buffer_flush hal ?s = Some s'"
    "\<forall>i < 32 * k. cell (flash s') (FLASH_BASE_ADDRESS + i) = (replicate FLASH_PAGE_SIZE 0)[pos := v] ! i"
    "k = FLASH_PAGE_SIZE div 32"
    using nor_flash.flush_page [OF assms(1), of ?s] assms(2,3) by auto
  have k: "32 * k = FLASH_PAGE_SIZE" using s'(3) by (simp add: consts_simp)
  show ?thesis
    using s'(1,2) k assms(4,5)
    by (auto simp: eeprom_write_byte_def eeprom_buffered_write_byte_def nth_list_update)
qed

section \<open>Witnesses\<close>

text \<open>A chip without bad words that holds 7 everywhere; one with a bad second word.\<close>

definition ee7 :: "(nat \<Rightarrow> u8) eeprom" where
  "ee7 = \<lparr>eeprom_buffer = replicate FLASH_PAGE_SIZE 0, flash = (\<lambda>x. 7)\<rparr>"

lemma ee7_flash: "flash ee7 = (\<lambda>x. 7)"
  by (simp add: ee7_def)

lemma chip_erases: "fst (fl_erase (chip bad) f)"
  by (simp add: chip_def)

lemma chip_programs: "fst (fl_program (chip (\<lambda>x. False)) a d f)"
  by (simp add: chip_def)

theorem eeprom_update_persists_witness:
  "\<exists>s'. eeprom_write_byte (chip (\<lambda>x. False)) 3 9 (eeprom_buffer_fill (chip (\<lambda>x. False)) ee7) = Some s' \<and>
    (\<forall>p < FLASH_PAGE_SIZE. map_option fst (eeprom_read_byte (chip (\<lambda>x. False)) p s') =
       Some (if p = 3 then 9 else 7))"
  using eeprom_update_persists [OF chip.nor_flash_axioms chip_erases chip_programs, of 3 9 ee7]
  by (simp only: ee7_flash) (simp add: FLASH_PAGE_SIZE_def)

theorem eeprom_flush_failure_witness:
  "\<exists>s' k. eeprom_buffer_flush (chip (\<lambda>x. x = FLASH_BASE_ADDRESS + 32)) ee7 = Some s' \<and> k \<le> FLASH_PAGE_SIZE div 32 \<and>
    eeprom_buffer s' = eeprom_buffer ee7 \<and>
    (\<forall>i < 32 * k. flash s' (FLASH_BASE_ADDRESS + i) = eeprom_buffer ee7 ! i) \<and>
    (\<forall>i < FLASH_PAGE_SIZE. 32 * (k + 1) \<le> i \<longrightarrow> flash s' (FLASH_BASE_ADDRESS + i) = 0xFF)"
  by (rule eeprom_flush_failure [OF chip.nor_flash_axioms _ chip_erases]) (simp add: ee7_def)

theorem eeprom_first_write_clears_witness:
  "\<exists>s'. eeprom_write_byte (chip (\<lambda>x. False)) 3 9 ee7 = Some s' \<and>
    (\<forall>p < FLASH_PAGE_SIZE. flash s' (FLASH_BASE_ADDRESS + p) = (if p = 3 then 9 else 0))"
  by (rule eeprom_first_write_clears [OF chip.nor_flash_axioms chip_erases chip_programs])
    (simp_all add: ee7_def FLASH_PAGE_SIZE_def)

end
