(* ===== verification/Pinmap.thy ===== *)
theory Pinmap
  imports Prelude
begin

text \<open>
  Pins and pin maps: the encoding of pins and of their configuration words
  (\<^verbatim>\<open>cores/arduino/stm32/PinNames.h\<close>, \<^verbatim>\<open>PinNamesTypes.h\<close>), the lookups in tables of
  peripherals and the configuration of a pin
  (\<^verbatim>\<open>libraries/SrcWrapper/src/stm32/pinmap.c\<close>, \<^verbatim>\<open>PortNames.c\<close>,
  \<^verbatim>\<open>cores/arduino/stm32/pinconfig.h\<close>). The registers of the GPIO ports are the state;
  the low-level functions of the vendor that write them are state updates.
\<close>

section \<open>Pin names and configuration words\<close>

type_synonym PinName = u32

definition NC :: PinName where [consts_simp]: "NC = 0xFFFFFFFF"
definition ALTX_MASK :: u32 where [consts_simp]: "ALTX_MASK = 0x700"
definition PNAME_ANALOG_INTERNAL_BASE :: u32 where [consts_simp]: "PNAME_ANALOG_INTERNAL_BASE = 0x1000"
definition PDUAL :: u32 where [consts_simp]: "PDUAL = 0x2000"
definition PNAME_MASK :: u32 where [consts_simp]: "PNAME_MASK = 0xFF"

text \<open>The ports of the STM32H743 are A to K.\<close>

definition LastPort :: u32 where [consts_simp]: "LastPort = 10"
definition PA :: "u32 \<Rightarrow> PinName" where "PA n = push_bit 4 0 + n"
definition PB :: "u32 \<Rightarrow> PinName" where "PB n = push_bit 4 1 + n"
definition PC :: "u32 \<Rightarrow> PinName" where "PC n = push_bit 4 2 + n"
definition PD :: "u32 \<Rightarrow> PinName" where "PD n = push_bit 4 3 + n"
definition PE :: "u32 \<Rightarrow> PinName" where "PE n = push_bit 4 4 + n"
definition PF :: "u32 \<Rightarrow> PinName" where "PF n = push_bit 4 5 + n"
definition PG :: "u32 \<Rightarrow> PinName" where "PG n = push_bit 4 6 + n"
definition PH :: "u32 \<Rightarrow> PinName" where "PH n = push_bit 4 7 + n"
definition PI :: "u32 \<Rightarrow> PinName" where "PI n = push_bit 4 8 + n"

lemmas port_defs = PA_def PB_def PC_def PD_def PE_def PF_def PG_def PH_def PI_def

definition ALT1 :: u32 where [consts_simp]: "ALT1 = 0x100"
definition ALT2 :: u32 where [consts_simp]: "ALT2 = 0x200"
definition ALT3 :: u32 where [consts_simp]: "ALT3 = 0x300"

definition STM_PORT :: "PinName \<Rightarrow> u32" where "STM_PORT X = drop_bit 4 X AND 0xF"
definition STM_PIN :: "PinName \<Rightarrow> u32" where "STM_PIN X = X AND 0xF"
definition STM_VALID_PINNAME :: "PinName \<Rightarrow> bool" where "STM_VALID_PINNAME X \<longleftrightarrow> STM_PORT X \<le> LastPort"

definition STM_PIN_FUNCTION :: "u32 \<Rightarrow> u32" where "STM_PIN_FUNCTION X = X AND 0x07"
definition STM_PIN_OD :: "u32 \<Rightarrow> u32" where "STM_PIN_OD X = drop_bit 3 X AND 0x01"
definition STM_PIN_PUPD :: "u32 \<Rightarrow> u32" where "STM_PIN_PUPD X = drop_bit 4 X AND 0x03"
definition STM_PIN_AFNUM :: "u32 \<Rightarrow> u32" where "STM_PIN_AFNUM X = drop_bit 8 X AND 0x7F"
definition STM_PIN_CHANNEL :: "u32 \<Rightarrow> u32" where "STM_PIN_CHANNEL X = drop_bit 15 X AND 0x1F"
definition STM_PIN_INVERTED :: "u32 \<Rightarrow> u32" where "STM_PIN_INVERTED X = drop_bit 20 X AND 0x01"

definition STM_PIN_DATA :: "u32 \<Rightarrow> u32 \<Rightarrow> u32 \<Rightarrow> u32" where
  "STM_PIN_DATA FUNC_OD PUPD AFNUM =
     FUNC_OD OR push_bit 4 (PUPD AND 0x03) OR push_bit 8 (AFNUM AND 0x7F)"

definition STM_PIN_DATA_EXT :: "u32 \<Rightarrow> u32 \<Rightarrow> u32 \<Rightarrow> u32 \<Rightarrow> u32 \<Rightarrow> u32" where
  "STM_PIN_DATA_EXT FUNC_OD PUPD AFNUM CHAN INV =
     FUNC_OD OR push_bit 4 (PUPD AND 0x03) OR push_bit 8 (AFNUM AND 0x7F) OR
     push_bit 15 (CHAN AND 0x1F) OR push_bit 20 (INV AND 0x01)"

definition STM_MODE_INPUT :: u32 where [consts_simp]: "STM_MODE_INPUT = 0"
definition STM_MODE_OUTPUT_PP :: u32 where [consts_simp]: "STM_MODE_OUTPUT_PP = 1"
definition STM_MODE_OUTPUT_OD :: u32 where [consts_simp]: "STM_MODE_OUTPUT_OD = 1 OR 8"
definition STM_MODE_AF_PP :: u32 where [consts_simp]: "STM_MODE_AF_PP = 2"
definition STM_MODE_AF_OD :: u32 where [consts_simp]: "STM_MODE_AF_OD = 2 OR 8"
definition STM_MODE_ANALOG :: u32 where [consts_simp]: "STM_MODE_ANALOG = 3"
definition GPIO_NOPULL :: u32 where [consts_simp]: "GPIO_NOPULL = 0"
definition GPIO_PULLUP :: u32 where [consts_simp]: "GPIO_PULLUP = 1"
definition GPIO_PULLDOWN :: u32 where [consts_simp]: "GPIO_PULLDOWN = 2"

section \<open>Pin maps\<close>

datatype peripheral =
    NP
  | ADC1 | ADC2 | ADC3 | DAC1 | ETH | QUADSPI | SDMMC1 | SDMMC2 | FDCAN1 | FDCAN2
  | I2C1 | I2C2 | I2C3 | I2C4
  | SPI1 | SPI2 | SPI3 | SPI4 | SPI5 | SPI6
  | TIM1 | TIM2 | TIM3 | TIM4 | TIM5 | TIM8 | TIM12 | TIM13 | TIM14 | TIM15 | TIM16 | TIM17
  | USART1 | USART2 | USART3 | UART4 | UART5 | USART6 | UART7 | UART8 | LPUART1
  | USB_OTG_FS | USB_OTG_HS

text \<open>A row is a pin, a peripheral and a configuration word. The lookups run to the row
  with \<^verbatim>\<open>NC\<close>; a table without one has no result, since the code would read beyond it.\<close>

type_synonym PinMap = "PinName \<times> peripheral \<times> u32"

fun in_pinmap_loop :: "PinName \<Rightarrow> PinMap list \<Rightarrow> bool option" where
  "in_pinmap_loop pin [] = None"
| "in_pinmap_loop pin ((p, per, f) # m) =
     (if p = NC then Some False else if p = pin then Some True else in_pinmap_loop pin m)"

definition pin_in_pinmap :: "PinName \<Rightarrow> PinMap list \<Rightarrow> bool option" where
  "pin_in_pinmap pin m = (if pin \<noteq> NC then in_pinmap_loop pin m else Some False)"

fun pinmap_find_peripheral :: "PinName \<Rightarrow> PinMap list \<Rightarrow> peripheral option" where
  "pinmap_find_peripheral pin [] = None"
| "pinmap_find_peripheral pin ((p, per, f) # m) =
     (if p = NC then Some NP else if p = pin then Some per else pinmap_find_peripheral pin m)"

definition pinmap_peripheral :: "PinName \<Rightarrow> PinMap list \<Rightarrow> peripheral option" where
  "pinmap_peripheral pin m = (if pin \<noteq> NC then pinmap_find_peripheral pin m else Some NP)"

fun pinmap_find_pin :: "peripheral \<Rightarrow> PinMap list \<Rightarrow> PinName option" where
  "pinmap_find_pin peripheral [] = None"
| "pinmap_find_pin peripheral ((p, per, f) # m) =
     (if per = NP then Some NC else if per = peripheral then Some p else pinmap_find_pin peripheral m)"

definition pinmap_pin :: "peripheral \<Rightarrow> PinMap list \<Rightarrow> PinName option" where
  "pinmap_pin peripheral m = (if peripheral \<noteq> NP then pinmap_find_pin peripheral m else Some NC)"

fun pinmap_find_function :: "PinName \<Rightarrow> PinMap list \<Rightarrow> u32 option" where
  "pinmap_find_function pin [] = None"
| "pinmap_find_function pin ((p, per, f) # m) =
     (if p = NC then Some NC else if p = pin then Some f else pinmap_find_function pin m)"

definition pinmap_function :: "PinName \<Rightarrow> PinMap list \<Rightarrow> u32 option" where
  "pinmap_function pin m = (if pin \<noteq> NC then pinmap_find_function pin m else Some NC)"

definition pinmap_merge_peripheral :: "peripheral \<Rightarrow> peripheral \<Rightarrow> peripheral" where
  "pinmap_merge_peripheral a b =
     (if a = b then a else if a = NP then b else if b = NP then a else NP)"

section \<open>Pin configuration\<close>

datatype ll_mode = LL_GPIO_MODE_INPUT | LL_GPIO_MODE_OUTPUT | LL_GPIO_MODE_ALTERNATE | LL_GPIO_MODE_ANALOG
datatype ll_speed = LL_GPIO_SPEED_FREQ_LOW | LL_GPIO_SPEED_FREQ_MEDIUM | LL_GPIO_SPEED_FREQ_HIGH | LL_GPIO_SPEED_FREQ_VERY_HIGH
datatype ll_output = LL_GPIO_OUTPUT_PUSHPULL | LL_GPIO_OUTPUT_OPENDRAIN
datatype ll_pull = LL_GPIO_PULL_NO | LL_GPIO_PULL_UP | LL_GPIO_PULL_DOWN
datatype analog_switch =
  LL_SYSCFG_ANALOG_SWITCH_PA0 | LL_SYSCFG_ANALOG_SWITCH_PA1 | LL_SYSCFG_ANALOG_SWITCH_PC2 | LL_SYSCFG_ANALOG_SWITCH_PC3

text \<open>The registers, by port and pin number. \<open>AFRL\<close> holds the alternate functions of pins 0
  to 7, \<open>AFRH\<close> of pins 8 to 15, each indexed from 0.\<close>

record gpio =
  MODER :: "u32 \<Rightarrow> u32 \<Rightarrow> ll_mode"
  OTYPER :: "u32 \<Rightarrow> u32 \<Rightarrow> ll_output"
  OSPEEDR :: "u32 \<Rightarrow> u32 \<Rightarrow> ll_speed"
  PUPDR :: "u32 \<Rightarrow> u32 \<Rightarrow> ll_pull"
  AFRL :: "u32 \<Rightarrow> u32 \<Rightarrow> u32"
  AFRH :: "u32 \<Rightarrow> u32 \<Rightarrow> u32"
  ODR :: "u32 \<Rightarrow> u32 \<Rightarrow> bool"
  gpio_clock :: "u32 \<Rightarrow> bool"
  switch_closed :: "analog_switch \<Rightarrow> bool"

definition upd2 :: "(u32 \<Rightarrow> u32 \<Rightarrow> 'a) \<Rightarrow> u32 \<Rightarrow> u32 \<Rightarrow> 'a \<Rightarrow> u32 \<Rightarrow> u32 \<Rightarrow> 'a" where
  "upd2 f a b v = f(a := (f a)(b := v))"

definition set_GPIO_Port_Clock :: "u32 \<Rightarrow> 'a gpio_scheme \<Rightarrow> u32 option \<times> 'a gpio_scheme" where
  "set_GPIO_Port_Clock port_idx s =
     (if port_idx \<le> LastPort then (Some port_idx, s\<lparr>gpio_clock := (gpio_clock s)(port_idx := True)\<rparr>)
      else (None, s))"

definition pin_PullConfig :: "u32 \<Rightarrow> u32 \<Rightarrow> u32 \<Rightarrow> 'a gpio_scheme \<Rightarrow> 'a gpio_scheme" where
  "pin_PullConfig port n pull_config s =
     (if pull_config = GPIO_PULLUP then s\<lparr>PUPDR := upd2 (PUPDR s) port n LL_GPIO_PULL_UP\<rparr>
      else if pull_config = GPIO_PULLDOWN then s\<lparr>PUPDR := upd2 (PUPDR s) port n LL_GPIO_PULL_DOWN\<rparr>
      else s\<lparr>PUPDR := upd2 (PUPDR s) port n LL_GPIO_PULL_NO\<rparr>)"

definition pin_SetAFPin :: "u32 \<Rightarrow> PinName \<Rightarrow> u32 \<Rightarrow> 'a gpio_scheme \<Rightarrow> 'a gpio_scheme" where
  "pin_SetAFPin port pin afnum s =
     (if STM_PIN pin > 7 then s\<lparr>AFRH := upd2 (AFRH s) port (STM_PIN pin - 8) afnum\<rparr>
      else s\<lparr>AFRL := upd2 (AFRL s) port (STM_PIN pin) afnum\<rparr>)"

definition PinMapAnalogSwitch :: "(PinName \<times> analog_switch option) list" where
  "PinMapAnalogSwitch =
     [(PA 0, Some LL_SYSCFG_ANALOG_SWITCH_PA0), (PA 1, Some LL_SYSCFG_ANALOG_SWITCH_PA1),
      (PC 2, Some LL_SYSCFG_ANALOG_SWITCH_PC2), (PC 3, Some LL_SYSCFG_ANALOG_SWITCH_PC3), (NC, None)]"

definition configure_dualpad_switch :: "PinName \<Rightarrow> u32 \<Rightarrow> analog_switch option \<Rightarrow> 'a gpio_scheme \<Rightarrow> 'a gpio_scheme" where
  "configure_dualpad_switch pin function LL_AnalogSwitch s =
     (case LL_AnalogSwitch of
        None \<Rightarrow> s
      | Some sw \<Rightarrow>
          if function AND STM_MODE_ANALOG \<noteq> STM_MODE_ANALOG \<and> pin AND PDUAL = PDUAL
          then s\<lparr>switch_closed := (switch_closed s)(sw := True)\<rparr>
          else s\<lparr>switch_closed := (switch_closed s)(sw := False)\<rparr>)"

text \<open>The result is whether the GPIO must be configured, and the switch found.\<close>

fun dualpad_loop :: "PinName \<Rightarrow> u32 \<Rightarrow> (PinName \<times> analog_switch option) list \<Rightarrow> bool \<times> analog_switch option" where
  "dualpad_loop pin function [] = (True, None)"
| "dualpad_loop pin function ((p, sw) # m) =
     (if p = NC then (True, None)
      else if p OR PDUAL = pin OR PDUAL
      then (\<not> (function AND STM_MODE_ANALOG = STM_MODE_ANALOG \<and> pin AND PDUAL = PDUAL), sw)
      else dualpad_loop pin function m)"

definition is_dualpad_switch_gpio_configurable :: "PinName \<Rightarrow> u32 \<Rightarrow> bool \<times> analog_switch option" where
  "is_dualpad_switch_gpio_configurable pin function = dualpad_loop pin function PinMapAnalogSwitch"

text \<open>\<^verbatim>\<open>Error_Handler\<close> does not return, and neither does the access to a null port: there is
  no result then.\<close>

definition set_mode :: "u32 \<Rightarrow> u32 \<Rightarrow> PinName \<Rightarrow> u32 \<Rightarrow> 'a gpio_scheme \<Rightarrow> 'a gpio_scheme option" where
  "set_mode mode afnum pin port s =
     (if mode = 0 then Some (s\<lparr>MODER := upd2 (MODER s) port (STM_PIN pin) LL_GPIO_MODE_INPUT\<rparr>)
      else if mode = 1 then Some (s\<lparr>MODER := upd2 (MODER s) port (STM_PIN pin) LL_GPIO_MODE_OUTPUT\<rparr>)
      else if mode = 2 then
        (let s1 = (if afnum \<noteq> 0x7F then pin_SetAFPin port pin afnum s else s)
         in Some (s1\<lparr>MODER := upd2 (MODER s1) port (STM_PIN pin) LL_GPIO_MODE_ALTERNATE\<rparr>))
      else if mode = 3 then Some (s\<lparr>MODER := upd2 (MODER s) port (STM_PIN pin) LL_GPIO_MODE_ANALOG\<rparr>)
      else None)"

definition pin_function :: "PinName \<Rightarrow> u32 \<Rightarrow> 'a gpio_scheme \<Rightarrow> 'a gpio_scheme option" where
  "pin_function pin function s =
     (let mode = STM_PIN_FUNCTION function; afnum = STM_PIN_AFNUM function;
          port = STM_PORT pin; n = STM_PIN pin
      in if pin = NC then None
      else case is_dualpad_switch_gpio_configurable pin function of
        (configurable, sw) \<Rightarrow>
          if \<not> configurable then Some (configure_dualpad_switch pin function sw s)
          else case set_GPIO_Port_Clock port s of
            (None, _) \<Rightarrow> None
          | (Some gpio, s1) \<Rightarrow>
              (let s2 = s1\<lparr>OSPEEDR := upd2 (OSPEEDR s1) gpio n LL_GPIO_SPEED_FREQ_VERY_HIGH\<rparr> in
               do { s3 \<leftarrow> set_mode mode afnum pin gpio s2;
                    let s4 = (if mode = 1 \<or> mode = 2
                              then s3\<lparr>OTYPER := upd2 (OTYPER s3) gpio n
                                (if STM_PIN_OD function \<noteq> 0 then LL_GPIO_OUTPUT_OPENDRAIN
                                 else LL_GPIO_OUTPUT_PUSHPULL)\<rparr>
                              else s3);
                    Some (configure_dualpad_switch pin function sw
                            (pin_PullConfig gpio n (STM_PIN_PUPD function) s4)) }))"

fun pinmap_pinout_loop :: "PinName \<Rightarrow> PinMap list \<Rightarrow> 'a gpio_scheme \<Rightarrow> 'a gpio_scheme option" where
  "pinmap_pinout_loop pin [] s = None"
| "pinmap_pinout_loop pin ((p, per, f) # m) s =
     (if p = NC then None else if p = pin then pin_function pin f s else pinmap_pinout_loop pin m s)"

definition pinmap_pinout :: "PinName \<Rightarrow> PinMap list \<Rightarrow> 'a gpio_scheme \<Rightarrow> 'a gpio_scheme option" where
  "pinmap_pinout pin m s = (if pin = NC then Some s else pinmap_pinout_loop pin m s)"

end
