(* ===== verification/Pin_Tables.thy ===== *)
theory Pin_Tables
  imports Pinmap
begin

text \<open>
  The tables of the board: which peripheral a pin can serve and how it is configured for
  it (\<^verbatim>\<open>variants/STM32H7xx/H743/PeripheralPins_PLC_H743.c\<close>), in the rows and the order of the
  file. The number of an alternate function is the one in the name of its constant
  (\<^verbatim>\<open>GPIO_AF4_I2C1\<close> is 4), and \<^verbatim>\<open>USE_USB_HS_IN_FS\<close> is not defined. The numbering of the Arduino
  pins is that of \<^verbatim>\<open>variant_PLC_H743.cpp\<close>.
\<close>

definition PinMap_ADC :: "PinMap list" where
  "PinMap_ADC =
     [(PA 0, ADC1, STM_PIN_DATA_EXT STM_MODE_ANALOG GPIO_NOPULL 0 16 0),
      (PA 1, ADC1, STM_PIN_DATA_EXT STM_MODE_ANALOG GPIO_NOPULL 0 17 0),
      (PA 2, ADC1, STM_PIN_DATA_EXT STM_MODE_ANALOG GPIO_NOPULL 0 14 0),
      (PA 2 OR ALT1, ADC2, STM_PIN_DATA_EXT STM_MODE_ANALOG GPIO_NOPULL 0 14 0),
      (PA 3, ADC1, STM_PIN_DATA_EXT STM_MODE_ANALOG GPIO_NOPULL 0 15 0),
      (PA 3 OR ALT1, ADC2, STM_PIN_DATA_EXT STM_MODE_ANALOG GPIO_NOPULL 0 15 0),
      (PA 4, ADC1, STM_PIN_DATA_EXT STM_MODE_ANALOG GPIO_NOPULL 0 18 0),
      (PA 4 OR ALT1, ADC2, STM_PIN_DATA_EXT STM_MODE_ANALOG GPIO_NOPULL 0 18 0),
      (PA 5, ADC1, STM_PIN_DATA_EXT STM_MODE_ANALOG GPIO_NOPULL 0 19 0),
      (PA 5 OR ALT1, ADC2, STM_PIN_DATA_EXT STM_MODE_ANALOG GPIO_NOPULL 0 19 0),
      (PA 6, ADC1, STM_PIN_DATA_EXT STM_MODE_ANALOG GPIO_NOPULL 0 3 0),
      (PA 6 OR ALT1, ADC2, STM_PIN_DATA_EXT STM_MODE_ANALOG GPIO_NOPULL 0 3 0),
      (PA 7, ADC1, STM_PIN_DATA_EXT STM_MODE_ANALOG GPIO_NOPULL 0 7 0),
      (PA 7 OR ALT1, ADC2, STM_PIN_DATA_EXT STM_MODE_ANALOG GPIO_NOPULL 0 7 0),
      (PB 0, ADC1, STM_PIN_DATA_EXT STM_MODE_ANALOG GPIO_NOPULL 0 9 0),
      (PB 0 OR ALT1, ADC2, STM_PIN_DATA_EXT STM_MODE_ANALOG GPIO_NOPULL 0 9 0),
      (PB 1, ADC1, STM_PIN_DATA_EXT STM_MODE_ANALOG GPIO_NOPULL 0 5 0),
      (PB 1 OR ALT1, ADC2, STM_PIN_DATA_EXT STM_MODE_ANALOG GPIO_NOPULL 0 5 0),
      (PC 0, ADC1, STM_PIN_DATA_EXT STM_MODE_ANALOG GPIO_NOPULL 0 10 0),
      (PC 0 OR ALT1, ADC2, STM_PIN_DATA_EXT STM_MODE_ANALOG GPIO_NOPULL 0 10 0),
      (PC 0 OR ALT2, ADC3, STM_PIN_DATA_EXT STM_MODE_ANALOG GPIO_NOPULL 0 10 0),
      (PC 1, ADC1, STM_PIN_DATA_EXT STM_MODE_ANALOG GPIO_NOPULL 0 11 0),
      (PC 1 OR ALT1, ADC2, STM_PIN_DATA_EXT STM_MODE_ANALOG GPIO_NOPULL 0 11 0),
      (PC 1 OR ALT2, ADC3, STM_PIN_DATA_EXT STM_MODE_ANALOG GPIO_NOPULL 0 11 0),
      (PC 2 OR PDUAL, ADC3, STM_PIN_DATA_EXT STM_MODE_ANALOG GPIO_NOPULL 0 0 0),
      (PC 3 OR PDUAL, ADC3, STM_PIN_DATA_EXT STM_MODE_ANALOG GPIO_NOPULL 0 1 0),
      (PC 4, ADC1, STM_PIN_DATA_EXT STM_MODE_ANALOG GPIO_NOPULL 0 4 0),
      (PC 4 OR ALT1, ADC2, STM_PIN_DATA_EXT STM_MODE_ANALOG GPIO_NOPULL 0 4 0),
      (PC 5, ADC1, STM_PIN_DATA_EXT STM_MODE_ANALOG GPIO_NOPULL 0 8 0),
      (PC 5 OR ALT1, ADC2, STM_PIN_DATA_EXT STM_MODE_ANALOG GPIO_NOPULL 0 8 0),
      (PF 3, ADC3, STM_PIN_DATA_EXT STM_MODE_ANALOG GPIO_NOPULL 0 5 0),
      (PF 4, ADC3, STM_PIN_DATA_EXT STM_MODE_ANALOG GPIO_NOPULL 0 9 0),
      (PF 5, ADC3, STM_PIN_DATA_EXT STM_MODE_ANALOG GPIO_NOPULL 0 4 0),
      (PF 6, ADC3, STM_PIN_DATA_EXT STM_MODE_ANALOG GPIO_NOPULL 0 8 0),
      (PF 7, ADC3, STM_PIN_DATA_EXT STM_MODE_ANALOG GPIO_NOPULL 0 3 0),
      (PF 8, ADC3, STM_PIN_DATA_EXT STM_MODE_ANALOG GPIO_NOPULL 0 7 0),
      (PF 9, ADC3, STM_PIN_DATA_EXT STM_MODE_ANALOG GPIO_NOPULL 0 2 0),
      (PF 10, ADC3, STM_PIN_DATA_EXT STM_MODE_ANALOG GPIO_NOPULL 0 6 0),
      (PF 11, ADC1, STM_PIN_DATA_EXT STM_MODE_ANALOG GPIO_NOPULL 0 2 0),
      (PF 12, ADC1, STM_PIN_DATA_EXT STM_MODE_ANALOG GPIO_NOPULL 0 6 0),
      (PF 13, ADC2, STM_PIN_DATA_EXT STM_MODE_ANALOG GPIO_NOPULL 0 2 0),
      (PF 14, ADC2, STM_PIN_DATA_EXT STM_MODE_ANALOG GPIO_NOPULL 0 6 0),
      (PH 2, ADC3, STM_PIN_DATA_EXT STM_MODE_ANALOG GPIO_NOPULL 0 13 0),
      (PH 3, ADC3, STM_PIN_DATA_EXT STM_MODE_ANALOG GPIO_NOPULL 0 14 0),
      (PH 4, ADC3, STM_PIN_DATA_EXT STM_MODE_ANALOG GPIO_NOPULL 0 15 0),
      (PH 5, ADC3, STM_PIN_DATA_EXT STM_MODE_ANALOG GPIO_NOPULL 0 16 0),
      (NC, NP, 0)]"

definition PinMap_DAC :: "PinMap list" where
  "PinMap_DAC =
     [(PA 4, DAC1, STM_PIN_DATA_EXT STM_MODE_ANALOG GPIO_NOPULL 0 1 0),
      (PA 5, DAC1, STM_PIN_DATA_EXT STM_MODE_ANALOG GPIO_NOPULL 0 2 0),
      (NC, NP, 0)]"

definition PinMap_I2C_SDA :: "PinMap list" where
  "PinMap_I2C_SDA =
     [(PB 7, I2C1, STM_PIN_DATA STM_MODE_AF_OD GPIO_NOPULL 4),
      (PB 7 OR ALT1, I2C4, STM_PIN_DATA STM_MODE_AF_OD GPIO_NOPULL 6),
      (PB 9, I2C1, STM_PIN_DATA STM_MODE_AF_OD GPIO_NOPULL 4),
      (PB 9 OR ALT1, I2C4, STM_PIN_DATA STM_MODE_AF_OD GPIO_NOPULL 6),
      (PB 11, I2C2, STM_PIN_DATA STM_MODE_AF_OD GPIO_NOPULL 4),
      (PC 9, I2C3, STM_PIN_DATA STM_MODE_AF_OD GPIO_NOPULL 4),
      (PD 13, I2C4, STM_PIN_DATA STM_MODE_AF_OD GPIO_NOPULL 4),
      (PF 0, I2C2, STM_PIN_DATA STM_MODE_AF_OD GPIO_NOPULL 4),
      (PF 15, I2C4, STM_PIN_DATA STM_MODE_AF_OD GPIO_NOPULL 4),
      (PH 5, I2C2, STM_PIN_DATA STM_MODE_AF_OD GPIO_NOPULL 4),
      (PH 8, I2C3, STM_PIN_DATA STM_MODE_AF_OD GPIO_NOPULL 4),
      (PH 12, I2C4, STM_PIN_DATA STM_MODE_AF_OD GPIO_NOPULL 4),
      (NC, NP, 0)]"

definition PinMap_I2C_SCL :: "PinMap list" where
  "PinMap_I2C_SCL =
     [(PA 8, I2C3, STM_PIN_DATA STM_MODE_AF_OD GPIO_NOPULL 4),
      (PB 6, I2C1, STM_PIN_DATA STM_MODE_AF_OD GPIO_NOPULL 4),
      (PB 6 OR ALT1, I2C4, STM_PIN_DATA STM_MODE_AF_OD GPIO_NOPULL 6),
      (PB 8, I2C1, STM_PIN_DATA STM_MODE_AF_OD GPIO_NOPULL 4),
      (PB 8 OR ALT1, I2C4, STM_PIN_DATA STM_MODE_AF_OD GPIO_NOPULL 6),
      (PB 10, I2C2, STM_PIN_DATA STM_MODE_AF_OD GPIO_NOPULL 4),
      (PD 12, I2C4, STM_PIN_DATA STM_MODE_AF_OD GPIO_NOPULL 4),
      (PF 1, I2C2, STM_PIN_DATA STM_MODE_AF_OD GPIO_NOPULL 4),
      (PF 14, I2C4, STM_PIN_DATA STM_MODE_AF_OD GPIO_NOPULL 4),
      (PH 4, I2C2, STM_PIN_DATA STM_MODE_AF_OD GPIO_NOPULL 4),
      (PH 7, I2C3, STM_PIN_DATA STM_MODE_AF_OD GPIO_NOPULL 4),
      (PH 11, I2C4, STM_PIN_DATA STM_MODE_AF_OD GPIO_NOPULL 4),
      (NC, NP, 0)]"

definition PinMap_TIM :: "PinMap list" where
  "PinMap_TIM =
     [(PA 0, TIM2, STM_PIN_DATA_EXT STM_MODE_AF_PP GPIO_PULLUP 1 1 0),
      (PA 0 OR ALT1, TIM5, STM_PIN_DATA_EXT STM_MODE_AF_PP GPIO_PULLUP 2 1 0),
      (PA 1, TIM2, STM_PIN_DATA_EXT STM_MODE_AF_PP GPIO_PULLUP 1 2 0),
      (PA 1 OR ALT1, TIM5, STM_PIN_DATA_EXT STM_MODE_AF_PP GPIO_PULLUP 2 2 0),
      (PA 1 OR ALT2, TIM15, STM_PIN_DATA_EXT STM_MODE_AF_PP GPIO_PULLUP 4 1 1),
      (PA 2, TIM2, STM_PIN_DATA_EXT STM_MODE_AF_PP GPIO_PULLUP 1 3 0),
      (PA 2 OR ALT1, TIM5, STM_PIN_DATA_EXT STM_MODE_AF_PP GPIO_PULLUP 2 3 0),
      (PA 2 OR ALT2, TIM15, STM_PIN_DATA_EXT STM_MODE_AF_PP GPIO_PULLUP 4 1 0),
      (PA 3, TIM2, STM_PIN_DATA_EXT STM_MODE_AF_PP GPIO_PULLUP 1 4 0),
      (PA 3 OR ALT1, TIM5, STM_PIN_DATA_EXT STM_MODE_AF_PP GPIO_PULLUP 2 4 0),
      (PA 3 OR ALT2, TIM15, STM_PIN_DATA_EXT STM_MODE_AF_PP GPIO_PULLUP 4 2 0),
      (PA 5, TIM2, STM_PIN_DATA_EXT STM_MODE_AF_PP GPIO_PULLUP 1 1 0),
      (PA 5 OR ALT1, TIM8, STM_PIN_DATA_EXT STM_MODE_AF_PP GPIO_PULLUP 3 1 1),
      (PA 6, TIM3, STM_PIN_DATA_EXT STM_MODE_AF_PP GPIO_PULLUP 2 1 0),
      (PA 6 OR ALT1, TIM13, STM_PIN_DATA_EXT STM_MODE_AF_PP GPIO_PULLUP 9 1 0),
      (PA 7, TIM1, STM_PIN_DATA_EXT STM_MODE_AF_PP GPIO_PULLUP 1 1 1),
      (PA 7 OR ALT1, TIM3, STM_PIN_DATA_EXT STM_MODE_AF_PP GPIO_PULLUP 2 2 0),
      (PA 7 OR ALT2, TIM8, STM_PIN_DATA_EXT STM_MODE_AF_PP GPIO_PULLUP 3 1 1),
      (PA 7 OR ALT3, TIM14, STM_PIN_DATA_EXT STM_MODE_AF_PP GPIO_PULLUP 9 1 0),
      (PA 8, TIM1, STM_PIN_DATA_EXT STM_MODE_AF_PP GPIO_PULLUP 1 1 0),
      (PA 9, TIM1, STM_PIN_DATA_EXT STM_MODE_AF_PP GPIO_PULLUP 1 2 0),
      (PA 10, TIM1, STM_PIN_DATA_EXT STM_MODE_AF_PP GPIO_PULLUP 1 3 0),
      (PA 11, TIM1, STM_PIN_DATA_EXT STM_MODE_AF_PP GPIO_PULLUP 1 4 0),
      (PA 15, TIM2, STM_PIN_DATA_EXT STM_MODE_AF_PP GPIO_PULLUP 1 1 0),
      (PB 0, TIM1, STM_PIN_DATA_EXT STM_MODE_AF_PP GPIO_PULLUP 1 2 1),
      (PB 0 OR ALT1, TIM3, STM_PIN_DATA_EXT STM_MODE_AF_PP GPIO_PULLUP 2 3 0),
      (PB 0 OR ALT2, TIM8, STM_PIN_DATA_EXT STM_MODE_AF_PP GPIO_PULLUP 3 2 1),
      (PB 1, TIM1, STM_PIN_DATA_EXT STM_MODE_AF_PP GPIO_PULLUP 1 3 1),
      (PB 1 OR ALT1, TIM3, STM_PIN_DATA_EXT STM_MODE_AF_PP GPIO_PULLUP 2 4 0),
      (PB 1 OR ALT2, TIM8, STM_PIN_DATA_EXT STM_MODE_AF_PP GPIO_PULLUP 3 3 1),
      (PB 3, TIM2, STM_PIN_DATA_EXT STM_MODE_AF_PP GPIO_PULLUP 1 2 0),
      (PB 4, TIM3, STM_PIN_DATA_EXT STM_MODE_AF_PP GPIO_PULLUP 2 1 0),
      (PB 5, TIM3, STM_PIN_DATA_EXT STM_MODE_AF_PP GPIO_PULLUP 2 2 0),
      (PB 6, TIM4, STM_PIN_DATA_EXT STM_MODE_AF_PP GPIO_PULLUP 2 1 0),
      (PB 6 OR ALT1, TIM16, STM_PIN_DATA_EXT STM_MODE_AF_PP GPIO_PULLUP 1 1 1),
      (PB 7, TIM4, STM_PIN_DATA_EXT STM_MODE_AF_PP GPIO_PULLUP 2 2 0),
      (PB 7 OR ALT1, TIM17, STM_PIN_DATA_EXT STM_MODE_AF_PP GPIO_PULLUP 1 1 1),
      (PB 8, TIM4, STM_PIN_DATA_EXT STM_MODE_AF_PP GPIO_PULLUP 2 3 0),
      (PB 8 OR ALT1, TIM16, STM_PIN_DATA_EXT STM_MODE_AF_PP GPIO_PULLUP 1 1 0),
      (PB 9, TIM4, STM_PIN_DATA_EXT STM_MODE_AF_PP GPIO_PULLUP 2 4 0),
      (PB 9 OR ALT1, TIM17, STM_PIN_DATA_EXT STM_MODE_AF_PP GPIO_PULLUP 1 1 0),
      (PB 10, TIM2, STM_PIN_DATA_EXT STM_MODE_AF_PP GPIO_PULLUP 1 3 0),
      (PB 11, TIM2, STM_PIN_DATA_EXT STM_MODE_AF_PP GPIO_PULLUP 1 4 0),
      (PB 13, TIM1, STM_PIN_DATA_EXT STM_MODE_AF_PP GPIO_PULLUP 1 1 1),
      (PB 14, TIM1, STM_PIN_DATA_EXT STM_MODE_AF_PP GPIO_PULLUP 1 2 1),
      (PB 14 OR ALT1, TIM8, STM_PIN_DATA_EXT STM_MODE_AF_PP GPIO_PULLUP 3 2 1),
      (PB 14 OR ALT2, TIM12, STM_PIN_DATA_EXT STM_MODE_AF_PP GPIO_PULLUP 2 1 0),
      (PB 15, TIM1, STM_PIN_DATA_EXT STM_MODE_AF_PP GPIO_PULLUP 1 3 1),
      (PB 15 OR ALT1, TIM8, STM_PIN_DATA_EXT STM_MODE_AF_PP GPIO_PULLUP 3 3 1),
      (PB 15 OR ALT2, TIM12, STM_PIN_DATA_EXT STM_MODE_AF_PP GPIO_PULLUP 2 2 0),
      (PC 6, TIM3, STM_PIN_DATA_EXT STM_MODE_AF_PP GPIO_PULLUP 2 1 0),
      (PC 6 OR ALT1, TIM8, STM_PIN_DATA_EXT STM_MODE_AF_PP GPIO_PULLUP 3 1 0),
      (PC 7, TIM3, STM_PIN_DATA_EXT STM_MODE_AF_PP GPIO_PULLUP 2 2 0),
      (PC 7 OR ALT1, TIM8, STM_PIN_DATA_EXT STM_MODE_AF_PP GPIO_PULLUP 3 2 0),
      (PC 8, TIM3, STM_PIN_DATA_EXT STM_MODE_AF_PP GPIO_PULLUP 2 3 0),
      (PC 8 OR ALT1, TIM8, STM_PIN_DATA_EXT STM_MODE_AF_PP GPIO_PULLUP 3 3 0),
      (PC 9, TIM3, STM_PIN_DATA_EXT STM_MODE_AF_PP GPIO_PULLUP 2 4 0),
      (PC 9 OR ALT1, TIM8, STM_PIN_DATA_EXT STM_MODE_AF_PP GPIO_PULLUP 3 4 0),
      (PD 12, TIM4, STM_PIN_DATA_EXT STM_MODE_AF_PP GPIO_PULLUP 2 1 0),
      (PD 13, TIM4, STM_PIN_DATA_EXT STM_MODE_AF_PP GPIO_PULLUP 2 2 0),
      (PD 14, TIM4, STM_PIN_DATA_EXT STM_MODE_AF_PP GPIO_PULLUP 2 3 0),
      (PD 15, TIM4, STM_PIN_DATA_EXT STM_MODE_AF_PP GPIO_PULLUP 2 4 0),
      (PE 4, TIM15, STM_PIN_DATA_EXT STM_MODE_AF_PP GPIO_PULLUP 4 1 1),
      (PE 5, TIM15, STM_PIN_DATA_EXT STM_MODE_AF_PP GPIO_PULLUP 4 1 0),
      (PE 6, TIM15, STM_PIN_DATA_EXT STM_MODE_AF_PP GPIO_PULLUP 4 2 0),
      (PE 8, TIM1, STM_PIN_DATA_EXT STM_MODE_AF_PP GPIO_PULLUP 1 1 1),
      (PE 9, TIM1, STM_PIN_DATA_EXT STM_MODE_AF_PP GPIO_PULLUP 1 1 0),
      (PE 10, TIM1, STM_PIN_DATA_EXT STM_MODE_AF_PP GPIO_PULLUP 1 2 1),
      (PE 11, TIM1, STM_PIN_DATA_EXT STM_MODE_AF_PP GPIO_PULLUP 1 2 0),
      (PE 12, TIM1, STM_PIN_DATA_EXT STM_MODE_AF_PP GPIO_PULLUP 1 3 1),
      (PE 13, TIM1, STM_PIN_DATA_EXT STM_MODE_AF_PP GPIO_PULLUP 1 3 0),
      (PE 14, TIM1, STM_PIN_DATA_EXT STM_MODE_AF_PP GPIO_PULLUP 1 4 0),
      (PF 6, TIM16, STM_PIN_DATA_EXT STM_MODE_AF_PP GPIO_PULLUP 1 1 0),
      (PF 7, TIM17, STM_PIN_DATA_EXT STM_MODE_AF_PP GPIO_PULLUP 1 1 0),
      (PF 8, TIM13, STM_PIN_DATA_EXT STM_MODE_AF_PP GPIO_PULLUP 9 1 0),
      (PF 8 OR ALT1, TIM16, STM_PIN_DATA_EXT STM_MODE_AF_PP GPIO_PULLUP 1 1 1),
      (PF 9, TIM14, STM_PIN_DATA_EXT STM_MODE_AF_PP GPIO_PULLUP 9 1 0),
      (PF 9 OR ALT1, TIM17, STM_PIN_DATA_EXT STM_MODE_AF_PP GPIO_PULLUP 1 1 1),
      (PH 6, TIM12, STM_PIN_DATA_EXT STM_MODE_AF_PP GPIO_PULLUP 2 1 0),
      (PH 9, TIM12, STM_PIN_DATA_EXT STM_MODE_AF_PP GPIO_PULLUP 2 2 0),
      (PH 10, TIM5, STM_PIN_DATA_EXT STM_MODE_AF_PP GPIO_PULLUP 2 1 0),
      (PH 11, TIM5, STM_PIN_DATA_EXT STM_MODE_AF_PP GPIO_PULLUP 2 2 0),
      (PH 12, TIM5, STM_PIN_DATA_EXT STM_MODE_AF_PP GPIO_PULLUP 2 3 0),
      (PH 13, TIM8, STM_PIN_DATA_EXT STM_MODE_AF_PP GPIO_PULLUP 3 1 1),
      (PH 14, TIM8, STM_PIN_DATA_EXT STM_MODE_AF_PP GPIO_PULLUP 3 2 1),
      (PH 15, TIM8, STM_PIN_DATA_EXT STM_MODE_AF_PP GPIO_PULLUP 3 3 1),
      (PI 0, TIM5, STM_PIN_DATA_EXT STM_MODE_AF_PP GPIO_PULLUP 2 4 0),
      (PI 2, TIM8, STM_PIN_DATA_EXT STM_MODE_AF_PP GPIO_PULLUP 3 4 0),
      (PI 5, TIM8, STM_PIN_DATA_EXT STM_MODE_AF_PP GPIO_PULLUP 3 1 0),
      (PI 6, TIM8, STM_PIN_DATA_EXT STM_MODE_AF_PP GPIO_PULLUP 3 2 0),
      (PI 7, TIM8, STM_PIN_DATA_EXT STM_MODE_AF_PP GPIO_PULLUP 3 3 0),
      (NC, NP, 0)]"

definition PinMap_UART_TX :: "PinMap list" where
  "PinMap_UART_TX =
     [(PA 0, UART4, STM_PIN_DATA STM_MODE_AF_PP GPIO_PULLUP 8),
      (PA 2, USART2, STM_PIN_DATA STM_MODE_AF_PP GPIO_PULLUP 7),
      (PA 9, LPUART1, STM_PIN_DATA STM_MODE_AF_PP GPIO_PULLUP 3),
      (PA 9 OR ALT1, USART1, STM_PIN_DATA STM_MODE_AF_PP GPIO_PULLUP 7),
      (PA 12, UART4, STM_PIN_DATA STM_MODE_AF_PP GPIO_PULLUP 6),
      (PA 15, UART7, STM_PIN_DATA STM_MODE_AF_PP GPIO_PULLUP 11),
      (PB 4, UART7, STM_PIN_DATA STM_MODE_AF_PP GPIO_PULLUP 11),
      (PB 6, LPUART1, STM_PIN_DATA STM_MODE_AF_PP GPIO_PULLUP 8),
      (PB 6 OR ALT1, UART5, STM_PIN_DATA STM_MODE_AF_PP GPIO_PULLUP 14),
      (PB 6 OR ALT2, USART1, STM_PIN_DATA STM_MODE_AF_PP GPIO_PULLUP 7),
      (PB 9, UART4, STM_PIN_DATA STM_MODE_AF_PP GPIO_PULLUP 8),
      (PB 10, USART3, STM_PIN_DATA STM_MODE_AF_PP GPIO_PULLUP 7),
      (PB 13, UART5, STM_PIN_DATA STM_MODE_AF_PP GPIO_PULLUP 14),
      (PB 14, USART1, STM_PIN_DATA STM_MODE_AF_PP GPIO_PULLUP 4),
      (PC 6, USART6, STM_PIN_DATA STM_MODE_AF_PP GPIO_PULLUP 7),
      (PC 10, UART4, STM_PIN_DATA STM_MODE_AF_PP GPIO_PULLUP 8),
      (PC 10 OR ALT1, USART3, STM_PIN_DATA STM_MODE_AF_PP GPIO_PULLUP 7),
      (PC 12, UART5, STM_PIN_DATA STM_MODE_AF_PP GPIO_PULLUP 8),
      (PD 1, UART4, STM_PIN_DATA STM_MODE_AF_PP GPIO_PULLUP 8),
      (PD 5, USART2, STM_PIN_DATA STM_MODE_AF_PP GPIO_PULLUP 7),
      (PD 8, USART3, STM_PIN_DATA STM_MODE_AF_PP GPIO_PULLUP 7),
      (PE 1, UART8, STM_PIN_DATA STM_MODE_AF_PP GPIO_PULLUP 8),
      (PE 8, UART7, STM_PIN_DATA STM_MODE_AF_PP GPIO_PULLUP 7),
      (PF 7, UART7, STM_PIN_DATA STM_MODE_AF_PP GPIO_PULLUP 7),
      (PG 14, USART6, STM_PIN_DATA STM_MODE_AF_PP GPIO_PULLUP 7),
      (PH 13, UART4, STM_PIN_DATA STM_MODE_AF_PP GPIO_PULLUP 8),
      (NC, NP, 0)]"

definition PinMap_UART_RX :: "PinMap list" where
  "PinMap_UART_RX =
     [(PA 1, UART4, STM_PIN_DATA STM_MODE_AF_PP GPIO_PULLUP 8),
      (PA 3, USART2, STM_PIN_DATA STM_MODE_AF_PP GPIO_PULLUP 7),
      (PA 8, UART7, STM_PIN_DATA STM_MODE_AF_PP GPIO_PULLUP 11),
      (PA 10, LPUART1, STM_PIN_DATA STM_MODE_AF_PP GPIO_PULLUP 3),
      (PA 10 OR ALT1, USART1, STM_PIN_DATA STM_MODE_AF_PP GPIO_PULLUP 7),
      (PA 11, UART4, STM_PIN_DATA STM_MODE_AF_PP GPIO_PULLUP 6),
      (PB 3, UART7, STM_PIN_DATA STM_MODE_AF_PP GPIO_PULLUP 11),
      (PB 5, UART5, STM_PIN_DATA STM_MODE_AF_PP GPIO_PULLUP 14),
      (PB 7, LPUART1, STM_PIN_DATA STM_MODE_AF_PP GPIO_PULLUP 8),
      (PB 7 OR ALT1, USART1, STM_PIN_DATA STM_MODE_AF_PP GPIO_PULLUP 7),
      (PB 8, UART4, STM_PIN_DATA STM_MODE_AF_PP GPIO_PULLUP 8),
      (PB 11, USART3, STM_PIN_DATA STM_MODE_AF_PP GPIO_PULLUP 7),
      (PB 12, UART5, STM_PIN_DATA STM_MODE_AF_PP GPIO_PULLUP 14),
      (PB 15, USART1, STM_PIN_DATA STM_MODE_AF_PP GPIO_PULLUP 4),
      (PC 7, USART6, STM_PIN_DATA STM_MODE_AF_PP GPIO_PULLUP 7),
      (PC 11, UART4, STM_PIN_DATA STM_MODE_AF_PP GPIO_PULLUP 8),
      (PC 11 OR ALT1, USART3, STM_PIN_DATA STM_MODE_AF_PP GPIO_PULLUP 7),
      (PD 0, UART4, STM_PIN_DATA STM_MODE_AF_PP GPIO_PULLUP 8),
      (PD 2, UART5, STM_PIN_DATA STM_MODE_AF_PP GPIO_PULLUP 8),
      (PD 6, USART2, STM_PIN_DATA STM_MODE_AF_PP GPIO_PULLUP 7),
      (PD 9, USART3, STM_PIN_DATA STM_MODE_AF_PP GPIO_PULLUP 7),
      (PE 0, UART8, STM_PIN_DATA STM_MODE_AF_PP GPIO_PULLUP 8),
      (PE 7, UART7, STM_PIN_DATA STM_MODE_AF_PP GPIO_PULLUP 7),
      (PF 6, UART7, STM_PIN_DATA STM_MODE_AF_PP GPIO_PULLUP 7),
      (PG 9, USART6, STM_PIN_DATA STM_MODE_AF_PP GPIO_PULLUP 7),
      (PH 14, UART4, STM_PIN_DATA STM_MODE_AF_PP GPIO_PULLUP 8),
      (PI 9, UART4, STM_PIN_DATA STM_MODE_AF_PP GPIO_PULLUP 8),
      (NC, NP, 0)]"

definition PinMap_UART_RTS :: "PinMap list" where
  "PinMap_UART_RTS =
     [(PA 1, USART2, STM_PIN_DATA STM_MODE_AF_PP GPIO_PULLUP 7),
      (PA 12, LPUART1, STM_PIN_DATA STM_MODE_AF_PP GPIO_PULLUP 3),
      (PA 12 OR ALT1, USART1, STM_PIN_DATA STM_MODE_AF_PP GPIO_PULLUP 7),
      (PA 15, UART4, STM_PIN_DATA STM_MODE_AF_PP GPIO_PULLUP 8),
      (PB 14, UART4, STM_PIN_DATA STM_MODE_AF_PP GPIO_PULLUP 8),
      (PB 14 OR ALT1, USART3, STM_PIN_DATA STM_MODE_AF_PP GPIO_PULLUP 7),
      (PC 8, UART5, STM_PIN_DATA STM_MODE_AF_PP GPIO_PULLUP 8),
      (PD 4, USART2, STM_PIN_DATA STM_MODE_AF_PP GPIO_PULLUP 7),
      (PD 12, USART3, STM_PIN_DATA STM_MODE_AF_PP GPIO_PULLUP 7),
      (PD 15, UART8, STM_PIN_DATA STM_MODE_AF_PP GPIO_PULLUP 8),
      (PE 9, UART7, STM_PIN_DATA STM_MODE_AF_PP GPIO_PULLUP 7),
      (PF 8, UART7, STM_PIN_DATA STM_MODE_AF_PP GPIO_PULLUP 7),
      (PG 8, USART6, STM_PIN_DATA STM_MODE_AF_PP GPIO_PULLUP 7),
      (PG 12, USART6, STM_PIN_DATA STM_MODE_AF_PP GPIO_PULLUP 7),
      (NC, NP, 0)]"

definition PinMap_UART_CTS :: "PinMap list" where
  "PinMap_UART_CTS =
     [(PA 0, USART2, STM_PIN_DATA STM_MODE_AF_PP GPIO_PULLUP 7),
      (PA 11, LPUART1, STM_PIN_DATA STM_MODE_AF_PP GPIO_PULLUP 3),
      (PA 11 OR ALT1, USART1, STM_PIN_DATA STM_MODE_AF_PP GPIO_PULLUP 7),
      (PB 0, UART4, STM_PIN_DATA STM_MODE_AF_PP GPIO_PULLUP 8),
      (PB 13, USART3, STM_PIN_DATA STM_MODE_AF_PP GPIO_PULLUP 7),
      (PB 15, UART4, STM_PIN_DATA STM_MODE_AF_PP GPIO_PULLUP 8),
      (PC 9, UART5, STM_PIN_DATA STM_MODE_AF_PP GPIO_PULLUP 8),
      (PD 3, USART2, STM_PIN_DATA STM_MODE_AF_PP GPIO_PULLUP 7),
      (PD 11, USART3, STM_PIN_DATA STM_MODE_AF_PP GPIO_PULLUP 7),
      (PD 14, UART8, STM_PIN_DATA STM_MODE_AF_PP GPIO_PULLUP 8),
      (PE 10, UART7, STM_PIN_DATA STM_MODE_AF_PP GPIO_PULLUP 7),
      (PF 9, UART7, STM_PIN_DATA STM_MODE_AF_PP GPIO_PULLUP 7),
      (PG 13, USART6, STM_PIN_DATA STM_MODE_AF_PP GPIO_PULLUP 7),
      (PG 15, USART6, STM_PIN_DATA STM_MODE_AF_PP GPIO_PULLUP 7),
      (NC, NP, 0)]"

definition PinMap_SPI_MOSI :: "PinMap list" where
  "PinMap_SPI_MOSI =
     [(PA 7, SPI1, STM_PIN_DATA STM_MODE_AF_PP GPIO_PULLUP 5),
      (PA 7 OR ALT1, SPI6, STM_PIN_DATA STM_MODE_AF_PP GPIO_PULLUP 8),
      (PB 2, SPI3, STM_PIN_DATA STM_MODE_AF_PP GPIO_PULLUP 7),
      (PB 5, SPI1, STM_PIN_DATA STM_MODE_AF_PP GPIO_PULLUP 5),
      (PB 5 OR ALT1, SPI3, STM_PIN_DATA STM_MODE_AF_PP GPIO_PULLUP 7),
      (PB 5 OR ALT2, SPI6, STM_PIN_DATA STM_MODE_AF_PP GPIO_PULLUP 8),
      (PB 15, SPI2, STM_PIN_DATA STM_MODE_AF_PP GPIO_PULLUP 5),
      (PC 1, SPI2, STM_PIN_DATA STM_MODE_AF_PP GPIO_PULLUP 5),
      (PC 3 OR PDUAL, SPI2, STM_PIN_DATA STM_MODE_AF_PP GPIO_PULLUP 5),
      (PC 12, SPI3, STM_PIN_DATA STM_MODE_AF_PP GPIO_PULLUP 6),
      (PD 6, SPI3, STM_PIN_DATA STM_MODE_AF_PP GPIO_PULLUP 5),
      (PD 7, SPI1, STM_PIN_DATA STM_MODE_AF_PP GPIO_PULLUP 5),
      (PE 6, SPI4, STM_PIN_DATA STM_MODE_AF_PP GPIO_PULLUP 5),
      (PE 14, SPI4, STM_PIN_DATA STM_MODE_AF_PP GPIO_PULLUP 5),
      (PF 9, SPI5, STM_PIN_DATA STM_MODE_AF_PP GPIO_PULLUP 5),
      (PF 11, SPI5, STM_PIN_DATA STM_MODE_AF_PP GPIO_PULLUP 5),
      (PG 14, SPI6, STM_PIN_DATA STM_MODE_AF_PP GPIO_PULLUP 5),
      (PI 3, SPI2, STM_PIN_DATA STM_MODE_AF_PP GPIO_PULLUP 5),
      (NC, NP, 0)]"

definition PinMap_SPI_MISO :: "PinMap list" where
  "PinMap_SPI_MISO =
     [(PA 6, SPI1, STM_PIN_DATA STM_MODE_AF_PP GPIO_PULLUP 5),
      (PA 6 OR ALT1, SPI6, STM_PIN_DATA STM_MODE_AF_PP GPIO_PULLUP 8),
      (PB 4, SPI1, STM_PIN_DATA STM_MODE_AF_PP GPIO_PULLUP 5),
      (PB 4 OR ALT1, SPI3, STM_PIN_DATA STM_MODE_AF_PP GPIO_PULLUP 6),
      (PB 4 OR ALT2, SPI6, STM_PIN_DATA STM_MODE_AF_PP GPIO_PULLUP 8),
      (PB 14, SPI2, STM_PIN_DATA STM_MODE_AF_PP GPIO_PULLUP 5),
      (PC 2 OR PDUAL, SPI2, STM_PIN_DATA STM_MODE_AF_PP GPIO_PULLUP 5),
      (PC 11, SPI3, STM_PIN_DATA STM_MODE_AF_PP GPIO_PULLUP 6),
      (PE 5, SPI4, STM_PIN_DATA STM_MODE_AF_PP GPIO_PULLUP 5),
      (PE 13, SPI4, STM_PIN_DATA STM_MODE_AF_PP GPIO_PULLUP 5),
      (PF 8, SPI5, STM_PIN_DATA STM_MODE_AF_PP GPIO_PULLUP 5),
      (PG 9, SPI1, STM_PIN_DATA STM_MODE_AF_PP GPIO_PULLUP 5),
      (PG 12, SPI6, STM_PIN_DATA STM_MODE_AF_PP GPIO_PULLUP 5),
      (PH 7, SPI5, STM_PIN_DATA STM_MODE_AF_PP GPIO_PULLUP 5),
      (PI 2, SPI2, STM_PIN_DATA STM_MODE_AF_PP GPIO_PULLUP 5),
      (NC, NP, 0)]"

definition PinMap_SPI_SCLK :: "PinMap list" where
  "PinMap_SPI_SCLK =
     [(PA 5, SPI1, STM_PIN_DATA STM_MODE_AF_PP GPIO_PULLUP 5),
      (PA 5 OR ALT1, SPI6, STM_PIN_DATA STM_MODE_AF_PP GPIO_PULLUP 8),
      (PA 9, SPI2, STM_PIN_DATA STM_MODE_AF_PP GPIO_PULLUP 5),
      (PA 12, SPI2, STM_PIN_DATA STM_MODE_AF_PP GPIO_PULLUP 5),
      (PB 3, SPI1, STM_PIN_DATA STM_MODE_AF_PP GPIO_PULLUP 5),
      (PB 3 OR ALT1, SPI3, STM_PIN_DATA STM_MODE_AF_PP GPIO_PULLUP 6),
      (PB 3 OR ALT2, SPI6, STM_PIN_DATA STM_MODE_AF_PP GPIO_PULLUP 8),
      (PB 10, SPI2, STM_PIN_DATA STM_MODE_AF_PP GPIO_PULLUP 5),
      (PB 13, SPI2, STM_PIN_DATA STM_MODE_AF_PP GPIO_PULLUP 5),
      (PC 10, SPI3, STM_PIN_DATA STM_MODE_AF_PP GPIO_PULLUP 6),
      (PD 3, SPI2, STM_PIN_DATA STM_MODE_AF_PP GPIO_PULLUP 5),
      (PE 2, SPI4, STM_PIN_DATA STM_MODE_AF_PP GPIO_PULLUP 5),
      (PE 12, SPI4, STM_PIN_DATA STM_MODE_AF_PP GPIO_PULLUP 5),
      (PF 7, SPI5, STM_PIN_DATA STM_MODE_AF_PP GPIO_PULLUP 5),
      (PG 11, SPI1, STM_PIN_DATA STM_MODE_AF_PP GPIO_PULLUP 5),
      (PG 13, SPI6, STM_PIN_DATA STM_MODE_AF_PP GPIO_PULLUP 5),
      (PH 6, SPI5, STM_PIN_DATA STM_MODE_AF_PP GPIO_PULLUP 5),
      (PI 1, SPI2, STM_PIN_DATA STM_MODE_AF_PP GPIO_PULLUP 5),
      (NC, NP, 0)]"

definition PinMap_SPI_SSEL :: "PinMap list" where
  "PinMap_SPI_SSEL =
     [(PA 4, SPI1, STM_PIN_DATA STM_MODE_AF_PP GPIO_PULLUP 5),
      (PA 4 OR ALT1, SPI3, STM_PIN_DATA STM_MODE_AF_PP GPIO_PULLUP 6),
      (PA 4 OR ALT2, SPI6, STM_PIN_DATA STM_MODE_AF_PP GPIO_PULLUP 8),
      (PA 11, SPI2, STM_PIN_DATA STM_MODE_AF_PP GPIO_PULLUP 5),
      (PA 15, SPI1, STM_PIN_DATA STM_MODE_AF_PP GPIO_PULLUP 5),
      (PA 15 OR ALT1, SPI3, STM_PIN_DATA STM_MODE_AF_PP GPIO_PULLUP 6),
      (PA 15 OR ALT2, SPI6, STM_PIN_DATA STM_MODE_AF_PP GPIO_PULLUP 7),
      (PB 4, SPI2, STM_PIN_DATA STM_MODE_AF_PP GPIO_PULLUP 7),
      (PB 9, SPI2, STM_PIN_DATA STM_MODE_AF_PP GPIO_PULLUP 5),
      (PB 12, SPI2, STM_PIN_DATA STM_MODE_AF_PP GPIO_PULLUP 5),
      (PE 4, SPI4, STM_PIN_DATA STM_MODE_AF_PP GPIO_PULLUP 5),
      (PE 11, SPI4, STM_PIN_DATA STM_MODE_AF_PP GPIO_PULLUP 5),
      (PF 6, SPI5, STM_PIN_DATA STM_MODE_AF_PP GPIO_PULLUP 5),
      (PG 8, SPI6, STM_PIN_DATA STM_MODE_AF_PP GPIO_PULLUP 5),
      (PG 10, SPI1, STM_PIN_DATA STM_MODE_AF_PP GPIO_PULLUP 5),
      (PH 5, SPI5, STM_PIN_DATA STM_MODE_AF_PP GPIO_PULLUP 5),
      (PI 0, SPI2, STM_PIN_DATA STM_MODE_AF_PP GPIO_PULLUP 5),
      (NC, NP, 0)]"

definition PinMap_CAN_RD :: "PinMap list" where
  "PinMap_CAN_RD =
     [(PA 11, FDCAN1, STM_PIN_DATA STM_MODE_AF_PP GPIO_NOPULL 9),
      (PB 5, FDCAN2, STM_PIN_DATA STM_MODE_AF_PP GPIO_NOPULL 9),
      (PB 8, FDCAN1, STM_PIN_DATA STM_MODE_AF_PP GPIO_NOPULL 9),
      (PB 12, FDCAN2, STM_PIN_DATA STM_MODE_AF_PP GPIO_NOPULL 9),
      (PD 0, FDCAN1, STM_PIN_DATA STM_MODE_AF_PP GPIO_NOPULL 9),
      (PH 14, FDCAN1, STM_PIN_DATA STM_MODE_AF_PP GPIO_NOPULL 9),
      (PI 9, FDCAN1, STM_PIN_DATA STM_MODE_AF_PP GPIO_NOPULL 9),
      (NC, NP, 0)]"

definition PinMap_CAN_TD :: "PinMap list" where
  "PinMap_CAN_TD =
     [(PA 12, FDCAN1, STM_PIN_DATA STM_MODE_AF_PP GPIO_NOPULL 9),
      (PB 6, FDCAN2, STM_PIN_DATA STM_MODE_AF_PP GPIO_NOPULL 9),
      (PB 9, FDCAN1, STM_PIN_DATA STM_MODE_AF_PP GPIO_NOPULL 9),
      (PB 13, FDCAN2, STM_PIN_DATA STM_MODE_AF_PP GPIO_NOPULL 9),
      (PD 1, FDCAN1, STM_PIN_DATA STM_MODE_AF_PP GPIO_NOPULL 9),
      (PH 13, FDCAN1, STM_PIN_DATA STM_MODE_AF_PP GPIO_NOPULL 9),
      (NC, NP, 0)]"

definition PinMap_Ethernet :: "PinMap list" where
  "PinMap_Ethernet =
     [(PA 0, ETH, STM_PIN_DATA STM_MODE_AF_PP GPIO_PULLUP 11),
      (PA 1, ETH, STM_PIN_DATA STM_MODE_AF_PP GPIO_PULLUP 11),
      (PA 1 OR ALT1, ETH, STM_PIN_DATA STM_MODE_AF_PP GPIO_PULLUP 11),
      (PA 2, ETH, STM_PIN_DATA STM_MODE_AF_PP GPIO_PULLUP 11),
      (PA 3, ETH, STM_PIN_DATA STM_MODE_AF_PP GPIO_PULLUP 11),
      (PA 7, ETH, STM_PIN_DATA STM_MODE_AF_PP GPIO_PULLUP 11),
      (PA 7 OR ALT1, ETH, STM_PIN_DATA STM_MODE_AF_PP GPIO_PULLUP 11),
      (PB 0, ETH, STM_PIN_DATA STM_MODE_AF_PP GPIO_PULLUP 11),
      (PB 1, ETH, STM_PIN_DATA STM_MODE_AF_PP GPIO_PULLUP 11),
      (PB 5, ETH, STM_PIN_DATA STM_MODE_AF_PP GPIO_PULLUP 11),
      (PB 8, ETH, STM_PIN_DATA STM_MODE_AF_PP GPIO_PULLUP 11),
      (PB 10, ETH, STM_PIN_DATA STM_MODE_AF_PP GPIO_PULLUP 11),
      (PB 11, ETH, STM_PIN_DATA STM_MODE_AF_PP GPIO_PULLUP 11),
      (PB 12, ETH, STM_PIN_DATA STM_MODE_AF_PP GPIO_PULLUP 11),
      (PB 13, ETH, STM_PIN_DATA STM_MODE_AF_PP GPIO_PULLUP 11),
      (PC 1, ETH, STM_PIN_DATA STM_MODE_AF_PP GPIO_PULLUP 11),
      (PC 2 OR PDUAL, ETH, STM_PIN_DATA STM_MODE_AF_PP GPIO_PULLUP 11),
      (PC 3 OR PDUAL, ETH, STM_PIN_DATA STM_MODE_AF_PP GPIO_PULLUP 11),
      (PC 4, ETH, STM_PIN_DATA STM_MODE_AF_PP GPIO_PULLUP 11),
      (PC 5, ETH, STM_PIN_DATA STM_MODE_AF_PP GPIO_PULLUP 11),
      (PE 2, ETH, STM_PIN_DATA STM_MODE_AF_PP GPIO_PULLUP 11),
      (PG 8, ETH, STM_PIN_DATA STM_MODE_AF_PP GPIO_PULLUP 11),
      (PG 11, ETH, STM_PIN_DATA STM_MODE_AF_PP GPIO_PULLUP 11),
      (PG 12, ETH, STM_PIN_DATA STM_MODE_AF_PP GPIO_PULLUP 11),
      (PG 13, ETH, STM_PIN_DATA STM_MODE_AF_PP GPIO_PULLUP 11),
      (PG 14, ETH, STM_PIN_DATA STM_MODE_AF_PP GPIO_PULLUP 11),
      (PH 2, ETH, STM_PIN_DATA STM_MODE_AF_PP GPIO_PULLUP 11),
      (PH 3, ETH, STM_PIN_DATA STM_MODE_AF_PP GPIO_PULLUP 11),
      (PH 6, ETH, STM_PIN_DATA STM_MODE_AF_PP GPIO_PULLUP 11),
      (PH 7, ETH, STM_PIN_DATA STM_MODE_AF_PP GPIO_PULLUP 11),
      (PI 10, ETH, STM_PIN_DATA STM_MODE_AF_PP GPIO_PULLUP 11),
      (NC, NP, 0)]"

definition PinMap_QUADSPI_DATA0 :: "PinMap list" where
  "PinMap_QUADSPI_DATA0 =
     [(PC 9, QUADSPI, STM_PIN_DATA STM_MODE_AF_PP GPIO_PULLUP 9),
      (PD 11, QUADSPI, STM_PIN_DATA STM_MODE_AF_PP GPIO_PULLUP 9),
      (PE 7, QUADSPI, STM_PIN_DATA STM_MODE_AF_PP GPIO_PULLUP 10),
      (PF 8, QUADSPI, STM_PIN_DATA STM_MODE_AF_PP GPIO_PULLUP 10),
      (PH 2, QUADSPI, STM_PIN_DATA STM_MODE_AF_PP GPIO_PULLUP 9),
      (NC, NP, 0)]"

definition PinMap_QUADSPI_DATA1 :: "PinMap list" where
  "PinMap_QUADSPI_DATA1 =
     [(PC 10, QUADSPI, STM_PIN_DATA STM_MODE_AF_PP GPIO_PULLUP 9),
      (PD 12, QUADSPI, STM_PIN_DATA STM_MODE_AF_PP GPIO_PULLUP 9),
      (PE 8, QUADSPI, STM_PIN_DATA STM_MODE_AF_PP GPIO_PULLUP 10),
      (PF 9, QUADSPI, STM_PIN_DATA STM_MODE_AF_PP GPIO_PULLUP 10),
      (PH 3, QUADSPI, STM_PIN_DATA STM_MODE_AF_PP GPIO_PULLUP 9),
      (NC, NP, 0)]"

definition PinMap_QUADSPI_DATA2 :: "PinMap list" where
  "PinMap_QUADSPI_DATA2 =
     [(PE 2, QUADSPI, STM_PIN_DATA STM_MODE_AF_PP GPIO_PULLUP 9),
      (PE 9, QUADSPI, STM_PIN_DATA STM_MODE_AF_PP GPIO_PULLUP 10),
      (PF 7, QUADSPI, STM_PIN_DATA STM_MODE_AF_PP GPIO_PULLUP 9),
      (PG 9, QUADSPI, STM_PIN_DATA STM_MODE_AF_PP GPIO_PULLUP 9),
      (NC, NP, 0)]"

definition PinMap_QUADSPI_DATA3 :: "PinMap list" where
  "PinMap_QUADSPI_DATA3 =
     [(PA 1, QUADSPI, STM_PIN_DATA STM_MODE_AF_PP GPIO_PULLUP 9),
      (PD 13, QUADSPI, STM_PIN_DATA STM_MODE_AF_PP GPIO_PULLUP 9),
      (PE 10, QUADSPI, STM_PIN_DATA STM_MODE_AF_PP GPIO_PULLUP 10),
      (PF 6, QUADSPI, STM_PIN_DATA STM_MODE_AF_PP GPIO_PULLUP 9),
      (PG 14, QUADSPI, STM_PIN_DATA STM_MODE_AF_PP GPIO_PULLUP 9),
      (NC, NP, 0)]"

definition PinMap_QUADSPI_SCLK :: "PinMap list" where
  "PinMap_QUADSPI_SCLK =
     [(PB 2, QUADSPI, STM_PIN_DATA STM_MODE_AF_PP GPIO_PULLUP 9),
      (PF 10, QUADSPI, STM_PIN_DATA STM_MODE_AF_PP GPIO_PULLUP 9),
      (NC, NP, 0)]"

definition PinMap_QUADSPI_SSEL :: "PinMap list" where
  "PinMap_QUADSPI_SSEL =
     [(PB 6, QUADSPI, STM_PIN_DATA STM_MODE_AF_PP GPIO_PULLUP 10),
      (PB 10, QUADSPI, STM_PIN_DATA STM_MODE_AF_PP GPIO_PULLUP 9),
      (PC 11, QUADSPI, STM_PIN_DATA STM_MODE_AF_PP GPIO_PULLUP 9),
      (PG 6, QUADSPI, STM_PIN_DATA STM_MODE_AF_PP GPIO_PULLUP 10),
      (NC, NP, 0)]"

definition PinMap_USB_OTG_FS :: "PinMap list" where
  "PinMap_USB_OTG_FS =
     [(PA 8, USB_OTG_FS, STM_PIN_DATA STM_MODE_AF_PP GPIO_PULLUP 10),
      (PA 9, USB_OTG_FS, STM_PIN_DATA STM_MODE_INPUT GPIO_NOPULL 0),
      (PA 10, USB_OTG_FS, STM_PIN_DATA STM_MODE_AF_OD GPIO_PULLUP 10),
      (PA 11, USB_OTG_FS, STM_PIN_DATA STM_MODE_AF_PP GPIO_PULLUP 10),
      (PA 12, USB_OTG_FS, STM_PIN_DATA STM_MODE_AF_PP GPIO_PULLUP 10),
      (NC, NP, 0)]"

definition PinMap_USB_OTG_HS :: "PinMap list" where
  "PinMap_USB_OTG_HS =
     [(PA 3, USB_OTG_HS, STM_PIN_DATA STM_MODE_AF_PP GPIO_PULLUP 10),
      (PA 5, USB_OTG_HS, STM_PIN_DATA STM_MODE_AF_PP GPIO_PULLUP 10),
      (PB 0, USB_OTG_HS, STM_PIN_DATA STM_MODE_AF_PP GPIO_PULLUP 10),
      (PB 1, USB_OTG_HS, STM_PIN_DATA STM_MODE_AF_PP GPIO_PULLUP 10),
      (PB 5, USB_OTG_HS, STM_PIN_DATA STM_MODE_AF_PP GPIO_PULLUP 10),
      (PB 10, USB_OTG_HS, STM_PIN_DATA STM_MODE_AF_PP GPIO_PULLUP 10),
      (PB 11, USB_OTG_HS, STM_PIN_DATA STM_MODE_AF_PP GPIO_PULLUP 10),
      (PB 12, USB_OTG_HS, STM_PIN_DATA STM_MODE_AF_PP GPIO_PULLUP 10),
      (PB 13, USB_OTG_HS, STM_PIN_DATA STM_MODE_AF_PP GPIO_PULLUP 10),
      (PC 0, USB_OTG_HS, STM_PIN_DATA STM_MODE_AF_PP GPIO_PULLUP 10),
      (PC 2 OR PDUAL, USB_OTG_HS, STM_PIN_DATA STM_MODE_AF_PP GPIO_PULLUP 10),
      (PC 3 OR PDUAL, USB_OTG_HS, STM_PIN_DATA STM_MODE_AF_PP GPIO_PULLUP 10),
      (PH 4, USB_OTG_HS, STM_PIN_DATA STM_MODE_AF_PP GPIO_PULLUP 10),
      (PI 11, USB_OTG_HS, STM_PIN_DATA STM_MODE_AF_PP GPIO_PULLUP 10),
      (NC, NP, 0)]"

definition PinMap_SD :: "PinMap list" where
  "PinMap_SD =
     [(PA 0, SDMMC2, STM_PIN_DATA STM_MODE_AF_PP GPIO_NOPULL 9),
      (PB 3, SDMMC2, STM_PIN_DATA STM_MODE_AF_PP GPIO_PULLUP 9),
      (PB 4, SDMMC2, STM_PIN_DATA STM_MODE_AF_PP GPIO_PULLUP 9),
      (PB 8, SDMMC1, STM_PIN_DATA STM_MODE_AF_PP GPIO_NOPULL 7),
      (PB 8 OR ALT1, SDMMC1, STM_PIN_DATA STM_MODE_AF_PP GPIO_PULLUP 12),
      (PB 8 OR ALT2, SDMMC2, STM_PIN_DATA STM_MODE_AF_PP GPIO_PULLUP 10),
      (PB 9, SDMMC1, STM_PIN_DATA STM_MODE_AF_PP GPIO_NOPULL 7),
      (PB 9 OR ALT1, SDMMC1, STM_PIN_DATA STM_MODE_AF_PP GPIO_PULLUP 12),
      (PB 9 OR ALT2, SDMMC2, STM_PIN_DATA STM_MODE_AF_PP GPIO_PULLUP 10),
      (PB 14, SDMMC2, STM_PIN_DATA STM_MODE_AF_PP GPIO_PULLUP 9),
      (PB 15, SDMMC2, STM_PIN_DATA STM_MODE_AF_PP GPIO_PULLUP 9),
      (PC 1, SDMMC2, STM_PIN_DATA STM_MODE_AF_PP GPIO_NOPULL 9),
      (PC 6, SDMMC1, STM_PIN_DATA STM_MODE_AF_PP GPIO_NOPULL 8),
      (PC 6 OR ALT1, SDMMC1, STM_PIN_DATA STM_MODE_AF_PP GPIO_PULLUP 12),
      (PC 6 OR ALT2, SDMMC2, STM_PIN_DATA STM_MODE_AF_PP GPIO_PULLUP 10),
      (PC 7, SDMMC1, STM_PIN_DATA STM_MODE_AF_PP GPIO_NOPULL 8),
      (PC 7 OR ALT1, SDMMC1, STM_PIN_DATA STM_MODE_AF_PP GPIO_PULLUP 12),
      (PC 7 OR ALT2, SDMMC2, STM_PIN_DATA STM_MODE_AF_PP GPIO_PULLUP 10),
      (PC 8, SDMMC1, STM_PIN_DATA STM_MODE_AF_PP GPIO_PULLUP 12),
      (PC 9, SDMMC1, STM_PIN_DATA STM_MODE_AF_PP GPIO_PULLUP 12),
      (PC 10, SDMMC1, STM_PIN_DATA STM_MODE_AF_PP GPIO_PULLUP 12),
      (PC 11, SDMMC1, STM_PIN_DATA STM_MODE_AF_PP GPIO_PULLUP 12),
      (PC 12, SDMMC1, STM_PIN_DATA STM_MODE_AF_PP GPIO_NOPULL 12),
      (PD 2, SDMMC1, STM_PIN_DATA STM_MODE_AF_PP GPIO_NOPULL 12),
      (PD 6, SDMMC2, STM_PIN_DATA STM_MODE_AF_PP GPIO_NOPULL 11),
      (PD 7, SDMMC2, STM_PIN_DATA STM_MODE_AF_PP GPIO_NOPULL 11),
      (PG 11, SDMMC2, STM_PIN_DATA STM_MODE_AF_PP GPIO_PULLUP 10),
      (NC, NP, 0)]"

definition digitalPin :: "PinName list" where
  "digitalPin =
     [PA 0, PA 1, PA 2, PA 3, PA 4, PA 5, PA 6, PA 7, PA 8, PA 9, PA 10, PA 11, PA 12, PA 13,
      PA 14, PA 15, PB 0, PB 1, PB 2, PB 3, PB 4, PB 5, PB 6, PB 7, PB 8, PB 9, PB 10, PB 11,
      PB 12, PB 13, PB 14, PB 15, PC 0, PC 1, PC 4, PC 5, PC 6, PC 7, PC 8, PC 9, PC 10, PC 11,
      PC 12, PC 13, PC 14, PC 15, PD 0, PD 1, PD 2, PD 3, PD 4, PD 5, PD 6, PD 7, PD 8, PD 9,
      PD 10, PD 11, PD 12, PD 13, PD 14, PD 15, PE 0, PE 1, PE 2, PE 3, PE 4, PE 5, PE 6, PE 7,
      PE 8, PE 9, PE 10, PE 11, PE 12, PE 13, PE 14, PE 15, PF 0, PF 1, PF 2, PF 3, PF 4, PF 5,
      PF 6, PF 7, PF 8, PF 9, PF 10, PF 11, PF 12, PF 13, PF 14, PF 15, PG 0, PG 1, PG 2, PG 3,
      PG 4, PG 5, PG 6, PG 7, PG 8, PG 9, PG 10, PG 11, PG 12, PG 13, PG 14, PG 15, PH 0, PH 1,
      PH 2, PH 3, PH 4, PH 5, PH 6, PH 7, PH 8, PH 9, PH 10, PH 11, PH 12, PH 13, PH 14, PH 15,
      PI 0, PI 1, PI 2, PI 3, PI 4, PI 5, PI 6, PI 7, PI 8, PI 9, PI 10, PI 11, PC 2 OR PDUAL,
      PC 3 OR PDUAL]"

definition analogInputPin :: "u32 list" where
  "analogInputPin =
     [0, 1, 2, 3, 4, 5, 6, 7, 16, 17, 32, 33, 34, 35, 81, 82, 83, 84, 85, 86, 87, 88, 89, 90,
      91, 92, 112, 113, 114, 115, 138, 139]"

definition pin_tables :: "PinMap list list" where
  "pin_tables =
     [PinMap_ADC, PinMap_DAC, PinMap_I2C_SDA, PinMap_I2C_SCL, PinMap_TIM, PinMap_UART_TX,
      PinMap_UART_RX, PinMap_UART_RTS, PinMap_UART_CTS, PinMap_SPI_MOSI, PinMap_SPI_MISO,
      PinMap_SPI_SCLK, PinMap_SPI_SSEL, PinMap_CAN_RD, PinMap_CAN_TD, PinMap_Ethernet,
      PinMap_QUADSPI_DATA0, PinMap_QUADSPI_DATA1, PinMap_QUADSPI_DATA2, PinMap_QUADSPI_DATA3,
      PinMap_QUADSPI_SCLK, PinMap_QUADSPI_SSEL, PinMap_USB_OTG_FS, PinMap_USB_OTG_HS,
      PinMap_SD]"

end
