(* ===== verification/Wiring.thy ===== *)
theory Wiring
  imports Pin_Tables
begin

text \<open>
  The Arduino interface to the pins: the numbering of digital and analog pins
  (\<^verbatim>\<open>cores/arduino/pins_arduino.h\<close> and \<^verbatim>\<open>.c\<close>), digital input and output
  (\<^verbatim>\<open>wiring_digital.c\<close>), analog input and output (\<^verbatim>\<open>wiring_analog.c\<close>) and bit shifting
  (\<^verbatim>\<open>wiring_shift.c\<close>). The drivers of the ADC, the DAC and the timers, which are not C code,
  are parameters or recorded in \<open>wiring_log\<close>.
\<close>

section \<open>Pin numbers\<close>

definition NUM_DIGITAL_PINS :: u32 where [consts_simp]: "NUM_DIGITAL_PINS = 140"
definition NUM_ANALOG_INPUTS :: u32 where [consts_simp]: "NUM_ANALOG_INPUTS = 32"
definition PNUM_MASK :: u32 where [consts_simp]: "PNUM_MASK = 0xFF"
definition PNUM_ANALOG_BASE :: u32 where [consts_simp]: "PNUM_ANALOG_BASE = 0xC0"
definition PNUM_ANALOG_INDEX :: u32 where [consts_simp]: "PNUM_ANALOG_INDEX = 0x3F"
definition NUM_ANALOG_INTERNAL_FIRST :: u32 where
  [consts_simp]: "NUM_ANALOG_INTERNAL_FIRST = PNUM_ANALOG_BASE + NUM_ANALOG_INPUTS"
definition ATEMP :: u32 where [consts_simp]: "ATEMP = NUM_ANALOG_INTERNAL_FIRST"
definition AVREF :: u32 where [consts_simp]: "AVREF = NUM_ANALOG_INTERNAL_FIRST + 1"
definition AVBAT :: u32 where [consts_simp]: "AVBAT = NUM_ANALOG_INTERNAL_FIRST + 2"
definition PADC_TEMP :: PinName where [consts_simp]: "PADC_TEMP = PNAME_ANALOG_INTERNAL_BASE + 1"
definition PADC_VREF :: PinName where [consts_simp]: "PADC_VREF = PNAME_ANALOG_INTERNAL_BASE + 2"
definition PADC_VBAT :: PinName where [consts_simp]: "PADC_VBAT = PNAME_ANALOG_INTERNAL_BASE + 3"

text \<open>Every index below is inside its array: a digital pin number is below 140, an analog one
  below 32, and the entries of \<open>analogInputPin\<close> are digital pin numbers.\<close>

definition digitalPinToPinName :: "u32 \<Rightarrow> PinName" where
  "digitalPinToPinName p =
     (if p AND PNUM_MASK < NUM_DIGITAL_PINS
      then digitalPin ! unat (p AND PNUM_MASK) OR (p AND ALTX_MASK)
      else if p AND PNUM_ANALOG_BASE = PNUM_ANALOG_BASE \<and> p AND PNUM_MASK < NUM_ANALOG_INTERNAL_FIRST
      then digitalPin ! unat (analogInputPin ! unat (p AND PNUM_ANALOG_INDEX)) OR (p AND ALTX_MASK)
      else NC)"

definition analogInputToDigitalPin :: "u32 \<Rightarrow> u32" where
  "analogInputToDigitalPin p =
     (if p AND PNUM_MASK < NUM_ANALOG_INPUTS
      then analogInputPin ! unat (p AND PNUM_MASK) OR (p AND ALTX_MASK)
      else if p AND PNUM_ANALOG_BASE = PNUM_ANALOG_BASE \<and> p AND PNUM_MASK < NUM_ANALOG_INTERNAL_FIRST
      then analogInputPin ! unat (p AND PNUM_ANALOG_INDEX) OR (p AND ALTX_MASK)
      else NC)"

text \<open>The loops over the two arrays: the index of the first entry with the value searched.\<close>

fun first_index :: "u32 \<Rightarrow> u32 \<Rightarrow> u32 list \<Rightarrow> u32 option" where
  "first_index x i [] = None"
| "first_index x i (y # ys) = (if y = x then Some i else first_index x (i + 1) ys)"

definition pinNametoDigitalPin :: "PinName \<Rightarrow> u32" where
  "pinNametoDigitalPin p =
     (if STM_VALID_PINNAME p then
        (case first_index (p AND PNAME_MASK) 0 digitalPin of
           Some i \<Rightarrow> i OR (p AND ALTX_MASK) | None \<Rightarrow> NUM_DIGITAL_PINS)
      else NUM_DIGITAL_PINS)"

definition analogInputToPinName :: "u32 \<Rightarrow> PinName" where
  "analogInputToPinName pin =
     (let pn = digitalPinToPinName (analogInputToDigitalPin pin) in
      if pn = NC then
        (if pin = ATEMP then PADC_TEMP else if pin = AVREF then PADC_VREF
         else if pin = AVBAT then PADC_VBAT else pn)
      else pn)"

definition digitalpinIsAnalogInput :: "u32 \<Rightarrow> bool" where
  "digitalpinIsAnalogInput pin \<longleftrightarrow>
     (if pin AND PNUM_ANALOG_BASE = PNUM_ANALOG_BASE then True
      else first_index (pin AND PNUM_MASK) 0 analogInputPin \<noteq> None)"

definition digitalPinToAnalogInput :: "u32 \<Rightarrow> u32" where
  "digitalPinToAnalogInput pin =
     (if pin AND PNUM_ANALOG_BASE = PNUM_ANALOG_BASE
      then (pin AND PNUM_ANALOG_INDEX) OR (pin AND ALTX_MASK)
      else (case first_index (pin AND PNUM_MASK) 0 analogInputPin of
              Some i \<Rightarrow> i OR (pin AND ALTX_MASK) | None \<Rightarrow> NUM_ANALOG_INPUTS))"

section \<open>Digital input and output\<close>

definition INPUT :: u32 where [consts_simp]: "INPUT = 0x0"
definition OUTPUT :: u32 where [consts_simp]: "OUTPUT = 0x1"
definition INPUT_PULLUP :: u32 where [consts_simp]: "INPUT_PULLUP = 0x2"
definition INPUT_PULLDOWN :: u32 where [consts_simp]: "INPUT_PULLDOWN = 0x3"
definition INPUT_ANALOG :: u32 where [consts_simp]: "INPUT_ANALOG = 0x4"
definition OUTPUT_OPEN_DRAIN :: u32 where [consts_simp]: "OUTPUT_OPEN_DRAIN = 0x5"
definition LOW :: u32 where [consts_simp]: "LOW = 0x0"
definition HIGH :: u32 where [consts_simp]: "HIGH = 0x1"

datatype wiring_call =
    Dac_stop PinName
  | Pwm_stop PinName
  | Dac_write_value PinName u32 bool
  | Pwm_start PinName u32 u32 nat

record wiring = gpio +
  g_anOutputPinConfigured :: "u32 \<Rightarrow> u32"
  readResolution :: nat
  internalReadResolution :: nat
  writeResolution :: nat
  internalWriteResolution :: nat
  writeFreq :: u32
  wiring_log :: "wiring_call list"

definition wiring_call :: "wiring_call \<Rightarrow> wiring \<Rightarrow> wiring" where
  "wiring_call c s = s\<lparr>wiring_log := wiring_log s @ [c]\<rparr>"

definition is_pin_configured :: "PinName \<Rightarrow> (u32 \<Rightarrow> u32) \<Rightarrow> bool" where
  "is_pin_configured pin m \<longleftrightarrow> drop_bit (unat (STM_PIN pin)) (m (STM_PORT pin)) AND 0x01 \<noteq> 0"

definition set_pin_configured :: "PinName \<Rightarrow> (u32 \<Rightarrow> u32) \<Rightarrow> (u32 \<Rightarrow> u32)" where
  "set_pin_configured pin m = m(STM_PORT pin := m (STM_PORT pin) OR push_bit (unat (STM_PIN pin)) 0x01)"

definition reset_pin_configured :: "PinName \<Rightarrow> (u32 \<Rightarrow> u32) \<Rightarrow> (u32 \<Rightarrow> u32)" where
  "reset_pin_configured pin m =
     m(STM_PORT pin := m (STM_PORT pin) AND NOT (push_bit (unat (STM_PIN pin)) 0x01))"

definition stop_output :: "PinName \<Rightarrow> wiring \<Rightarrow> wiring option" where
  "stop_output p s =
     (if is_pin_configured p (g_anOutputPinConfigured s) then
        do { dac \<leftarrow> pin_in_pinmap p PinMap_DAC;
             s1 \<leftarrow> (if dac then Some (wiring_call (Dac_stop p) s)
                    else do { tim \<leftarrow> pin_in_pinmap p PinMap_TIM;
                              Some (if tim then wiring_call (Pwm_stop p) s else s) });
             Some (s1\<lparr>g_anOutputPinConfigured := reset_pin_configured p (g_anOutputPinConfigured s1)\<rparr>) }
      else Some s)"

definition pinMode :: "u32 \<Rightarrow> u32 \<Rightarrow> wiring \<Rightarrow> wiring option" where
  "pinMode ulPin ulMode s =
     (let p = digitalPinToPinName ulPin in
      if p \<noteq> NC then
        do { s1 \<leftarrow> stop_output p s;
             if ulMode = INPUT then pin_function p (STM_PIN_DATA STM_MODE_INPUT GPIO_NOPULL 0) s1
             else if ulMode = INPUT_PULLUP then pin_function p (STM_PIN_DATA STM_MODE_INPUT GPIO_PULLUP 0) s1
             else if ulMode = INPUT_PULLDOWN then pin_function p (STM_PIN_DATA STM_MODE_INPUT GPIO_PULLDOWN 0) s1
             else if ulMode = INPUT_ANALOG then pin_function p (STM_PIN_DATA STM_MODE_ANALOG GPIO_NOPULL 0) s1
             else if ulMode = OUTPUT then pin_function p (STM_PIN_DATA STM_MODE_OUTPUT_PP GPIO_NOPULL 0) s1
             else if ulMode = OUTPUT_OPEN_DRAIN then pin_function p (STM_PIN_DATA STM_MODE_OUTPUT_OD GPIO_NOPULL 0) s1
             else None }
      else Some s)"

text \<open>The port of \<^verbatim>\<open>NC\<close> is beyond the last one: its address is null.\<close>

definition get_GPIO_Port :: "u32 \<Rightarrow> u32 option" where
  "get_GPIO_Port p = (if p < LastPort + 1 then Some p else None)"

definition digitalWriteFast :: "PinName \<Rightarrow> u32 \<Rightarrow> wiring \<Rightarrow> wiring option" where
  "digitalWriteFast pn ulVal s =
     do { port \<leftarrow> get_GPIO_Port (STM_PORT pn);
          Some (s\<lparr>ODR := upd2 (ODR s) port (STM_PIN pn) (ulVal \<noteq> 0)\<rparr>) }"

definition digitalWrite :: "u32 \<Rightarrow> u32 \<Rightarrow> wiring \<Rightarrow> wiring option" where
  "digitalWrite ulPin ulVal s = digitalWriteFast (digitalPinToPinName ulPin) ulVal s"

text \<open>\<open>IDR\<close> gives the level at each pin of each port.\<close>

definition digitalRead :: "(u32 \<Rightarrow> u32 \<Rightarrow> bool) \<Rightarrow> u32 \<Rightarrow> u32 option" where
  "digitalRead IDR ulPin =
     (let pn = digitalPinToPinName ulPin in
      do { port \<leftarrow> get_GPIO_Port (STM_PORT pn); Some (if IDR port (STM_PIN pn) then HIGH else LOW) })"

definition digitalToggle :: "u32 \<Rightarrow> wiring \<Rightarrow> wiring option" where
  "digitalToggle ulPin s =
     (let pn = digitalPinToPinName ulPin in
      do { port \<leftarrow> get_GPIO_Port (STM_PORT pn);
           Some (s\<lparr>ODR := upd2 (ODR s) port (STM_PIN pn) (\<not> ODR s port (STM_PIN pn))\<rparr>) })"

section \<open>Analog input and output\<close>

definition MAX_ADC_RESOLUTION :: nat where [consts_simp]: "MAX_ADC_RESOLUTION = 16"
definition MAX_PWM_RESOLUTION :: nat where [consts_simp]: "MAX_PWM_RESOLUTION = 16"
definition DACC_RESOLUTION :: nat where [consts_simp]: "DACC_RESOLUTION = 12"

definition analogReadResolution :: "int \<Rightarrow> wiring \<Rightarrow> wiring option" where
  "analogReadResolution res s =
     (if res > 0 \<and> res \<le> 32 then
        (let r = nat res in
         Some (s\<lparr>readResolution := r,
                 internalReadResolution :=
                   (if r > MAX_ADC_RESOLUTION then MAX_ADC_RESOLUTION
                    else if r \<le> 8 then 8 else if r \<le> 10 then 10 else if r \<le> 12 then 12
                    else if r \<le> 14 then 14 else if r \<le> 16 then 16 else r)\<rparr>))
      else None)"

definition analogWriteResolution :: "int \<Rightarrow> wiring \<Rightarrow> wiring option" where
  "analogWriteResolution res s =
     (if res > 0 \<and> res \<le> 32 then
        (let r = nat res in
         Some (s\<lparr>writeResolution := r,
                 internalWriteResolution :=
                   (if r > MAX_PWM_RESOLUTION then MAX_PWM_RESOLUTION else r)\<rparr>))
      else None)"

definition analogWriteFrequency :: "u32 \<Rightarrow> wiring \<Rightarrow> wiring" where
  "analogWriteFrequency freq s = s\<lparr>writeFreq := freq\<rparr>"

definition mapResolution :: "u32 \<Rightarrow> nat \<Rightarrow> nat \<Rightarrow> u32" where
  "mapResolution v from to =
     (if from \<noteq> to then
        (if from > to then
           (if v < push_bit (from - to) 1 then 0 else drop_bit (from - to) (v + 1) - 1)
         else (if v \<noteq> 0 then push_bit (to - from) (v + 1) - 1 else v))
      else v)"

text \<open>\<open>adc\<close> is \<^verbatim>\<open>adc_read_value\<close>.\<close>

definition analogRead :: "(PinName \<Rightarrow> nat \<Rightarrow> u32) \<Rightarrow> u32 \<Rightarrow> wiring \<Rightarrow> u32" where
  "analogRead adc ulPin s =
     (let p = analogInputToPinName ulPin in
      if p \<noteq> NC
      then mapResolution (adc p (internalReadResolution s)) (internalReadResolution s) (readResolution s)
      else 0)"

definition mark_configured :: "PinName \<Rightarrow> wiring \<Rightarrow> bool \<times> wiring" where
  "mark_configured p s =
     (if \<not> is_pin_configured p (g_anOutputPinConfigured s)
      then (True, s\<lparr>g_anOutputPinConfigured := set_pin_configured p (g_anOutputPinConfigured s)\<rparr>)
      else (False, s))"

definition analogWrite :: "u32 \<Rightarrow> u32 \<Rightarrow> wiring \<Rightarrow> wiring option" where
  "analogWrite ulPin ulValue s =
     (let p = digitalPinToPinName ulPin in
      if p \<noteq> NC then
        do { dac \<leftarrow> pin_in_pinmap p PinMap_DAC;
             if dac then
               (case mark_configured p s of (do_init, s1) \<Rightarrow>
                  Some (wiring_call (Dac_write_value p
                          (mapResolution ulValue (writeResolution s1) DACC_RESOLUTION) do_init) s1))
             else do { tim \<leftarrow> pin_in_pinmap p PinMap_TIM;
               if tim then
                 (case mark_configured p s of (_, s1) \<Rightarrow>
                    Some (wiring_call (Pwm_start p (writeFreq s1)
                            (mapResolution ulValue (writeResolution s1) (internalWriteResolution s1))
                            (internalWriteResolution s1)) s1))
               else do { s1 \<leftarrow> pinMode ulPin OUTPUT s;
                         if mapResolution ulValue (writeResolution s1) 8 < 128
                         then digitalWrite ulPin LOW s1 else digitalWrite ulPin HIGH s1 } } }
      else Some s)"

section \<open>Shifting\<close>

text \<open>What is connected to the pins is a state \<open>'w\<close>, with the effect of a write and the
  level a read finds.\<close>

definition LSBFIRST :: u32 where [consts_simp]: "LSBFIRST = 0"
definition MSBFIRST :: u32 where [consts_simp]: "MSBFIRST = 1"

fun shiftIn_loop :: "(u32 \<Rightarrow> u32 \<Rightarrow> 'w \<Rightarrow> 'w) \<Rightarrow> (u32 \<Rightarrow> 'w \<Rightarrow> u32) \<Rightarrow> u32 \<Rightarrow> u32 \<Rightarrow> u32 \<Rightarrow>
    nat list \<Rightarrow> u8 \<Rightarrow> 'w \<Rightarrow> u8 \<times> 'w" where
  "shiftIn_loop dw dr data clock order [] v w = (v, w)"
| "shiftIn_loop dw dr data clock order (i # is) v w =
     (let w1 = dw clock HIGH w;
          v' = (if order = LSBFIRST then v OR ucast (push_bit i (dr data w1))
                else v OR ucast (push_bit (7 - i) (dr data w1)))
      in shiftIn_loop dw dr data clock order is v' (dw clock LOW w1))"

definition shiftIn :: "(u32 \<Rightarrow> u32 \<Rightarrow> 'w \<Rightarrow> 'w) \<Rightarrow> (u32 \<Rightarrow> 'w \<Rightarrow> u32) \<Rightarrow> u32 \<Rightarrow> u32 \<Rightarrow> u32 \<Rightarrow> 'w \<Rightarrow> u32 \<times> 'w" where
  "shiftIn dw dr data clock order w =
     (case shiftIn_loop dw dr data clock order [0..<8] 0 w of (v, w') \<Rightarrow> (ucast v, w'))"

fun shiftOut_loop :: "(u32 \<Rightarrow> u32 \<Rightarrow> 'w \<Rightarrow> 'w) \<Rightarrow> u32 \<Rightarrow> u32 \<Rightarrow> u32 \<Rightarrow> u32 \<Rightarrow> nat list \<Rightarrow> 'w \<Rightarrow> 'w" where
  "shiftOut_loop dw data clock order v [] w = w"
| "shiftOut_loop dw data clock order v (i # is) w =
     (let w1 = (if order = LSBFIRST then dw data (if v AND push_bit i 1 \<noteq> 0 then 1 else 0) w
                else dw data (if v AND push_bit (7 - i) 1 \<noteq> 0 then 1 else 0) w)
      in shiftOut_loop dw data clock order v is (dw clock LOW (dw clock HIGH w1)))"

definition shiftOut :: "(u32 \<Rightarrow> u32 \<Rightarrow> 'w \<Rightarrow> 'w) \<Rightarrow> u32 \<Rightarrow> u32 \<Rightarrow> u32 \<Rightarrow> u32 \<Rightarrow> 'w \<Rightarrow> 'w" where
  "shiftOut dw data clock order v w = shiftOut_loop dw data clock order v [0..<8] w"

end
