(* ===== verification/Pin_Lookup.thy ===== *)
theory Pin_Lookup
  imports Pin_Tables
begin

text \<open>
  The lookups in the pin tables: what they return on any well-formed table, and that all 25
  tables of the board are well-formed and only hold configurations that can be applied.
\<close>

section \<open>Lookups\<close>

definition table_ok :: "PinMap list \<Rightarrow> bool" where
  "table_ok t \<longleftrightarrow> t \<noteq> [] \<and> last t = (NC, NP, 0) \<and> distinct (map fst t) \<and>
     (\<forall>(p, per, f) \<in> set (butlast t). per \<noteq> NP)"

lemma row_key: "(p, r) \<in> set rows \<Longrightarrow> p \<in> fst ` set rows"
  by force

lemma find_in_row:
  assumes "distinct (map fst (rows @ [(NC, NP, 0)]))" and "(p, per, f) \<in> set rows"
  shows "in_pinmap_loop p (rows @ [(NC, NP, 0)]) = Some True \<and>
    pinmap_find_peripheral p (rows @ [(NC, NP, 0)]) = Some per \<and>
    pinmap_find_function p (rows @ [(NC, NP, 0)]) = Some f \<and>
    pinmap_pinout_loop p (rows @ [(NC, NP, 0)]) s = pin_function p f s"
  using assms by (induction rows) (auto dest: row_key)

lemma find_no_row:
  assumes "p \<notin> fst ` set rows"
  shows "in_pinmap_loop p (rows @ [(NC, NP, 0)]) = Some False \<and>
    pinmap_find_peripheral p (rows @ [(NC, NP, 0)]) = Some NP \<and>
    pinmap_find_function p (rows @ [(NC, NP, 0)]) = Some NC \<and>
    pinmap_pinout_loop p (rows @ [(NC, NP, 0)]) s = None"
  using assms by (induction rows) auto

lemma find_pin:
  assumes "\<forall>(p, per, f) \<in> set rows. per \<noteq> NP" and "per \<noteq> NP"
  shows "\<exists>q. pinmap_find_pin per (rows @ [(NC, NP, 0)]) = Some q \<and>
    (q = NC \<and> (\<forall>p f. (p, per, f) \<notin> set rows) \<or> (\<exists>f. (q, per, f) \<in> set rows))"
  using assms(1)
proof (induction rows)
  case Nil
  then show ?case by simp
next
  case (Cons r rows)
  obtain p' per' f' where r: "r = (p', per', f')" by (cases r)
  then have "per' \<noteq> NP" using Cons.prems by simp
  moreover from Cons obtain q where "pinmap_find_pin per (rows @ [(NC, NP, 0)]) = Some q"
    "q = NC \<and> (\<forall>p f. (p, per, f) \<notin> set rows) \<or> (\<exists>f. (q, per, f) \<in> set rows)" by auto
  ultimately show ?case
    using r by (cases "per' = per") auto
qed

lemma table_rows:
  assumes "table_ok t"
  shows "t = butlast t @ [(NC, NP, 0)]" and "distinct (map fst (butlast t @ [(NC, NP, 0)]))"
    and "\<forall>(p, per, f) \<in> set (butlast t). per \<noteq> NP" and "NC \<notin> fst ` set (butlast t)"
proof -
  show t: "t = butlast t @ [(NC, NP, 0)]"
    using assms by (metis append_butlast_last_id table_ok_def)
  show d: "distinct (map fst (butlast t @ [(NC, NP, 0)]))"
    using assms t by (metis table_ok_def)
  show "NC \<notin> fst ` set (butlast t)" using d by simp
  show "\<forall>(p, per, f) \<in> set (butlast t). per \<noteq> NP" using assms by (simp add: table_ok_def)
qed

lemma table_lookups:
  assumes "table_ok t"
  shows "(\<forall>(p, per, f) \<in> set (butlast t). pin_in_pinmap p t = Some True \<and>
            pinmap_peripheral p t = Some per \<and> pinmap_function p t = Some f \<and>
            pinmap_pinout p t s = pin_function p f s) \<and>
    (\<forall>p. p \<notin> fst ` set (butlast t) \<longrightarrow> pin_in_pinmap p t = Some False \<and>
            pinmap_peripheral p t = Some NP \<and> pinmap_function p t = Some NC \<and>
            (p \<noteq> NC \<longrightarrow> pinmap_pinout p t s = None)) \<and>
    (\<forall>per. per \<noteq> NP \<longrightarrow> (\<exists>q. pinmap_pin per t = Some q \<and>
       (q = NC \<longleftrightarrow> (\<forall>p f. (p, per, f) \<notin> set (butlast t))) \<and>
       (q \<noteq> NC \<longrightarrow> pinmap_peripheral q t = Some per)))"
proof -
  note t = table_rows [OF assms]
  have row: "p \<noteq> NC \<and> in_pinmap_loop p t = Some True \<and> pinmap_find_peripheral p t = Some per \<and>
      pinmap_find_function p t = Some f \<and> pinmap_pinout_loop p t s = pin_function p f s"
    if "(p, per, f) \<in> set (butlast t)" for p per f
    using find_in_row [OF t(2) that, of s] t(1,4) row_key [OF that] by metis
  have no_row: "in_pinmap_loop p t = Some False \<and> pinmap_find_peripheral p t = Some NP \<and>
      pinmap_find_function p t = Some NC \<and> pinmap_pinout_loop p t s = None"
    if "p \<notin> fst ` set (butlast t)" for p
    using find_no_row [OF that, of s] t(1) by metis
  have per: "\<exists>q. pinmap_find_pin per t = Some q \<and>
      (q = NC \<and> (\<forall>p f. (p, per, f) \<notin> set (butlast t)) \<or> (\<exists>f. (q, per, f) \<in> set (butlast t)))"
    if "per \<noteq> NP" for per
    using find_pin [OF t(3) that] t(1) by metis
  have owner: "\<exists>q. pinmap_pin per t = Some q \<and>
       (q = NC \<longleftrightarrow> (\<forall>p f. (p, per, f) \<notin> set (butlast t))) \<and>
       (q \<noteq> NC \<longrightarrow> pinmap_peripheral q t = Some per)" if "per \<noteq> NP" for per
  proof -
    from per [OF that] obtain q where q: "pinmap_find_pin per t = Some q"
      "q = NC \<and> (\<forall>p f. (p, per, f) \<notin> set (butlast t)) \<or> (\<exists>f. (q, per, f) \<in> set (butlast t))" by blast
    then show ?thesis
      using that row by (intro exI [of _ q]) (auto simp: pinmap_pin_def pinmap_peripheral_def)
  qed
  show ?thesis
    using row no_row owner
    by (auto simp: pin_in_pinmap_def pinmap_peripheral_def pinmap_function_def pinmap_pinout_def)
qed

definition row_ok :: "PinMap \<Rightarrow> bool" where
  "row_ok r \<longleftrightarrow> STM_PORT (fst r) \<le> LastPort \<and> STM_PIN_FUNCTION (snd (snd r)) \<le> 3"

lemmas table_defs = table_ok_def row_ok_def STM_PORT_def STM_PIN_FUNCTION_def STM_PIN_DATA_def
  STM_PIN_DATA_EXT_def port_defs consts_simp

lemma PinMap_ADC_ok: "table_ok PinMap_ADC \<and> list_all row_ok (butlast PinMap_ADC)"
  by (simp add: table_defs PinMap_ADC_def)

lemma PinMap_DAC_ok: "table_ok PinMap_DAC \<and> list_all row_ok (butlast PinMap_DAC)"
  by (simp add: table_defs PinMap_DAC_def)

lemma PinMap_I2C_SDA_ok: "table_ok PinMap_I2C_SDA \<and> list_all row_ok (butlast PinMap_I2C_SDA)"
  by (simp add: table_defs PinMap_I2C_SDA_def)

lemma PinMap_I2C_SCL_ok: "table_ok PinMap_I2C_SCL \<and> list_all row_ok (butlast PinMap_I2C_SCL)"
  by (simp add: table_defs PinMap_I2C_SCL_def)

lemma PinMap_TIM_ok: "table_ok PinMap_TIM \<and> list_all row_ok (butlast PinMap_TIM)"
  by (simp add: table_defs PinMap_TIM_def)

lemma PinMap_UART_TX_ok: "table_ok PinMap_UART_TX \<and> list_all row_ok (butlast PinMap_UART_TX)"
  by (simp add: table_defs PinMap_UART_TX_def)

lemma PinMap_UART_RX_ok: "table_ok PinMap_UART_RX \<and> list_all row_ok (butlast PinMap_UART_RX)"
  by (simp add: table_defs PinMap_UART_RX_def)

lemma PinMap_UART_RTS_ok: "table_ok PinMap_UART_RTS \<and> list_all row_ok (butlast PinMap_UART_RTS)"
  by (simp add: table_defs PinMap_UART_RTS_def)

lemma PinMap_UART_CTS_ok: "table_ok PinMap_UART_CTS \<and> list_all row_ok (butlast PinMap_UART_CTS)"
  by (simp add: table_defs PinMap_UART_CTS_def)

lemma PinMap_SPI_MOSI_ok: "table_ok PinMap_SPI_MOSI \<and> list_all row_ok (butlast PinMap_SPI_MOSI)"
  by (simp add: table_defs PinMap_SPI_MOSI_def)

lemma PinMap_SPI_MISO_ok: "table_ok PinMap_SPI_MISO \<and> list_all row_ok (butlast PinMap_SPI_MISO)"
  by (simp add: table_defs PinMap_SPI_MISO_def)

lemma PinMap_SPI_SCLK_ok: "table_ok PinMap_SPI_SCLK \<and> list_all row_ok (butlast PinMap_SPI_SCLK)"
  by (simp add: table_defs PinMap_SPI_SCLK_def)

lemma PinMap_SPI_SSEL_ok: "table_ok PinMap_SPI_SSEL \<and> list_all row_ok (butlast PinMap_SPI_SSEL)"
  by (simp add: table_defs PinMap_SPI_SSEL_def)

lemma PinMap_CAN_RD_ok: "table_ok PinMap_CAN_RD \<and> list_all row_ok (butlast PinMap_CAN_RD)"
  by (simp add: table_defs PinMap_CAN_RD_def)

lemma PinMap_CAN_TD_ok: "table_ok PinMap_CAN_TD \<and> list_all row_ok (butlast PinMap_CAN_TD)"
  by (simp add: table_defs PinMap_CAN_TD_def)

lemma PinMap_Ethernet_ok: "table_ok PinMap_Ethernet \<and> list_all row_ok (butlast PinMap_Ethernet)"
  by (simp add: table_defs PinMap_Ethernet_def)

lemma PinMap_QUADSPI_DATA0_ok: "table_ok PinMap_QUADSPI_DATA0 \<and> list_all row_ok (butlast PinMap_QUADSPI_DATA0)"
  by (simp add: table_defs PinMap_QUADSPI_DATA0_def)

lemma PinMap_QUADSPI_DATA1_ok: "table_ok PinMap_QUADSPI_DATA1 \<and> list_all row_ok (butlast PinMap_QUADSPI_DATA1)"
  by (simp add: table_defs PinMap_QUADSPI_DATA1_def)

lemma PinMap_QUADSPI_DATA2_ok: "table_ok PinMap_QUADSPI_DATA2 \<and> list_all row_ok (butlast PinMap_QUADSPI_DATA2)"
  by (simp add: table_defs PinMap_QUADSPI_DATA2_def)

lemma PinMap_QUADSPI_DATA3_ok: "table_ok PinMap_QUADSPI_DATA3 \<and> list_all row_ok (butlast PinMap_QUADSPI_DATA3)"
  by (simp add: table_defs PinMap_QUADSPI_DATA3_def)

lemma PinMap_QUADSPI_SCLK_ok: "table_ok PinMap_QUADSPI_SCLK \<and> list_all row_ok (butlast PinMap_QUADSPI_SCLK)"
  by (simp add: table_defs PinMap_QUADSPI_SCLK_def)

lemma PinMap_QUADSPI_SSEL_ok: "table_ok PinMap_QUADSPI_SSEL \<and> list_all row_ok (butlast PinMap_QUADSPI_SSEL)"
  by (simp add: table_defs PinMap_QUADSPI_SSEL_def)

lemma PinMap_USB_OTG_FS_ok: "table_ok PinMap_USB_OTG_FS \<and> list_all row_ok (butlast PinMap_USB_OTG_FS)"
  by (simp add: table_defs PinMap_USB_OTG_FS_def)

lemma PinMap_USB_OTG_HS_ok: "table_ok PinMap_USB_OTG_HS \<and> list_all row_ok (butlast PinMap_USB_OTG_HS)"
  by (simp add: table_defs PinMap_USB_OTG_HS_def)

lemma PinMap_SD_ok: "table_ok PinMap_SD \<and> list_all row_ok (butlast PinMap_SD)"
  by (simp add: table_defs PinMap_SD_def)

lemmas tables_ok =
  PinMap_ADC_ok PinMap_DAC_ok PinMap_I2C_SDA_ok
  PinMap_I2C_SCL_ok PinMap_TIM_ok PinMap_UART_TX_ok
  PinMap_UART_RX_ok PinMap_UART_RTS_ok PinMap_UART_CTS_ok
  PinMap_SPI_MOSI_ok PinMap_SPI_MISO_ok PinMap_SPI_SCLK_ok
  PinMap_SPI_SSEL_ok PinMap_CAN_RD_ok PinMap_CAN_TD_ok
  PinMap_Ethernet_ok PinMap_QUADSPI_DATA0_ok PinMap_QUADSPI_DATA1_ok
  PinMap_QUADSPI_DATA2_ok PinMap_QUADSPI_DATA3_ok PinMap_QUADSPI_SCLK_ok
  PinMap_QUADSPI_SSEL_ok PinMap_USB_OTG_FS_ok PinMap_USB_OTG_HS_ok
  PinMap_SD_ok

lemma pin_tables_ok: "t \<in> set pin_tables \<Longrightarrow> table_ok t \<and> list_all row_ok (butlast t)"
  using tables_ok by (auto simp: pin_tables_def)

section \<open>Properties\<close>

text \<open>C20: In each of the 25 tables of the board every row counts: looking up the pin of a row
  finds its peripheral and its configuration word, and routing the pin applies that word.
  A pin without a row is reported as absent by every lookup, and routing it is an
  error. Looking up a peripheral gives a pin that serves it, and the null pin exactly if no
  row does. No lookup reads beyond the table.\<close>

theorem pinmap_lookups:
  assumes "t \<in> set pin_tables"
  shows "(\<forall>(p, per, f) \<in> set (butlast t). pin_in_pinmap p t = Some True \<and>
            pinmap_peripheral p t = Some per \<and> pinmap_function p t = Some f \<and>
            pinmap_pinout p t s = pin_function p f s) \<and>
    (\<forall>p. p \<notin> fst ` set (butlast t) \<longrightarrow> pin_in_pinmap p t = Some False \<and>
            pinmap_peripheral p t = Some NP \<and> pinmap_function p t = Some NC \<and>
            (p \<noteq> NC \<longrightarrow> pinmap_pinout p t s = None)) \<and>
    (\<forall>per. per \<noteq> NP \<longrightarrow> (\<exists>q. pinmap_pin per t = Some q \<and>
       (q = NC \<longleftrightarrow> (\<forall>p f. (p, per, f) \<notin> set (butlast t))) \<and>
       (q \<noteq> NC \<longrightarrow> pinmap_peripheral q t = Some per)))"
  using table_lookups [of t s] pin_tables_ok [OF assms] by blast

theorem pinmap_lookups_witness:
  "pinmap_peripheral (PA 4) PinMap_DAC = Some DAC1 \<and> pinmap_peripheral (PA 6) PinMap_DAC = Some NP"
proof -
  have "PinMap_DAC \<in> set pin_tables" by (simp add: pin_tables_def)
  note look = pinmap_lookups [OF this]
  have "(PA 4, DAC1, STM_PIN_DATA_EXT STM_MODE_ANALOG GPIO_NOPULL 0 1 0) \<in> set (butlast PinMap_DAC)"
    "PA 6 \<notin> fst ` set (butlast PinMap_DAC)"
    by (simp_all add: PinMap_DAC_def port_defs)
  with look show ?thesis by blast
qed

end
