(* ===== verification/Pin_Config.thy ===== *)
theory Pin_Config
  imports Pinmap
begin

text \<open>
  What configuring a pin does to the registers, and that the fields of a configuration word
  come back as they were put in.
\<close>

section \<open>Registers of a pin\<close>

definition alternate :: "'a gpio_scheme \<Rightarrow> u32 \<Rightarrow> u32 \<Rightarrow> u32" where
  "alternate s port n = (if n > 7 then AFRH s port (n - 8) else AFRL s port n)"

definition pin_regs :: "'a gpio_scheme \<Rightarrow> u32 \<Rightarrow> u32 \<Rightarrow> ll_mode \<times> ll_output \<times> ll_speed \<times> ll_pull \<times> u32" where
  "pin_regs s port n = (MODER s port n, OTYPER s port n, OSPEEDR s port n, PUPDR s port n, alternate s port n)"

definition mode_of :: "u32 \<Rightarrow> ll_mode" where
  "mode_of m = (if m = 0 then LL_GPIO_MODE_INPUT else if m = 1 then LL_GPIO_MODE_OUTPUT
     else if m = 2 then LL_GPIO_MODE_ALTERNATE else LL_GPIO_MODE_ANALOG)"

definition pull_of :: "u32 \<Rightarrow> ll_pull" where
  "pull_of p = (if p = 1 then LL_GPIO_PULL_UP else if p = 2 then LL_GPIO_PULL_DOWN else LL_GPIO_PULL_NO)"

lemma upd2_apply [simp]: "upd2 f a b v x y = (if x = a \<and> y = b then v else f x y)"
  by (simp add: upd2_def)

lemma small_modes: "(m :: u32) \<le> 3 \<Longrightarrow> m = 0 \<or> m = 1 \<or> m = 2 \<or> m = 3"
  by unat_arith

lemma nibble: "STM_PIN p \<le> 15"
  by (simp add: STM_PIN_def word_and_le1)

text \<open>The parts of the configuration, each with what it leaves alone.\<close>

definition same_elsewhere :: "u32 \<Rightarrow> u32 \<Rightarrow> 'a gpio_scheme \<Rightarrow> 'a gpio_scheme \<Rightarrow> bool" where
  "same_elsewhere port n s s' \<longleftrightarrow> ODR s' = ODR s \<and> gpio_clock s' = gpio_clock s \<and>
     (\<forall>q m. (q, m) \<noteq> (port, n) \<longrightarrow> m \<le> 15 \<longrightarrow> pin_regs s' q m = pin_regs s q m)"

lemma same_elsewhere_trans: "same_elsewhere port n s s' \<Longrightarrow> same_elsewhere port n s' s'' \<Longrightarrow> same_elsewhere port n s s''"
  by (simp add: same_elsewhere_def)

lemma minus8: "7 < (a :: u32) \<Longrightarrow> 7 < b \<Longrightarrow> a - 8 = b - 8 \<Longrightarrow> a = b"
  by simp

lemma pin_SetAFPin_regs:
  "alternate (pin_SetAFPin port pin af s) q m =
     (if q = port \<and> m = STM_PIN pin then af else alternate s q m)"
  by (auto simp: alternate_def pin_SetAFPin_def)

lemma set_af_others [simp]:
  "MODER (pin_SetAFPin port pin af s) = MODER s" "OTYPER (pin_SetAFPin port pin af s) = OTYPER s"
  "OSPEEDR (pin_SetAFPin port pin af s) = OSPEEDR s" "PUPDR (pin_SetAFPin port pin af s) = PUPDR s"
  "ODR (pin_SetAFPin port pin af s) = ODR s" "gpio_clock (pin_SetAFPin port pin af s) = gpio_clock s"
  "switch_closed (pin_SetAFPin port pin af s) = switch_closed s"
  by (simp_all add: pin_SetAFPin_def)

lemma alternate_frame [simp]:
  "alternate (s\<lparr>MODER := f\<rparr>) = alternate s" "alternate (s\<lparr>OTYPER := g\<rparr>) = alternate s"
  "alternate (s\<lparr>OSPEEDR := h\<rparr>) = alternate s" "alternate (s\<lparr>PUPDR := i\<rparr>) = alternate s"
  "alternate (s\<lparr>gpio_clock := j\<rparr>) = alternate s" "alternate (s\<lparr>switch_closed := k\<rparr>) = alternate s"
  by (simp_all add: alternate_def fun_eq_iff)

lemma set_mode_regs:
  assumes "mode \<le> 3"
  shows "\<exists>s'. set_mode mode af pin port s = Some s' \<and> switch_closed s' = switch_closed s \<and>
    same_elsewhere port (STM_PIN pin) s s' \<and>
    pin_regs s' port (STM_PIN pin) = (mode_of mode, OTYPER s port (STM_PIN pin), OSPEEDR s port (STM_PIN pin),
      PUPDR s port (STM_PIN pin), if mode = 2 \<and> af \<noteq> 0x7F then af else alternate s port (STM_PIN pin))"
  using small_modes [OF assms]
  by (elim disjE) (simp_all add: set_mode_def Let_def same_elsewhere_def pin_regs_def mode_of_def pin_SetAFPin_regs)

lemma pull_regs:
  "same_elsewhere port n s (pin_PullConfig port n c s)"
  "pin_regs (pin_PullConfig port n c s) port n =
     (MODER s port n, OTYPER s port n, OSPEEDR s port n, pull_of c, alternate s port n)"
  "switch_closed (pin_PullConfig port n c s) = switch_closed s"
  by (simp_all add: pin_PullConfig_def same_elsewhere_def pin_regs_def pull_of_def consts_simp)

lemma pull_regs_eq:
  "pin_regs s port n = (a, b, c, d, e) \<Longrightarrow> pin_regs (pin_PullConfig port n cfg s) port n = (a, b, c, pull_of cfg, e)"
  unfolding pull_regs(2) by (simp add: pin_regs_def)

lemma switch_regs:
  "pin_regs (configure_dualpad_switch pin f sw s) = pin_regs s"
  "ODR (configure_dualpad_switch pin f sw s) = ODR s"
  "gpio_clock (configure_dualpad_switch pin f sw s) = gpio_clock s"
  "switch_closed (configure_dualpad_switch pin f sw s) = (case sw of None \<Rightarrow> switch_closed s
      | Some w \<Rightarrow> (switch_closed s)(w := pin AND PDUAL = PDUAL \<and> f AND STM_MODE_ANALOG \<noteq> STM_MODE_ANALOG))"
  by (auto simp: configure_dualpad_switch_def pin_regs_def fun_eq_iff split: option.splits)

lemma pin_function_regs:
  fixes s :: "'a gpio_scheme"
  assumes "STM_PORT pin \<le> LastPort" and "STM_PIN_FUNCTION f \<le> 3"
    and "is_dualpad_switch_gpio_configurable pin f = (True, sw)"
  shows "\<exists>s'. pin_function pin f s = Some s' \<and> gpio_clock s' (STM_PORT pin) \<and>
    pin_regs s' (STM_PORT pin) (STM_PIN pin) =
      (mode_of (STM_PIN_FUNCTION f),
       if STM_PIN_FUNCTION f \<in> {1, 2}
       then (if STM_PIN_OD f = 1 then LL_GPIO_OUTPUT_OPENDRAIN else LL_GPIO_OUTPUT_PUSHPULL)
       else OTYPER s (STM_PORT pin) (STM_PIN pin),
       LL_GPIO_SPEED_FREQ_VERY_HIGH, pull_of (STM_PIN_PUPD f),
       if STM_PIN_FUNCTION f = 2 \<and> STM_PIN_AFNUM f \<noteq> 0x7F then STM_PIN_AFNUM f
       else alternate s (STM_PORT pin) (STM_PIN pin)) \<and>
    (\<forall>port n. (port, n) \<noteq> (STM_PORT pin, STM_PIN pin) \<longrightarrow> n \<le> 15 \<longrightarrow> pin_regs s' port n = pin_regs s port n) \<and>
    ODR s' = ODR s \<and>
    switch_closed s' = (case sw of None \<Rightarrow> switch_closed s
      | Some w \<Rightarrow> (switch_closed s)(w := pin AND PDUAL = PDUAL \<and> f AND STM_MODE_ANALOG \<noteq> STM_MODE_ANALOG))"
proof -
  let ?p = "STM_PORT pin" and ?n = "STM_PIN pin" and ?m = "STM_PIN_FUNCTION f"
  have nc: "pin \<noteq> NC" using assms(1) by (auto simp: STM_PORT_def consts_simp)
  have od: "STM_PIN_OD f \<noteq> 0 \<longleftrightarrow> STM_PIN_OD f = 1"
    by (simp add: STM_PIN_OD_def and_one_eq odd_iff_mod_2_eq_one)
  let ?s1 = "s\<lparr>gpio_clock := (gpio_clock s)(?p := True)\<rparr>"
  let ?s2 = "?s1\<lparr>OSPEEDR := upd2 (OSPEEDR ?s1) ?p ?n LL_GPIO_SPEED_FREQ_VERY_HIGH\<rparr>"
  obtain s3 where s3: "set_mode ?m (STM_PIN_AFNUM f) pin ?p ?s2 = Some s3" "switch_closed s3 = switch_closed s"
    "same_elsewhere ?p ?n ?s2 s3"
    "pin_regs s3 ?p ?n = (mode_of ?m, OTYPER s ?p ?n, LL_GPIO_SPEED_FREQ_VERY_HIGH, PUPDR s ?p ?n,
       if ?m = 2 \<and> STM_PIN_AFNUM f \<noteq> 0x7F then STM_PIN_AFNUM f else alternate s ?p ?n)"
    using set_mode_regs [OF assms(2), of "STM_PIN_AFNUM f" pin ?p ?s2] by auto
  let ?o = "if STM_PIN_OD f = 1 then LL_GPIO_OUTPUT_OPENDRAIN else LL_GPIO_OUTPUT_PUSHPULL"
  let ?s4 = "if ?m = 1 \<or> ?m = 2 then s3\<lparr>OTYPER := upd2 (OTYPER s3) ?p ?n ?o\<rparr> else s3"
  let ?s5 = "pin_PullConfig ?p ?n (STM_PIN_PUPD f) ?s4"
  let ?s6 = "configure_dualpad_switch pin f sw ?s5"
  have run: "pin_function pin f s = Some ?s6"
    using nc assms(1) s3(1) by (simp add: pin_function_def assms(3) set_GPIO_Port_Clock_def Let_def od)
  have s4: "pin_regs ?s4 ?p ?n = (mode_of ?m, if ?m \<in> {1, 2} then ?o else OTYPER s ?p ?n,
      LL_GPIO_SPEED_FREQ_VERY_HIGH, PUPDR s ?p ?n,
      if ?m = 2 \<and> STM_PIN_AFNUM f \<noteq> 0x7F then STM_PIN_AFNUM f else alternate s ?p ?n)"
    using s3(4) by (simp add: pin_regs_def)
  have "same_elsewhere ?p ?n s3 ?s4" by (simp add: same_elsewhere_def pin_regs_def)
  then have "same_elsewhere ?p ?n ?s2 ?s5" using s3(3) pull_regs(1) same_elsewhere_trans by blast
  then have "\<forall>q m. (q, m) \<noteq> (?p, ?n) \<longrightarrow> m \<le> 15 \<longrightarrow> pin_regs ?s6 q m = pin_regs s q m"
    and "ODR ?s6 = ODR s" and "gpio_clock ?s6 ?p"
    by (simp_all add: same_elsewhere_def switch_regs pin_regs_def)
  moreover have "pin_regs ?s6 ?p ?n = (mode_of ?m, if ?m \<in> {1, 2} then ?o else OTYPER s ?p ?n,
       LL_GPIO_SPEED_FREQ_VERY_HIGH, pull_of (STM_PIN_PUPD f),
       if ?m = 2 \<and> STM_PIN_AFNUM f \<noteq> 0x7F then STM_PIN_AFNUM f else alternate s ?p ?n)"
    unfolding switch_regs(1) by (rule pull_regs_eq [OF s4])
  moreover have "switch_closed ?s5 = switch_closed s" using s3(2) by (simp add: pull_regs)
  ultimately show ?thesis by (intro exI [of _ ?s6]) (simp only: run switch_regs(4) simp_thms)
qed

section \<open>Properties\<close>


text \<open>All registers at their reset values.\<close>

definition gpio0 :: gpio where
  "gpio0 = \<lparr>MODER = (\<lambda>_ _. LL_GPIO_MODE_ANALOG), OTYPER = (\<lambda>_ _. LL_GPIO_OUTPUT_PUSHPULL),
     OSPEEDR = (\<lambda>_ _. LL_GPIO_SPEED_FREQ_LOW), PUPDR = (\<lambda>_ _. LL_GPIO_PULL_NO),
     AFRL = (\<lambda>_ _. 0), AFRH = (\<lambda>_ _. 0), ODR = (\<lambda>_ _. False), gpio_clock = (\<lambda>_. False),
     switch_closed = (\<lambda>_. False)\<rparr>"


text \<open>The fields put into a configuration word come back out of it: function, output
  type, pull, alternate function, channel and polarity do not overlap, and each is the
  value given, cut to its width.\<close>

theorem pin_data_roundtrip:
  fixes F P A C I :: u32
  assumes "F < 16"
  defines "w \<equiv> STM_PIN_DATA_EXT F P A C I"
  shows "STM_PIN_FUNCTION w = F AND 7 \<and> STM_PIN_OD w = drop_bit 3 F AND 1 \<and> STM_PIN_PUPD w = P AND 3 \<and>
    STM_PIN_AFNUM w = A AND 0x7F \<and> STM_PIN_CHANNEL w = C AND 0x1F \<and> STM_PIN_INVERTED w = I AND 1 \<and>
    STM_PIN_DATA F P A = STM_PIN_DATA_EXT F P A 0 0"
proof -
  have "unat F < 2 ^ 4" using assms(1) by (simp add: word_less_nat_alt)
  then have "unat (take_bit 4 F) = unat F" by (simp add: unsigned_take_bit_eq take_bit_nat_eq_self)
  then have "take_bit 4 F = F" by (simp only: word_unat_eq_iff)
  then have F: "bit F n \<Longrightarrow> n < 4" for n by (metis bit_take_bit_iff)
  have m: "(1 :: u32) = mask 1" "(3 :: u32) = mask 2" "(7 :: u32) = mask 3" "(0x1F :: u32) = mask 5" "(0x7F :: u32) = mask 7"
    by (simp_all add: mask_eq_exp_minus_1)
  note bits = STM_PIN_DATA_EXT_def STM_PIN_FUNCTION_def STM_PIN_OD_def STM_PIN_PUPD_def STM_PIN_AFNUM_def
    STM_PIN_CHANNEL_def STM_PIN_INVERTED_def
  have "STM_PIN_FUNCTION w = F AND 7"
    unfolding w_def bits m by (rule bit_word_eqI) (auto simp: bit_simps dest: F)
  moreover have "STM_PIN_OD w = drop_bit 3 F AND 1"
    unfolding w_def bits m by (rule bit_word_eqI) (auto simp: bit_simps dest: F)
  moreover have "STM_PIN_PUPD w = P AND 3"
    unfolding w_def bits m by (rule bit_word_eqI) (auto simp: bit_simps dest: F)
  moreover have "STM_PIN_AFNUM w = A AND 0x7F"
    unfolding w_def bits m by (rule bit_word_eqI) (auto simp: bit_simps dest: F)
  moreover have "STM_PIN_CHANNEL w = C AND 0x1F"
    unfolding w_def bits m by (rule bit_word_eqI) (auto simp: bit_simps dest: F)
  moreover have "STM_PIN_INVERTED w = I AND 1"
    unfolding w_def bits m by (rule bit_word_eqI) (auto simp: bit_simps dest: F)
  ultimately show ?thesis by (simp add: STM_PIN_DATA_def STM_PIN_DATA_EXT_def)
qed

theorem pin_data_roundtrip_witness:
  "STM_PIN_CHANNEL (STM_PIN_DATA_EXT STM_MODE_AF_PP GPIO_PULLUP 1 4 0) = 4"
  using pin_data_roundtrip [of STM_MODE_AF_PP GPIO_PULLUP 1 4 0] by (simp add: consts_simp)

end
