(* ===== verification/Wiring_Properties.thy ===== *)
theory Wiring_Properties
  imports Wiring Pin_Lookup Pin_Config
begin

text \<open>
  Properties of the Arduino pin interface on this board: the numbering of the pins, the
  analog inputs, the conversion between resolutions and bit shifting.
\<close>

section \<open>Pin numbers\<close>


lemma first_index_nth:
  assumes "distinct ys" and "k < length ys"
  shows "first_index (ys ! k) i ys = Some (i + of_nat k)"
  using assms by (induction ys arbitrary: k i) (auto simp: nth_Cons' add.commute)

lemma first_index_none: "x \<notin> set ys \<Longrightarrow> first_index x i ys = None"
  by (induction ys arbitrary: i) auto

lemma digitalPin_facts:
  "length digitalPin = 140" "distinct digitalPin"
  by (simp_all add: digitalPin_def port_defs consts_simp)

lemma digitalPin_plain: "list_all (\<lambda>d. d AND 0xFF = d \<and> STM_VALID_PINNAME d) (take 138 digitalPin)"
  by (simp add: digitalPin_def port_defs STM_VALID_PINNAME_def STM_PORT_def consts_simp)

lemma digitalPin_dual: "digitalPin ! 138 = 0x2022" "digitalPin ! 139 = 0x2023"
  "(0x22 :: u32) \<notin> set digitalPin" "(0x23 :: u32) \<notin> set digitalPin"
  by (simp_all add: digitalPin_def port_defs consts_simp)

lemma alt_bits:
  "(d OR (p AND 0x700)) AND 0xFF = d AND 0xFF" for d p :: u32
  by (simp add: bit.conj_disj_distrib2 and.assoc)

lemma analog_facts:
  "length analogInputPin = 32" "distinct analogInputPin" "list_all (\<lambda>i. i AND 0xFF = i \<and> i < 140) analogInputPin"
  by (simp_all add: analogInputPin_def)


lemma alt_port: "STM_PORT (d OR (p AND 0x700)) = STM_PORT d"
proof -
  have "drop_bit 4 (p AND 0x700) AND (0xF :: u32) = 0"
    by (simp add: drop_bit_and and.assoc)
  then show ?thesis by (simp add: STM_PORT_def drop_bit_or bit.conj_disj_distrib2)
qed

lemma alt_part: "d AND 0xFF = d \<Longrightarrow> (d OR (p AND 0x700)) AND 0x700 = p AND (0x700 :: u32)" for d p :: u32
proof -
  assume "d AND 0xFF = d"
  then have "d AND 0x700 = (d AND 0xFF) AND 0x700" by simp
  then have "d AND 0x700 = 0" by (simp add: and.assoc)
  then show ?thesis by (simp add: bit.conj_disj_distrib2 and.assoc)
qed

lemma pin_of_number:
  assumes "unat (p AND 0xFF) = k" and "k < 138"
  shows "digitalPinToPinName p = digitalPin ! k OR (p AND 0x700)"
    and "pinNametoDigitalPin (digitalPin ! k OR (p AND 0x700)) = p AND 0x7FF"
proof -
  have small: "p AND 0xFF < 140" using assms by (simp add: word_less_nat_alt)
  then show name: "digitalPinToPinName p = digitalPin ! k OR (p AND 0x700)"
    using assms(1) by (simp add: digitalPinToPinName_def consts_simp)
  have d: "digitalPin ! k AND 0xFF = digitalPin ! k" "STM_VALID_PINNAME (digitalPin ! k)"
    using digitalPin_plain assms(2) digitalPin_facts(1) by (auto simp: list_all_length)
  have idx: "first_index (digitalPin ! k) 0 digitalPin = Some (p AND 0xFF)"
    using first_index_nth [OF digitalPin_facts(2), of k 0] assms digitalPin_facts(1) by auto
  have "(p AND 0xFF) OR (p AND 0x700) = p AND 0x7FF"
    by (simp add: bit.conj_disj_distrib [symmetric])
  then show "pinNametoDigitalPin (digitalPin ! k OR (p AND 0x700)) = p AND 0x7FF"
    using d idx by (simp add: pinNametoDigitalPin_def STM_VALID_PINNAME_def alt_port alt_bits alt_part consts_simp)
qed

lemma dual_pad_number:
  assumes "unat (p AND 0xFF) = 138 \<or> unat (p AND 0xFF) = 139"
  shows "pinNametoDigitalPin (digitalPinToPinName p) = NUM_DIGITAL_PINS"
proof -
  have small: "p AND 0xFF < 140" using assms by (auto simp: word_less_nat_alt)
  have "digitalPinToPinName p = 0x2022 OR (p AND 0x700) \<or> digitalPinToPinName p = 0x2023 OR (p AND 0x700)"
    using assms small digitalPin_dual(1,2) by (auto simp: digitalPinToPinName_def consts_simp)
  then show ?thesis
    using first_index_none [OF digitalPin_dual(3)] first_index_none [OF digitalPin_dual(4)]
    by (auto simp: pinNametoDigitalPin_def alt_bits consts_simp)
qed

text \<open>Pin numbers and pin names correspond: for a digital pin number with any
  alternate-function bits, converting to the pin name and back gives the number again
  for the first 138 pins; for the two direct analog pads (numbers 138 and 139) the way
  back fails and gives the number of no pin, because the search masks the dual-pad bit away.\<close>

theorem digital_pin_roundtrip:
  assumes "p AND PNUM_MASK < NUM_DIGITAL_PINS"
  shows "pinNametoDigitalPin (digitalPinToPinName p) =
    (if p AND PNUM_MASK < 138 then p AND (PNUM_MASK OR ALTX_MASK) else NUM_DIGITAL_PINS)"
proof (cases "p AND PNUM_MASK < 138")
  case True
  then have "unat (p AND 0xFF) < 138" by (simp add: word_less_nat_alt consts_simp)
  then show ?thesis using pin_of_number [OF refl] True by (simp add: consts_simp)
next
  case False
  then have "unat (p AND 0xFF) = 138 \<or> unat (p AND 0xFF) = 139"
    using assms by (auto simp: word_less_nat_alt consts_simp)
  then show ?thesis using dual_pad_number False by simp
qed

theorem digital_pin_roundtrip_witness:
  "pinNametoDigitalPin (digitalPinToPinName 0x10B) = 0x10B \<and> pinNametoDigitalPin (digitalPinToPinName 138) = 140"
  using digital_pin_roundtrip [of "0x10B"] digital_pin_roundtrip [of 138] by (simp add: consts_simp)

lemma adc_rows:
  "list_all (\<lambda>i. case pinmap_find_peripheral (digitalPin ! unat i) PinMap_ADC of
      Some per \<Rightarrow> per \<in> {ADC1, ADC2, ADC3} | None \<Rightarrow> False) analogInputPin"
  by (simp add: analogInputPin_def digitalPin_def PinMap_ADC_def port_defs consts_simp)


lemma adc_not_nc: "list_all (\<lambda>i. digitalPin ! unat i \<noteq> NC \<and> i AND 0xC0 \<noteq> 0xC0 \<and> i AND 0x700 = 0) analogInputPin"
  by (simp add: analogInputPin_def digitalPin_def port_defs consts_simp)

lemma small_index:
  "list_all (\<lambda>a :: u32. a AND 0xFF = a \<and> a AND 0x700 = 0 \<and> (0xC0 + a) AND 0xFF = 0xC0 + a \<and>
     (0xC0 + a) AND 0xC0 = 0xC0 \<and> (0xC0 + a) AND 0x3F = a \<and> (0xC0 + a) AND 0x700 = 0 \<and>
     0xC0 + a < 0xE0 \<and> \<not> 0xC0 + a < 32) (map of_nat [0..<32])"
  by (simp add: upt_rec)

lemma small_index_at:
  assumes "a < (32 :: u32)"
  shows "a AND 0xFF = a" "a AND 0x700 = 0" "(0xC0 + a) AND 0xFF = 0xC0 + a" "(0xC0 + a) AND 0xC0 = 0xC0"
    "(0xC0 + a) AND 0x3F = a" "(0xC0 + a) AND 0x700 = 0" "0xC0 + a < 0xE0" "\<not> 0xC0 + a < 32"
proof -
  have "unat a < 32" using assms by (simp add: word_less_nat_alt)
  then have "of_nat (unat a) \<in> set (map of_nat [0..<32] :: u32 list)"
    unfolding set_map by (intro imageI) simp
  then have "a \<in> set (map of_nat [0..<32] :: u32 list)" by simp
  then show "a AND 0xFF = a" "a AND 0x700 = 0" "(0xC0 + a) AND 0xFF = 0xC0 + a" "(0xC0 + a) AND 0xC0 = 0xC0"
    "(0xC0 + a) AND 0x3F = a" "(0xC0 + a) AND 0x700 = 0" "0xC0 + a < 0xE0" "\<not> 0xC0 + a < 32"
    using small_index unfolding list_all_iff by blast+
qed

lemma analog_number:
  assumes "a < (32 :: u32)"
  defines "i \<equiv> analogInputPin ! unat a"
  shows "analogInputToDigitalPin a = i" and "analogInputToDigitalPin (0xC0 + a) = i"
    and "digitalPinToPinName i = digitalPin ! unat i" and "digitalPin ! unat i \<noteq> NC"
    and "digitalPinToAnalogInput i = a" and "digitalpinIsAnalogInput i"
    and "\<exists>per \<in> {ADC1, ADC2, ADC3}. pinmap_find_peripheral (digitalPin ! unat i) PinMap_ADC = Some per"
proof -
  note bits = small_index_at [OF assms(1)]
  have k: "unat a < 32" using assms(1) by (simp add: word_less_nat_alt)
  have i: "i AND 0xFF = i" "i < 140" "digitalPin ! unat i \<noteq> NC" "i AND 0xC0 \<noteq> 0xC0" "i AND 0x700 = 0"
    using analog_facts adc_not_nc k by (auto simp: i_def list_all_length)
  show "analogInputToDigitalPin a = i"
    using assms(1) bits by (simp add: analogInputToDigitalPin_def i_def consts_simp)
  show "analogInputToDigitalPin (0xC0 + a) = i"
    using bits by (simp add: analogInputToDigitalPin_def i_def consts_simp)
  show "digitalPinToPinName i = digitalPin ! unat i" and "digitalPin ! unat i \<noteq> NC"
    using i by (simp_all add: digitalPinToPinName_def consts_simp)
  have idx: "first_index i 0 analogInputPin = Some a"
    using first_index_nth [OF analog_facts(2), of "unat a" 0] analog_facts(1) k by (simp add: i_def)
  show "digitalPinToAnalogInput i = a" and "digitalpinIsAnalogInput i"
    using i idx by (simp_all add: digitalPinToAnalogInput_def digitalpinIsAnalogInput_def consts_simp)
  show "\<exists>per \<in> {ADC1, ADC2, ADC3}. pinmap_find_peripheral (digitalPin ! unat i) PinMap_ADC = Some per"
    using adc_rows k analog_facts(1) by (auto simp: i_def list_all_length split: option.splits)
qed

text \<open>Every analog input works: its number, plain or based at \<^verbatim>\<open>PNUM_ANALOG_BASE\<close>, names a
  pin that has a row in the ADC table, with an ADC as its peripheral; the digital number of
  that pin is recognised as an analog input, and leads back to the analog number.\<close>

theorem analog_inputs_reach_adc:
  assumes "a < NUM_ANALOG_INPUTS"
  shows "analogInputToPinName a = analogInputToPinName (PNUM_ANALOG_BASE + a) \<and>
    pinmap_peripheral (analogInputToPinName a) PinMap_ADC \<in> {Some ADC1, Some ADC2, Some ADC3} \<and>
    digitalpinIsAnalogInput (analogInputToDigitalPin a) \<and>
    digitalPinToAnalogInput (analogInputToDigitalPin a) = a"
proof -
  have "a < 32" using assms by (simp add: consts_simp)
  note n = analog_number [OF this]
  have "analogInputToPinName a = digitalPin ! unat (analogInputPin ! unat a)"
    "analogInputToPinName (PNUM_ANALOG_BASE + a) = digitalPin ! unat (analogInputPin ! unat a)"
    using n(1-4) by (simp_all add: analogInputToPinName_def PNUM_ANALOG_BASE_def Let_def)
  then show ?thesis using n by (auto simp: pinmap_peripheral_def)
qed

theorem analog_inputs_reach_adc_witness:
  "digitalPinToAnalogInput (analogInputToDigitalPin 31) = 31"
  using analog_inputs_reach_adc [of 31] by (simp add: consts_simp)

section \<open>Resolutions\<close>

lemma unat_plus1: "unat (v :: u32) + 1 < 2 ^ 32 \<Longrightarrow> unat (v + 1) = unat v + 1"
  by (simp add: unat_word_ariths)

lemma unat_minus1: "w \<noteq> (0 :: u32) \<Longrightarrow> unat (w - 1) = unat w - 1"
  by (rule unat_minus_one)

lemma unat_zero_iff: "unat (v :: u32) = 0 \<longleftrightarrow> v = 0"
  by (simp add: unat_eq_0)

lemma unat_push: "unat w * 2 ^ d < 2 ^ 32 \<Longrightarrow> unat (push_bit d (w :: u32)) = unat w * 2 ^ d"
  by (simp only: unsigned_push_bit_eq) (simp add: push_bit_eq_mult take_bit_nat_eq_self)

lemma up_value:
  assumes "from \<le> to" and "to < 32" and "unat v < 2 ^ from"
  shows "unat (mapResolution v from to) = (if v = 0 then 0 else (unat v + 1) * 2 ^ (to - from) - 1)"
proof (cases "v = 0 \<or> from = to")
  case True
  then show ?thesis using assms(1) by (auto simp: mapResolution_def)
next
  case False
  have "(unat v + 1) * 2 ^ (to - from) \<le> 2 ^ from * 2 ^ (to - from)"
    using assms(3) by (intro mult_right_mono) simp_all
  also have "\<dots> = 2 ^ to" using assms(1) by (simp flip: power_add)
  finally have top: "(unat v + 1) * 2 ^ (to - from) \<le> 2 ^ to" .
  have "(2 :: nat) ^ to < 2 ^ 32" using assms(2) by (rule power_strict_increasing) simp
  with top have lt: "(unat v + 1) * 2 ^ (to - from) < 2 ^ 32" by linarith
  have "(unat v + 1) * 1 \<le> (unat v + 1) * 2 ^ (to - from)" by (intro mult_le_mono) simp_all
  with lt have "unat v + 1 < 2 ^ 32" by (metis le_less_trans mult_1_right)
  then have u: "unat (v + 1) = unat v + 1" by (rule unat_plus1)
  have p: "unat (push_bit (to - from) (v + 1)) = (unat v + 1) * 2 ^ (to - from)"
    using unat_push [of "v + 1" "to - from"] lt unfolding u by blast
  then have "push_bit (to - from) (v + 1) \<noteq> 0" by (auto simp flip: unat_zero_iff)
  then show ?thesis using False assms(1) p by (simp add: mapResolution_def unat_minus1)
qed

lemma down_value:
  assumes "to < from" and "from \<le> 32" and "1 \<le> to" and "unat v + 1 < 2 ^ 32"
  shows "unat (mapResolution v from to) =
    (if unat v < 2 ^ (from - to) then 0 else (unat v + 1) div 2 ^ (from - to) - 1)"
proof -
  have d: "from - to < 32" using assms by simp
  have "unat (1 :: u32) * 2 ^ (from - to) < 2 ^ 32"
    using d by (simp only: unsigned_1 mult_1) (rule power_strict_increasing, simp_all)
  then have "unat (push_bit (from - to) (1 :: u32)) = 2 ^ (from - to)"
    using unat_push [of 1 "from - to"] by (simp only: unsigned_1 mult_1)
  then have cmp: "v < push_bit (from - to) 1 \<longleftrightarrow> unat v < 2 ^ (from - to)"
    by (simp only: word_less_nat_alt)
  have dv: "unat (drop_bit (from - to) (v + 1)) = (unat v + 1) div 2 ^ (from - to)"
    using unat_plus1 [OF assms(4)] by (simp only: unat_drop_bit_eq) (simp add: drop_bit_eq_div)
  show ?thesis
  proof (cases "unat v < 2 ^ (from - to)")
    case True
    then show ?thesis using assms(1) cmp by (simp add: mapResolution_def)
  next
    case False
    then have "(unat v + 1) div 2 ^ (from - to) \<noteq> 0" by (simp add: div_eq_0_iff)
    then have "drop_bit (from - to) (v + 1) \<noteq> 0" using dv by (metis unat_zero_iff)
    then show ?thesis using assms(1) False cmp dv by (simp add: mapResolution_def unat_minus1)
  qed
qed

lemma up_bound:
  assumes "from \<le> to" and "to < 32" and "unat v < 2 ^ from"
  shows "unat (mapResolution v from to) < 2 ^ to"
proof -
  have "(2 :: nat) ^ to = 2 ^ from * 2 ^ (to - from)" using assms(1) by (simp flip: power_add)
  then have "(unat v + 1) * 2 ^ (to - from) \<le> 2 ^ to"
    using assms(3) by (metis Suc_eq_plus1 Suc_leI mult_le_mono1)
  moreover have "0 < (unat v + 1) * 2 ^ (to - from)" by simp
  ultimately have "(unat v + 1) * 2 ^ (to - from) - 1 < 2 ^ to" by linarith
  then show ?thesis by (simp only: up_value [OF assms] split: if_split) simp
qed

lemma down_bound:
  assumes "to < from" and "from \<le> 32" and "1 \<le> to" and "unat v < 2 ^ from" and "unat v + 1 < 2 ^ 32"
  shows "unat (mapResolution v from to) < 2 ^ to"
proof -
  have "(2 :: nat) ^ from = 2 ^ to * 2 ^ (from - to)" using assms(1) by (simp flip: power_add)
  then have "unat v + 1 \<le> 2 ^ to * 2 ^ (from - to)" using assms(4) by simp
  then have "(unat v + 1) div 2 ^ (from - to) \<le> 2 ^ to * 2 ^ (from - to) div 2 ^ (from - to)"
    by (rule div_le_mono)
  also have "\<dots> = 2 ^ to" by simp
  finally have "(unat v + 1) div 2 ^ (from - to) \<le> 2 ^ to" .
  moreover have "(0 :: nat) < 2 ^ to" by simp
  ultimately have "(unat v + 1) div 2 ^ (from - to) - 1 < 2 ^ to" by linarith
  then show ?thesis by (simp only: down_value [OF assms(1-3,5)] split: if_split) simp
qed

text \<open>Scaling a reading of \<open>from\<close> bits to \<open>to\<close> bits (\<open>from \<le> to < 32\<close>) stays in
  range, keeps zero, full scale and the order of the values, and scaling back gives the
  value again.\<close>

theorem map_resolution_roundtrip:
  assumes "1 \<le> from" and "from \<le> to" and "to < 32" and "unat v < 2 ^ from"
  shows "unat (mapResolution v from to) < 2 ^ to \<and>
    mapResolution (mapResolution v from to) to from = v \<and>
    mapResolution 0 from to = 0 \<and>
    (unat v = 2 ^ from - 1 \<longrightarrow> unat (mapResolution v from to) = 2 ^ to - 1) \<and>
    (\<forall>w. w \<le> v \<longrightarrow> mapResolution w from to \<le> mapResolution v from to)"
proof (intro conjI allI impI)
  let ?d = "to - from"
  note up = up_value [OF assms(2,3)]
  have split: "(2 :: nat) ^ to = 2 ^ from * 2 ^ ?d" using assms(2) by (simp flip: power_add)
  show bound: "unat (mapResolution v from to) < 2 ^ to" by (rule up_bound [OF assms(2-4)])
  show "mapResolution 0 from to = 0" using assms(2) by (simp add: mapResolution_def)
  show "unat (mapResolution v from to) = 2 ^ to - 1" if "unat v = 2 ^ from - 1"
  proof -
    have "unat v + 1 = 2 ^ from" using that by simp
    moreover have "v \<noteq> 0" using that assms(1) by (auto simp: le_Suc_eq)
    ultimately show ?thesis using up [OF assms(4)] by (simp only: split if_False)
  qed
  show "mapResolution (mapResolution v from to) to from = v"
  proof (cases "from = to \<or> v = 0")
    case True
    have "from < to \<Longrightarrow> unat (mapResolution 0 to from) = 0"
      using down_value [of "from" to 0] assms(1,3) by simp
    then have "from < to \<Longrightarrow> mapResolution 0 to from = 0" by (simp only: unat_zero_iff)
    moreover have "mapResolution 0 from to = 0" using assms(2) by (simp add: mapResolution_def)
    ultimately show ?thesis using assms(2) True by (cases "from = to") (auto simp: mapResolution_def)
  next
    case False
    let ?w = "mapResolution v from to"
    have w: "unat ?w + 1 = (unat v + 1) * 2 ^ ?d"
      using up [OF assms(4)] False by (simp del: mult_Suc)
    have "(2 :: nat) ^ to < 2 ^ 32" using assms(3) by (rule power_strict_increasing) simp
    then have small: "unat ?w + 1 < 2 ^ 32" using bound by linarith
    have "0 < unat v" using False by (simp add: unat_gt_0)
    then have "2 * 2 ^ ?d \<le> unat ?w + 1" unfolding w by (intro mult_right_mono) simp_all
    moreover have "(1 :: nat) \<le> 2 ^ ?d" by simp
    ultimately have "\<not> unat ?w < 2 ^ ?d" by linarith
    then have "unat (mapResolution ?w to from) = unat v"
      using down_value [of "from" to ?w] False assms(1-3) small w by (simp del: mult_Suc)
    then show ?thesis by (simp only: word_unat_eq_iff)
  qed
  show "mapResolution w from to \<le> mapResolution v from to" if "w \<le> v" for w
  proof -
    have le: "unat w \<le> unat v" using that by (simp add: word_le_nat_alt)
    then have "unat w < 2 ^ from" using assms(4) by linarith
    moreover have "(unat w + 1) * 2 ^ ?d - 1 \<le> (unat v + 1) * 2 ^ ?d - 1"
      using le by (intro diff_le_mono mult_right_mono) simp_all
    moreover have "v = 0 \<Longrightarrow> w = 0" using le by (simp add: unat_eq_0)
    ultimately show ?thesis
      using up [OF assms(4)] up [of w] by (auto simp: word_le_nat_alt simp del: mult_Suc)
  qed
qed

theorem map_resolution_roundtrip_witness:
  "mapResolution (mapResolution 1000 10 12) 12 10 = 1000"
  using map_resolution_roundtrip [of 10 12 1000] by simp

lemma dac_pin: "p = PA 4 \<or> p = PA 5 \<Longrightarrow> p \<noteq> NC \<and> pin_in_pinmap p PinMap_DAC = Some True"
  by (auto simp: pin_in_pinmap_def PinMap_DAC_def port_defs consts_simp)

text \<open>Writing a value of the configured resolution to an analog output gives the DAC a
  value of 12 bits, with one exception: at a resolution of 32 bits the full-scale value wraps
  to zero when one is added, and the DAC is given \<^verbatim>\<open>0xFFFFFFFF\<close>.\<close>

theorem dac_value_bounds:
  assumes "digitalPinToPinName ulPin = PA 4 \<or> digitalPinToPinName ulPin = PA 5"
    and "1 \<le> writeResolution s" and "writeResolution s \<le> 32" and "unat v < 2 ^ writeResolution s"
  shows "\<exists>s' d init. analogWrite ulPin v s = Some s' \<and>
    wiring_log s' = wiring_log s @ [Dac_write_value (digitalPinToPinName ulPin) d init] \<and>
    (if writeResolution s = 32 \<and> v = 0xFFFFFFFF then d = 0xFFFFFFFF else unat d < 2 ^ 12)"
proof -
  let ?p = "digitalPinToPinName ulPin" and ?r = "writeResolution s"
  let ?d = "mapResolution v ?r 12"
  obtain init s1 where m: "mark_configured ?p s = (init, s1)" by (cases "mark_configured ?p s")
  then have s1: "writeResolution s1 = ?r" "wiring_log s1 = wiring_log s"
    by (auto simp: mark_configured_def split: if_splits)
  have run: "analogWrite ulPin v s = Some (wiring_call (Dac_write_value ?p ?d init) s1)"
    using dac_pin [OF assms(1)] s1(1) by (simp add: analogWrite_def m Let_def DACC_RESOLUTION_def)
  have full: "mapResolution 0xFFFFFFFF 32 12 = 0xFFFFFFFF" by (simp add: mapResolution_def)
  have "unat ?d < 2 ^ 12" if "\<not> (?r = 32 \<and> v = 0xFFFFFFFF)"
  proof (cases "?r \<le> 12")
    case True
    then show ?thesis by (intro up_bound assms(4)) simp_all
  next
    case False
    have "unat v + 1 < 2 ^ 32"
    proof (cases "?r = 32")
      case True
      then have "unat v \<noteq> unat (0xFFFFFFFF :: u32)" using that by (metis word_unat_eq_iff)
      moreover have "unat v < 2 ^ 32" using assms(4) True by simp
      ultimately show ?thesis by simp
    next
      case False
      then have "(2 :: nat) ^ ?r < 2 ^ 32" using assms(3) by (intro power_strict_increasing) simp_all
      then show ?thesis using assms(4) by linarith
    qed
    then show ?thesis using False assms(3,4) by (intro down_bound) simp_all
  qed
  then show ?thesis
    using run s1(2) full by (intro exI [of _ "wiring_call (Dac_write_value ?p ?d init) s1"] exI [of _ ?d] exI [of _ init])
      (simp add: wiring_call_def)
qed

text \<open>The variables as they are initialised.\<close>

definition wiring0 :: wiring where
  "wiring0 = gpio.extend gpio0 (wiring.fields (\<lambda>_. 0) 10 10 8 8 1000 [])"

theorem dac_value_bounds_witness:
  "\<exists>s' d init. analogWrite 4 1000 (wiring0\<lparr>writeResolution := 10\<rparr>) = Some s' \<and>
    wiring_log s' = wiring_log (wiring0\<lparr>writeResolution := 10\<rparr>) @ [Dac_write_value (digitalPinToPinName 4) d init] \<and>
    unat d < 2 ^ 12"
proof -
  have "digitalPinToPinName 4 = PA 4"
    by (simp add: digitalPinToPinName_def digitalPin_def port_defs consts_simp)
  then show ?thesis using dac_value_bounds [of 4 "wiring0\<lparr>writeResolution := 10\<rparr>" 1000] by simp
qed

end
