(* ===== verification/Shift_Properties.thy ===== *)
theory Shift_Properties
  imports Wiring
begin

text \<open>
  Bit shifting over a data and a clock pin. The device on the wires is modelled on both
  sides: a receiver that samples the data line at the rising edge of the clock, and a sender
  that presents its next bit there.
\<close>

section \<open>The devices on the wires\<close>

record receiver =
  r_data :: bool
  r_clock :: bool
  r_bits :: "bool list"

definition r_write :: "u32 \<Rightarrow> u32 \<Rightarrow> u32 \<Rightarrow> u32 \<Rightarrow> receiver \<Rightarrow> receiver" where
  "r_write data clock pin v w =
     (let w1 = (if pin = data then w\<lparr>r_data := v \<noteq> 0\<rparr> else w)
      in if pin = clock
         then w1\<lparr>r_clock := v \<noteq> 0,
                 r_bits := (if v \<noteq> 0 \<and> \<not> r_clock w1 then r_bits w1 @ [r_data w1] else r_bits w1)\<rparr>
         else w1)"

record sender =
  s_clock :: bool
  s_data :: bool
  s_bits :: "bool list"

definition s_write :: "u32 \<Rightarrow> u32 \<Rightarrow> u32 \<Rightarrow> sender \<Rightarrow> sender" where
  "s_write clock pin v w =
     (if pin = clock then
        (if v \<noteq> 0 \<and> \<not> s_clock w
         then w\<lparr>s_clock := True, s_data := (s_bits w \<noteq> [] \<and> hd (s_bits w)), s_bits := tl (s_bits w)\<rparr>
         else w\<lparr>s_clock := v \<noteq> 0\<rparr>)
      else w)"

definition s_read :: "u32 \<Rightarrow> u32 \<Rightarrow> sender \<Rightarrow> u32" where
  "s_read data pin w = (if pin = data \<and> s_data w then 1 else 0)"

text \<open>The order of the bits of a byte on the data line.\<close>

definition wire_bits :: "u32 \<Rightarrow> u32 \<Rightarrow> bool list" where
  "wire_bits order v = map (\<lambda>i. bit v (if order = LSBFIRST then i else 7 - i)) [0..<8]"

section \<open>The loops\<close>

lemma and_push: "v AND push_bit i 1 \<noteq> 0 \<longleftrightarrow> bit v i" for v :: u32
  by (simp add: and_exp_eq_0_iff_not_bit push_bit_of_1)

lemma shiftOut_loop_bits:
  assumes "data \<noteq> clock" and "\<not> r_clock w"
  shows "r_bits (shiftOut_loop (r_write data clock) data clock order v is w) =
      r_bits w @ map (\<lambda>i. bit v (if order = LSBFIRST then i else 7 - i)) is \<and>
    \<not> r_clock (shiftOut_loop (r_write data clock) data clock order v is w)"
  using assms(2)
proof (induction "is" arbitrary: w)
  case (Cons i "is")
  then show ?case
    using assms(1) by (cases "order = LSBFIRST")
      (simp_all add: r_write_def Let_def HIGH_def LOW_def and_push and_exp_eq_0_iff_not_bit)
qed simp

lemma shiftIn_loop_bits:
  assumes "data \<noteq> clock" and "\<not> s_clock w" and "s_bits w = map f is @ rest"
  shows "fst (shiftIn_loop (s_write clock) (s_read data) data clock order is acc w) =
      fold (\<lambda>i a. a OR (if f i then push_bit (if order = LSBFIRST then i else 7 - i) 1 else 0)) is acc \<and>
    s_bits (snd (shiftIn_loop (s_write clock) (s_read data) data clock order is acc w)) = rest"
  using assms(2,3)
proof (induction "is" arbitrary: w acc)
  case (Cons i "is")
  have "ucast (push_bit k (1 :: u32)) = (push_bit k 1 :: u8)" for k
    by (rule bit_word_eqI) (auto simp: bit_simps)
  then show ?case
    using Cons assms(1) by (auto simp: s_write_def s_read_def Let_def HIGH_def LOW_def)
qed simp


lemma bit_collect:
  "bit (fold (\<lambda>i a. a OR (if f i then push_bit (g i) 1 else 0)) is (acc :: u8)) n \<longleftrightarrow>
     bit acc n \<or> (n < 8 \<and> (\<exists>i\<in>set is. f i \<and> g i = n))"
proof (induction "is" arbitrary: acc)
  case (Cons i "is")
  have "bit (acc OR (if f i then push_bit (g i) 1 else 0)) n \<longleftrightarrow> bit acc n \<or> (n < 8 \<and> f i \<and> g i = n)"
    by (auto simp: bit_or_iff bit_exp_iff)
  then show ?case by (simp only: fold.simps comp_apply Cons.IH) auto
qed simp

lemma collect_bits:
  assumes "\<forall>i<8. g i < 8 \<and> g (g i) = i"
  shows "fold (\<lambda>i a. a OR (if bit v (g i) then push_bit (g i) 1 else 0)) [0..<8] (0 :: u8) = ucast (v :: u32)"
proof (rule bit_word_eqI)
  fix n assume "n < LENGTH(8)"
  then have "n < 8" by simp
  then have "(\<exists>i\<in>set [0..<8]. bit v (g i) \<and> g i = n) \<longleftrightarrow> bit v n"
    using assms by (auto intro!: bexI [of _ "g n"])
  then show "bit (fold (\<lambda>i a. a OR (if bit v (g i) then push_bit (g i) 1 else 0)) [0..<8] (0 :: u8)) n =
      bit (ucast v :: u8) n"
    using \<open>n < 8\<close> by (simp only: bit_collect bit_ucast_iff) simp
qed

lemma low_byte: "ucast (ucast v :: u8) = v AND (0xFF :: u32)"
proof -
  have "(0xFF :: u32) = mask 8" by (simp add: mask_eq_exp_minus_1)
  then show ?thesis by (simp only: take_bit_eq_mask [symmetric]) (rule bit_word_eqI, auto simp: bit_simps)
qed

text \<open>Shifting a byte out over a data and a clock pin presents its eight bits, in the order
  asked for, at the rising edges of the clock, and leaves the clock low; shifting in from a
  device that presents those bits gives the byte back and takes no further bit.\<close>

theorem shift_roundtrip:
  assumes "data \<noteq> clock" and "\<not> r_clock r" and "\<not> s_clock s" and "s_bits s = wire_bits order v @ rest"
  shows "r_bits (shiftOut (r_write data clock) data clock order v r) = r_bits r @ wire_bits order v \<and>
    \<not> r_clock (shiftOut (r_write data clock) data clock order v r) \<and>
    fst (shiftIn (s_write clock) (s_read data) data clock order s) = v AND 0xFF \<and>
    s_bits (snd (shiftIn (s_write clock) (s_read data) data clock order s)) = rest"
proof -
  let ?g = "\<lambda>i. if order = LSBFIRST then i else 7 - i"
  have "fold (\<lambda>i a. a OR (if bit v (?g i) then push_bit (?g i) 1 else 0)) [0..<8] (0 :: u8) = ucast v"
    by (rule collect_bits) auto
  moreover have "s_bits s = map (\<lambda>i. bit v (?g i)) [0..<8] @ rest"
    using assms(4) by (simp only: wire_bits_def)
  note shiftIn_loop_bits [OF assms(1,3) this, where acc = 0 and order = order]
  ultimately show ?thesis
    using shiftOut_loop_bits [OF assms(1,2)] low_byte
    by (auto simp: shiftOut_def shiftIn_def wire_bits_def split: prod.splits simp del: upt_Suc)
qed

theorem shift_roundtrip_witness:
  "fst (shiftIn (s_write 5) (s_read 4) 4 5 MSBFIRST
     \<lparr>s_clock = False, s_data = False,
      s_bits = [True, False, True, True, False, False, False, True]\<rparr>) = 0xB1"
proof -
  have "[True, False, True, True, False, False, False, True] = wire_bits MSBFIRST 0xB1 @ []"
    by (simp add: wire_bits_def LSBFIRST_def MSBFIRST_def upt_rec)
  then show ?thesis
    using shift_roundtrip [of 4 5 "\<lparr>r_data = False, r_clock = False, r_bits = []\<rparr>"
      "\<lparr>s_clock = False, s_data = False,
        s_bits = [True, False, True, True, False, False, False, True]\<rparr>" MSBFIRST "0xB1" "[]"]
    by simp
qed

end
