(* ===== verification/Core_Callback.thy ===== *)
theory Core_Callback
  imports Prelude "HOL-Library.Multiset"
begin

text \<open>
  The callbacks of the main loop, \<^verbatim>\<open>libraries/SrcWrapper/src/stm32/core_callback.c\<close>: a
  table of four slots, each a function pointer or null. A function is a value \<open>'f\<close>; calling
  it is the parameter \<open>run\<close>, which may change the table.
\<close>

section \<open>The table\<close>

definition CALLBACK_LIST_SIZE :: nat where "CALLBACK_LIST_SIZE = 4"

text \<open>The two loops stop at the first slot that matches.\<close>

fun set_first :: "'f option \<Rightarrow> 'f option \<Rightarrow> 'f option list \<Rightarrow> 'f option list" where
  "set_first old new [] = []"
| "set_first old new (c # cs) = (if c = old then new # cs else c # set_first old new cs)"

definition registerCoreCallback :: "'f option \<Rightarrow> 'f option list \<Rightarrow> 'f option list" where
  "registerCoreCallback func callbackList =
     (if func = None then callbackList else set_first None func callbackList)"

definition unregisterCoreCallback :: "'f option \<Rightarrow> 'f option list \<Rightarrow> 'f option list" where
  "unregisterCoreCallback func callbackList =
     (if func = None then callbackList else set_first func None callbackList)"

text \<open>Slot by slot, each read when its turn comes. \<open>table\<close> gives the table in a state.\<close>

definition call_slot :: "('s \<Rightarrow> 'f option list) \<Rightarrow> ('f \<Rightarrow> 's \<Rightarrow> 's) \<Rightarrow> nat \<Rightarrow> 's \<Rightarrow> 's" where
  "call_slot table run i s = (case table s ! i of None \<Rightarrow> s | Some f \<Rightarrow> run f s)"

definition CoreCallback :: "('s \<Rightarrow> 'f option list) \<Rightarrow> ('f \<Rightarrow> 's \<Rightarrow> 's) \<Rightarrow> 's \<Rightarrow> 's" where
  "CoreCallback table run s = fold (call_slot table run) [0..<CALLBACK_LIST_SIZE] s"

section \<open>The abstract view\<close>

text \<open>The functions registered, with their multiplicity, and in the order of the slots.\<close>

definition registered :: "'f option list \<Rightarrow> 'f list" where
  "registered cs = List.map_filter id cs"

lemma registered_simps [simp]:
  "registered [] = []" "registered (None # cs) = registered cs" "registered (Some f # cs) = f # registered cs"
  by (simp_all add: registered_def map_filter_simps)

lemma length_set_first [simp]: "length (set_first a b cs) = length cs"
  by (induction cs) auto

lemma registered_bound: "length (registered cs) \<le> length cs"
  by (induction cs rule: list.induct) (auto split: option.splits simp: registered_def map_filter_simps)

lemma set_first_free:
  "mset (registered (set_first None (Some f) cs)) =
     (if length (registered cs) < length cs then add_mset f (mset (registered cs)) else mset (registered cs))"
proof (induction cs)
  case (Cons c cs)
  then show ?case using registered_bound [of cs] by (cases c) auto
qed simp

lemma set_first_used:
  "mset (registered (set_first (Some f) None cs)) = mset (registered cs) - {#f#}"
proof (induction cs)
  case (Cons c cs)
  then show ?case by (cases c) (auto simp: add_mset_commute)
qed simp

lemma fold_slots:
  assumes "\<forall>f s. f \<in> set (registered cs) \<longrightarrow> table s = cs \<longrightarrow> table (run f s) = cs" and "table s = cs"
    and "n \<le> length cs"
  shows "fold (call_slot table run) [0..<n] s = fold run (registered (take n cs)) s \<and>
    table (fold (call_slot table run) [0..<n] s) = cs"
  using assms(3)
proof (induction n)
  case 0
  then show ?case using assms(2) by simp
next
  case (Suc n)
  then have n: "n < length cs" by simp
  note IH = Suc.IH [OF less_imp_le [OF n], THEN conjunct1] Suc.IH [OF less_imp_le [OF n], THEN conjunct2]
  have split: "registered (take (Suc n) cs) =
      registered (take n cs) @ (case cs ! n of None \<Rightarrow> [] | Some f \<Rightarrow> [f])"
    using n by (simp add: take_Suc_conv_app_nth registered_def map_filter_def split: option.splits)
  show ?case
  proof (cases "cs ! n")
    case None
    then show ?thesis using IH by (simp add: split call_slot_def)
  next
    case (Some f)
    then have "f \<in> set (registered cs)"
      using n nth_mem [OF n] by (force simp: registered_def map_filter_def)
    then show ?thesis using IH Some assms(1) by (simp add: split call_slot_def)
  qed
qed

section \<open>Properties\<close>

text \<open>C30: The table is a bag of at most four callbacks: registering adds the function
  unless the table is full, when it is lost without notice; unregistering removes one
  occurrence if there is one; null pointers change nothing; and a run of the main loop calls
  exactly the functions of the bag, each as often as it occurs, if they do not change the
  table themselves.\<close>

theorem callbacks_are_a_bag:
  assumes "length cs = CALLBACK_LIST_SIZE"
    and "\<forall>g s. g \<in> set (registered cs) \<longrightarrow> table s = cs \<longrightarrow> table (run g s) = cs" and "table s = cs"
  shows "length (registerCoreCallback f cs) = CALLBACK_LIST_SIZE \<and>
    length (unregisterCoreCallback f cs) = CALLBACK_LIST_SIZE \<and>
    mset (registered (registerCoreCallback (Some g) cs)) =
      (if size (mset (registered cs)) < 4 then mset (registered cs) + {#g#} else mset (registered cs)) \<and>
    mset (registered (unregisterCoreCallback (Some g) cs)) = mset (registered cs) - {#g#} \<and>
    registerCoreCallback None cs = cs \<and> unregisterCoreCallback None cs = cs \<and>
    (\<exists>gs. mset gs = mset (registered cs) \<and> CoreCallback table run s = fold run gs s)"
proof -
  have "CoreCallback table run s = fold run (registered cs) s"
    using fold_slots [OF assms(2,3), of CALLBACK_LIST_SIZE] assms(1) by (simp add: CoreCallback_def)
  then show ?thesis
    using set_first_free [of g cs] set_first_used [of g cs] assms(1)
    by (auto simp: registerCoreCallback_def unregisterCoreCallback_def CALLBACK_LIST_SIZE_def)
qed

theorem callbacks_are_a_bag_witness:
  "mset (registered (registerCoreCallback (Some (3 :: nat)) [Some 1, None, Some 2, None])) = {#1, 2, 3#} \<and>
   (\<exists>gs. mset gs = {#1, 2#} \<and>
     CoreCallback (\<lambda>_. [Some (1 :: nat), None, Some 2, None]) (#) [] = fold (#) gs [])"
  using callbacks_are_a_bag [of "[Some (1 :: nat), None, Some 2, None]" "\<lambda>_. [Some (1 :: nat), None, Some 2, None]"
      "(#)" "[]" None 3]
  by (simp add: CALLBACK_LIST_SIZE_def add_mset_commute)

text \<open>The callbacks are called in the order in which they were registered as long as none was
  removed; a removal leaves a gap that the next registration fills, so that a callback
  registered later is then called earlier.\<close>

theorem callback_order:
  fixes fs :: "'f list" and f g h :: 'f
  assumes "length fs \<le> 4"
  shows "registered (fold (\<lambda>f. registerCoreCallback (Some f)) fs (replicate CALLBACK_LIST_SIZE None)) = fs \<and>
    registered (registerCoreCallback (Some h) (unregisterCoreCallback (Some f) [Some f, Some g, None, None])) = [h, g]"
proof -
  have "fold (\<lambda>f. registerCoreCallback (Some f)) fs (replicate 4 None) = map Some fs @ replicate (4 - length fs) None"
    using assms
  proof (induction fs rule: rev_induct)
    case (snoc f fs)
    have free: "set_first None (Some f) (map Some gs @ replicate (Suc n) None) = map Some (gs @ [f]) @ replicate n None"
      for gs n by (induction gs) auto
    have "4 - length fs = Suc (4 - length (fs @ [f]))" using snoc.prems by simp
    then show ?case using snoc free [of fs] by (simp add: registerCoreCallback_def del: replicate_Suc)
  qed simp
  moreover have "registered (map Some gs @ replicate n None) = gs" for gs :: "'f list" and n
    by (induction gs) (induction n, auto)
  ultimately show ?thesis
    by (simp add: CALLBACK_LIST_SIZE_def registerCoreCallback_def unregisterCoreCallback_def)
qed

theorem callback_order_witness:
  "registered (registerCoreCallback (Some (7 :: nat)) (unregisterCoreCallback (Some 5) [Some 5, Some 6, None, None])) = [7, 6]"
  using callback_order [of "[5 :: nat, 6]" 7 5 6] by simp

end
