(* ===== verification/Core_Time.thy ===== *)
theory Core_Time
  imports Prelude
begin

text \<open>
  Time as sketches see it: \<^verbatim>\<open>getCurrentMicros\<close> and \<^verbatim>\<open>getCurrentMillis\<close> of
  \<^verbatim>\<open>libraries/SrcWrapper/src/stm32/clock.c\<close>, and \<^verbatim>\<open>delay\<close> of
  \<^verbatim>\<open>cores/arduino/wiring_time.c\<close>. The tick counter of the HAL and the SysTick timer are
  read through parameters.
\<close>

section \<open>Reading the time\<close>

text \<open>The four values read, in the order of the code, and the reload value. The quotients are of
  unsigned 32 bit numbers.\<close>

definition getCurrentMicros :: "u32 \<Rightarrow> u32 \<Rightarrow> u32 \<Rightarrow> u32 \<Rightarrow> u32 \<Rightarrow> u32" where
  "getCurrentMicros m0 u0 m1 u1 LOAD =
     (let tms = LOAD + 1
      in if m1 \<noteq> m0 then m1 * 1000 + ((tms - u1) * 1000) div tms
         else m0 * 1000 + ((tms - u0) * 1000) div tms)"

definition getCurrentMillis :: "('s \<Rightarrow> u32) \<Rightarrow> 's \<Rightarrow> u32" where
  "getCurrentMillis HAL_GetTick s = HAL_GetTick s"

text \<open>The loop may run for ever: no result then. \<open>yield\<close> is the hook a sketch can define; time
  passes in it.\<close>

partial_function (option) delay_loop ::
    "('s \<Rightarrow> u32) \<Rightarrow> ('s \<Rightarrow> 's) \<Rightarrow> u32 \<Rightarrow> u32 \<Rightarrow> 's \<Rightarrow> 's option" where
  "delay_loop HAL_GetTick yield start ms s =
     (let s1 = yield s
      in if getCurrentMillis HAL_GetTick s1 - start < ms
         then delay_loop HAL_GetTick yield start ms s1 else Some s1)"

definition delay :: "('s \<Rightarrow> u32) \<Rightarrow> ('s \<Rightarrow> 's) \<Rightarrow> u32 \<Rightarrow> 's \<Rightarrow> 's option" where
  "delay HAL_GetTick yield ms s =
     (if ms \<noteq> 0 then delay_loop HAL_GetTick yield (getCurrentMillis HAL_GetTick s) ms s else Some s)"

section \<open>Microseconds\<close>

text \<open>Time counted in cycles \<open>c\<close> of the processor clock, \<open>n\<close> to a millisecond: the tick counter
  shows \<open>c div n\<close>, and the timer counts down from \<open>n - 1\<close> in each millisecond.\<close>

lemma micros_value:
  fixes n c :: nat
  assumes "0 < n" and "n * 1000 < 2 ^ 32"
  shows "(word_of_nat (c div n) * 1000 +
      ((word_of_nat n - word_of_nat (n - 1 - c mod n)) * 1000) div word_of_nat n :: u32) =
    word_of_nat (((c + 1) * 1000) div n)"
proof -
  let ?r = "c mod n + 1"
  have r: "?r \<le> n" using assms(1) by (simp add: Suc_leI)
  then have "n = (n - 1 - c mod n) + ?r" by simp
  then have "(word_of_nat n :: u32) = word_of_nat (n - 1 - c mod n) + word_of_nat ?r"
    by (metis of_nat_add)
  then have d: "(word_of_nat n - word_of_nat (n - 1 - c mod n)) * 1000 = (word_of_nat (?r * 1000) :: u32)"
    by simp
  have "?r * 1000 \<le> n * 1000" using r by (rule mult_le_mono1)
  then have "unat (word_of_nat (?r * 1000) :: u32) = ?r * 1000"
    using assms(2) by (intro nat_word) linarith
  moreover have "unat (word_of_nat n :: u32) = n" using assms(2) by (intro nat_word) linarith
  ultimately have q: "(word_of_nat (?r * 1000) :: u32) div word_of_nat n = word_of_nat (?r * 1000 div n)"
    by (metis word_arith_nat_div)
  have "(a * n + r + 1) * 1000 = (r + 1) * 1000 + n * (a * 1000)" for a r :: nat by (simp add: algebra_simps)
  from this [of "c div n" "c mod n"] have "(c + 1) * 1000 = ?r * 1000 + n * (c div n * 1000)"
    by (simp only: div_mult_mod_eq)
  then have "(c + 1) * 1000 div n = c div n * 1000 + ?r * 1000 div n"
    using assms(1) div_mult_self2 [of n "?r * 1000" "c div n * 1000"] by (simp only:)
  then show ?thesis by (simp only: d q) (simp only: of_nat_add of_nat_mult of_nat_numeral)
qed

lemma tick_within:
  fixes n :: nat
  assumes "c \<le> d" and "d < c + n"
  shows "d div n = c div n \<or> d div n = c div n + 1"
proof -
  have "c div n \<le> d div n" using assms(1) by (rule div_le_mono)
  moreover have "d div n \<le> (c + n) div n" using assms(2) by (intro div_le_mono) simp
  moreover have "(c + n) div n \<le> c div n + 1" by (cases "n = 0") (simp_all add: div_add_self2)
  ultimately show ?thesis by linarith
qed

text \<open>The microseconds returned are exact in spite of interrupts: with the four values
  read at any four moments less than a millisecond apart, the result is the time, rounded
  down, of the second or of the fourth reading, even if the tick falls between them.\<close>

theorem micros_exact:
  fixes n c0 c1 c2 c3 :: nat
  assumes "n = unat LOAD + 1" and "n * 1000 < 2 ^ 32"
    and "c0 \<le> c1" and "c1 \<le> c2" and "c2 \<le> c3" and "c3 < c0 + n"
  shows "getCurrentMicros (word_of_nat (c0 div n)) (word_of_nat (n - 1 - c1 mod n))
      (word_of_nat (c2 div n)) (word_of_nat (n - 1 - c3 mod n)) LOAD
    \<in> {word_of_nat (((c1 + 1) * 1000) div n), word_of_nat (((c3 + 1) * 1000) div n)}"
proof -
  have n: "0 < n" and tms: "LOAD + 1 = word_of_nat n" using assms(1) by simp_all
  note exact = micros_value [OF n assms(2)]
  consider "c2 div n = c0 div n" | "c2 div n = c0 div n + 1"
    using tick_within [of c0 c2 n] assms by linarith
  then show ?thesis
  proof cases
    case 1
    then have "c1 div n = c0 div n"
      using div_le_mono [OF assms(3), of n] div_le_mono [OF assms(4), of n] by linarith
    then show ?thesis using 1 exact [of c1] by (simp add: getCurrentMicros_def tms)
  next
    case 2
    then have "c3 div n = c2 div n"
      using div_le_mono [OF assms(5), of n] tick_within [of c0 c3 n] assms by linarith
    moreover have "word_of_nat (c2 div n) \<noteq> (word_of_nat (c0 div n) :: u32)" using 2 by simp
    ultimately show ?thesis using exact [of c3] by (simp add: getCurrentMicros_def tms)
  qed
qed

theorem micros_exact_witness:
  "getCurrentMicros 7 2000 8 479000 479999 \<in> {7995, 8002}"
  using micros_exact [of 480000 479999 "7 * 480000 + 470000" "7 * 480000 + 477999" "8 * 480000 + 100" "8 * 480000 + 999"]
  by simp

section \<open>Delay\<close>

text \<open>Time as it really passes: \<open>T\<close> milliseconds, of which the tick counter shows the low 32
  bits. One pass of the loop may take no time that the counter shows, but not for ever.\<close>

lemma elapsed_word:
  "T0 \<le> T1 \<Longrightarrow> unat (word_of_nat T1 - word_of_nat T0 :: u32) = (T1 - T0) mod 2 ^ 32"
proof -
  assume "T0 \<le> T1"
  then have "(word_of_nat T1 - word_of_nat T0 :: u32) = word_of_nat (T1 - T0)" by (simp add: of_nat_diff)
  then show ?thesis by (simp add: unat_of_nat)
qed

lemma delay_steps:
  assumes mono: "\<And>s. T s \<le> T (yield s)" and step: "\<And>s. T (yield s) < T s + d"
    and room: "unat ms + d \<le> 2 ^ 32"
    and prog: "\<exists>k. unat ms \<le> T ((yield ^^ Suc k) s) - start" and start: "start \<le> T s" "T s < start + unat ms"
  shows "\<exists>k. delay_loop (\<lambda>s. word_of_nat (T s)) yield (word_of_nat start) ms s = Some ((yield ^^ Suc k) s) \<and>
    unat ms \<le> T ((yield ^^ Suc k) s) - start \<and> T ((yield ^^ Suc k) s) - start < unat ms + d"
proof -
  from prog obtain k where k: "unat ms \<le> T ((yield ^^ Suc k) s) - start" by blast
  then show ?thesis using start
  proof (induction k arbitrary: s)
    case (0 s)
    let ?s = "yield s"
    have r: "start \<le> T ?s" "T ?s - start < unat ms + d"
      using mono [of s] step [of s] 0(2,3) by simp_all
    then have "unat (word_of_nat (T ?s) - word_of_nat start :: u32) = T ?s - start"
      using elapsed_word [of start "T ?s"] room by simp
    then have "\<not> word_of_nat (T ?s) - word_of_nat start < ms" using 0(1) by (simp add: word_less_nat_alt)
    then show ?case
      using r 0(1) by (intro exI [of _ 0])
        (simp add: delay_loop.simps [of _ _ _ _ s] getCurrentMillis_def)
  next
    case (Suc k s)
    let ?s = "yield s"
    have r: "start \<le> T ?s" "T ?s - start < unat ms + d"
      using mono [of s] step [of s] Suc.prems(2,3) by simp_all
    then have e: "unat (word_of_nat (T ?s) - word_of_nat start :: u32) = T ?s - start"
      using elapsed_word [of start "T ?s"] room by simp
    show ?case
    proof (cases "T ?s - start < unat ms")
      case True
      then have l: "word_of_nat (T ?s) - word_of_nat start < ms" using e by (simp add: word_less_nat_alt)
      have "unat ms \<le> T ((yield ^^ Suc k) ?s) - start"
        using Suc.prems(1) by (simp only: funpow_Suc_right [of "Suc k"] comp_apply)
      moreover have "T ?s < start + unat ms" using True r(1) by linarith
      ultimately obtain j where "delay_loop (\<lambda>s. word_of_nat (T s)) yield (word_of_nat start) ms ?s = Some ((yield ^^ Suc j) ?s)"
        "unat ms \<le> T ((yield ^^ Suc j) ?s) - start" "T ((yield ^^ Suc j) ?s) - start < unat ms + d"
        using Suc.IH [of ?s] r(1) by blast
      then show ?thesis
        using l by (intro exI [of _ "Suc j"])
          (simp only: delay_loop.simps [of _ _ _ _ s] getCurrentMillis_def Let_def if_True
            funpow_Suc_right [of "Suc j"] comp_apply simp_thms)
    next
      case False
      then have "\<not> word_of_nat (T ?s) - word_of_nat start < ms" using e by (simp add: word_less_nat_alt)
      then show ?thesis
        using r False by (intro exI [of _ 0])
          (simp add: delay_loop.simps [of _ _ _ _ s] getCurrentMillis_def)
    qed
  qed
qed

text \<open>C31: A delay ends, if time goes on: however the calls of \<^verbatim>\<open>yield\<close> split the time, it returns
  after at least the time asked for and less than one pass of the loop more, also when
  the tick counter wraps meanwhile. One pass must not be so long that the elapsed time no
  longer fits the counter.\<close>

theorem delay_terminates:
  assumes "\<And>s. HAL_GetTick s = word_of_nat (T s)"
    and "\<And>s. T s \<le> T (yield s)" and "\<And>s. T (yield s) < T s + d" and "unat ms + d \<le> 2 ^ 32"
    and "\<exists>k. T s + unat ms \<le> T ((yield ^^ Suc k) s)"
  shows "\<exists>k. delay HAL_GetTick yield ms s = Some ((yield ^^ k) s) \<and>
    T s + unat ms \<le> T ((yield ^^ k) s) \<and> T ((yield ^^ k) s) < T s + unat ms + d"
proof (cases "ms = 0")
  case True
  then show ?thesis using assms(2,3) [of s] by (intro exI [of _ 0]) (simp add: delay_def)
next
  case False
  have tick: "HAL_GetTick = (\<lambda>s. word_of_nat (T s))" using assms(1) by (rule ext)
  from False have "T s < T s + unat ms" by (simp add: unat_gt_0)
  moreover have "\<exists>k. unat ms \<le> T ((yield ^^ Suc k) s) - T s"
  proof -
    from assms(5) obtain k where "T s + unat ms \<le> T ((yield ^^ Suc k) s)" ..
    then have "unat ms \<le> T ((yield ^^ Suc k) s) - T s" by linarith
    then show ?thesis ..
  qed
  ultimately obtain k where k: "delay_loop HAL_GetTick yield (word_of_nat (T s)) ms s = Some ((yield ^^ Suc k) s)"
    "unat ms \<le> T ((yield ^^ Suc k) s) - T s" "T ((yield ^^ Suc k) s) - T s < unat ms + d"
    using delay_steps [where T = T and yield = yield and d = d and ms = ms and start = "T s" and s = s]
      assms(2-4) unfolding tick by blast
  from k(2,3) have "T s + unat ms \<le> T ((yield ^^ Suc k) s)" "T ((yield ^^ Suc k) s) < T s + unat ms + d"
    using \<open>T s < T s + unat ms\<close> by linarith+
  then show ?thesis
    using False k(1) by (intro exI [of _ "Suc k"]) (simp add: tick delay_def getCurrentMillis_def)
qed

theorem delay_terminates_witness:
  "delay word_of_nat (\<lambda>t. t + 3) 10 (4294967290 :: nat) = Some 4294967302"
proof -
  have steps: "((\<lambda>t. t + 3) ^^ k) n = n + 3 * k" for k n :: nat by (induction k) simp_all
  have "4294967290 + unat (10 :: u32) \<le> ((\<lambda>t. t + 3) ^^ Suc 3) (4294967290 :: nat)"
    by (simp only: steps) simp
  then have "\<exists>k. 4294967290 + unat (10 :: u32) \<le> ((\<lambda>t. t + 3) ^^ Suc k) (4294967290 :: nat)" by (rule exI)
  from delay_terminates [of word_of_nat "\<lambda>t. t" "\<lambda>t. t + 3" 4 10, OF _ _ _ _ this]
  obtain k where "delay word_of_nat (\<lambda>t. t + 3) 10 (4294967290 :: nat) = Some (4294967290 + 3 * k)"
    "4294967290 + 10 \<le> 4294967290 + 3 * k" "4294967290 + 3 * k < 4294967290 + 10 + (4 :: nat)"
    unfolding steps by auto
  moreover from this(2,3) have "k = 4" by simp
  ultimately show ?thesis by simp
qed

end
