(* ===== verification/Twi_Timing.thy ===== *)
theory Twi_Timing
  imports Prelude
begin

text \<open>
  The timing register of the I2C peripheral, \<^verbatim>\<open>i2c_computeTiming\<close> and \<^verbatim>\<open>i2c_getTiming\<close> of
  \<^verbatim>\<open>libraries/Wire/src/utility/twi.c\<close>: a search over prescaler, data setup, data hold, SCL low
  and SCL high times, in nanoseconds, with a table of the timings found. Unsigned
  arithmetic is that of 32 bit words; signed arithmetic too, read with \<open>sint\<close>.
\<close>

section \<open>Characteristics\<close>

definition I2C_VALID_TIMING_NBR :: u32 where "I2C_VALID_TIMING_NBR = 8"
definition I2C_ANALOG_FILTER_DELAY_MIN :: u32 where "I2C_ANALOG_FILTER_DELAY_MIN = 50"
definition I2C_ANALOG_FILTER_DELAY_MAX :: u32 where "I2C_ANALOG_FILTER_DELAY_MAX = 260"
definition I2C_PRESC_MAX :: nat where "I2C_PRESC_MAX = 16"
definition I2C_SCLDEL_MAX :: nat where "I2C_SCLDEL_MAX = 16"
definition I2C_SDADEL_MAX :: nat where "I2C_SDADEL_MAX = 16"
definition I2C_SCLH_MAX :: nat where "I2C_SCLH_MAX = 256"
definition I2C_SCLL_MAX :: nat where "I2C_SCLL_MAX = 256"
definition SEC2NSEC :: u32 where "SEC2NSEC = 1000000000"

record I2C_Charac_t =
  freq :: u32
  freq_min :: u32
  freq_max :: u32
  hddat_min :: u32
  vddat_max :: u32
  sudat_min :: u32
  lscl_min :: u32
  hscl_min :: u32
  trise :: u32
  tfall :: u32
  dnf :: u32

definition I2C_Charac :: "I2C_Charac_t list" where
  "I2C_Charac =
     [\<lparr>freq = 100000, freq_min = 80000, freq_max = 120000, hddat_min = 0, vddat_max = 3450, sudat_min = 250,
       lscl_min = 4700, hscl_min = 4000, trise = 640, tfall = 20, dnf = 0\<rparr>,
      \<lparr>freq = 400000, freq_min = 320000, freq_max = 480000, hddat_min = 0, vddat_max = 900, sudat_min = 100,
       lscl_min = 1300, hscl_min = 600, trise = 250, tfall = 100, dnf = 0\<rparr>,
      \<lparr>freq = 1000000, freq_min = 800000, freq_max = 1200000, hddat_min = 0, vddat_max = 450, sudat_min = 50,
       lscl_min = 500, hscl_min = 260, trise = 60, tfall = 100, dnf = 0\<rparr>]"

section \<open>The search\<close>

record search =
  s_ret :: u32
  prev_error :: u32
  prev_presc :: u32
  valid_timing_nbr :: u32
  saved :: u32
  returned :: bool

definition rounded_period :: "u32 \<Rightarrow> u32" where
  "rounded_period f = (SEC2NSEC + f div 2) div f"

definition tsdadel_min :: "I2C_Charac_t \<Rightarrow> u32 \<Rightarrow> u32" where
  "tsdadel_min c ti2cclk =
     (let v = tfall c + hddat_min c - I2C_ANALOG_FILTER_DELAY_MIN - (dnf c + 3) * ti2cclk
      in if sint v \<le> 0 then 0 else v)"

definition tsdadel_max :: "I2C_Charac_t \<Rightarrow> u32 \<Rightarrow> u32" where
  "tsdadel_max c ti2cclk =
     (let v = vddat_max c - trise c - I2C_ANALOG_FILTER_DELAY_MAX - (dnf c + 4) * ti2cclk
      in if sint v \<le> 0 then 0 else v)"

definition scl_time :: "I2C_Charac_t \<Rightarrow> u32 \<Rightarrow> u32 \<Rightarrow> nat \<Rightarrow> u32" where
  "scl_time c ti2cclk tpresc i =
     I2C_ANALOG_FILTER_DELAY_MIN + dnf c * ti2cclk + 2 * ti2cclk + (word_of_nat i + 1) * tpresc"

definition timing_reg :: "nat \<Rightarrow> nat \<Rightarrow> nat \<Rightarrow> nat \<Rightarrow> nat \<Rightarrow> u32" where
  "timing_reg presc scldel sdadel sclh scll =
     push_bit 28 (word_of_nat presc AND 0x0F) OR push_bit 20 (word_of_nat scldel AND 0x0F) OR
     push_bit 16 (word_of_nat sdadel AND 0x0F) OR push_bit 8 (word_of_nat sclh AND 0xFF) OR
     push_bit 0 (word_of_nat scll AND 0xFF)"

definition sclh_step :: "I2C_Charac_t \<Rightarrow> u32 \<Rightarrow> nat \<Rightarrow> nat \<Rightarrow> nat \<Rightarrow> nat \<Rightarrow> u32 \<Rightarrow> u32 \<Rightarrow> nat \<Rightarrow> search \<Rightarrow> search" where
  "sclh_step c ti2cclk presc scldel sdadel scll tpresc tscl_l sclh st =
     (let tscl_h = scl_time c ti2cclk tpresc sclh;
          tscl = tscl_l + tscl_h + trise c + tfall c
      in if tscl \<ge> SEC2NSEC div freq_max c \<and> tscl \<le> SEC2NSEC div freq_min c \<and>
            tscl_h \<ge> hscl_min c \<and> ti2cclk < tscl_h then
           (let e = tscl - rounded_period (freq c);
                error = (if sint e < 0 then - e else e)
            in if error < prev_error st then
                 (let r = timing_reg presc scldel sdadel sclh scll
                  in st\<lparr>prev_error := error, s_ret := r, prev_presc := word_of_nat presc, saved := r\<rparr>)
               else st)
         else st)"

definition scll_step :: "I2C_Charac_t \<Rightarrow> u32 \<Rightarrow> nat \<Rightarrow> nat \<Rightarrow> nat \<Rightarrow> u32 \<Rightarrow> nat \<Rightarrow> search \<Rightarrow> search" where
  "scll_step c ti2cclk presc scldel sdadel tpresc scll st =
     (let tscl_l = scl_time c ti2cclk tpresc scll
      in if tscl_l > lscl_min c \<and> ti2cclk < (tscl_l - I2C_ANALOG_FILTER_DELAY_MIN - dnf c * ti2cclk) div 4
         then fold (sclh_step c ti2cclk presc scldel sdadel scll tpresc tscl_l) [0..<I2C_SCLH_MAX] st
         else st)"

text \<open>The \<^verbatim>\<open>return\<close> inside the loops sets \<open>returned\<close>, after which nothing happens.\<close>

definition sdadel_step :: "I2C_Charac_t \<Rightarrow> u32 \<Rightarrow> nat \<Rightarrow> nat \<Rightarrow> nat \<Rightarrow> search \<Rightarrow> search" where
  "sdadel_step c ti2cclk presc scldel sdadel st =
     (if returned st then st
      else
        (let tsdadel = (word_of_nat sdadel * (word_of_nat presc + 1)) * ti2cclk
         in if tsdadel \<ge> tsdadel_min c ti2cclk \<and> tsdadel \<le> tsdadel_max c ti2cclk \<and>
               word_of_nat presc \<noteq> prev_presc st then
              (let st1 = st\<lparr>valid_timing_nbr := valid_timing_nbr st + 1\<rparr>
               in if valid_timing_nbr st1 \<ge> I2C_VALID_TIMING_NBR then st1\<lparr>returned := True\<rparr>
                  else fold (scll_step c ti2cclk presc scldel sdadel ((word_of_nat presc + 1) * ti2cclk))
                         [0..<I2C_SCLL_MAX] st1)
            else st))"

definition scldel_step :: "I2C_Charac_t \<Rightarrow> u32 \<Rightarrow> nat \<Rightarrow> nat \<Rightarrow> search \<Rightarrow> search" where
  "scldel_step c ti2cclk presc scldel st =
     (if \<not> returned st \<and> (word_of_nat scldel + 1) * (word_of_nat presc + 1) * ti2cclk \<ge> trise c + sudat_min c
      then fold (sdadel_step c ti2cclk presc scldel) [0..<I2C_SDADEL_MAX] st else st)"

definition presc_step :: "I2C_Charac_t \<Rightarrow> u32 \<Rightarrow> nat \<Rightarrow> search \<Rightarrow> search" where
  "presc_step c ti2cclk presc st = fold (scldel_step c ti2cclk presc) [0..<I2C_SCLDEL_MAX] st"

record I2C_timing_t =
  input_clock :: u32
  timing :: u32

definition search_timing :: "I2C_Charac_t \<Rightarrow> u32 \<Rightarrow> u32 \<Rightarrow> search" where
  "search_timing c clkSrcFreq old =
     fold (presc_step c (rounded_period clkSrcFreq)) [0..<I2C_PRESC_MAX]
       \<lparr>s_ret = 0xFFFFFFFF, prev_error = rounded_period (freq c), prev_presc = word_of_nat I2C_PRESC_MAX,
        valid_timing_nbr = 0, saved = old, returned = False\<rparr>"

definition i2c_computeTiming :: "u32 \<Rightarrow> nat \<Rightarrow> I2C_timing_t list \<Rightarrow> u32 \<times> I2C_timing_t list" where
  "i2c_computeTiming clkSrcFreq i2c_speed I2C_ClockTiming =
     (if i2c_speed < 3 then
        (let entry = I2C_ClockTiming ! i2c_speed
         in if input_clock entry = clkSrcFreq \<and> timing entry \<noteq> 0 then (timing entry, I2C_ClockTiming)
            else (let st = search_timing (I2C_Charac ! i2c_speed) clkSrcFreq (timing entry)
                  in (s_ret st,
                      I2C_ClockTiming[i2c_speed := \<lparr>input_clock = clkSrcFreq, timing = saved st\<rparr>])))
      else (0xFFFFFFFF, I2C_ClockTiming))"

definition i2c_getTiming :: "u32 \<Rightarrow> u32 \<Rightarrow> I2C_timing_t list \<Rightarrow> u32 \<times> I2C_timing_t list" where
  "i2c_getTiming clkSrcFreq frequency I2C_ClockTiming =
     (let i2c_speed = (if frequency \<le> 100000 then 100000 else if frequency \<le> 400000 then 400000
        else if frequency \<le> 1000000 then 1000000 else 0 :: u32)
      in if i2c_speed \<noteq> 0 then
           (if i2c_speed = 400000 then i2c_computeTiming clkSrcFreq 1 I2C_ClockTiming
            else if i2c_speed = 1000000 then i2c_computeTiming clkSrcFreq 2 I2C_ClockTiming
            else i2c_computeTiming clkSrcFreq 0 I2C_ClockTiming)
         else (0, I2C_ClockTiming))"

end
