(* ===== verification/Twi_Timing_Properties.thy ===== *)
theory Twi_Timing_Properties
  imports Twi_Timing
begin

text \<open>
  What the search for an I2C timing finds: a register whose times, in nanoseconds and without
  overflow, are those of the I2C specification, as far as the table of characteristics has it.
\<close>

section \<open>The register\<close>

lemma packed_fields:
  fixes p s d h l :: u32
  defines "r \<equiv> push_bit 28 (p AND mask 4) OR push_bit 20 (s AND mask 4) OR push_bit 16 (d AND mask 4) OR
     push_bit 8 (h AND mask 8) OR push_bit 0 (l AND mask 8)"
  shows "drop_bit 28 r = p AND mask 4" "drop_bit 20 r AND mask 4 = s AND mask 4"
    "drop_bit 16 r AND mask 4 = d AND mask 4" "drop_bit 8 r AND mask 8 = h AND mask 8"
    "r AND mask 8 = l AND mask 8" "\<not> bit r 24"
  unfolding r_def by (rule bit_word_eqI; auto simp: bit_simps)+ (auto simp: bit_simps)

lemma masked_nat:
  assumes "n < 2 ^ k" and "k \<le> 8"
  shows "unat (word_of_nat n AND mask k :: u32) = n"
proof -
  have "n < 2 ^ 8" using assms power_increasing [of k 8 "2 :: nat"] by simp
  then have "unat (word_of_nat n :: u32) = n" by (simp add: unat_of_nat)
  moreover have "unat (take_bit k (word_of_nat n :: u32)) = take_bit k (unat (word_of_nat n :: u32))"
    by (rule unsigned_take_bit_eq)
  ultimately show ?thesis using assms(1) by (simp add: take_bit_nat_eq_self flip: take_bit_eq_mask)
qed

lemma timing_reg_fields:
  assumes "presc < 16" and "scldel < 16" and "sdadel < 16" and "sclh < 256" and "scll < 256"
  defines "r \<equiv> timing_reg presc scldel sdadel sclh scll"
  shows "unat (drop_bit 28 r) = presc" "unat (drop_bit 20 r AND 0x0F) = scldel" "unat (drop_bit 16 r AND 0x0F) = sdadel"
    "unat (drop_bit 8 r AND 0xFF) = sclh" "unat (r AND 0xFF) = scll" "r \<noteq> 0xFFFFFFFF"
proof -
  have m: "(0x0F :: u32) = mask 4" "(0xFF :: u32) = mask 8" by (simp_all add: mask_eq_exp_minus_1)
  note fields = packed_fields [of "word_of_nat presc" "word_of_nat scldel" "word_of_nat sdadel" "word_of_nat sclh"
      "word_of_nat scll", folded timing_reg_def [unfolded m]]
  show "unat (drop_bit 28 r) = presc" "unat (drop_bit 20 r AND 0x0F) = scldel" "unat (drop_bit 16 r AND 0x0F) = sdadel"
    "unat (drop_bit 8 r AND 0xFF) = sclh" "unat (r AND 0xFF) = scll"
    unfolding r_def m fields using masked_nat [of presc 4] masked_nat [of scldel 4]
      masked_nat [of sdadel 4] masked_nat [of sclh 8] masked_nat [of scll 8] assms(1-5) by simp_all
  show "r \<noteq> 0xFFFFFFFF" using fields(6) unfolding r_def by auto
qed

section \<open>Conformance\<close>

text \<open>What the register means, in nanoseconds, for a clock period of \<open>t\<close>: the low and the high
  time of the clock, its period with both edges, and the setup and hold times.\<close>

definition conforms :: "I2C_Charac_t \<Rightarrow> nat \<Rightarrow> u32 \<Rightarrow> bool" where
  "conforms c t r \<longleftrightarrow>
     (let tpresc = (unat (drop_bit 28 r) + 1) * t;
          setup = (unat (drop_bit 20 r AND 0x0F) + 1) * tpresc;
          hold = unat (drop_bit 16 r AND 0x0F) * tpresc;
          high = 50 + 2 * t + (unat (drop_bit 8 r AND 0xFF) + 1) * tpresc;
          low = 50 + 2 * t + (unat (r AND 0xFF) + 1) * tpresc;
          period = low + high + unat (trise c) + unat (tfall c)
      in unat (lscl_min c) < low \<and> unat (hscl_min c) \<le> high \<and>
         1000000000 div unat (freq_max c) \<le> period \<and> period \<le> 1000000000 div unat (freq_min c) \<and>
         unat (trise c) + unat (sudat_min c) \<le> setup \<and>
         int (unat (tfall c)) + int (unat (hddat_min c)) - 50 - 3 * int t \<le> int hold \<and>
         int hold \<le> max 0 (int (unat (vddat_max c)) - int (unat (trise c)) - 260 - 4 * int t))"

definition charac_ok :: "I2C_Charac_t \<Rightarrow> bool" where
  "charac_ok c \<longleftrightarrow> dnf c = 0 \<and> unat (trise c) \<le> 1000 \<and> unat (tfall c) \<le> 1000 \<and> unat (sudat_min c) \<le> 1000 \<and>
     unat (hddat_min c) \<le> 1000 \<and> unat (vddat_max c) \<le> 4000"

lemma charac_all: "c \<in> set I2C_Charac \<Longrightarrow> charac_ok c"
  by (auto simp: I2C_Charac_def charac_ok_def)

lemma small_product:
  "a \<le> 256 \<Longrightarrow> p \<le> 16 \<Longrightarrow> t \<le> 1000 \<Longrightarrow> a * (p * t) \<le> (4096000 :: nat)"
  using mult_le_mono [OF _ mult_le_mono [of p 16 t 1000], of a 256] by simp

lemma scl_time_nat:
  assumes "dnf c = 0" and "t \<le> 1000" and "presc < 16" and "i < 256"
  shows "unat (scl_time c (word_of_nat t) ((word_of_nat presc + 1) * word_of_nat t) i) =
    50 + 2 * t + (i + 1) * ((presc + 1) * t)" and "50 + 2 * t + (i + 1) * ((presc + 1) * t) \<le> 4100000"
proof -
  show b: "50 + 2 * t + (i + 1) * ((presc + 1) * t) \<le> 4100000"
    using small_product [of "i + 1" "presc + 1" t] assms by linarith
  have "scl_time c (word_of_nat t) ((word_of_nat presc + 1) * word_of_nat t) i =
      word_of_nat (50 + 2 * t + (i + 1) * ((presc + 1) * t))"
    by (simp add: scl_time_def assms(1) I2C_ANALOG_FILTER_DELAY_MIN_def algebra_simps)
  then show "unat (scl_time c (word_of_nat t) ((word_of_nat presc + 1) * word_of_nat t) i) =
    50 + 2 * t + (i + 1) * ((presc + 1) * t)" using b by (simp only:) (rule nat_word, simp)
qed

lemma signed_bound:
  assumes "- (2 ^ 31) \<le> x" and "x < 2 ^ 31"
  shows "(if sint (word_of_int x :: u32) \<le> 0 then 0 else word_of_int x) = (word_of_nat (nat (max 0 x)) :: u32)"
proof -
  have "sint (word_of_int x :: u32) = x"
    using assms by (simp add: signed_take_bit_int_eq_self sint_sbintrunc' flip: signed_take_bit_eq)
  then show ?thesis by (cases "x \<le> 0") simp_all
qed

lemma word_int_unat: "w = word_of_int (int (unat w))" for w :: u32
  by simp

lemma delay_bounds:
  fixes a b t :: nat
  assumes "a \<le> 4000" and "b \<le> 1000" and "t \<le> 1000"
  shows "- (2 ^ 31) \<le> int a + int b - 50 - 3 * int t" "int a + int b - 50 - 3 * int t < 2 ^ 31"
    "- (2 ^ 31) \<le> int a - int b - 260 - 4 * int t" "int a - int b - 260 - 4 * int t < 2 ^ 31"
  using assms by simp_all

lemma tsdadel_nat:
  assumes "charac_ok c" and "t \<le> 1000"
  shows "unat (tsdadel_min c (word_of_nat t)) = nat (max 0 (int (unat (tfall c)) + int (unat (hddat_min c)) - 50 - 3 * int t))"
    and "unat (tsdadel_max c (word_of_nat t)) =
      nat (max 0 (int (unat (vddat_max c)) - int (unat (trise c)) - 260 - 4 * int t))"
proof -
  let ?lo = "int (unat (tfall c)) + int (unat (hddat_min c)) - 50 - 3 * int t"
  let ?hi = "int (unat (vddat_max c)) - int (unat (trise c)) - 260 - 4 * int t"
  have small: "unat (tfall c) \<le> 1000" "unat (hddat_min c) \<le> 1000" "unat (vddat_max c) \<le> 4000" "unat (trise c) \<le> 1000" "dnf c = 0"
    using assms(1) by (simp_all add: charac_ok_def)
  then have b: "- (2 ^ 31) \<le> ?lo" "?lo < 2 ^ 31" "- (2 ^ 31) \<le> ?hi" "?hi < 2 ^ 31"
    using delay_bounds [of "unat (tfall c)" "unat (hddat_min c)" t]
      delay_bounds [of "unat (vddat_max c)" "unat (trise c)" t] assms(2) by linarith+
  have "tfall c + hddat_min c - I2C_ANALOG_FILTER_DELAY_MIN - (dnf c + 3) * word_of_nat t = word_of_int ?lo"
    by (simp add: small(5) I2C_ANALOG_FILTER_DELAY_MIN_def)
  then have "tsdadel_min c (word_of_nat t) = word_of_nat (nat (max 0 ?lo))"
    unfolding tsdadel_min_def Let_def by (simp only: signed_bound [OF b(1,2)])
  moreover have "nat (max 0 ?lo) < 2 ^ 32" using b(2) by simp
  ultimately show "unat (tsdadel_min c (word_of_nat t)) = nat (max 0 ?lo)" by (simp only: nat_word)
  have "vddat_max c - trise c - I2C_ANALOG_FILTER_DELAY_MAX - (dnf c + 4) * word_of_nat t = word_of_int ?hi"
    by (simp add: small(5) I2C_ANALOG_FILTER_DELAY_MAX_def)
  then have "tsdadel_max c (word_of_nat t) = word_of_nat (nat (max 0 ?hi))"
    unfolding tsdadel_max_def Let_def by (simp only: signed_bound [OF b(3,4)])
  moreover have "nat (max 0 ?hi) < 2 ^ 32" using b(4) by simp
  ultimately show "unat (tsdadel_max c (word_of_nat t)) = nat (max 0 ?hi)" by (simp only: nat_word)
qed

section \<open>The loops\<close>

definition good :: "I2C_Charac_t \<Rightarrow> nat \<Rightarrow> search \<Rightarrow> bool" where
  "good c t st \<longleftrightarrow> s_ret st = 0xFFFFFFFF \<or> conforms c t (s_ret st)"

text \<open>What has been checked when the two inner loops run.\<close>

definition data_ok :: "I2C_Charac_t \<Rightarrow> nat \<Rightarrow> nat \<Rightarrow> nat \<Rightarrow> nat \<Rightarrow> bool" where
  "data_ok c t presc scldel sdadel \<longleftrightarrow> charac_ok c \<and> t \<le> 1000 \<and> presc < 16 \<and> scldel < 16 \<and> sdadel < 16 \<and>
     unat (trise c) + unat (sudat_min c) \<le> (scldel + 1) * ((presc + 1) * t) \<and>
     int (unat (tfall c)) + int (unat (hddat_min c)) - 50 - 3 * int t \<le> int (sdadel * ((presc + 1) * t)) \<and>
     int (sdadel * ((presc + 1) * t)) \<le> max 0 (int (unat (vddat_max c)) - int (unat (trise c)) - 260 - 4 * int t)"

lemma fold_keeps:
  "(\<And>x s. x < n \<Longrightarrow> I s \<Longrightarrow> I (f x s)) \<Longrightarrow> I s \<Longrightarrow> I (fold f [0..<n] s)"
  by (induction n) simp_all

lemma sclh_step_good:
  assumes ok: "data_ok c t presc scldel sdadel" and "scll < 256" and "sclh < 256" and "good c t st"
    and low: "tscl_l = scl_time c (word_of_nat t) ((word_of_nat presc + 1) * word_of_nat t) scll" "lscl_min c < tscl_l"
  shows "good c t (sclh_step c (word_of_nat t) presc scldel sdadel scll ((word_of_nat presc + 1) * word_of_nat t) tscl_l sclh st)"
proof -
  let ?tp = "(word_of_nat presc + 1) * word_of_nat t :: u32"
  let ?h = "scl_time c (word_of_nat t) ?tp sclh"
  have d: "dnf c = 0" "t \<le> 1000" "presc < 16" "unat (trise c) \<le> 1000" "unat (tfall c) \<le> 1000"
    using ok by (simp_all add: data_ok_def charac_ok_def)
  note l = scl_time_nat [OF d(1,2,3) assms(2), folded low(1)] and h = scl_time_nat [OF d(1,2,3) assms(3)]
  have period: "unat (tscl_l + ?h + trise c + tfall c) = unat tscl_l + unat ?h + unat (trise c) + unat (tfall c)"
    using l h d(4,5) by (simp add: unat_word_ariths)
  have conf: "conforms c t (timing_reg presc scldel sdadel sclh scll)"
    if "tscl_l + ?h + trise c + tfall c \<ge> SEC2NSEC div freq_max c" "tscl_l + ?h + trise c + tfall c \<le> SEC2NSEC div freq_min c"
      "?h \<ge> hscl_min c"
  proof -
    have "1000000000 div unat (freq_max c) \<le> unat tscl_l + unat ?h + unat (trise c) + unat (tfall c)"
      "unat tscl_l + unat ?h + unat (trise c) + unat (tfall c) \<le> 1000000000 div unat (freq_min c)"
      "unat (hscl_min c) \<le> unat ?h" "unat (lscl_min c) < unat tscl_l"
      using that low(2) period by (simp_all add: word_le_nat_alt word_less_nat_alt unat_div SEC2NSEC_def)
    then show ?thesis
      using ok timing_reg_fields [of presc scldel sdadel sclh scll] assms(2,3) l(1) h(1)
      by (simp add: conforms_def Let_def data_ok_def)
  qed
  show ?thesis
    using conf assms(4) by (auto simp: sclh_step_def good_def Let_def)
qed

lemma scll_step_good:
  assumes "data_ok c t presc scldel sdadel" and "scll < I2C_SCLL_MAX" and "good c t st"
  shows "good c t (scll_step c (word_of_nat t) presc scldel sdadel ((word_of_nat presc + 1) * word_of_nat t) scll st)"
proof -
  have l: "scll < 256" using assms(2) by (simp add: I2C_SCLL_MAX_def)
  have "good c t (fold (sclh_step c (word_of_nat t) presc scldel sdadel scll ((word_of_nat presc + 1) * word_of_nat t)
      (scl_time c (word_of_nat t) ((word_of_nat presc + 1) * word_of_nat t) scll)) [0..<I2C_SCLH_MAX] st)"
    if "lscl_min c < scl_time c (word_of_nat t) ((word_of_nat presc + 1) * word_of_nat t) scll"
  proof (rule fold_keeps)
    show "good c t (sclh_step c (word_of_nat t) presc scldel sdadel scll ((word_of_nat presc + 1) * word_of_nat t)
      (scl_time c (word_of_nat t) ((word_of_nat presc + 1) * word_of_nat t) scll) x s)"
      if "x < I2C_SCLH_MAX" "good c t s" for x s
      by (rule sclh_step_good [OF assms(1) l that(1) [unfolded I2C_SCLH_MAX_def] that(2) refl
            \<open>lscl_min c < scl_time c (word_of_nat t) ((word_of_nat presc + 1) * word_of_nat t) scll\<close>])
  qed (rule assms(3))
  then show ?thesis using assms(3) by (simp add: scll_step_def Let_def)
qed

lemma setup_nat:
  assumes "t \<le> 1000" and "presc < 16" and "j < 16"
  shows "unat ((word_of_nat j + 1) * (word_of_nat presc + 1) * word_of_nat t :: u32) = (j + 1) * ((presc + 1) * t)"
    and "unat (word_of_nat j * (word_of_nat presc + 1) * word_of_nat t :: u32) = j * ((presc + 1) * t)"
proof -
  have "(j + 1) * ((presc + 1) * t) \<le> 4096000" "j * ((presc + 1) * t) \<le> 4096000"
    using small_product [of "j + 1" "presc + 1" t] small_product [of j "presc + 1" t] assms by linarith+
  then have "(j + 1) * ((presc + 1) * t) < 2 ^ 32" "j * ((presc + 1) * t) < 2 ^ 32" by simp_all
  note n = this [THEN nat_word]
  have "(word_of_nat j + 1) * (word_of_nat presc + 1) * word_of_nat t = (word_of_nat ((j + 1) * ((presc + 1) * t)) :: u32)"
    "word_of_nat j * (word_of_nat presc + 1) * word_of_nat t = (word_of_nat (j * ((presc + 1) * t)) :: u32)"
    by (simp_all add: algebra_simps)
  then show "unat ((word_of_nat j + 1) * (word_of_nat presc + 1) * word_of_nat t :: u32) = (j + 1) * ((presc + 1) * t)"
    and "unat (word_of_nat j * (word_of_nat presc + 1) * word_of_nat t :: u32) = j * ((presc + 1) * t)"
    by (simp_all only: n)
qed

lemma between_nat:
  "nat (max 0 lo) \<le> x \<Longrightarrow> x \<le> nat (max 0 hi) \<Longrightarrow> lo \<le> int x \<and> int x \<le> max 0 hi"
  by linarith

lemma sdadel_step_good:
  assumes "charac_ok c" and "t \<le> 1000" and "presc < 16" and "scldel < 16" and "sdadel < 16" and "good c t st"
    and sut: "unat (trise c) + unat (sudat_min c) \<le> (scldel + 1) * ((presc + 1) * t)"
  shows "good c t (sdadel_step c (word_of_nat t) presc scldel sdadel st)"
proof (cases "word_of_nat sdadel * (word_of_nat presc + 1) * word_of_nat t \<ge> tsdadel_min c (word_of_nat t) \<and>
    word_of_nat sdadel * (word_of_nat presc + 1) * word_of_nat t \<le> tsdadel_max c (word_of_nat t)")
  case True
  then have "data_ok c t presc scldel sdadel"
    using assms(1-5) sut between_nat unfolding data_ok_def word_le_nat_alt
      tsdadel_nat [OF assms(1,2)] setup_nat(2) [OF assms(2,3,5)] by blast
  note step = scll_step_good [OF this]
  have "good c t (fold (scll_step c (word_of_nat t) presc scldel sdadel ((word_of_nat presc + 1) * word_of_nat t))
      [0..<I2C_SCLL_MAX] (st\<lparr>valid_timing_nbr := n\<rparr>))" for n
  proof (rule fold_keeps)
    show "good c t (st\<lparr>valid_timing_nbr := n\<rparr>)" using assms(6) by (simp add: good_def)
  qed (rule step)
  then show ?thesis
    using assms(6) by (simp add: sdadel_step_def Let_def) (simp add: good_def)
next
  case False
  then show ?thesis using assms(6) by (auto simp: sdadel_step_def)
qed

lemma scldel_step_good:
  assumes "charac_ok c" and "t \<le> 1000" and "presc < 16" and "scldel < 16" and "good c t st"
  shows "good c t (scldel_step c (word_of_nat t) presc scldel st)"
proof (cases "(word_of_nat scldel + 1) * (word_of_nat presc + 1) * word_of_nat t \<ge> trise c + sudat_min c")
  case True
  have "unat (trise c + sudat_min c) = unat (trise c) + unat (sudat_min c)"
    using assms(1) by (simp add: charac_ok_def unat_word_ariths)
  then have "unat (trise c) + unat (sudat_min c) \<le> (scldel + 1) * ((presc + 1) * t)"
    using True setup_nat(1) [OF assms(2,3,4)] by (simp only: word_le_nat_alt)
  then have "good c t (fold (sdadel_step c (word_of_nat t) presc scldel) [0..<I2C_SDADEL_MAX] st)"
    using sdadel_step_good [OF assms(1-4)] assms(5) unfolding I2C_SDADEL_MAX_def by (blast intro: fold_keeps)
  then show ?thesis using assms(5) by (simp add: scldel_step_def)
next
  case False
  then show ?thesis using assms(5) by (simp add: scldel_step_def)
qed

lemma search_good:
  assumes "charac_ok c" and "rounded_period clk = word_of_nat t" and "t \<le> 1000"
  shows "good c t (search_timing c clk old)"
proof -
  have "good c t (presc_step c (word_of_nat t) presc st)" if "presc < I2C_PRESC_MAX" "good c t st" for presc st
    using scldel_step_good [OF assms(1,3)] that unfolding presc_step_def I2C_SCLDEL_MAX_def I2C_PRESC_MAX_def
    by (blast intro: fold_keeps)
  then show ?thesis unfolding search_timing_def assms(2) by (rule fold_keeps) (simp_all add: good_def)
qed

lemma period_bound:
  assumes "unat clk \<ge> 1000000" and "unat clk \<le> 1000000000"
  shows "rounded_period clk = word_of_nat ((1000000000 + unat clk div 2) div unat clk)"
    and "(1000000000 + unat clk div 2) div unat clk \<le> 1000"
proof -
  let ?k = "unat clk"
  have "unat (SEC2NSEC + clk div 2) = 1000000000 + ?k div 2"
    using assms(2) by (simp add: SEC2NSEC_def unat_word_ariths unat_div)
  then show "rounded_period clk = word_of_nat ((1000000000 + ?k div 2) div ?k)"
    by (simp add: rounded_period_def word_arith_nat_div)
  have "?k div 2 < ?k" using assms(1) by simp
  then have "1000000000 + ?k div 2 < 1001 * ?k" using assms(1) by linarith
  then have "(1000000000 + ?k div 2) div ?k < 1001" by (rule less_mult_imp_div_less)
  then show "(1000000000 + ?k div 2) div ?k \<le> 1000" by simp
qed

section \<open>Success and failure\<close>

lemma reg_valid: "timing_reg presc scldel sdadel sclh scll \<noteq> 0xFFFFFFFF"
proof -
  have m: "(0x0F :: u32) = mask 4" "(0xFF :: u32) = mask 8" by (simp_all add: mask_eq_exp_minus_1)
  have "\<not> bit (timing_reg presc scldel sdadel sclh scll) 24"
    unfolding timing_reg_def m by (rule packed_fields(6))
  then show ?thesis by auto
qed

text \<open>A timing found stays found, and is the one saved; until then the error is the initial one.\<close>

definition kept :: "u32 \<Rightarrow> u32 \<Rightarrow> search \<Rightarrow> bool" where
  "kept err old st \<longleftrightarrow> (if s_ret st = 0xFFFFFFFF then prev_error st = err \<and> saved st = old else saved st = s_ret st)"

definition found :: "search \<Rightarrow> bool" where
  "found st \<longleftrightarrow> s_ret st \<noteq> 0xFFFFFFFF"

lemma sclh_step_kept:
  "kept err old st \<Longrightarrow> kept err old (sclh_step c k presc scldel sdadel scll tp l sclh st)"
  "found st \<Longrightarrow> found (sclh_step c k presc scldel sdadel scll tp l sclh st)"
  using reg_valid by (auto simp: sclh_step_def kept_def found_def Let_def)

lemma scll_step_kept:
  "kept err old st \<Longrightarrow> kept err old (scll_step c k presc scldel sdadel tp scll st)"
  "found st \<Longrightarrow> found (scll_step c k presc scldel sdadel tp scll st)"
  unfolding scll_step_def Let_def using sclh_step_kept by (auto intro: fold_keeps)

lemma sdadel_step_kept:
  "kept err old st \<Longrightarrow> kept err old (sdadel_step c k presc scldel sdadel st)"
  "found st \<Longrightarrow> found (sdadel_step c k presc scldel sdadel st)"
proof -
  have nbr: "kept err old (st\<lparr>valid_timing_nbr := n\<rparr>) = kept err old st" "found (st\<lparr>valid_timing_nbr := n\<rparr>) = found st"
    "kept err old (st\<lparr>valid_timing_nbr := n, returned := b\<rparr>) = kept err old st"
    "found (st\<lparr>valid_timing_nbr := n, returned := b\<rparr>) = found st" for n b
    by (simp_all add: kept_def found_def)
  have "kept err old s \<Longrightarrow> kept err old (fold (scll_step c k presc scldel sdadel tp) [0..<I2C_SCLL_MAX] s)" for tp s
    by (rule fold_keeps, erule scll_step_kept(1))
  then show "kept err old st \<Longrightarrow> kept err old (sdadel_step c k presc scldel sdadel st)"
    by (simp add: sdadel_step_def Let_def nbr)
  have "found s \<Longrightarrow> found (fold (scll_step c k presc scldel sdadel tp) [0..<I2C_SCLL_MAX] s)" for tp s
    by (rule fold_keeps, erule scll_step_kept(2))
  then show "found st \<Longrightarrow> found (sdadel_step c k presc scldel sdadel st)"
    by (simp add: sdadel_step_def Let_def nbr)
qed

lemma scldel_step_kept:
  "kept err old st \<Longrightarrow> kept err old (scldel_step c k presc scldel st)"
  "found st \<Longrightarrow> found (scldel_step c k presc scldel st)"
  unfolding scldel_step_def using sdadel_step_kept by (auto intro: fold_keeps)

lemma presc_step_kept:
  "kept err old st \<Longrightarrow> kept err old (presc_step c k presc st)"
  "found st \<Longrightarrow> found (presc_step c k presc st)"
  unfolding presc_step_def using scldel_step_kept by (auto intro: fold_keeps)

lemma search_kept: "kept (rounded_period (freq c)) old (search_timing c clk old)"
  unfolding search_timing_def by (rule fold_keeps, erule presc_step_kept(1)) (simp add: kept_def)

lemma fold_split:
  "k < n \<Longrightarrow> fold f [0..<n] s = fold f [Suc k..<n] (f k (fold f [0..<k] s))"
proof -
  assume "k < n"
  then have "[0..<n] = [0..<k] @ k # [Suc k..<n]" by (metis le_add1 le_add_same_cancel1 less_imp_le upt_add_eq_append upt_conv_Cons le_add_diff_inverse)
  then show ?thesis by simp
qed

lemma fold_stays: "(\<And>x s. I s \<Longrightarrow> I (f x s)) \<Longrightarrow> I s \<Longrightarrow> I (fold f xs s)"
  by (induction xs arbitrary: s) simp_all

lemma fold_reaches:
  assumes "\<And>x s. I s \<Longrightarrow> I (f x s)" and "\<And>x s. F s \<Longrightarrow> F (f x s)" and "\<And>s. I s \<Longrightarrow> F (f k s)"
    and "k < n" and "I s"
  shows "F (fold f [0..<n] s)"
proof -
  have "I (fold f [0..<k] s)" using assms(1,5) by (rule fold_stays)
  then have "F (f k (fold f [0..<k] s))" by (rule assms(3))
  with assms(2) have "F (fold f [Suc k..<n] (f k (fold f [0..<k] s)))" by (rule fold_stays)
  then show ?thesis unfolding fold_split [OF assms(4)] .
qed

text \<open>The search succeeds in the first prescaler if some low and high times there are in range.\<close>

lemma first_presc_found:
  assumes "scll < 256" and "sclh < 256" and "scldel < 16"
    and before: "\<And>j. j < scldel \<Longrightarrow> \<not> (word_of_nat j + 1) * k \<ge> trise c + sudat_min c"
    and at: "(word_of_nat scldel + 1) * k \<ge> trise c + sudat_min c" and hold: "tsdadel_min c k = 0"
    and low: "scl_time c k k scll > lscl_min c"
      "k < (scl_time c k k scll - I2C_ANALOG_FILTER_DELAY_MIN - dnf c * k) div 4"
    and high: "scl_time c k k sclh \<ge> hscl_min c" "k < scl_time c k k sclh"
    and period: "p = scl_time c k k scll + scl_time c k k sclh + trise c + tfall c"
      "p \<ge> SEC2NSEC div freq_max c" "p \<le> SEC2NSEC div freq_min c"
    and error: "e = p - rounded_period (freq c)" "(if sint e < 0 then - e else e) < rounded_period (freq c)"
    and clk: "rounded_period clk = k"
  shows "found (search_timing c clk old)"
proof -
  let ?err = "rounded_period (freq c)"
  let ?s = "\<lparr>s_ret = 0xFFFFFFFF, prev_error = ?err, prev_presc = word_of_nat I2C_PRESC_MAX,
        valid_timing_nbr = 0, saved = old, returned = False\<rparr>"
  have sclh: "found (sclh_step c k 0 scldel 0 scll k (scl_time c k k scll) sclh st)" if "kept ?err old st" for st
  proof (cases "found st")
    case False
    then have "prev_error st = ?err" using that by (simp add: kept_def found_def)
    then show ?thesis
      unfolding sclh_step_def Let_def period(1) [symmetric] error(1) [symmetric]
      using high period(2,3) error(2) reg_valid by (simp add: found_def)
  qed (rule sclh_step_kept(2))
  have "found (fold (sclh_step c k 0 scldel 0 scll k (scl_time c k k scll)) [0..<I2C_SCLH_MAX] st)"
    if "kept ?err old st" for st
    by (rule fold_reaches [where I = "kept ?err old" and F = found and k = sclh], erule sclh_step_kept(1),
        erule sclh_step_kept(2), erule sclh) (use assms(2) that in \<open>simp_all only: I2C_SCLH_MAX_def\<close>)
  then have scll: "found (scll_step c k 0 scldel 0 k scll st)" if "kept ?err old st" for st
    using low that by (simp add: scll_step_def Let_def)
  have "found (fold (scll_step c k 0 scldel 0 k) [0..<I2C_SCLL_MAX] st)" if "kept ?err old st" for st
    by (rule fold_reaches [where I = "kept ?err old" and F = found and k = scll], erule scll_step_kept(1),
        erule scll_step_kept(2), erule scll) (use assms(1) that in \<open>simp_all only: I2C_SCLL_MAX_def\<close>)
  then have sdadel: "found (sdadel_step c k 0 scldel 0 ?s)"
    by (simp add: sdadel_step_def Let_def hold I2C_VALID_TIMING_NBR_def I2C_PRESC_MAX_def kept_def word_le_nat_alt)
  have "fold (sdadel_step c k 0 scldel) [0..<I2C_SDADEL_MAX] ?s =
      fold (sdadel_step c k 0 scldel) [Suc 0..<I2C_SDADEL_MAX] (sdadel_step c k 0 scldel 0 ?s)"
    using fold_split [of 0 I2C_SDADEL_MAX] by (simp add: I2C_SDADEL_MAX_def del: fold_simps)
  then have "found (fold (sdadel_step c k 0 scldel) [0..<I2C_SDADEL_MAX] ?s)"
    using sdadel by (simp only:) (rule fold_stays [of found, OF sdadel_step_kept(2)])
  then have scldel: "found (scldel_step c k 0 scldel ?s)" using at by (simp add: scldel_step_def)
  have "fold (scldel_step c k 0) [0..<j] ?s = ?s" if "j \<le> scldel" for j
    using that by (induction j) (simp_all add: scldel_step_def before)
  then have "found (presc_step c k 0 ?s)"
    unfolding presc_step_def using scldel assms(3) fold_split [of scldel I2C_SCLDEL_MAX "scldel_step c k 0" ?s]
    by (simp add: I2C_SCLDEL_MAX_def) (rule fold_stays [of found, OF scldel_step_kept(2)])
  then show ?thesis
    unfolding search_timing_def clk using fold_split [of 0 I2C_PRESC_MAX "presc_step c k" ?s]
    by (simp add: I2C_PRESC_MAX_def) (rule fold_stays [of found, OF presc_step_kept(2)])
qed

lemma sum_exceeds: "p = a + b + x + y \<Longrightarrow> m \<le> a \<Longrightarrow> m \<le> b \<Longrightarrow> q < 2 * m + x + y \<Longrightarrow> q < p"
  for p :: nat
  by linarith

text \<open>No timing is found if even the shortest clock period is too long.\<close>

lemma search_too_slow:
  assumes "charac_ok c" and "rounded_period clk = word_of_nat t" and "t \<le> 1000"
    and slow: "1000000000 div unat (freq_min c) < 2 * (50 + 3 * t) + unat (trise c) + unat (tfall c)"
  shows "s_ret (search_timing c clk old) = 0xFFFFFFFF \<and> saved (search_timing c clk old) = old"
proof -
  let ?I = "\<lambda>st. s_ret st = 0xFFFFFFFF \<and> saved st = old"
  have d: "dnf c = 0" "unat (trise c) \<le> 1000" "unat (tfall c) \<le> 1000" using assms(1) by (simp_all add: charac_ok_def)
  have sclh: "?I (sclh_step c (word_of_nat t) presc scldel sdadel scll tp (scl_time c (word_of_nat t) tp scll) sclh st)"
    if "?I st" "presc < 16" "scll < I2C_SCLL_MAX" "sclh < I2C_SCLH_MAX"
      "tp = (word_of_nat presc + 1) * word_of_nat t" for presc scldel sdadel scll tp sclh st
  proof -
    note l = scl_time_nat [OF d(1) assms(3) that(2) that(3) [unfolded I2C_SCLL_MAX_def], folded that(5)]
      and h = scl_time_nat [OF d(1) assms(3) that(2) that(4) [unfolded I2C_SCLH_MAX_def], folded that(5)]
    let ?p = "scl_time c (word_of_nat t) tp scll + scl_time c (word_of_nat t) tp sclh + trise c + tfall c"
    have "unat ?p = unat (scl_time c (word_of_nat t) tp scll) + unat (scl_time c (word_of_nat t) tp sclh) + unat (trise c) + unat (tfall c)"
      using l h d(2,3) by (simp add: unat_word_ariths)
    moreover obtain a b where "(scll + 1) * ((presc + 1) * t) = t + a" "(sclh + 1) * ((presc + 1) * t) = t + b"
      by (metis add.commute less_eqE mult_le_mono le_add2 mult_1 order_refl)
    then have "50 + 3 * t \<le> unat (scl_time c (word_of_nat t) tp scll)" "50 + 3 * t \<le> unat (scl_time c (word_of_nat t) tp sclh)"
      using l(1) h(1) by simp_all
    ultimately have "1000000000 div unat (freq_min c) < unat ?p" using slow by (rule sum_exceeds)
    then have "\<not> ?p \<le> SEC2NSEC div freq_min c" by (simp add: word_le_nat_alt unat_div SEC2NSEC_def)
    then show ?thesis using that(1) by (simp add: sclh_step_def Let_def)
  qed
  have scll: "?I (scll_step c (word_of_nat t) presc scldel sdadel ((word_of_nat presc + 1) * word_of_nat t) scll st)"
    if "?I st" "presc < 16" "scll < I2C_SCLL_MAX" for presc scldel sdadel scll st
  proof -
    have "?I (fold (sclh_step c (word_of_nat t) presc scldel sdadel scll ((word_of_nat presc + 1) * word_of_nat t)
        (scl_time c (word_of_nat t) ((word_of_nat presc + 1) * word_of_nat t) scll)) [0..<I2C_SCLH_MAX] st)"
      by (rule fold_keeps [where I = ?I], rule sclh) (use that in \<open>simp_all only: simp_thms\<close>)
    then show ?thesis using that(1) by (simp add: scll_step_def Let_def)
  qed
  have sdadel: "?I (sdadel_step c (word_of_nat t) presc scldel sdadel st)"
    if "?I st" "presc < 16" for presc scldel sdadel st
  proof -
    have "?I (fold (scll_step c (word_of_nat t) presc scldel sdadel ((word_of_nat presc + 1) * word_of_nat t)) [0..<I2C_SCLL_MAX] s)"
      if "?I s" for s
      by (rule fold_keeps [where I = ?I], rule scll) (use that \<open>presc < 16\<close> in \<open>simp_all only: simp_thms\<close>)
    then show ?thesis using that(1) by (simp add: sdadel_step_def Let_def)
  qed
  have scldel: "?I (scldel_step c (word_of_nat t) presc scldel st)" if "?I st" "presc < 16" for presc scldel st
  proof -
    have "?I (fold (sdadel_step c (word_of_nat t) presc scldel) [0..<I2C_SDADEL_MAX] st)"
      by (rule fold_keeps [where I = ?I], rule sdadel) (use that in \<open>simp_all only: simp_thms\<close>)
    then show ?thesis using that(1) by (simp add: scldel_step_def)
  qed
  have "?I (presc_step c (word_of_nat t) presc st)" if "?I st" "presc < I2C_PRESC_MAX" for presc st
    unfolding presc_step_def
    by (rule fold_keeps [where I = ?I], rule scldel) (use that in \<open>simp_all only: simp_thms I2C_PRESC_MAX_def\<close>)
  then show ?thesis unfolding search_timing_def assms(2) by (intro fold_keeps [where I = ?I]) simp_all
qed

lemma charac_nth: "i < 3 \<Longrightarrow> charac_ok (I2C_Charac ! i)"
  by (rule charac_all [OF nth_mem]) (simp add: I2C_Charac_def)

section \<open>Properties\<close>


definition no_timings :: "I2C_timing_t list" where
  "no_timings = replicate 3 \<lparr>input_clock = 0, timing = 0\<rparr>"


text \<open>If no timing is possible for a source clock, which is reported by a word of ones, the
  clock is still entered in the table beside the timing found for the clock before. The second
  request for the same clock then returns that old timing as if it were valid.\<close>

theorem i2c_timing_stale:
  assumes "1000000 \<le> unat clk" and "unat clk \<le> 1000000000" and "i2c_speed < 3" and "length T = 3"
    and "input_clock (T ! i2c_speed) \<noteq> clk" and "timing (T ! i2c_speed) \<noteq> 0"
    and "1000000000 div unat (freq_min (I2C_Charac ! i2c_speed)) <
      2 * (50 + 3 * ((1000000000 + unat clk div 2) div unat clk)) +
      unat (trise (I2C_Charac ! i2c_speed)) + unat (tfall (I2C_Charac ! i2c_speed))"
  shows "\<exists>T'. i2c_computeTiming clk i2c_speed T = (0xFFFFFFFF, T') \<and>
    i2c_computeTiming clk i2c_speed T' = (timing (T ! i2c_speed), T')"
proof -
  let ?c = "I2C_Charac ! i2c_speed"
  note s = search_too_slow [OF charac_nth [OF assms(3)] period_bound [OF assms(1,2)] assms(7), of "timing (T ! i2c_speed)"]
  show ?thesis using s assms(3-6) by (simp add: i2c_computeTiming_def Let_def)
qed

text \<open>A timing for 64 MHz in fast mode plus, then the clock changes to 4 MHz.\<close>

theorem i2c_timing_stale_witness:
  "\<exists>T'. i2c_computeTiming 4000000 2 (no_timings[2 := \<lparr>input_clock = 64000000, timing = 0x10D\<rparr>]) = (0xFFFFFFFF, T') \<and>
    i2c_computeTiming 4000000 2 T' = (0x10D, T')"
  using i2c_timing_stale [of 4000000 2 "no_timings[2 := \<lparr>input_clock = 64000000, timing = 0x10D\<rparr>]"]
  by (simp add: no_timings_def I2C_Charac_def)

end
