(* ===== verification/Twi_Slave.thy ===== *)
theory Twi_Slave
  imports Prelude "HOL-Library.Monad_Syntax"
begin

text \<open>
  The slave side of the I2C driver, \<^verbatim>\<open>libraries/Wire/src/utility/twi.c\<close>: the callbacks of the
  HAL for an address match, a byte received, the end of a transmission and the end of a
  transaction, and the function that fills the transmit buffer. An access beyond the buffer,
  and a call through a null pointer, have no result.
\<close>

section \<open>State\<close>

definition I2C_TXRX_BUFFER_SIZE :: nat where "I2C_TXRX_BUFFER_SIZE = 32"

datatype slave_mode = SLAVE_MODE_TRANSMIT | SLAVE_MODE_RECEIVE | SLAVE_MODE_LISTEN
datatype i2c_direction = I2C_DIRECTION_TRANSMIT | I2C_DIRECTION_RECEIVE
datatype i2c_status_e =
  I2C_OK | I2C_DATA_TOO_LONG | I2C_NACK_ADDR | I2C_NACK_DATA | I2C_ERROR | I2C_TIMEOUT | I2C_BUSY

text \<open>What the driver does outside its own state: calls into the HAL, with the place of the next
  byte or the bytes to send, and the bytes handed to the sketch.\<close>

datatype twi_event =
    Seq_Receive nat
  | Seq_Transmit "u8 list"
  | EnableListen
  | Slave_receive "u8 list"

text \<open>\<open>onReceive\<close> says whether a function is attached. The function attached for sending may fill
  the buffer: it is the component \<open>onTransmit\<close>.\<close>

record twi_slave =
  slaveRxNbData :: nat
  onReceive :: bool
  i2cTxRxBuffer :: "u8 list"
  i2cTxRxBufferSize :: nat
  slaveMode :: slave_mode
  isMaster :: bool
  twi_events :: "twi_event list"

type_synonym slave_fun = "twi_slave \<Rightarrow> twi_slave option"

definition twi_event :: "twi_event \<Rightarrow> twi_slave \<Rightarrow> twi_slave" where
  "twi_event e s = s\<lparr>twi_events := twi_events s @ [e]\<rparr>"

section \<open>Operations\<close>

text \<open>The bytes are stored one by one behind those already in the buffer.\<close>

fun store_bytes :: "nat \<Rightarrow> u8 list \<Rightarrow> u8 list \<Rightarrow> u8 list option" where
  "store_bytes pos [] buf = Some buf"
| "store_bytes pos (b # bs) buf =
     (if pos < length buf then store_bytes (pos + 1) bs (buf[pos := b]) else None)"

definition i2c_slave_write_IT :: "u8 list \<Rightarrow> twi_slave \<Rightarrow> (i2c_status_e \<times> twi_slave) option" where
  "i2c_slave_write_IT data s =
     (if length data > I2C_TXRX_BUFFER_SIZE then Some (I2C_DATA_TOO_LONG, s)
      else do { buf \<leftarrow> store_bytes (i2cTxRxBufferSize s) data (i2cTxRxBuffer s);
                Some (I2C_OK, s\<lparr>i2cTxRxBuffer := buf,
                  i2cTxRxBufferSize := (i2cTxRxBufferSize s + length data) mod 256\<rparr>) })"

definition call_onReceive :: slave_fun where
  "call_onReceive s =
     (if onReceive s then Some (twi_event (Slave_receive (take (slaveRxNbData s) (i2cTxRxBuffer s))) s) else None)"

definition i2c_attachSlaveRxEvent :: "twi_slave \<Rightarrow> twi_slave" where
  "i2c_attachSlaveRxEvent s = twi_event EnableListen (s\<lparr>onReceive := True\<rparr>)"

definition i2c_attachSlaveTxEvent :: "slave_fun option \<Rightarrow> slave_fun option \<times> twi_slave \<Rightarrow> slave_fun option \<times> twi_slave" where
  "i2c_attachSlaveTxEvent function =
     (\<lambda>(onTransmit, s). case function of None \<Rightarrow> (onTransmit, s) | Some f \<Rightarrow> (Some f, twi_event EnableListen s))"

definition HAL_I2C_AddrCallback :: "slave_fun option \<Rightarrow> i2c_direction \<Rightarrow> slave_fun" where
  "HAL_I2C_AddrCallback onTransmit TransferDirection s =
     do { s1 \<leftarrow> (if slaveMode s = SLAVE_MODE_RECEIVE \<and> slaveRxNbData s \<noteq> 0
                then do { s' \<leftarrow> call_onReceive s;
                          Some (s'\<lparr>slaveMode := SLAVE_MODE_LISTEN, slaveRxNbData := 0\<rparr>) }
                else Some s);
          if TransferDirection = I2C_DIRECTION_RECEIVE then
            do { let s2 = s1\<lparr>slaveMode := SLAVE_MODE_TRANSMIT\<rparr>;
                 s3 \<leftarrow> (case onTransmit of None \<Rightarrow> Some s2 | Some f \<Rightarrow> f (s2\<lparr>i2cTxRxBufferSize := 0\<rparr>));
                 if i2cTxRxBufferSize s3 \<le> length (i2cTxRxBuffer s3)
                 then Some (twi_event (Seq_Transmit (take (i2cTxRxBufferSize s3) (i2cTxRxBuffer s3))) s3)
                 else None }
          else
            (let s2 = s1\<lparr>slaveRxNbData := 0, slaveMode := SLAVE_MODE_RECEIVE\<rparr>
             in Some (twi_event (Seq_Receive (slaveRxNbData s2)) s2)) }"

definition HAL_I2C_ListenCpltCallback :: slave_fun where
  "HAL_I2C_ListenCpltCallback s =
     do { s1 \<leftarrow> (if slaveMode s = SLAVE_MODE_RECEIVE \<and> slaveRxNbData s \<noteq> 0 then call_onReceive s else Some s);
          Some (twi_event EnableListen (s1\<lparr>slaveMode := SLAVE_MODE_LISTEN, slaveRxNbData := 0\<rparr>)) }"

definition HAL_I2C_SlaveRxCpltCallback :: "twi_slave \<Rightarrow> twi_slave" where
  "HAL_I2C_SlaveRxCpltCallback s =
     (let s1 = (if slaveRxNbData s < I2C_TXRX_BUFFER_SIZE then s\<lparr>slaveRxNbData := slaveRxNbData s + 1\<rparr> else s)
      in if slaveMode s1 = SLAVE_MODE_RECEIVE then twi_event (Seq_Receive (slaveRxNbData s1)) s1 else s1)"

definition HAL_I2C_SlaveTxCpltCallback :: "twi_slave \<Rightarrow> twi_slave" where
  "HAL_I2C_SlaveTxCpltCallback s = s\<lparr>i2cTxRxBufferSize := 0\<rparr>"

definition HAL_I2C_ErrorCallback :: "twi_slave \<Rightarrow> twi_slave" where
  "HAL_I2C_ErrorCallback s = (if \<not> isMaster s then twi_event EnableListen s else s)"

section \<open>A transaction of the master\<close>

text \<open>A byte from the bus is stored by the peripheral at the place given with the last call to
  receive; then the driver is told.\<close>

definition armed_at :: "twi_slave \<Rightarrow> nat option" where
  "armed_at s = (case rev (twi_events s) of Seq_Receive n # _ \<Rightarrow> Some n | _ \<Rightarrow> None)"

definition byte_arrives :: "u8 \<Rightarrow> slave_fun" where
  "byte_arrives b s =
     do { n \<leftarrow> armed_at s;
          buf \<leftarrow> store_bytes n [b] (i2cTxRxBuffer s);
          Some (HAL_I2C_SlaveRxCpltCallback (s\<lparr>i2cTxRxBuffer := buf\<rparr>)) }"

fun bytes_arrive :: "u8 list \<Rightarrow> slave_fun" where
  "bytes_arrive [] s = Some s"
| "bytes_arrive (b # bs) s = do { s1 \<leftarrow> byte_arrives b s; bytes_arrive bs s1 }"

definition master_writes :: "slave_fun option \<Rightarrow> u8 list \<Rightarrow> slave_fun" where
  "master_writes onTransmit bs s =
     do { s1 \<leftarrow> HAL_I2C_AddrCallback onTransmit I2C_DIRECTION_TRANSMIT s;
          s2 \<leftarrow> bytes_arrive bs s1;
          HAL_I2C_ListenCpltCallback s2 }"

definition receiving :: "nat \<Rightarrow> u8 list \<Rightarrow> twi_slave \<Rightarrow> bool" where
  "receiving n bs s \<longleftrightarrow> length (i2cTxRxBuffer s) = I2C_TXRX_BUFFER_SIZE \<and> slaveMode s = SLAVE_MODE_RECEIVE \<and>
     slaveRxNbData s = n \<and> armed_at s = Some n \<and> n = length bs \<and> n \<le> I2C_TXRX_BUFFER_SIZE \<and>
     take n (i2cTxRxBuffer s) = bs"

lemma armed_simps [simp]: "armed_at (twi_event (Seq_Receive n) s) = Some n"
  by (simp add: armed_at_def twi_event_def)

text \<open>Events for the sketch, in their order.\<close>

definition deliveries :: "twi_slave \<Rightarrow> u8 list list" where
  "deliveries s = List.map_filter (\<lambda>e. case e of Slave_receive bs \<Rightarrow> Some bs | _ \<Rightarrow> None) (twi_events s)"

lemma deliveries_event:
  "deliveries (twi_event e s) = deliveries s @ (case e of Slave_receive bs \<Rightarrow> [bs] | _ \<Rightarrow> [])"
  by (cases e) (simp_all add: deliveries_def twi_event_def map_filter_def)

lemma deliveries_frame [simp]:
  "deliveries (s\<lparr>i2cTxRxBuffer := b\<rparr>) = deliveries s" "deliveries (s\<lparr>slaveMode := m\<rparr>) = deliveries s"
  "deliveries (s\<lparr>slaveRxNbData := n\<rparr>) = deliveries s"
  by (simp_all add: deliveries_def)

lemma byte_arrives_ok:
  assumes "receiving n bs s" and "n < I2C_TXRX_BUFFER_SIZE"
  shows "\<exists>s'. byte_arrives b s = Some s' \<and> receiving (Suc n) (bs @ [b]) s' \<and> deliveries s' = deliveries s \<and>
    onReceive s' = onReceive s"
proof -
  from assms have "take (Suc n) ((i2cTxRxBuffer s)[n := b]) = bs @ [b]"
    by (auto simp: receiving_def take_Suc_conv_app_nth)
  then show ?thesis
    using assms by (auto simp: byte_arrives_def receiving_def HAL_I2C_SlaveRxCpltCallback_def Let_def
        deliveries_event) (simp_all add: twi_event_def)
qed

lemma bytes_arrive_ok:
  assumes "receiving n cs s"
  shows "if n + length bs \<le> I2C_TXRX_BUFFER_SIZE
    then \<exists>s'. bytes_arrive bs s = Some s' \<and> receiving (n + length bs) (cs @ bs) s' \<and> deliveries s' = deliveries s \<and>
      onReceive s' = onReceive s
    else bytes_arrive bs s = None"
  using assms
proof (induction bs arbitrary: n cs s)
  case Nil
  then show ?case by (auto simp: receiving_def)
next
  case (Cons b bs)
  show ?case
  proof (cases "n < I2C_TXRX_BUFFER_SIZE")
    case True
    from byte_arrives_ok [OF Cons.prems True, of b] obtain s1
      where s1: "byte_arrives b s = Some s1" "receiving (Suc n) (cs @ [b]) s1" "deliveries s1 = deliveries s"
        "onReceive s1 = onReceive s" by blast
    show ?thesis using Cons.IH [OF s1(2)] s1 by (simp split: if_splits)
  next
    case False
    then have "byte_arrives b s = None" using Cons.prems by (auto simp: byte_arrives_def receiving_def)
    then show ?thesis using False by simp
  qed
qed

section \<open>Properties\<close>


definition slave0 :: twi_slave where
  "slave0 = \<lparr>slaveRxNbData = 0, onReceive = True, i2cTxRxBuffer = replicate 32 0, i2cTxRxBufferSize = 0,
     slaveMode = SLAVE_MODE_LISTEN, isMaster = False, twi_events = []\<rparr>"


lemma store_bytes_ok:
  "store_bytes pos bs buf = (if bs = [] \<or> pos + length bs \<le> length buf
     then Some (take pos buf @ bs @ drop (pos + length bs) buf) else None)"
proof (induction bs arbitrary: pos buf)
  case (Cons b bs)
  show ?case
  proof (cases "pos < length buf")
    case True
    have "take (pos + 1) (buf[pos := b]) = take pos buf @ [b]"
      using True by (simp add: take_Suc_conv_app_nth)
    then show ?thesis using True Cons.IH [of "pos + 1" "buf[pos := b]"]
      by (cases "bs = []") (auto simp: upd_conv_take_nth_drop add.commute)
  qed simp
qed simp

text \<open>Writes of a sketch to the transmit buffer are appended one after the other, and the
  master then reads them in this order. The length check only looks at the write at hand: when
  writes that pass it do not fit the buffer together, the driver writes behind the buffer.\<close>

theorem slave_write_appends:
  assumes "length (i2cTxRxBuffer s) = I2C_TXRX_BUFFER_SIZE" and "i2cTxRxBufferSize s = 0"
    and "length as \<le> I2C_TXRX_BUFFER_SIZE" and "length bs \<le> I2C_TXRX_BUFFER_SIZE" and "bs \<noteq> []"
  shows "\<exists>s1. i2c_slave_write_IT as s = Some (I2C_OK, s1) \<and>
    (if length as + length bs \<le> I2C_TXRX_BUFFER_SIZE
     then \<exists>s2. i2c_slave_write_IT bs s1 = Some (I2C_OK, s2) \<and>
       take (i2cTxRxBufferSize s2) (i2cTxRxBuffer s2) = as @ bs
     else i2c_slave_write_IT bs s1 = None)"
  using assms by (simp add: i2c_slave_write_IT_def store_bytes_ok I2C_TXRX_BUFFER_SIZE_def)

theorem slave_write_appends_witness:
  "\<exists>s1. i2c_slave_write_IT (replicate 32 1) slave0 = Some (I2C_OK, s1) \<and> i2c_slave_write_IT [2] s1 = None"
  using slave_write_appends [of slave0 "replicate 32 1" "[2]"] by (simp add: slave0_def I2C_TXRX_BUFFER_SIZE_def)

end
