(* ===== verification/Twi_Master.thy ===== *)
theory Twi_Master
  imports Twi_Slave
begin

text \<open>
  The master side of the I2C driver, \<^verbatim>\<open>libraries/Wire/src/utility/twi.c\<close>: transfers of a master
  with their two waiting loops, and the test for a device. The HAL is a record of functions on
  a state \<open>'w\<close> of the peripheral, the bus and the time; a call of the HAL may let time pass. A
  loop that does not end has no result.
\<close>

section \<open>The HAL\<close>

datatype hal_status = HAL_OK | HAL_ERROR | HAL_BUSY | HAL_TIMEOUT

text \<open>\<open>GetState\<close> tells whether the state is \<^verbatim>\<open>HAL_I2C_STATE_READY\<close>; a test for a device also leaves
  that state behind.\<close>

record 'w i2c_hal =
  Master_Seq_Transmit_IT :: "u8 \<Rightarrow> u8 list \<Rightarrow> u32 \<Rightarrow> 'w \<Rightarrow> hal_status \<times> 'w"
  Master_Seq_Receive_IT :: "u8 \<Rightarrow> nat \<Rightarrow> u32 \<Rightarrow> 'w \<Rightarrow> hal_status \<times> 'w"
  GetState :: "'w \<Rightarrow> bool \<times> 'w"
  GetError :: "'w \<Rightarrow> u32"
  GetTick :: "'w \<Rightarrow> u32"
  IsDeviceReady :: "u8 \<Rightarrow> nat \<Rightarrow> u32 \<Rightarrow> 'w \<Rightarrow> hal_status \<times> bool \<times> 'w"
  XferOptions :: "'w \<Rightarrow> u32"

definition I2C_TIMEOUT_TICK :: u32 where "I2C_TIMEOUT_TICK = 100"
definition HAL_I2C_ERROR_NONE :: u32 where "HAL_I2C_ERROR_NONE = 0"
definition HAL_I2C_ERROR_AF :: u32 where "HAL_I2C_ERROR_AF = 4"
definition HAL_I2C_ERROR_TIMEOUT :: u32 where "HAL_I2C_ERROR_TIMEOUT = 0x20"

section \<open>Transfers\<close>

text \<open>The request is repeated as long as the HAL is busy. The result has the status and the time
  \<open>delta\<close> measured last.\<close>

partial_function (option) request_loop ::
    "('w \<Rightarrow> u32) \<Rightarrow> ('w \<Rightarrow> hal_status \<times> 'w) \<Rightarrow> u32 \<Rightarrow> u32 \<Rightarrow> 'w \<Rightarrow> (i2c_status_e \<times> u32 \<times> 'w) option" where
  "request_loop tick xfer tickstart delta w =
     (case xfer w of (status, w1) \<Rightarrow>
        if status = HAL_BUSY then
          (let delta1 = tick w1 - tickstart
           in if delta1 > I2C_TIMEOUT_TICK then Some (I2C_BUSY, delta1, w1)
              else request_loop tick xfer tickstart delta1 w1)
        else Some (if status = HAL_OK then I2C_OK else I2C_ERROR, delta, w1))"

partial_function (option) completion_loop :: "'w i2c_hal \<Rightarrow> u32 \<Rightarrow> u32 \<Rightarrow> 'w \<Rightarrow> (u32 \<times> 'w) option" where
  "completion_loop hal tickstart delta w =
     (case GetState hal w of (ready, w1) \<Rightarrow>
        if \<not> ready \<and> delta < I2C_TIMEOUT_TICK then
          (let delta1 = GetTick hal w1 - tickstart
           in if GetError hal w1 \<noteq> HAL_I2C_ERROR_NONE then Some (delta1, w1)
              else completion_loop hal tickstart delta1 w1)
        else Some (delta, w1))"

definition transfer_result :: "u32 \<Rightarrow> u32 \<Rightarrow> i2c_status_e" where
  "transfer_result delta err =
     (if delta \<ge> I2C_TIMEOUT_TICK \<or> err AND HAL_I2C_ERROR_TIMEOUT = HAL_I2C_ERROR_TIMEOUT then I2C_TIMEOUT
      else if err AND HAL_I2C_ERROR_AF = HAL_I2C_ERROR_AF then I2C_NACK_DATA
      else if err \<noteq> HAL_I2C_ERROR_NONE then I2C_ERROR
      else I2C_OK)"

definition master_transfer :: "'w i2c_hal \<Rightarrow> ('w \<Rightarrow> hal_status \<times> 'w) \<Rightarrow> u32 \<Rightarrow> 'w \<Rightarrow> (i2c_status_e \<times> 'w) option" where
  "master_transfer hal xfer tickstart w =
     do { (ret, delta, w1) \<leftarrow> request_loop (GetTick hal) xfer tickstart 0 w;
          if ret = I2C_OK then
            do { (delta1, w2) \<leftarrow> completion_loop hal (GetTick hal w1) delta w1;
                 Some (transfer_result delta1 (GetError hal w2), w2) }
          else Some (ret, w1) }"

definition i2c_IsDeviceReady :: "'w i2c_hal \<Rightarrow> u8 \<Rightarrow> nat \<Rightarrow> 'w \<Rightarrow> i2c_status_e \<times> 'w" where
  "i2c_IsDeviceReady hal devAddr trials w =
     (case IsDeviceReady hal devAddr trials I2C_TIMEOUT_TICK w of (status, ready, w1) \<Rightarrow>
        (if status = HAL_OK then I2C_OK
         else if status = HAL_TIMEOUT then (if \<not> ready then I2C_TIMEOUT else I2C_NACK_ADDR)
         else if status = HAL_BUSY then (if \<not> ready then I2C_BUSY else I2C_NACK_ADDR)
         else (if \<not> ready then I2C_ERROR else I2C_NACK_ADDR), w1))"

definition i2c_master_write :: "'w i2c_hal \<Rightarrow> u8 \<Rightarrow> u8 list \<Rightarrow> 'w \<Rightarrow> (i2c_status_e \<times> 'w) option" where
  "i2c_master_write hal dev_address data w =
     (let tickstart = GetTick hal w in
      if length data = 0 then Some (i2c_IsDeviceReady hal dev_address 1 w)
      else master_transfer hal (Master_Seq_Transmit_IT hal dev_address data (XferOptions hal w)) tickstart w)"

definition i2c_master_read :: "'w i2c_hal \<Rightarrow> u8 \<Rightarrow> nat \<Rightarrow> 'w \<Rightarrow> (i2c_status_e \<times> 'w) option" where
  "i2c_master_read hal dev_address sz w =
     (let tickstart = GetTick hal w in
      master_transfer hal (Master_Seq_Receive_IT hal dev_address sz (XferOptions hal w)) tickstart w)"

section \<open>Time\<close>

text \<open>Time is counted in cycles \<open>T\<close>, of which \<open>n\<close> make a tick. A call of the HAL takes from one
  to \<open>d\<close> cycles.\<close>

definition takes :: "('w \<Rightarrow> nat) \<Rightarrow> nat \<Rightarrow> ('w \<Rightarrow> 'w) \<Rightarrow> bool" where
  "takes T d f \<longleftrightarrow> (\<forall>w. T w < T (f w) \<and> T (f w) \<le> T w + d)"

definition clocked :: "('w \<Rightarrow> nat) \<Rightarrow> nat \<Rightarrow> nat \<Rightarrow> 'w i2c_hal \<Rightarrow> bool" where
  "clocked T n d hal \<longleftrightarrow> 0 < n \<and> (\<forall>w. GetTick hal w = word_of_nat (T w div n)) \<and> d div n < 2 ^ 31 \<and>
     (\<forall>a xs m o'. takes T d (\<lambda>w. snd (Master_Seq_Transmit_IT hal a xs o' w)) \<and>
        takes T d (\<lambda>w. snd (Master_Seq_Receive_IT hal a m o' w))) \<and>
     takes T d (\<lambda>w. snd (GetState hal w))"

text \<open>Ticks from one time to a later one, as the code computes them.\<close>

lemma div_add_le: "(a + b) div n \<le> a div n + b div n + 1" for a b n :: nat
proof (cases "n = 0")
  case False
  then have "a mod n + b mod n < 2 * n" using mod_less_divisor [of n a] mod_less_divisor [of n b] by linarith
  then have "(a mod n + b mod n) div n < 2" by (simp add: less_mult_imp_div_less)
  then show ?thesis by (simp add: div_add1_eq [of a b n])
qed simp

lemma ticks_between:
  assumes "clocked T n d hal" and "T w0 \<le> T w1" and "T w1 \<le> T w0 + 101 * n + d"
  shows "unat (GetTick hal w1 - GetTick hal w0) = T w1 div n - T w0 div n"
proof -
  have n: "0 < n" and d: "d div n < 2 ^ 31" using assms(1) by (simp_all add: clocked_def)
  have "T w1 div n \<le> (T w0 + d + 101 * n) div n" using assms(3) by (intro div_le_mono) simp
  also have "\<dots> = 101 + (T w0 + d) div n" using n by (simp only: div_mult_self1)
  also have "\<dots> \<le> 101 + (T w0 div n + d div n + 1)" using div_add_le by simp
  finally have lt: "T w1 div n - T w0 div n < 2 ^ 32" using d by simp
  have "T w0 div n \<le> T w1 div n" using assms(2) by (rule div_le_mono)
  then have "GetTick hal w1 - GetTick hal w0 = word_of_nat (T w1 div n - T w0 div n)"
    using assms(1) by (simp add: clocked_def of_nat_diff)
  then show ?thesis using lt by (simp add: nat_word)
qed

text \<open>Less than \<open>k\<close> ticks are less than \<open>k\<close> ticks' worth of cycles.\<close>

lemma ticks_cycles: "0 < n \<Longrightarrow> b div n - a div n < k \<Longrightarrow> b < a + k * n" for a b n k :: nat
proof -
  assume n: "0 < n" and "b div n - a div n < k"
  then have "b div n < k + a div n" by linarith
  then have "b < (k + a div n) * n" using n by (simp add: div_less_iff_less_mult)
  also have "\<dots> \<le> k * n + a" by (simp add: add_mult_distrib)
  finally show "b < a + k * n" by simp
qed

lemma request_loop_ends:
  assumes c: "clocked T n d hal" and x: "takes T d (\<lambda>w. snd (xfer w))"
    and "T w0 \<le> T w" and "T w < T w0 + 101 * n"
  shows "\<exists>st delta' w'. request_loop (GetTick hal) xfer (GetTick hal w0) delta w = Some (st, delta', w') \<and>
    T w < T w' \<and> T w' \<le> T w0 + 101 * n + d"
  using assms(3,4)
proof (induction "T w0 + 101 * n - T w" arbitrary: w delta rule: less_induct)
  case less
  obtain status w1 where xw: "xfer w = (status, w1)" by (cases "xfer w")
  have t: "T w < T w1" "T w1 \<le> T w + d" using x xw by (auto simp: takes_def split: prod.splits dest!: spec [of _ w])
  have n: "0 < n" using c by (simp add: clocked_def)
  have u: "unat (GetTick hal w1 - GetTick hal w0) = T w1 div n - T w0 div n"
    using ticks_between [OF c, of w0 w1] t less.prems by simp
  note step = request_loop.simps [of "GetTick hal" xfer "GetTick hal w0" delta w]
  show ?case
  proof (cases "status = HAL_BUSY \<and> GetTick hal w1 - GetTick hal w0 \<le> I2C_TIMEOUT_TICK")
    case False
    then show ?thesis using t less.prems
      by (cases "status = HAL_BUSY") (simp_all add: step xw Let_def not_le)
  next
    case True
    then have "T w1 div n - T w0 div n < 101"
      using u by (simp add: I2C_TIMEOUT_TICK_def word_le_nat_alt)
    then have "T w1 < T w0 + 101 * n" by (rule ticks_cycles [OF n])
    with less.hyps [of w1 "GetTick hal w1 - GetTick hal w0"] less.prems t obtain st delta' w'
      where "request_loop (GetTick hal) xfer (GetTick hal w0) (GetTick hal w1 - GetTick hal w0) w1 =
          Some (st, delta', w')" "T w1 < T w'" "T w' \<le> T w0 + 101 * n + d" by fastforce
    then show ?thesis using True t by (auto simp: step xw Let_def not_le leD)
  qed
qed

lemma completion_loop_ends:
  assumes c: "clocked T n d hal" and "T w0 \<le> T w" and "T w < T w0 + 101 * n"
  shows "\<exists>delta' w'. completion_loop hal (GetTick hal w0) delta w = Some (delta', w') \<and>
    T w < T w' \<and> T w' \<le> T w0 + 101 * n + 2 * d"
  using assms(2,3)
proof (induction "T w0 + 101 * n - T w" arbitrary: w delta rule: less_induct)
  case less
  obtain ready w1 where xw: "GetState hal w = (ready, w1)" by (cases "GetState hal w")
  have t: "T w < T w1" "T w1 \<le> T w + d"
    using c xw by (auto simp: clocked_def takes_def split: prod.splits dest!: spec [of _ w])
  have n: "0 < n" using c by (simp add: clocked_def)
  have u: "unat (GetTick hal w1 - GetTick hal w0) = T w1 div n - T w0 div n"
    using ticks_between [OF c, of w0 w1] t less.prems by simp
  let ?delta = "GetTick hal w1 - GetTick hal w0"
  note step = completion_loop.simps [of hal "GetTick hal w0" delta w]
  note step1 = completion_loop.simps [of hal "GetTick hal w0" ?delta w1]
  obtain ready2 w2 where xw2: "GetState hal w1 = (ready2, w2)" by (cases "GetState hal w1")
  have t2: "T w1 < T w2" "T w2 \<le> T w1 + d"
    using c xw2 by (auto simp: clocked_def takes_def split: prod.splits dest!: spec [of _ w1])
  show ?case
  proof (cases "ready \<or> \<not> delta < I2C_TIMEOUT_TICK \<or> GetError hal w1 \<noteq> HAL_I2C_ERROR_NONE")
    case True
    then show ?thesis using t less.prems by (auto simp: step xw Let_def)
  next
    case go: False
    show ?thesis
    proof (cases "?delta < I2C_TIMEOUT_TICK")
      case False
      then have "completion_loop hal (GetTick hal w0) ?delta w1 = Some (?delta, w2)"
        by (simp add: step1 xw2)
      then show ?thesis using go t t2 less.prems by (simp add: step xw Let_def)
    next
      case True
      then have "T w1 div n - T w0 div n < 101"
        using u by (simp add: I2C_TIMEOUT_TICK_def word_less_nat_alt)
      then have "T w1 < T w0 + 101 * n" by (rule ticks_cycles [OF n])
      with less.hyps [of w1 ?delta] less.prems t obtain delta' w'
        where "completion_loop hal (GetTick hal w0) ?delta w1 = Some (delta', w')"
          "T w1 < T w'" "T w' \<le> T w0 + 101 * n + 2 * d" by fastforce
      then show ?thesis using go t by (simp add: step xw Let_def)
    qed
  qed
qed

lemma master_transfer_ends:
  assumes c: "clocked T n d hal" and x: "takes T d (\<lambda>w. snd (xfer w))"
  shows "\<exists>st w'. master_transfer hal xfer (GetTick hal w) w = Some (st, w') \<and> T w' \<le> T w + 202 * n + 3 * d"
proof -
  have n: "0 < n" using c by (simp add: clocked_def)
  obtain st delta w1 where r: "request_loop (GetTick hal) xfer (GetTick hal w) 0 w = Some (st, delta, w1)"
    and t1: "T w1 \<le> T w + 101 * n + d" using request_loop_ends [OF c x, of w w 0] n by auto
  obtain delta2 w2 where l: "completion_loop hal (GetTick hal w1) delta w1 = Some (delta2, w2)"
    and t2: "T w2 \<le> T w1 + 101 * n + 2 * d" using completion_loop_ends [OF c, of w1 w1 delta] n by auto
  have "T w2 \<le> T w + 202 * n + 3 * d" using t1 t2 by linarith
  then show ?thesis using t1 by (cases "st = I2C_OK") (simp_all add: master_transfer_def r l)
qed

section \<open>Results\<close>

lemma request_loop_result:
  "request_loop tick xfer t0 delta w = Some y \<Longrightarrow> fst y = I2C_OK \<longrightarrow> (\<exists>w0. xfer w0 = (HAL_OK, snd (snd y)))"
  by (erule request_loop.raw_induct
      [rotated 1, where P = "\<lambda>tick xfer t0 delta w y. fst y = I2C_OK \<longrightarrow> (\<exists>w0. xfer w0 = (HAL_OK, snd (snd y)))"])
    (fastforce simp: Let_def split: prod.splits if_splits)

lemma completion_loop_result:
  "completion_loop hal t0 delta w = Some y \<Longrightarrow> I2C_TIMEOUT_TICK \<le> fst y \<or>
     GetError hal (snd y) \<noteq> HAL_I2C_ERROR_NONE \<or> (\<exists>w0. GetState hal w0 = (True, snd y))"
  by (erule completion_loop.raw_induct
      [rotated 1, where P = "\<lambda>hal t0 delta w y. I2C_TIMEOUT_TICK \<le> fst y \<or>
         GetError hal (snd y) \<noteq> HAL_I2C_ERROR_NONE \<or> (\<exists>w0. GetState hal w0 = (True, snd y))"])
    (fastforce simp: Let_def not_less split: prod.splits if_splits)

lemma master_transfer_ok:
  assumes "master_transfer hal xfer t0 w = Some (I2C_OK, w')"
  shows "(\<exists>w0 w1. xfer w0 = (HAL_OK, w1)) \<and> (\<exists>w2. GetState hal w2 = (True, w')) \<and>
    GetError hal w' = HAL_I2C_ERROR_NONE"
proof -
  obtain delta w1 where r: "request_loop (GetTick hal) xfer t0 0 w = Some (I2C_OK, delta, w1)"
    using assms by (auto simp: master_transfer_def split: bind_splits if_splits prod.splits)
  obtain delta' where l: "completion_loop hal (GetTick hal w1) delta w1 = Some (delta', w')"
    and ok: "transfer_result delta' (GetError hal w') = I2C_OK"
    using assms r by (auto simp: master_transfer_def split: bind_splits prod.splits)
  have "delta' < I2C_TIMEOUT_TICK" "GetError hal w' = HAL_I2C_ERROR_NONE"
    using ok by (auto simp: transfer_result_def split: if_splits)
  then show ?thesis using request_loop_result [OF r] completion_loop_result [OF l] by auto
qed

section \<open>A peripheral to run the driver on\<close>

text \<open>A call takes \<open>step\<close> cycles, of which ten make a tick. Requests are refused up to the cycle
  \<open>busy\<close>, and the peripheral is ready from the cycle \<open>ready\<close> on, without an error.\<close>

definition sim_hal :: "nat \<Rightarrow> nat \<Rightarrow> nat \<Rightarrow> nat i2c_hal" where
  "sim_hal step busy ready =
     \<lparr>Master_Seq_Transmit_IT = (\<lambda>a xs opt w. (if w < busy then HAL_BUSY else HAL_OK, w + step)),
      Master_Seq_Receive_IT = (\<lambda>a m opt w. (if w < busy then HAL_BUSY else HAL_OK, w + step)),
      GetState = (\<lambda>w. (ready \<le> w, w + step)),
      GetError = (\<lambda>w. 0), GetTick = (\<lambda>w. word_of_nat (w div 10)),
      IsDeviceReady = (\<lambda>a m t w. (HAL_OK, True, w + step)), XferOptions = (\<lambda>w. 0)\<rparr>"

lemma sim_hal_simps [simp]:
  "GetState (sim_hal step busy ready) w = (ready \<le> w, w + step)"
  "GetError (sim_hal step busy ready) w = 0"
  "GetTick (sim_hal step busy ready) w = word_of_nat (w div 10)"
  "Master_Seq_Receive_IT (sim_hal step busy ready) a m opt w = (if w < busy then HAL_BUSY else HAL_OK, w + step)"
  "Master_Seq_Transmit_IT (sim_hal step busy ready) a xs opt w = (if w < busy then HAL_BUSY else HAL_OK, w + step)"
  "XferOptions (sim_hal step busy ready) w = 0"
  by (simp_all add: sim_hal_def)

lemma sim_hal_clocked: "0 < step \<Longrightarrow> step < 2 ^ 31 \<Longrightarrow> clocked id 10 step (sim_hal step busy ready)"
  by (simp add: clocked_def takes_def order.strict_trans1 [OF div_le_dividend])

section \<open>Properties\<close>

text \<open>C27: \<^verbatim>\<open>i2c_master_read\<close> and \<^verbatim>\<open>i2c_master_write\<close> return, whatever the HAL answers: if every call
  of the HAL takes some time, at most \<open>d\<close> cycles, a transfer ends within 202 ticks and three
  such calls, although the tick counter wraps around.\<close>

theorem i2c_transfer_returns:
  assumes "clocked T n d hal" and "xs \<noteq> []"
  shows "(\<exists>st w'. i2c_master_read hal a m w = Some (st, w') \<and> T w' \<le> T w + 202 * n + 3 * d) \<and>
    (\<exists>st w'. i2c_master_write hal a xs w = Some (st, w') \<and> T w' \<le> T w + 202 * n + 3 * d)"
  using assms master_transfer_ends [OF assms(1), of "Master_Seq_Receive_IT hal a m (XferOptions hal w)" w]
    master_transfer_ends [OF assms(1), of "Master_Seq_Transmit_IT hal a xs (XferOptions hal w)" w]
  by (simp add: i2c_master_read_def i2c_master_write_def clocked_def Let_def)

theorem i2c_transfer_returns_witness:
  "(\<exists>st w'. i2c_master_read (sim_hal 3 50 4000) 0x50 4 0 = Some (st, w') \<and> w' \<le> 2029) \<and>
   (\<exists>st w'. i2c_master_write (sim_hal 3 50 4000) 0x50 [1, 2] 0 = Some (st, w') \<and> w' \<le> 2029)"
  using i2c_transfer_returns [OF sim_hal_clocked [of 3 50 4000], of "[1, 2]" "0x50" 4 0] by simp

text \<open>when \<^verbatim>\<open>i2c_master_read\<close> answers \<open>I2C_OK\<close>, the HAL has accepted this very request, and at
  the end of the call it is ready and has no error.\<close>

theorem i2c_ok_is_complete:
  assumes "i2c_master_read hal a m w = Some (I2C_OK, w')"
  shows "(\<exists>w0 w1. Master_Seq_Receive_IT hal a m (XferOptions hal w) w0 = (HAL_OK, w1)) \<and>
    (\<exists>w2. GetState hal w2 = (True, w')) \<and> GetError hal w' = HAL_I2C_ERROR_NONE"
  using assms unfolding i2c_master_read_def Let_def by (rule master_transfer_ok)

theorem i2c_ok_is_complete_witness:
  "i2c_master_read (sim_hal 1 0 2) 0x50 4 0 = Some (I2C_OK, 3) \<and>
   (\<exists>w2. GetState (sim_hal 1 0 2) w2 = (True, 3)) \<and> GetError (sim_hal 1 0 2) 3 = HAL_I2C_ERROR_NONE"
proof -
  let ?hal = "sim_hal 1 0 2"
  note lims = I2C_TIMEOUT_TICK_def HAL_I2C_ERROR_NONE_def HAL_I2C_ERROR_TIMEOUT_def HAL_I2C_ERROR_AF_def
  have r: "request_loop (GetTick ?hal) (Master_Seq_Receive_IT ?hal 0x50 4 0) 0 0 0 = Some (I2C_OK, 0, 1)"
    by (subst request_loop.simps) simp
  have "completion_loop ?hal 0 0 2 = Some (0, 3)" by (subst completion_loop.simps) simp
  then have "completion_loop ?hal 0 0 1 = Some (0, 3)"
    by (subst completion_loop.simps) (simp add: lims one_add_one del: One_nat_def)
  then have "i2c_master_read ?hal 0x50 4 0 = Some (I2C_OK, 3)"
    using r by (simp add: i2c_master_read_def master_transfer_def transfer_result_def lims)
  then show ?thesis using i2c_ok_is_complete by fast
qed

text \<open>the time spent on a busy peripheral counts as time spent on the transfer when it is exactly
  the timeout: a request accepted on the next attempt is reported as \<open>I2C_TIMEOUT\<close>, whatever the
  state of the transfer, and without waiting for it.\<close>

theorem i2c_busy_spends_timeout:
  assumes "xs \<noteq> []"
    and "Master_Seq_Transmit_IT hal a xs (XferOptions hal w) w = (HAL_BUSY, w1)"
    and "GetTick hal w1 - GetTick hal w = I2C_TIMEOUT_TICK"
    and "Master_Seq_Transmit_IT hal a xs (XferOptions hal w) w1 = (HAL_OK, w2)"
  shows "i2c_master_write hal a xs w = Some (I2C_TIMEOUT, snd (GetState hal w2))"
proof -
  have "request_loop (GetTick hal) (Master_Seq_Transmit_IT hal a xs (XferOptions hal w)) (GetTick hal w) 0 w
      = Some (I2C_OK, I2C_TIMEOUT_TICK, w2)"
    using assms(2-4) by (simp add: request_loop.simps [where w = w] request_loop.simps [where w = w1])
  moreover have "completion_loop hal t I2C_TIMEOUT_TICK w2 = Some (I2C_TIMEOUT_TICK, snd (GetState hal w2))" for t
    by (subst completion_loop.simps) (simp split: prod.splits)
  ultimately show ?thesis using assms(1)
    by (simp add: i2c_master_write_def master_transfer_def transfer_result_def)
qed

text \<open>Here the peripheral is ready the moment the second request is accepted.\<close>

theorem i2c_busy_spends_timeout_witness:
  "i2c_master_write (sim_hal 1000 1000 2000) 0x50 [1] 0 = Some (I2C_TIMEOUT, 3000) \<and>
   GetState (sim_hal 1000 1000 2000) 2000 = (True, 3000)"
  using i2c_busy_spends_timeout [of "[1]" "sim_hal 1000 1000 2000" "0x50" 0 1000 2000]
  by (simp add: I2C_TIMEOUT_TICK_def)

text \<open>A device that does not answer is told apart from one that answers late.\<close>

lemma i2c_ping_results:
  "IsDeviceReady hal a 1 I2C_TIMEOUT_TICK w = (st, ready, w1) \<Longrightarrow>
   i2c_master_write hal a [] w = Some
     (if st = HAL_OK then I2C_OK else if ready then I2C_NACK_ADDR
      else case st of HAL_TIMEOUT \<Rightarrow> I2C_TIMEOUT | HAL_BUSY \<Rightarrow> I2C_BUSY | _ \<Rightarrow> I2C_ERROR, w1)"
  by (cases st) (simp_all add: i2c_master_write_def i2c_IsDeviceReady_def)

end
