(* ===== verification/Pin_Alternate.thy ===== *)
theory Pin_Alternate
  imports Pin_Lookup Pin_Config
begin

text \<open>
  Pins routed to a peripheral by a row of a table: the registers they get, for the drivers
  that use such pins.
\<close>

definition phys :: "PinName \<Rightarrow> u32 \<times> u32" where
  "phys p = (STM_PORT p, STM_PIN p)"

definition af_row :: "PinMap \<Rightarrow> bool" where
  "af_row r \<longleftrightarrow> STM_PORT (fst r) \<le> LastPort \<and> STM_PIN_FUNCTION (snd (snd r)) = 2 \<and>
     STM_PIN_OD (snd (snd r)) = 0 \<and> STM_PIN_AFNUM (snd (snd r)) \<noteq> 0x7F"

definition af_regs :: "u32 \<Rightarrow> ll_mode \<times> ll_output \<times> ll_speed \<times> ll_pull \<times> u32" where
  "af_regs f = (LL_GPIO_MODE_ALTERNATE, LL_GPIO_OUTPUT_PUSHPULL, LL_GPIO_SPEED_FREQ_VERY_HIGH,
     pull_of (STM_PIN_PUPD f), STM_PIN_AFNUM f)"

lemmas af_defs = af_row_def STM_PIN_OD_def STM_PIN_AFNUM_def table_defs

lemma af_configurable: "f AND 7 = 2 \<Longrightarrow> \<exists>sw. is_dualpad_switch_gpio_configurable p f = (True, sw)"
proof -
  assume "f AND 7 = 2"
  then have "(f AND 7) AND 3 = 2" by simp
  then have "f AND 3 = 2" by (simp add: and.assoc)
  then show ?thesis
    by (simp add: is_dualpad_switch_gpio_configurable_def PinMapAnalogSwitch_def consts_simp port_defs)
qed

lemma routed_pin:
  fixes s :: "'a gpio_scheme"
  assumes "table_ok t" and row: "(p, i, f) \<in> set (butlast t)"
    and r: "STM_PORT p \<le> LastPort" "STM_PIN_FUNCTION f = 2" "STM_PIN_AFNUM f \<noteq> 0x7F"
  shows "\<exists>s'. pinmap_pinout p t s = Some s' \<and> pin_regs s' (STM_PORT p) (STM_PIN p) =
      (LL_GPIO_MODE_ALTERNATE, if STM_PIN_OD f = 1 then LL_GPIO_OUTPUT_OPENDRAIN else LL_GPIO_OUTPUT_PUSHPULL,
       LL_GPIO_SPEED_FREQ_VERY_HIGH, pull_of (STM_PIN_PUPD f), STM_PIN_AFNUM f) \<and>
    (\<forall>port n. (port, n) \<noteq> phys p \<longrightarrow> n \<le> 15 \<longrightarrow> pin_regs s' port n = pin_regs s port n)"
proof -
  have "STM_PIN_FUNCTION f \<le> 3" using r(2) by simp
  moreover obtain sw where "is_dualpad_switch_gpio_configurable p f = (True, sw)"
    using af_configurable r(2) by (auto simp: STM_PIN_FUNCTION_def)
  ultimately show ?thesis
    using pin_function_regs [OF r(1), of f sw s] table_lookups [OF assms(1), of s] row r(2,3)
    by (fastforce simp: mode_of_def phys_def)
qed

lemma af_pin:
  fixes s :: "'a gpio_scheme"
  assumes "table_ok t" and "list_all af_row (butlast t)" and "(p, i, f) \<in> set (butlast t)"
  shows "\<exists>s'. pinmap_pinout p t s = Some s' \<and> pin_regs s' (STM_PORT p) (STM_PIN p) = af_regs f \<and>
    (\<forall>port n. (port, n) \<noteq> phys p \<longrightarrow> n \<le> 15 \<longrightarrow> pin_regs s' port n = pin_regs s port n)"
proof -
  have "STM_PORT p \<le> LastPort" "STM_PIN_FUNCTION f = 2" "STM_PIN_OD f = 0" "STM_PIN_AFNUM f \<noteq> 0x7F"
    using assms(2,3) by (auto simp: list_all_iff af_row_def)
  then show ?thesis using routed_pin [OF assms(1,3), of s] by (simp add: af_regs_def)
qed

text \<open>The same for open drain outputs.\<close>

definition od_row :: "PinMap \<Rightarrow> bool" where
  "od_row r \<longleftrightarrow> STM_PORT (fst r) \<le> LastPort \<and> STM_PIN_FUNCTION (snd (snd r)) = 2 \<and>
     STM_PIN_OD (snd (snd r)) = 1 \<and> STM_PIN_AFNUM (snd (snd r)) \<noteq> 0x7F"

definition od_regs :: "u32 \<Rightarrow> ll_mode \<times> ll_output \<times> ll_speed \<times> ll_pull \<times> u32" where
  "od_regs f = (LL_GPIO_MODE_ALTERNATE, LL_GPIO_OUTPUT_OPENDRAIN, LL_GPIO_SPEED_FREQ_VERY_HIGH,
     pull_of (STM_PIN_PUPD f), STM_PIN_AFNUM f)"

lemma od_pin:
  fixes s :: "'a gpio_scheme"
  assumes "table_ok t" and "list_all od_row (butlast t)" and "(p, i, f) \<in> set (butlast t)"
  shows "\<exists>s'. pinmap_pinout p t s = Some s' \<and> pin_regs s' (STM_PORT p) (STM_PIN p) = od_regs f \<and>
    (\<forall>port n. (port, n) \<noteq> phys p \<longrightarrow> n \<le> 15 \<longrightarrow> pin_regs s' port n = pin_regs s port n)"
proof -
  have "STM_PORT p \<le> LastPort" "STM_PIN_FUNCTION f = 2" "STM_PIN_OD f = 1" "STM_PIN_AFNUM f \<noteq> 0x7F"
    using assms(2,3) by (auto simp: list_all_iff od_row_def)
  then show ?thesis using routed_pin [OF assms(1,3), of s] by (simp add: od_regs_def)
qed

text \<open>Routing a pin leaves alone what a driver adds to the state of the pins.\<close>

lemma pin_function_more:
  fixes s s' :: "'b gpio_scheme"
  assumes "pin_function p f s = Some s'"
  shows "gpio.more s' = gpio.more s"
proof -
  have af: "gpio.more (pin_SetAFPin port pin af s) = gpio.more s" for port pin af and s :: "'b gpio_scheme"
    by (simp add: pin_SetAFPin_def)
  have pull: "gpio.more (pin_PullConfig port n c s) = gpio.more s" for port n c and s :: "'b gpio_scheme"
    by (simp add: pin_PullConfig_def)
  have sw: "gpio.more (configure_dualpad_switch pin f w s) = gpio.more s" for pin f w and s :: "'b gpio_scheme"
    by (simp add: configure_dualpad_switch_def split: option.split)
  have mode: "set_mode m af pin port s = Some s' \<Longrightarrow> gpio.more s' = gpio.more s" for m af pin port and s s' :: "'b gpio_scheme"
    by (auto simp: set_mode_def af split: if_splits)
  show ?thesis
    using assms
    by (auto simp: pin_function_def set_GPIO_Port_Clock_def Let_def pull sw split: if_splits prod.splits bind_splits dest!: mode)
qed

lemma pinmap_pinout_more:
  "pinmap_pinout p t s = Some s' \<Longrightarrow> gpio.more s' = gpio.more s"
proof -
  have "pinmap_pinout_loop p t s = Some s' \<Longrightarrow> gpio.more s' = gpio.more s" for t and s s' :: "'b gpio_scheme"
    by (induction t) (auto dest: pin_function_more split: if_splits)
  then show "pinmap_pinout p t s = Some s' \<Longrightarrow> gpio.more s' = gpio.more s"
    by (auto simp: pinmap_pinout_def split: if_splits)
qed

text \<open>Tables whose rows for one peripheral name different pins.\<close>

definition apart :: "PinMap list \<Rightarrow> PinMap list \<Rightarrow> bool" where
  "apart t u \<longleftrightarrow> list_all (\<lambda>(p, per, f). list_all (\<lambda>(q, per', f'). per = per' \<longrightarrow> phys p \<noteq> phys q) (butlast u)) (butlast t)"

lemma apart_rows:
  "apart t u \<Longrightarrow> (p, i, f) \<in> set (butlast t) \<Longrightarrow> (q, i, g) \<in> set (butlast u) \<Longrightarrow> phys p \<noteq> phys q"
  by (force simp: apart_def list_all_iff)

lemma optional_pin:
  fixes s :: "'a gpio_scheme"
  assumes "table_ok t" and "list_all af_row (butlast t)" and "p = NC \<or> (p, i, f) \<in> set (butlast t)"
  shows "\<exists>s'. pinmap_pinout p t s = Some s' \<and>
    (p \<noteq> NC \<longrightarrow> pin_regs s' (STM_PORT p) (STM_PIN p) = af_regs f) \<and> (p = NC \<longrightarrow> s' = s) \<and>
    (\<forall>port n. (port, n) \<noteq> phys p \<longrightarrow> n \<le> 15 \<longrightarrow> pin_regs s' port n = pin_regs s port n)"
proof (cases "p = NC")
  case True
  then show ?thesis by (simp add: pinmap_pinout_def)
next
  case False
  with assms(3) have "(p, i, f) \<in> set (butlast t)" by blast
  from af_pin [OF assms(1,2) this, of s] show ?thesis using False by blast
qed

lemma row_peripheral:
  "table_ok t \<Longrightarrow> (p, i, f) \<in> set (butlast t) \<Longrightarrow> pinmap_peripheral p t = Some i \<and> i \<noteq> NP"
  using table_lookups [of t] table_rows(3) [of t] by fastforce

text \<open>Several pins, some of them absent, one after the other.\<close>

fun route_pins :: "(PinName \<times> PinMap list) list \<Rightarrow> 'a gpio_scheme \<Rightarrow> 'a gpio_scheme option" where
  "route_pins [] s = Some s"
| "route_pins ((p, t) # ps) s = do { s1 \<leftarrow> pinmap_pinout p t s; route_pins ps s1 }"

definition routable :: "PinName \<times> PinMap list \<times> u32 \<Rightarrow> bool" where
  "routable = (\<lambda>(p, t, f). table_ok t \<and> list_all af_row (butlast t) \<and> (p = NC \<or> (\<exists>i. (p, i, f) \<in> set (butlast t))))"

definition routed_phys :: "(PinName \<times> PinMap list \<times> u32) list \<Rightarrow> (u32 \<times> u32) set" where
  "routed_phys l = {phys p |p t f. (p, t, f) \<in> set l \<and> p \<noteq> NC}"

lemma route_pins_regs:
  fixes s :: "'a gpio_scheme"
  assumes "list_all routable l"
    and "sorted_wrt (\<lambda>x y. fst x = NC \<or> fst y = NC \<or> phys (fst x) \<noteq> phys (fst y)) l"
  shows "\<exists>s'. route_pins (map (\<lambda>(p, t, f). (p, t)) l) s = Some s' \<and> gpio.more s' = gpio.more s \<and>
    (\<forall>(p, t, f) \<in> set l. p \<noteq> NC \<longrightarrow> pin_regs s' (STM_PORT p) (STM_PIN p) = af_regs f) \<and>
    (\<forall>port n. (port, n) \<notin> routed_phys l \<longrightarrow> n \<le> 15 \<longrightarrow> pin_regs s' port n = pin_regs s port n)"
  using assms
proof (induction l arbitrary: s)
  case (Cons x l)
  obtain p t f where x: "x = (p, t, f)" by (cases x) auto
  obtain i where r: "table_ok t" "list_all af_row (butlast t)" "p = NC \<or> (p, i, f) \<in> set (butlast t)"
    using Cons.prems(1) by (auto simp: x routable_def)
  obtain s1 where s1: "pinmap_pinout p t s = Some s1" "p \<noteq> NC \<longrightarrow> pin_regs s1 (STM_PORT p) (STM_PIN p) = af_regs f"
    "p = NC \<longrightarrow> s1 = s" "\<forall>port n. (port, n) \<noteq> phys p \<longrightarrow> n \<le> 15 \<longrightarrow> pin_regs s1 port n = pin_regs s port n"
    using optional_pin [OF r, of s] by blast
  obtain s' where s': "route_pins (map (\<lambda>(p, t, f). (p, t)) l) s1 = Some s'" "gpio.more s' = gpio.more s1"
    "\<forall>(p, t, f) \<in> set l. p \<noteq> NC \<longrightarrow> pin_regs s' (STM_PORT p) (STM_PIN p) = af_regs f"
    "\<forall>port n. (port, n) \<notin> routed_phys l \<longrightarrow> n \<le> 15 \<longrightarrow> pin_regs s' port n = pin_regs s1 port n"
    using Cons.IH [of s1] Cons.prems by auto
  have "phys p \<notin> routed_phys l" if "p \<noteq> NC" using Cons.prems(2) that by (force simp: x routed_phys_def)
  then have "pin_regs s' (STM_PORT p) (STM_PIN p) = af_regs f" if "p \<noteq> NC"
    using that s1(2) s'(4) nibble [of p] by (simp add: phys_def)
  moreover have "pin_regs s' port n = pin_regs s port n" if "(port, n) \<notin> routed_phys (x # l)" "n \<le> 15" for port n
  proof -
    have "(port, n) \<notin> routed_phys l" "p = NC \<or> (port, n) \<noteq> phys p" using that(1) by (auto simp: x routed_phys_def)
    then show ?thesis using s'(4) s1(3,4) that(2) by auto
  qed
  ultimately show ?case using s1(1) s' pinmap_pinout_more [OF s1(1)] by (simp add: x)
qed simp

end
