(* ===== verification/Twi_Init.thy ===== *)
theory Twi_Init
  imports Twi_Master Twi_Timing Pin_Alternate
begin

text \<open>
  Setting up the I2C driver, \<^verbatim>\<open>libraries/Wire/src/utility/twi.c\<close>: the clock of an instance,
  initialisation from the pins, the interrupt handlers with the table of handles they use, a
  change of the bus speed and the release of the driver. Objects are known by their
  addresses. The clock tree and \<^verbatim>\<open>HAL_I2C_Init\<close> are parameters, other calls of the HAL are
  recorded; there is no result where the code calls \<^verbatim>\<open>Error_Handler\<close> or hands a null pointer to
  the HAL.
\<close>

section \<open>State\<close>

datatype i2c_clock_source = CLKSOURCE_HSI | CLKSOURCE_D2PCLK1 | CLKSOURCE_CSI | CLKSOURCE_PLL3
datatype i2c4_clock_source = I2C4_HSI | I2C4_D3PCLK1 | I2C4_CSI | I2C4_PLL3

record i2c_clocks =
  PeriphCLKFreq_I2C123 :: u32
  PeriphCLKFreq_I2C4 :: u32
  I2C123_SOURCE :: i2c_clock_source
  I2C4_SOURCE :: i2c4_clock_source
  PCLK1Freq :: u32
  D3PCLK1Freq :: u32
  PLL3_R_Frequency :: u32

definition HSI_VALUE :: u32 where "HSI_VALUE = 64000000"
definition CSI_VALUE :: u32 where "CSI_VALUE = 4000000"

datatype i2c_state = HAL_I2C_STATE_RESET | HAL_I2C_STATE_READY | HAL_I2C_STATE_BUSY
datatype irqn = I2C_EV_IRQn peripheral | I2C_ER_IRQn peripheral | Other_IRQn nat

record i2c_handle =
  I2c_Instance :: peripheral
  Init_Timing :: u32
  OwnAddress1 :: u32
  OwnAddress2 :: u32
  AddressingMode :: u32
  DualAddressMode :: bool
  GeneralCallMode :: bool
  I2c_NoStretchMode :: bool
  I2c_State :: i2c_state

record i2c_t =
  i2c :: peripheral
  i2c_handle :: i2c_handle
  sda :: PinName
  scl :: PinName
  irq :: irqn
  irqER :: irqn
  i2c_slave :: twi_slave
  generalCall :: u8
  NoStretchMode :: u8

datatype i2c_call =
    I2c_clk_enable peripheral
  | I2c_force_reset peripheral
  | I2c_release_reset peripheral
  | I2c_init_called i2c_handle
  | I2c_deinit_called i2c_handle
  | I2c_disable peripheral
  | I2c_enable peripheral

text \<open>The state of the driver extends that of the pins. \<open>i2c_handles\<close> has the addresses of handles.\<close>

record i2c_driver = gpio +
  i2c_objs :: "u32 \<Rightarrow> i2c_t"
  i2c_handles :: "peripheral \<Rightarrow> u32 option"
  nvic_enabled :: "irqn \<Rightarrow> bool"
  ClockTiming :: "I2C_timing_t list"
  i2c_calls :: "i2c_call list"

definition i2c_put :: "u32 \<Rightarrow> i2c_t \<Rightarrow> i2c_driver \<Rightarrow> i2c_driver" where
  "i2c_put obj ob s = s\<lparr>i2c_objs := (i2c_objs s)(obj := ob)\<rparr>"

definition i2c_log :: "i2c_call list \<Rightarrow> i2c_driver \<Rightarrow> i2c_driver" where
  "i2c_log cs s = s\<lparr>i2c_calls := i2c_calls s @ cs\<rparr>"

text \<open>The handle lies behind the pointer to the instance.\<close>

definition offset_i2c :: u32 where "offset_i2c = 0"
definition offset_handle :: u32 where "offset_handle = 4"

definition get_i2c_obj :: "u32 \<Rightarrow> u32" where
  "get_i2c_obj hi2c = (hi2c - offset_handle) - offset_i2c"

section \<open>Clock and timing\<close>

definition i2c_getClkFreq :: "i2c_clocks \<Rightarrow> peripheral \<Rightarrow> u32" where
  "i2c_getClkFreq clk i =
     (if i \<in> {I2C1, I2C2, I2C3} then
        (if PeriphCLKFreq_I2C123 clk = 0 then
           (case I2C123_SOURCE clk of CLKSOURCE_HSI \<Rightarrow> HSI_VALUE | CLKSOURCE_D2PCLK1 \<Rightarrow> PCLK1Freq clk
             | CLKSOURCE_CSI \<Rightarrow> CSI_VALUE | CLKSOURCE_PLL3 \<Rightarrow> PLL3_R_Frequency clk)
         else PeriphCLKFreq_I2C123 clk)
      else if i = I2C4 then
        (if PeriphCLKFreq_I2C4 clk = 0 then
           (case I2C4_SOURCE clk of I2C4_HSI \<Rightarrow> HSI_VALUE | I2C4_D3PCLK1 \<Rightarrow> D3PCLK1Freq clk
             | I2C4_CSI \<Rightarrow> CSI_VALUE | I2C4_PLL3 \<Rightarrow> PLL3_R_Frequency clk)
         else PeriphCLKFreq_I2C4 clk)
      else 0)"

definition set_timing :: "i2c_clocks \<Rightarrow> u32 \<Rightarrow> u32 \<Rightarrow> i2c_driver \<Rightarrow> u32 \<times> i2c_driver" where
  "set_timing clk obj frequency s =
     (case i2c_getTiming (i2c_getClkFreq clk (i2c (i2c_objs s obj))) frequency (ClockTiming s) of
        (f, tab) \<Rightarrow> (f, s\<lparr>ClockTiming := tab\<rparr>))"

section \<open>Operations\<close>

definition claim_instance :: "u32 \<Rightarrow> i2c_t \<Rightarrow> i2c_driver \<Rightarrow> i2c_driver" where
  "claim_instance obj ob s =
     (let i = i2c ob in
      if i \<in> {I2C1, I2C2, I2C3, I2C4} then
        i2c_log [I2c_clk_enable i, I2c_force_reset i, I2c_release_reset i]
          (i2c_put obj (ob\<lparr>irq := I2C_EV_IRQn i, irqER := I2C_ER_IRQn i\<rparr>)
            (s\<lparr>i2c_handles := (i2c_handles s)(i \<mapsto> obj + offset_handle)\<rparr>))
      else i2c_put obj ob s)"

definition fill_handle :: "i2c_t \<Rightarrow> u32 \<Rightarrow> u32 \<Rightarrow> u32 \<Rightarrow> i2c_handle" where
  "fill_handle ob f addressingMode ownAddress =
     (i2c_handle ob)\<lparr>I2c_Instance := i2c ob, Init_Timing := f, OwnAddress1 := ownAddress, OwnAddress2 := 0,
       AddressingMode := addressingMode, DualAddressMode := False, GeneralCallMode := (generalCall ob \<noteq> 0),
       I2c_NoStretchMode := (NoStretchMode ob \<noteq> 0), I2c_State := HAL_I2C_STATE_RESET\<rparr>"

definition start_i2c :: "(i2c_handle \<Rightarrow> hal_status \<times> i2c_handle) \<Rightarrow> u32 \<Rightarrow> i2c_handle \<Rightarrow> i2c_driver \<Rightarrow> i2c_driver option" where
  "start_i2c hal_init obj h s =
     (let ob = i2c_objs s obj;
          s1 = i2c_log [I2c_init_called h]
            (s\<lparr>nvic_enabled := (nvic_enabled s)(irq ob := True, irqER ob := True)\<rparr>)
      in case hal_init h of (status, h') \<Rightarrow>
        if status \<noteq> HAL_OK then None
        else Some (i2c_put obj (ob\<lparr>i2c_handle := h',
          i2c_slave := (i2c_slave ob)\<lparr>slaveRxNbData := 0, slaveMode := SLAVE_MODE_LISTEN\<rparr>\<rparr>) s1))"

definition i2c_custom_init :: "i2c_clocks \<Rightarrow> (i2c_handle \<Rightarrow> hal_status \<times> i2c_handle) \<Rightarrow> u32 \<Rightarrow> u32 \<Rightarrow> u32 \<Rightarrow> u32 \<Rightarrow>
    i2c_driver \<Rightarrow> i2c_driver option" where
  "i2c_custom_init clk hal_init obj frequency addressingMode ownAddress s =
     (if obj = 0 then Some s
      else
        (let ob = i2c_objs s obj in
         do { i2c_sda \<leftarrow> pinmap_peripheral (sda ob) PinMap_I2C_SDA;
              i2c_scl \<leftarrow> pinmap_peripheral (scl ob) PinMap_I2C_SCL;
              if i2c_sda = NP \<or> i2c_scl = NP then Some s
              else
                (let ob1 = ob\<lparr>i2c := pinmap_merge_peripheral i2c_sda i2c_scl\<rparr> in
                 if i2c ob1 = NP then Some (i2c_put obj ob1 s)
                 else
                   do { s1 \<leftarrow> pinmap_pinout (scl ob) PinMap_I2C_SCL (claim_instance obj ob1 s);
                        s2 \<leftarrow> pinmap_pinout (sda ob) PinMap_I2C_SDA s1;
                        let (f, s3) = set_timing clk obj frequency s2;
                        start_i2c hal_init obj (fill_handle (i2c_objs s3 obj) f addressingMode ownAddress) s3 }) }))"

definition I2C_ADDRESSINGMODE_7BIT :: u32 where "I2C_ADDRESSINGMODE_7BIT = 1"

definition i2c_init :: "i2c_clocks \<Rightarrow> (i2c_handle \<Rightarrow> hal_status \<times> i2c_handle) \<Rightarrow> u32 \<Rightarrow> i2c_driver \<Rightarrow> i2c_driver option" where
  "i2c_init clk hal_init obj s = i2c_custom_init clk hal_init obj 100000 I2C_ADDRESSINGMODE_7BIT 0x33 s"

definition i2c_deinit :: "u32 \<Rightarrow> i2c_driver \<Rightarrow> i2c_driver" where
  "i2c_deinit obj s =
     (let ob = i2c_objs s obj in
      i2c_log [I2c_deinit_called (i2c_handle ob)]
        (s\<lparr>nvic_enabled := (nvic_enabled s)(irq ob := False, irqER ob := False)\<rparr>))"

definition i2c_setTiming :: "i2c_clocks \<Rightarrow> (i2c_handle \<Rightarrow> hal_status \<times> i2c_handle) \<Rightarrow> u32 \<Rightarrow> u32 \<Rightarrow> i2c_driver \<Rightarrow> i2c_driver" where
  "i2c_setTiming clk hal_init obj frequency s =
     (case set_timing clk obj frequency s of (f, s1) \<Rightarrow>
        (let ob = i2c_objs s1 obj;
             h = (i2c_handle ob)\<lparr>Init_Timing := f\<rparr>;
             h' = snd (hal_init h)
         in i2c_log [I2c_disable (I2c_Instance (i2c_handle ob)), I2c_init_called h, I2c_enable (I2c_Instance h')]
              (i2c_put obj (ob\<lparr>i2c_handle := h'\<rparr>) s1)))"

section \<open>Interrupts\<close>

datatype i2c_isr = HAL_I2C_EV_IRQHandler | HAL_I2C_ER_IRQHandler

text \<open>The routines of the HAL that an interrupt runs, with the handle they get.\<close>

definition I2C_IRQHandler :: "irqn \<Rightarrow> i2c_driver \<Rightarrow> (i2c_isr \<times> u32) list option" where
  "I2C_IRQHandler n s =
     (case n of
        I2C_EV_IRQn i \<Rightarrow> do { handle \<leftarrow> i2c_handles s i;
          Some ((HAL_I2C_EV_IRQHandler, handle) # (if i = I2C4 then [(HAL_I2C_ER_IRQHandler, handle)] else [])) }
      | I2C_ER_IRQn i \<Rightarrow> do { handle \<leftarrow> i2c_handles s i; Some [(HAL_I2C_ER_IRQHandler, handle)] }
      | Other_IRQn _ \<Rightarrow> Some [])"

end
