(* ===== verification/Twi_Init_Properties.thy ===== *)
theory Twi_Init_Properties
  imports Twi_Init
begin

text \<open>
  Properties of the setup of the I2C driver: what initialisation does to pins, handle and
  interrupts, and that an interrupt of a bus always finds a handle.
\<close>

section \<open>Pins\<close>

lemma od_tables: "list_all od_row (butlast PinMap_I2C_SDA)" "list_all od_row (butlast PinMap_I2C_SCL)"
  by (simp_all add: od_row_def af_defs PinMap_I2C_SDA_def PinMap_I2C_SCL_def)

lemma apart_i2c: "apart PinMap_I2C_SDA PinMap_I2C_SCL"
  by (simp add: apart_def phys_def STM_PORT_def STM_PIN_def port_defs consts_simp
      PinMap_I2C_SDA_def PinMap_I2C_SCL_def)

lemmas i2c_tables_ok = PinMap_I2C_SDA_ok [THEN conjunct1] PinMap_I2C_SCL_ok [THEN conjunct1]

lemma i2c_rows: "(p, i, f) \<in> set (butlast PinMap_I2C_SDA) \<Longrightarrow> i \<in> {I2C1, I2C2, I2C3, I2C4}"
  by (auto simp: PinMap_I2C_SDA_def)

text \<open>The part of the state that is not of the pins.\<close>

definition driver_part ::
    "i2c_driver \<Rightarrow> (u32 \<Rightarrow> i2c_t) \<times> (peripheral \<Rightarrow> u32 option) \<times> (irqn \<Rightarrow> bool) \<times> I2C_timing_t list \<times> i2c_call list" where
  "driver_part s = (i2c_objs s, i2c_handles s, nvic_enabled s, ClockTiming s, i2c_calls s)"

lemma pinout_driver: "pinmap_pinout p t s = Some s' \<Longrightarrow> driver_part s' = driver_part s"
  using pinmap_pinout_more [of p t s s'] by (cases s; cases s') (simp add: driver_part_def)

lemma pin_regs_driver [simp]:
  "pin_regs (s\<lparr>i2c_objs := a\<rparr>) = pin_regs s" "pin_regs (s\<lparr>i2c_handles := b\<rparr>) = pin_regs s"
  "pin_regs (s\<lparr>nvic_enabled := c\<rparr>) = pin_regs s" "pin_regs (s\<lparr>ClockTiming := d\<rparr>) = pin_regs s"
  "pin_regs (s\<lparr>i2c_calls := e\<rparr>) = pin_regs s"
  by (simp_all add: fun_eq_iff pin_regs_def alternate_def)

lemma i2c_pins:
  fixes s :: i2c_driver
  assumes "(p, i, f1) \<in> set (butlast PinMap_I2C_SDA)" and "(q, i, f2) \<in> set (butlast PinMap_I2C_SCL)"
  shows "\<exists>s1 s2. pinmap_pinout q PinMap_I2C_SCL s = Some s1 \<and> pinmap_pinout p PinMap_I2C_SDA s1 = Some s2 \<and>
    driver_part s2 = driver_part s \<and>
    pin_regs s2 (STM_PORT p) (STM_PIN p) = od_regs f1 \<and> pin_regs s2 (STM_PORT q) (STM_PIN q) = od_regs f2 \<and>
    (\<forall>port n. (port, n) \<notin> {phys p, phys q} \<longrightarrow> n \<le> 15 \<longrightarrow> pin_regs s2 port n = pin_regs s port n)"
proof -
  obtain s1 where s1: "pinmap_pinout q PinMap_I2C_SCL s = Some s1" "pin_regs s1 (STM_PORT q) (STM_PIN q) = od_regs f2"
    "\<forall>port n. (port, n) \<noteq> phys q \<longrightarrow> n \<le> 15 \<longrightarrow> pin_regs s1 port n = pin_regs s port n"
    using od_pin [OF i2c_tables_ok(2) od_tables(2) assms(2), of s] by blast
  obtain s2 where s2: "pinmap_pinout p PinMap_I2C_SDA s1 = Some s2" "pin_regs s2 (STM_PORT p) (STM_PIN p) = od_regs f1"
    "\<forall>port n. (port, n) \<noteq> phys p \<longrightarrow> n \<le> 15 \<longrightarrow> pin_regs s2 port n = pin_regs s1 port n"
    using od_pin [OF i2c_tables_ok(1) od_tables(1) assms(1), of s1] by blast
  have "phys p \<noteq> phys q" using apart_rows [OF apart_i2c assms] .
  then have "pin_regs s2 (STM_PORT q) (STM_PIN q) = od_regs f2"
    using s2(3) [rule_format, of "STM_PORT q" "STM_PIN q"] s1(2) nibble [of q] by (auto simp: phys_def)
  moreover have "driver_part s2 = driver_part s" using pinout_driver s1(1) s2(1) by metis
  ultimately show ?thesis using s1 s2 by simp
qed

section \<open>Initialisation\<close>

lemma claim_instance_ok:
  assumes "i2c ob \<in> {I2C1, I2C2, I2C3, I2C4}"
  shows "driver_part (claim_instance obj ob s) =
      ((i2c_objs s)(obj := ob\<lparr>irq := I2C_EV_IRQn (i2c ob), irqER := I2C_ER_IRQn (i2c ob)\<rparr>),
       (i2c_handles s)(i2c ob \<mapsto> obj + offset_handle), nvic_enabled s, ClockTiming s,
       i2c_calls s @ [I2c_clk_enable (i2c ob), I2c_force_reset (i2c ob), I2c_release_reset (i2c ob)])"
    and "pin_regs (claim_instance obj ob s) = pin_regs s"
  using assms by (simp_all add: claim_instance_def driver_part_def i2c_log_def i2c_put_def Let_def)

lemma i2c_peripherals:
  assumes "(p, i, f1) \<in> set (butlast PinMap_I2C_SDA)" and "(q, i, f2) \<in> set (butlast PinMap_I2C_SCL)"
  shows "pinmap_peripheral p PinMap_I2C_SDA = Some i" "pinmap_peripheral q PinMap_I2C_SCL = Some i" "i \<noteq> NP"
    "pinmap_merge_peripheral i i = i"
  using row_peripheral [OF i2c_tables_ok(1) assms(1)] row_peripheral [OF i2c_tables_ok(2) assms(2)]
  by (simp_all add: pinmap_merge_peripheral_def)

lemma i2c_init_run:
  assumes "obj \<noteq> 0"
    and sda: "(sda (i2c_objs s obj), i, f1) \<in> set (butlast PinMap_I2C_SDA)"
    and scl: "(scl (i2c_objs s obj), i, f2) \<in> set (butlast PinMap_I2C_SCL)"
    and hal: "\<forall>h. fst (hal_init h) = HAL_OK"
    and t: "t = i2c_getTiming (i2c_getClkFreq clk i) frequency (ClockTiming s)"
    and ob': "ob' = (i2c_objs s obj)\<lparr>i2c := i, irq := I2C_EV_IRQn i, irqER := I2C_ER_IRQn i\<rparr>"
    and h: "h = fill_handle ob' (fst t) am own"
  shows "\<exists>s'. i2c_custom_init clk hal_init obj frequency am own s = Some s' \<and>
    driver_part s' = ((i2c_objs s)(obj := ob'\<lparr>i2c_handle := snd (hal_init h),
        i2c_slave := (i2c_slave ob')\<lparr>slaveRxNbData := 0, slaveMode := SLAVE_MODE_LISTEN\<rparr>\<rparr>),
      (i2c_handles s)(i \<mapsto> obj + offset_handle),
      (nvic_enabled s)(I2C_EV_IRQn i := True, I2C_ER_IRQn i := True), snd t,
      i2c_calls s @ [I2c_clk_enable i, I2c_force_reset i, I2c_release_reset i, I2c_init_called h]) \<and>
    pin_regs s' (STM_PORT (sda (i2c_objs s obj))) (STM_PIN (sda (i2c_objs s obj))) = od_regs f1 \<and>
    pin_regs s' (STM_PORT (scl (i2c_objs s obj))) (STM_PIN (scl (i2c_objs s obj))) = od_regs f2 \<and>
    (\<forall>port n. (port, n) \<notin> {phys (sda (i2c_objs s obj)), phys (scl (i2c_objs s obj))} \<longrightarrow> n \<le> 15 \<longrightarrow>
       pin_regs s' port n = pin_regs s port n)"
proof -
  define ob where "ob = (i2c_objs s obj)\<lparr>i2c := i\<rparr>"
  have ob'': "ob' = ob\<lparr>irq := I2C_EV_IRQn i, irqER := I2C_ER_IRQn i\<rparr>" by (simp add: ob_def ob')
  have ob: "i2c ob = i" "i2c ob' = i" "irq ob' = I2C_EV_IRQn i" "irqER ob' = I2C_ER_IRQn i"
    by (simp_all add: ob_def ob')
  note per = i2c_peripherals [OF sda scl]
  define s0 where "s0 = claim_instance obj ob s"
  note claim = claim_instance_ok [of ob obj s, folded s0_def, unfolded ob(1), OF i2c_rows [OF sda], folded ob'']
  obtain s1 s2 where pins: "pinmap_pinout (scl (i2c_objs s obj)) PinMap_I2C_SCL s0 = Some s1"
      "pinmap_pinout (sda (i2c_objs s obj)) PinMap_I2C_SDA s1 = Some s2" "driver_part s2 = driver_part s0"
    and regs: "pin_regs s2 (STM_PORT (sda (i2c_objs s obj))) (STM_PIN (sda (i2c_objs s obj))) = od_regs f1"
      "pin_regs s2 (STM_PORT (scl (i2c_objs s obj))) (STM_PIN (scl (i2c_objs s obj))) = od_regs f2"
      "\<forall>port n. (port, n) \<notin> {phys (sda (i2c_objs s obj)), phys (scl (i2c_objs s obj))} \<longrightarrow> n \<le> 15 \<longrightarrow>
         pin_regs s2 port n = pin_regs s port n"
    using i2c_pins [OF sda scl, of s0] claim(2) by metis
  have d: "i2c_objs s2 = (i2c_objs s)(obj := ob')" "i2c_handles s2 = (i2c_handles s)(i \<mapsto> obj + offset_handle)"
    "nvic_enabled s2 = nvic_enabled s" "ClockTiming s2 = ClockTiming s"
    "i2c_calls s2 = i2c_calls s @ [I2c_clk_enable i, I2c_force_reset i, I2c_release_reset i]"
    using pins(3) claim(1) by (simp_all add: driver_part_def)
  have st: "set_timing clk obj frequency s2 = (fst t, s2\<lparr>ClockTiming := snd t\<rparr>)"
    by (simp add: set_timing_def d ob t split_beta)
  obtain s' where s': "start_i2c hal_init obj h (s2\<lparr>ClockTiming := snd t\<rparr>) = Some s'"
    "driver_part s' = ((i2c_objs s)(obj := ob'\<lparr>i2c_handle := snd (hal_init h),
        i2c_slave := (i2c_slave ob')\<lparr>slaveRxNbData := 0, slaveMode := SLAVE_MODE_LISTEN\<rparr>\<rparr>),
      (i2c_handles s)(i \<mapsto> obj + offset_handle),
      (nvic_enabled s)(I2C_EV_IRQn i := True, I2C_ER_IRQn i := True), snd t,
      i2c_calls s @ [I2c_clk_enable i, I2c_force_reset i, I2c_release_reset i, I2c_init_called h])"
    "pin_regs s' = pin_regs s2"
    using hal by (simp add: start_i2c_def d i2c_put_def i2c_log_def driver_part_def split_beta ob Let_def)
  moreover have "i2c_custom_init clk hal_init obj frequency am own s = Some s'"
    using assms(1) pins(1,2) s'(1) st
    by (simp add: i2c_custom_init_def per Let_def ob_def [symmetric] s0_def [symmetric] ob d h)
  ultimately show ?thesis using s'(2) regs unfolding s'(3) [symmetric] by blast
qed

text \<open>C28: Given a data and a clock pin of one I2C instance, initialisation routes both as open drain
  outputs of the instance and changes no other pin; takes the instance, resets it and
  initialises it with the timing of the bus speed asked for and the address given; enables
  its two interrupts, no others; and makes them reach this object. No other object changes.\<close>

theorem i2c_init_configures:
  fixes clk :: i2c_clocks and frequency :: u32
  assumes "obj \<noteq> 0"
    and sda: "(sda (i2c_objs s obj), i, f1) \<in> set (butlast PinMap_I2C_SDA)"
    and scl: "(scl (i2c_objs s obj), i, f2) \<in> set (butlast PinMap_I2C_SCL)"
    and hal: "\<forall>h. fst (hal_init h) = HAL_OK"
  defines "t \<equiv> i2c_getTiming (i2c_getClkFreq clk i) frequency (ClockTiming s)"
  shows "\<exists>s' h. i2c_custom_init clk hal_init obj frequency am own s = Some s' \<and>
    (I2c_Instance h, Init_Timing h, OwnAddress1 h, AddressingMode h, I2c_State h) =
      (i, fst t, own, am, HAL_I2C_STATE_RESET) \<and>
    i2c_calls s' = i2c_calls s @ [I2c_clk_enable i, I2c_force_reset i, I2c_release_reset i, I2c_init_called h] \<and>
    i2c (i2c_objs s' obj) = i \<and> i2c_handle (i2c_objs s' obj) = snd (hal_init h) \<and>
    slaveRxNbData (i2c_slave (i2c_objs s' obj)) = 0 \<and> slaveMode (i2c_slave (i2c_objs s' obj)) = SLAVE_MODE_LISTEN \<and>
    (\<forall>obj'. obj' \<noteq> obj \<longrightarrow> i2c_objs s' obj' = i2c_objs s obj') \<and>
    map_option get_i2c_obj (i2c_handles s' i) = Some obj \<and>
    nvic_enabled s' = (nvic_enabled s)(I2C_EV_IRQn i := True, I2C_ER_IRQn i := True) \<and> ClockTiming s' = snd t \<and>
    pin_regs s' (STM_PORT (sda (i2c_objs s obj))) (STM_PIN (sda (i2c_objs s obj))) = od_regs f1 \<and>
    pin_regs s' (STM_PORT (scl (i2c_objs s obj))) (STM_PIN (scl (i2c_objs s obj))) = od_regs f2 \<and>
    (\<forall>port n. (port, n) \<notin> {phys (sda (i2c_objs s obj)), phys (scl (i2c_objs s obj))} \<longrightarrow> n \<le> 15 \<longrightarrow>
       pin_regs s' port n = pin_regs s port n)"
proof -
  define ob' where "ob' = (i2c_objs s obj)\<lparr>i2c := i, irq := I2C_EV_IRQn i, irqER := I2C_ER_IRQn i\<rparr>"
  define h where "h = fill_handle ob' (fst t) am own"
  have h: "(I2c_Instance h, Init_Timing h, OwnAddress1 h, AddressingMode h, I2c_State h) =
      (i, fst t, own, am, HAL_I2C_STATE_RESET)" by (simp add: h_def fill_handle_def ob'_def)
  have "get_i2c_obj (obj + offset_handle) = obj" by (simp add: get_i2c_obj_def offset_i2c_def)
  then show ?thesis
    using h i2c_init_run [OF assms(1) sda scl hal t_def [THEN meta_eq_to_obj_eq] ob'_def h_def]
    by (fastforce simp: driver_part_def ob'_def)
qed

text \<open>Here the address of the object is 64, and the driver is fresh.\<close>

definition i2c_handle0 :: i2c_handle where
  "i2c_handle0 = \<lparr>I2c_Instance = NP, Init_Timing = 0, OwnAddress1 = 0, OwnAddress2 = 0, AddressingMode = 0,
     DualAddressMode = False, GeneralCallMode = False, I2c_NoStretchMode = False, I2c_State = HAL_I2C_STATE_RESET\<rparr>"

definition i2c_obj0 :: "PinName \<Rightarrow> PinName \<Rightarrow> i2c_t" where
  "i2c_obj0 p q = \<lparr>i2c = NP, i2c_handle = i2c_handle0, sda = p, scl = q, irq = Other_IRQn 0, irqER = Other_IRQn 0,
     i2c_slave = \<lparr>slaveRxNbData = 0, onReceive = False, i2cTxRxBuffer = replicate 32 0, i2cTxRxBufferSize = 0,
       slaveMode = SLAVE_MODE_TRANSMIT, isMaster = True, twi_events = []\<rparr>, generalCall = 0, NoStretchMode = 0\<rparr>"

definition i2c_driver0 :: "PinName \<Rightarrow> PinName \<Rightarrow> i2c_driver" where
  "i2c_driver0 p q = gpio.extend gpio0 \<lparr>i2c_objs = (\<lambda>_. i2c_obj0 p q), i2c_handles = (\<lambda>_. None),
     nvic_enabled = (\<lambda>_. False), ClockTiming = replicate 3 \<lparr>input_clock = 0, timing = 0\<rparr>, i2c_calls = []\<rparr>"

definition i2c_clocks0 :: i2c_clocks where
  "i2c_clocks0 = \<lparr>PeriphCLKFreq_I2C123 = 0, PeriphCLKFreq_I2C4 = 0, I2C123_SOURCE = CLKSOURCE_D2PCLK1,
     I2C4_SOURCE = I2C4_D3PCLK1, PCLK1Freq = 120000000, D3PCLK1Freq = 120000000, PLL3_R_Frequency = 0\<rparr>"

definition hal_init0 :: "i2c_handle \<Rightarrow> hal_status \<times> i2c_handle" where
  "hal_init0 h = (HAL_OK, h\<lparr>I2c_State := HAL_I2C_STATE_READY\<rparr>)"

lemma i2c_driver0_objs: "i2c_objs (i2c_driver0 p q) obj = i2c_obj0 p q" "sda (i2c_obj0 p q) = p" "scl (i2c_obj0 p q) = q"
  "nvic_enabled (i2c_driver0 p q) n = False" "i2c_calls (i2c_driver0 p q) = []"
  by (simp_all add: i2c_driver0_def i2c_obj0_def gpio.defs)

lemma i2c_row_pb9: "(PB 9, I2C1, STM_PIN_DATA STM_MODE_AF_OD GPIO_NOPULL 4) \<in> set (butlast PinMap_I2C_SDA)"
  and i2c_row_pb8: "(PB 8, I2C1, STM_PIN_DATA STM_MODE_AF_OD GPIO_NOPULL 4) \<in> set (butlast PinMap_I2C_SCL)"
  by (simp_all add: PinMap_I2C_SDA_def PinMap_I2C_SCL_def)

theorem i2c_init_configures_witness:
  "\<exists>s'. i2c_custom_init i2c_clocks0 hal_init0 64 100000 1 0x33 (i2c_driver0 (PB 9) (PB 8)) = Some s' \<and>
     i2c (i2c_objs s' 64) = I2C1 \<and> map_option get_i2c_obj (i2c_handles s' I2C1) = Some 64 \<and>
     length (i2c_calls s') = 4"
proof -
  have "\<forall>h. fst (hal_init0 h) = HAL_OK" by (simp add: hal_init0_def)
  from i2c_init_configures [OF _ _ _ this, of 64 "i2c_driver0 (PB 9) (PB 8)" I2C1, unfolded i2c_driver0_objs,
      OF _ i2c_row_pb9 i2c_row_pb8, of i2c_clocks0 100000 1 "0x33"]
  show ?thesis by fastforce
qed

section \<open>Interrupts find their object\<close>

text \<open>What can happen to the driver; a sketch may give an object other pins and modes.\<close>

inductive i2c_step :: "i2c_clocks \<Rightarrow> (i2c_handle \<Rightarrow> hal_status \<times> i2c_handle) \<Rightarrow> i2c_driver \<Rightarrow> i2c_driver \<Rightarrow> bool"
  for clk hal_init where
  Init: "i2c_custom_init clk hal_init obj frequency am own s = Some s' \<Longrightarrow> i2c_step clk hal_init s s'"
| Deinit: "i2c_step clk hal_init s (i2c_deinit obj s)"
| SetTiming: "i2c_step clk hal_init s (i2c_setTiming clk hal_init obj frequency s)"
| Configure: "i2c_step clk hal_init s (i2c_put obj
    ((i2c_objs s obj)\<lparr>sda := p, scl := q, generalCall := g, NoStretchMode := n\<rparr>) s)"

definition irqs_owned :: "i2c_driver \<Rightarrow> bool" where
  "irqs_owned s \<longleftrightarrow> (\<forall>i. nvic_enabled s (I2C_EV_IRQn i) \<or> nvic_enabled s (I2C_ER_IRQn i) \<longrightarrow>
     (\<exists>obj. obj \<noteq> 0 \<and> i2c_handles s i = Some (obj + offset_handle)))"

lemma find_peripheral_rows:
  "pinmap_find_peripheral p t = Some i \<Longrightarrow> i = NP \<or> i \<in> (fst \<circ> snd) ` set t"
  by (induction t) (auto split: if_splits)

lemma i2c_found:
  assumes "pinmap_peripheral p PinMap_I2C_SDA = Some a" and "pinmap_peripheral q PinMap_I2C_SCL = Some b"
    and "pinmap_merge_peripheral a b \<noteq> NP"
  shows "pinmap_merge_peripheral a b \<in> {I2C1, I2C2, I2C3, I2C4}"
proof -
  have "a \<in> {NP, I2C1, I2C2, I2C3, I2C4}" "b \<in> {NP, I2C1, I2C2, I2C3, I2C4}"
    using assms(1,2) by (auto simp: pinmap_peripheral_def PinMap_I2C_SDA_def PinMap_I2C_SCL_def
      dest!: find_peripheral_rows split: if_splits)
  then show ?thesis using assms(3) by (auto simp: pinmap_merge_peripheral_def split: if_splits)
qed

lemma irqs_owned_cong:
  "i2c_handles s' = i2c_handles s \<Longrightarrow> nvic_enabled s' = nvic_enabled s \<Longrightarrow> irqs_owned s \<Longrightarrow> irqs_owned s'"
  by (simp add: irqs_owned_def)

lemma start_i2c_fields:
  "start_i2c hal_init obj h s = Some s' \<Longrightarrow> i2c_handles s' = i2c_handles s \<and>
     nvic_enabled s' = (nvic_enabled s)(irq (i2c_objs s obj) := True, irqER (i2c_objs s obj) := True)"
  by (cases "hal_init h") (auto simp: start_i2c_def Let_def i2c_put_def i2c_log_def split: if_splits)

lemma i2c_init_cases:
  assumes "i2c_custom_init clk hal_init obj frequency am own s = Some s'"
  shows "i2c_handles s' = i2c_handles s \<and> nvic_enabled s' = nvic_enabled s \<or>
    (\<exists>i. obj \<noteq> 0 \<and> i2c_handles s' = (i2c_handles s)(i \<mapsto> obj + offset_handle) \<and>
       nvic_enabled s' = (nvic_enabled s)(I2C_EV_IRQn i := True, I2C_ER_IRQn i := True))"
proof (cases "obj = 0")
  case True
  then show ?thesis using assms by (simp add: i2c_custom_init_def)
next
  case obj: False
  define ob where "ob = i2c_objs s obj"
  obtain a b where ab: "pinmap_peripheral (sda ob) PinMap_I2C_SDA = Some a"
      "pinmap_peripheral (scl ob) PinMap_I2C_SCL = Some b"
    using assms obj by (auto simp: i2c_custom_init_def ob_def Let_def split: bind_splits)
  let ?i = "pinmap_merge_peripheral a b"
  note init = assms [unfolded i2c_custom_init_def Let_def, folded ob_def]
  show ?thesis
  proof (cases "a = NP \<or> b = NP \<or> ?i = NP")
    case True
    then show ?thesis using init obj by (auto simp: ab i2c_put_def split: if_splits)
  next
    case False
    then have i: "?i \<in> {I2C1, I2C2, I2C3, I2C4}" using i2c_found [OF ab] by blast
    let ?ob = "ob\<lparr>i2c := ?i\<rparr>"
    obtain s1 s2 where pins: "pinmap_pinout (scl ob) PinMap_I2C_SCL (claim_instance obj ?ob s) = Some s1"
        "pinmap_pinout (sda ob) PinMap_I2C_SDA s1 = Some s2"
      and start: "\<exists>h tab. start_i2c hal_init obj h (s2\<lparr>ClockTiming := tab\<rparr>) = Some s'"
      using init obj False by (auto simp: ab set_timing_def split: bind_splits prod.splits)
    have "driver_part s2 = driver_part (claim_instance obj ?ob s)" using pins pinout_driver by metis
    then have d: "i2c_objs s2 obj = ?ob\<lparr>irq := I2C_EV_IRQn ?i, irqER := I2C_ER_IRQn ?i\<rparr>"
      "i2c_handles s2 = (i2c_handles s)(?i \<mapsto> obj + offset_handle)" "nvic_enabled s2 = nvic_enabled s"
      using claim_instance_ok(1) [of ?ob obj s] i by (simp_all add: driver_part_def)
    then have "i2c_handles s' = (i2c_handles s)(?i \<mapsto> obj + offset_handle)"
      "nvic_enabled s' = (nvic_enabled s)(I2C_EV_IRQn ?i := True, I2C_ER_IRQn ?i := True)"
      using start by (auto dest!: start_i2c_fields)
    then show ?thesis using obj by blast
  qed
qed

lemma i2c_step_owned:
  assumes "i2c_step clk hal_init s s'" and "irqs_owned s"
  shows "irqs_owned s'"
  using assms
proof cases
  case (Init obj frequency am own)
  then show ?thesis using i2c_init_cases [OF Init] assms(2) by (auto simp: irqs_owned_def)
next
  case (Deinit obj)
  then show ?thesis using assms(2) by (auto simp: irqs_owned_def i2c_deinit_def i2c_log_def Let_def)
next
  case (SetTiming obj frequency)
  then have "i2c_handles s' = i2c_handles s \<and> nvic_enabled s' = nvic_enabled s"
    by (simp add: i2c_setTiming_def set_timing_def Let_def i2c_log_def i2c_put_def split: prod.splits)
  then show ?thesis using irqs_owned_cong assms(2) by blast
next
  case (Configure obj p q g n)
  then show ?thesis using irqs_owned_cong [OF _ _ assms(2)] by (simp add: i2c_put_def)
qed

text \<open>C29: an enabled interrupt of an I2C instance always finds an object: whatever objects are set
  up, released, given other pins or other speeds, and in which order, the handlers never
  hand a null pointer to the HAL.\<close>

theorem i2c_interrupts_owned:
  assumes "(i2c_step clk hal_init)\<^sup>*\<^sup>* s0 s" and "\<forall>n. \<not> nvic_enabled s0 n"
    and "nvic_enabled s (I2C_EV_IRQn i) \<or> nvic_enabled s (I2C_ER_IRQn i)"
  shows "\<exists>obj l. obj \<noteq> 0 \<and> I2C_IRQHandler (I2C_EV_IRQn i) s = Some l \<and>
    I2C_IRQHandler (I2C_ER_IRQn i) s = Some [(HAL_I2C_ER_IRQHandler, obj + offset_handle)] \<and>
    (HAL_I2C_EV_IRQHandler, obj + offset_handle) \<in> set l \<and> get_i2c_obj (obj + offset_handle) = obj"
proof -
  have "irqs_owned s0" using assms(2) by (simp add: irqs_owned_def)
  with assms(1) have "irqs_owned s" by (induction) (auto intro: i2c_step_owned)
  then show ?thesis using assms(3)
    by (auto simp: irqs_owned_def I2C_IRQHandler_def get_i2c_obj_def offset_i2c_def)
qed

lemma i2c_init_enables:
  assumes "obj \<noteq> 0"
    and "(sda (i2c_objs s obj), i, f1) \<in> set (butlast PinMap_I2C_SDA)"
    and "(scl (i2c_objs s obj), i, f2) \<in> set (butlast PinMap_I2C_SCL)"
    and "\<forall>h. fst (hal_init h) = HAL_OK"
  shows "\<exists>s'. i2c_custom_init clk hal_init obj frequency am own s = Some s' \<and> nvic_enabled s' (I2C_EV_IRQn i)"
proof -
  obtain s' ob tab calls where "i2c_custom_init clk hal_init obj frequency am own s = Some s'"
    and "driver_part s' = (ob, (i2c_handles s)(i \<mapsto> obj + offset_handle),
      (nvic_enabled s)(I2C_EV_IRQn i := True, I2C_ER_IRQn i := True), tab, calls)"
    using i2c_init_run [OF assms refl refl refl, of clk frequency am own] by blast
  then show ?thesis by (simp add: driver_part_def)
qed

theorem i2c_interrupts_owned_witness:
  "\<exists>s'. (i2c_step i2c_clocks0 hal_init0)\<^sup>*\<^sup>* (i2c_driver0 (PB 9) (PB 8)) s' \<and> nvic_enabled s' (I2C_EV_IRQn I2C1) \<and>
     (\<exists>l. I2C_IRQHandler (I2C_EV_IRQn I2C1) s' = Some l)"
proof -
  let ?s = "i2c_driver0 (PB 9) (PB 8)"
  have hal: "\<forall>h. fst (hal_init0 h) = HAL_OK" by (simp add: hal_init0_def)
  obtain s' where s': "i2c_custom_init i2c_clocks0 hal_init0 64 100000 1 0x33 ?s = Some s'"
    and "nvic_enabled s' (I2C_EV_IRQn I2C1)"
    using i2c_init_enables [OF _ _ _ hal, of 64 ?s I2C1, unfolded i2c_driver0_objs,
        OF _ i2c_row_pb9 i2c_row_pb8, of i2c_clocks0 100000 1 "0x33"] by auto
  moreover have "(i2c_step i2c_clocks0 hal_init0)\<^sup>*\<^sup>* ?s s'" using i2c_step.Init [OF s'] by blast
  ultimately show ?thesis
    using i2c_interrupts_owned [of i2c_clocks0 hal_init0 ?s s' I2C1] i2c_driver0_objs(4) by blast
qed

end
