(* ===== verification/Hal_Gpio.thy ===== *)
theory Hal_Gpio
  imports Pin_Config
begin

text \<open>
  Configuration of the pins of a port by the HAL, \<^verbatim>\<open>HAL_GPIO_Init\<close> and \<^verbatim>\<open>HAL_GPIO_DeInit\<close> of
  \<^verbatim>\<open>stm32h7xx_hal_gpio.c\<close>, on the registers of \<open>Pinmap\<close> and those of the external interrupts.
  Fields of a register are written one by one: the values passed are in the ranges the HAL
  asserts. A port is its index.
\<close>

section \<open>Registers and parameters\<close>

text \<open>The external interrupt lines, each with the port it is connected to.\<close>

record gpio_exti = gpio +
  EXTICR :: "u32 \<Rightarrow> u32"
  RTSR1 :: "u32 \<Rightarrow> bool"
  FTSR1 :: "u32 \<Rightarrow> bool"
  EMR1 :: "u32 \<Rightarrow> bool"
  IMR1 :: "u32 \<Rightarrow> bool"
  SYSCFG_clock :: bool

record GPIO_InitTypeDef =
  init_Pin :: u32
  init_Mode :: u32
  init_Pull :: u32
  init_Speed :: u32
  init_Alternate :: u32

definition GPIO_MODE :: u32 where [consts_simp]: "GPIO_MODE = 0x3"
definition MODE_OUTPUT :: u32 where [consts_simp]: "MODE_OUTPUT = 0x1"
definition MODE_AF :: u32 where [consts_simp]: "MODE_AF = 0x2"
definition MODE_ANALOG :: u32 where [consts_simp]: "MODE_ANALOG = 0x3"
definition OUTPUT_TYPE :: u32 where [consts_simp]: "OUTPUT_TYPE = 0x10"
definition EXTI_MODE :: u32 where [consts_simp]: "EXTI_MODE = 0x30000"
definition EXTI_IT :: u32 where [consts_simp]: "EXTI_IT = 0x10000"
definition EXTI_EVT :: u32 where [consts_simp]: "EXTI_EVT = 0x20000"
definition TRIGGER_RISING :: u32 where [consts_simp]: "TRIGGER_RISING = 0x100000"
definition TRIGGER_FALLING :: u32 where [consts_simp]: "TRIGGER_FALLING = 0x200000"
definition GPIO_MODE_AF_PP :: u32 where [consts_simp]: "GPIO_MODE_AF_PP = MODE_AF"
definition GPIO_SPEED_FREQ_VERY_HIGH :: u32 where [consts_simp]: "GPIO_SPEED_FREQ_VERY_HIGH = 0x3"

definition speed_of :: "u32 \<Rightarrow> ll_speed" where
  "speed_of v = (if v = 0 then LL_GPIO_SPEED_FREQ_LOW else if v = 1 then LL_GPIO_SPEED_FREQ_MEDIUM
     else if v = 2 then LL_GPIO_SPEED_FREQ_HIGH else LL_GPIO_SPEED_FREQ_VERY_HIGH)"

definition output_of :: "u32 \<Rightarrow> ll_output" where
  "output_of mode = (if mode AND OUTPUT_TYPE = 0 then LL_GPIO_OUTPUT_PUSHPULL else LL_GPIO_OUTPUT_OPENDRAIN)"

definition set_AFR :: "u32 \<Rightarrow> u32 \<Rightarrow> u32 \<Rightarrow> 'a gpio_scheme \<Rightarrow> 'a gpio_scheme" where
  "set_AFR port position af s =
     (if position > 7 then s\<lparr>AFRH := upd2 (AFRH s) port (position - 8) af\<rparr>
      else s\<lparr>AFRL := upd2 (AFRL s) port position af\<rparr>)"

section \<open>Operations\<close>

text \<open>Both operations walk over the bits of the pin mask and stop behind the highest one.\<close>

function pin_loop :: "u32 \<Rightarrow> (u32 \<Rightarrow> 's \<Rightarrow> 's) \<Rightarrow> nat \<Rightarrow> 's \<Rightarrow> 's" where
  "pin_loop pins f position s =
     (if drop_bit position pins \<noteq> 0
      then pin_loop pins f (position + 1) (if bit pins position then f (word_of_nat position) s else s)
      else s)"
  by pat_completeness auto
termination
proof (relation "measure (\<lambda>(pins, f, position, s). 32 - position)", goal_cases)
  case (2 pins f position s)
  have "position < 32"
  proof (rule ccontr)
    assume "\<not> position < 32"
    then have "drop_bit position pins = 0" by (intro bit_word_eqI) (auto simp: bit_simps dest: bit_imp_le_length)
    with 2 show False by simp
  qed
  then show ?case by simp
qed simp

declare pin_loop.simps [simp del]

definition init_exti :: "u32 \<Rightarrow> u32 \<Rightarrow> u32 \<Rightarrow> 'a gpio_exti_scheme \<Rightarrow> 'a gpio_exti_scheme" where
  "init_exti port mode position s =
     s\<lparr>SYSCFG_clock := True, EXTICR := (EXTICR s)(position := port),
       RTSR1 := (RTSR1 s)(position := mode AND TRIGGER_RISING \<noteq> 0),
       FTSR1 := (FTSR1 s)(position := mode AND TRIGGER_FALLING \<noteq> 0),
       EMR1 := (EMR1 s)(position := mode AND EXTI_EVT \<noteq> 0),
       IMR1 := (IMR1 s)(position := mode AND EXTI_IT \<noteq> 0)\<rparr>"

definition init_pin :: "u32 \<Rightarrow> GPIO_InitTypeDef \<Rightarrow> u32 \<Rightarrow> 'a gpio_exti_scheme \<Rightarrow> 'a gpio_exti_scheme" where
  "init_pin port I position s =
     (let mode = init_Mode I AND GPIO_MODE;
          s1 = (if mode = MODE_OUTPUT \<or> mode = MODE_AF
                then s\<lparr>OSPEEDR := upd2 (OSPEEDR s) port position (speed_of (init_Speed I)),
                       OTYPER := upd2 (OTYPER s) port position (output_of (init_Mode I))\<rparr>
                else s);
          s2 = (if mode \<noteq> MODE_ANALOG
                then s1\<lparr>PUPDR := upd2 (PUPDR s1) port position (pull_of (init_Pull I))\<rparr> else s1);
          s3 = (if mode = MODE_AF then set_AFR port position (init_Alternate I) s2 else s2);
          s4 = s3\<lparr>MODER := upd2 (MODER s3) port position (mode_of mode)\<rparr>
      in if init_Mode I AND EXTI_MODE \<noteq> 0 then init_exti port (init_Mode I) position s4 else s4)"

definition HAL_GPIO_Init :: "u32 \<Rightarrow> GPIO_InitTypeDef \<Rightarrow> 'a gpio_exti_scheme \<Rightarrow> 'a gpio_exti_scheme" where
  "HAL_GPIO_Init port I s = pin_loop (init_Pin I) (init_pin port I) 0 s"

definition deinit_pin :: "u32 \<Rightarrow> u32 \<Rightarrow> 'a gpio_exti_scheme \<Rightarrow> 'a gpio_exti_scheme" where
  "deinit_pin port position s =
     (let s1 = (if EXTICR s position = port
                then s\<lparr>IMR1 := (IMR1 s)(position := False), EMR1 := (EMR1 s)(position := False),
                       FTSR1 := (FTSR1 s)(position := False), RTSR1 := (RTSR1 s)(position := False),
                       EXTICR := (EXTICR s)(position := 0)\<rparr>
                else s);
          s2 = set_AFR port position 0 (s1\<lparr>MODER := upd2 (MODER s1) port position LL_GPIO_MODE_ANALOG\<rparr>)
      in s2\<lparr>PUPDR := upd2 (PUPDR s2) port position LL_GPIO_PULL_NO,
            OTYPER := upd2 (OTYPER s2) port position LL_GPIO_OUTPUT_PUSHPULL,
            OSPEEDR := upd2 (OSPEEDR s2) port position LL_GPIO_SPEED_FREQ_LOW\<rparr>)"

definition HAL_GPIO_DeInit :: "u32 \<Rightarrow> u32 \<Rightarrow> 'a gpio_exti_scheme \<Rightarrow> 'a gpio_exti_scheme" where
  "HAL_GPIO_DeInit port pins s = pin_loop pins (deinit_pin port) 0 s"

section \<open>The loop\<close>

lemma fold_skips: "(\<And>n. n \<in> set ns \<Longrightarrow> \<not> P n) \<Longrightarrow> fold (\<lambda>n. if P n then g n else id) ns s = s"
  by (induction ns) auto

lemma pin_loop_from:
  assumes "position \<le> 32"
  shows "pin_loop pins f position s = fold (\<lambda>n. if bit pins n then f (word_of_nat n) else id) [position..<32] s"
  using assms
proof (induction pins f position s rule: pin_loop.induct)
  case (1 pins f position s)
  show ?case
  proof (cases "drop_bit position pins = 0")
    case True
    have "\<not> bit pins n" if "n \<in> set [position..<32]" for n
    proof -
      have "bit (drop_bit position pins) (n - position) = bit pins n" using that by (simp add: bit_drop_bit_eq)
      then show ?thesis using True by simp
    qed
    then have "fold (\<lambda>n. if bit pins n then f (word_of_nat n) else id) [position..<32] s = s"
      by (rule fold_skips)
    then show ?thesis using True by (subst pin_loop.simps) simp
  next
    case False
    then have "position < 32"
    proof -
      have "position \<noteq> 32"
      proof
        assume "position = 32"
        then have "drop_bit position pins = 0" by (intro bit_word_eqI) (auto simp: bit_simps dest: bit_imp_le_length)
        with False show False by simp
      qed
      then show ?thesis using 1(2) by simp
    qed
    then have "[position..<32] = position # [position + 1..<32]" by (simp add: upt_conv_Cons)
    then show ?thesis using 1(1) False \<open>position < 32\<close> by (subst pin_loop.simps) simp
  qed
qed

lemma pin_loop_keeps:
  assumes "\<And>n s. g (f n s) = g s"
  shows "g (pin_loop pins f position s) = g s"
  using assms
proof (induction pins f position s rule: pin_loop.induct)
  case (1 pins f position s)
  then show ?case by (subst pin_loop.simps) simp
qed

text \<open>An operation on one pin that sets its registers and leaves all others.\<close>

definition pin_op :: "(u32 \<Rightarrow> 'a gpio_scheme \<Rightarrow> 'a gpio_scheme) \<Rightarrow> u32 \<Rightarrow>
    ll_mode \<times> ll_output \<times> ll_speed \<times> ll_pull \<times> u32 \<Rightarrow> bool" where
  "pin_op f port v \<longleftrightarrow> (\<forall>n s. ODR (f n s) = ODR s \<and> gpio_clock (f n s) = gpio_clock s \<and>
     switch_closed (f n s) = switch_closed s \<and>
     (\<forall>q m. m \<le> 15 \<longrightarrow> n \<le> 15 \<longrightarrow> pin_regs (f n s) q m = (if q = port \<and> m = n then v else pin_regs s q m)))"

lemma word_16: "(m :: u32) \<le> 15 \<longleftrightarrow> unat m < 16"
  by (simp add: word_le_nat_alt) arith

lemma pin_loop_regs:
  assumes "pin_op f port v" and "unat pins < 65536"
  shows "m \<le> 15 \<Longrightarrow> pin_regs (pin_loop pins f 0 s) q m = (if q = port \<and> bit pins (unat m) then v else pin_regs s q m)"
    and "ODR (pin_loop pins f 0 s) = ODR s" and "gpio_clock (pin_loop pins f 0 s) = gpio_clock s"
    and "switch_closed (pin_loop pins f 0 s) = switch_closed s"
proof -
  let ?g = "\<lambda>n. if bit pins n then f (word_of_nat n) else id"
  have high: "n < 16" if "bit pins n" for n
  proof (rule ccontr)
    assume "\<not> n < 16"
    have "bit (unat pins) n" using that by (simp add: bit_unsigned_iff)
    moreover have "unat pins < 2 ^ n"
      using assms(2) power_increasing [of 16 n "2 :: nat"] \<open>\<not> n < 16\<close> by simp
    ultimately show False by (simp add: bit_iff_odd)
  qed
  have small: "word_of_nat n \<le> (15 :: u32)" if "bit pins n" for n
    using high [OF that] by (simp add: word_le_nat_alt nat_word)
  have all: "ODR (fold ?g ns s) = ODR s \<and> gpio_clock (fold ?g ns s) = gpio_clock s \<and>
      switch_closed (fold ?g ns s) = switch_closed s \<and>
      (m \<le> 15 \<longrightarrow> pin_regs (fold ?g ns s) q m =
        (if q = port \<and> (\<exists>n\<in>set ns. bit pins n \<and> m = word_of_nat n) then v else pin_regs s q m))" for ns q m
  proof (induction ns arbitrary: s)
    case (Cons n ns)
    show ?case
    proof (cases "bit pins n")
      case True
      then have "ODR (f (word_of_nat n) s) = ODR s" "gpio_clock (f (word_of_nat n) s) = gpio_clock s"
        "switch_closed (f (word_of_nat n) s) = switch_closed s"
        "m \<le> 15 \<Longrightarrow> pin_regs (f (word_of_nat n) s) q m = (if q = port \<and> m = word_of_nat n then v else pin_regs s q m)"
        using assms(1) small unfolding pin_op_def by blast+
      then show ?thesis using Cons.IH [of "f (word_of_nat n) s"] True by auto
    next
      case False
      then show ?thesis using Cons.IH [of s] by auto
    qed
  qed simp
  have run: "pin_loop pins f 0 s = fold ?g [0..<32] s" by (rule pin_loop_from) simp
  show "ODR (pin_loop pins f 0 s) = ODR s" "gpio_clock (pin_loop pins f 0 s) = gpio_clock s"
    "switch_closed (pin_loop pins f 0 s) = switch_closed s"
    using all unfolding run by blast+
  assume m: "m \<le> 15"
  have "(\<exists>n\<in>set [0..<32]. bit pins n \<and> m = word_of_nat n) = bit pins (unat m)"
  proof
    assume "bit pins (unat m)"
    moreover have "unat m < 32" using m word_16 [of m] by simp
    ultimately show "\<exists>n\<in>set [0..<32]. bit pins n \<and> m = word_of_nat n" by (intro bexI [of _ "unat m"]) simp_all
  next
    assume "\<exists>n\<in>set [0..<32]. bit pins n \<and> m = word_of_nat n"
    then show "bit pins (unat m)" by (auto simp: nat_word)
  qed
  then show "pin_regs (pin_loop pins f 0 s) q m = (if q = port \<and> bit pins (unat m) then v else pin_regs s q m)"
    using all m unfolding run by presburger
qed

lemma set_AFR_regs:
  "alternate (set_AFR port n af s) q m = (if q = port \<and> m = n then af else alternate s q m)"
  by (auto simp: alternate_def set_AFR_def)

lemma set_AFR_others [simp]:
  "MODER (set_AFR port n af s) = MODER s" "OTYPER (set_AFR port n af s) = OTYPER s"
  "OSPEEDR (set_AFR port n af s) = OSPEEDR s" "PUPDR (set_AFR port n af s) = PUPDR s"
  "ODR (set_AFR port n af s) = ODR s" "gpio_clock (set_AFR port n af s) = gpio_clock s"
  "switch_closed (set_AFR port n af s) = switch_closed s"
  by (simp_all add: set_AFR_def)

lemma set_AFR_exti [simp]: "EXTICR (set_AFR port n af s) = EXTICR s" for s :: "'a gpio_exti_scheme"
  by (simp add: set_AFR_def)

lemma alternate_exti [simp]:
  fixes s :: "'a gpio_exti_scheme"
  shows "alternate (s\<lparr>EXTICR := e\<rparr>) = alternate s" "alternate (s\<lparr>RTSR1 := b\<rparr>) = alternate s"
    "alternate (s\<lparr>FTSR1 := b\<rparr>) = alternate s" "alternate (s\<lparr>EMR1 := b\<rparr>) = alternate s"
    "alternate (s\<lparr>IMR1 := b\<rparr>) = alternate s"
  by (simp_all add: alternate_def fun_eq_iff)

lemma init_pin_op:
  assumes "init_Mode I = GPIO_MODE_AF_PP"
  shows "pin_op (init_pin port I) port (LL_GPIO_MODE_ALTERNATE, LL_GPIO_OUTPUT_PUSHPULL,
    speed_of (init_Speed I), pull_of (init_Pull I), init_Alternate I)"
  unfolding pin_op_def
  by (simp add: init_pin_def assms consts_simp Let_def pin_regs_def set_AFR_regs mode_of_def output_of_def)

lemma deinit_pin_op:
  "pin_op (deinit_pin port) port (LL_GPIO_MODE_ANALOG, LL_GPIO_OUTPUT_PUSHPULL, LL_GPIO_SPEED_FREQ_LOW, LL_GPIO_PULL_NO, 0)"
  unfolding pin_op_def by (simp add: deinit_pin_def Let_def pin_regs_def set_AFR_regs)

lemma HAL_GPIO_Init_regs:
  assumes "init_Mode I = GPIO_MODE_AF_PP" and "unat (init_Pin I) < 65536"
  shows "m \<le> 15 \<Longrightarrow> pin_regs (HAL_GPIO_Init port I s) q m = (if q = port \<and> bit (init_Pin I) (unat m)
      then (LL_GPIO_MODE_ALTERNATE, LL_GPIO_OUTPUT_PUSHPULL, speed_of (init_Speed I), pull_of (init_Pull I), init_Alternate I)
      else pin_regs s q m)"
    and "ODR (HAL_GPIO_Init port I s) = ODR s" and "gpio_clock (HAL_GPIO_Init port I s) = gpio_clock s"
    and "switch_closed (HAL_GPIO_Init port I s) = switch_closed s"
  using pin_loop_regs [OF init_pin_op [OF assms(1)] assms(2)] unfolding HAL_GPIO_Init_def by blast+

lemma HAL_GPIO_DeInit_regs:
  assumes "unat pins < 65536"
  shows "m \<le> 15 \<Longrightarrow> pin_regs (HAL_GPIO_DeInit port pins s) q m = (if q = port \<and> bit pins (unat m)
      then (LL_GPIO_MODE_ANALOG, LL_GPIO_OUTPUT_PUSHPULL, LL_GPIO_SPEED_FREQ_LOW, LL_GPIO_PULL_NO, 0)
      else pin_regs s q m)"
    and "ODR (HAL_GPIO_DeInit port pins s) = ODR s" and "gpio_clock (HAL_GPIO_DeInit port pins s) = gpio_clock s"
    and "switch_closed (HAL_GPIO_DeInit port pins s) = switch_closed s"
  using pin_loop_regs [OF deinit_pin_op assms] unfolding HAL_GPIO_DeInit_def by blast+

end
