(* ===== verification/Eth_Msp.thy ===== *)
theory Eth_Msp
  imports Hal_Gpio Pin_Alternate
begin

text \<open>
  Pins, clocks and interrupt of the Ethernet controller: \<^verbatim>\<open>HAL_ETH_MspInit\<close> and
  \<^verbatim>\<open>HAL_ETH_MspDeInit\<close> of \<^verbatim>\<open>libraries/OpenPLC_Net/src/ethernetif.c\<close>, called by the HAL when the
  controller is initialised and de-initialised.
\<close>

section \<open>Operations\<close>

record eth_msp = gpio_exti +
  ETH1MAC_clock :: bool
  ETH1TX_clock :: bool
  ETH1RX_clock :: bool
  ETH_IRQn_priority :: "nat \<times> nat"
  ETH_IRQn_enabled :: bool

definition GPIO_PIN :: "nat \<Rightarrow> u32" where "GPIO_PIN n = push_bit n 1"
definition GPIO_AF11_ETH :: u32 where "GPIO_AF11_ETH = 0x0B"

definition GPIOx_CLK_ENABLE :: "u32 \<Rightarrow> 'a gpio_scheme \<Rightarrow> 'a gpio_scheme" where
  "GPIOx_CLK_ENABLE port s = s\<lparr>gpio_clock := (gpio_clock s)(port := True)\<rparr>"

definition eth_init_struct :: "u32 \<Rightarrow> GPIO_InitTypeDef" where
  "eth_init_struct pins = \<lparr>init_Pin = pins, init_Mode = GPIO_MODE_AF_PP, init_Pull = GPIO_NOPULL,
     init_Speed = GPIO_SPEED_FREQ_VERY_HIGH, init_Alternate = GPIO_AF11_ETH\<rparr>"

definition HAL_ETH_MspInit :: "peripheral \<Rightarrow> 'a eth_msp_scheme \<Rightarrow> 'a eth_msp_scheme" where
  "HAL_ETH_MspInit ethInstance s =
     (if ethInstance = ETH then
        (let s1 = s\<lparr>ETH1MAC_clock := True, ETH1TX_clock := True, ETH1RX_clock := True\<rparr>;
             s2 = GPIOx_CLK_ENABLE 1 (GPIOx_CLK_ENABLE 0 (GPIOx_CLK_ENABLE 2 (GPIOx_CLK_ENABLE 6 s1)));
             s3 = HAL_GPIO_Init 6 (eth_init_struct (GPIO_PIN 12)) s2;
             s4 = HAL_GPIO_Init 2 (eth_init_struct (GPIO_PIN 1 OR GPIO_PIN 4 OR GPIO_PIN 5)) s3;
             s5 = HAL_GPIO_Init 0 (eth_init_struct (GPIO_PIN 1 OR GPIO_PIN 2 OR GPIO_PIN 7)) s4;
             s6 = HAL_GPIO_Init 1 (eth_init_struct (GPIO_PIN 12 OR GPIO_PIN 11)) s5
         in s6\<lparr>ETH_IRQn_priority := (5, 0), ETH_IRQn_enabled := True\<rparr>)
      else s)"

definition HAL_ETH_MspDeInit :: "peripheral \<Rightarrow> 'a eth_msp_scheme \<Rightarrow> 'a eth_msp_scheme" where
  "HAL_ETH_MspDeInit ethInstance s =
     (if ethInstance = ETH then
        (let s1 = s\<lparr>ETH1MAC_clock := False, ETH1TX_clock := False, ETH1RX_clock := False\<rparr>;
             s2 = HAL_GPIO_DeInit 6 (GPIO_PIN 12) s1;
             s3 = HAL_GPIO_DeInit 2 (GPIO_PIN 1 OR GPIO_PIN 4 OR GPIO_PIN 5) s2;
             s4 = HAL_GPIO_DeInit 0 (GPIO_PIN 1 OR GPIO_PIN 2 OR GPIO_PIN 7) s3;
             s5 = HAL_GPIO_DeInit 1 (GPIO_PIN 12 OR GPIO_PIN 11) s4
         in s5\<lparr>ETH_IRQn_enabled := False\<rparr>)
      else s)"

section \<open>The nine pins\<close>

definition eth_pins :: "PinName list" where
  "eth_pins = [PG 12, PC 1, PC 4, PC 5, PA 1, PA 2, PA 7, PB 12, PB 11]"

definition eth_pos :: "(u32 \<times> u32) set" where
  "eth_pos = phys ` set eth_pins"

lemma eth_pos_simp: "eth_pos = {(6, 12), (2, 1), (2, 4), (2, 5), (0, 1), (0, 2), (0, 7), (1, 12), (1, 11)}"
  by (simp add: eth_pos_def eth_pins_def phys_def STM_PORT_def STM_PIN_def port_defs consts_simp)

lemma bit_GPIO_PIN: "n < 16 \<Longrightarrow> bit (GPIO_PIN n) (unat m) \<longleftrightarrow> m = word_of_nat n" for m :: u32
proof -
  assume n: "n < 16"
  then have w: "unat (word_of_nat n :: u32) = n" by (intro nat_word) simp
  have "bit (GPIO_PIN n) (unat m) \<longleftrightarrow> unat m = n" using n by (auto simp: GPIO_PIN_def bit_simps)
  also have "\<dots> \<longleftrightarrow> m = word_of_nat n" by (simp only: word_unat_eq_iff w)
  finally show ?thesis .
qed

lemma eth_pos_masks:
  "(q, n) \<in> eth_pos \<longleftrightarrow> q = 1 \<and> bit (GPIO_PIN 12 OR GPIO_PIN 11) (unat n) \<or>
     q = 0 \<and> bit (GPIO_PIN 1 OR GPIO_PIN 2 OR GPIO_PIN 7) (unat n) \<or>
     q = 2 \<and> bit (GPIO_PIN 1 OR GPIO_PIN 4 OR GPIO_PIN 5) (unat n) \<or> q = 6 \<and> bit (GPIO_PIN 12) (unat n)"
proof -
  note bits = bit_GPIO_PIN [of 1] bit_GPIO_PIN [of 2]
    bit_GPIO_PIN [of 4] bit_GPIO_PIN [of 5] bit_GPIO_PIN [of 7] bit_GPIO_PIN [of 11] bit_GPIO_PIN [of 12]
  show ?thesis by (auto simp: eth_pos_simp bit_or_iff bits simp del: One_nat_def)
qed

lemma eth_masks:
  "unat (GPIO_PIN 12) < 65536" "unat (GPIO_PIN 1 OR GPIO_PIN 4 OR GPIO_PIN 5) < 65536"
  "unat (GPIO_PIN 1 OR GPIO_PIN 2 OR GPIO_PIN 7) < 65536" "unat (GPIO_PIN 12 OR GPIO_PIN 11) < 65536"
  by (simp_all add: GPIO_PIN_def)

lemma eth_mode: "init_Mode (eth_init_struct pins) = GPIO_MODE_AF_PP"
  and eth_pin: "init_Pin (eth_init_struct pins) = pins"
  by (simp_all add: eth_init_struct_def)

definition eth_regs :: "ll_mode \<times> ll_output \<times> ll_speed \<times> ll_pull \<times> u32" where
  "eth_regs = (LL_GPIO_MODE_ALTERNATE, LL_GPIO_OUTPUT_PUSHPULL, LL_GPIO_SPEED_FREQ_VERY_HIGH, LL_GPIO_PULL_NO, 11)"

definition reset_regs :: "ll_mode \<times> ll_output \<times> ll_speed \<times> ll_pull \<times> u32" where
  "reset_regs = (LL_GPIO_MODE_ANALOG, LL_GPIO_OUTPUT_PUSHPULL, LL_GPIO_SPEED_FREQ_LOW, LL_GPIO_PULL_NO, 0)"

lemma eth_init_value:
  "(LL_GPIO_MODE_ALTERNATE, LL_GPIO_OUTPUT_PUSHPULL, speed_of (init_Speed (eth_init_struct pins)),
    pull_of (init_Pull (eth_init_struct pins)), init_Alternate (eth_init_struct pins)) = eth_regs"
  by (simp add: eth_init_struct_def eth_regs_def speed_of_def pull_of_def GPIO_AF11_ETH_def consts_simp)

lemma eth_init_regs:
  assumes "unat pins < 65536" and "m \<le> 15"
  shows "pin_regs (HAL_GPIO_Init port (eth_init_struct pins) s) q m =
    (if q = port \<and> bit pins (unat m) then eth_regs else pin_regs s q m)"
  using HAL_GPIO_Init_regs(1) [OF eth_mode, of pins m] assms unfolding eth_pin eth_init_value by blast

lemma pin_regs_frame [simp]:
  fixes s :: "'a eth_msp_scheme"
  shows "pin_regs (s\<lparr>ETH1MAC_clock := b\<rparr>) = pin_regs s" "pin_regs (s\<lparr>ETH1TX_clock := b\<rparr>) = pin_regs s"
    "pin_regs (s\<lparr>ETH1RX_clock := b\<rparr>) = pin_regs s" "pin_regs (s\<lparr>ETH_IRQn_priority := pr\<rparr>) = pin_regs s"
    "pin_regs (s\<lparr>ETH_IRQn_enabled := b\<rparr>) = pin_regs s" "pin_regs (GPIOx_CLK_ENABLE port s) = pin_regs s"
  by (simp_all add: fun_eq_iff pin_regs_def alternate_def GPIOx_CLK_ENABLE_def)

lemma msp_init_regs:
  assumes "n \<le> 15"
  shows "pin_regs (HAL_ETH_MspInit ETH s) port n = (if (port, n) \<in> eth_pos then eth_regs else pin_regs s port n)"
  unfolding HAL_ETH_MspInit_def Let_def if_True simp_thms pin_regs_frame eth_pos_masks
    eth_init_regs [OF eth_masks(1) assms] eth_init_regs [OF eth_masks(2) assms]
    eth_init_regs [OF eth_masks(3) assms] eth_init_regs [OF eth_masks(4) assms]
  by argo

lemma msp_deinit_regs:
  assumes "n \<le> 15"
  shows "pin_regs (HAL_ETH_MspDeInit ETH s) port n = (if (port, n) \<in> eth_pos then reset_regs else pin_regs s port n)"
proof -
  note step = HAL_GPIO_DeInit_regs(1) [OF _ assms, folded reset_regs_def]
  show ?thesis
    unfolding HAL_ETH_MspDeInit_def Let_def if_True simp_thms pin_regs_frame eth_pos_masks
      step [OF eth_masks(1)] step [OF eth_masks(2)] step [OF eth_masks(3)] step [OF eth_masks(4)]
    by argo
qed

lemma msp_fields:
  fixes s :: "'a eth_msp_scheme"
  shows "ETH1MAC_clock (HAL_GPIO_Init port I s) = ETH1MAC_clock s" "ETH1TX_clock (HAL_GPIO_Init port I s) = ETH1TX_clock s"
    "ETH1RX_clock (HAL_GPIO_Init port I s) = ETH1RX_clock s"
    "ETH1MAC_clock (HAL_GPIO_DeInit port pins s) = ETH1MAC_clock s" "ETH1TX_clock (HAL_GPIO_DeInit port pins s) = ETH1TX_clock s"
    "ETH1RX_clock (HAL_GPIO_DeInit port pins s) = ETH1RX_clock s"
  unfolding HAL_GPIO_Init_def HAL_GPIO_DeInit_def
  by (rule pin_loop_keeps; simp add: init_pin_def deinit_pin_def init_exti_def set_AFR_def Let_def)+

lemma msp_others:
  fixes s :: "'a eth_msp_scheme"
  shows "ODR (HAL_ETH_MspInit ETH s) = ODR s" "ODR (HAL_ETH_MspDeInit ETH s) = ODR s"
    "gpio_clock (HAL_ETH_MspInit ETH s) = (\<lambda>port. port \<in> fst ` eth_pos \<or> gpio_clock s port)"
  unfolding eth_pos_simp
  by (simp_all add: HAL_ETH_MspInit_def HAL_ETH_MspDeInit_def Let_def eth_masks eth_mode eth_pin HAL_GPIO_Init_regs(2,3)
      HAL_GPIO_DeInit_regs(2) GPIOx_CLK_ENABLE_def fun_eq_iff del: One_nat_def)

section \<open>The same pins by the table\<close>

fun pinout_all :: "PinName list \<Rightarrow> PinMap list \<Rightarrow> 'a gpio_scheme \<Rightarrow> 'a gpio_scheme option" where
  "pinout_all [] t s = Some s"
| "pinout_all (p # ps) t s = do { s1 \<leftarrow> pinmap_pinout p t s; pinout_all ps t s1 }"

lemma pinout_all_regs:
  fixes s :: "'a gpio_scheme"
  assumes "table_ok t" and "list_all af_row (butlast t)" and "\<forall>p\<in>set ps. (p, i, f) \<in> set (butlast t)"
  shows "\<exists>s'. pinout_all ps t s = Some s' \<and>
    (\<forall>port n. n \<le> 15 \<longrightarrow> pin_regs s' port n = (if (port, n) \<in> phys ` set ps then af_regs f else pin_regs s port n))"
  using assms(3)
proof (induction ps arbitrary: s)
  case (Cons p ps)
  obtain s1 where s1: "pinmap_pinout p t s = Some s1" "pin_regs s1 (STM_PORT p) (STM_PIN p) = af_regs f"
    "\<forall>port n. (port, n) \<noteq> phys p \<longrightarrow> n \<le> 15 \<longrightarrow> pin_regs s1 port n = pin_regs s port n"
    using af_pin [OF assms(1,2), of p i f s] Cons.prems by auto
  obtain s' where s': "pinout_all ps t s1 = Some s'"
    "\<forall>port n. n \<le> 15 \<longrightarrow> pin_regs s' port n = (if (port, n) \<in> phys ` set ps then af_regs f else pin_regs s1 port n)"
    using Cons.IH [of s1] Cons.prems by auto
  have "pin_regs s' port n = (if (port, n) \<in> phys ` set (p # ps) then af_regs f else pin_regs s port n)"
    if "n \<le> 15" for port n
    using s'(2) s1(2,3) that by (cases "(port, n) = phys p") (auto simp: phys_def)
  then show ?case using s1(1) s'(1) by simp
qed simp

lemma eth_table: "list_all af_row (butlast PinMap_Ethernet)"
  by (simp add: af_defs PinMap_Ethernet_def)

lemma eth_rows: "\<forall>p\<in>set eth_pins. (p, ETH, STM_PIN_DATA STM_MODE_AF_PP GPIO_PULLUP 11) \<in> set (butlast PinMap_Ethernet)"
  by (simp add: eth_pins_def PinMap_Ethernet_def)

lemma eth_row_regs: "af_regs (STM_PIN_DATA STM_MODE_AF_PP GPIO_PULLUP 11) =
    (LL_GPIO_MODE_ALTERNATE, LL_GPIO_OUTPUT_PUSHPULL, LL_GPIO_SPEED_FREQ_VERY_HIGH, LL_GPIO_PULL_UP, 11)"
  by (simp add: af_regs_def STM_PIN_PUPD_def STM_PIN_AFNUM_def STM_PIN_DATA_def pull_of_def consts_simp)

section \<open>Properties\<close>

text \<open>The start of the Ethernet controller sets up its nine pins, written down in the code by
  port and mask, exactly as routing them one by one through the pin table of the board does,
  except that it leaves out the pull-up resistors of the table; no other pin changes, whatever
  the state before.\<close>

theorem eth_pins_as_in_table:
  fixes s :: "'a eth_msp_scheme"
  shows "\<exists>s2. pinout_all eth_pins PinMap_Ethernet s = Some s2 \<and>
    (\<forall>port n. n \<le> 15 \<longrightarrow> pin_regs (HAL_ETH_MspInit ETH s) port n =
      (case pin_regs s2 port n of (mode, out, speed, pull, af) \<Rightarrow>
         (mode, out, speed, if (port, n) \<in> phys ` set eth_pins then LL_GPIO_PULL_NO else pull, af)))"
proof -
  obtain s2 where s2: "pinout_all eth_pins PinMap_Ethernet s = Some s2"
    "\<And>port n. n \<le> 15 \<Longrightarrow> pin_regs s2 port n = (if (port, n) \<in> eth_pos
       then (LL_GPIO_MODE_ALTERNATE, LL_GPIO_OUTPUT_PUSHPULL, LL_GPIO_SPEED_FREQ_VERY_HIGH, LL_GPIO_PULL_UP, 11)
       else pin_regs s port n)"
    using pinout_all_regs [OF PinMap_Ethernet_ok [THEN conjunct1] eth_table eth_rows, of s]
    unfolding eth_row_regs eth_pos_def by blast
  have "pin_regs (HAL_ETH_MspInit ETH s) port n = (case pin_regs s2 port n of (mode, out, speed, pull, af) \<Rightarrow>
         (mode, out, speed, if (port, n) \<in> eth_pos then LL_GPIO_PULL_NO else pull, af))" if "n \<le> 15" for port n
    using s2(2) [OF that, of port] msp_init_regs [OF that, of s port]
    by (simp add: eth_regs_def split: prod.split)
  then show ?thesis using s2(1) unfolding eth_pos_def by blast
qed

text \<open>Everything at its reset value.\<close>

definition eth_msp0 :: eth_msp where
  "eth_msp0 = \<lparr>MODER = MODER gpio0, OTYPER = OTYPER gpio0, OSPEEDR = OSPEEDR gpio0, PUPDR = PUPDR gpio0,
     AFRL = AFRL gpio0, AFRH = AFRH gpio0, ODR = ODR gpio0, gpio_clock = gpio_clock gpio0,
     switch_closed = switch_closed gpio0, EXTICR = (\<lambda>_. 0), RTSR1 = (\<lambda>_. False), FTSR1 = (\<lambda>_. False),
     EMR1 = (\<lambda>_. False), IMR1 = (\<lambda>_. False), SYSCFG_clock = False, ETH1MAC_clock = False,
     ETH1TX_clock = False, ETH1RX_clock = False, ETH_IRQn_priority = (0, 0), ETH_IRQn_enabled = False\<rparr>"

theorem eth_pins_as_in_table_witness:
  "pin_regs (HAL_ETH_MspInit ETH eth_msp0) 0 8 = pin_regs (the (pinout_all eth_pins PinMap_Ethernet eth_msp0)) 0 8"
proof -
  have "(0, 8) \<notin> phys ` set eth_pins" using eth_pos_simp unfolding eth_pos_def by simp
  moreover obtain s2 where "pinout_all eth_pins PinMap_Ethernet eth_msp0 = Some s2"
    "pin_regs (HAL_ETH_MspInit ETH eth_msp0) 0 8 = (case pin_regs s2 0 8 of (mode, out, speed, pull, af) \<Rightarrow>
       (mode, out, speed, if (0, 8) \<in> phys ` set eth_pins then LL_GPIO_PULL_NO else pull, af))"
    using eth_pins_as_in_table [of eth_msp0] by auto
  ultimately show ?thesis by (simp split: prod.splits)
qed

text \<open>Starting and then stopping the Ethernet controller puts its nine pins back to the reset
  state and leaves every other pin and all output levels as they were; the clocks and the
  interrupt of the controller run between the two only, with the clocks of the four ports
  on from the start.\<close>

theorem eth_start_stop:
  fixes s :: "'a eth_msp_scheme"
  defines "s1 \<equiv> HAL_ETH_MspInit ETH s"
  defines "s2 \<equiv> HAL_ETH_MspDeInit ETH s1"
  shows "(\<forall>port n. n \<le> 15 \<longrightarrow> pin_regs s2 port n =
      (if (port, n) \<in> phys ` set eth_pins then pin_regs gpio0 port n else pin_regs s port n)) \<and>
    ODR s1 = ODR s \<and> ODR s2 = ODR s \<and> (\<forall>p\<in>set eth_pins. gpio_clock s1 (STM_PORT p)) \<and>
    ETH1MAC_clock s1 \<and> ETH1TX_clock s1 \<and> ETH1RX_clock s1 \<and> ETH_IRQn_enabled s1 \<and>
    \<not> ETH1MAC_clock s2 \<and> \<not> ETH1TX_clock s2 \<and> \<not> ETH1RX_clock s2 \<and> \<not> ETH_IRQn_enabled s2"
proof -
  have "pin_regs gpio0 port n = reset_regs" for port n
    by (simp add: gpio0_def pin_regs_def reset_regs_def alternate_def)
  then have "\<forall>port n. n \<le> 15 \<longrightarrow> pin_regs s2 port n =
      (if (port, n) \<in> phys ` set eth_pins then pin_regs gpio0 port n else pin_regs s port n)"
    unfolding s2_def s1_def eth_pos_def [symmetric] by (simp add: msp_deinit_regs msp_init_regs)
  moreover have "\<forall>p\<in>set eth_pins. gpio_clock s1 (STM_PORT p)"
    unfolding s1_def msp_others(3) by (auto simp: eth_pos_def phys_def image_image)
  moreover have "ETH1MAC_clock s1" "ETH1TX_clock s1" "ETH1RX_clock s1" "ETH_IRQn_enabled s1"
    by (simp_all add: s1_def HAL_ETH_MspInit_def Let_def msp_fields GPIOx_CLK_ENABLE_def)
  moreover have "\<not> ETH1MAC_clock s2" "\<not> ETH1TX_clock s2" "\<not> ETH1RX_clock s2" "\<not> ETH_IRQn_enabled s2"
    by (simp_all add: s2_def HAL_ETH_MspDeInit_def Let_def msp_fields)
  ultimately show ?thesis by (simp add: s1_def s2_def msp_others(1,2))
qed

theorem eth_start_stop_witness:
  "pin_regs (HAL_ETH_MspDeInit ETH (HAL_ETH_MspInit ETH eth_msp0)) 6 12 = pin_regs gpio0 6 12"
proof -
  have "(6, 12) \<in> phys ` set eth_pins" using eth_pos_simp unfolding eth_pos_def by simp
  then show ?thesis using eth_start_stop [of eth_msp0] by simp
qed

end
