(* ===== verification/Spi_Com.thy ===== *)
theory Spi_Com
  imports Wiring
begin

text \<open>
  The SPI driver, \<^verbatim>\<open>libraries/SPI/src/utility/spi_com.c\<close>: choice of the instance from the pins
  and of the clock divider, initialisation, and the polled transfer. The HAL and the
  registers of the peripheral are recorded calls or parameters; the clock tree is the record
  \<open>clocks\<close>. There is no result where the code calls \<^verbatim>\<open>Error_Handler\<close>, follows a null pointer
  or polls for ever.
\<close>

section \<open>Types\<close>

datatype rcc_periph = RCC_PERIPHCLK_SPI123 | RCC_PERIPHCLK_SPI45 | RCC_PERIPHCLK_SPI6

record clocks =
  SystemCoreClock :: u32
  GetPeriphCLKFreq :: "rcc_periph \<Rightarrow> u32"
  GetPCLK1Freq :: u32
  GetPCLK2Freq :: u32

datatype spi_mode_e = SPI_MODE_0 | SPI_MODE_1 | SPI_MODE_2 | SPI_MODE_3
datatype spi_status_e = SPI_OK | SPI_TIMEOUT | SPI_ERROR
datatype spi_nss = SPI_NSS_SOFT | SPI_NSS_HARD_OUTPUT | SPI_NSS_HARD_INPUT
datatype spi_role = SPI_MODE_MASTER | SPI_MODE_SLAVE
datatype spi_phase = SPI_PHASE_1EDGE | SPI_PHASE_2EDGE
datatype spi_polarity = SPI_POLARITY_LOW | SPI_POLARITY_HIGH
datatype spi_firstbit = SPI_FIRSTBIT_MSB | SPI_FIRSTBIT_LSB
datatype spi_direction = SPI_DIRECTION_2LINES | SPI_DIRECTION_1LINE
datatype spi_switch = SPI_DISABLE | SPI_ENABLE

text \<open>The prescaler is the value of the field \<^verbatim>\<open>MBR\<close> in its place, at bit 28.\<close>

record spi_handle =
  Instance :: peripheral
  Mode :: spi_role
  Direction :: spi_direction
  NSS :: spi_nss
  BaudRatePrescaler :: u32
  CLKPhase :: spi_phase
  CLKPolarity :: spi_polarity
  CRCCalculation :: spi_switch
  CRCPolynomial :: nat
  DataSize :: nat
  FirstBit :: spi_firstbit
  TIMode :: spi_switch
  NSSPMode :: spi_switch
  MasterKeepIOState :: spi_switch

record spi_t =
  handle :: spi_handle
  spi :: peripheral
  pin_miso :: PinName
  pin_mosi :: PinName
  pin_sclk :: PinName
  pin_ssel :: PinName
  disable_delay :: u32

datatype spi_call =
    Spi_clk_enable peripheral
  | Spi_clk_disable peripheral
  | Spi_force_reset peripheral
  | Spi_release_reset peripheral
  | HAL_SPI_Init spi_handle
  | HAL_SPI_DeInit spi_handle
  | HAL_SPI_ENABLE spi_handle

section \<open>Clock\<close>

definition periph_or :: "clocks \<Rightarrow> rcc_periph \<Rightarrow> u32 \<Rightarrow> u32" where
  "periph_or clk p pclk = (let f = GetPeriphCLKFreq clk p in if f = 0 then pclk else f)"

definition spi_getClkFreqInst :: "clocks \<Rightarrow> peripheral \<Rightarrow> u32" where
  "spi_getClkFreqInst clk spi_inst =
     (if spi_inst \<noteq> NP then
        if spi_inst = SPI1 then periph_or clk RCC_PERIPHCLK_SPI123 (GetPCLK2Freq clk)
        else if spi_inst = SPI2 then periph_or clk RCC_PERIPHCLK_SPI123 (GetPCLK1Freq clk)
        else if spi_inst = SPI3 then periph_or clk RCC_PERIPHCLK_SPI123 (GetPCLK1Freq clk)
        else if spi_inst = SPI4 then periph_or clk RCC_PERIPHCLK_SPI45 (GetPCLK2Freq clk)
        else if spi_inst = SPI5 then periph_or clk RCC_PERIPHCLK_SPI45 (GetPCLK2Freq clk)
        else if spi_inst = SPI6 then periph_or clk RCC_PERIPHCLK_SPI6 (GetPCLK2Freq clk)
        else SystemCoreClock clk
      else SystemCoreClock clk)"

definition spi_getClkFreq :: "clocks \<Rightarrow> spi_t option \<Rightarrow> u32 option" where
  "spi_getClkFreq clk obj =
     (case obj of
        None \<Rightarrow> Some (SystemCoreClock clk)
      | Some ob \<Rightarrow>
          do { spi_inst \<leftarrow> pinmap_peripheral (pin_sclk ob) PinMap_SPI_SCLK;
               Some (if spi_inst \<noteq> NP then spi_getClkFreqInst clk spi_inst else SystemCoreClock clk) })"

definition spi_prescaler :: "u32 \<Rightarrow> u32 \<Rightarrow> u32" where
  "spi_prescaler spi_freq speed =
     (if speed \<ge> spi_freq div 2 then 0x00000000
      else if speed \<ge> spi_freq div 4 then 0x10000000
      else if speed \<ge> spi_freq div 8 then 0x20000000
      else if speed \<ge> spi_freq div 16 then 0x30000000
      else if speed \<ge> spi_freq div 32 then 0x40000000
      else if speed \<ge> spi_freq div 64 then 0x50000000
      else if speed \<ge> spi_freq div 128 then 0x60000000
      else 0x70000000)"

definition compute_disable_delay :: "clocks \<Rightarrow> spi_t \<Rightarrow> u32" where
  "compute_disable_delay clk obj =
     (let spi_freq = spi_getClkFreqInst clk (spi obj);
          prescaler = push_bit (unat (drop_bit 28 (BaudRatePrescaler (handle obj)) + 1)) 1
      in ((prescaler * 1000000) div spi_freq) div 2)"

section \<open>Initialisation\<close>

definition spi_fill :: "clocks \<Rightarrow> u32 \<Rightarrow> spi_mode_e \<Rightarrow> u8 \<Rightarrow> spi_t \<Rightarrow> spi_t" where
  "spi_fill clk speed mode msb obj =
     (let h = handle obj;
          h1 = h\<lparr>NSS := (if pin_ssel obj \<noteq> NC then SPI_NSS_HARD_OUTPUT else SPI_NSS_SOFT),
                 Instance := spi obj, Mode := SPI_MODE_MASTER,
                 BaudRatePrescaler := spi_prescaler (spi_getClkFreqInst clk (spi obj)) speed\<rparr>;
          h2 = h1\<lparr>Direction := SPI_DIRECTION_2LINES,
                  CLKPhase := (if mode = SPI_MODE_0 \<or> mode = SPI_MODE_2 then SPI_PHASE_1EDGE else SPI_PHASE_2EDGE),
                  CLKPolarity := (if mode = SPI_MODE_0 \<or> mode = SPI_MODE_1 then SPI_POLARITY_LOW else SPI_POLARITY_HIGH),
                  CRCCalculation := SPI_DISABLE, CRCPolynomial := 7, DataSize := 8,
                  FirstBit := (if msb = 0 then SPI_FIRSTBIT_LSB else SPI_FIRSTBIT_MSB),
                  TIMode := SPI_DISABLE, NSSPMode := SPI_DISABLE, MasterKeepIOState := SPI_ENABLE\<rparr>
      in obj\<lparr>handle := h2, disable_delay := compute_disable_delay clk (obj\<lparr>handle := h1\<rparr>)\<rparr>)"

definition spi_pins :: "spi_t \<Rightarrow> 'a gpio_scheme \<Rightarrow> 'a gpio_scheme option" where
  "spi_pins obj s =
     do { s1 \<leftarrow> pinmap_pinout (pin_mosi obj) PinMap_SPI_MOSI s;
          s2 \<leftarrow> pinmap_pinout (pin_miso obj) PinMap_SPI_MISO s1;
          s3 \<leftarrow> pinmap_pinout (pin_sclk obj) PinMap_SPI_SCLK s2;
          let pull = (if CLKPolarity (handle obj) = SPI_POLARITY_LOW then GPIO_PULLDOWN else GPIO_PULLUP);
          port \<leftarrow> get_GPIO_Port (STM_PORT (pin_sclk obj));
          pinmap_pinout (pin_ssel obj) PinMap_SPI_SSEL (pin_PullConfig port (STM_PIN (pin_sclk obj)) pull s3) }"

text \<open>The result: the object, the pins and the calls, in their order.\<close>

definition spi_init :: "clocks \<Rightarrow> spi_t option \<Rightarrow> u32 \<Rightarrow> spi_mode_e \<Rightarrow> u8 \<Rightarrow> 'a gpio_scheme \<Rightarrow>
    (spi_t option \<times> 'a gpio_scheme \<times> spi_call list) option" where
  "spi_init clk obj speed mode msb s =
     (case obj of None \<Rightarrow> Some (None, s, [])
      | Some ob \<Rightarrow>
        do { spi_mosi \<leftarrow> pinmap_peripheral (pin_mosi ob) PinMap_SPI_MOSI;
             spi_miso \<leftarrow> pinmap_peripheral (pin_miso ob) PinMap_SPI_MISO;
             spi_sclk \<leftarrow> pinmap_peripheral (pin_sclk ob) PinMap_SPI_SCLK;
             spi_ssel \<leftarrow> pinmap_peripheral (pin_ssel ob) PinMap_SPI_SSEL;
             if spi_mosi = NP \<or> spi_miso = NP \<or> spi_sclk = NP then Some (Some ob, s, [])
             else
               (let spi_data = pinmap_merge_peripheral spi_mosi spi_miso;
                    spi_cntl = pinmap_merge_peripheral spi_sclk spi_ssel;
                    ob1 = ob\<lparr>spi := pinmap_merge_peripheral spi_data spi_cntl\<rparr>
                in if spi_data = NP \<or> spi_cntl = NP \<or> spi ob1 = NP then Some (Some ob1, s, [])
                else
                  (let ob2 = spi_fill clk speed mode msb ob1; i = Instance (handle ob2) in
                   do { s1 \<leftarrow> spi_pins ob2 s;
                        Some (Some ob2, s1,
                          (if i \<in> {SPI1, SPI2, SPI3, SPI4, SPI5, SPI6}
                           then [Spi_clk_enable i, Spi_force_reset i, Spi_release_reset i] else []) @
                          [HAL_SPI_Init (handle ob2), HAL_SPI_ENABLE (handle ob2)]) })) })"

definition spi_deinit :: "spi_t option \<Rightarrow> spi_call list" where
  "spi_deinit obj =
     (case obj of None \<Rightarrow> []
      | Some ob \<Rightarrow>
          (let i = Instance (handle ob) in
           HAL_SPI_DeInit (handle ob) #
           (if i \<in> {SPI1, SPI2, SPI3, SPI4, SPI5, SPI6}
            then [Spi_force_reset i, Spi_release_reset i, Spi_clk_disable i] else [])))"

section \<open>Transfer\<close>

text \<open>The registers, over a state \<open>'w\<close> of the peripheral and what is connected to it. Reading a
  flag may let time pass. \<open>Spi_start\<close> sets the size, enables and starts; \<open>Spi_close\<close>
  clears the flags and disables.\<close>

record 'w spi_ll =
  TXP :: "'w \<Rightarrow> bool \<times> 'w"
  TransmitData8 :: "u8 \<Rightarrow> 'w \<Rightarrow> 'w"
  RXP :: "'w \<Rightarrow> bool \<times> 'w"
  ReceiveData8 :: "'w \<Rightarrow> u8 \<times> 'w"
  Spi_tick :: "'w \<Rightarrow> u32"
  Spi_start :: "nat \<Rightarrow> 'w \<Rightarrow> 'w"
  Spi_delay :: "u32 \<Rightarrow> 'w \<Rightarrow> 'w"
  Spi_close :: "'w \<Rightarrow> 'w"

definition HAL_MAX_DELAY :: u32 where "HAL_MAX_DELAY = 0xFFFFFFFF"

partial_function (option) wait_flag :: "('w \<Rightarrow> bool \<times> 'w) \<Rightarrow> 'w \<Rightarrow> 'w option" where
  "wait_flag flag w = (case flag w of (ready, w1) \<Rightarrow> if ready then Some w1 else wait_flag flag w1)"

text \<open>The buffers are addresses in one memory.\<close>

fun transfer_loop :: "'w spi_ll \<Rightarrow> bool \<Rightarrow> u32 \<Rightarrow> u32 \<Rightarrow> nat \<Rightarrow> nat \<Rightarrow> nat \<Rightarrow> (nat \<Rightarrow> u8) \<Rightarrow> 'w \<Rightarrow>
    (spi_status_e \<times> (nat \<Rightarrow> u8) \<times> 'w) option" where
  "transfer_loop ll skip Timeout tickstart 0 tx rx mem w = Some (SPI_OK, mem, w)"
| "transfer_loop ll skip Timeout tickstart (Suc n) tx rx mem w =
     do { w1 \<leftarrow> wait_flag (TXP ll) w;
          let w2 = TransmitData8 ll (mem tx) w1;
          (mem', w3) \<leftarrow> (if \<not> skip then
              do { w' \<leftarrow> wait_flag (RXP ll) w2;
                   let (b, w'') = ReceiveData8 ll w';
                   Some (mem(rx := b), w'') }
            else Some (mem, w2));
          if Timeout \<noteq> HAL_MAX_DELAY \<and> Spi_tick ll w3 - tickstart \<ge> Timeout then Some (SPI_TIMEOUT, mem', w3)
          else transfer_loop ll skip Timeout tickstart n (tx + 1) (if skip then rx else rx + 1) mem' w3 }"

definition spi_transfer :: "'w spi_ll \<Rightarrow> spi_t option \<Rightarrow> nat \<Rightarrow> nat \<Rightarrow> nat \<Rightarrow> u32 \<Rightarrow> bool \<Rightarrow> (nat \<Rightarrow> u8) \<Rightarrow> 'w \<Rightarrow>
    (spi_status_e \<times> (nat \<Rightarrow> u8) \<times> 'w) option" where
  "spi_transfer ll obj tx_buffer rx_buffer len Timeout skipReceive mem w =
     (case obj of None \<Rightarrow> None
      | Some ob \<Rightarrow>
        if len = 0 \<or> Timeout = 0 then Some (if Timeout > 0 then SPI_ERROR else SPI_TIMEOUT, mem, w)
        else
          (let tickstart = Spi_tick ll w in
           do { (ret, mem', w') \<leftarrow> transfer_loop ll skipReceive Timeout tickstart len tx_buffer rx_buffer mem
                  (Spi_start ll len w);
                Some (ret, mem', Spi_close ll (Spi_delay ll (disable_delay ob) w')) }))"

definition spi_send :: "'w spi_ll \<Rightarrow> spi_t option \<Rightarrow> nat \<Rightarrow> nat \<Rightarrow> u32 \<Rightarrow> (nat \<Rightarrow> u8) \<Rightarrow> 'w \<Rightarrow>
    (spi_status_e \<times> (nat \<Rightarrow> u8) \<times> 'w) option" where
  "spi_send ll obj Data len Timeout mem w = spi_transfer ll obj Data Data len Timeout True mem w"

end
