(* ===== verification/Spi_Properties.thy ===== *)
theory Spi_Properties
  imports Spi_Com Pin_Alternate
begin

text \<open>
  Properties of the SPI driver: the choice of the clock divider, the configuration of the
  pins, and the exchange of bytes in a transfer.
\<close>

section \<open>Clock divider\<close>

text \<open>C24: The divider of the SPI clock is the smallest power of two from 2 to 256 with which the
  clock, rounded down to whole hertz, does not exceed the speed asked for, and 256 if none
  does.\<close>

theorem spi_prescaler_least:
  "spi_prescaler spi_freq speed =
     push_bit 28 (word_of_nat (min 7 (LEAST k. unat spi_freq div 2 ^ (k + 1) \<le> unat speed)))"
proof -
  let ?P = "\<lambda>k. unat spi_freq div 2 ^ (k + 1) \<le> unat speed"
  let ?L = "LEAST k. ?P k"
  have "unat spi_freq < 2 ^ 32" using unsigned_less [of spi_freq] by simp
  then have "?P 31" by simp
  then have ex: "?P ?L" by (rule LeastI)
  have below: "k < ?L \<Longrightarrow> \<not> ?P k" for k by (rule not_less_Least)
  have mono: "?P j" if "?P i" "i \<le> j" for i j
  proof -
    have "unat spi_freq div 2 ^ (j + 1) \<le> unat spi_freq div 2 ^ (i + 1)"
      using that(2) by (intro div_le_mono2) (simp_all add: power_increasing)
    then show ?thesis using that(1) by linarith
  qed
  have cmp: "?P k \<longleftrightarrow> ?L \<le> k" for k using mono [OF ex] below not_le by blast
  have le: "speed \<ge> spi_freq div w \<longleftrightarrow> ?L \<le> k" if "unat w = 2 ^ (k + 1)" for w k
    using cmp [of k] that by (simp add: word_le_nat_alt unat_div)
  have "spi_prescaler spi_freq speed =
     (if ?L \<le> 0 then 0 else if ?L \<le> 1 then 0x10000000 else if ?L \<le> 2 then 0x20000000
      else if ?L \<le> 3 then 0x30000000 else if ?L \<le> 4 then 0x40000000 else if ?L \<le> 5 then 0x50000000
      else if ?L \<le> 6 then 0x60000000 else 0x70000000)"
    unfolding spi_prescaler_def
    using le [of 2 0] le [of 4 1] le [of 8 2] le [of 16 3] le [of 32 4] le [of 64 5] le [of 128 6]
    by (simp only: unat_numeral) simp
  moreover consider "?L = 0" | "?L = 1" | "?L = 2" | "?L = 3" | "?L = 4" | "?L = 5" | "?L = 6" | "7 \<le> ?L"
    by linarith
  then have "(if ?L \<le> 0 then 0 else if ?L \<le> 1 then 0x10000000 else if ?L \<le> 2 then 0x20000000
      else if ?L \<le> 3 then 0x30000000 else if ?L \<le> 4 then 0x40000000 else if ?L \<le> 5 then 0x50000000
      else if ?L \<le> 6 then 0x60000000 else 0x70000000) = push_bit 28 (word_of_nat (min 7 ?L) :: u32)"
    by cases simp_all
  ultimately show ?thesis by simp
qed

section \<open>Pins\<close>

lemma af_tables:
  "list_all af_row (butlast PinMap_SPI_MOSI)" "list_all af_row (butlast PinMap_SPI_MISO)"
  "list_all af_row (butlast PinMap_SPI_SCLK)" "list_all af_row (butlast PinMap_SPI_SSEL)"
  by (simp_all add: af_defs PinMap_SPI_MOSI_def PinMap_SPI_MISO_def PinMap_SPI_SCLK_def PinMap_SPI_SSEL_def)

lemma apart_mosi: "apart PinMap_SPI_MOSI PinMap_SPI_MISO" "apart PinMap_SPI_MOSI PinMap_SPI_SCLK"
  "apart PinMap_SPI_MOSI PinMap_SPI_SSEL"
  by (simp_all add: apart_def phys_def STM_PORT_def STM_PIN_def port_defs consts_simp
      PinMap_SPI_MOSI_def PinMap_SPI_MISO_def PinMap_SPI_SCLK_def PinMap_SPI_SSEL_def)

lemma apart_others: "apart PinMap_SPI_MISO PinMap_SPI_SCLK" "apart PinMap_SPI_MISO PinMap_SPI_SSEL"
  "apart PinMap_SPI_SCLK PinMap_SPI_SSEL"
  by (simp_all add: apart_def phys_def STM_PORT_def STM_PIN_def port_defs consts_simp
      PinMap_SPI_MOSI_def PinMap_SPI_MISO_def PinMap_SPI_SCLK_def PinMap_SPI_SSEL_def)

section \<open>The pins of a bus\<close>

text \<open>The clock line rests at the level of its polarity.\<close>

definition sck_pull :: "spi_mode_e \<Rightarrow> ll_pull" where
  "sck_pull mode = (if mode = SPI_MODE_0 \<or> mode = SPI_MODE_1 then LL_GPIO_PULL_DOWN else LL_GPIO_PULL_UP)"

lemma spi_fill_fields:
  "spi (spi_fill clk speed mode msb ob) = spi ob" "pin_mosi (spi_fill clk speed mode msb ob) = pin_mosi ob"
  "pin_miso (spi_fill clk speed mode msb ob) = pin_miso ob" "pin_sclk (spi_fill clk speed mode msb ob) = pin_sclk ob"
  "pin_ssel (spi_fill clk speed mode msb ob) = pin_ssel ob"
  "Instance (handle (spi_fill clk speed mode msb ob)) = spi ob"
  "CLKPolarity (handle (spi_fill clk speed mode msb ob)) =
     (if mode = SPI_MODE_0 \<or> mode = SPI_MODE_1 then SPI_POLARITY_LOW else SPI_POLARITY_HIGH)"
  by (simp_all add: spi_fill_def Let_def)

lemma spi_frame:
  "spi (ob\<lparr>spi := i\<rparr>) = i" "pin_mosi (ob\<lparr>spi := i\<rparr>) = pin_mosi ob" "pin_miso (ob\<lparr>spi := i\<rparr>) = pin_miso ob"
  "pin_sclk (ob\<lparr>spi := i\<rparr>) = pin_sclk ob" "pin_ssel (ob\<lparr>spi := i\<rparr>) = pin_ssel ob"
  by simp_all

lemmas spi_tables_ok = PinMap_SPI_MOSI_ok PinMap_SPI_MISO_ok PinMap_SPI_SCLK_ok PinMap_SPI_SSEL_ok

definition sck_regs :: "spi_mode_e \<Rightarrow> u32 \<Rightarrow> ll_mode \<times> ll_output \<times> ll_speed \<times> ll_pull \<times> u32" where
  "sck_regs mode f = (LL_GPIO_MODE_ALTERNATE, LL_GPIO_OUTPUT_PUSHPULL, LL_GPIO_SPEED_FREQ_VERY_HIGH,
     sck_pull mode, STM_PIN_AFNUM f)"

lemma sck_pull_regs:
  fixes s :: "'a gpio_scheme"
  assumes "pin_regs s (STM_PORT p) (STM_PIN p) = af_regs f"
    and "pull = (if mode = SPI_MODE_0 \<or> mode = SPI_MODE_1 then GPIO_PULLDOWN else GPIO_PULLUP)"
  shows "pin_regs (pin_PullConfig (STM_PORT p) (STM_PIN p) pull s) (STM_PORT p) (STM_PIN p) = sck_regs mode f"
    and "\<forall>port n. (port, n) \<noteq> phys p \<longrightarrow> n \<le> 15 \<longrightarrow>
      pin_regs (pin_PullConfig (STM_PORT p) (STM_PIN p) pull s) port n = pin_regs s port n"
proof -
  show "pin_regs (pin_PullConfig (STM_PORT p) (STM_PIN p) pull s) (STM_PORT p) (STM_PIN p) = sck_regs mode f"
    using pull_regs_eq [OF assms(1) [unfolded af_regs_def], of pull] assms(2)
    by (simp add: sck_regs_def sck_pull_def pull_of_def consts_simp)
  show "\<forall>port n. (port, n) \<noteq> phys p \<longrightarrow> n \<le> 15 \<longrightarrow>
      pin_regs (pin_PullConfig (STM_PORT p) (STM_PIN p) pull s) port n = pin_regs s port n"
    using pull_regs(1) by (fastforce simp: same_elsewhere_def phys_def)
qed

lemma af_port:
  "list_all af_row (butlast t) \<Longrightarrow> (p, i, f) \<in> set (butlast t) \<Longrightarrow> get_GPIO_Port (STM_PORT p) = Some (STM_PORT p)"
proof -
  assume "list_all af_row (butlast t)" "(p, i, f) \<in> set (butlast t)"
  then have "STM_PORT p \<le> 10" by (auto simp: list_all_iff af_row_def consts_simp)
  then have "STM_PORT p < 11" by unat_arith
  then show ?thesis by (simp add: get_GPIO_Port_def consts_simp)
qed

lemma spi_pins_apart:
  assumes "(m, i, f1) \<in> set (butlast PinMap_SPI_MOSI)" and "(q, i, f2) \<in> set (butlast PinMap_SPI_MISO)"
    and "(c, i, f3) \<in> set (butlast PinMap_SPI_SCLK)"
    and "e = NC \<or> (e, i, f4) \<in> set (butlast PinMap_SPI_SSEL)"
  shows "phys m \<noteq> phys q \<and> phys m \<noteq> phys c \<and> phys q \<noteq> phys c \<and>
    (e \<noteq> NC \<longrightarrow> phys m \<noteq> phys e \<and> phys q \<noteq> phys e \<and> phys c \<noteq> phys e)"
  using apart_rows [OF apart_mosi(1) assms(1,2)] apart_rows [OF apart_mosi(2) assms(1,3)]
    apart_rows [OF apart_others(1) assms(2,3)] assms(4)
    apart_rows [OF apart_mosi(3) assms(1)] apart_rows [OF apart_others(2) assms(2)]
    apart_rows [OF apart_others(3) assms(3)] by blast

lemma spi_pins_run:
  fixes s :: "'a gpio_scheme"
  assumes rows: "(pin_mosi ob, i, f1) \<in> set (butlast PinMap_SPI_MOSI)"
      "(pin_miso ob, i, f2) \<in> set (butlast PinMap_SPI_MISO)" "(pin_sclk ob, i, f3) \<in> set (butlast PinMap_SPI_SCLK)"
      "pin_ssel ob = NC \<or> (pin_ssel ob, i, f4) \<in> set (butlast PinMap_SPI_SSEL)"
    and pol: "CLKPolarity (handle ob) = (if mode = SPI_MODE_0 \<or> mode = SPI_MODE_1 then SPI_POLARITY_LOW else SPI_POLARITY_HIGH)"
  shows "\<exists>s'. spi_pins ob s = Some s' \<and>
    pin_regs s' (STM_PORT (pin_mosi ob)) (STM_PIN (pin_mosi ob)) = af_regs f1 \<and>
    pin_regs s' (STM_PORT (pin_miso ob)) (STM_PIN (pin_miso ob)) = af_regs f2 \<and>
    pin_regs s' (STM_PORT (pin_sclk ob)) (STM_PIN (pin_sclk ob)) = sck_regs mode f3 \<and>
    (pin_ssel ob \<noteq> NC \<longrightarrow> pin_regs s' (STM_PORT (pin_ssel ob)) (STM_PIN (pin_ssel ob)) = af_regs f4) \<and>
    (\<forall>port n. (port, n) \<notin> {phys (pin_mosi ob), phys (pin_miso ob), phys (pin_sclk ob), phys (pin_ssel ob)} \<longrightarrow>
       n \<le> 15 \<longrightarrow> pin_regs s' port n = pin_regs s port n)"
proof -
  let ?m = "pin_mosi ob" and ?i = "pin_miso ob" and ?c = "pin_sclk ob" and ?e = "pin_ssel ob"
  define pull where "pull = (if mode = SPI_MODE_0 \<or> mode = SPI_MODE_1 then GPIO_PULLDOWN else GPIO_PULLUP)"
  note ok = spi_tables_ok [THEN conjunct1]
  obtain s1 where s1: "pinmap_pinout ?m PinMap_SPI_MOSI s = Some s1"
    "pin_regs s1 (STM_PORT ?m) (STM_PIN ?m) = af_regs f1"
    "\<forall>port n. (port, n) \<noteq> phys ?m \<longrightarrow> n \<le> 15 \<longrightarrow> pin_regs s1 port n = pin_regs s port n"
    using af_pin [OF ok(1) af_tables(1) rows(1), of s] by blast
  obtain s2 where s2: "pinmap_pinout ?i PinMap_SPI_MISO s1 = Some s2"
    "pin_regs s2 (STM_PORT ?i) (STM_PIN ?i) = af_regs f2"
    "\<forall>port n. (port, n) \<noteq> phys ?i \<longrightarrow> n \<le> 15 \<longrightarrow> pin_regs s2 port n = pin_regs s1 port n"
    using af_pin [OF ok(2) af_tables(2) rows(2), of s1] by blast
  obtain s3 where s3: "pinmap_pinout ?c PinMap_SPI_SCLK s2 = Some s3"
    "pin_regs s3 (STM_PORT ?c) (STM_PIN ?c) = af_regs f3"
    "\<forall>port n. (port, n) \<noteq> phys ?c \<longrightarrow> n \<le> 15 \<longrightarrow> pin_regs s3 port n = pin_regs s2 port n"
    using af_pin [OF ok(3) af_tables(3) rows(3), of s2] by blast
  define s4 where "s4 = pin_PullConfig (STM_PORT ?c) (STM_PIN ?c) pull s3"
  note s4 = sck_pull_regs [OF s3(2) pull_def, folded s4_def]
  obtain s5 where s5: "pinmap_pinout ?e PinMap_SPI_SSEL s4 = Some s5"
    "?e \<noteq> NC \<longrightarrow> pin_regs s5 (STM_PORT ?e) (STM_PIN ?e) = af_regs f4" "?e = NC \<longrightarrow> s5 = s4"
    "\<forall>port n. (port, n) \<noteq> phys ?e \<longrightarrow> n \<le> 15 \<longrightarrow> pin_regs s5 port n = pin_regs s4 port n"
    using optional_pin [OF ok(4) af_tables(4) rows(4), of s4] by blast
  have run: "spi_pins ob s = Some s5"
    using s1(1) s2(1) s3(1) s5(1) pol
    by (cases mode) (simp_all add: spi_pins_def af_port [OF af_tables(3) rows(3)] s4_def pull_def)
  note ne = spi_pins_apart [OF rows]
  have keep: "pin_regs s5 (STM_PORT p) (STM_PIN p) = pin_regs s4 (STM_PORT p) (STM_PIN p)"
    if "?e \<noteq> NC \<longrightarrow> phys p \<noteq> phys ?e" for p
    using s5(3,4) that nibble [of p] by (cases "?e = NC") (auto simp: phys_def)
  have "pin_regs s5 (STM_PORT ?m) (STM_PIN ?m) = af_regs f1"
    using keep [of ?m] ne s4(2) s3(3) s2(3) s1(2) nibble [of ?m] by (simp add: phys_def)
  moreover have "pin_regs s5 (STM_PORT ?i) (STM_PIN ?i) = af_regs f2"
    using keep [of ?i] ne s4(2) s3(3) s2(2) nibble [of ?i] by (simp add: phys_def)
  moreover have "pin_regs s5 (STM_PORT ?c) (STM_PIN ?c) = sck_regs mode f3" using keep [of ?c] ne s4(1) by simp
  moreover have "pin_regs s5 port n = pin_regs s port n"
    if "(port, n) \<notin> {phys ?m, phys ?i, phys ?c, phys ?e}" "n \<le> 15" for port n
    using s5(4) s4(2) s3(3) s2(3) s1(3) that by simp
  ultimately show ?thesis using run s5(2) by blast
qed

section \<open>Initialisation\<close>

lemma spi_init_run:
  fixes s :: "'a gpio_scheme"
  assumes "(pin_mosi ob, i, f1) \<in> set (butlast PinMap_SPI_MOSI)"
    and "(pin_miso ob, i, f2) \<in> set (butlast PinMap_SPI_MISO)"
    and "(pin_sclk ob, i, f3) \<in> set (butlast PinMap_SPI_SCLK)"
    and "pin_ssel ob = NC \<or> (pin_ssel ob, i, f4) \<in> set (butlast PinMap_SPI_SSEL)"
    and "i \<in> {SPI1, SPI2, SPI3, SPI4, SPI5, SPI6}"
    and "ob1 = spi_fill clk speed mode msb (ob\<lparr>spi := i\<rparr>)"
  shows "spi_init clk (Some ob) speed mode msb s = map_option (\<lambda>s'. (Some ob1, s',
      [Spi_clk_enable i, Spi_force_reset i, Spi_release_reset i, HAL_SPI_Init (handle ob1), HAL_SPI_ENABLE (handle ob1)]))
      (spi_pins ob1 s)"
proof -
  note ok = spi_tables_ok [THEN conjunct1]
  have per: "pinmap_peripheral (pin_mosi ob) PinMap_SPI_MOSI = Some i" "pinmap_peripheral (pin_miso ob) PinMap_SPI_MISO = Some i"
    "pinmap_peripheral (pin_sclk ob) PinMap_SPI_SCLK = Some i" and np: "i \<noteq> NP"
    using row_peripheral [OF ok(1) assms(1)] row_peripheral [OF ok(2) assms(2)] row_peripheral [OF ok(3) assms(3)] by blast+
  have "pinmap_peripheral NC PinMap_SPI_SSEL = Some NP" by (simp add: pinmap_peripheral_def)
  then obtain e where e: "pinmap_peripheral (pin_ssel ob) PinMap_SPI_SSEL = Some e" "e = NP \<or> e = i"
    using assms(4) row_peripheral [OF ok(4)] by metis
  show ?thesis
    using per e np assms(5) unfolding assms(6)
    by (cases "spi_pins (spi_fill clk speed mode msb (ob\<lparr>spi := i\<rparr>)) s")
      (auto simp: spi_init_def pinmap_merge_peripheral_def spi_fill_fields Let_def)
qed

text \<open>C22: Given pins of one SPI instance, with or without a select pin, initialisation takes that
  instance, sets phase and polarity as the mode says, routes each pin to the instance, pulls
  the clock line to its idle level, touches no other pin, and then resets, initialises and
  enables the peripheral in this order.\<close>

theorem spi_init_configures:
  fixes s :: "'a gpio_scheme"
  assumes "(pin_mosi ob, i, f1) \<in> set (butlast PinMap_SPI_MOSI)"
    and "(pin_miso ob, i, f2) \<in> set (butlast PinMap_SPI_MISO)"
    and "(pin_sclk ob, i, f3) \<in> set (butlast PinMap_SPI_SCLK)"
    and "pin_ssel ob = NC \<or> (pin_ssel ob, i, f4) \<in> set (butlast PinMap_SPI_SSEL)"
    and "i \<in> {SPI1, SPI2, SPI3, SPI4, SPI5, SPI6}"
  shows "\<exists>ob' s'. spi_init clk (Some ob) speed mode msb s =
      Some (Some ob', s', [Spi_clk_enable i, Spi_force_reset i, Spi_release_reset i,
        HAL_SPI_Init (handle ob'), HAL_SPI_ENABLE (handle ob')]) \<and>
    spi ob' = i \<and> Instance (handle ob') = i \<and>
    (CLKPolarity (handle ob') = SPI_POLARITY_HIGH \<longleftrightarrow> mode \<in> {SPI_MODE_2, SPI_MODE_3}) \<and>
    (CLKPhase (handle ob') = SPI_PHASE_2EDGE \<longleftrightarrow> mode \<in> {SPI_MODE_1, SPI_MODE_3}) \<and>
    pin_regs s' (STM_PORT (pin_mosi ob)) (STM_PIN (pin_mosi ob)) = af_regs f1 \<and>
    pin_regs s' (STM_PORT (pin_miso ob)) (STM_PIN (pin_miso ob)) = af_regs f2 \<and>
    pin_regs s' (STM_PORT (pin_sclk ob)) (STM_PIN (pin_sclk ob)) = sck_regs mode f3 \<and>
    (pin_ssel ob \<noteq> NC \<longrightarrow> pin_regs s' (STM_PORT (pin_ssel ob)) (STM_PIN (pin_ssel ob)) = af_regs f4) \<and>
    (\<forall>port n. (port, n) \<notin> {phys (pin_mosi ob), phys (pin_miso ob), phys (pin_sclk ob), phys (pin_ssel ob)} \<longrightarrow>
       n \<le> 15 \<longrightarrow> pin_regs s' port n = pin_regs s port n)"
proof -
  let ?ob = "spi_fill clk speed mode msb (ob\<lparr>spi := i\<rparr>)"
  have phase: "(CLKPhase (handle ?ob) = SPI_PHASE_2EDGE) = (mode \<in> {SPI_MODE_1, SPI_MODE_3})"
    by (cases mode) (simp_all add: spi_fill_def Let_def)
  have polarity: "(CLKPolarity (handle ?ob) = SPI_POLARITY_HIGH) = (mode \<in> {SPI_MODE_2, SPI_MODE_3})"
    by (cases mode) (simp_all add: spi_fill_fields)
  obtain s' where "spi_pins ?ob s = Some s'"
    and regs: "pin_regs s' (STM_PORT (pin_mosi ob)) (STM_PIN (pin_mosi ob)) = af_regs f1"
      "pin_regs s' (STM_PORT (pin_miso ob)) (STM_PIN (pin_miso ob)) = af_regs f2"
      "pin_regs s' (STM_PORT (pin_sclk ob)) (STM_PIN (pin_sclk ob)) = sck_regs mode f3"
      "pin_ssel ob \<noteq> NC \<longrightarrow> pin_regs s' (STM_PORT (pin_ssel ob)) (STM_PIN (pin_ssel ob)) = af_regs f4"
      "\<forall>port n. (port, n) \<notin> {phys (pin_mosi ob), phys (pin_miso ob), phys (pin_sclk ob), phys (pin_ssel ob)} \<longrightarrow>
         n \<le> 15 \<longrightarrow> pin_regs s' port n = pin_regs s port n"
    using spi_pins_run [of ?ob i f1 f2 f3 f4 mode s, unfolded spi_fill_fields spi_frame, OF assms(1-4) refl] by blast
  then have "spi_init clk (Some ob) speed mode msb s = Some (Some ?ob, s', [Spi_clk_enable i, Spi_force_reset i,
      Spi_release_reset i, HAL_SPI_Init (handle ?ob), HAL_SPI_ENABLE (handle ?ob)])"
    by (simp add: spi_init_run [OF assms refl])
  then show ?thesis using regs phase polarity
    by (intro exI [of _ ?ob] exI [of _ s']) (simp only: spi_fill_fields spi_frame simp_thms)
qed

text \<open>The pins of the board's default SPI bus, mode 0.\<close>

definition spi0 :: spi_t where
  "spi0 = \<lparr>handle = \<lparr>Instance = NP, Mode = SPI_MODE_SLAVE, Direction = SPI_DIRECTION_1LINE, NSS = SPI_NSS_HARD_INPUT,
      BaudRatePrescaler = 0, CLKPhase = SPI_PHASE_2EDGE, CLKPolarity = SPI_POLARITY_HIGH, CRCCalculation = SPI_ENABLE,
      CRCPolynomial = 0, DataSize = 0, FirstBit = SPI_FIRSTBIT_LSB, TIMode = SPI_ENABLE, NSSPMode = SPI_ENABLE,
      MasterKeepIOState = SPI_DISABLE\<rparr>,
    spi = NP, pin_miso = PA 6, pin_mosi = PA 7, pin_sclk = PA 5, pin_ssel = NC, disable_delay = 0\<rparr>"

definition clocks0 :: clocks where
  "clocks0 = \<lparr>SystemCoreClock = 480000000, GetPeriphCLKFreq = (\<lambda>_. 0), GetPCLK1Freq = 120000000, GetPCLK2Freq = 120000000\<rparr>"

theorem spi_init_configures_witness:
  "\<exists>ob' s'. spi_init clocks0 (Some spi0) 4000000 SPI_MODE_0 1 gpio0 =
      Some (Some ob', s', [Spi_clk_enable SPI1, Spi_force_reset SPI1, Spi_release_reset SPI1,
        HAL_SPI_Init (handle ob'), HAL_SPI_ENABLE (handle ob')]) \<and>
    pin_regs s' 0 5 = (LL_GPIO_MODE_ALTERNATE, LL_GPIO_OUTPUT_PUSHPULL, LL_GPIO_SPEED_FREQ_VERY_HIGH, LL_GPIO_PULL_DOWN, 5)"
proof -
  let ?f = "STM_PIN_DATA STM_MODE_AF_PP GPIO_PULLUP 5"
  have rows: "(pin_mosi spi0, SPI1, ?f) \<in> set (butlast PinMap_SPI_MOSI)"
    "(pin_miso spi0, SPI1, ?f) \<in> set (butlast PinMap_SPI_MISO)"
    "(pin_sclk spi0, SPI1, ?f) \<in> set (butlast PinMap_SPI_SCLK)"
    by (simp_all add: spi0_def PinMap_SPI_MOSI_def PinMap_SPI_MISO_def PinMap_SPI_SCLK_def port_defs consts_simp)
  have "pin_ssel spi0 = NC" and sck: "STM_PORT (pin_sclk spi0) = 0" "STM_PIN (pin_sclk spi0) = 5"
    "sck_regs SPI_MODE_0 ?f = (LL_GPIO_MODE_ALTERNATE, LL_GPIO_OUTPUT_PUSHPULL, LL_GPIO_SPEED_FREQ_VERY_HIGH, LL_GPIO_PULL_DOWN, 5)"
    by (simp_all add: spi0_def STM_PORT_def STM_PIN_def port_defs sck_regs_def sck_pull_def STM_PIN_AFNUM_def STM_PIN_DATA_def consts_simp)
  then show ?thesis
    using spi_init_configures [OF rows, of ?f clocks0 4000000 SPI_MODE_0 1 gpio0] unfolding sck by blast
qed

lemma no_peripheral_no_route:
  "table_ok t \<Longrightarrow> pinmap_peripheral p t = Some NP \<Longrightarrow> p \<noteq> NC \<Longrightarrow> pinmap_pinout p t s = None"
proof -
  assume t: "table_ok t" and p: "pinmap_peripheral p t = Some NP" "p \<noteq> NC"
  have "p \<notin> fst ` set (butlast t)"
  proof
    assume "p \<in> fst ` set (butlast t)"
    then obtain i f where "(p, i, f) \<in> set (butlast t)" by force
    with row_peripheral [OF t this] p(1) show False by auto
  qed
  then show ?thesis using table_lookups [OF t, of s] p(2) by blast
qed

lemma spi_pins_stop:
  fixes s :: "'a gpio_scheme"
  assumes "\<And>s :: 'a gpio_scheme. pinmap_pinout (pin_ssel ob) PinMap_SPI_SSEL s = None"
  shows "spi_pins ob s = None"
  by (simp add: spi_pins_def Let_def assms split: bind_split)

text \<open>Initialisation refuses pins it cannot use, without touching a pin or the peripheral: when a
  data or clock pin has no SPI function, or when the pins belong to different instances. A
  select pin without SPI function passes both checks and then stops the program in the error
  handler.\<close>

theorem spi_init_refuses:
  fixes s :: "'a gpio_scheme"
  assumes "pinmap_peripheral (pin_mosi ob) PinMap_SPI_MOSI = Some a" and "pinmap_peripheral (pin_miso ob) PinMap_SPI_MISO = Some b"
    and "pinmap_peripheral (pin_sclk ob) PinMap_SPI_SCLK = Some c" and "pinmap_peripheral (pin_ssel ob) PinMap_SPI_SSEL = Some d"
  shows "if a = NP \<or> b = NP \<or> c = NP then spi_init clk (Some ob) speed mode msb s = Some (Some ob, s, [])
    else if a \<noteq> b \<or> a \<noteq> c \<or> (d \<noteq> NP \<and> d \<noteq> c)
    then \<exists>i. spi_init clk (Some ob) speed mode msb s = Some (Some (ob\<lparr>spi := i\<rparr>), s, [])
    else d = NP \<and> pin_ssel ob \<noteq> NC \<longrightarrow> spi_init clk (Some ob) speed mode msb s = None"
proof -
  have "spi_pins (spi_fill clk speed mode msb (ob\<lparr>spi := i\<rparr>)) s = None" if "d = NP" "pin_ssel ob \<noteq> NC" for i
    using no_peripheral_no_route [OF PinMap_SPI_SSEL_ok [THEN conjunct1]] assms(4) that
    by (intro spi_pins_stop) (simp add: spi_fill_fields)
  then have stop: "spi_pins (spi_fill clk speed mode msb (ob\<lparr>spi := c\<rparr>)) s = None" if "d = NP" "pin_ssel ob \<noteq> NC"
    using that by blast
  note init = spi_init_def assms option.case Option.bind.bind_lunit pinmap_merge_peripheral_def Let_def
  consider "a = NP \<or> b = NP \<or> c = NP" | "a \<noteq> NP" "b \<noteq> NP" "c \<noteq> NP" "a \<noteq> b"
    | "a \<noteq> NP" "b = a" "c \<noteq> NP" "d \<noteq> NP" "d \<noteq> c" | "a \<noteq> NP" "b = a" "c \<noteq> NP" "d = NP \<or> d = c" "a \<noteq> c"
    | "a \<noteq> NP" "b = a" "c = a" "d = NP \<or> d = c" by blast
  then show ?thesis
  proof cases
    case 5
    then show ?thesis using stop by (auto simp: init)
  qed (auto simp: init)
qed

theorem spi_init_refuses_witness:
  "spi_init clocks0 (Some (spi0\<lparr>pin_ssel := PA 0\<rparr>)) 4000000 SPI_MODE_0 1 gpio0 = None"
proof -
  have "pinmap_peripheral (PA 7) PinMap_SPI_MOSI = Some SPI1" "pinmap_peripheral (PA 6) PinMap_SPI_MISO = Some SPI1"
    "pinmap_peripheral (PA 5) PinMap_SPI_SCLK = Some SPI1" "pinmap_peripheral (PA 0) PinMap_SPI_SSEL = Some NP" "PA 0 \<noteq> NC"
    by (simp_all add: pinmap_peripheral_def PinMap_SPI_MOSI_def PinMap_SPI_MISO_def PinMap_SPI_SCLK_def
        PinMap_SPI_SSEL_def port_defs consts_simp)
  then show ?thesis
    using spi_init_refuses [of "spi0\<lparr>pin_ssel := PA 0\<rparr>" SPI1 SPI1 SPI1 NP clocks0 4000000 SPI_MODE_0 1 gpio0]
    by (simp add: spi0_def)
qed

section \<open>Transfer\<close>

text \<open>A peer that answers each byte: \<open>out\<close> are the bytes it has received, \<open>pend\<close> the bytes the
  receiver holds, \<open>answer\<close> the answer to a byte after those received before. The flags come up
  after finitely many polls, and reading the flags exchanges nothing.\<close>

definition peer_ok :: "'w spi_ll \<Rightarrow> ('w \<Rightarrow> u8 list) \<Rightarrow> ('w \<Rightarrow> u8 list) \<Rightarrow> (u8 list \<Rightarrow> u8 \<Rightarrow> u8) \<Rightarrow> bool" where
  "peer_ok ll out pend answer \<longleftrightarrow>
     (\<forall>w. \<exists>w'. wait_flag (TXP ll) w = Some w' \<and> out w' = out w \<and> pend w' = pend w) \<and>
     (\<forall>w b. pend w = [] \<longrightarrow> out (TransmitData8 ll b w) = out w @ [b] \<and>
        pend (TransmitData8 ll b w) = [answer (out w) b]) \<and>
     (\<forall>w x. pend w = [x] \<longrightarrow> (\<exists>w' w''. wait_flag (RXP ll) w = Some w' \<and> ReceiveData8 ll w' = (x, w'') \<and>
        out w'' = out w \<and> pend w'' = [])) \<and>
     (\<forall>n w. out (Spi_start ll n w) = out w \<and> pend (Spi_start ll n w) = pend w) \<and>
     (\<forall>d w. out (Spi_delay ll d w) = out w) \<and> (\<forall>w. out (Spi_close ll w) = out w)"

lemma exchange_one:
  assumes "peer_ok ll out pend answer" and "pend w = []"
  shows "\<exists>w1 w' w''. wait_flag (TXP ll) w = Some w1 \<and>
    wait_flag (RXP ll) (TransmitData8 ll b w1) = Some w' \<and> ReceiveData8 ll w' = (answer (out w) b, w'') \<and>
    out w'' = out w @ [b] \<and> pend w'' = []"
proof -
  obtain w1 where w1: "wait_flag (TXP ll) w = Some w1" "out w1 = out w" "pend w1 = []"
    using assms unfolding peer_ok_def by metis
  have t: "out (TransmitData8 ll b w1) = out w @ [b]" "pend (TransmitData8 ll b w1) = [answer (out w) b]"
    using assms(1) w1 unfolding peer_ok_def by metis+
  obtain w' w'' where "wait_flag (RXP ll) (TransmitData8 ll b w1) = Some w'"
    "ReceiveData8 ll w' = (answer (out w) b, w'')" "out w'' = out (TransmitData8 ll b w1)" "pend w'' = []"
    using assms(1) t(2) unfolding peer_ok_def by metis
  then show ?thesis using w1(1) t(1) by metis
qed

text \<open>What \<open>k\<close> exchanged bytes leave: the peer has the bytes sent, the memory the answers.\<close>

definition exchanged :: "('w \<Rightarrow> u8 list) \<Rightarrow> (u8 list \<Rightarrow> u8 \<Rightarrow> u8) \<Rightarrow> nat \<Rightarrow> nat \<Rightarrow> nat \<Rightarrow> (nat \<Rightarrow> u8) \<Rightarrow> 'w \<Rightarrow>
    (nat \<Rightarrow> u8) \<Rightarrow> 'w \<Rightarrow> bool" where
  "exchanged out answer k tx rx mem w mem' w' \<longleftrightarrow>
     out w' = out w @ map mem [tx..<tx + k] \<and>
     (\<forall>i<k. mem' (rx + i) = answer (out w @ map mem [tx..<tx + i]) (mem (tx + i))) \<and>
     (\<forall>a. a \<notin> {rx..<rx + k} \<longrightarrow> mem' a = mem a)"

lemma exchanged_Suc:
  assumes tail: "exchanged out answer k (tx + 1) (rx + 1) (mem(rx := answer (out w) (mem tx))) w1 mem' w'"
    and w1: "out w1 = out w @ [mem tx]" and apart: "rx \<le> tx \<or> tx + k < rx"
  shows "exchanged out answer (Suc k) tx rx mem w mem' w'"
proof -
  let ?m = "mem(rx := answer (out w) (mem tx))"
  have same: "?m (tx + 1 + j) = mem (tx + 1 + j)" if "j < k" for j using apart that by auto
  have cons: "mem tx # map ?m [tx + 1..<tx + 1 + j] = map mem [tx..<tx + Suc j]" if "j \<le> k" for j
  proof -
    have "map ?m [tx + 1..<tx + 1 + j] = map mem [tx + 1..<tx + 1 + j]"
    proof (rule map_cong)
      fix x assume "x \<in> set [tx + 1..<tx + 1 + j]"
      then have "x = tx + 1 + (x - tx - 1)" "x - tx - 1 < k" using that by auto
      then show "?m x = mem x" using same by metis
    qed simp
    moreover have "[tx..<tx + Suc j] = tx # [tx + 1..<tx + 1 + j]" by (simp add: upt_conv_Cons)
    ultimately show ?thesis by simp
  qed
  have "mem' (rx + i) = answer (out w @ map mem [tx..<tx + i]) (mem (tx + i))" if "i < Suc k" for i
  proof (cases i)
    case 0
    then show ?thesis using tail by (simp add: exchanged_def)
  next
    case (Suc j)
    then have j: "j < k" using that by simp
    with tail have "mem' (rx + 1 + j) = answer (out w1 @ map ?m [tx + 1..<tx + 1 + j]) (?m (tx + 1 + j))"
      unfolding exchanged_def by blast
    moreover have "out w1 @ map ?m [tx + 1..<tx + 1 + j] = out w @ map mem [tx..<tx + Suc j]"
      using cons [of j] j by (simp only: w1 append_assoc append_Cons append_Nil)
    ultimately show ?thesis using Suc same [OF j] by simp
  qed
  moreover have "out w' = out w @ map mem [tx..<tx + Suc k]"
    using tail cons [of k] unfolding exchanged_def w1 by (simp only: append_assoc append_Cons append_Nil)
  moreover have "mem' a = mem a" if "a \<notin> {rx..<rx + Suc k}" for a
  proof -
    have "a \<notin> {rx + 1..<rx + 1 + k}" "a \<noteq> rx" using that by auto
    then show ?thesis using tail unfolding exchanged_def by (metis fun_upd_other)
  qed
  ultimately show ?thesis unfolding exchanged_def by blast
qed

lemma transfer_loop_exchanges:
  assumes "peer_ok ll out pend answer" and "pend w = []" and "rx \<le> tx \<or> tx + n \<le> rx"
  shows "\<exists>k r mem' w'. transfer_loop ll False T ts n tx rx mem w = Some (r, mem', w') \<and> k \<le> n \<and>
    (r = SPI_OK \<and> k = n \<or> r = SPI_TIMEOUT \<and> 0 < k \<and> T \<noteq> HAL_MAX_DELAY) \<and>
    exchanged out answer k tx rx mem w mem' w'"
  using assms(2,3)
proof (induction n arbitrary: tx rx mem w)
  case 0
  then show ?case by (intro exI [of _ 0]) (simp add: exchanged_def)
next
  case (Suc n)
  let ?m = "mem(rx := answer (out w) (mem tx))"
  obtain w1 w2 w3 where step: "wait_flag (TXP ll) w = Some w1"
    "wait_flag (RXP ll) (TransmitData8 ll (mem tx) w1) = Some w2" "ReceiveData8 ll w2 = (answer (out w) (mem tx), w3)"
    and w3: "out w3 = out w @ [mem tx]" "pend w3 = []"
    using exchange_one [OF assms(1) Suc.prems(1)] by blast
  let ?stop = "T \<noteq> HAL_MAX_DELAY \<and> Spi_tick ll w3 - ts \<ge> T"
  have run: "transfer_loop ll False T ts (Suc n) tx rx mem w =
      (if ?stop then Some (SPI_TIMEOUT, ?m, w3) else transfer_loop ll False T ts n (tx + 1) (rx + 1) ?m w3)"
    by (simp add: step)
  show ?case
  proof (cases ?stop)
    case True
    have "exchanged out answer 0 (tx + 1) (rx + 1) ?m w3 ?m w3" by (simp add: exchanged_def)
    then have "exchanged out answer (Suc 0) tx rx mem w ?m w3"
      using w3(1) Suc.prems(2) by (intro exchanged_Suc) auto
    moreover have "transfer_loop ll False T ts (Suc n) tx rx mem w = Some (SPI_TIMEOUT, ?m, w3)"
      unfolding run using True by (rule if_P)
    moreover have "Suc 0 \<le> Suc n" "0 < Suc 0" by simp_all
    ultimately show ?thesis using True by blast
  next
    case False
    have "rx + 1 \<le> tx + 1 \<or> tx + 1 + n \<le> rx + 1" using Suc.prems(2) by auto
    with Suc.IH [OF w3(2)] obtain k r mem' w'
      where t: "transfer_loop ll False T ts n (tx + 1) (rx + 1) ?m w3 = Some (r, mem', w')" "k \<le> n"
        "r = SPI_OK \<and> k = n \<or> r = SPI_TIMEOUT \<and> 0 < k \<and> T \<noteq> HAL_MAX_DELAY"
        and e: "exchanged out answer k (tx + 1) (rx + 1) ?m w3 mem' w'" by blast
    have "exchanged out answer (Suc k) tx rx mem w mem' w'"
      using e w3(1) by (rule exchanged_Suc) (use Suc.prems(2) t(2) in auto)
    then show ?thesis using run False t by (intro exI [of _ "Suc k"] exI [of _ r]) auto
  qed
qed

text \<open>C23: A transfer exchanges bytes one by one with a responsive peer: without a timeout all of
  them, and otherwise at least one and as many as it reports. The peer gets the bytes of the
  transmit buffer as they were before the transfer, also when the two buffers are the same or
  the receive buffer begins earlier; the receive buffer gets the peer's answers in
  order; nothing else in memory changes. An empty transfer is an error, and a timeout of zero is
  reported as such, both without touching the bus.\<close>

theorem spi_transfer_exchanges:
  assumes "peer_ok ll out pend answer" and "pend w = []" and "rx \<le> tx \<or> tx + len \<le> rx"
  shows "\<exists>k r mem' w'. spi_transfer ll (Some ob) tx rx len Timeout False mem w = Some (r, mem', w') \<and>
    (if Timeout = 0 then r = SPI_TIMEOUT \<and> k = 0 \<and> w' = w
     else if len = 0 then r = SPI_ERROR \<and> k = 0 \<and> w' = w
     else r = SPI_OK \<and> k = len \<or> r = SPI_TIMEOUT \<and> 0 < k \<and> k \<le> len \<and> Timeout \<noteq> HAL_MAX_DELAY) \<and>
    exchanged out answer k tx rx mem w mem' w'"
proof (cases "len = 0 \<or> Timeout = 0")
  case True
  have "exchanged out answer 0 tx rx mem w mem w" by (simp add: exchanged_def)
  then show ?thesis using True by (auto simp: spi_transfer_def word_gt_0)
next
  case False
  let ?w = "Spi_start ll len w"
  have start: "out ?w = out w" "pend ?w = []" using assms(1,2) by (simp_all add: peer_ok_def)
  from transfer_loop_exchanges [OF assms(1) start(2) assms(3), of Timeout "Spi_tick ll w" mem]
  obtain k r mem' w' where t: "transfer_loop ll False Timeout (Spi_tick ll w) len tx rx mem ?w = Some (r, mem', w')"
    "k \<le> len" "r = SPI_OK \<and> k = len \<or> r = SPI_TIMEOUT \<and> 0 < k \<and> Timeout \<noteq> HAL_MAX_DELAY"
    "exchanged out answer k tx rx mem ?w mem' w'" by blast
  let ?w' = "Spi_close ll (Spi_delay ll (disable_delay ob) w')"
  have "out ?w' = out w'" using assms(1) by (simp add: peer_ok_def)
  then have "exchanged out answer k tx rx mem w mem' ?w'"
    using t(4) by (simp add: exchanged_def start)
  moreover have "spi_transfer ll (Some ob) tx rx len Timeout False mem w = Some (r, mem', ?w')"
    using False t(1) by (simp add: spi_transfer_def)
  moreover have "if Timeout = 0 then r = SPI_TIMEOUT \<and> k = 0 \<and> ?w' = w
     else if len = 0 then r = SPI_ERROR \<and> k = 0 \<and> ?w' = w
     else r = SPI_OK \<and> k = len \<or> r = SPI_TIMEOUT \<and> 0 < k \<and> k \<le> len \<and> Timeout \<noteq> HAL_MAX_DELAY"
    using False t(2,3) by simp
  ultimately show ?thesis by blast
qed

text \<open>A shift register of one byte: each byte sent brings the byte before it.\<close>

definition shift_register :: "(u8 list \<times> u8 list) spi_ll" where
  "shift_register = \<lparr>TXP = (\<lambda>w. (True, w)),
     TransmitData8 = (\<lambda>b (q, p). (q @ [b], [if q = [] then 0 else last q])),
     RXP = (\<lambda>w. (snd w \<noteq> [], w)), ReceiveData8 = (\<lambda>(q, p). (hd p, (q, tl p))),
     Spi_tick = (\<lambda>_. 0), Spi_start = (\<lambda>_ w. w), Spi_delay = (\<lambda>_ w. w), Spi_close = (\<lambda>w. w)\<rparr>"

lemma shift_register_ok: "peer_ok shift_register fst snd (\<lambda>q b. if q = [] then 0 else last q)"
  by (auto simp: peer_ok_def shift_register_def wait_flag.simps)

theorem spi_transfer_exchanges_witness:
  "\<exists>mem' w'. spi_transfer shift_register (Some spi0) 8 8 3 HAL_MAX_DELAY False (\<lambda>a. word_of_nat a) ([], []) =
      Some (SPI_OK, mem', w') \<and> map mem' [8, 9, 10, 11] = [0, 8, 9, 11] \<and> fst w' = [8, 9, 10]"
proof -
  from spi_transfer_exchanges [OF shift_register_ok, of "([], [])" 8 8 3 spi0 HAL_MAX_DELAY "\<lambda>a. word_of_nat a"]
  obtain mem' w' where run: "spi_transfer shift_register (Some spi0) 8 8 3 HAL_MAX_DELAY False (\<lambda>a. word_of_nat a) ([], []) =
      Some (SPI_OK, mem', w')"
    and e: "exchanged fst (\<lambda>q b. if q = [] then 0 else last q) 3 8 8 (\<lambda>a. word_of_nat a) ([], []) mem' w'"
    by (auto simp: HAL_MAX_DELAY_def)
  have "mem' (8 + 0) = 0" "mem' (8 + 1) = 8" "mem' (8 + 2) = 9" "mem' 11 = 11" "fst w' = [8, 9, 10]"
    using e [unfolded exchanged_def, THEN conjunct2, THEN conjunct1, rule_format, of 0]
      e [unfolded exchanged_def, THEN conjunct2, THEN conjunct1, rule_format, of 1]
      e [unfolded exchanged_def, THEN conjunct2, THEN conjunct1, rule_format, of 2]
      e [unfolded exchanged_def, THEN conjunct2, THEN conjunct2, rule_format, of 11]
      e [unfolded exchanged_def, THEN conjunct1]
    by (simp_all add: upt_rec)
  then show ?thesis using run by auto
qed

end
