(* ===== verification/Board.thy ===== *)
theory Board
  imports Eth_Msp Spi_Properties Wiring_Properties
begin

text \<open>
  The terminals of the board and the default pins of its buses,
  \<^verbatim>\<open>variants/STM32H7xx/H743/variant_PLC_H743.h\<close>, and how the parts that use pins get along:
  the Arduino functions on the terminals, the Ethernet controller, the SPI and serial
  drivers.
\<close>

section \<open>Names of pins\<close>

text \<open>\<open>PIN_A n\<close> is \<^verbatim>\<open>PIN_An\<close> of \<^verbatim>\<open>pins_arduino_analog.h\<close>.\<close>

named_theorems board_defs

definition PIN_A :: "u32 \<Rightarrow> u32" where [board_defs]: "PIN_A n = PNUM_ANALOG_BASE + n"

definition PA0 :: u32 where [board_defs]: "PA0 = PIN_A 0"
definition PA1 :: u32 where [board_defs]: "PA1 = PIN_A 1"
definition PA3 :: u32 where [board_defs]: "PA3 = PIN_A 3"
definition PA4 :: u32 where [board_defs]: "PA4 = PIN_A 4"
definition PA5 :: u32 where [board_defs]: "PA5 = PIN_A 5"
definition PA6 :: u32 where [board_defs]: "PA6 = PIN_A 6"
definition PA7 :: u32 where [board_defs]: "PA7 = PIN_A 7"
definition PA8 :: u32 where [board_defs]: "PA8 = 8"
definition PB0 :: u32 where [board_defs]: "PB0 = PIN_A 8"
definition PB1 :: u32 where [board_defs]: "PB1 = PIN_A 9"
definition PB2 :: u32 where [board_defs]: "PB2 = 18"
definition PB6 :: u32 where [board_defs]: "PB6 = 22"
definition PB7 :: u32 where [board_defs]: "PB7 = 23"
definition PB9 :: u32 where [board_defs]: "PB9 = 25"
definition PB10 :: u32 where [board_defs]: "PB10 = 26"
definition PC13 :: u32 where [board_defs]: "PC13 = 43"
definition PD4 :: u32 where [board_defs]: "PD4 = 50"
definition PD12 :: u32 where [board_defs]: "PD12 = 58"
definition PD13 :: u32 where [board_defs]: "PD13 = 59"
definition PE2 :: u32 where [board_defs]: "PE2 = 64"
definition PE3 :: u32 where [board_defs]: "PE3 = 65"
definition PE4 :: u32 where [board_defs]: "PE4 = 66"
definition PE5 :: u32 where [board_defs]: "PE5 = 67"
definition PE6 :: u32 where [board_defs]: "PE6 = 68"
definition PF7 :: u32 where [board_defs]: "PF7 = PIN_A 18"
definition PF8 :: u32 where [board_defs]: "PF8 = PIN_A 19"
definition PF9 :: u32 where [board_defs]: "PF9 = PIN_A 20"
definition PF10 :: u32 where [board_defs]: "PF10 = PIN_A 21"
definition PG3 :: u32 where [board_defs]: "PG3 = 97"
definition PG6 :: u32 where [board_defs]: "PG6 = 100"

definition REL_1 :: u32 where [board_defs]: "REL_1 = PE6"
definition REL_2 :: u32 where [board_defs]: "REL_2 = PE5"
definition REL_3 :: u32 where [board_defs]: "REL_3 = PE4"
definition REL_4 :: u32 where [board_defs]: "REL_4 = PE3"
definition REL_5 :: u32 where [board_defs]: "REL_5 = PE2"
definition REL_6 :: u32 where [board_defs]: "REL_6 = PB9"
definition DOUT_1 :: u32 where [board_defs]: "DOUT_1 = PA8"
definition DOUT_2 :: u32 where [board_defs]: "DOUT_2 = PG3"
definition DOUT_3 :: u32 where [board_defs]: "DOUT_3 = PG6"
definition DOUT_4 :: u32 where [board_defs]: "DOUT_4 = PD13"
definition DOUT_5 :: u32 where [board_defs]: "DOUT_5 = PD12"
definition DOUT_6 :: u32 where [board_defs]: "DOUT_6 = PA3"
definition DOUT_7 :: u32 where [board_defs]: "DOUT_7 = PB0"
definition DOUT_8 :: u32 where [board_defs]: "DOUT_8 = PB10"
definition DIN_1 :: u32 where [board_defs]: "DIN_1 = PF7"
definition DIN_2 :: u32 where [board_defs]: "DIN_2 = PF8"
definition DIN_3 :: u32 where [board_defs]: "DIN_3 = PF9"
definition DIN_4 :: u32 where [board_defs]: "DIN_4 = PF10"
definition DIN_5 :: u32 where [board_defs]: "DIN_5 = PC13"
definition DIN_6 :: u32 where [board_defs]: "DIN_6 = PD4"
definition DIN_7 :: u32 where [board_defs]: "DIN_7 = PA0"
definition DIN_8 :: u32 where [board_defs]: "DIN_8 = PB2"
definition AIN_1 :: u32 where [board_defs]: "AIN_1 = PA6"
definition AIN_2 :: u32 where [board_defs]: "AIN_2 = PB1"
definition AOUT_1 :: u32 where [board_defs]: "AOUT_1 = PA4"
definition AOUT_2 :: u32 where [board_defs]: "AOUT_2 = PA5"
definition PIN_SPI_MOSI :: u32 where [board_defs]: "PIN_SPI_MOSI = PA7"
definition PIN_SPI_MISO :: u32 where [board_defs]: "PIN_SPI_MISO = PA6"
definition PIN_SPI_SCK :: u32 where [board_defs]: "PIN_SPI_SCK = PA5"
definition PIN_SPI_SS :: u32 where [board_defs]: "PIN_SPI_SS = PA4"
definition PIN_SERIAL_RX :: u32 where [board_defs]: "PIN_SERIAL_RX = PA1"
definition PIN_SERIAL_TX :: u32 where [board_defs]: "PIN_SERIAL_TX = PA0"
definition RS232_Enable_Pin :: u32 where [board_defs]: "RS232_Enable_Pin = PB10"
definition LED3_Pin :: u32 where [board_defs]: "LED3_Pin = PE2"
definition PIN_WIRE_SDA :: u32 where [board_defs]: "PIN_WIRE_SDA = PB7"
definition PIN_WIRE_SCL :: u32 where [board_defs]: "PIN_WIRE_SCL = PB6"

section \<open>Terminals\<close>

definition digital_terminals :: "u32 list" where
  "digital_terminals =
     [REL_1, REL_2, REL_3, REL_4, REL_5, REL_6,
      DOUT_1, DOUT_2, DOUT_3, DOUT_4, DOUT_5, DOUT_6, DOUT_7, DOUT_8,
      DIN_1, DIN_2, DIN_3, DIN_4, DIN_5, DIN_6, DIN_7, DIN_8]"

definition analog_terminals :: "u32 list" where
  "analog_terminals = [AIN_1, AIN_2, AOUT_1, AOUT_2]"

definition terminals :: "u32 list" where
  "terminals = digital_terminals @ analog_terminals"

lemma terminal_pins:
  "map digitalPinToPinName terminals =
     [PE 6, PE 5, PE 4, PE 3, PE 2, PB 9, PA 8, PG 3, PG 6, PD 13, PD 12, PA 3, PB 0, PB 10,
      PF 7, PF 8, PF 9, PF 10, PC 13, PD 4, PA 0, PB 2, PA 6, PB 1, PA 4, PA 5]"
  by (simp add: terminals_def digital_terminals_def analog_terminals_def digitalPinToPinName_def digitalPin_def
      analogInputPin_def board_defs consts_simp)

lemma terminal_phys: "map (phys \<circ> digitalPinToPinName) terminals =
     [(4, 6), (4, 5), (4, 4), (4, 3), (4, 2), (1, 9), (0, 8), (6, 3), (6, 6), (3, 13), (3, 12), (0, 3), (1, 0), (1, 10),
      (5, 7), (5, 8), (5, 9), (5, 10), (2, 13), (3, 4), (0, 0), (1, 2), (0, 6), (1, 1), (0, 4), (0, 5)]"
  unfolding map_map [symmetric] terminal_pins
  by (simp add: phys_def STM_PORT_def STM_PIN_def port_defs consts_simp)

lemma terminals_apart: "t \<in> set terminals \<Longrightarrow> phys (digitalPinToPinName t) \<notin> eth_pos"
proof -
  have "(phys \<circ> digitalPinToPinName) ` set terminals \<inter> eth_pos = {}"
    unfolding set_map [symmetric] terminal_phys eth_pos_simp by simp
  then show "t \<in> set terminals \<Longrightarrow> phys (digitalPinToPinName t) \<notin> eth_pos" by auto
qed

section \<open>What a configuration leaves alone\<close>

lemma pin_function_fields:
  assumes "is_dualpad_switch_gpio_configurable p f = (True, sw)" and "pin_function p f s = Some s'"
  shows "STM_PORT p \<le> LastPort \<and> STM_PIN_FUNCTION f \<le> 3"
proof (rule ccontr)
  assume no: "\<not> ?thesis"
  have "set_mode (STM_PIN_FUNCTION f) a p q x = None" if "\<not> STM_PIN_FUNCTION f \<le> 3" for a q and x :: "'a gpio_scheme"
    using that by (auto simp: set_mode_def)
  then have "pin_function p f s = None"
    using assms(1) no by (auto simp: pin_function_def Let_def set_GPIO_Port_Clock_def)
  with assms(2) show False by simp
qed

lemma pin_function_elsewhere:
  fixes s :: "'a gpio_scheme"
  assumes "pin_function p f s = Some s'" and "(port, n) \<noteq> phys p" and "n \<le> 15"
  shows "pin_regs s' port n = pin_regs s port n"
proof -
  obtain b sw where c: "is_dualpad_switch_gpio_configurable p f = (b, sw)" by fastforce
  show ?thesis
  proof (cases b)
    case False
    then have "s' = configure_dualpad_switch p f sw s"
      using assms(1) c by (simp add: pin_function_def Let_def split: if_splits)
    then show ?thesis by (simp add: switch_regs)
  next
    case True
    then have c: "is_dualpad_switch_gpio_configurable p f = (True, sw)" using c by simp
    from pin_function_fields [OF c assms(1)] show ?thesis
      using pin_function_regs [OF _ _ c, of s] assms by (auto simp: phys_def)
  qed
qed

lemma stop_output_regs: "stop_output p s = Some s' \<Longrightarrow> pin_regs s' = pin_regs s"
  by (auto simp: stop_output_def wiring_call_def pin_regs_def alternate_def fun_eq_iff split: if_splits bind_splits)

lemma if_someE: "(if b then x else y) = Some z \<Longrightarrow> (x = Some z \<Longrightarrow> P) \<Longrightarrow> (y = Some z \<Longrightarrow> P) \<Longrightarrow> P"
  by (cases b) simp_all

lemma pinMode_elsewhere:
  assumes "pinMode t mode s = Some s'" and "(port, n) \<noteq> phys (digitalPinToPinName t)" and "n \<le> 15"
  shows "pin_regs s' port n = pin_regs s port n"
proof (cases "digitalPinToPinName t = NC")
  case True
  then show ?thesis using assms(1) by (simp add: pinMode_def)
next
  case False
  then obtain s1 where s1: "stop_output (digitalPinToPinName t) s = Some s1"
    using assms(1) by (cases "stop_output (digitalPinToPinName t) s") (simp_all add: pinMode_def Let_def)
  have "\<exists>f. pin_function (digitalPinToPinName t) f s1 = Some s'"
    using assms(1) unfolding pinMode_def Let_def if_P [OF False] s1 Option.bind.bind_lunit
    by - ((erule if_someE, rule exI, assumption)+, simp only: option.distinct)
  then show ?thesis using pin_function_elsewhere [OF _ assms(2,3)] stop_output_regs [OF s1] by metis
qed

lemma digitalWrite_regs: "digitalWrite t v s = Some s' \<Longrightarrow> pin_regs s' = pin_regs s"
  by (auto simp: digitalWrite_def digitalWriteFast_def pin_regs_def alternate_def fun_eq_iff split: bind_splits)

lemma analogWrite_elsewhere:
  assumes "analogWrite t v s = Some s'" and "(port, n) \<noteq> phys (digitalPinToPinName t)" and "n \<le> 15"
  shows "pin_regs s' port n = pin_regs s port n"
proof -
  let ?p = "digitalPinToPinName t"
  have keep: "pin_regs (wiring_call c s1) = pin_regs s" if "mark_configured p s = (b, s1)" for c p b s1
    using that by (auto simp: wiring_call_def mark_configured_def pin_regs_def alternate_def fun_eq_iff split: if_split_asm)
  show ?thesis
  proof (cases "?p = NC")
    case True
    then show ?thesis using assms(1) by (simp add: analogWrite_def)
  next
    case False
    then obtain dac where dac: "pin_in_pinmap ?p PinMap_DAC = Some dac"
      using assms(1) by (cases "pin_in_pinmap ?p PinMap_DAC") (simp_all add: analogWrite_def Let_def)
    show ?thesis
    proof (cases dac)
      case True
      obtain b s1 where m: "mark_configured ?p s = (b, s1)" by fastforce
      then show ?thesis using assms(1) False dac True by (auto simp: analogWrite_def Let_def keep [OF m])
    next
      case no_dac: False
      then obtain tim where tim: "pin_in_pinmap ?p PinMap_TIM = Some tim"
        using assms(1) False dac by (cases "pin_in_pinmap ?p PinMap_TIM") (simp_all add: analogWrite_def Let_def)
      show ?thesis
      proof (cases tim)
        case True
        obtain b s1 where m: "mark_configured ?p s = (b, s1)" by fastforce
        then show ?thesis using assms(1) False dac no_dac tim True by (auto simp: analogWrite_def Let_def keep [OF m])
      next
        case no_tim: False
        then obtain s1 where s1: "pinMode t OUTPUT s = Some s1"
          using assms(1) False dac no_dac tim by (cases "pinMode t OUTPUT s") (simp_all add: analogWrite_def Let_def)
        then obtain w where "digitalWrite t w s1 = Some s'"
          using assms(1) False dac no_dac tim no_tim by (simp add: analogWrite_def Let_def split: if_split_asm)
        then show ?thesis using pinMode_elsewhere [OF s1 assms(2,3)] digitalWrite_regs by metis
      qed
    qed
  qed
qed

section \<open>Sketches\<close>

text \<open>The output functions a sketch uses, in any order.\<close>

datatype sketch_op = Pin_mode u32 u32 | Digital_write u32 u32 | Analog_write u32 u32

fun op_pin :: "sketch_op \<Rightarrow> u32" where
  "op_pin (Pin_mode t m) = t"
| "op_pin (Digital_write t v) = t"
| "op_pin (Analog_write t v) = t"

fun run_op :: "sketch_op \<Rightarrow> wiring \<Rightarrow> wiring option" where
  "run_op (Pin_mode t m) s = pinMode t m s"
| "run_op (Digital_write t v) s = digitalWrite t v s"
| "run_op (Analog_write t v) s = analogWrite t v s"

fun run_sketch :: "sketch_op list \<Rightarrow> wiring \<Rightarrow> wiring option" where
  "run_sketch [] s = Some s"
| "run_sketch (op # ops) s = do { s1 \<leftarrow> run_op op s; run_sketch ops s1 }"

definition eth_up :: "'a gpio_scheme \<Rightarrow> bool" where
  "eth_up s \<longleftrightarrow> (\<forall>p\<in>set eth_pins. pin_regs s (STM_PORT p) (STM_PIN p) = eth_regs)"

lemma run_op_elsewhere:
  assumes "run_op op s = Some s'" and "(port, n) \<noteq> phys (digitalPinToPinName (op_pin op))" and "n \<le> 15"
  shows "pin_regs s' port n = pin_regs s port n"
  using assms by (cases op) (auto simp: pinMode_elsewhere digitalWrite_regs analogWrite_elsewhere)

lemma run_sketch_elsewhere:
  assumes "run_sketch ops s = Some s'" and "\<forall>op\<in>set ops. (port, n) \<noteq> phys (digitalPinToPinName (op_pin op))" and "n \<le> 15"
  shows "pin_regs s' port n = pin_regs s port n"
  using assms
proof (induction ops arbitrary: s)
  case (Cons op ops)
  then obtain s1 where "run_op op s = Some s1" "run_sketch ops s1 = Some s'" by (auto split: bind_splits)
  then show ?case using run_op_elsewhere [of op s s1 port n] Cons.IH [of s1] Cons.prems by simp
qed simp

lemma terminals_distinct: "inj_on (phys \<circ> digitalPinToPinName) (set terminals)"
proof -
  have "distinct (map (phys \<circ> digitalPinToPinName) terminals)" unfolding terminal_phys by simp
  then show ?thesis by (simp only: distinct_map)
qed

section \<open>Properties\<close>


text \<open>The registers after the start of the controller, in the state of the Arduino functions.\<close>

definition wiring_eth :: wiring where
  "wiring_eth = (let s = HAL_ETH_MspInit ETH eth_msp0 in
     wiring0\<lparr>MODER := MODER s, OTYPER := OTYPER s, OSPEEDR := OSPEEDR s, PUPDR := PUPDR s, AFRL := AFRL s, AFRH := AFRH s\<rparr>)"

lemma eth_up_start: "eth_up (HAL_ETH_MspInit ETH s)"
proof -
  have "pin_regs (HAL_ETH_MspInit ETH s) (STM_PORT p) (STM_PIN p) = eth_regs" if "p \<in> set eth_pins" for p
  proof -
    have "(STM_PORT p, STM_PIN p) \<in> eth_pos" using that by (auto simp: eth_pos_def phys_def)
    then show ?thesis by (simp add: msp_init_regs [OF nibble])
  qed
  then show ?thesis by (simp add: eth_up_def)
qed

lemma eth_up_wiring: "eth_up wiring_eth"
proof -
  have "pin_regs wiring_eth = pin_regs (HAL_ETH_MspInit ETH eth_msp0)"
    by (simp add: wiring_eth_def Let_def pin_regs_def alternate_def fun_eq_iff)
  then show ?thesis using eth_up_start [of eth_msp0] by (simp add: eth_up_def)
qed


section \<open>The default buses\<close>

definition SPIClass_default :: "spi_t \<Rightarrow> spi_t" where
  "SPIClass_default ob =
     ob\<lparr>pin_miso := digitalPinToPinName PIN_SPI_MISO, pin_mosi := digitalPinToPinName PIN_SPI_MOSI,
        pin_sclk := digitalPinToPinName PIN_SPI_SCK, pin_ssel := NC\<rparr>"

lemma default_pins:
  "digitalPinToPinName PIN_SPI_MISO = PA 6" "digitalPinToPinName PIN_SPI_MOSI = PA 7"
  "digitalPinToPinName PIN_SPI_SCK = PA 5" "digitalPinToPinName PIN_SERIAL_RX = PA 1"
  by (simp_all add: digitalPinToPinName_def digitalPin_def analogInputPin_def board_defs consts_simp)

lemma uart_rx_table: "list_all af_row (butlast PinMap_UART_RX)"
  by (simp add: af_defs PinMap_UART_RX_def)

lemma not_eth_regs: "STM_PIN_AFNUM f \<noteq> 11 \<Longrightarrow> p \<in> set eth_pins \<Longrightarrow> pin_regs s (STM_PORT p) (STM_PIN p) = af_regs f \<Longrightarrow> \<not> eth_up s"
  by (force simp: eth_up_def eth_regs_def af_regs_def)

text \<open>The default pins of two buses of the board are pins of the Ethernet controller. Opening
  the default SPI bus succeeds and takes the carrier sense pin away from a running controller,
  whatever the speed and mode; routing the default serial receive pin takes its reference
  clock pin. The default SPI bus also shares its other pins with the terminals of the analog
  outputs and an analog input, and the serial transmit pin is a digital input terminal.\<close>

theorem default_buses_take_ethernet_pins:
  fixes s :: "'a gpio_scheme"
  assumes "eth_up s"
  shows "(\<exists>ob' s' calls. spi_init clk (Some (SPIClass_default ob)) speed mode msb s = Some (Some ob', s', calls) \<and>
      spi ob' = SPI1 \<and> \<not> eth_up s') \<and>
    (\<exists>s'. pinmap_pinout (digitalPinToPinName PIN_SERIAL_RX) PinMap_UART_RX s = Some s' \<and> \<not> eth_up s') \<and>
    {PIN_SPI_MISO, PIN_SPI_SCK, PIN_SPI_SS, PIN_SERIAL_TX} \<subseteq> set terminals"
proof -
  let ?f = "STM_PIN_DATA STM_MODE_AF_PP GPIO_PULLUP 5" and ?g = "STM_PIN_DATA STM_MODE_AF_PP GPIO_PULLUP 8"
  let ?ob = "SPIClass_default ob"
  have af: "STM_PIN_AFNUM ?f \<noteq> 11" "STM_PIN_AFNUM ?g \<noteq> 11"
    by (simp_all add: STM_PIN_AFNUM_def STM_PIN_DATA_def consts_simp)
  have eth: "PA 7 \<in> set eth_pins" "PA 1 \<in> set eth_pins" by (simp_all add: eth_pins_def)
  have rows: "(pin_mosi ?ob, SPI1, ?f) \<in> set (butlast PinMap_SPI_MOSI)" "(pin_miso ?ob, SPI1, ?f) \<in> set (butlast PinMap_SPI_MISO)"
    "(pin_sclk ?ob, SPI1, ?f) \<in> set (butlast PinMap_SPI_SCLK)"
    "pin_ssel ?ob = NC \<or> (pin_ssel ?ob, SPI1, ?f) \<in> set (butlast PinMap_SPI_SSEL)"
    by (simp_all add: SPIClass_default_def default_pins PinMap_SPI_MOSI_def PinMap_SPI_MISO_def PinMap_SPI_SCLK_def)
  define ob1 where "ob1 = spi_fill clk speed mode msb (?ob\<lparr>spi := SPI1\<rparr>)"
  obtain s' where s': "spi_pins ob1 s = Some s'" "pin_regs s' (STM_PORT (pin_mosi ?ob)) (STM_PIN (pin_mosi ?ob)) = af_regs ?f"
    using spi_pins_run [of ob1 SPI1 ?f ?f ?f ?f mode s, unfolded ob1_def spi_fill_fields spi_frame, OF rows refl]
    unfolding ob1_def by blast
  have "\<not> eth_up s'" using not_eth_regs [OF af(1) eth(1)] s'(2) by (simp add: SPIClass_default_def default_pins)
  moreover have "spi ob1 = SPI1" by (simp add: ob1_def spi_fill_fields)
  moreover have "\<exists>calls. spi_init clk (Some ?ob) speed mode msb s = Some (Some ob1, s', calls)"
    using spi_init_run [OF rows _ ob1_def, of s] s'(1) by simp
  ultimately have spi: "\<exists>ob' s' calls. spi_init clk (Some ?ob) speed mode msb s = Some (Some ob', s', calls) \<and>
      spi ob' = SPI1 \<and> \<not> eth_up s'" by blast
  have "(PA 1, UART4, ?g) \<in> set (butlast PinMap_UART_RX)" by (simp add: PinMap_UART_RX_def)
  from af_pin [OF PinMap_UART_RX_ok [THEN conjunct1] uart_rx_table this, of s]
  have "\<exists>s'. pinmap_pinout (PA 1) PinMap_UART_RX s = Some s' \<and> \<not> eth_up s'"
    using not_eth_regs [OF af(2) eth(2)] by blast
  moreover have "{PIN_SPI_MISO, PIN_SPI_SCK, PIN_SPI_SS, PIN_SERIAL_TX} \<subseteq> set terminals"
    by (simp add: terminals_def digital_terminals_def analog_terminals_def board_defs)
  ultimately show ?thesis using spi by (simp add: default_pins)
qed

theorem default_buses_take_ethernet_pins_witness:
  "\<exists>ob' s' calls. spi_init clocks0 (Some (SPIClass_default spi0)) 4000000 SPI_MODE_0 1 (HAL_ETH_MspInit ETH eth_msp0) =
    Some (Some ob', s', calls) \<and> \<not> eth_up s'"
  using default_buses_take_ethernet_pins [OF eth_up_start, of clocks0 spi0 4000000 SPI_MODE_0 1 eth_msp0] by blast

end
