(* ===== verification/Uart.thy ===== *)
theory Uart
  imports Ring
begin

text \<open>
  Transfers of a serial port. \<^verbatim>\<open>libraries/SrcWrapper/src/stm32/uart.c\<close>: starting reception and
  transmission, the callbacks at their ends and after an error, and the direction of a half
  duplex line. Below it, of \<^verbatim>\<open>stm32h7xx_hal_uart.c\<close>, the transfers by interrupts with 8 bit
  data and without the FIFO, as the core uses them. Above it, of the class \<^verbatim>\<open>HardwareSerial\<close>,
  the two functions called at the end of a transfer.

  The object and its handle are one record; \<open>line\<close> has the bytes given to the data register.
  An access outside a buffer has no result. Enabling and disabling the interrupt around a
  call of the HAL makes the call atomic; the functions here are atomic steps.
\<close>

section \<open>State\<close>

definition SERIAL_TX_BUFFER_SIZE :: nat where [consts_simp]: "SERIAL_TX_BUFFER_SIZE = 64"
definition SERIAL_RX_BUFFER_SIZE :: nat where [consts_simp]: "SERIAL_RX_BUFFER_SIZE = 64"

definition HAL_UART_STATE_RESET :: u32 where [consts_simp]: "HAL_UART_STATE_RESET = 0"
definition HAL_UART_STATE_READY :: u32 where [consts_simp]: "HAL_UART_STATE_READY = 0x20"
definition HAL_UART_STATE_BUSY :: u32 where [consts_simp]: "HAL_UART_STATE_BUSY = 0x24"
definition HAL_UART_STATE_BUSY_TX :: u32 where [consts_simp]: "HAL_UART_STATE_BUSY_TX = 0x21"
definition HAL_UART_STATE_BUSY_RX :: u32 where [consts_simp]: "HAL_UART_STATE_BUSY_RX = 0x22"

definition HAL_UART_ERROR_NONE :: u32 where [consts_simp]: "HAL_UART_ERROR_NONE = 0"
definition HAL_UART_ERROR_PE :: u32 where [consts_simp]: "HAL_UART_ERROR_PE = 1"
definition HAL_UART_ERROR_NE :: u32 where [consts_simp]: "HAL_UART_ERROR_NE = 2"
definition HAL_UART_ERROR_FE :: u32 where [consts_simp]: "HAL_UART_ERROR_FE = 4"
definition HAL_UART_ERROR_ORE :: u32 where [consts_simp]: "HAL_UART_ERROR_ORE = 8"

record serial_t =
  gState :: u32
  RxState :: u32
  ErrorCode :: u32
  pTxBuffPtr :: nat
  TxXferCount :: nat
  TXEIE :: bool
  TCIE :: bool
  RXNEIE :: bool
  PEIE :: bool
  EIE :: bool
  TE :: bool
  RE :: bool
  has_parity :: bool
  rx_mask :: u8
  no_rx_pin :: bool
  recv :: u8
  rx_buff :: "u8 list"
  tx_buff :: "u8 list"
  rx_tail :: nat
  tx_head :: nat
  rx_head :: nat
  tx_tail :: nat
  tx_size :: nat
  line :: "u8 list"

datatype uart_status = UART_OK | UART_ERROR | UART_BUSY

section \<open>The HAL\<close>

definition HAL_UART_GetState :: "'a serial_t_scheme \<Rightarrow> u32" where
  "HAL_UART_GetState s = gState s OR RxState s"

text \<open>A transfer starts at an offset into the transmit buffer.\<close>

definition HAL_UART_Transmit_IT :: "nat \<Rightarrow> nat \<Rightarrow> 'a serial_t_scheme \<Rightarrow> uart_status \<times> 'a serial_t_scheme" where
  "HAL_UART_Transmit_IT off sz s =
     (if gState s = HAL_UART_STATE_READY then
        (if sz = 0 then (UART_ERROR, s)
         else (UART_OK, s\<lparr>pTxBuffPtr := off, TxXferCount := sz, ErrorCode := HAL_UART_ERROR_NONE,
             gState := HAL_UART_STATE_BUSY_TX, TXEIE := True\<rparr>))
      else (UART_BUSY, s))"

text \<open>A reception is always one byte into \<open>recv\<close>.\<close>

definition HAL_UART_Receive_IT :: "'a serial_t_scheme \<Rightarrow> uart_status \<times> 'a serial_t_scheme" where
  "HAL_UART_Receive_IT s =
     (if RxState s = HAL_UART_STATE_READY then
        (UART_OK, s\<lparr>ErrorCode := HAL_UART_ERROR_NONE, RxState := HAL_UART_STATE_BUSY_RX, EIE := True, PEIE := (PEIE s \<or> has_parity s), RXNEIE := True\<rparr>)
      else (UART_BUSY, s))"

definition HAL_HalfDuplex_EnableTransmitter :: "'a serial_t_scheme \<Rightarrow> 'a serial_t_scheme" where
  "HAL_HalfDuplex_EnableTransmitter s = s\<lparr>RE := False, TE := True, gState := HAL_UART_STATE_READY\<rparr>"

definition HAL_HalfDuplex_EnableReceiver :: "'a serial_t_scheme \<Rightarrow> 'a serial_t_scheme" where
  "HAL_HalfDuplex_EnableReceiver s = s\<lparr>TE := False, RE := True, gState := HAL_UART_STATE_READY\<rparr>"

section \<open>The driver\<close>

definition serial_rx_active :: "'a serial_t_scheme \<Rightarrow> bool" where
  "serial_rx_active s \<longleftrightarrow> HAL_UART_GetState s AND HAL_UART_STATE_BUSY_RX = HAL_UART_STATE_BUSY_RX"

definition serial_tx_active :: "'a serial_t_scheme \<Rightarrow> bool" where
  "serial_tx_active s \<longleftrightarrow> HAL_UART_GetState s AND HAL_UART_STATE_BUSY_TX = HAL_UART_STATE_BUSY_TX"

text \<open>The result is the byte, if none is being received.\<close>

definition uart_getc :: "'a serial_t_scheme \<Rightarrow> u8 option \<times> 'a serial_t_scheme" where
  "uart_getc s = (if serial_rx_active s then (None, s) else (Some (recv s), snd (HAL_UART_Receive_IT s)))"

definition uart_attach_rx_callback :: "'a serial_t_scheme \<Rightarrow> 'a serial_t_scheme" where
  "uart_attach_rx_callback s = (if serial_rx_active s then s else snd (HAL_UART_Receive_IT s))"

definition uart_attach_tx_callback :: "nat \<Rightarrow> 'a serial_t_scheme \<Rightarrow> 'a serial_t_scheme" where
  "uart_attach_tx_callback sz s = snd (HAL_UART_Transmit_IT (tx_tail s) (to_u16 (int sz)) s)"

definition uart_enable_tx :: "'a serial_t_scheme \<Rightarrow> 'a serial_t_scheme" where
  "uart_enable_tx s = (if no_rx_pin s then HAL_HalfDuplex_EnableTransmitter s else s)"

definition uart_enable_rx :: "'a serial_t_scheme \<Rightarrow> 'a serial_t_scheme" where
  "uart_enable_rx s = (if no_rx_pin s then HAL_HalfDuplex_EnableReceiver s else s)"

section \<open>The ends of transfers\<close>

definition rx_complete_irq :: "'a serial_t_scheme \<Rightarrow> 'a serial_t_scheme option" where
  "rx_complete_irq s =
     (case uart_getc s of
        (None, s1) \<Rightarrow> Some s1
      | (Some c, s1) \<Rightarrow>
          (let i = (rx_head s1 + 1) mod SERIAL_RX_BUFFER_SIZE in
           if i \<noteq> rx_tail s1 then
             do { buf \<leftarrow> mem_write (rx_buff s1) (rx_head s1) [c];
                  Some (s1\<lparr>rx_buff := buf, rx_head := i\<rparr>) }
           else Some s1))"

definition tx_complete_irq :: "'a serial_t_scheme \<Rightarrow> 'a serial_t_scheme" where
  "tx_complete_irq s =
     (let s1 = s\<lparr>tx_tail := (tx_tail s + tx_size s) mod SERIAL_TX_BUFFER_SIZE\<rparr>
      in if tx_head s1 \<noteq> tx_tail s1 then
           (let remaining_data = (SERIAL_TX_BUFFER_SIZE + tx_head s1 - tx_tail s1) mod SERIAL_TX_BUFFER_SIZE;
                s2 = s1\<lparr>tx_size := min remaining_data (SERIAL_TX_BUFFER_SIZE - tx_tail s1)\<rparr>
            in uart_attach_tx_callback (tx_size s2) s2)
         else s1)"

definition HAL_UART_RxCpltCallback :: "'a serial_t_scheme \<Rightarrow> 'a serial_t_scheme option" where
  "HAL_UART_RxCpltCallback s = rx_complete_irq s"

definition HAL_UART_TxCpltCallback :: "'a serial_t_scheme \<Rightarrow> 'a serial_t_scheme" where
  "HAL_UART_TxCpltCallback s = tx_complete_irq s"

definition HAL_UART_ErrorCallback :: "'a serial_t_scheme \<Rightarrow> 'a serial_t_scheme" where
  "HAL_UART_ErrorCallback s = (if \<not> serial_rx_active s then snd (HAL_UART_Receive_IT s) else s)"

definition HAL_UARTEx_WakeupCallback :: "'a serial_t_scheme \<Rightarrow> 'a serial_t_scheme" where
  "HAL_UARTEx_WakeupCallback s = snd (HAL_UART_Receive_IT s)"

section \<open>The interrupt\<close>

definition UART_TxISR_8BIT :: "'a serial_t_scheme \<Rightarrow> 'a serial_t_scheme option" where
  "UART_TxISR_8BIT s =
     (if gState s = HAL_UART_STATE_BUSY_TX then
        (if TxXferCount s = 0 then Some (s\<lparr>TXEIE := False, TCIE := True\<rparr>)
         else do { b \<leftarrow> mem_get (tx_buff s) (pTxBuffPtr s);
                   Some (s\<lparr>line := line s @ [b], pTxBuffPtr := pTxBuffPtr s + 1, TxXferCount := TxXferCount s - 1\<rparr>) })
      else Some s)"

definition UART_EndTransmit_IT :: "'a serial_t_scheme \<Rightarrow> 'a serial_t_scheme" where
  "UART_EndTransmit_IT s = HAL_UART_TxCpltCallback (s\<lparr>TCIE := False, gState := HAL_UART_STATE_READY\<rparr>)"

definition UART_RxISR_8BIT :: "u8 \<Rightarrow> 'a serial_t_scheme \<Rightarrow> 'a serial_t_scheme option" where
  "UART_RxISR_8BIT RDR s =
     (if RxState s = HAL_UART_STATE_BUSY_RX then
        HAL_UART_RxCpltCallback (s\<lparr>recv := RDR AND rx_mask s, RXNEIE := False, PEIE := False, EIE := False,
          RxState := HAL_UART_STATE_READY\<rparr>)
      else Some s)"

definition UART_EndRxTransfer :: "'a serial_t_scheme \<Rightarrow> 'a serial_t_scheme" where
  "UART_EndRxTransfer s = s\<lparr>RXNEIE := False, PEIE := False, EIE := False, RxState := HAL_UART_STATE_READY\<rparr>"

text \<open>The flags an interrupt finds: a byte received, errors, an empty data register, the end of a
  transmission.\<close>

record uart_flags =
  RXNE :: "u8 option"
  PE :: bool
  FE :: bool
  NE :: bool
  ORE :: bool
  TXE :: bool
  TC :: bool

definition error_code :: "uart_flags \<Rightarrow> 'a serial_t_scheme \<Rightarrow> u32" where
  "error_code f s =
     ErrorCode s OR (if PE f \<and> PEIE s then HAL_UART_ERROR_PE else 0) OR (if FE f \<and> EIE s then HAL_UART_ERROR_FE else 0) OR
       (if NE f \<and> EIE s then HAL_UART_ERROR_NE else 0) OR (if ORE f \<and> (RXNEIE s \<or> EIE s) then HAL_UART_ERROR_ORE else 0)"

text \<open>An overrun ends the reception, unless the byte received with it has started a new one.\<close>

definition handle_errors :: "uart_flags \<Rightarrow> 'a serial_t_scheme \<Rightarrow> 'a serial_t_scheme option" where
  "handle_errors f s =
     (let s1 = s\<lparr>ErrorCode := error_code f s\<rparr> in
      if ErrorCode s1 \<noteq> HAL_UART_ERROR_NONE then
        do { s2 \<leftarrow> (if RXNE f \<noteq> None \<and> RXNEIE s then UART_RxISR_8BIT (the (RXNE f)) s1 else Some s1);
             Some (if ErrorCode s2 AND HAL_UART_ERROR_ORE \<noteq> 0 then HAL_UART_ErrorCallback (UART_EndRxTransfer s2)
                   else (HAL_UART_ErrorCallback s2)\<lparr>ErrorCode := HAL_UART_ERROR_NONE\<rparr>) }
      else Some s1)"

text \<open>The handler, without the branches for the FIFO, DMA, the receiver timeout and the wakeup, whose
  interrupts the core does not enable.\<close>

definition HAL_UART_IRQHandler :: "uart_flags \<Rightarrow> 'a serial_t_scheme \<Rightarrow> 'a serial_t_scheme option" where
  "HAL_UART_IRQHandler f s =
     (let errorflags = (PE f \<or> FE f \<or> NE f \<or> ORE f) in
      if \<not> errorflags \<and> RXNE f \<noteq> None \<and> RXNEIE s then UART_RxISR_8BIT (the (RXNE f)) s
      else if errorflags \<and> (EIE s \<or> RXNEIE s \<or> PEIE s) then handle_errors f s
      else if TXE f \<and> TXEIE s then UART_TxISR_8BIT s
      else if TC f \<and> TCIE s then Some (UART_EndTransmit_IT s)
      else Some s)"

end
