(* ===== verification/Hardware_Serial.thy ===== *)
theory Hardware_Serial
  imports Uart "HOL-Library.Sublist"
begin

text \<open>
  The buffers of a serial port and the sketch's side of them: the member functions of
  \<^verbatim>\<open>cores/arduino/HardwareSerial.cpp\<close> for reading, writing and flushing, interleaved with the
  interrupts of \<open>Uart\<close>. Writing is cut at every access to state it shares with the interrupt.
\<close>

section \<open>Member functions\<close>

text \<open>\<open>written\<close> and \<open>rx_enabled\<close> are members of the class; the others keep what went through, for
  the properties: \<open>accepted\<close> the bytes taken over by \<^verbatim>\<open>write\<close>, \<open>arrived\<close> those received without
  an error, each with the number of unread bytes it found, \<open>returned\<close> those read.\<close>

record hw_serial = serial_t +
  written :: bool
  rx_enabled :: bool
  accepted :: "u8 list"
  arrived :: "(u8 \<times> nat) list"
  returned :: "u8 list"

definition available_rx :: "'a serial_t_scheme \<Rightarrow> nat" where
  "available_rx s = (SERIAL_RX_BUFFER_SIZE + rx_head s - rx_tail s) mod SERIAL_RX_BUFFER_SIZE"

definition serial_peek :: "'a serial_t_scheme \<Rightarrow> u8 option option" where
  "serial_peek s = (if rx_head s = rx_tail s then Some None else map_option Some (mem_get (rx_buff s) (rx_tail s)))"

definition availableForWrite :: "'a serial_t_scheme \<Rightarrow> nat" where
  "availableForWrite s =
     (if tx_head s \<ge> tx_tail s then SERIAL_TX_BUFFER_SIZE - 1 - tx_head s + tx_tail s
      else tx_tail s - tx_head s - 1)"

text \<open>The loop of \<^verbatim>\<open>flush\<close> ends in the states with \<open>flushed\<close>.\<close>

definition flushed :: "hw_serial \<Rightarrow> bool" where
  "flushed s \<longleftrightarrow> \<not> written s \<or> tx_head s = tx_tail s"

definition enableHalfDuplexRx :: "hw_serial \<Rightarrow> hw_serial option" where
  "enableHalfDuplexRx s =
     (if no_rx_pin s then
        (if \<not> flushed s then None
         else Some (if \<not> rx_enabled s then uart_enable_rx (s\<lparr>rx_enabled := True\<rparr>) else s))
      else Some s)"

text \<open>Behind the call of \<^verbatim>\<open>enableHalfDuplexRx\<close>.\<close>

definition serial_read :: "hw_serial \<Rightarrow> (u8 option \<times> hw_serial) option" where
  "serial_read s =
     (if rx_head s = rx_tail s then Some (None, s)
      else do { c \<leftarrow> mem_get (rx_buff s) (rx_tail s);
                Some (Some c, s\<lparr>rx_tail := (rx_tail s + 1) mod SERIAL_RX_BUFFER_SIZE, returned := returned s @ [c]\<rparr>) })"

definition write_enter :: "hw_serial \<Rightarrow> hw_serial" where
  "write_enter s =
     (let s1 = s\<lparr>written := True\<rparr>
      in if no_rx_pin s1 \<and> rx_enabled s1 then uart_enable_tx (s1\<lparr>rx_enabled := False\<rparr>) else s1)"

text \<open>The copy, with the size of the piece up to the end of the buffer.\<close>

definition write_copy :: "u8 list \<Rightarrow> hw_serial \<Rightarrow> (nat \<times> hw_serial) option" where
  "write_copy xs s =
     (if tx_head s + length xs \<le> SERIAL_TX_BUFFER_SIZE then
        do { b \<leftarrow> memcpy (tx_buff s) (tx_head s) xs 0 (length xs);
             Some (length xs, s\<lparr>tx_buff := b\<rparr>) }
      else
        (let n = SERIAL_TX_BUFFER_SIZE - tx_head s in
         do { b1 \<leftarrow> memcpy (tx_buff s) (tx_head s) xs 0 n;
              b2 \<leftarrow> memcpy b1 0 xs n (length xs - n);
              Some (n, s\<lparr>tx_buff := b2\<rparr>) }))"

definition write_head :: "u8 list \<Rightarrow> hw_serial \<Rightarrow> hw_serial" where
  "write_head xs s = s\<lparr>tx_head := (tx_head s + length xs) mod SERIAL_TX_BUFFER_SIZE, accepted := accepted s @ xs\<rparr>"

definition write_start :: "nat \<Rightarrow> hw_serial \<Rightarrow> hw_serial" where
  "write_start n s = uart_attach_tx_callback n (s\<lparr>tx_size := n\<rparr>)"

text \<open>The object after \<^verbatim>\<open>uart_init\<close> has succeeded for the first time, and the rest of
  \<^verbatim>\<open>HardwareSerial::begin\<close>.\<close>

definition serial_fresh :: "hw_serial \<Rightarrow> bool" where
  "serial_fresh s \<longleftrightarrow> gState s = HAL_UART_STATE_READY \<and> RxState s = HAL_UART_STATE_READY \<and> ErrorCode s = HAL_UART_ERROR_NONE \<and>
     \<not> TXEIE s \<and> \<not> TCIE s \<and> \<not> RXNEIE s \<and> \<not> PEIE s \<and> \<not> EIE s \<and>
     length (rx_buff s) = SERIAL_RX_BUFFER_SIZE \<and> length (tx_buff s) = SERIAL_TX_BUFFER_SIZE \<and>
     rx_head s = 0 \<and> rx_tail s = 0 \<and> tx_head s = 0 \<and> tx_tail s = 0 \<and> line s = [] \<and>
     \<not> written s \<and> \<not> rx_enabled s \<and> accepted s = [] \<and> arrived s = [] \<and> returned s = []"

definition serial_begin :: "hw_serial \<Rightarrow> hw_serial option" where
  "serial_begin s = do { s1 \<leftarrow> enableHalfDuplexRx s; Some (uart_attach_rx_callback s1) }"

section \<open>Interleaving\<close>

text \<open>Where the sketch is. \<open>W_wait xs av te\<close>: \<^verbatim>\<open>write\<close> has been called for \<open>xs\<close> and has measured the
  room \<open>av\<close> and the distance \<open>te\<close> to the end of the buffer. \<open>W_loop\<close>: it chooses the next piece.
  \<open>W_copied xs n rest\<close>, \<open>W_moved n rest\<close>, \<open>W_start n rest\<close>: a piece has been copied, the head has been
  moved, the line has been found idle; \<open>rest\<close> is left to do.\<close>

datatype writer_pc =
    W_idle
  | W_wait "u8 list" nat nat
  | W_loop "u8 list" nat nat
  | W_copied "u8 list" nat "u8 list"
  | W_moved nat "u8 list"
  | W_start nat "u8 list"

definition write_next :: "u8 list \<Rightarrow> hw_serial \<Rightarrow> writer_pc" where
  "write_next rest s =
     (if rest = [] then W_idle else W_loop rest (availableForWrite s) (SERIAL_TX_BUFFER_SIZE - tx_head s))"

text \<open>An interrupt that takes a byte from the peripheral, with or without an error; it is recorded.\<close>

definition takes_byte :: "uart_flags \<Rightarrow> hw_serial \<Rightarrow> bool" where
  "takes_byte f s \<longleftrightarrow> RXNE f \<noteq> None \<and> RXNEIE s \<and> RxState s = HAL_UART_STATE_BUSY_RX \<and>
     (\<not> (PE f \<or> FE f \<or> NE f \<or> ORE f) \<or> error_code f s \<noteq> HAL_UART_ERROR_NONE)"

definition serial_irq :: "uart_flags \<Rightarrow> hw_serial \<Rightarrow> hw_serial option" where
  "serial_irq f s =
     map_option (\<lambda>s'. if takes_byte f s
         then s'\<lparr>arrived := arrived s @ [(the (RXNE f) AND rx_mask s, available_rx s)]\<rparr> else s')
       (HAL_UART_IRQHandler f s)"

text \<open>With \<open>calm\<close>, no transmission ends while the sketch is between moving the head and looking
  whether the line is idle, unless the next one starts at once.\<close>

inductive serial_step :: "bool \<Rightarrow> writer_pc \<times> hw_serial \<Rightarrow> writer_pc \<times> hw_serial \<Rightarrow> bool" for calm where
  Irq: "serial_irq f s = Some s' \<Longrightarrow>
     (calm \<Longrightarrow> (\<exists>n rest. pc = W_moved n rest) \<Longrightarrow> serial_tx_active s \<Longrightarrow> serial_tx_active s') \<Longrightarrow>
     serial_step calm (pc, s) (pc, s')"
| Read: "enableHalfDuplexRx s = Some s1 \<Longrightarrow> serial_read s1 = Some (r, s') \<Longrightarrow> serial_step calm (W_idle, s) (W_idle, s')"
| Write: "serial_step calm (W_idle, s) (W_wait xs (availableForWrite s) (SERIAL_TX_BUFFER_SIZE - tx_head s), write_enter s)"
| Room: "availableForWrite s \<noteq> 0 \<Longrightarrow> serial_step calm (W_wait xs av te, s) (W_loop xs av te, s)"
| Piece: "length xs > te \<or> length xs > av \<Longrightarrow> availableForWrite s \<noteq> 0 \<Longrightarrow>
     write_copy (take (min av te) xs) s = Some (n, s') \<Longrightarrow>
     serial_step calm (W_loop xs av te, s) (W_copied (take (min av te) xs) n (drop (min av te) xs), s')"
| Last: "\<not> (length xs > te \<or> length xs > av) \<Longrightarrow> write_copy xs s = Some (n, s') \<Longrightarrow>
     serial_step calm (W_loop xs av te, s) (W_copied xs n [], s')"
| Move: "serial_step calm (W_copied xs n rest, s) (W_moved n rest, write_head xs s)"
| Busy: "serial_tx_active s \<Longrightarrow> serial_step calm (W_moved n rest, s) (write_next rest s, s)"
| Idle: "\<not> serial_tx_active s \<Longrightarrow> serial_step calm (W_moved n rest, s) (W_start n rest, s)"
| Start: "serial_step calm (W_start n rest, s) (write_next rest (write_start n s), write_start n s)"

end
