(* ===== verification/Serial_Invariant.thy ===== *)
theory Serial_Invariant
  imports Hardware_Serial
begin

text \<open>
  The invariant of a serial port that is being written, read and interrupted (\<open>serial_inv\<close>), in three
  parts. \<open>tx_inv\<close>: the transmission in progress is a piece of the queue, the queue is empty when there is
  none, except where \<^verbatim>\<open>HardwareSerial::write\<close> is about to start one, and what was accepted is what is on
  the line followed by what is unsent. \<open>rx_inv\<close>: reception is armed and what was read is followed by what
  is unread. \<open>duplex_inv\<close>: the direction of a half duplex line. \<open>irq_cases\<close> reduces an interrupt to one
  of four things; every step keeps the invariant (\<open>serial_step_inv\<close>).
\<close>

section \<open>Rings\<close>

lemma ring_nth:
  assumes "r < length buf" "w < length buf" "k < length (ring_content buf r w)" "r + k < length buf"
  shows "ring_content buf r w ! k = buf ! (r + k)"
proof -
  have "seg buf r (r + Suc k) = take (Suc k) (ring_content buf r w)"
    using assms by (intro ring_take_flat(1)) simp_all
  then have "seg buf r (r + Suc k) ! k = ring_content buf r w ! k" by simp
  then show ?thesis using assms(4) by (simp add: seg_def)
qed

lemma ring_length_mod:
  assumes "r < length buf" "w < length buf"
  shows "(length buf + w - r) mod length buf = length (ring_content buf r w)"
  using assms by (auto simp: length_ring_content le_mod_geq)

section \<open>States\<close>

lemmas uart_states = HAL_UART_STATE_READY_def HAL_UART_STATE_BUSY_TX_def HAL_UART_STATE_BUSY_RX_def

definition armed :: "'a serial_t_scheme \<Rightarrow> bool" where
  "armed s \<longleftrightarrow> gState s \<in> {HAL_UART_STATE_READY, HAL_UART_STATE_BUSY_TX} \<and>
     RxState s = HAL_UART_STATE_BUSY_RX \<and> RXNEIE s \<and> EIE s \<and> PEIE s = has_parity s \<and>
     ErrorCode s = HAL_UART_ERROR_NONE"

lemma armed_active:
  assumes "armed s"
  shows "serial_tx_active s \<longleftrightarrow> gState s = HAL_UART_STATE_BUSY_TX" and "serial_rx_active s"
  using assms by (auto simp: armed_def serial_tx_active_def serial_rx_active_def HAL_UART_GetState_def uart_states)

definition rx_store :: "u8 \<Rightarrow> 'a serial_t_scheme \<Rightarrow> 'a serial_t_scheme" where
  "rx_store c s =
     (let i = (rx_head s + 1) mod SERIAL_RX_BUFFER_SIZE in
      if i \<noteq> rx_tail s then s\<lparr>recv := c, rx_buff := (rx_buff s)[rx_head s := c], rx_head := i\<rparr> else s\<lparr>recv := c\<rparr>)"

lemma mem_write_one: "i < length xs \<Longrightarrow> mem_write xs i [c] = Some (xs[i := c])"
  by (simp add: mem_write_def upd_conv_take_nth_drop)

lemma rx_isr_armed:
  assumes "armed s" and "length (rx_buff s) = SERIAL_RX_BUFFER_SIZE" "rx_head s < SERIAL_RX_BUFFER_SIZE"
  shows "UART_RxISR_8BIT b (s\<lparr>ErrorCode := e\<rparr>) = Some (rx_store (b AND rx_mask s) s)"
proof -
  let ?s = "s\<lparr>ErrorCode := e, recv := b AND rx_mask s, RXNEIE := False, PEIE := False, EIE := False, RxState := HAL_UART_STATE_READY\<rparr>"
  have "\<not> serial_rx_active ?s"
    using assms(1) by (auto simp: armed_def serial_rx_active_def HAL_UART_GetState_def uart_states)
  moreover have "snd (HAL_UART_Receive_IT ?s) = s\<lparr>recv := b AND rx_mask s\<rparr>"
    using assms(1) by (cases s) (simp add: armed_def HAL_UART_Receive_IT_def)
  ultimately have "uart_getc ?s = (Some (b AND rx_mask s), s\<lparr>recv := b AND rx_mask s\<rparr>)"
    by (simp add: uart_getc_def)
  then show ?thesis using assms
    by (simp add: UART_RxISR_8BIT_def armed_def HAL_UART_RxCpltCallback_def rx_complete_irq_def rx_store_def
        mem_write_one Let_def)
qed

lemma error_callback_armed:
  assumes "armed s"
  shows "HAL_UART_ErrorCallback (s\<lparr>ErrorCode := e\<rparr>) = s\<lparr>ErrorCode := e\<rparr>"
    and "HAL_UART_ErrorCallback (UART_EndRxTransfer (s\<lparr>ErrorCode := e\<rparr>)) = s"
proof -
  have "serial_rx_active (s\<lparr>ErrorCode := e\<rparr>)"
    using armed_active(2) [OF assms] by (simp add: serial_rx_active_def HAL_UART_GetState_def)
  then show "HAL_UART_ErrorCallback (s\<lparr>ErrorCode := e\<rparr>) = s\<lparr>ErrorCode := e\<rparr>" by (simp add: HAL_UART_ErrorCallback_def)
  have "\<not> serial_rx_active (UART_EndRxTransfer (s\<lparr>ErrorCode := e\<rparr>))"
    using assms by (auto simp: armed_def UART_EndRxTransfer_def serial_rx_active_def HAL_UART_GetState_def uart_states)
  then show "HAL_UART_ErrorCallback (UART_EndRxTransfer (s\<lparr>ErrorCode := e\<rparr>)) = s"
    using assms by (cases s) (simp add: HAL_UART_ErrorCallback_def UART_EndRxTransfer_def HAL_UART_Receive_IT_def armed_def)
qed

lemma armed_rx_store: "armed s \<Longrightarrow> armed (rx_store c s)"
  by (simp add: armed_def rx_store_def Let_def)

text \<open>What an interrupt does while reception is armed.\<close>

lemma error_same: "ErrorCode s = e \<Longrightarrow> s\<lparr>ErrorCode := e\<rparr> = s"
  by (cases s) simp

lemma handle_errors_armed:
  assumes "armed s" and "length (rx_buff s) = SERIAL_RX_BUFFER_SIZE" "rx_head s < SERIAL_RX_BUFFER_SIZE"
  shows "handle_errors f s =
     Some (if error_code f s \<noteq> HAL_UART_ERROR_NONE \<and> RXNE f \<noteq> None then rx_store (the (RXNE f) AND rx_mask s) s else s)"
proof -
  let ?s1 = "s\<lparr>ErrorCode := error_code f s\<rparr>" and ?r = "rx_store (the (RXNE f) AND rx_mask s) s"
  have e: "ErrorCode s = HAL_UART_ERROR_NONE" "RXNEIE s" "s\<lparr>ErrorCode := HAL_UART_ERROR_NONE\<rparr> = s"
    using assms(1) by (simp_all add: armed_def error_same)
  have r: "ErrorCode ?r = HAL_UART_ERROR_NONE" "?r\<lparr>ErrorCode := HAL_UART_ERROR_NONE\<rparr> = ?r"
    using armed_rx_store [OF assms(1)] error_same [of ?r] by (simp_all add: armed_def)
  note cb = error_callback_armed [OF assms(1)]
  have cbr: "HAL_UART_ErrorCallback ?r = ?r" 
    using error_callback_armed(1) [OF armed_rx_store [OF assms(1), of "the (RXNE f) AND rx_mask s"], of HAL_UART_ERROR_NONE]
    unfolding r(2) .
  show ?thesis
  proof (cases "error_code f s = HAL_UART_ERROR_NONE")
    case True
    then show ?thesis by (simp add: handle_errors_def e)
  next
    case False
    show ?thesis
    proof (cases "RXNE f")
      case None
      then show ?thesis using False by (simp add: handle_errors_def cb e(3) Let_def)
    next
      case (Some b)
      have "handle_errors f s = Some ((HAL_UART_ErrorCallback ?r)\<lparr>ErrorCode := HAL_UART_ERROR_NONE\<rparr>)"
        using False Some r(1) by (simp add: handle_errors_def rx_isr_armed [OF assms] e(2) HAL_UART_ERROR_NONE_def)
      then have "handle_errors f s = Some ?r" unfolding cbr r(2) .
      then show ?thesis using False Some by simp
    qed
  qed
qed

lemma irq_cases:
  assumes "HAL_UART_IRQHandler f s = Some s'" and "armed s"
    and "length (rx_buff s) = SERIAL_RX_BUFFER_SIZE" "rx_head s < SERIAL_RX_BUFFER_SIZE"
  obtains (idle) "s' = s" "\<not> takes_byte f s"
    | (receive) b where "s' = rx_store (b AND rx_mask s) s" "RXNE f = Some b" "takes_byte f s"
    | (transmit) "UART_TxISR_8BIT s = Some s'" "TXEIE s" "\<not> takes_byte f s"
    | (finish) "s' = UART_EndTransmit_IT s" "TCIE s" "\<not> takes_byte f s"
proof -
  let ?err = "PE f \<or> FE f \<or> NE f \<or> ORE f"
  have a: "RXNEIE s" "EIE s" "RxState s = HAL_UART_STATE_BUSY_RX" using assms(2) by (simp_all add: armed_def)
  have "s\<lparr>ErrorCode := HAL_UART_ERROR_NONE\<rparr> = s" using assms(2) by (simp add: armed_def error_same)
  then have isr: "UART_RxISR_8BIT b s = Some (rx_store (b AND rx_mask s) s)" for b
    using rx_isr_armed [OF assms(2-4), of _ HAL_UART_ERROR_NONE] by simp
  consider (rx) b where "\<not> ?err" "RXNE f = Some b" | (err) ?err | (tx) "\<not> ?err" "RXNE f = None" by fastforce
  then show thesis
  proof cases
    case rx
    then show thesis using receive [of b] assms(1) by (simp add: HAL_UART_IRQHandler_def isr a takes_byte_def)
  next
    case err
    have s': "s' = (if error_code f s \<noteq> HAL_UART_ERROR_NONE \<and> RXNE f \<noteq> None then rx_store (the (RXNE f) AND rx_mask s) s else s)"
      using err assms(1) a by (simp add: HAL_UART_IRQHandler_def handle_errors_armed [OF assms(2-4)] split del: if_split)
    show thesis
    proof (cases "error_code f s \<noteq> HAL_UART_ERROR_NONE \<and> RXNE f \<noteq> None")
      case True
      then obtain b where "RXNE f = Some b" by blast
      moreover have "takes_byte f s" using True a by (simp add: takes_byte_def)
      ultimately show thesis using receive [of b] s' True by simp
    next
      case False
      then have "\<not> takes_byte f s" using err by (auto simp: takes_byte_def)
      then show thesis by (rule idle [rotated]) (use s' False in \<open>simp only: if_False\<close>)
    qed
  next
    case tx
    then have "\<not> takes_byte f s" by (simp add: takes_byte_def)
    moreover have "s' = s \<or> UART_TxISR_8BIT s = Some s' \<and> TXEIE s \<or> s' = UART_EndTransmit_IT s \<and> TCIE s"
      using tx assms(1) by (auto simp: HAL_UART_IRQHandler_def split: if_splits)
    ultimately show thesis using idle transmit finish by blast
  qed
qed

section \<open>The invariant\<close>

definition tx_busy :: "'a serial_t_scheme \<Rightarrow> bool" where
  "tx_busy s \<longleftrightarrow> gState s = HAL_UART_STATE_BUSY_TX"

definition queued :: "'a serial_t_scheme \<Rightarrow> u8 list" where
  "queued s = ring_content (tx_buff s) (tx_tail s) (tx_head s)"

text \<open>Bytes accepted but not yet given to the data register.\<close>

definition unsent :: "'a serial_t_scheme \<Rightarrow> u8 list" where
  "unsent s = (if tx_busy s then drop (pTxBuffPtr s - tx_tail s) (queued s) else queued s)"

definition tx_shape :: "'a serial_t_scheme \<Rightarrow> bool" where
  "tx_shape s \<longleftrightarrow> length (tx_buff s) = SERIAL_TX_BUFFER_SIZE \<and> tx_head s < SERIAL_TX_BUFFER_SIZE \<and>
     tx_tail s < SERIAL_TX_BUFFER_SIZE \<and>
     (if tx_busy s then tx_tail s \<le> pTxBuffPtr s \<and> pTxBuffPtr s + TxXferCount s = tx_tail s + tx_size s \<and>
        tx_tail s + tx_size s \<le> SERIAL_TX_BUFFER_SIZE \<and> 0 < tx_size s \<and> tx_size s \<le> length (queued s) \<and>
        (if TXEIE s then \<not> TCIE s else TCIE s \<and> TxXferCount s = 0)
      else \<not> TXEIE s \<and> \<not> TCIE s)"

fun pc_shape :: "writer_pc \<Rightarrow> hw_serial \<Rightarrow> bool" where
  "pc_shape W_idle s \<longleftrightarrow> (\<not> tx_busy s \<longrightarrow> queued s = [])"
| "pc_shape (W_wait xs av te) s \<longleftrightarrow> (\<not> tx_busy s \<longrightarrow> queued s = []) \<and> av \<le> availableForWrite s \<and> te = SERIAL_TX_BUFFER_SIZE - tx_head s"
| "pc_shape (W_loop xs av te) s \<longleftrightarrow> (\<not> tx_busy s \<longrightarrow> queued s = []) \<and> av \<le> availableForWrite s \<and> te = SERIAL_TX_BUFFER_SIZE - tx_head s"
| "pc_shape (W_copied xs n rest) s \<longleftrightarrow> (\<not> tx_busy s \<longrightarrow> queued s = []) \<and> n = length xs \<and> n \<le> availableForWrite s \<and>
     tx_head s + n \<le> SERIAL_TX_BUFFER_SIZE \<and> mem_write (tx_buff s) (tx_head s) xs = Some (tx_buff s)"
| "pc_shape (W_moved n rest) s \<longleftrightarrow> (\<not> tx_busy s \<longrightarrow> length (queued s) = n \<and> tx_tail s + n \<le> SERIAL_TX_BUFFER_SIZE)"
| "pc_shape (W_start n rest) s \<longleftrightarrow> \<not> tx_busy s \<and> length (queued s) = n \<and> tx_tail s + n \<le> SERIAL_TX_BUFFER_SIZE"

definition tx_inv :: "writer_pc \<times> hw_serial \<Rightarrow> bool" where
  "tx_inv = (\<lambda>(pc, s). tx_shape s \<and> pc_shape pc s \<and> accepted s = line s @ unsent s)"

definition rx_inv :: "hw_serial \<Rightarrow> bool" where
  "rx_inv s \<longleftrightarrow> armed s \<and> length (rx_buff s) = SERIAL_RX_BUFFER_SIZE \<and> rx_head s < SERIAL_RX_BUFFER_SIZE \<and>
     rx_tail s < SERIAL_RX_BUFFER_SIZE \<and>
     returned s @ ring_content (rx_buff s) (rx_tail s) (rx_head s) = map fst (filter (\<lambda>(b, n). n < 63) (arrived s))"

definition duplex_inv :: "writer_pc \<times> hw_serial \<Rightarrow> bool" where
  "duplex_inv = (\<lambda>(pc, s). (\<not> written s \<longrightarrow> pc = W_idle \<and> tx_head s = tx_tail s) \<and>
     (no_rx_pin s \<longrightarrow> \<not> (TE s \<and> RE s) \<and> (rx_enabled s \<longrightarrow> pc = W_idle \<and> tx_head s = tx_tail s \<and> \<not> TE s) \<and>
        (\<not> rx_enabled s \<longrightarrow> \<not> RE s)))"

section \<open>Transmission\<close>

lemma queued_length:
  assumes "tx_shape s"
  shows "length (queued s) = (if tx_tail s \<le> tx_head s then tx_head s - tx_tail s else tx_head s + 64 - tx_tail s)"
    and "length (queued s) < 64" and "queued s = [] \<longleftrightarrow> tx_head s = tx_tail s"
  using assms by (auto simp: tx_shape_def queued_def consts_simp length_ring_content simp flip: length_0_conv)

lemma room_is_rest:
  assumes "tx_shape s"
  shows "availableForWrite s = 63 - length (queued s)"
  using assms queued_length(1) [OF assms] by (auto simp: tx_shape_def availableForWrite_def consts_simp)

text \<open>The interrupt that feeds the data register.\<close>

lemma tx_isr_inv:
  assumes "tx_shape s" and "UART_TxISR_8BIT s = Some s'" and "TXEIE s"
  shows "tx_shape s' \<and> tx_busy s' \<and> tx_busy s \<and> queued s' = queued s \<and> tx_head s' = tx_head s \<and> tx_tail s' = tx_tail s \<and>
    tx_buff s' = tx_buff s \<and> line s' @ unsent s' = line s @ unsent s"
proof -
  have busy: "tx_busy s" using assms(1,3) by (auto simp: tx_shape_def split: if_splits)
  note sh = assms(1) [unfolded tx_shape_def, simplified busy if_True]
  show ?thesis
  proof (cases "TxXferCount s = 0")
    case True
    then have "s' = s\<lparr>TXEIE := False, TCIE := True\<rparr>" using assms(2) busy by (simp add: UART_TxISR_8BIT_def tx_busy_def)
    then show ?thesis using sh True assms(3) busy by (simp add: tx_shape_def tx_busy_def queued_def unsent_def)
  next
    case False
    let ?k = "pTxBuffPtr s - tx_tail s"
    have lt: "pTxBuffPtr s < 64" "?k < length (queued s)" "tx_tail s + ?k = pTxBuffPtr s"
      using sh False by (auto simp: consts_simp)
    then have s': "s' = s\<lparr>line := line s @ [tx_buff s ! pTxBuffPtr s], pTxBuffPtr := pTxBuffPtr s + 1,
        TxXferCount := TxXferCount s - 1\<rparr>"
      using assms(2) busy False sh by (simp add: UART_TxISR_8BIT_def tx_busy_def consts_simp)
    have "tx_buff s ! pTxBuffPtr s = queued s ! ?k"
      using ring_nth [of "tx_tail s" "tx_buff s" "tx_head s" ?k] lt sh by (simp add: queued_def consts_simp)
    then have "drop ?k (queued s) = tx_buff s ! pTxBuffPtr s # drop (Suc ?k) (queued s)"
      using lt(2) by (simp add: Cons_nth_drop_Suc)
    moreover have "pTxBuffPtr s + 1 - tx_tail s = Suc ?k" using sh by auto
    ultimately show ?thesis using sh False busy assms(3)
      by (auto simp: s' tx_shape_def tx_busy_def queued_def unsent_def)
  qed
qed

text \<open>The end of a transmission: the next piece is taken from the buffer, if there is any.\<close>

lemma start_shape:
  assumes "tx_shape s" and "\<not> tx_busy s" and "0 < n" "n \<le> length (queued s)" "tx_tail s + n \<le> 64"
    and "gState s = HAL_UART_STATE_READY"
  defines "s' \<equiv> uart_attach_tx_callback n (s\<lparr>tx_size := n\<rparr>)"
  shows "tx_shape s' \<and> tx_busy s' \<and> queued s' = queued s \<and> unsent s' = queued s \<and> line s' = line s \<and>
    tx_head s' = tx_head s \<and> tx_buff s' = tx_buff s \<and> pTxBuffPtr s' = tx_tail s' \<and> TXEIE s'"
proof -
  have "to_u16 (int n) = n" using assms(5) by simp
  then have "s' = s\<lparr>tx_size := n, pTxBuffPtr := tx_tail s, TxXferCount := n, ErrorCode := HAL_UART_ERROR_NONE, gState := HAL_UART_STATE_BUSY_TX, TXEIE := True\<rparr>"
    using assms(3,6) by (simp add: s'_def uart_attach_tx_callback_def HAL_UART_Transmit_IT_def)
  then show ?thesis using assms(1-5)
    by (simp add: tx_shape_def tx_busy_def queued_def unsent_def consts_simp)
qed

lemma finish_inv:
  assumes "tx_shape s" and "TCIE s"
  defines "s' \<equiv> UART_EndTransmit_IT s"
  shows "tx_shape s' \<and> tx_busy s \<and> tx_head s' = tx_head s \<and> tx_buff s' = tx_buff s \<and> (\<not> tx_busy s' \<longrightarrow> queued s' = []) \<and>
    line s' @ unsent s' = line s @ unsent s \<and> length (queued s') \<le> length (queued s) \<and>
    (tx_busy s' \<longrightarrow> TXEIE s' \<and> pTxBuffPtr s' = tx_tail s' \<and> length (queued s') = length (queued s) - tx_size s)"
proof -
  have busy: "tx_busy s" using assms(1,2) by (auto simp: tx_shape_def split: if_splits)
  note sh = assms(1) [unfolded tx_shape_def, simplified busy if_True]
  have tc: "\<not> TXEIE s" "TxXferCount s = 0" "pTxBuffPtr s = tx_tail s + tx_size s" using sh assms(2) by (auto split: if_splits)
  let ?t = "(tx_tail s + tx_size s) mod SERIAL_TX_BUFFER_SIZE"
  define s1 where "s1 = s\<lparr>TCIE := False, gState := HAL_UART_STATE_READY, tx_tail := ?t\<rparr>"
  have t: "?t = ring_step (length (tx_buff s)) (tx_tail s) (tx_size s)"
    using sh ring_step_mod [of "tx_tail s" 64 "tx_size s"] by (simp add: consts_simp)
  have q: "queued s1 = drop (tx_size s) (queued s)"
    unfolding queued_def s1_def using sh ring_take_flat(2) [of "tx_tail s" "tx_buff s" "tx_head s" "tx_size s"] t
    by (simp add: queued_def consts_simp)
  have nb: "\<not> tx_busy s1" "gState s1 = HAL_UART_STATE_READY" by (simp_all add: s1_def tx_busy_def uart_states)
  have shape: "tx_shape s1" using sh tc nb by (simp add: s1_def tx_shape_def tx_busy_def uart_states consts_simp)
  have un: "unsent s = queued s1" using q tc(3) busy by (simp add: unsent_def)
  show ?thesis
  proof (cases "queued s1 = []")
    case True
    then have "tx_head s = ?t" using queued_length(3) [OF shape] by (simp add: s1_def)
    then have "s' = s1" by (simp add: s'_def UART_EndTransmit_IT_def HAL_UART_TxCpltCallback_def tx_complete_irq_def s1_def Let_def)
    then show ?thesis using True shape busy nb un by (simp add: unsent_def) (simp add: s1_def)
  next
    case False
    then have ne: "tx_head s \<noteq> ?t" using queued_length(3) [OF shape] by (simp add: s1_def)
    define n where "n = min ((SERIAL_TX_BUFFER_SIZE + tx_head s - ?t) mod SERIAL_TX_BUFFER_SIZE) (SERIAL_TX_BUFFER_SIZE - ?t)"
    have "(SERIAL_TX_BUFFER_SIZE + tx_head s - ?t) mod SERIAL_TX_BUFFER_SIZE = length (queued s1)"
      using ring_length_mod [of ?t "tx_buff s" "tx_head s"] sh by (simp add: s1_def queued_def consts_simp)
    then have n: "0 < n" "n \<le> length (queued s1)" "tx_tail s1 + n \<le> 64"
      using False by (simp_all add: n_def s1_def consts_simp)
    have "s' = uart_attach_tx_callback n (s1\<lparr>tx_size := n\<rparr>)"
      using ne by (simp add: s'_def UART_EndTransmit_IT_def HAL_UART_TxCpltCallback_def tx_complete_irq_def s1_def n_def Let_def)
    then show ?thesis using start_shape [OF shape nb(1) n nb(2)] busy un q by (simp add: s1_def)
  qed
qed

text \<open>Receiving does not touch what transmission uses.\<close>

lemma rx_store_fields:
  "tx_shape (rx_store c s) = tx_shape s" "tx_busy (rx_store c s) = tx_busy s" "queued (rx_store c s) = queued s"
  "unsent (rx_store c s) = unsent s" "line (rx_store c s) = line s" "tx_head (rx_store c s) = tx_head s"
  "tx_buff (rx_store c s) = tx_buff s" "tx_tail (rx_store c s) = tx_tail s"
  by (simp_all add: rx_store_def Let_def tx_shape_def tx_busy_def queued_def unsent_def)

lemma hw_fields:
  fixes s :: hw_serial
  shows "rx_store c (s\<lparr>arrived := x\<rparr>) = (rx_store c s)\<lparr>arrived := x\<rparr>"
    "accepted (rx_store c s) = accepted s" "returned (rx_store c s) = returned s" "arrived (rx_store c s) = arrived s"
    "written (rx_store c s) = written s" "rx_enabled (rx_store c s) = rx_enabled s"
  by (simp_all add: rx_store_def Let_def)

text \<open>Ghost fields and others that the transmission does not read.\<close>

lemma arrived_fields [simp]:
  fixes s :: hw_serial
  shows "tx_shape (s\<lparr>arrived := x\<rparr>) = tx_shape s" "tx_busy (s\<lparr>arrived := x\<rparr>) = tx_busy s"
    "queued (s\<lparr>arrived := x\<rparr>) = queued s" "unsent (s\<lparr>arrived := x\<rparr>) = unsent s" "armed (s\<lparr>arrived := x\<rparr>) = armed s"
  by (simp_all add: tx_shape_def tx_busy_def queued_def unsent_def armed_def)

text \<open>Every interrupt keeps the stream, and only makes room.\<close>

lemma tx_accepted:
  fixes s :: hw_serial
  shows "UART_TxISR_8BIT s = Some s' \<Longrightarrow> accepted s' = accepted s" and "accepted (UART_EndTransmit_IT s) = accepted s"
proof -
  show "UART_TxISR_8BIT s = Some s' \<Longrightarrow> accepted s' = accepted s"
    by (auto simp: UART_TxISR_8BIT_def split: if_splits bind_splits)
  show "accepted (UART_EndTransmit_IT s) = accepted s"
    by (simp add: UART_EndTransmit_IT_def HAL_UART_TxCpltCallback_def tx_complete_irq_def
        uart_attach_tx_callback_def HAL_UART_Transmit_IT_def Let_def)
qed

lemma tx_irq:
  assumes "serial_irq f s = Some s'" and "tx_shape s" and "rx_inv s"
  shows "tx_shape s' \<and> tx_head s' = tx_head s \<and> tx_buff s' = tx_buff s \<and> line s' @ unsent s' = line s @ unsent s \<and>
    accepted s' = accepted s \<and> length (queued s') \<le> length (queued s) \<and>
    (tx_busy s' \<longrightarrow> tx_busy s) \<and> (\<not> tx_busy s' \<longrightarrow> \<not> tx_busy s \<and> queued s' = queued s \<and> tx_tail s' = tx_tail s \<or> tx_busy s \<and> queued s' = [])"
proof -
  obtain s1 where s1: "HAL_UART_IRQHandler f s = Some s1"
    and s': "s' = (if takes_byte f s then s1\<lparr>arrived := arrived s @ [(the (RXNE f) AND rx_mask s, available_rx s)]\<rparr> else s1)"
    using assms(1) by (auto simp: serial_irq_def)
  show ?thesis
  proof (rule irq_cases [OF s1])
    show "armed s" "length (rx_buff s) = SERIAL_RX_BUFFER_SIZE" "rx_head s < SERIAL_RX_BUFFER_SIZE"
      using assms(3) by (simp_all add: rx_inv_def)
    show ?thesis if "s1 = s" "\<not> takes_byte f s" using that s' assms(2) by simp
    show ?thesis if "s1 = rx_store (b AND rx_mask s) s" "takes_byte f s" for b
      using that s' assms(2) by (simp add: rx_store_fields hw_fields)
    show ?thesis if "UART_TxISR_8BIT s = Some s1" "TXEIE s" "\<not> takes_byte f s"
      using tx_isr_inv [OF assms(2) that(1,2)] tx_accepted(1) [OF that(1)] that(3) s' by simp
    show ?thesis if "s1 = UART_EndTransmit_IT s" "TCIE s" "\<not> takes_byte f s"
      using finish_inv [OF assms(2) that(2)] tx_accepted(2) [of s] that s' by simp
  qed
qed

section \<open>Reception\<close>

definition rx_part :: "'a serial_t_scheme \<Rightarrow> (u32 \<times> u32 \<times> bool \<times> bool \<times> bool \<times> bool) \<times> u8 list \<times> nat \<times> nat" where
  "rx_part s = ((RxState s, ErrorCode s, RXNEIE s, EIE s, PEIE s, has_parity s), rx_buff s, rx_head s, rx_tail s)"

lemma rx_inv_cong:
  assumes "rx_inv s" and "rx_part s' = rx_part s" "returned s' = returned s" "arrived s' = arrived s"
    and "gState s' \<in> {HAL_UART_STATE_READY, HAL_UART_STATE_BUSY_TX}"
  shows "rx_inv s'"
  using assms by (simp add: rx_inv_def rx_part_def armed_def)

lemma tx_keeps_rx:
  fixes s :: hw_serial
  shows "UART_TxISR_8BIT s = Some s' \<Longrightarrow> rx_part s' = rx_part s \<and> returned s' = returned s \<and> arrived s' = arrived s \<and> gState s' = gState s"
    and "ErrorCode s = HAL_UART_ERROR_NONE \<Longrightarrow> rx_part (UART_EndTransmit_IT s) = rx_part s \<and> returned (UART_EndTransmit_IT s) = returned s \<and>
      arrived (UART_EndTransmit_IT s) = arrived s \<and>
      gState (UART_EndTransmit_IT s) \<in> {HAL_UART_STATE_READY, HAL_UART_STATE_BUSY_TX}"
proof -
  show "UART_TxISR_8BIT s = Some s' \<Longrightarrow> rx_part s' = rx_part s \<and> returned s' = returned s \<and> arrived s' = arrived s \<and> gState s' = gState s"
    by (auto simp: UART_TxISR_8BIT_def rx_part_def split: if_splits bind_splits)
  show "ErrorCode s = HAL_UART_ERROR_NONE \<Longrightarrow> rx_part (UART_EndTransmit_IT s) = rx_part s \<and> returned (UART_EndTransmit_IT s) = returned s \<and>
      arrived (UART_EndTransmit_IT s) = arrived s \<and>
      gState (UART_EndTransmit_IT s) \<in> {HAL_UART_STATE_READY, HAL_UART_STATE_BUSY_TX}"
    by (simp add: UART_EndTransmit_IT_def HAL_UART_TxCpltCallback_def tx_complete_irq_def
        uart_attach_tx_callback_def HAL_UART_Transmit_IT_def Let_def rx_part_def)
qed

lemma rx_length:
  assumes "rx_inv s"
  shows "available_rx s = length (ring_content (rx_buff s) (rx_tail s) (rx_head s))"
    and "(rx_head s + 1) mod 64 \<noteq> rx_tail s \<longleftrightarrow> available_rx s < 63"
proof -
  have r: "length (rx_buff s) = 64" "rx_head s < 64" "rx_tail s < 64" using assms by (simp_all add: rx_inv_def consts_simp)
  show len: "available_rx s = length (ring_content (rx_buff s) (rx_tail s) (rx_head s))"
    using ring_length_mod [of "rx_tail s" "rx_buff s" "rx_head s"] r by (simp add: available_rx_def consts_simp)
  have "(rx_head s + 1) mod 64 = ring_step 64 (rx_head s) 1" using r by (intro ring_step_mod) simp_all
  then show "(rx_head s + 1) mod 64 \<noteq> rx_tail s \<longleftrightarrow> available_rx s < 63"
    using r unfolding len by (auto simp: ring_step_def length_ring_content)
qed

lemma rx_store_inv:
  fixes s :: hw_serial
  assumes "rx_inv s"
  shows "rx_inv ((rx_store c s)\<lparr>arrived := arrived s @ [(c, available_rx s)]\<rparr>)"
proof -
  have r: "length (rx_buff s) = 64" "rx_head s < 64" "rx_tail s < 64" and a: "armed s"
    using assms by (simp_all add: rx_inv_def consts_simp)
  note eq = assms [unfolded rx_inv_def, THEN conjunct2, THEN conjunct2, THEN conjunct2, THEN conjunct2]
  show ?thesis
  proof (cases "available_rx s < 63")
    case False
    then have "(rx_head s + 1) mod 64 = rx_tail s" using rx_length(2) [OF assms] by blast
    then show ?thesis using assms False armed_rx_store [OF a, of c]
      by (simp add: rx_inv_def rx_store_def consts_simp Let_def)
  next
    case True
    then have i: "(rx_head s + 1) mod 64 \<noteq> rx_tail s" using rx_length(2) [OF assms] by blast
    have step: "(rx_head s + 1) mod 64 = ring_step (length (rx_buff s)) (rx_head s) (length [c])"
      using r ring_step_mod [of "rx_head s" 64 1] by simp
    have "ring_content ((rx_buff s)[rx_head s := c]) (rx_tail s) ((rx_head s + 1) mod 64) =
        ring_content (rx_buff s) (rx_tail s) (rx_head s) @ [c]"
      unfolding step using r True rx_length(1) [OF assms]
      by (intro ring_put_flat) (simp_all add: mem_write_one)
    then show ?thesis using eq i r True armed_rx_store [OF a, of c]
      by (simp add: rx_inv_def rx_store_def consts_simp Let_def flip: append_assoc)
  qed
qed

lemma rx_irq:
  assumes "serial_irq f s = Some s'" and "rx_inv s"
  shows "rx_inv s'"
proof -
  obtain s1 where s1: "HAL_UART_IRQHandler f s = Some s1"
    and s': "s' = (if takes_byte f s then s1\<lparr>arrived := arrived s @ [(the (RXNE f) AND rx_mask s, available_rx s)]\<rparr> else s1)"
    using assms(1) by (auto simp: serial_irq_def)
  have g: "gState s \<in> {HAL_UART_STATE_READY, HAL_UART_STATE_BUSY_TX}" using assms(2) by (simp add: rx_inv_def armed_def)
  show ?thesis
  proof (rule irq_cases [OF s1])
    show "armed s" "length (rx_buff s) = SERIAL_RX_BUFFER_SIZE" "rx_head s < SERIAL_RX_BUFFER_SIZE"
      using assms(2) by (simp_all add: rx_inv_def)
    show ?thesis if "s1 = s" "\<not> takes_byte f s" using that s' assms(2) by simp
    show ?thesis if "s1 = rx_store (b AND rx_mask s) s" "RXNE f = Some b" "takes_byte f s" for b
      using that s' rx_store_inv [OF assms(2), of "b AND rx_mask s"] by simp
    show ?thesis if "UART_TxISR_8BIT s = Some s1" "TXEIE s" "\<not> takes_byte f s"
      using rx_inv_cong [OF assms(2)] tx_keeps_rx(1) [OF that(1)] that(3) s' g by simp
    show ?thesis if "s1 = UART_EndTransmit_IT s" "TCIE s" "\<not> takes_byte f s"
      using rx_inv_cong [OF assms(2)] tx_keeps_rx(2) [of s] that(1,3) s' assms(2) by (simp add: rx_inv_def armed_def)
  qed
qed

lemma enable_rx_cases:
  "enableHalfDuplexRx s = Some s1 \<Longrightarrow> s1 = s \<or>
     no_rx_pin s \<and> flushed s \<and> s1 = s\<lparr>rx_enabled := True, TE := False, RE := True, gState := HAL_UART_STATE_READY\<rparr>"
  by (auto simp: enableHalfDuplexRx_def uart_enable_rx_def HAL_HalfDuplex_EnableReceiver_def split: if_splits)

lemma write_enter_cases:
  "write_enter s = s\<lparr>written := True\<rparr> \<or> no_rx_pin s \<and> rx_enabled s \<and>
     write_enter s = s\<lparr>written := True, rx_enabled := False, RE := False, TE := True, gState := HAL_UART_STATE_READY\<rparr>"
  by (simp add: write_enter_def uart_enable_tx_def HAL_HalfDuplex_EnableTransmitter_def Let_def)

lemma write_start_cases:
  "write_start n s = s\<lparr>tx_size := n\<rparr> \<or> write_start n s =
     s\<lparr>tx_size := n, pTxBuffPtr := tx_tail s, TxXferCount := to_u16 (int n), ErrorCode := HAL_UART_ERROR_NONE, gState := HAL_UART_STATE_BUSY_TX, TXEIE := True\<rparr>"
  by (simp add: write_start_def uart_attach_tx_callback_def HAL_UART_Transmit_IT_def)

lemma write_copy_cases:
  "write_copy xs s = Some (n, s') \<Longrightarrow> \<exists>b. s' = s\<lparr>tx_buff := b\<rparr>"
  by (auto simp: write_copy_def Let_def split: if_splits bind_splits)

lemma serial_read_inv:
  assumes "serial_read s = Some (r, s')" and "rx_inv s"
  shows "rx_inv s'"
proof (cases "rx_head s = rx_tail s")
  case True
  then show ?thesis using assms by (simp add: serial_read_def)
next
  case False
  have r: "length (rx_buff s) = 64" "rx_head s < 64" "rx_tail s < 64"
    using assms(2) by (simp_all add: rx_inv_def consts_simp)
  let ?c = "rx_buff s ! rx_tail s" and ?ring = "ring_content (rx_buff s) (rx_tail s) (rx_head s)"
  have s': "s' = s\<lparr>rx_tail := (rx_tail s + 1) mod 64, returned := returned s @ [?c]\<rparr>"
    using assms(1) False r by (simp add: serial_read_def consts_simp)
  have ne: "1 \<le> length ?ring" using False r by (auto simp: length_ring_content)
  have step: "(rx_tail s + 1) mod 64 = ring_step (length (rx_buff s)) (rx_tail s) 1"
    using r ring_step_mod [of "rx_tail s" 64 1] by simp
  have "ring_content (rx_buff s) ((rx_tail s + 1) mod 64) (rx_head s) = drop 1 ?ring"
    unfolding step using r ne by (intro ring_take_flat(2)) simp_all
  moreover have "?ring \<noteq> []" using ne by auto
  then have "?ring ! 0 = ?c" using ring_nth [of "rx_tail s" "rx_buff s" "rx_head s" 0] r by simp
  ultimately have "[?c] @ ring_content (rx_buff s) ((rx_tail s + 1) mod 64) (rx_head s) = ?ring"
    using ne by (cases ?ring) simp_all
  then show ?thesis using assms(2) by (simp add: s' rx_inv_def armed_def consts_simp)
qed

lemma rx_step:
  assumes "serial_step calm x y" and "rx_inv (snd x)"
  shows "rx_inv (snd y)"
  using assms
proof (induction rule: serial_step.induct)
  case (Irq f s s' pc)
  then show ?case using rx_irq by simp
next
  case (Read s s1 r s')
  then have g: "gState s \<in> {HAL_UART_STATE_READY, HAL_UART_STATE_BUSY_TX}" by (simp add: rx_inv_def armed_def)
  have "rx_inv s1" using enable_rx_cases [OF Read(1)] Read(3) rx_inv_cong [of s s1] g by (auto simp: rx_part_def)
  then show ?case using serial_read_inv Read(2) by simp
next
  case (Write s xs)
  then show ?case using write_enter_cases [of s] rx_inv_cong [of s "write_enter s"]
    by (auto simp: rx_part_def rx_inv_def armed_def)
next
  case (Piece xs te av s n s')
  obtain b where "s' = s\<lparr>tx_buff := b\<rparr>" using write_copy_cases [OF Piece(3)] by blast
  then show ?case using Piece(4) by (simp add: rx_inv_def armed_def)
next
  case (Last xs te av s n s')
  obtain b where "s' = s\<lparr>tx_buff := b\<rparr>" using write_copy_cases [OF Last(2)] by blast
  then show ?case using Last(3) by (simp add: rx_inv_def armed_def)
next
  case (Move xs n rest s)
  then show ?case by (simp add: write_head_def rx_inv_def armed_def)
next
  case (Start n rest s)
  then show ?case using write_start_cases [of n s] rx_inv_cong [of s "write_start n s"]
    by (auto simp: rx_part_def rx_inv_def armed_def)
qed simp_all

section \<open>The sketch\<close>

lemma not_busy_empty: "tx_shape s \<Longrightarrow> tx_head s = tx_tail s \<Longrightarrow> \<not> tx_busy s"
  using queued_length(3) [of s] by (auto simp: tx_shape_def split: if_splits)

lemma not_busy_ready: "rx_inv s \<Longrightarrow> \<not> tx_busy s \<Longrightarrow> gState s = HAL_UART_STATE_READY"
  by (auto simp: rx_inv_def armed_def tx_busy_def)

lemma unsent_busy_bound: "tx_shape s \<Longrightarrow> tx_busy s \<Longrightarrow> pTxBuffPtr s - tx_tail s \<le> length (queued s)"
  by (auto simp: tx_shape_def split: if_splits)

text \<open>Fields the transmission does not read.\<close>

definition tx_part :: "hw_serial \<Rightarrow> (u32 \<times> nat \<times> nat \<times> bool \<times> bool) \<times> u8 list \<times> nat \<times> nat \<times> nat \<times> u8 list \<times> u8 list" where
  "tx_part s = ((gState s, pTxBuffPtr s, TxXferCount s, TXEIE s, TCIE s), tx_buff s, tx_head s, tx_tail s, tx_size s, line s, accepted s)"

lemma tx_part_cong:
  assumes "tx_part s' = tx_part s"
  shows "tx_inv (pc, s') = tx_inv (pc, s)" and "tx_shape s' = tx_shape s" and "tx_busy s' = tx_busy s" and "queued s' = queued s"
proof -
  have f: "gState s' = gState s" "pTxBuffPtr s' = pTxBuffPtr s" "TxXferCount s' = TxXferCount s" "TXEIE s' = TXEIE s"
    "TCIE s' = TCIE s" "tx_buff s' = tx_buff s" "tx_head s' = tx_head s" "tx_tail s' = tx_tail s" "tx_size s' = tx_size s"
    "line s' = line s" "accepted s' = accepted s" using assms by (simp_all add: tx_part_def)
  show b: "tx_busy s' = tx_busy s" by (simp add: tx_busy_def f)
  show q: "queued s' = queued s" by (simp add: queued_def f)
  show sh: "tx_shape s' = tx_shape s" unfolding tx_shape_def f b q by (rule refl)
  have "pc_shape pc s' = pc_shape pc s" by (cases pc) (simp_all add: b q f availableForWrite_def)
  then show "tx_inv (pc, s') = tx_inv (pc, s)" by (simp add: tx_inv_def sh unsent_def b q f)
qed

lemma write_copy_inv:
  assumes sh: "tx_shape s" and len: "length xs \<le> availableForWrite s" "tx_head s + length xs \<le> 64"
    and w: "write_copy xs s = Some (n, s')"
  shows "\<exists>b. s' = s\<lparr>tx_buff := b\<rparr> \<and> n = length xs \<and> tx_shape s' \<and> queued s' = queued s \<and>
    mem_write b (tx_head s) xs = Some b"
proof -
  obtain b where b: "mem_write (tx_buff s) (tx_head s) xs = Some b" and s': "s' = s\<lparr>tx_buff := b\<rparr>" "n = length xs"
    using w len(2) by (auto simp: write_copy_def consts_simp memcpy_def mem_read_def split: bind_splits)
  have lb: "length b = 64" "length (tx_buff s) = 64" using mem_write_length [OF b] sh by (simp_all add: tx_shape_def consts_simp)
  have again: "mem_write b (tx_head s) xs = Some b"
    using b by (auto simp: mem_write_def split: if_splits)
  have fits: "length (queued s) + length xs < 64" using len(1) room_is_rest [OF sh] queued_length(2) [OF sh] by linarith
  have ht: "tx_head s < 64" "tx_tail s < 64" using sh by (simp_all add: tx_shape_def consts_simp)
  have same: "length (ring_content b (tx_tail s) (tx_head s)) = length (queued s)"
    using lb ht by (simp add: queued_def length_ring_content)
  have "ring_content b (tx_tail s) (ring_step 64 (tx_head s) (length xs)) = queued s @ xs"
    using ring_put_flat [OF _ _ _ _ b, of "tx_tail s"] lb ht fits len(2) by (simp add: queued_def)
  moreover have "ring_content b (tx_tail s) (ring_step 64 (tx_head s) (length xs)) = ring_content b (tx_tail s) (tx_head s) @ xs"
    using ring_put_flat [OF _ _ _ _ again, of "tx_tail s"] lb ht fits len(2) same by simp
  ultimately have q: "queued s' = queued s" by (simp add: queued_def s')
  then have "tx_shape s'" using sh lb by (auto simp: s' tx_shape_def tx_busy_def consts_simp)
  then show ?thesis using s' again q by blast
qed

lemma write_head_inv:
  assumes "tx_inv (W_copied xs n rest, s)"
  shows "tx_inv (W_moved n rest, write_head xs s)"
proof -
  have sh: "tx_shape s" and n: "n = length xs" "n \<le> availableForWrite s" "tx_head s + n \<le> 64"
    and m: "mem_write (tx_buff s) (tx_head s) xs = Some (tx_buff s)" and idle: "\<not> tx_busy s \<longrightarrow> queued s = []"
    and acc: "accepted s = line s @ unsent s"
    using assms by (simp_all add: tx_inv_def consts_simp)
  let ?s = "write_head xs s"
  have lb: "length (tx_buff s) = 64" and ht: "tx_head s < 64" "tx_tail s < 64" using sh by (simp_all add: tx_shape_def consts_simp)
  have fits: "length (queued s) + length xs < 64" using n(1,2) room_is_rest [OF sh] queued_length(2) [OF sh] by linarith
  have step: "(tx_head s + length xs) mod 64 = ring_step 64 (tx_head s) (length xs)"
    using n(1,3) ht by (intro ring_step_mod) simp_all
  have q: "queued ?s = queued s @ xs"
    using ring_put_flat [OF _ _ _ _ m, of "tx_tail s"] lb ht fits n(1,3)
    by (simp add: queued_def write_head_def consts_simp step)
  have b: "tx_busy ?s = tx_busy s" by (simp add: write_head_def tx_busy_def)
  have f: "pTxBuffPtr ?s = pTxBuffPtr s" "tx_tail ?s = tx_tail s" "line ?s = line s" "accepted ?s = accepted s @ xs"
    by (simp_all add: write_head_def)
  have "tx_shape ?s" using sh q b by (auto simp: tx_shape_def write_head_def consts_simp)
  moreover have "unsent ?s = unsent s @ xs" using unsent_busy_bound [OF sh] by (auto simp: unsent_def b q f)
  moreover have "\<not> tx_busy s \<Longrightarrow> tx_head s = tx_tail s" using idle queued_length(3) [OF sh] by blast
  ultimately show ?thesis using acc idle n by (auto simp: tx_inv_def b q f consts_simp)
qed

lemma write_next_shape:
  assumes "\<not> tx_busy s \<longrightarrow> queued s = []"
  shows "pc_shape (write_next rest s) s"
  using assms by (simp add: write_next_def)

lemma write_start_inv:
  assumes "tx_inv (W_start n rest, s)" and "rx_inv s"
  shows "tx_inv (write_next rest (write_start n s), write_start n s)"
proof -
  have sh: "tx_shape s" and nb: "\<not> tx_busy s" and n: "length (queued s) = n" "tx_tail s + n \<le> 64"
    and acc: "accepted s = line s @ queued s"
    using assms(1) by (auto simp: tx_inv_def unsent_def consts_simp)
  note ready = not_busy_ready [OF assms(2) nb]
  show ?thesis
  proof (cases "n = 0")
    case True
    then have "write_start n s = s\<lparr>tx_size := 0\<rparr>"
      using ready by (simp add: write_start_def uart_attach_tx_callback_def HAL_UART_Transmit_IT_def)
    moreover have "tx_shape (s\<lparr>tx_size := 0\<rparr>)" "\<not> tx_busy (s\<lparr>tx_size := 0\<rparr>)" "queued (s\<lparr>tx_size := 0\<rparr>) = []"
      using sh nb n True by (simp_all add: tx_shape_def tx_busy_def queued_def)
    ultimately show ?thesis using acc n True write_next_shape [of "s\<lparr>tx_size := 0\<rparr>" rest]
      by (simp add: tx_inv_def unsent_def)
  next
    case False
    note st = start_shape [OF sh nb _ _ n(2) ready, folded write_start_def]
    have "accepted (write_start n s) = accepted s" using write_start_cases [of n s] by auto
    then show ?thesis using st False n(1) acc write_next_shape [of "write_start n s" rest]
      by (simp add: tx_inv_def)
  qed
qed

text \<open>All together.\<close>

definition serial_inv :: "writer_pc \<times> hw_serial \<Rightarrow> bool" where
  "serial_inv x \<longleftrightarrow> tx_inv x \<and> rx_inv (snd x) \<and> duplex_inv x"

lemma irq_duplex:
  assumes "serial_irq f s = Some s'" and "rx_inv s"
  shows "written s' = written s \<and> no_rx_pin s' = no_rx_pin s \<and> rx_enabled s' = rx_enabled s \<and> TE s' = TE s \<and> RE s' = RE s"
proof -
  obtain s1 where s1: "HAL_UART_IRQHandler f s = Some s1"
    and s': "s' = (if takes_byte f s then s1\<lparr>arrived := arrived s @ [(the (RXNE f) AND rx_mask s, available_rx s)]\<rparr> else s1)"
    using assms(1) by (auto simp: serial_irq_def)
  let ?same = "written s1 = written s \<and> no_rx_pin s1 = no_rx_pin s \<and> rx_enabled s1 = rx_enabled s \<and> TE s1 = TE s \<and> RE s1 = RE s"
  have ?same
  proof (rule irq_cases [OF s1])
    show "armed s" "length (rx_buff s) = SERIAL_RX_BUFFER_SIZE" "rx_head s < SERIAL_RX_BUFFER_SIZE"
      using assms(2) by (simp_all add: rx_inv_def)
    show ?same if "s1 = rx_store (b AND rx_mask s) s" for b using that by (simp add: rx_store_def Let_def)
    show ?same if "UART_TxISR_8BIT s = Some s1"
      using that by (auto simp: UART_TxISR_8BIT_def split: if_splits bind_splits)
    show ?same if "s1 = UART_EndTransmit_IT s" unfolding that
      by (simp add: UART_EndTransmit_IT_def HAL_UART_TxCpltCallback_def tx_complete_irq_def
        uart_attach_tx_callback_def HAL_UART_Transmit_IT_def Let_def)
  qed simp
  then show ?thesis by (simp add: s')
qed

lemma irq_step:
  assumes irq: "serial_irq f s = Some s'" and inv: "serial_inv (pc, s)"
    and calm: "(\<exists>n rest. pc = W_moved n rest) \<Longrightarrow> serial_tx_active s \<Longrightarrow> serial_tx_active s'"
  shows "serial_inv (pc, s')"
proof -
  have tx: "tx_shape s" "pc_shape pc s" "accepted s = line s @ unsent s" and rx: "rx_inv s" and dup: "duplex_inv (pc, s)"
    using inv by (simp_all add: serial_inv_def tx_inv_def)
  note st = tx_irq [OF irq tx(1) rx]
  have rx': "rx_inv s'" using rx_irq [OF irq rx] .
  have sh': "tx_shape s'" using st by blast
  have room: "availableForWrite s \<le> availableForWrite s'"
    unfolding room_is_rest [OF tx(1)] room_is_rest [OF sh'] using st by (intro diff_le_mono2) blast
  have empty: "\<not> tx_busy s' \<longrightarrow> queued s' = []" if "\<not> tx_busy s \<longrightarrow> queued s = []" using st that by metis
  have act: "serial_tx_active s = tx_busy s" "serial_tx_active s' = tx_busy s'"
    using armed_active(1) rx rx' by (auto simp: rx_inv_def tx_busy_def)
  have "pc_shape pc s'"
  proof (cases pc)
    case W_idle
    then show ?thesis using tx(2) empty by simp
  next
    case (W_wait xs av te)
    then show ?thesis using tx(2) empty room st by simp
  next
    case (W_loop xs av te)
    then show ?thesis using tx(2) empty room st by simp
  next
    case (W_copied xs n rest)
    then show ?thesis using tx(2) empty room st by simp
  next
    case (W_moved n rest)
    then have "tx_busy s \<Longrightarrow> tx_busy s'" using calm act by blast
    then show ?thesis using W_moved tx(2) st by (cases "tx_busy s'") auto
  next
    case (W_start n rest)
    then have "\<not> tx_busy s'" using tx(2) st by auto
    then show ?thesis using W_start tx(2) st by simp
  qed
  then have "tx_inv (pc, s')" using sh' st tx(3) by (simp add: tx_inv_def)
  moreover have "tx_head s' = tx_tail s'" if "tx_head s = tx_tail s"
    using st that not_busy_empty [OF tx(1) that] by metis
  then have "duplex_inv (pc, s')" using dup irq_duplex [OF irq rx] by (auto simp: duplex_inv_def)
  ultimately show ?thesis using rx' by (simp add: serial_inv_def)
qed

lemma read_step:
  assumes "enableHalfDuplexRx s = Some s1" and "serial_read s1 = Some (r, s')" and "serial_inv (W_idle, s)" and "rx_inv s'"
  shows "serial_inv (W_idle, s')"
proof -
  have tx: "tx_inv (W_idle, s)" "tx_shape s" and dup: "duplex_inv (W_idle, s)" and rx: "rx_inv s"
    using assms(3) by (simp_all add: serial_inv_def tx_inv_def)
  have s': "tx_part s' = tx_part s1" "written s' = written s1" "no_rx_pin s' = no_rx_pin s1" "rx_enabled s' = rx_enabled s1"
    "TE s' = TE s1" "RE s' = RE s1" "tx_head s' = tx_head s1" "tx_tail s' = tx_tail s1"
    using assms(2) by (auto simp: serial_read_def tx_part_def split: if_splits bind_splits)
  consider "s1 = s" | "no_rx_pin s" "flushed s" "s1 = s\<lparr>rx_enabled := True, TE := False, RE := True, gState := HAL_UART_STATE_READY\<rparr>"
    using enable_rx_cases [OF assms(1)] by blast
  then have "tx_part s1 = tx_part s \<and> duplex_inv (W_idle, s1)"
  proof cases
    case 1
    then show ?thesis using dup by simp
  next
    case 2
    then have ht: "tx_head s = tx_tail s" using dup by (auto simp: flushed_def duplex_inv_def)
    then have "gState s = HAL_UART_STATE_READY" using not_busy_ready [OF rx] not_busy_empty [OF tx(2)] by blast
    then show ?thesis using 2(3) ht dup by (simp add: tx_part_def duplex_inv_def)
  qed
  then have "tx_inv (W_idle, s')" and "duplex_inv (W_idle, s')"
    using tx_part_cong(1) [of s' s W_idle] tx(1) s' by (simp_all add: duplex_inv_def)
  then show ?thesis using assms(4) by (simp add: serial_inv_def)
qed

lemma write_step:
  assumes "serial_inv (W_idle, s)" and "rx_inv (write_enter s)"
  shows "serial_inv (W_wait xs (availableForWrite s) (SERIAL_TX_BUFFER_SIZE - tx_head s), write_enter s)"
proof -
  have tx: "tx_inv (W_idle, s)" "tx_shape s" and dup: "duplex_inv (W_idle, s)" and rx: "rx_inv s"
    using assms(1) by (simp_all add: serial_inv_def tx_inv_def)
  have "tx_part (write_enter s) = tx_part s \<and> duplex_inv (W_wait xs av te, write_enter s)" for av te
  proof (cases "no_rx_pin s \<and> rx_enabled s")
    case True
    then have "tx_head s = tx_tail s" using dup by (simp add: duplex_inv_def)
    then have "gState s = HAL_UART_STATE_READY" using not_busy_ready [OF rx] not_busy_empty [OF tx(2)] by blast
    then show ?thesis using True dup by (simp add: write_enter_def uart_enable_tx_def
          HAL_HalfDuplex_EnableTransmitter_def tx_part_def duplex_inv_def Let_def)
  next
    case False
    then show ?thesis using dup by (auto simp: write_enter_def tx_part_def duplex_inv_def Let_def)
  qed
  then show ?thesis using tx_part_cong [of "write_enter s" s] tx(1) assms(2)
    by (simp add: serial_inv_def tx_inv_def tx_part_def availableForWrite_def unsent_def)
qed

lemma copy_step:
  assumes "serial_inv (W_loop ys av te, s)" and "length xs \<le> av" "length xs \<le> te"
    and "write_copy xs s = Some (n, s')" and "rx_inv s'"
  shows "serial_inv (W_copied xs n rest, s')"
proof -
  have tx: "tx_shape s" "\<not> tx_busy s \<longrightarrow> queued s = []" "av \<le> availableForWrite s" "te = SERIAL_TX_BUFFER_SIZE - tx_head s"
    "accepted s = line s @ unsent s" and dup: "duplex_inv (W_loop ys av te, s)"
    using assms(1) by (auto simp: serial_inv_def tx_inv_def)
  have "tx_head s < 64" using tx(1) by (simp add: tx_shape_def consts_simp)
  then have len: "length xs \<le> availableForWrite s" "tx_head s + length xs \<le> 64"
    using tx(3,4) assms(2,3) by (simp_all add: consts_simp)
  obtain b where b: "s' = s\<lparr>tx_buff := b\<rparr>" "n = length xs" "tx_shape s'" "queued s' = queued s"
    "mem_write b (tx_head s) xs = Some b" using write_copy_inv [OF tx(1) len assms(4)] by blast
  have busy: "tx_busy s' = tx_busy s" by (simp add: b(1) tx_busy_def)
  have un: "unsent s' = unsent s" unfolding unsent_def busy b(4) by (simp add: b(1))
  have room: "availableForWrite s' = availableForWrite s" by (simp add: b(1) availableForWrite_def)
  have "tx_inv (W_copied xs n rest, s')"
    using b(3,5) tx(2,5) len unfolding tx_inv_def prod.case pc_shape.simps un busy b(4) room
    by (simp add: b(1,2) consts_simp)
  moreover have "duplex_inv (W_copied xs n rest, s')" using dup by (auto simp: b(1) duplex_inv_def)
  ultimately show ?thesis using assms(5) by (simp add: serial_inv_def)
qed

lemma duplex_later:
  "duplex_inv (pc, s) \<Longrightarrow> pc \<noteq> W_idle \<Longrightarrow> written s' = written s \<Longrightarrow> no_rx_pin s' = no_rx_pin s \<Longrightarrow>
   rx_enabled s' = rx_enabled s \<Longrightarrow> TE s' = TE s \<Longrightarrow> RE s' = RE s \<Longrightarrow> duplex_inv (pc', s')"
  by (auto simp: duplex_inv_def)

lemma serial_step_inv:
  assumes "serial_step True x y" and "serial_inv x"
  shows "serial_inv y"
proof -
  have "rx_inv (snd y)" using rx_step [OF assms(1)] assms(2) by (simp add: serial_inv_def)
  with assms show ?thesis
  proof (induction rule: serial_step.induct)
    case (Irq f s s' pc)
    then show ?case using irq_step by blast
  next
    case (Read s s1 r s')
    then show ?case using read_step by simp
  next
    case (Write s xs)
    then show ?case using write_step by simp
  next
    case (Room s xs av te)
    then show ?case by (auto simp: serial_inv_def tx_inv_def duplex_inv_def)
  next
    case (Piece xs te av s n s')
    then show ?case using copy_step [of xs av te s "take (min av te) xs" n s'] by simp
  next
    case (Last xs te av s n s')
    then show ?case using copy_step [of xs av te s xs n s'] by simp
  next
    case (Move xs n rest s)
    then have "duplex_inv (W_moved n rest, write_head xs s)"
      using duplex_later [of "W_copied xs n rest" s] by (simp add: serial_inv_def write_head_def)
    then show ?case using Move write_head_inv by (simp add: serial_inv_def)
  next
    case (Busy s n rest)
    then have "tx_busy s" using armed_active(1) by (auto simp: serial_inv_def rx_inv_def tx_busy_def)
    then show ?case using Busy write_next_shape [of s rest] duplex_later [of "W_moved n rest" s s]
      by (simp add: serial_inv_def tx_inv_def)
  next
    case (Idle s n rest)
    then have "\<not> tx_busy s" using armed_active(1) by (auto simp: serial_inv_def rx_inv_def tx_busy_def)
    then show ?case using Idle duplex_later [of "W_moved n rest" s s] by (simp add: serial_inv_def tx_inv_def)
  next
    case (Start n rest s)
    then have "duplex_inv (write_next rest (write_start n s), write_start n s)"
      using write_start_cases [of n s] duplex_later [of "W_start n rest" s "write_start n s"] by (auto simp: serial_inv_def)
    then show ?case using Start write_start_inv by (simp add: serial_inv_def)
  qed
qed

section \<open>Starting\<close>

lemma serial_begin_inv:
  assumes "serial_fresh s" and "serial_begin s = Some s'"
  shows "serial_inv (W_idle, s')"
proof -
  let ?s1 = "if no_rx_pin s then s\<lparr>rx_enabled := True, TE := False, RE := True, gState := HAL_UART_STATE_READY\<rparr> else s"
  have "\<not> serial_rx_active ?s1" using assms(1)
    by (simp add: serial_fresh_def serial_rx_active_def HAL_UART_GetState_def uart_states)
  moreover have "enableHalfDuplexRx s = Some ?s1" using assms(1)
    by (simp add: enableHalfDuplexRx_def flushed_def serial_fresh_def uart_enable_rx_def HAL_HalfDuplex_EnableReceiver_def)
  ultimately have s': "s' = ?s1\<lparr>RxState := HAL_UART_STATE_BUSY_RX, EIE := True, PEIE := has_parity s, RXNEIE := True\<rparr>"
    using assms by (auto simp: serial_begin_def uart_attach_rx_callback_def HAL_UART_Receive_IT_def serial_fresh_def)
  then have idle: "\<not> tx_busy s'" and q: "queued s' = []"
    using assms(1) by (simp_all add: serial_fresh_def tx_busy_def queued_def uart_states)
  then have "tx_inv (W_idle, s')" using assms(1)
    by (simp add: tx_inv_def unsent_def tx_shape_def serial_fresh_def s' consts_simp)
  moreover have "rx_inv s'" using assms(1) by (simp add: rx_inv_def armed_def serial_fresh_def s' consts_simp)
  moreover have "duplex_inv (W_idle, s')" using assms(1) by (simp add: duplex_inv_def serial_fresh_def s')
  ultimately show ?thesis by (simp add: serial_inv_def)
qed

lemma serial_run_inv:
  assumes "(serial_step True)\<^sup>*\<^sup>* x y" and "serial_inv x"
  shows "serial_inv y"
  using assms by (induction rule: rtranclp_induct) (auto intro: serial_step_inv)

lemma serial_run_rx:
  assumes "(serial_step calm)\<^sup>*\<^sup>* x y" and "rx_inv (snd x)"
  shows "rx_inv (snd y)"
  using assms by (induction rule: rtranclp_induct) (auto intro: rx_step)

end
