(* ===== verification/Serial_Properties.thy ===== *)
theory Serial_Properties
  imports Serial_Invariant
begin

text \<open>
  Properties of a serial port: bytes go out in the order in which they were written and come in in the
  order in which they arrived, reception never stops, a flush ends and leaves nothing unsent, a half duplex
  line is never driven while it is listened to, and what goes wrong if the ends of two transmissions fall
  into the gap of \<^verbatim>\<open>HardwareSerial::write\<close>. Concrete runs are computed by \<open>serial_runs\<close>.
\<close>

section \<open>Computed runs\<close>

datatype serial_event = E_Irq uart_flags | E_Read | E_Write "u8 list" | E_Next

fun serial_next :: "serial_event \<Rightarrow> writer_pc \<times> hw_serial \<Rightarrow> (writer_pc \<times> hw_serial) option" where
  "serial_next (E_Irq f) (pc, s) = map_option (Pair pc) (serial_irq f s)"
| "serial_next E_Read (W_idle, s) =
     do { s1 \<leftarrow> enableHalfDuplexRx s; map_option (\<lambda>(r, s'). (W_idle, s')) (serial_read s1) }"
| "serial_next (E_Write xs) (W_idle, s) =
     Some (W_wait xs (availableForWrite s) (SERIAL_TX_BUFFER_SIZE - tx_head s), write_enter s)"
| "serial_next E_Next (W_wait xs av te, s) = (if availableForWrite s \<noteq> 0 then Some (W_loop xs av te, s) else None)"
| "serial_next E_Next (W_loop xs av te, s) =
     (if length xs > te \<or> length xs > av
      then (if availableForWrite s \<noteq> 0
        then map_option (\<lambda>(n, s'). (W_copied (take (min av te) xs) n (drop (min av te) xs), s')) (write_copy (take (min av te) xs) s)
        else None)
      else map_option (\<lambda>(n, s'). (W_copied xs n [], s')) (write_copy xs s))"
| "serial_next E_Next (W_copied xs n rest, s) = Some (W_moved n rest, write_head xs s)"
| "serial_next E_Next (W_moved n rest, s) = Some (if serial_tx_active s then write_next rest s else W_start n rest, s)"
| "serial_next E_Next (W_start n rest, s) = Some (write_next rest (write_start n s), write_start n s)"
| "serial_next _ _ = None"

text \<open>A calm run has no interrupt in the gap.\<close>

fun calm_event :: "serial_event \<Rightarrow> writer_pc \<Rightarrow> bool" where
  "calm_event (E_Irq f) (W_moved n rest) = False"
| "calm_event _ _ = True"

fun serial_runs :: "bool \<Rightarrow> serial_event list \<Rightarrow> writer_pc \<times> hw_serial \<Rightarrow> (writer_pc \<times> hw_serial) option" where
  "serial_runs calm [] x = Some x"
| "serial_runs calm (e # es) x =
     (if calm \<and> \<not> calm_event e (fst x) then None else do { y \<leftarrow> serial_next e x; serial_runs calm es y })"

lemma serial_next_step:
  assumes "serial_next e x = Some y" and "calm \<Longrightarrow> calm_event e (fst x)"
  shows "serial_step calm x y"
  using assms
  by (induction e x rule: serial_next.induct)
    (auto intro: serial_step.intros split: if_splits bind_splits)

lemma serial_runs_steps: "serial_runs calm es x = Some y \<Longrightarrow> (serial_step calm)\<^sup>*\<^sup>* x y"
proof (induction es arbitrary: x)
  case (Cons e es)
  then obtain z where "serial_next e x = Some z" "serial_runs calm es z = Some y" "calm \<Longrightarrow> calm_event e (fst x)"
    by (auto split: if_splits bind_splits)
  then show ?case using Cons.IH serial_next_step by (blast intro: converse_rtranclp_into_rtranclp)
qed simp

text \<open>An object before \<^verbatim>\<open>begin\<close>, with and without a receive pin, and the events of the runs.\<close>

definition serial_object :: "bool \<Rightarrow> hw_serial" where
  "serial_object half =
     \<lparr>gState = HAL_UART_STATE_READY, RxState = HAL_UART_STATE_READY, ErrorCode = HAL_UART_ERROR_NONE, pTxBuffPtr = 0, TxXferCount = 0,
      TXEIE = False, TCIE = False, RXNEIE = False, PEIE = False, EIE = False, TE = True, RE = \<not> half,
      has_parity = False, rx_mask = 255, no_rx_pin = half, recv = 0,
      rx_buff = replicate 64 0, tx_buff = replicate 64 0, rx_tail = 0, tx_head = 0, rx_head = 0, tx_tail = 0,
      tx_size = 0, line = [], written = False, rx_enabled = False, accepted = [], arrived = [], returned = []\<rparr>"

section \<open>Sending what is left\<close>

definition tx_flags :: uart_flags where
  "tx_flags = \<lparr>RXNE = None, PE = False, FE = False, NE = False, ORE = False, TXE = True, TC = True\<rparr>"

fun tx_irqs :: "nat \<Rightarrow> hw_serial \<Rightarrow> hw_serial option" where
  "tx_irqs 0 s = Some s"
| "tx_irqs (Suc k) s = do { s1 \<leftarrow> serial_irq tx_flags s; tx_irqs k s1 }"

definition tx_left :: "hw_serial \<Rightarrow> nat" where
  "tx_left s = (if tx_busy s then 3 * length (queued s) - (pTxBuffPtr s - tx_tail s) + (if TXEIE s then 2 else 1) else 0)"

lemma tx_irq_progress:
  assumes "tx_shape s" and "tx_busy s"
  shows "\<exists>s'. serial_irq tx_flags s = Some s' \<and> tx_left s' < tx_left s"
proof -
  note sh = assms(1) [unfolded tx_shape_def, simplified assms(2) if_True]
  have irq: "serial_irq tx_flags s = (if TXEIE s then UART_TxISR_8BIT s else Some (UART_EndTransmit_IT s))"
    using sh by (auto simp: serial_irq_def takes_byte_def tx_flags_def HAL_UART_IRQHandler_def option.map_ident split: if_splits)
  show ?thesis
  proof (cases "TXEIE s")
    case True
    have "TxXferCount s \<noteq> 0 \<Longrightarrow> pTxBuffPtr s < length (tx_buff s)" using sh by (simp add: consts_simp)
    then obtain s' where s': "UART_TxISR_8BIT s = Some s'"
      using assms(2) by (cases "TxXferCount s = 0") (simp_all add: UART_TxISR_8BIT_def tx_busy_def)
    note st = tx_isr_inv [OF assms(1) s' True]
    have "TxXferCount s = 0 \<and> pTxBuffPtr s' = pTxBuffPtr s \<and> \<not> TXEIE s' \<or>
        TxXferCount s > 0 \<and> pTxBuffPtr s' = pTxBuffPtr s + 1 \<and> TXEIE s'"
      using s' True assms(2) by (auto simp: UART_TxISR_8BIT_def tx_busy_def split: if_splits bind_splits)
    moreover have "pTxBuffPtr s - tx_tail s \<le> tx_size s" "tx_size s \<le> length (queued s)" "0 < tx_size s"
      "TxXferCount s > 0 \<Longrightarrow> pTxBuffPtr s - tx_tail s < tx_size s" "tx_tail s \<le> pTxBuffPtr s"
      using sh by auto
    ultimately have "tx_left s' < tx_left s" using st True by (auto simp: tx_left_def)
    then show ?thesis using irq True s' by simp
  next
    case False
    then have tc: "TCIE s" "pTxBuffPtr s - tx_tail s = tx_size s" using sh by auto
    let ?s = "UART_EndTransmit_IT s"
    have "tx_left ?s < tx_left s" using finish_inv [OF assms(1) tc(1)] tc(2) False assms(2) sh by (auto simp: tx_left_def)
    then show ?thesis using irq False by simp
  qed
qed


lemma tx_irq_idle:
  assumes "tx_shape s" and "\<not> tx_busy s"
  shows "serial_irq tx_flags s = Some s"
  using assms by (simp add: tx_shape_def serial_irq_def takes_byte_def tx_flags_def HAL_UART_IRQHandler_def)

lemma tx_irqs_empty:
  assumes "serial_inv (W_idle, s)" and "tx_left s \<le> k"
  shows "\<exists>s'. tx_irqs k s = Some s' \<and> serial_inv (W_idle, s') \<and> \<not> tx_busy s' \<and> accepted s' = accepted s"
  using assms
proof (induction k arbitrary: s)
  case 0
  then have "\<not> tx_busy s" by (auto simp: tx_left_def split: if_splits)
  then show ?case using 0 by simp
next
  case (Suc k)
  have tx: "tx_shape s" and rx: "rx_inv s" using Suc.prems by (simp_all add: serial_inv_def tx_inv_def)
  obtain s1 where s1: "serial_irq tx_flags s = Some s1" "tx_left s1 \<le> k"
  proof (cases "tx_busy s")
    case True
    then show thesis using that tx_irq_progress [OF tx] Suc.prems(2) by fastforce
  next
    case False
    then show thesis using that [of s] tx_irq_idle [OF tx] by (simp add: tx_left_def)
  qed
  have "serial_inv (W_idle, s1)" using irq_step [OF s1(1) Suc.prems(1)] by simp
  moreover have "accepted s1 = accepted s" using tx_irq [OF s1(1) tx rx] by blast
  ultimately show ?case using Suc.IH [of s1] s1 by simp
qed

lemma tx_left_bound:
  assumes "tx_shape s"
  shows "tx_left s \<le> 191"
proof -
  have "3 * length (queued s) - n \<le> 189" for n using queued_length(2) [OF assms] by simp
  then have "3 * length (queued s) - (pTxBuffPtr s - tx_tail s) \<le> 189" .
  then show ?thesis by (simp add: tx_left_def)
qed

section \<open>Properties\<close>

definition serial_begun :: "bool \<Rightarrow> hw_serial" where
  "serial_begun half = the (serial_begin (serial_object half))"

lemma serial_begun_ok:
  shows "serial_fresh (serial_object half)" and "serial_begin (serial_object half) = Some (serial_begun half)"
  by (simp_all add: serial_object_def serial_fresh_def consts_simp serial_begun_def serial_begin_def enableHalfDuplexRx_def flushed_def)

definition serial_run_ok :: "bool \<Rightarrow> serial_event list \<Rightarrow> bool \<Rightarrow> (writer_pc \<times> hw_serial \<Rightarrow> bool) \<Rightarrow> bool" where
  "serial_run_ok calm es half P = (case serial_runs calm es (W_idle, serial_begun half) of None \<Rightarrow> False | Some x \<Rightarrow> P x)"

lemma serial_run_okE:
  assumes "serial_run_ok calm es half P"
  obtains pc s where "(serial_step calm)\<^sup>*\<^sup>* (W_idle, serial_begun half) (pc, s)" "P (pc, s)"
    "serial_runs calm es (W_idle, serial_begun half) = Some (pc, s)"
  using assms serial_runs_steps [of calm es "(W_idle, serial_begun half)"]
  by (auto simp: serial_run_ok_def split: option.splits)

definition byte_event :: "u8 \<Rightarrow> serial_event" where
  "byte_event b = E_Irq \<lparr>RXNE = Some b, PE = False, FE = False, NE = False, ORE = False, TXE = False, TC = False\<rparr>"

definition write_events :: "u8 list \<Rightarrow> serial_event list" where
  "write_events xs = [E_Write xs, E_Next, E_Next, E_Next, E_Next, E_Next]"

definition sent_events :: "serial_event list" where
  "sent_events = write_events [1, 2] @ replicate 4 (E_Irq tx_flags)"

definition received_events :: "serial_event list" where
  "received_events = [byte_event 7, byte_event 8, E_Read]"

definition half_events :: "serial_event list" where
  "half_events = write_events [1] @ replicate 3 (E_Irq tx_flags) @ [E_Read, byte_event 7, E_Read]"

lemma sent_run: "serial_run_ok True sent_events False (\<lambda>(pc, s). flushed s \<and> line s = [1, 2])"
  by code_simp

lemma received_run: "serial_run_ok False received_events False (\<lambda>(pc, s). returned s = [7])"
  by code_simp

lemma half_run: "serial_run_ok True half_events True (\<lambda>(pc, s). no_rx_pin s \<and> RE s \<and> line s = [1] \<and> returned s = [7])"
  by code_simp

lemma idle_inv_flushed:
  assumes "tx_inv (pc, s)" and "tx_head s = tx_tail s"
  shows "unsent s = []" and "line s = accepted s"
proof -
  have tx: "tx_shape s" "accepted s = line s @ unsent s" using assms(1) by (simp_all add: tx_inv_def)
  show "unsent s = []" using not_busy_empty [OF tx(1) assms(2)] queued_length(3) [OF tx(1)] assms(2) by (simp add: unsent_def)
  then show "line s = accepted s" using tx(2) by simp
qed

text \<open>C8: Bytes leave a serial port in the order in which they were written: after \<^verbatim>\<open>begin\<close> and any
  sequence of writes, reads and interrupts in which no transmission ends inside the gap of
  \<^verbatim>\<open>HardwareSerial::write\<close>, the bytes accepted so far are those given to the data register followed by
  those still queued, none lost, doubled or changed; and once \<^verbatim>\<open>flush\<close> may return, all of them are on the line.\<close>

theorem serial_writes_in_order:
  assumes "serial_fresh s0" and "serial_begin s0 = Some s" and "(serial_step True)\<^sup>*\<^sup>* (W_idle, s) (pc, s')"
  shows "accepted s' = line s' @ unsent s' \<and> (flushed s' \<longrightarrow> line s' = accepted s')"
proof -
  have inv: "serial_inv (pc, s')" using serial_run_inv [OF assms(3) serial_begin_inv [OF assms(1,2)]] .
  then have tx: "tx_inv (pc, s')" and dup: "\<not> written s' \<Longrightarrow> tx_head s' = tx_tail s'"
    by (simp_all add: serial_inv_def duplex_inv_def)
  then have "tx_head s' = tx_tail s'" if "flushed s'" using that unfolding flushed_def by blast
  moreover have "accepted s' = line s' @ unsent s'" using tx by (simp add: tx_inv_def)
  ultimately show ?thesis using idle_inv_flushed(2) [OF tx] by blast
qed

theorem serial_writes_in_order_witness:
  "serial_run_ok True sent_events False (\<lambda>(pc, s). accepted s = line s @ unsent s \<and> flushed s \<and> line s = accepted s \<and> line s = [1, 2])"
proof -
  obtain pc s where run: "(serial_step True)\<^sup>*\<^sup>* (W_idle, serial_begun False) (pc, s)" and sent: "flushed s \<and> line s = [1, 2]"
      and end_state: "serial_runs True sent_events (W_idle, serial_begun False) = Some (pc, s)"
    using sent_run by (rule serial_run_okE) (rule that, simp_all)
  then have "accepted s = line s @ unsent s" "line s = accepted s"
    using serial_writes_in_order [OF serial_begun_ok run] by blast+
  then show ?thesis using sent unfolding serial_run_ok_def end_state option.case prod.case by blast
qed

text \<open>C9: Bytes come in in the order in which they arrived: in every run, the bytes returned by
  \<^verbatim>\<open>read\<close> followed by the unread part of the ring are exactly the bytes that arrived when fewer than 63 were
  unread, in their order, whatever the sketch and the transmitter did in between, and whatever errors the line had; and reception is
  armed in every state, so that a full buffer or an error never stops it.\<close>

theorem serial_receives_in_order:
  assumes "serial_fresh s0" and "serial_begin s0 = Some s" and "(serial_step calm)\<^sup>*\<^sup>* (W_idle, s) (pc, s')"
  shows "returned s' @ ring_content (rx_buff s') (rx_tail s') (rx_head s') = map fst (filter (\<lambda>(b, n). n < 63) (arrived s')) \<and>
    serial_rx_active s' \<and> RXNEIE s' \<and> EIE s'"
proof -
  have "rx_inv (snd (W_idle, s))" using serial_begin_inv [OF assms(1,2)] by (simp add: serial_inv_def)
  from serial_run_rx [OF assms(3) this] have rx: "rx_inv s'" by simp
  then show ?thesis using armed_active(2) [of s'] by (simp add: rx_inv_def armed_def)
qed

theorem serial_receives_in_order_witness:
  "serial_run_ok False received_events False (\<lambda>(pc, s). returned s = [7] \<and>
     returned s @ ring_content (rx_buff s) (rx_tail s) (rx_head s) = map fst (filter (\<lambda>(b, n). n < 63) (arrived s)) \<and> serial_rx_active s)"
proof -
  obtain pc s where run: "(serial_step False)\<^sup>*\<^sup>* (W_idle, serial_begun False) (pc, s)" and "returned s = [7]"
      "serial_runs False received_events (W_idle, serial_begun False) = Some (pc, s)"
    using received_run by (rule serial_run_okE) auto
  then show ?thesis using serial_receives_in_order [OF serial_begun_ok run] by (simp add: serial_run_ok_def)
qed

text \<open>C12: On a half duplex line the transmitter and the receiver are never enabled together, and the
  receiver is enabled only when nothing is queued or being sent.\<close>

theorem half_duplex_exclusive:
  assumes "serial_fresh s0" and "serial_begin s0 = Some s" and "(serial_step True)\<^sup>*\<^sup>* (W_idle, s) (pc, s')"
    and "no_rx_pin s'"
  shows "\<not> (TE s' \<and> RE s') \<and> (RE s' \<longrightarrow> unsent s' = [] \<and> \<not> serial_tx_active s')"
proof -
  have inv: "tx_inv (pc, s')" "rx_inv s'" "duplex_inv (pc, s')"
    using serial_run_inv [OF assms(3) serial_begin_inv [OF assms(1,2)]] by (simp_all add: serial_inv_def)
  have "tx_shape s'" using inv(1) by (simp add: tx_inv_def)
  have empty: "tx_head s' = tx_tail s'" if "RE s'" using inv(3) assms(4) that by (auto simp: duplex_inv_def)
  then have "\<not> serial_tx_active s'" if "RE s'"
    using that not_busy_empty [OF \<open>tx_shape s'\<close>] armed_active(1) [of s'] inv(2) by (simp add: rx_inv_def tx_busy_def)
  then show ?thesis using inv(3) assms(4) idle_inv_flushed(1) [OF inv(1)] empty by (simp add: duplex_inv_def)
qed

theorem half_duplex_exclusive_witness:
  "serial_run_ok True half_events True (\<lambda>(pc, s). no_rx_pin s \<and> RE s \<and> \<not> TE s \<and> unsent s = [] \<and> line s = [1] \<and> returned s = [7])"
proof -
  obtain pc s where run: "(serial_step True)\<^sup>*\<^sup>* (W_idle, serial_begun True) (pc, s)" and "no_rx_pin s" "RE s"
      "line s = [1] \<and> returned s = [7]" "serial_runs True half_events (W_idle, serial_begun True) = Some (pc, s)"
    using half_run by (rule serial_run_okE) auto
  then show ?thesis using half_duplex_exclusive [OF serial_begun_ok run] by (simp add: serial_run_ok_def)
qed

text \<open>C10: A flush ends: from every state in which the sketch can call \<^verbatim>\<open>flush\<close>, 191 interrupts of the
  transmitter (63 bytes, in up to 63 transmissions of two interrupts more) empty the buffer, so that its loop ends, and everything accepted is
  on the line.\<close>

theorem serial_flush_terminates:
  assumes "serial_fresh s0" and "serial_begin s0 = Some s" and "(serial_step True)\<^sup>*\<^sup>* (W_idle, s) (W_idle, s')"
  shows "\<exists>s''. tx_irqs 191 s' = Some s'' \<and> flushed s'' \<and> line s'' = accepted s'"
proof -
  have inv: "serial_inv (W_idle, s')" using serial_run_inv [OF assms(3) serial_begin_inv [OF assms(1,2)]] .
  then have "tx_left s' \<le> 191" using tx_left_bound by (simp add: serial_inv_def tx_inv_def)
  from tx_irqs_empty [OF inv this] obtain s'' where s'': "tx_irqs 191 s' = Some s''" "serial_inv (W_idle, s'')"
    "\<not> tx_busy s''" "accepted s'' = accepted s'" by blast
  have tx: "tx_inv (W_idle, s'')" "tx_shape s''" using s''(2) by (simp_all add: serial_inv_def tx_inv_def)
  then have "tx_head s'' = tx_tail s''" using s''(3) queued_length(3) [OF tx(2)] by (simp add: tx_inv_def)
  then show ?thesis using s''(1,4) idle_inv_flushed(2) [OF tx(1)] by (simp add: flushed_def)
qed

theorem serial_flush_terminates_witness:
  "\<exists>s s''. serial_runs True (write_events [1, 2]) (W_idle, serial_begun False) = Some (W_idle, s) \<and>
     tx_irqs 191 s = Some s'' \<and> flushed s'' \<and> line s'' = [1, 2]"
proof -
  have "serial_run_ok True (write_events [1, 2]) False (\<lambda>(pc, s). pc = W_idle \<and> accepted s = [1, 2])" by code_simp
  then obtain s where run: "(serial_step True)\<^sup>*\<^sup>* (W_idle, serial_begun False) (W_idle, s)" and "accepted s = [1, 2]"
      "serial_runs True (write_events [1, 2]) (W_idle, serial_begun False) = Some (W_idle, s)"
    by (rule serial_run_okE) auto
  then show ?thesis using serial_flush_terminates [OF serial_begun_ok run] by auto
qed

section \<open>Memory\<close>

lemma write_copy_some:
  assumes "tx_shape s" and "length xs \<le> te" "te = SERIAL_TX_BUFFER_SIZE - tx_head s"
  shows "write_copy xs s \<noteq> None"
proof -
  have "length (tx_buff s) = 64" "tx_head s < 64" using assms(1) by (simp_all add: tx_shape_def consts_simp)
  moreover from this have "tx_head s + length xs \<le> 64" using assms(2,3) by (simp add: consts_simp)
  ultimately show ?thesis by (simp add: write_copy_def memcpy_def mem_read_def mem_write_def consts_simp)
qed

lemma tx_isr_some:
  assumes "tx_shape s"
  shows "UART_TxISR_8BIT s \<noteq> None"
proof (cases "tx_busy s")
  case True
  then show ?thesis using assms
    by (cases "TxXferCount s = 0") (auto simp: UART_TxISR_8BIT_def tx_shape_def consts_simp mem_get_def)
next
  case False
  then show ?thesis by (simp add: UART_TxISR_8BIT_def tx_busy_def)
qed

lemma irq_some:
  assumes "tx_shape s" and "rx_inv s"
  shows "HAL_UART_IRQHandler f s \<noteq> None"
proof -
  have r: "armed s" "length (rx_buff s) = SERIAL_RX_BUFFER_SIZE" "rx_head s < SERIAL_RX_BUFFER_SIZE"
    using assms(2) by (simp_all add: rx_inv_def)
  have "s\<lparr>ErrorCode := HAL_UART_ERROR_NONE\<rparr> = s" using r(1) by (simp add: armed_def error_same)
  then have "UART_RxISR_8BIT b s \<noteq> None" for b using rx_isr_armed [OF r, of _ HAL_UART_ERROR_NONE] by simp
  then show ?thesis using tx_isr_some [OF assms(1)] handle_errors_armed [OF r, of f]
    by (simp add: HAL_UART_IRQHandler_def Let_def del: not_None_eq)
qed

text \<open>C11: The serial port keeps within its buffers: in every state of such a run the buffers have
  their size and the indices are inside them, every interrupt is handled without an access outside
  them, whatever flags it finds, and so are a read, a peek and the copying of the next piece of a write.\<close>

theorem serial_stays_in_buffers:
  assumes "serial_fresh s0" and "serial_begin s0 = Some s" and "(serial_step True)\<^sup>*\<^sup>* (W_idle, s) (pc, s')"
  shows "length (tx_buff s') = 64 \<and> length (rx_buff s') = 64 \<and> {tx_head s', tx_tail s', rx_head s', rx_tail s'} \<subseteq> {..<64} \<and>
    (\<forall>f. serial_irq f s' \<noteq> None) \<and> serial_read s' \<noteq> None \<and> serial_peek s' \<noteq> None \<and>
    (\<forall>xs av te. pc = W_loop xs av te \<longrightarrow>
       write_copy (if length xs > te \<or> length xs > av then take (min av te) xs else xs) s' \<noteq> None)"
proof -
  have inv: "tx_inv (pc, s')" "rx_inv s'" "tx_shape s'"
    using serial_run_inv [OF assms(3) serial_begin_inv [OF assms(1,2)]] by (simp_all add: serial_inv_def tx_inv_def)
  have "serial_irq f s' \<noteq> None" for f using irq_some [OF inv(3,2)] by (simp add: serial_irq_def)
  moreover have "serial_read s' \<noteq> None" "serial_peek s' \<noteq> None"
    using inv(2) by (auto simp: serial_read_def serial_peek_def rx_inv_def)
  moreover have "write_copy (if length xs > te \<or> length xs > av then take (min av te) xs else xs) s' \<noteq> None"
    if "pc = W_loop xs av te" for xs av te
    using that inv(1) by (intro write_copy_some [of _ _ te]) (auto simp: tx_inv_def)
  moreover have "length (tx_buff s') = 64 \<and> length (rx_buff s') = 64 \<and> {tx_head s', tx_tail s', rx_head s', rx_tail s'} \<subseteq> {..<64}"
    using inv(2,3) by (auto simp: tx_shape_def rx_inv_def consts_simp)
  ultimately show ?thesis by blast
qed

theorem serial_stays_in_buffers_witness:
  "\<exists>s'. (serial_step True)\<^sup>*\<^sup>* (W_idle, serial_begun False) (W_idle, s') \<and> accepted s' = [1, 2] \<and>
     serial_irq tx_flags s' \<noteq> None \<and> serial_read s' \<noteq> None"
proof -
  have "serial_run_ok True (write_events [1, 2]) False (\<lambda>(pc, s). pc = W_idle \<and> accepted s = [1, 2])" by code_simp
  then obtain s' where run: "(serial_step True)\<^sup>*\<^sup>* (W_idle, serial_begun False) (W_idle, s')" and "accepted s' = [1, 2]"
    by (rule serial_run_okE) auto
  then show ?thesis using serial_stays_in_buffers [OF serial_begun_ok run] by blast
qed

section \<open>The gap\<close>

text \<open>One byte is being sent when a second one is written. Both are sent before \<^verbatim>\<open>write\<close> looks whether
  the line is idle.\<close>

definition race_events :: "serial_event list" where
  "race_events = write_events [1] @ replicate 2 (E_Irq tx_flags) @ [E_Write [2], E_Next, E_Next, E_Next] @
     replicate 4 (E_Irq tx_flags) @ [E_Next, E_Next, E_Irq tx_flags]"

text \<open>C13: The end of a transmission inside the gap of \<^verbatim>\<open>HardwareSerial::write\<close>, between moving the
  head and looking whether the line is idle, is not handled: there is a run in which the two bytes 1 and 2
  are written and 1, 2, 0 go out, the third one never having been written.\<close>

theorem serial_write_race:
  "\<exists>pc s. (serial_step False)\<^sup>*\<^sup>* (W_idle, serial_begun False) (pc, s) \<and> accepted s = [1, 2] \<and> line s = [1, 2, 0]"
proof -
  have "serial_run_ok False race_events False (\<lambda>(pc, s). accepted s = [1, 2] \<and> line s = [1, 2, 0])" by code_simp
  then show ?thesis by (rule serial_run_okE) auto
qed

end
