(* ===== verification/Uart_Init.thy ===== *)
theory Uart_Init
  imports Uart Board Twi_Master
begin

text \<open>
  Setting up serial ports, \<^verbatim>\<open>libraries/SrcWrapper/src/stm32/uart.c\<close>: initialisation from the pins,
  release, the interrupt handlers with the table of handles they use, and the output of debug
  messages, which shares that table. From \<^verbatim>\<open>cores/arduino/HardwareSerial.cpp\<close> the frame format.
  Objects are known by their addresses; here an object has the fields that \<open>Uart\<close> leaves out.
  \<^verbatim>\<open>HAL_UART_Init\<close> and \<^verbatim>\<open>HAL_HalfDuplex_Init\<close> are one parameter, other calls of the HAL are
  recorded; there is no result where the code calls \<^verbatim>\<open>Error_Handler\<close>, reads outside an array or
  follows a null pointer.
\<close>

section \<open>State\<close>

definition UART_WORDLENGTH_7B :: u32 where "UART_WORDLENGTH_7B = 0x10000000"
definition UART_WORDLENGTH_8B :: u32 where "UART_WORDLENGTH_8B = 0"
definition UART_WORDLENGTH_9B :: u32 where "UART_WORDLENGTH_9B = 0x1000"
definition UART_PARITY_NONE :: u32 where "UART_PARITY_NONE = 0"
definition UART_PARITY_EVEN :: u32 where "UART_PARITY_EVEN = 0x400"
definition UART_PARITY_ODD :: u32 where "UART_PARITY_ODD = 0x600"
definition UART_STOPBITS_1 :: u32 where "UART_STOPBITS_1 = 0"
definition UART_STOPBITS_2 :: u32 where "UART_STOPBITS_2 = 0x2000"
definition UART_MODE_TX_RX :: u32 where "UART_MODE_TX_RX = 0xC"
definition UART_HWCONTROL_RTS :: u32 where "UART_HWCONTROL_RTS = 0x100"
definition UART_HWCONTROL_CTS :: u32 where "UART_HWCONTROL_CTS = 0x200"

record uart_handle =
  Uart_Instance :: peripheral
  BaudRate :: u32
  WordLength :: u32
  StopBits :: u32
  Parity :: u32
  Uart_Mode :: u32
  HwFlowCtl :: u32
  OverSampling :: u32
  OneBitSampling :: u32
  AdvFeatureInit :: u32
  Uart_gState :: u32
  Uart_RxState :: u32

record uart_obj =
  uart :: peripheral
  uart_handle :: uart_handle
  pin_tx :: PinName
  pin_rx :: PinName
  pin_rts :: PinName
  pin_cts :: PinName
  uart_irq :: "peripheral option"
  index :: nat

datatype lpuart_source = LPUART_D3PCLK1 | LPUART_PLL2 | LPUART_PLL3 | LPUART_HSI | LPUART_CSI | LPUART_LSE

datatype uart_call =
    Uart_force_reset peripheral
  | Uart_release_reset peripheral
  | Uart_clk_enable peripheral
  | Uart_clk_disable peripheral
  | Uart_set_priority "peripheral option" nat nat
  | Uart_stop_mode bool
  | Uart_enable_LSE
  | Uart_init_called bool uart_handle
  | Uart_deinit_called uart_handle
  | Uart_sent uart_handle "u8 list"

text \<open>The state of the driver extends that of the pins. \<open>uart_handlers\<close> has the addresses of handles.\<close>

record uart_driver = gpio +
  uart_objs :: "u32 \<Rightarrow> uart_obj"
  uart_handlers :: "nat \<Rightarrow> u32 option"
  lpuart_clock :: lpuart_source
  hsi_ready :: bool
  uart_calls :: "uart_call list"

text \<open>The numbers of the ports; the board has no others.\<close>

definition uart_index_t :: "peripheral list" where
  "uart_index_t = [USART1, USART2, USART3, UART4, UART5, USART6, UART7, UART8, LPUART1]"

definition UART_NUM :: nat where "UART_NUM = 9"

fun uart_index :: "peripheral \<Rightarrow> nat option" where
  "uart_index USART1 = Some 0"
| "uart_index USART2 = Some 1"
| "uart_index USART3 = Some 2"
| "uart_index UART4 = Some 3"
| "uart_index UART5 = Some 4"
| "uart_index USART6 = Some 5"
| "uart_index UART7 = Some 6"
| "uart_index UART8 = Some 7"
| "uart_index LPUART1 = Some 8"
| "uart_index _ = None"

definition uart_put :: "u32 \<Rightarrow> uart_obj \<Rightarrow> uart_driver \<Rightarrow> uart_driver" where
  "uart_put obj ob s = s\<lparr>uart_objs := (uart_objs s)(obj := ob)\<rparr>"

definition uart_log :: "uart_call list \<Rightarrow> uart_driver \<Rightarrow> uart_driver" where
  "uart_log cs s = s\<lparr>uart_calls := uart_calls s @ cs\<rparr>"

definition offset_uart :: u32 where "offset_uart = 0"
definition offset_uart_handle :: u32 where "offset_uart_handle = 4"

definition get_serial_obj :: "u32 \<Rightarrow> u32" where
  "get_serial_obj huart = (huart - offset_uart_handle) - offset_uart"

section \<open>Initialisation\<close>

definition claim_uart :: "u32 \<Rightarrow> uart_obj \<Rightarrow> uart_driver \<Rightarrow> uart_driver" where
  "claim_uart obj ob s =
     (case uart_index (uart ob) of
        Some i \<Rightarrow> uart_log [Uart_force_reset (uart ob), Uart_release_reset (uart ob), Uart_clk_enable (uart ob)]
          (uart_put obj (ob\<lparr>index := i, uart_irq := Some (uart ob)\<rparr>) s)
      | None \<Rightarrow> uart_put obj ob s)"

definition uart_fill :: "u32 \<Rightarrow> u32 \<Rightarrow> u32 \<Rightarrow> u32 \<Rightarrow> u32 \<Rightarrow> uart_obj \<Rightarrow> uart_handle" where
  "uart_fill baudrate databits parity stopbits flow_control ob =
     (uart_handle ob)\<lparr>Uart_Instance := uart ob, BaudRate := baudrate, WordLength := databits, StopBits := stopbits,
        Parity := parity, Uart_Mode := UART_MODE_TX_RX, HwFlowCtl := flow_control, OverSampling := 0,
        AdvFeatureInit := 0, OneBitSampling := 0\<rparr>"

type_synonym uart_hal = "bool \<Rightarrow> lpuart_source \<Rightarrow> uart_handle \<Rightarrow> hal_status \<times> uart_handle"

text \<open>One call of the initialisation of the HAL, for half duplex or not, and whether it succeeded.\<close>

definition try_init :: "uart_hal \<Rightarrow> bool \<Rightarrow> u32 \<Rightarrow> uart_driver \<Rightarrow> bool \<times> uart_driver" where
  "try_init hal_init half obj s =
     (let ob = uart_objs s obj in
      case hal_init half (lpuart_clock s) (uart_handle ob) of (status, h') \<Rightarrow>
        (status = HAL_OK, uart_log [Uart_init_called half (uart_handle ob)] (uart_put obj (ob\<lparr>uart_handle := h'\<rparr>) s)))"

text \<open>The low power port tries its clock sources one after the other.\<close>

definition start_lpuart :: "uart_hal \<Rightarrow> bool \<Rightarrow> u32 \<Rightarrow> u32 \<Rightarrow> uart_driver \<Rightarrow> uart_driver" where
  "start_lpuart hal_init half obj baudrate s =
     (case try_init hal_init half obj (uart_log [Uart_stop_mode (baudrate \<le> 9600)] s) of (ok, s1) \<Rightarrow>
      if ok then s1
      else
        (case (if baudrate \<le> 9600
               then try_init hal_init half obj (uart_log [Uart_enable_LSE] (s1\<lparr>lpuart_clock := LPUART_LSE\<rparr>))
               else (False, s1)) of (ok, s2) \<Rightarrow>
         if ok then s2
         else
           (case (if hsi_ready s2 then try_init hal_init half obj (s2\<lparr>lpuart_clock := LPUART_HSI\<rparr>)
                  else (False, s2)) of (ok, s3) \<Rightarrow>
            if ok then s3
            else
              (case try_init hal_init half obj (s3\<lparr>lpuart_clock := LPUART_CSI\<rparr>) of (ok, s4) \<Rightarrow>
               if ok then s4 else snd (try_init hal_init half obj s4)))))"

definition start_uart :: "uart_hal \<Rightarrow> bool \<Rightarrow> u32 \<Rightarrow> u32 \<Rightarrow> uart_driver \<Rightarrow> uart_driver" where
  "start_uart hal_init half obj baudrate s =
     (if uart (uart_objs s obj) = LPUART1 then start_lpuart hal_init half obj baudrate s
      else snd (try_init hal_init half obj s))"

text \<open>What follows the checks: clocks, pins, handle and the call of the HAL.\<close>

definition uart_setup :: "uart_hal \<Rightarrow> peripheral \<Rightarrow> peripheral \<Rightarrow> peripheral \<Rightarrow> u32 \<Rightarrow> uart_obj \<Rightarrow> u32 \<Rightarrow> u32 \<Rightarrow> u32 \<Rightarrow> u32 \<Rightarrow>
    uart_driver \<Rightarrow> uart_driver option" where
  "uart_setup hal_init uart_rx uart_rts uart_cts obj ob baudrate databits parity stopbits s =
     do { s2 \<leftarrow> pinmap_pinout (pin_tx ob) PinMap_UART_TX (claim_uart obj ob s);
          s3 \<leftarrow> (if uart_rx \<noteq> NP then pinmap_pinout (pin_rx ob) PinMap_UART_RX s2 else Some s2);
          s4 \<leftarrow> (if uart_rts \<noteq> NP then pinmap_pinout (pin_rts ob) PinMap_UART_RTS s3 else Some s3);
          s5 \<leftarrow> (if uart_cts \<noteq> NP then pinmap_pinout (pin_cts ob) PinMap_UART_CTS s4 else Some s4);
          let ob5 = uart_objs s5 obj;
              flow = (if uart_rts \<noteq> NP then UART_HWCONTROL_RTS else 0) OR (if uart_cts \<noteq> NP then UART_HWCONTROL_CTS else 0);
              s6 = uart_put obj (ob5\<lparr>uart_handle := uart_fill baudrate databits parity stopbits flow ob5\<rparr>)
                (s5\<lparr>uart_handlers := (uart_handlers s5)(index ob5 \<mapsto> obj + offset_uart_handle)\<rparr>);
              s7 = uart_log [Uart_set_priority (uart_irq ob5) 1 0] s6
          in Some (start_uart hal_init (uart_rx = NP) obj baudrate s7) }"

definition uart_init :: "uart_hal \<Rightarrow> u32 \<Rightarrow> u32 \<Rightarrow> u32 \<Rightarrow> u32 \<Rightarrow> u32 \<Rightarrow> uart_driver \<Rightarrow> uart_driver option" where
  "uart_init hal_init obj baudrate databits parity stopbits s =
     (if obj = 0 then Some s
      else
        (let ob = uart_objs s obj in
         do { uart_tx \<leftarrow> pinmap_peripheral (pin_tx ob) PinMap_UART_TX;
              uart_rx \<leftarrow> pinmap_peripheral (pin_rx ob) PinMap_UART_RX;
              uart_rts \<leftarrow> pinmap_peripheral (pin_rts ob) PinMap_UART_RTS;
              uart_cts \<leftarrow> pinmap_peripheral (pin_cts ob) PinMap_UART_CTS;
              if uart_tx = NP then Some s
              else if pin_rx ob \<noteq> NC \<and> uart_rx = NP then Some s
              else if pin_rts ob \<noteq> NC \<and> uart_rts = NP then Some s
              else if pin_cts ob \<noteq> NC \<and> uart_cts = NP then Some s
              else
                (let ob1 = ob\<lparr>uart := pinmap_merge_peripheral (pinmap_merge_peripheral
                       (pinmap_merge_peripheral uart_tx uart_rx) uart_rts) uart_cts\<rparr>
                 in if uart ob1 = NP then Some (uart_put obj ob1 s)
                    else uart_setup hal_init uart_rx uart_rts uart_cts obj ob1 baudrate databits parity stopbits s) }))"

section \<open>Release\<close>

definition HAL_UART_DeInit :: "uart_handle \<Rightarrow> uart_handle" where
  "HAL_UART_DeInit h = h\<lparr>Uart_gState := HAL_UART_STATE_RESET, Uart_RxState := HAL_UART_STATE_RESET\<rparr>"

text \<open>\<open>dbg\<close> is the address of \<^verbatim>\<open>serial_debug\<close>. With a null pointer \<^verbatim>\<open>HAL_UART_DeInit\<close> does nothing.\<close>

definition uart_deinit :: "u32 \<Rightarrow> u32 \<Rightarrow> uart_driver \<Rightarrow> uart_driver option" where
  "uart_deinit dbg obj s =
     (let i = index (uart_objs s obj) in
      if i \<ge> UART_NUM then None
      else
        (let p = uart_index_t ! i;
             s1 = uart_log [Uart_force_reset p, Uart_release_reset p, Uart_clk_disable p] s;
             s2 = (case uart_handlers s1 i of
                     None \<Rightarrow> s1
                   | Some huart \<Rightarrow>
                       (let ob = uart_objs s1 (get_serial_obj huart)
                        in uart_log [Uart_deinit_called (uart_handle ob)]
                             (uart_put (get_serial_obj huart) (ob\<lparr>uart_handle := HAL_UART_DeInit (uart_handle ob)\<rparr>) s1)))
         in Some (if index (uart_objs s2 dbg) = index (uart_objs s2 obj)
                  then uart_put dbg ((uart_objs s2 dbg)\<lparr>index := UART_NUM\<rparr>) s2 else s2)))"

section \<open>Debug output\<close>

definition DEBUG_PINNAME_TX :: PinName where "DEBUG_PINNAME_TX = digitalPinToPinName PIN_SERIAL_TX"

definition DEBUG_UART :: "peripheral option" where
  "DEBUG_UART = pinmap_peripheral DEBUG_PINNAME_TX PinMap_UART_TX"

definition uart_debug_init :: "uart_hal \<Rightarrow> u32 \<Rightarrow> uart_driver \<Rightarrow> uart_driver option" where
  "uart_debug_init hal_init dbg s =
     do { port \<leftarrow> DEBUG_UART;
          if port \<noteq> NP then
            uart_init hal_init dbg 9600 UART_WORDLENGTH_8B UART_PARITY_NONE UART_STOPBITS_1
              (uart_put dbg ((uart_objs s dbg)\<lparr>pin_tx := DEBUG_PINNAME_TX\<rparr>) s)
          else Some s }"

definition has_port :: "peripheral \<Rightarrow> uart_driver \<Rightarrow> nat \<Rightarrow> bool" where
  "has_port port s i =
     (case uart_handlers s i of None \<Rightarrow> False
      | Some huart \<Rightarrow> Uart_Instance (uart_handle (uart_objs s (get_serial_obj huart))) = port)"

definition find_debug :: "peripheral \<Rightarrow> uart_driver \<Rightarrow> nat" where
  "find_debug port s = (case find (has_port port s) [0..<UART_NUM] of Some i \<Rightarrow> i | None \<Rightarrow> UART_NUM)"

definition TX_TIMEOUT :: u32 where "TX_TIMEOUT = 1000"

text \<open>Between two looks at the state of the port the interrupts of \<open>poll\<close> happen.\<close>

definition debug_tx_active :: "u32 \<Rightarrow> uart_driver \<Rightarrow> bool" where
  "debug_tx_active obj s =
     (case uart_handlers s (index (uart_objs s obj)) of None \<Rightarrow> False
      | Some huart \<Rightarrow>
          (let h = uart_handle (uart_objs s (get_serial_obj huart))
           in (Uart_gState h OR Uart_RxState h) AND HAL_UART_STATE_BUSY_TX = HAL_UART_STATE_BUSY_TX))"

partial_function (option) debug_wait ::
    "(uart_driver \<Rightarrow> uart_driver) \<Rightarrow> (uart_driver \<Rightarrow> u32) \<Rightarrow> u32 \<Rightarrow> u32 \<Rightarrow> uart_driver \<Rightarrow> (bool \<times> uart_driver) option" where
  "debug_wait poll HAL_GetTick tickstart obj s =
     (if debug_tx_active obj s then
        (if HAL_GetTick s - tickstart \<ge> TX_TIMEOUT then Some (False, s)
         else debug_wait poll HAL_GetTick tickstart obj (poll s))
      else Some (True, s))"

text \<open>The size is 16 bit wide. \<open>hal_send\<close> tells whether the flags come in time.\<close>

definition HAL_UART_Transmit :: "(uart_handle \<Rightarrow> u8 list \<Rightarrow> bool) \<Rightarrow> u32 \<Rightarrow> u8 list \<Rightarrow> uart_driver \<Rightarrow> hal_status \<times> uart_driver" where
  "HAL_UART_Transmit hal_send obj data s =
     (let h = uart_handle (uart_objs s obj); out = take (to_u16 (int (length data))) data in
      if Uart_gState h = HAL_UART_STATE_READY then
        (if out = [] then (HAL_ERROR, s)
         else if hal_send h out then (HAL_OK, uart_log [Uart_sent h out] s)
         else (HAL_TIMEOUT, s))
      else (HAL_BUSY, s))"

definition choose_debug :: "uart_hal \<Rightarrow> u32 \<Rightarrow> uart_driver \<Rightarrow> uart_driver option" where
  "choose_debug hal_init dbg s =
     (if index (uart_objs s dbg) \<ge> UART_NUM then
        do { port \<leftarrow> DEBUG_UART;
             if port = NP then Some s
             else
               (let i = find_debug port s; s1 = uart_put dbg ((uart_objs s dbg)\<lparr>index := i\<rparr>) s
                in if i \<ge> UART_NUM then uart_debug_init hal_init dbg s1 else Some s1) }
      else Some s)"

definition uart_debug_write :: "uart_hal \<Rightarrow> (uart_handle \<Rightarrow> u8 list \<Rightarrow> bool) \<Rightarrow> (uart_driver \<Rightarrow> uart_driver) \<Rightarrow>
    (uart_driver \<Rightarrow> u32) \<Rightarrow> u32 \<Rightarrow> u8 list \<Rightarrow> uart_driver \<Rightarrow> (nat \<times> uart_driver) option" where
  "uart_debug_write hal_init hal_send poll HAL_GetTick dbg data s =
     do { s1 \<leftarrow> choose_debug hal_init dbg s;
          if index (uart_objs s1 dbg) \<ge> UART_NUM then Some (0, s1)
          else
            do { huart \<leftarrow> uart_handlers s1 (index (uart_objs s1 dbg));
                 let obj = get_serial_obj huart;
                 if obj = 0 then Some (0, s1)
                 else
                   do { (ready, s2) \<leftarrow> debug_wait poll HAL_GetTick (HAL_GetTick s) obj s1;
                        if \<not> ready then Some (0, s2)
                        else (case HAL_UART_Transmit hal_send obj data s2 of (status, s3) \<Rightarrow>
                                Some (if status \<noteq> HAL_OK then 0 else length data, s3)) } } }"

section \<open>Interrupts\<close>

text \<open>The handle given to \<^verbatim>\<open>HAL_UART_IRQHandler\<close>. Only two handlers look whether there is one.\<close>

definition USART_IRQHandler :: "peripheral \<Rightarrow> uart_driver \<Rightarrow> u32 option option" where
  "USART_IRQHandler p s =
     do { i \<leftarrow> uart_index p;
          if p = USART2 \<or> p = USART3 then Some (uart_handlers s i)
          else map_option Some (uart_handlers s i) }"

section \<open>Frame format\<close>

text \<open>The word length, parity and stop bits that \<^verbatim>\<open>HardwareSerial::begin\<close> makes of a configuration byte.\<close>

definition serial_config :: "u8 \<Rightarrow> (u32 \<times> u32 \<times> u32) option" where
  "serial_config config =
     (let databits = (if config AND 7 = 2 then 6 else if config AND 7 = 4 then 7 else if config AND 7 = 6 then 8 else (0 :: nat));
          (parity, databits) = (if config AND 0x30 = 0x30 then (UART_PARITY_ODD, databits + 1)
            else if config AND 0x20 = 0x20 then (UART_PARITY_EVEN, databits + 1) else (UART_PARITY_NONE, databits));
          stopbits = (if config AND 8 = 8 then UART_STOPBITS_2 else UART_STOPBITS_1)
      in if databits = 7 then Some (UART_WORDLENGTH_7B, parity, stopbits)
         else if databits = 8 then Some (UART_WORDLENGTH_8B, parity, stopbits)
         else if databits = 9 then Some (UART_WORDLENGTH_9B, parity, stopbits)
         else None)"

text \<open>\<^verbatim>\<open>HardwareSerial::begin\<close> up to the start of reception.\<close>

definition serial_open :: "uart_hal \<Rightarrow> u32 \<Rightarrow> u32 \<Rightarrow> u8 \<Rightarrow> uart_driver \<Rightarrow> uart_driver option" where
  "serial_open hal_init obj baud config s =
     do { (databits, parity, stopbits) \<leftarrow> serial_config config;
          uart_init hal_init obj baud databits parity stopbits s }"

end
