(* ===== verification/Uart_Init_Properties.thy ===== *)
theory Uart_Init_Properties
  imports Uart_Init
begin

text \<open>
  Properties of the setup of serial ports: what initialisation does to pins, handle and table,
  that debug output has a handle, and what happens to it after \<^verbatim>\<open>Serial.end\<close>.
\<close>

section \<open>Pins\<close>

lemma uart_af_tables:
  "list_all af_row (butlast PinMap_UART_TX)" "list_all af_row (butlast PinMap_UART_RX)"
  "list_all af_row (butlast PinMap_UART_RTS)" "list_all af_row (butlast PinMap_UART_CTS)"
  by (simp_all add: af_defs PinMap_UART_TX_def PinMap_UART_RX_def PinMap_UART_RTS_def PinMap_UART_CTS_def)

lemma apart_uart_tx: "apart PinMap_UART_TX PinMap_UART_RX" "apart PinMap_UART_TX PinMap_UART_RTS"
  "apart PinMap_UART_TX PinMap_UART_CTS"
  by (simp_all add: apart_def phys_def STM_PORT_def STM_PIN_def port_defs consts_simp
      PinMap_UART_TX_def PinMap_UART_RX_def PinMap_UART_RTS_def PinMap_UART_CTS_def)

lemma apart_uart_others: "apart PinMap_UART_RX PinMap_UART_RTS" "apart PinMap_UART_RX PinMap_UART_CTS"
  "apart PinMap_UART_RTS PinMap_UART_CTS"
  by (simp_all add: apart_def phys_def STM_PORT_def STM_PIN_def port_defs consts_simp
      PinMap_UART_RX_def PinMap_UART_RTS_def PinMap_UART_CTS_def)

lemmas uart_tables_ok = PinMap_UART_TX_ok [THEN conjunct1] PinMap_UART_RX_ok [THEN conjunct1]
  PinMap_UART_RTS_ok [THEN conjunct1] PinMap_UART_CTS_ok [THEN conjunct1]

definition pin_row :: "PinName \<Rightarrow> peripheral \<Rightarrow> u32 \<Rightarrow> PinMap list \<Rightarrow> bool" where
  "pin_row p i f t \<longleftrightarrow> p = NC \<or> (p, i, f) \<in> set (butlast t)"

lemma pin_row_peripheral:
  "table_ok t \<Longrightarrow> pin_row p i f t \<Longrightarrow> pinmap_peripheral p t = Some (if p = NC then NP else i)"
  using row_peripheral [of t p i f] by (auto simp: pin_row_def pinmap_peripheral_def)

lemma nc_pinout: "pinmap_pinout NC t s = Some s"
  by (simp add: pinmap_pinout_def)

text \<open>The pins that belong to a port; the transmit pin is needed, the others may be absent.\<close>

definition port_pins :: "uart_obj \<Rightarrow> peripheral \<Rightarrow> u32 \<Rightarrow> u32 \<Rightarrow> u32 \<Rightarrow> u32 \<Rightarrow> bool" where
  "port_pins ob i f1 f2 f3 f4 \<longleftrightarrow> (pin_tx ob, i, f1) \<in> set (butlast PinMap_UART_TX) \<and>
     pin_row (pin_rx ob) i f2 PinMap_UART_RX \<and> pin_row (pin_rts ob) i f3 PinMap_UART_RTS \<and>
     pin_row (pin_cts ob) i f4 PinMap_UART_CTS"

definition port_list :: "uart_obj \<Rightarrow> u32 \<Rightarrow> u32 \<Rightarrow> u32 \<Rightarrow> u32 \<Rightarrow> (PinName \<times> PinMap list \<times> u32) list" where
  "port_list ob f1 f2 f3 f4 = [(pin_tx ob, PinMap_UART_TX, f1), (pin_rx ob, PinMap_UART_RX, f2),
     (pin_rts ob, PinMap_UART_RTS, f3), (pin_cts ob, PinMap_UART_CTS, f4)]"

lemma tx_not_NC: "(p, i, f) \<in> set (butlast PinMap_UART_TX) \<Longrightarrow> p \<noteq> NC \<and> i \<noteq> NP \<and> uart_index i \<noteq> None"
  by (auto simp: PinMap_UART_TX_def NC_def port_defs consts_simp)

lemma port_list_ok:
  assumes "port_pins ob i f1 f2 f3 f4"
  shows "list_all routable (port_list ob f1 f2 f3 f4)"
    and "sorted_wrt (\<lambda>x y. fst x = NC \<or> fst y = NC \<or> phys (fst x) \<noteq> phys (fst y)) (port_list ob f1 f2 f3 f4)"
proof -
  have rows: "(pin_tx ob, i, f1) \<in> set (butlast PinMap_UART_TX)" "pin_row (pin_rx ob) i f2 PinMap_UART_RX"
    "pin_row (pin_rts ob) i f3 PinMap_UART_RTS" "pin_row (pin_cts ob) i f4 PinMap_UART_CTS"
    using assms by (simp_all add: port_pins_def)
  then show "list_all routable (port_list ob f1 f2 f3 f4)"
    by (auto simp: port_list_def routable_def uart_tables_ok uart_af_tables pin_row_def)
  have "pin_rx ob = NC \<or> phys (pin_tx ob) \<noteq> phys (pin_rx ob)" "pin_rts ob = NC \<or> phys (pin_tx ob) \<noteq> phys (pin_rts ob)"
    "pin_cts ob = NC \<or> phys (pin_tx ob) \<noteq> phys (pin_cts ob)"
    using rows apart_rows [OF apart_uart_tx(1) rows(1)] apart_rows [OF apart_uart_tx(2) rows(1)]
      apart_rows [OF apart_uart_tx(3) rows(1)] unfolding pin_row_def by blast+
  moreover have "pin_rx ob = NC \<or> pin_rts ob = NC \<or> phys (pin_rx ob) \<noteq> phys (pin_rts ob)"
    "pin_rx ob = NC \<or> pin_cts ob = NC \<or> phys (pin_rx ob) \<noteq> phys (pin_cts ob)"
    "pin_rts ob = NC \<or> pin_cts ob = NC \<or> phys (pin_rts ob) \<noteq> phys (pin_cts ob)"
    using rows(2-4) apart_rows [OF apart_uart_others(1)] apart_rows [OF apart_uart_others(2)]
      apart_rows [OF apart_uart_others(3)] unfolding pin_row_def by blast+
  ultimately show "sorted_wrt (\<lambda>x y. fst x = NC \<or> fst y = NC \<or> phys (fst x) \<noteq> phys (fst y)) (port_list ob f1 f2 f3 f4)"
    by (auto simp: port_list_def)
qed

text \<open>The part of the state that is not of the pins.\<close>

definition uart_part :: "uart_driver \<Rightarrow> (u32 \<Rightarrow> uart_obj) \<times> (nat \<Rightarrow> u32 option) \<times> lpuart_source \<times> bool \<times> uart_call list" where
  "uart_part s = (uart_objs s, uart_handlers s, lpuart_clock s, hsi_ready s, uart_calls s)"

lemma uart_part_more: "gpio.more s' = gpio.more s \<Longrightarrow> uart_part s' = uart_part s"
  by (cases s; cases s') (simp add: uart_part_def)

lemma pin_regs_uart [simp]:
  "pin_regs (s\<lparr>uart_objs := a\<rparr>) = pin_regs s" "pin_regs (s\<lparr>uart_handlers := b\<rparr>) = pin_regs s"
  "pin_regs (s\<lparr>uart_calls := e\<rparr>) = pin_regs s" "pin_regs (s\<lparr>lpuart_clock := c\<rparr>) = pin_regs s"
  by (simp_all add: fun_eq_iff pin_regs_def alternate_def)

lemma pin_regs_uart_ops [simp]:
  "pin_regs (uart_put obj ob s) = pin_regs s" "pin_regs (uart_log cs s) = pin_regs s"
  "pin_regs (claim_uart obj ob s) = pin_regs s"
  by (simp_all add: uart_put_def uart_log_def claim_uart_def split: option.split)

section \<open>Initialisation\<close>

lemma uart_index_inverse: "uart_index i = Some n \<Longrightarrow> n < UART_NUM \<and> uart_index_t ! n = i"
  by (cases i) (auto simp: UART_NUM_def uart_index_t_def)

lemma claim_uart_ok:
  assumes "uart_index (uart ob) = Some n"
  shows "uart_part (claim_uart obj ob s) = ((uart_objs s)(obj := ob\<lparr>index := n, uart_irq := Some (uart ob)\<rparr>), uart_handlers s,
    lpuart_clock s, hsi_ready s,
    uart_calls s @ [Uart_force_reset (uart ob), Uart_release_reset (uart ob), Uart_clk_enable (uart ob)])"
  using assms by (simp add: claim_uart_def uart_part_def uart_log_def uart_put_def)

lemma start_uart_ok:
  fixes s :: uart_driver and obj :: u32
  assumes "\<forall>half src h. fst (hal_init half src h) = HAL_OK"
  defines "ob \<equiv> uart_objs s obj"
  shows "uart_part (start_uart hal_init half obj baudrate s) =
      ((uart_objs s)(obj := ob\<lparr>uart_handle := snd (hal_init half (lpuart_clock s) (uart_handle ob))\<rparr>), uart_handlers s,
       lpuart_clock s, hsi_ready s,
       uart_calls s @ (if uart ob = LPUART1 then [Uart_stop_mode (baudrate \<le> 9600)] else []) @ [Uart_init_called half (uart_handle ob)])"
    and "pin_regs (start_uart hal_init half obj baudrate s) = pin_regs s"
proof -
  have t: "try_init hal_init half obj s1 = (True, uart_log [Uart_init_called half (uart_handle (uart_objs s1 obj))]
      (uart_put obj ((uart_objs s1 obj)\<lparr>uart_handle := snd (hal_init half (lpuart_clock s1) (uart_handle (uart_objs s1 obj)))\<rparr>) s1))" for s1
    using assms(1) by (simp add: try_init_def split_beta Let_def)
  show "uart_part (start_uart hal_init half obj baudrate s) =
      ((uart_objs s)(obj := ob\<lparr>uart_handle := snd (hal_init half (lpuart_clock s) (uart_handle ob))\<rparr>), uart_handlers s,
       lpuart_clock s, hsi_ready s,
       uart_calls s @ (if uart ob = LPUART1 then [Uart_stop_mode (baudrate \<le> 9600)] else []) @ [Uart_init_called half (uart_handle ob)])"
    by (simp add: start_uart_def start_lpuart_def t ob_def uart_part_def uart_log_def uart_put_def)
  show "pin_regs (start_uart hal_init half obj baudrate s) = pin_regs s"
    by (simp add: start_uart_def start_lpuart_def t)
qed

definition flow_control :: "uart_obj \<Rightarrow> u32" where
  "flow_control ob = (if pin_rts ob \<noteq> NC then UART_HWCONTROL_RTS else 0) OR (if pin_cts ob \<noteq> NC then UART_HWCONTROL_CTS else 0)"

lemma uart_init_run:
  fixes s :: uart_driver and obj baud w par st :: u32
  assumes "obj \<noteq> 0" and pins: "port_pins (uart_objs s obj) i f1 f2 f3 f4" and n: "uart_index i = Some n"
    and hal: "\<forall>half src h. fst (hal_init half src h) = HAL_OK"
  defines "ob \<equiv> uart_objs s obj"
  defines "h \<equiv> uart_fill baud w par st (flow_control ob) (ob\<lparr>uart := i, index := n, uart_irq := Some i\<rparr>)"
  shows "\<exists>s'. uart_init hal_init obj baud w par st s = Some s' \<and>
    uart_objs s' = (uart_objs s)(obj := ob\<lparr>uart := i, index := n, uart_irq := Some i,
        uart_handle := snd (hal_init (pin_rx ob = NC) (lpuart_clock s) h)\<rparr>) \<and>
    uart_handlers s' = (uart_handlers s)(n \<mapsto> obj + offset_uart_handle) \<and>
    uart_calls s' = uart_calls s @ [Uart_force_reset i, Uart_release_reset i, Uart_clk_enable i, Uart_set_priority (Some i) 1 0] @
      (if i = LPUART1 then [Uart_stop_mode (baud \<le> 9600)] else []) @ [Uart_init_called (pin_rx ob = NC) h] \<and>
    (\<forall>(p, t, f) \<in> set (port_list ob f1 f2 f3 f4). p \<noteq> NC \<longrightarrow> pin_regs s' (STM_PORT p) (STM_PIN p) = af_regs f) \<and>
    (\<forall>port k. (port, k) \<notin> routed_phys (port_list ob f1 f2 f3 f4) \<longrightarrow> k \<le> 15 \<longrightarrow> pin_regs s' port k = pin_regs s port k)"
proof -
  have rows: "(pin_tx ob, i, f1) \<in> set (butlast PinMap_UART_TX)" "pin_row (pin_rx ob) i f2 PinMap_UART_RX"
    "pin_row (pin_rts ob) i f3 PinMap_UART_RTS" "pin_row (pin_cts ob) i f4 PinMap_UART_CTS"
    using pins by (simp_all add: port_pins_def ob_def)
  have i: "i \<noteq> NP" "pin_tx ob \<noteq> NC" using tx_not_NC [OF rows(1)] by simp_all
  define ob1 where "ob1 = ob\<lparr>uart := i\<rparr>"
  define s1 where "s1 = claim_uart obj ob1 s"
  have claim: "uart_part s1 = ((uart_objs s)(obj := ob1\<lparr>index := n, uart_irq := Some i\<rparr>), uart_handlers s,
      lpuart_clock s, hsi_ready s, uart_calls s @ [Uart_force_reset i, Uart_release_reset i, Uart_clk_enable i])"
    "pin_regs s1 = pin_regs s"
    using claim_uart_ok [of ob1 n obj s] n by (simp_all add: s1_def ob1_def)
  obtain s5 where s5: "route_pins (map (\<lambda>(p, t, f). (p, t)) (port_list ob f1 f2 f3 f4)) s1 = Some s5"
      "gpio.more s5 = gpio.more s1"
    and regs: "\<forall>(p, t, f) \<in> set (port_list ob f1 f2 f3 f4). p \<noteq> NC \<longrightarrow> pin_regs s5 (STM_PORT p) (STM_PIN p) = af_regs f"
      "\<forall>port k. (port, k) \<notin> routed_phys (port_list ob f1 f2 f3 f4) \<longrightarrow> k \<le> 15 \<longrightarrow> pin_regs s5 port k = pin_regs s1 port k"
    using route_pins_regs [OF port_list_ok [OF pins], of s1, folded ob_def] by blast
  obtain s2 s3 s4 where chain: "pinmap_pinout (pin_tx ob) PinMap_UART_TX s1 = Some s2"
    "pinmap_pinout (pin_rx ob) PinMap_UART_RX s2 = Some s3" "pinmap_pinout (pin_rts ob) PinMap_UART_RTS s3 = Some s4"
    "pinmap_pinout (pin_cts ob) PinMap_UART_CTS s4 = Some s5"
    using s5(1) by (auto simp: port_list_def split: bind_splits)
  have part: "uart_part s5 = uart_part s1" using uart_part_more [OF s5(2)] .
  have d: "uart_objs s5 = (uart_objs s)(obj := ob1\<lparr>index := n, uart_irq := Some i\<rparr>)" "uart_handlers s5 = uart_handlers s"
    "lpuart_clock s5 = lpuart_clock s" "uart_calls s5 = uart_calls s @ [Uart_force_reset i, Uart_release_reset i, Uart_clk_enable i]"
    using part claim(1) by (simp_all add: uart_part_def)
  define s7 where "s7 = uart_log [Uart_set_priority (Some i) 1 0] (uart_put obj (ob1\<lparr>index := n, uart_irq := Some i, uart_handle := h\<rparr>)
      (s5\<lparr>uart_handlers := (uart_handlers s5)(n \<mapsto> obj + offset_uart_handle)\<rparr>))"
  have e: "uart_objs s7 = (uart_objs s)(obj := ob1\<lparr>index := n, uart_irq := Some i, uart_handle := h\<rparr>)"
    "uart_handlers s7 = (uart_handlers s)(n \<mapsto> obj + offset_uart_handle)" "lpuart_clock s7 = lpuart_clock s"
    "uart_calls s7 = uart_calls s @ [Uart_force_reset i, Uart_release_reset i, Uart_clk_enable i, Uart_set_priority (Some i) 1 0]"
    "pin_regs s7 = pin_regs s5"
    by (simp_all add: s7_def uart_log_def uart_put_def d)
  obtain rx rts cts where per: "pinmap_peripheral (pin_tx ob) PinMap_UART_TX = Some i"
      "pinmap_peripheral (pin_rx ob) PinMap_UART_RX = Some rx" "pinmap_peripheral (pin_rts ob) PinMap_UART_RTS = Some rts"
      "pinmap_peripheral (pin_cts ob) PinMap_UART_CTS = Some cts"
    and given: "rx = NP \<longleftrightarrow> pin_rx ob = NC" "rts = NP \<longleftrightarrow> pin_rts ob = NC" "cts = NP \<longleftrightarrow> pin_cts ob = NC"
    and merge: "pinmap_merge_peripheral (pinmap_merge_peripheral (pinmap_merge_peripheral i rx) rts) cts = i"
    using row_peripheral [OF uart_tables_ok(1) rows(1)] pin_row_peripheral [OF uart_tables_ok(2) rows(2)]
      pin_row_peripheral [OF uart_tables_ok(3) rows(3)] pin_row_peripheral [OF uart_tables_ok(4) rows(4)] i(1)
    by (simp add: pinmap_merge_peripheral_def)
  have frame: "pin_tx ob1 = pin_tx ob" "pin_rx ob1 = pin_rx ob" "pin_rts ob1 = pin_rts ob" "pin_cts ob1 = pin_cts ob"
    by (simp_all add: ob1_def)
  have steps: "(if rx \<noteq> NP then pinmap_pinout (pin_rx ob) PinMap_UART_RX s2 else Some s2) = Some s3"
    "(if rts \<noteq> NP then pinmap_pinout (pin_rts ob) PinMap_UART_RTS s3 else Some s3) = Some s4"
    "(if cts \<noteq> NP then pinmap_pinout (pin_cts ob) PinMap_UART_CTS s4 else Some s4) = Some s5"
    using chain(2-4) by (auto simp: nc_pinout given)
  have flow: "(if rts \<noteq> NP then UART_HWCONTROL_RTS else 0) OR (if cts \<noteq> NP then UART_HWCONTROL_CTS else 0) = flow_control ob"
    by (simp add: flow_control_def given)
  have ob5: "uart_objs s5 obj = ob1\<lparr>index := n, uart_irq := Some i\<rparr>" "ob\<lparr>uart := i, index := n, uart_irq := Some i\<rparr> = ob1\<lparr>index := n, uart_irq := Some i\<rparr>"
    by (simp_all add: d ob1_def)
  have "uart_setup hal_init rx rts cts obj ob1 baud w par st s = Some (start_uart hal_init (pin_rx ob = NC) obj baud s7)"
    unfolding uart_setup_def frame s1_def [symmetric] flow Let_def chain(1) steps Option.bind.bind_lunit
    by (simp add: ob5 s7_def h_def given(1))
  moreover have "uart ob1 = i" by (simp add: ob1_def)
  ultimately have run: "uart_init hal_init obj baud w par st s = Some (start_uart hal_init (pin_rx ob = NC) obj baud s7)"
    using assms(1) i given \<open>uart ob1 = i\<close> by (simp add: uart_init_def per merge ob1_def [symmetric] ob_def [symmetric] Let_def)
  note fin = start_uart_ok [OF hal, of "pin_rx ob = NC" obj baud s7, unfolded e]
  show ?thesis unfolding run using fin regs claim(2) by (simp add: uart_part_def e(5) ob1_def ob_def)
qed


section \<open>Debug output\<close>

lemma debug_port: "DEBUG_UART = Some UART4"
  by (simp add: DEBUG_UART_def DEBUG_PINNAME_TX_def digitalPinToPinName_def digitalPin_def analogInputPin_def board_defs
      pinmap_peripheral_def PinMap_UART_TX_def port_defs consts_simp)

lemma all_ports: "[0..<UART_NUM] = [0, 1, 2, 3, 4, 5, 6, 7, 8]"
  by (simp add: UART_NUM_def upt_rec)

lemma find_debug_first:
  assumes "has_port p s 3" and "\<not> has_port p s 0" "\<not> has_port p s 1" "\<not> has_port p s 2"
  shows "find_debug p s = 3"
  using assms by (simp add: find_debug_def all_ports)

text \<open>After the port of the debug messages has been opened and closed again by a sketch, debug
  messages are lost: although \<^verbatim>\<open>uart_deinit\<close> releases the debug object so that the port will be
  initialised again, the handle stays in the table, the next message finds it there, and the HAL refuses
  to send; nothing is initialised and nothing goes out.\<close>

theorem debug_silent_after_end:
  fixes s0 s1 s2 :: uart_driver and obj baud w par st :: u32
  assumes "obj \<noteq> 0" and "obj \<noteq> dbg" and "port_pins (uart_objs s0 obj) UART4 f1 f2 f3 f4"
    and "\<forall>half src h. fst (hal_init half src h) = HAL_OK \<and> Uart_Instance (snd (hal_init half src h)) = Uart_Instance h"
    and "\<forall>j < 3. uart_handlers s0 j = None" and "index (uart_objs s0 dbg) \<ge> UART_NUM \<or> index (uart_objs s0 dbg) = 3"
    and "uart_init hal_init obj baud w par st s0 = Some s1" and "uart_deinit dbg obj s1 = Some s2"
  shows "\<exists>s3. uart_debug_write hal_init hal_send poll HAL_GetTick dbg data s2 = Some (0, s3) \<and> uart_calls s3 = uart_calls s2"
proof -
  define ob where "ob = uart_objs s0 obj"
  define h where "h = uart_fill baud w par st (flow_control ob) (ob\<lparr>uart := UART4, index := 3, uart_irq := Some UART4\<rparr>)"
  define h' where "h' = snd (hal_init (pin_rx ob = NC) (lpuart_clock s0) h)"
  have hal: "\<forall>half src h. fst (hal_init half src h) = HAL_OK" using assms(4) by blast
  have s1: "uart_objs s1 = (uart_objs s0)(obj := ob\<lparr>uart := UART4, index := 3, uart_irq := Some UART4, uart_handle := h'\<rparr>)"
    "uart_handlers s1 = (uart_handlers s0)(3 \<mapsto> obj + offset_uart_handle)"
    using uart_init_run [OF assms(1,3) _ hal, of 3 baud w par st] assms(7) unfolding ob_def h_def h'_def by auto
  have inst: "Uart_Instance h' = UART4" using assms(4) by (simp add: h'_def h_def uart_fill_def)
  have addr: "get_serial_obj (obj + offset_uart_handle) = obj"
    by (simp add: get_serial_obj_def offset_uart_handle_def offset_uart_def)
  have s2: "uart_objs s2 obj = ob\<lparr>uart := UART4, index := 3, uart_irq := Some UART4, uart_handle := HAL_UART_DeInit h'\<rparr>"
    "uart_handlers s2 = (uart_handlers s0)(3 \<mapsto> obj + offset_uart_handle)" "index (uart_objs s2 dbg) \<ge> UART_NUM"
    using assms(2,6,8) by (auto simp: uart_deinit_def s1 addr UART_NUM_def uart_put_def uart_log_def Let_def split: if_splits)
  have "find_debug UART4 s2 = 3"
    using assms(5) inst by (intro find_debug_first) (simp_all add: has_port_def s2 addr HAL_UART_DeInit_def)
  define s3 where "s3 = uart_put dbg ((uart_objs s2 dbg)\<lparr>index := 3\<rparr>) s2"
  have choose: "choose_debug hal_init dbg s2 = Some s3"
    using s2(3) \<open>find_debug UART4 s2 = 3\<close> by (simp add: choose_debug_def debug_port s3_def UART_NUM_def Let_def)
  have s3: "uart_objs s3 obj = uart_objs s2 obj" "index (uart_objs s3 dbg) = 3" "uart_handlers s3 = uart_handlers s2"
    "uart_calls s3 = uart_calls s2"
    using assms(2) by (simp_all add: s3_def uart_put_def)
  have "debug_wait poll HAL_GetTick (HAL_GetTick s2) obj s3 = Some (True, s3)"
    by (subst debug_wait.simps) (simp add: debug_tx_active_def s3 s2 addr HAL_UART_DeInit_def consts_simp Let_def)
  moreover have "HAL_UART_Transmit hal_send obj data s3 = (HAL_BUSY, s3)"
    by (simp add: HAL_UART_Transmit_def s3 s2 HAL_UART_DeInit_def consts_simp Let_def)
  ultimately have "uart_debug_write hal_init hal_send poll HAL_GetTick dbg data s2 = Some (0, s3)"
    using assms(1) by (simp add: uart_debug_write_def choose s3 s2 UART_NUM_def addr Let_def)
  then show ?thesis using s3(4) by blast
qed

section \<open>Frames\<close>

definition word_length :: "nat \<Rightarrow> u32" where
  "word_length n = (if n = 7 then UART_WORDLENGTH_7B else if n = 8 then UART_WORDLENGTH_8B else UART_WORDLENGTH_9B)"

text \<open>The sixteen configurations that \<^verbatim>\<open>HardwareSerial.h\<close> names are all accepted, with a word that holds
  the data bits and the parity bit.\<close>

lemma serial_frames:
  "list_all (\<lambda>(config, data, parity, stop).
      serial_config config = Some (word_length (data + (if parity = UART_PARITY_NONE then 0 else 1)), parity, stop))
    [(0x04, 7, UART_PARITY_NONE, UART_STOPBITS_1), (0x0C, 7, UART_PARITY_NONE, UART_STOPBITS_2),
     (0x22, 6, UART_PARITY_EVEN, UART_STOPBITS_1), (0x2A, 6, UART_PARITY_EVEN, UART_STOPBITS_2),
     (0x32, 6, UART_PARITY_ODD, UART_STOPBITS_1), (0x3A, 6, UART_PARITY_ODD, UART_STOPBITS_2),
     (0x06, 8, UART_PARITY_NONE, UART_STOPBITS_1), (0x0E, 8, UART_PARITY_NONE, UART_STOPBITS_2),
     (0x24, 7, UART_PARITY_EVEN, UART_STOPBITS_1), (0x26, 8, UART_PARITY_EVEN, UART_STOPBITS_1),
     (0x2C, 7, UART_PARITY_EVEN, UART_STOPBITS_2), (0x2E, 8, UART_PARITY_EVEN, UART_STOPBITS_2),
     (0x34, 7, UART_PARITY_ODD, UART_STOPBITS_1), (0x36, 8, UART_PARITY_ODD, UART_STOPBITS_1),
     (0x3C, 7, UART_PARITY_ODD, UART_STOPBITS_2), (0x3E, 8, UART_PARITY_ODD, UART_STOPBITS_2)]"
  by (simp add: serial_config_def word_length_def UART_PARITY_NONE_def UART_PARITY_EVEN_def UART_PARITY_ODD_def)

section \<open>Concrete ports\<close>

definition uart_handle0 :: uart_handle where
  "uart_handle0 = \<lparr>Uart_Instance = NP, BaudRate = 0, WordLength = 0, StopBits = 0, Parity = 0, Uart_Mode = 0, HwFlowCtl = 0,
     OverSampling = 0, OneBitSampling = 0, AdvFeatureInit = 0, Uart_gState = 0, Uart_RxState = 0\<rparr>"

definition uart_obj0 :: "PinName \<Rightarrow> PinName \<Rightarrow> uart_obj" where
  "uart_obj0 tx rx = \<lparr>uart = NP, uart_handle = uart_handle0, pin_tx = tx, pin_rx = rx, pin_rts = NC, pin_cts = NC,
     uart_irq = None, index = UART_NUM\<rparr>"

definition uart_hal0 :: uart_hal where
  "uart_hal0 half src h = (HAL_OK, h\<lparr>Uart_gState := HAL_UART_STATE_READY, Uart_RxState := HAL_UART_STATE_READY\<rparr>)"

text \<open>The object at 64 has the default pins of \<^verbatim>\<open>Serial\<close>, the one at 128 is the debug object.\<close>

definition uart_driver0 :: uart_driver where
  "uart_driver0 = gpio.extend (undefined :: gpio)
     \<lparr>uart_objs = (\<lambda>a. if a = 64 then uart_obj0 (PA 0) (PA 1) else uart_obj0 NC NC), uart_handlers = (\<lambda>_. None),
      lpuart_clock = LPUART_D3PCLK1, hsi_ready = False, uart_calls = []\<rparr>"

lemma uart_driver0_simps:
  "uart_objs uart_driver0 64 = uart_obj0 (PA 0) (PA 1)" "uart_objs uart_driver0 128 = uart_obj0 NC NC"
  "uart_handlers uart_driver0 n = None" "uart_calls uart_driver0 = []" "lpuart_clock uart_driver0 = LPUART_D3PCLK1"
  by (simp_all add: uart_driver0_def gpio.defs)

lemma port_pins0:
  "port_pins (uart_obj0 (PA 0) (PA 1)) UART4 (STM_PIN_DATA STM_MODE_AF_PP GPIO_PULLUP 8) (STM_PIN_DATA STM_MODE_AF_PP GPIO_PULLUP 8) 0 0"
  by (simp add: port_pins_def uart_obj0_def pin_row_def PinMap_UART_TX_def PinMap_UART_RX_def)

lemma pin_rx0: "pin_rx (uart_obj0 (PA 0) (PA 1)) \<noteq> NC" and index0: "index (uart_obj0 p q) = UART_NUM"
  by (simp_all add: uart_obj0_def NC_def port_defs consts_simp)

lemma uart_hal0_ok: "\<forall>half src h. fst (uart_hal0 half src h) = HAL_OK \<and> Uart_Instance (snd (uart_hal0 half src h)) = Uart_Instance h"
  by (simp add: uart_hal0_def)


theorem debug_silent_after_end_witness:
  "\<exists>s1 s2 s3. uart_init uart_hal0 64 9600 0 0 0 uart_driver0 = Some s1 \<and> uart_deinit 128 64 s1 = Some s2 \<and>
     uart_debug_write uart_hal0 (\<lambda>_ _. True) id (\<lambda>_. 0) 128 [1, 2] s2 = Some (0, s3) \<and> uart_calls s3 = uart_calls s2"
proof -
  have hal: "\<forall>half src h. fst (uart_hal0 half src h) = HAL_OK" using uart_hal0_ok by blast
  obtain s1 where s1: "uart_init uart_hal0 64 9600 0 0 0 uart_driver0 = Some s1" "index (uart_objs s1 64) = 3"
    using uart_init_run [OF _ _ _ hal, of 64 uart_driver0, unfolded uart_driver0_simps, OF _ port_pins0, of 3 9600 0 0 0] by auto
  then obtain s2 where s2: "uart_deinit 128 64 s1 = Some s2" by (simp add: uart_deinit_def UART_NUM_def Let_def)
  have "\<exists>s3. uart_debug_write uart_hal0 (\<lambda>_ _. True) id (\<lambda>_. 0) 128 [1, 2] s2 = Some (0, s3) \<and> uart_calls s3 = uart_calls s2"
    using port_pins0 by (intro debug_silent_after_end [OF _ _ _ uart_hal0_ok _ _ s1(1) s2]) (simp_all add: uart_driver0_simps index0)
  then show ?thesis using s1(1) s2 by blast
qed

end
