(* ===== verification/Timer_Driver.thy ===== *)
theory Timer_Driver
  imports Pin_Lookup
begin

text \<open>
  Timers: the driver in C (\<^verbatim>\<open>libraries/SrcWrapper/src/stm32/timer.c\<close>,
  \<^verbatim>\<open>cores/arduino/stm32/timer.h\<close>) with its clocks, interrupt numbers and channels, and the life of a timer
  object above it: set-up, release, priority and the interrupt handlers
  (\<^verbatim>\<open>libraries/SrcWrapper/src/HardwareTimer.cpp\<close>). The counter registers of a timer are not part of the
  state. An interrupt number is an \<^typ>\<open>int\<close>; the interrupt controller is documented for numbers from 0 on.
\<close>

section \<open>Timers of the microcontroller\<close>

definition TIM_NC :: u32 where "TIM_NC = 0xFFFFFFFF"

definition TIM1_BASE :: u32 where [consts_simp]: "TIM1_BASE = 0x40010000"
definition TIM2_BASE :: u32 where [consts_simp]: "TIM2_BASE = 0x40000000"
definition TIM3_BASE :: u32 where [consts_simp]: "TIM3_BASE = 0x40000400"
definition TIM4_BASE :: u32 where [consts_simp]: "TIM4_BASE = 0x40000800"
definition TIM5_BASE :: u32 where [consts_simp]: "TIM5_BASE = 0x40000C00"
definition TIM6_BASE :: u32 where [consts_simp]: "TIM6_BASE = 0x40001000"
definition TIM7_BASE :: u32 where [consts_simp]: "TIM7_BASE = 0x40001400"
definition TIM8_BASE :: u32 where [consts_simp]: "TIM8_BASE = 0x40010400"
definition TIM12_BASE :: u32 where [consts_simp]: "TIM12_BASE = 0x40001800"
definition TIM13_BASE :: u32 where [consts_simp]: "TIM13_BASE = 0x40001C00"
definition TIM14_BASE :: u32 where [consts_simp]: "TIM14_BASE = 0x40002000"
definition TIM15_BASE :: u32 where [consts_simp]: "TIM15_BASE = 0x40014000"
definition TIM16_BASE :: u32 where [consts_simp]: "TIM16_BASE = 0x40014400"
definition TIM17_BASE :: u32 where [consts_simp]: "TIM17_BASE = 0x40014800"

lemmas tim_bases = TIM1_BASE_def TIM2_BASE_def TIM3_BASE_def TIM4_BASE_def TIM5_BASE_def TIM6_BASE_def
  TIM7_BASE_def TIM8_BASE_def TIM12_BASE_def TIM13_BASE_def TIM14_BASE_def TIM15_BASE_def TIM16_BASE_def
  TIM17_BASE_def TIM_NC_def

text \<open>The interrupt numbers of the STM32H743.\<close>

definition NonMaskableInt_IRQn :: int where [consts_simp]: "NonMaskableInt_IRQn = - 14"
definition TIM1_UP_IRQn :: int where [consts_simp]: "TIM1_UP_IRQn = 25"
definition TIM1_CC_IRQn :: int where [consts_simp]: "TIM1_CC_IRQn = 27"
definition TIM2_IRQn :: int where [consts_simp]: "TIM2_IRQn = 28"
definition TIM3_IRQn :: int where [consts_simp]: "TIM3_IRQn = 29"
definition TIM4_IRQn :: int where [consts_simp]: "TIM4_IRQn = 30"
definition TIM8_BRK_TIM12_IRQn :: int where [consts_simp]: "TIM8_BRK_TIM12_IRQn = 43"
definition TIM8_UP_TIM13_IRQn :: int where [consts_simp]: "TIM8_UP_TIM13_IRQn = 44"
definition TIM8_TRG_COM_TIM14_IRQn :: int where [consts_simp]: "TIM8_TRG_COM_TIM14_IRQn = 45"
definition TIM8_CC_IRQn :: int where [consts_simp]: "TIM8_CC_IRQn = 46"
definition TIM5_IRQn :: int where [consts_simp]: "TIM5_IRQn = 50"
definition TIM6_DAC_IRQn :: int where [consts_simp]: "TIM6_DAC_IRQn = 54"
definition TIM7_IRQn :: int where [consts_simp]: "TIM7_IRQn = 55"
definition TIM15_IRQn :: int where [consts_simp]: "TIM15_IRQn = 116"
definition TIM16_IRQn :: int where [consts_simp]: "TIM16_IRQn = 117"
definition TIM17_IRQn :: int where [consts_simp]: "TIM17_IRQn = 118"

text \<open>The names that \<^verbatim>\<open>timer.h\<close> gives to shared vectors.\<close>

definition TIM1_IRQn :: int where [consts_simp]: "TIM1_IRQn = TIM1_UP_IRQn"
definition TIM6_IRQn :: int where [consts_simp]: "TIM6_IRQn = TIM6_DAC_IRQn"
definition TIM8_IRQn :: int where [consts_simp]: "TIM8_IRQn = TIM8_UP_TIM13_IRQn"
definition TIM12_IRQn :: int where [consts_simp]: "TIM12_IRQn = TIM8_BRK_TIM12_IRQn"
definition TIM13_IRQn :: int where [consts_simp]: "TIM13_IRQn = TIM8_UP_TIM13_IRQn"
definition TIM14_IRQn :: int where [consts_simp]: "TIM14_IRQn = TIM8_TRG_COM_TIM14_IRQn"

lemmas tim_irqs = NonMaskableInt_IRQn_def TIM1_UP_IRQn_def TIM1_CC_IRQn_def TIM2_IRQn_def TIM3_IRQn_def
  TIM4_IRQn_def TIM8_BRK_TIM12_IRQn_def TIM8_UP_TIM13_IRQn_def TIM8_TRG_COM_TIM14_IRQn_def TIM8_CC_IRQn_def
  TIM5_IRQn_def TIM6_DAC_IRQn_def TIM7_IRQn_def TIM15_IRQn_def TIM16_IRQn_def TIM17_IRQn_def
  TIM1_IRQn_def TIM6_IRQn_def TIM8_IRQn_def TIM12_IRQn_def TIM13_IRQn_def TIM14_IRQn_def

definition TIM_IRQ_PRIO :: u32 where [consts_simp]: "TIM_IRQ_PRIO = 14"
definition TIM_IRQ_SUBPRIO :: u32 where [consts_simp]: "TIM_IRQ_SUBPRIO = 0"
definition TIM_CHANNEL_1 :: u32 where [consts_simp]: "TIM_CHANNEL_1 = 0"
definition TIM_CHANNEL_2 :: u32 where [consts_simp]: "TIM_CHANNEL_2 = 4"
definition TIM_CHANNEL_3 :: u32 where [consts_simp]: "TIM_CHANNEL_3 = 8"
definition TIM_CHANNEL_4 :: u32 where [consts_simp]: "TIM_CHANNEL_4 = 12"

text \<open>The address of a timer in the pin tables.\<close>

fun tim_base :: "peripheral \<Rightarrow> u32 option" where
  "tim_base TIM1 = Some TIM1_BASE" | "tim_base TIM2 = Some TIM2_BASE" | "tim_base TIM3 = Some TIM3_BASE"
| "tim_base TIM4 = Some TIM4_BASE" | "tim_base TIM5 = Some TIM5_BASE" | "tim_base TIM8 = Some TIM8_BASE"
| "tim_base TIM12 = Some TIM12_BASE" | "tim_base TIM13 = Some TIM13_BASE" | "tim_base TIM14 = Some TIM14_BASE"
| "tim_base TIM15 = Some TIM15_BASE" | "tim_base TIM16 = Some TIM16_BASE" | "tim_base TIM17 = Some TIM17_BASE"
| "tim_base _ = None"

section \<open>The C driver\<close>

text \<open>A number without a case goes to \<^verbatim>\<open>_Error_Handler\<close>, which does not return.\<close>

definition getTimerUpIrq :: "u32 \<Rightarrow> int option" where
  "getTimerUpIrq tim =
     (if tim = TIM_NC then Some NonMaskableInt_IRQn
      else if tim = TIM1_BASE then Some TIM1_IRQn
      else if tim = TIM2_BASE then Some TIM2_IRQn
      else if tim = TIM3_BASE then Some TIM3_IRQn
      else if tim = TIM4_BASE then Some TIM4_IRQn
      else if tim = TIM5_BASE then Some TIM5_IRQn
      else if tim = TIM6_BASE then Some TIM6_IRQn
      else if tim = TIM7_BASE then Some TIM7_IRQn
      else if tim = TIM8_BASE then Some TIM8_IRQn
      else if tim = TIM12_BASE then Some TIM12_IRQn
      else if tim = TIM13_BASE then Some TIM13_IRQn
      else if tim = TIM14_BASE then Some TIM14_IRQn
      else if tim = TIM15_BASE then Some TIM15_IRQn
      else if tim = TIM16_BASE then Some TIM16_IRQn
      else if tim = TIM17_BASE then Some TIM17_IRQn
      else None)"

definition getTimerCCIrq :: "u32 \<Rightarrow> int option" where
  "getTimerCCIrq tim =
     (if tim = TIM_NC then Some NonMaskableInt_IRQn
      else if tim = TIM1_BASE then Some TIM1_CC_IRQn
      else if tim = TIM2_BASE then Some TIM2_IRQn
      else if tim = TIM3_BASE then Some TIM3_IRQn
      else if tim = TIM4_BASE then Some TIM4_IRQn
      else if tim = TIM5_BASE then Some TIM5_IRQn
      else if tim = TIM6_BASE then Some TIM6_IRQn
      else if tim = TIM7_BASE then Some TIM7_IRQn
      else if tim = TIM8_BASE then Some TIM8_CC_IRQn
      else if tim = TIM12_BASE then Some TIM12_IRQn
      else if tim = TIM13_BASE then Some TIM13_IRQn
      else if tim = TIM14_BASE then Some TIM14_IRQn
      else if tim = TIM15_BASE then Some TIM15_IRQn
      else if tim = TIM16_BASE then Some TIM16_IRQn
      else if tim = TIM17_BASE then Some TIM17_IRQn
      else None)"

definition getTimerClkSrc :: "u32 \<Rightarrow> u8 option" where
  "getTimerClkSrc tim =
     (if tim = TIM_NC then Some 0
      else if tim \<in> {TIM2_BASE, TIM3_BASE, TIM4_BASE, TIM5_BASE, TIM6_BASE, TIM7_BASE, TIM12_BASE,
        TIM13_BASE, TIM14_BASE} then Some 1
      else if tim \<in> {TIM1_BASE, TIM8_BASE, TIM15_BASE, TIM16_BASE, TIM17_BASE} then Some 2
      else None)"

definition getTimerChannel :: "PinName \<Rightarrow> u32 option" where
  "getTimerChannel pin =
     do { function \<leftarrow> pinmap_function pin PinMap_TIM;
          let chan = STM_PIN_CHANNEL function;
          if chan = 1 then Some TIM_CHANNEL_1
          else if chan = 2 then Some TIM_CHANNEL_2
          else if chan = 3 then Some TIM_CHANNEL_3
          else if chan = 4 then Some TIM_CHANNEL_4
          else None }"

text \<open>A timer object is its owner, the handle of the HAL with its state, and its priorities. Objects live at
  addresses; \<open>tim_enabled\<close> and \<open>tim_prio\<close> are the interrupt controller.\<close>

datatype tim_state =
    HAL_TIM_STATE_RESET | HAL_TIM_STATE_READY | HAL_TIM_STATE_BUSY | HAL_TIM_STATE_TIMEOUT | HAL_TIM_STATE_ERROR

record timer_obj =
  tim_this :: u32
  tim_Instance :: u32
  tim_State :: tim_state
  preemptPriority :: u32
  subPriority :: u32

record timers =
  tim_objs :: "u32 \<Rightarrow> timer_obj"
  tim_clock :: "u32 \<Rightarrow> bool"
  tim_enabled :: "int \<Rightarrow> bool"
  tim_prio :: "int \<Rightarrow> u32 \<times> u32"
  HardwareTimer_Handle :: "u32 list"

definition tim_offset_handle :: u32 where "tim_offset_handle = 4"

definition get_timer_obj :: "u32 \<Rightarrow> u32" where
  "get_timer_obj htim = htim - tim_offset_handle"

text \<open>The fields of a handle at its address.\<close>

definition htim_Instance :: "timers \<Rightarrow> u32 \<Rightarrow> u32" where
  "htim_Instance s htim = tim_Instance (tim_objs s (htim - tim_offset_handle))"

definition htim_State :: "timers \<Rightarrow> u32 \<Rightarrow> tim_state" where
  "htim_State s htim = tim_State (tim_objs s (htim - tim_offset_handle))"

definition set_htim_State :: "u32 \<Rightarrow> tim_state \<Rightarrow> timers \<Rightarrow> timers" where
  "set_htim_State htim st s =
     s\<lparr>tim_objs := (tim_objs s)(htim - tim_offset_handle :=
         tim_objs s (htim - tim_offset_handle)\<lparr>tim_State := st\<rparr>)\<rparr>"

text \<open>The interrupt controller, for the numbers it is documented for.\<close>

definition nvic_SetPriority :: "int \<Rightarrow> u32 \<Rightarrow> u32 \<Rightarrow> timers \<Rightarrow> timers option" where
  "nvic_SetPriority IRQn pre sub s =
     (if 0 \<le> IRQn then Some (s\<lparr>tim_prio := (tim_prio s)(IRQn := (pre, sub))\<rparr>) else None)"

definition nvic_EnableIRQ :: "int \<Rightarrow> timers \<Rightarrow> timers option" where
  "nvic_EnableIRQ IRQn s = (if 0 \<le> IRQn then Some (s\<lparr>tim_enabled := (tim_enabled s)(IRQn := True)\<rparr>) else None)"

definition nvic_DisableIRQ :: "int \<Rightarrow> timers \<Rightarrow> timers option" where
  "nvic_DisableIRQ IRQn s = (if 0 \<le> IRQn then Some (s\<lparr>tim_enabled := (tim_enabled s)(IRQn := False)\<rparr>) else None)"

text \<open>The clock functions test the instance against each timer in turn.\<close>

definition TIM_BASES :: "u32 list" where
  "TIM_BASES = [TIM1_BASE, TIM2_BASE, TIM3_BASE, TIM4_BASE, TIM5_BASE, TIM6_BASE, TIM7_BASE, TIM8_BASE,
     TIM12_BASE, TIM13_BASE, TIM14_BASE, TIM15_BASE, TIM16_BASE, TIM17_BASE]"

definition enableTimerClock :: "u32 \<Rightarrow> timers \<Rightarrow> timers" where
  "enableTimerClock htim s =
     fold (\<lambda>base s. if htim_Instance s htim = base then s\<lparr>tim_clock := (tim_clock s)(base := True)\<rparr> else s) TIM_BASES s"

definition disableTimerClock :: "u32 \<Rightarrow> timers \<Rightarrow> timers" where
  "disableTimerClock htim s =
     fold (\<lambda>base s. if htim_Instance s htim = base then s\<lparr>tim_clock := (tim_clock s)(base := False)\<rparr> else s) TIM_BASES s"

definition HAL_TIM_Base_MspInit :: "u32 \<Rightarrow> timers \<Rightarrow> timers option" where
  "HAL_TIM_Base_MspInit htim_base s =
     do { let obj = get_timer_obj htim_base;
          let s = enableTimerClock htim_base s;
          let pre = preemptPriority (tim_objs s obj);
          let sub = subPriority (tim_objs s obj);
          up \<leftarrow> getTimerUpIrq (htim_Instance s htim_base);
          s \<leftarrow> nvic_SetPriority up pre sub s;
          s \<leftarrow> nvic_EnableIRQ up s;
          cc \<leftarrow> getTimerCCIrq (htim_Instance s htim_base);
          if cc \<noteq> up then do { s \<leftarrow> nvic_SetPriority cc pre sub s; nvic_EnableIRQ cc s }
          else Some s }"

definition HAL_TIM_Base_MspDeInit :: "u32 \<Rightarrow> timers \<Rightarrow> timers option" where
  "HAL_TIM_Base_MspDeInit htim_base s =
     do { let s = disableTimerClock htim_base s;
          up \<leftarrow> getTimerUpIrq (htim_Instance s htim_base);
          s \<leftarrow> nvic_DisableIRQ up s;
          cc \<leftarrow> getTimerCCIrq (htim_Instance s htim_base);
          nvic_DisableIRQ cc s }"

definition HAL_TIM_OC_MspInit :: "u32 \<Rightarrow> timers \<Rightarrow> timers option" where
  "HAL_TIM_OC_MspInit htim s =
     do { let obj = get_timer_obj htim;
          let s = enableTimerClock htim s;
          let pre = preemptPriority (tim_objs s obj);
          let sub = subPriority (tim_objs s obj);
          up \<leftarrow> getTimerUpIrq (htim_Instance s htim);
          s \<leftarrow> nvic_SetPriority up pre sub s;
          s \<leftarrow> nvic_EnableIRQ up s;
          cc \<leftarrow> getTimerCCIrq (htim_Instance s htim);
          if cc \<noteq> up then do { s \<leftarrow> nvic_SetPriority cc pre sub s; nvic_EnableIRQ cc s }
          else Some s }"

definition HAL_TIM_OC_MspDeInit :: "u32 \<Rightarrow> timers \<Rightarrow> timers option" where
  "HAL_TIM_OC_MspDeInit htim s =
     do { let s = disableTimerClock htim s;
          up \<leftarrow> getTimerUpIrq (htim_Instance s htim);
          s \<leftarrow> nvic_DisableIRQ up s;
          cc \<leftarrow> getTimerCCIrq (htim_Instance s htim);
          nvic_DisableIRQ cc s }"

definition HAL_TIM_IC_MspInit :: "u32 \<Rightarrow> timers \<Rightarrow> timers" where
  "HAL_TIM_IC_MspInit htim s = enableTimerClock htim s"

definition HAL_TIM_IC_MspDeInit :: "u32 \<Rightarrow> timers \<Rightarrow> timers" where
  "HAL_TIM_IC_MspDeInit htim s = disableTimerClock htim s"

section \<open>Timer objects\<close>

text \<open>The indices of the timers of this microcontroller.\<close>

definition TIMER_NUM :: nat where [consts_simp]: "TIMER_NUM = 14"
definition UNKNOWN_TIMER :: nat where [consts_simp]: "UNKNOWN_TIMER = 0xFFFF"

definition get_timer_index :: "u32 \<Rightarrow> nat" where
  "get_timer_index tim =
     (if tim = TIM1_BASE then 0 else if tim = TIM2_BASE then 1 else if tim = TIM3_BASE then 2
      else if tim = TIM4_BASE then 3 else if tim = TIM5_BASE then 4 else if tim = TIM6_BASE then 5
      else if tim = TIM7_BASE then 6 else if tim = TIM8_BASE then 7 else if tim = TIM12_BASE then 8
      else if tim = TIM13_BASE then 9 else if tim = TIM14_BASE then 10 else if tim = TIM15_BASE then 11
      else if tim = TIM16_BASE then 12 else if tim = TIM17_BASE then 13 else UNKNOWN_TIMER)"

definition set_HardwareTimer_Handle :: "nat \<Rightarrow> u32 \<Rightarrow> timers \<Rightarrow> timers option" where
  "set_HardwareTimer_Handle index p s =
     (if index < length (HardwareTimer_Handle s)
      then Some (s\<lparr>HardwareTimer_Handle := (HardwareTimer_Handle s)[index := p]\<rparr>) else None)"

definition put_timer_obj :: "u32 \<Rightarrow> timer_obj \<Rightarrow> timers \<Rightarrow> timers" where
  "put_timer_obj obj t s = s\<lparr>tim_objs := (tim_objs s)(obj := t)\<rparr>"

text \<open>Of the HAL's initialisation, what concerns this state: the call of the driver and the state of the
  handle.\<close>

definition HAL_TIM_Base_Init :: "u32 \<Rightarrow> timers \<Rightarrow> timers option" where
  "HAL_TIM_Base_Init htim s =
     do { s \<leftarrow> (if htim_State s htim = HAL_TIM_STATE_RESET then HAL_TIM_Base_MspInit htim s else Some s);
          Some (set_htim_State htim HAL_TIM_STATE_READY (set_htim_State htim HAL_TIM_STATE_BUSY s)) }"

definition HAL_TIM_Base_DeInit :: "u32 \<Rightarrow> timers \<Rightarrow> timers option" where
  "HAL_TIM_Base_DeInit htim s =
     do { s \<leftarrow> HAL_TIM_Base_MspDeInit htim (set_htim_State htim HAL_TIM_STATE_BUSY s);
          Some (set_htim_State htim HAL_TIM_STATE_RESET s) }"

text \<open>\<^verbatim>\<open>HardwareTimer()\<close>, \<^verbatim>\<open>setup\<close>, the destructor, \<^verbatim>\<open>timerHandleDeinit\<close>, \<^verbatim>\<open>setInterruptPriority\<close>. The
  argument is the address of the timer object inside the C++ object.\<close>

definition timer_construct :: "u32 \<Rightarrow> timers \<Rightarrow> timers" where
  "timer_construct obj s = put_timer_obj obj ((tim_objs s obj)\<lparr>tim_Instance := 0\<rparr>) s"

definition timer_setup :: "u32 \<Rightarrow> u32 \<Rightarrow> u32 \<Rightarrow> timers \<Rightarrow> timers option" where
  "timer_setup obj this tim s =
     do { let index = get_timer_index tim;
          if index = UNKNOWN_TIMER then None
          else if tim_Instance (tim_objs s obj) \<noteq> 0 then None
          else do {
            s \<leftarrow> set_HardwareTimer_Handle index obj s;
            let s = put_timer_obj obj ((tim_objs s obj)\<lparr>tim_Instance := tim, tim_State := HAL_TIM_STATE_RESET,
                tim_this := this, preemptPriority := TIM_IRQ_PRIO, subPriority := TIM_IRQ_SUBPRIO\<rparr>) s;
            let s = enableTimerClock (obj + tim_offset_handle) s;
            HAL_TIM_Base_Init (obj + tim_offset_handle) s }}"

definition timer_destroy :: "u32 \<Rightarrow> timers \<Rightarrow> timers option" where
  "timer_destroy obj s =
     do { let index = get_timer_index (tim_Instance (tim_objs s obj));
          let s = disableTimerClock (obj + tim_offset_handle) s;
          s \<leftarrow> set_HardwareTimer_Handle index 0 s;
          Some (put_timer_obj obj ((tim_objs s obj)\<lparr>tim_this := 0\<rparr>) s) }"

definition timerHandleDeinit :: "u32 \<Rightarrow> timers \<Rightarrow> timers option" where
  "timerHandleDeinit obj s = HAL_TIM_Base_DeInit (obj + tim_offset_handle) s"

definition setInterruptPriority :: "u32 \<Rightarrow> u32 \<Rightarrow> u32 \<Rightarrow> timers \<Rightarrow> timers option" where
  "setInterruptPriority obj pre sub s =
     do { let tim = tim_Instance (tim_objs s obj);
          up \<leftarrow> getTimerUpIrq tim;
          s \<leftarrow> nvic_SetPriority up pre sub s;
          cc \<leftarrow> getTimerCCIrq tim;
          s \<leftarrow> (if cc \<noteq> up then nvic_SetPriority cc pre sub s else Some s);
          Some (put_timer_obj obj ((tim_objs s obj)\<lparr>preemptPriority := pre, subPriority := sub\<rparr>) s) }"

text \<open>The interrupt handlers: the handles they pass to the handler of the HAL.\<close>

definition serve :: "nat \<Rightarrow> timers \<Rightarrow> u32 list" where
  "serve index s =
     (if HardwareTimer_Handle s ! index \<noteq> 0 then [HardwareTimer_Handle s ! index + tim_offset_handle] else [])"

definition TIM8_IRQHandler :: "timers \<Rightarrow> u32 list" where
  "TIM8_IRQHandler s = serve 7 s @ serve 9 s"

definition tim_irq :: "int \<Rightarrow> timers \<Rightarrow> u32 list" where
  "tim_irq n s =
     (if n = TIM1_IRQn then serve 0 s else if n = TIM1_CC_IRQn then serve 0 s
      else if n = TIM2_IRQn then serve 1 s else if n = TIM3_IRQn then serve 2 s
      else if n = TIM4_IRQn then serve 3 s else if n = TIM5_IRQn then serve 4 s
      else if n = TIM6_IRQn then serve 5 s else if n = TIM7_IRQn then serve 6 s
      else if n = TIM8_IRQn then TIM8_IRQHandler s else if n = TIM8_CC_IRQn then serve 7 s
      else if n = TIM12_IRQn then serve 8 s else if n = TIM14_IRQn then serve 10 s
      else if n = TIM15_IRQn then serve 11 s else if n = TIM16_IRQn then serve 12 s
      else if n = TIM17_IRQn then serve 13 s else [])"

section \<open>The functions of the driver in closed form\<close>

lemma htim_frame [simp]:
  "htim_Instance (s\<lparr>tim_clock := c\<rparr>) h = htim_Instance s h"
  "htim_Instance (s\<lparr>tim_enabled := e\<rparr>) h = htim_Instance s h"
  "htim_Instance (s\<lparr>tim_prio := p\<rparr>) h = htim_Instance s h"
  "htim_Instance (set_htim_State g st s) h = htim_Instance s h"
  by (simp_all add: htim_Instance_def set_htim_State_def)

lemma enable_fold:
  "fold (\<lambda>base s. if htim_Instance s h = base then s\<lparr>tim_clock := (tim_clock s)(base := v)\<rparr> else s) bs s =
     (if htim_Instance s h \<in> set bs then s\<lparr>tim_clock := (tim_clock s)(htim_Instance s h := v)\<rparr> else s)"
  by (induction bs arbitrary: s) auto

lemma enableTimerClock_eq:
  "enableTimerClock h s = (if htim_Instance s h \<in> set TIM_BASES
     then s\<lparr>tim_clock := (tim_clock s)(htim_Instance s h := True)\<rparr> else s)"
  by (simp add: enableTimerClock_def enable_fold)

lemma disableTimerClock_eq:
  "disableTimerClock h s = (if htim_Instance s h \<in> set TIM_BASES
     then s\<lparr>tim_clock := (tim_clock s)(htim_Instance s h := False)\<rparr> else s)"
  by (simp add: disableTimerClock_def enable_fold)

text \<open>The interrupts of a timer.\<close>

definition timer_irqs :: "u32 \<Rightarrow> int set" where
  "timer_irqs b = (case (getTimerUpIrq b, getTimerCCIrq b) of (Some u, Some c) \<Rightarrow> {u, c} | _ \<Rightarrow> {})"

lemma tim_base_cases:
  assumes "b \<in> set TIM_BASES"
  obtains "b = TIM1_BASE" | "b = TIM2_BASE" | "b = TIM3_BASE" | "b = TIM4_BASE" | "b = TIM5_BASE"
    | "b = TIM6_BASE" | "b = TIM7_BASE" | "b = TIM8_BASE" | "b = TIM12_BASE" | "b = TIM13_BASE"
    | "b = TIM14_BASE" | "b = TIM15_BASE" | "b = TIM16_BASE" | "b = TIM17_BASE"
  using assms by (auto simp: TIM_BASES_def)

lemma tim_known:
  assumes "b \<in> set TIM_BASES"
  shows "\<exists>u c. getTimerUpIrq b = Some u \<and> getTimerCCIrq b = Some c \<and> 0 \<le> u \<and> 0 \<le> c"
    and "get_timer_index b < TIMER_NUM" and "b \<noteq> 0" and "TIM_BASES ! get_timer_index b = b"
    and "getTimerClkSrc b \<in> {Some 1, Some 2}"
  using assms by (cases rule: tim_base_cases;
    simp add: getTimerUpIrq_def getTimerCCIrq_def get_timer_index_def getTimerClkSrc_def TIM_BASES_def tim_bases tim_irqs TIMER_NUM_def)+

lemma get_timer_index_inj:
  "b \<in> set TIM_BASES \<Longrightarrow> c \<in> set TIM_BASES \<Longrightarrow> get_timer_index b = get_timer_index c \<longleftrightarrow> b = c"
  by (metis tim_known(4))

lemma tim_unknown:
  assumes "b \<notin> set TIM_BASES"
  shows "getTimerUpIrq b = (if b = TIM_NC then Some NonMaskableInt_IRQn else None)"
    and "get_timer_index b = UNKNOWN_TIMER"
  using assms unfolding TIM_BASES_def by (simp_all add: getTimerUpIrq_def get_timer_index_def)

lemma MspInit_eq:
  assumes "getTimerUpIrq (htim_Instance s h) = Some u" and "getTimerCCIrq (htim_Instance s h) = Some c"
    and "0 \<le> u" and "0 \<le> c" and "htim_Instance s h \<in> set TIM_BASES"
  defines "ob \<equiv> tim_objs s (get_timer_obj h)"
  shows "HAL_TIM_Base_MspInit h s = Some (s\<lparr>tim_clock := (tim_clock s)(htim_Instance s h := True),
     tim_enabled := (tim_enabled s)(u := True, c := True),
     tim_prio := (tim_prio s)(u := (preemptPriority ob, subPriority ob), c := (preemptPriority ob, subPriority ob))\<rparr>)"
  using assms by (simp add: HAL_TIM_Base_MspInit_def enableTimerClock_eq nvic_SetPriority_def nvic_EnableIRQ_def Let_def)

lemma MspDeInit_eq:
  assumes "getTimerUpIrq (htim_Instance s h) = Some u" and "getTimerCCIrq (htim_Instance s h) = Some c"
    and "0 \<le> u" and "0 \<le> c" and "htim_Instance s h \<in> set TIM_BASES"
  shows "HAL_TIM_Base_MspDeInit h s = Some (s\<lparr>tim_clock := (tim_clock s)(htim_Instance s h := False),
     tim_enabled := (tim_enabled s)(u := False, c := False)\<rparr>)"
  using assms by (simp add: HAL_TIM_Base_MspDeInit_def disableTimerClock_eq nvic_DisableIRQ_def Let_def)

lemma MspDeInit_unknown:
  "htim_Instance s h \<notin> set TIM_BASES \<Longrightarrow> HAL_TIM_Base_MspDeInit h s = None"
  by (simp add: HAL_TIM_Base_MspDeInit_def disableTimerClock_eq Let_def tim_unknown nvic_DisableIRQ_def NonMaskableInt_IRQn_def)

text \<open>The functions for output compare do what those for the time base do.\<close>

lemma OC_same:
  "HAL_TIM_OC_MspInit = HAL_TIM_Base_MspInit" "HAL_TIM_OC_MspDeInit = HAL_TIM_Base_MspDeInit"
  by (simp_all add: fun_eq_iff HAL_TIM_OC_MspInit_def HAL_TIM_Base_MspInit_def HAL_TIM_OC_MspDeInit_def HAL_TIM_Base_MspDeInit_def)

section \<open>The pin table of the timers\<close>

text \<open>What the row of a pin leads to: a timer of the board with its clock source and interrupts, and the
  channel that the row names.\<close>

definition tim_row_ok :: "PinMap \<Rightarrow> bool" where
  "tim_row_ok r = (case r of (p, per, f) \<Rightarrow>
     getTimerChannel p = Some (4 * (STM_PIN_CHANNEL f - 1)) \<and>
     (case tim_base per of None \<Rightarrow> False
      | Some b \<Rightarrow> b \<in> set TIM_BASES \<and> getTimerClkSrc b \<noteq> None \<and> getTimerUpIrq b \<noteq> None \<and> getTimerCCIrq b \<noteq> None))"

definition tim_chan_ok :: "PinMap \<Rightarrow> bool" where
  "tim_chan_ok r = (case r of (p, per, f) \<Rightarrow> STM_PIN_CHANNEL f \<in> {1, 2, 3, 4} \<and> tim_base per \<noteq> None)"

lemma tim_rows: "list_all tim_chan_ok (butlast PinMap_TIM)"
  by (simp add: PinMap_TIM_def tim_chan_ok_def STM_PIN_CHANNEL_def STM_PIN_DATA_EXT_def consts_simp)

lemma tim_base_board: "tim_base per = Some b \<Longrightarrow> b \<in> set TIM_BASES"
  by (cases per) (auto simp: TIM_BASES_def)

text \<open>Every pin of the board that the table offers for a timer can be used: its row names a timer
  that the microcontroller has, with a clock source and both interrupts, and the channel of the row is
  the one the HAL is given.\<close>

theorem timer_pins_usable:
  assumes "(p, per, f) \<in> set (butlast PinMap_TIM)"
  shows "tim_row_ok (p, per, f)"
proof -
  have f: "pinmap_function p PinMap_TIM = Some f"
    using assms table_lookups [OF PinMap_TIM_ok [THEN conjunct1]] by fastforce
  have "tim_chan_ok (p, per, f)" using assms tim_rows by (auto simp: list_all_iff)
  then have c: "STM_PIN_CHANNEL f \<in> {1, 2, 3, 4}" and "tim_base per \<noteq> None" by (auto simp: tim_chan_ok_def)
  then obtain b where b: "tim_base per = Some b" by auto
  from c have "getTimerChannel p = Some (4 * (STM_PIN_CHANNEL f - 1))"
    using f by (auto simp: getTimerChannel_def Let_def consts_simp)
  then show ?thesis
    using b tim_known(1,5) [OF tim_base_board [OF b]] tim_base_board [OF b] by (auto simp: tim_row_ok_def)
qed

theorem timer_pins_usable_witness: "tim_row_ok (PA 0, TIM2, STM_PIN_DATA_EXT STM_MODE_AF_PP GPIO_PULLUP 1 1 0)"
  by (rule timer_pins_usable) (simp add: PinMap_TIM_def)

section \<open>Timers in use\<close>

text \<open>What a sketch does with timer objects. An object is constructed where no registered one is. It is
  released by \<^verbatim>\<open>timerHandleDeinit\<close> when it is the registered one of its timer and no other
  timer in use shares its vector.\<close>

definition timer_of :: "timers \<Rightarrow> u32 \<Rightarrow> u32" where
  "timer_of s b = HardwareTimer_Handle s ! get_timer_index b"

definition in_use :: "timers \<Rightarrow> u32 \<Rightarrow> bool" where
  "in_use s b \<longleftrightarrow> timer_of s b \<noteq> 0 \<and> tim_State (tim_objs s (timer_of s b)) \<noteq> HAL_TIM_STATE_RESET"

inductive tim_step :: "timers \<Rightarrow> timers \<Rightarrow> bool" where
  construct: "obj \<notin> set (HardwareTimer_Handle s) \<Longrightarrow> tim_step s (timer_construct obj s)"
| begins: "obj \<noteq> 0 \<Longrightarrow> timer_setup obj this tim s = Some s' \<Longrightarrow> tim_step s s'"
| destroy: "timer_destroy obj s = Some s' \<Longrightarrow> tim_step s s'"
| release: "obj = timer_of s (tim_Instance (tim_objs s obj)) \<Longrightarrow>
    \<forall>c \<in> set TIM_BASES. in_use s c \<and> c \<noteq> tim_Instance (tim_objs s obj) \<longrightarrow>
      timer_irqs c \<inter> timer_irqs (tim_Instance (tim_objs s obj)) = {} \<Longrightarrow>
    timerHandleDeinit obj s = Some s' \<Longrightarrow> tim_step s s'"
| priority: "setInterruptPriority obj pre sub s = Some s' \<Longrightarrow> tim_step s s'"

definition timers0 :: "timers" where
  "timers0 = \<lparr>tim_objs = (\<lambda>_. \<lparr>tim_this = 0, tim_Instance = 0, tim_State = HAL_TIM_STATE_RESET,
       preemptPriority = 0, subPriority = 0\<rparr>),
     tim_clock = (\<lambda>_. False), tim_enabled = (\<lambda>_. False), tim_prio = (\<lambda>_. (0, 0)),
     HardwareTimer_Handle = replicate TIMER_NUM 0\<rparr>"

definition tim_reachable :: "timers \<Rightarrow> bool" where
  "tim_reachable s \<longleftrightarrow> tim_step\<^sup>*\<^sup>* timers0 s"

text \<open>The invariant of one timer and of all.\<close>

definition timer_inv :: "timers \<Rightarrow> u32 \<Rightarrow> bool" where
  "timer_inv s b \<longleftrightarrow> (timer_of s b \<noteq> 0 \<longrightarrow> tim_Instance (tim_objs s (timer_of s b)) = b) \<and>
     (in_use s b \<longrightarrow> tim_clock s b \<and> (\<forall>n \<in> timer_irqs b. tim_enabled s n))"

definition timers_inv :: "timers \<Rightarrow> bool" where
  "timers_inv s \<longleftrightarrow> length (HardwareTimer_Handle s) = TIMER_NUM \<and> (\<forall>b \<in> set TIM_BASES. timer_inv s b)"

lemma irqs_known:
  assumes "b \<in> set TIM_BASES"
  obtains u c where "getTimerUpIrq b = Some u" "getTimerCCIrq b = Some c" "0 \<le> u" "0 \<le> c" "timer_irqs b = {u, c}"
  using tim_known(1) [OF assms] by (auto simp: timer_irqs_def)

lemma timer_of_mem:
  "length (HardwareTimer_Handle s) = TIMER_NUM \<Longrightarrow> b \<in> set TIM_BASES \<Longrightarrow> timer_of s b \<in> set (HardwareTimer_Handle s)"
  using tim_known(2) by (simp add: timer_of_def)

text \<open>The state of a timer depends on its object, its clock and its interrupts only.\<close>

lemma timer_inv_frame:
  assumes "timer_inv s b" and "timer_of s' b = timer_of s b"
    and "tim_Instance (tim_objs s' (timer_of s b)) = tim_Instance (tim_objs s (timer_of s b))"
    and "tim_State (tim_objs s' (timer_of s b)) = HAL_TIM_STATE_RESET \<or>
      tim_State (tim_objs s' (timer_of s b)) = tim_State (tim_objs s (timer_of s b))"
    and "in_use s b \<Longrightarrow> tim_clock s b \<longrightarrow> tim_clock s' b"
    and "\<And>n. in_use s b \<Longrightarrow> n \<in> timer_irqs b \<Longrightarrow> tim_enabled s n \<longrightarrow> tim_enabled s' n"
  shows "timer_inv s' b"
  using assms by (auto simp: timer_inv_def in_use_def)

lemma construct_inv:
  assumes "timers_inv s" and "obj \<notin> set (HardwareTimer_Handle s)"
  shows "timers_inv (timer_construct obj s)"
  unfolding timers_inv_def
proof (intro conjI ballI)
  show "length (HardwareTimer_Handle (timer_construct obj s)) = TIMER_NUM"
    using assms by (simp add: timers_inv_def timer_construct_def put_timer_obj_def)
  fix b assume b: "b \<in> set TIM_BASES"
  then have "timer_of s b \<noteq> obj" using assms timer_of_mem by (auto simp: timers_inv_def)
  moreover have "timer_inv s b" using assms(1) b by (simp add: timers_inv_def)
  ultimately show "timer_inv (timer_construct obj s) b"
    by - (rule timer_inv_frame [of s], simp_all add: timer_construct_def put_timer_obj_def timer_of_def)
qed

text \<open>Set-up succeeds for a timer of the board and an object without one, and only then.\<close>

lemma timer_setup_eq:
  assumes "length (HardwareTimer_Handle s) = TIMER_NUM"
  shows "timer_setup obj this tim s =
    (if tim \<in> set TIM_BASES \<and> tim_Instance (tim_objs s obj) = 0 then
       Some (s\<lparr>HardwareTimer_Handle := (HardwareTimer_Handle s)[get_timer_index tim := obj],
         tim_clock := (tim_clock s)(tim := True),
         tim_enabled := (\<lambda>n. n \<in> timer_irqs tim \<or> tim_enabled s n),
         tim_prio := (\<lambda>n. if n \<in> timer_irqs tim then (TIM_IRQ_PRIO, TIM_IRQ_SUBPRIO) else tim_prio s n),
         tim_objs := (tim_objs s)(obj := (tim_objs s obj)\<lparr>tim_Instance := tim, tim_this := this,
           preemptPriority := TIM_IRQ_PRIO, subPriority := TIM_IRQ_SUBPRIO, tim_State := HAL_TIM_STATE_READY\<rparr>)\<rparr>)
     else None)"
proof (cases "tim \<in> set TIM_BASES \<and> tim_Instance (tim_objs s obj) = 0")
  case True
  then obtain u c where uc: "getTimerUpIrq tim = Some u" "getTimerCCIrq tim = Some c" "0 \<le> u" "0 \<le> c"
    "timer_irqs tim = {u, c}" using irqs_known by metis
  define t where "t = s\<lparr>HardwareTimer_Handle := (HardwareTimer_Handle s)[get_timer_index tim := obj],
    tim_objs := (tim_objs s)(obj := (tim_objs s obj)\<lparr>tim_Instance := tim, tim_State := HAL_TIM_STATE_RESET,
      tim_this := this, preemptPriority := TIM_IRQ_PRIO, subPriority := TIM_IRQ_SUBPRIO\<rparr>),
    tim_clock := (tim_clock s)(tim := True)\<rparr>"
  have i: "get_timer_index tim < TIMER_NUM" "get_timer_index tim \<noteq> UNKNOWN_TIMER"
    using True tim_known(2) [of tim] by (auto simp: consts_simp)
  have en: "(tim_enabled s)(u := True, c := True) = (\<lambda>n. n \<in> timer_irqs tim \<or> tim_enabled s n)"
    by (auto simp: uc(5) fun_eq_iff)
  have prio: "(tim_prio s)(u := p, c := p) = (\<lambda>n. if n \<in> timer_irqs tim then p else tim_prio s n)" for p
    by (auto simp: uc(5) fun_eq_iff)
  have inst: "htim_Instance t (obj + tim_offset_handle) = tim" by (simp add: htim_Instance_def t_def)
  have "timer_setup obj this tim s = HAL_TIM_Base_Init (obj + tim_offset_handle) t"
    using True i assms by (simp add: timer_setup_def set_HardwareTimer_Handle_def enableTimerClock_eq
      htim_Instance_def put_timer_obj_def t_def Let_def)
  also have "\<dots> = Some (set_htim_State (obj + tim_offset_handle) HAL_TIM_STATE_READY
      (set_htim_State (obj + tim_offset_handle) HAL_TIM_STATE_BUSY
        (t\<lparr>tim_clock := (tim_clock t)(tim := True), tim_enabled := (tim_enabled t)(u := True, c := True),
          tim_prio := (tim_prio t)(u := (TIM_IRQ_PRIO, TIM_IRQ_SUBPRIO), c := (TIM_IRQ_PRIO, TIM_IRQ_SUBPRIO))\<rparr>)))"
    using MspInit_eq [of t "obj + tim_offset_handle" u c] uc True inst
    by (simp add: HAL_TIM_Base_Init_def htim_State_def get_timer_obj_def t_def)
  also have "\<dots> = Some (s\<lparr>HardwareTimer_Handle := (HardwareTimer_Handle s)[get_timer_index tim := obj],
         tim_clock := (tim_clock s)(tim := True),
         tim_enabled := (\<lambda>n. n \<in> timer_irqs tim \<or> tim_enabled s n),
         tim_prio := (\<lambda>n. if n \<in> timer_irqs tim then (TIM_IRQ_PRIO, TIM_IRQ_SUBPRIO) else tim_prio s n),
         tim_objs := (tim_objs s)(obj := (tim_objs s obj)\<lparr>tim_Instance := tim, tim_this := this,
           preemptPriority := TIM_IRQ_PRIO, subPriority := TIM_IRQ_SUBPRIO, tim_State := HAL_TIM_STATE_READY\<rparr>)\<rparr>)"
    by (simp add: set_htim_State_def t_def en prio)
  finally show ?thesis using True by simp
next
  case False
  then show ?thesis by (auto simp: timer_setup_def Let_def tim_unknown UNKNOWN_TIMER_def)
qed

lemma setup_inv:
  assumes "timers_inv s" and "timer_setup obj this tim s = Some s'"
  shows "timers_inv s'"
proof -
  from assms have l: "length (HardwareTimer_Handle s) = TIMER_NUM" by (simp add: timers_inv_def)
  from assms(2) have tim: "tim \<in> set TIM_BASES" "tim_Instance (tim_objs s obj) = 0"
    and s': "s' = s\<lparr>HardwareTimer_Handle := (HardwareTimer_Handle s)[get_timer_index tim := obj],
         tim_clock := (tim_clock s)(tim := True),
         tim_enabled := (\<lambda>n. n \<in> timer_irqs tim \<or> tim_enabled s n),
         tim_prio := (\<lambda>n. if n \<in> timer_irqs tim then (TIM_IRQ_PRIO, TIM_IRQ_SUBPRIO) else tim_prio s n),
         tim_objs := (tim_objs s)(obj := (tim_objs s obj)\<lparr>tim_Instance := tim, tim_this := this,
           preemptPriority := TIM_IRQ_PRIO, subPriority := TIM_IRQ_SUBPRIO, tim_State := HAL_TIM_STATE_READY\<rparr>)\<rparr>"
    by (auto simp: timer_setup_eq [OF l] split: if_splits)
  have "timer_inv s' b" if b: "b \<in> set TIM_BASES" for b
  proof (cases "b = tim")
    case True
    then have "timer_of s' b = obj" using l tim_known(2) [OF b] by (simp add: s' timer_of_def)
    then show ?thesis using True by (simp add: timer_inv_def s')
  next
    case False
    then have of: "timer_of s' b = timer_of s b"
      using get_timer_index_inj [OF b tim(1)] by (simp add: s' timer_of_def)
    have inv: "timer_inv s b" using assms(1) b by (simp add: timers_inv_def)
    have "timer_of s b \<noteq> 0 \<Longrightarrow> timer_of s b \<noteq> obj"
      using inv tim(2) tim_known(3) [OF b] by (auto simp: timer_inv_def)
    then show ?thesis
      using of inv by (cases "timer_of s b = 0") (auto simp: timer_inv_def in_use_def s')
  qed
  then show ?thesis using l by (simp add: timers_inv_def s')
qed

lemma destroy_inv:
  assumes "timers_inv s" and "timer_destroy obj s = Some s'"
  shows "timers_inv s'"
proof -
  from assms have l: "length (HardwareTimer_Handle s) = TIMER_NUM" by (simp add: timers_inv_def)
  let ?tim = "tim_Instance (tim_objs s obj)"
  have tim: "?tim \<in> set TIM_BASES"
  proof (rule ccontr)
    assume "?tim \<notin> set TIM_BASES"
    then show False
      using assms(2) l by (auto simp: timer_destroy_def Let_def tim_unknown set_HardwareTimer_Handle_def
        disableTimerClock_eq htim_Instance_def consts_simp)
  qed
  then have s': "s' = s\<lparr>tim_clock := (tim_clock s)(?tim := False),
      HardwareTimer_Handle := (HardwareTimer_Handle s)[get_timer_index ?tim := 0],
      tim_objs := (tim_objs s)(obj := (tim_objs s obj)\<lparr>tim_this := 0\<rparr>)\<rparr>"
    using assms(2) l tim_known(2) [OF tim] by (simp add: timer_destroy_def Let_def set_HardwareTimer_Handle_def
      disableTimerClock_eq htim_Instance_def put_timer_obj_def)
  have "timer_inv s' b" if b: "b \<in> set TIM_BASES" for b
  proof (cases "b = ?tim")
    case True
    then have "timer_of s' b = 0" using l tim_known(2) [OF b] by (simp add: s' timer_of_def)
    then show ?thesis by (simp add: timer_inv_def in_use_def)
  next
    case False
    then have "timer_of s' b = timer_of s b"
      using get_timer_index_inj [OF b tim] by (simp add: s' timer_of_def)
    moreover have "timer_inv s b" using assms(1) b by (simp add: timers_inv_def)
    ultimately show ?thesis using False by - (rule timer_inv_frame [of s], simp_all add: s')
  qed
  then show ?thesis using l by (simp add: timers_inv_def s')
qed

lemma release_eq:
  assumes "timerHandleDeinit obj s = Some s'"
  defines "tim \<equiv> tim_Instance (tim_objs s obj)"
  shows "tim \<in> set TIM_BASES" and "s' = s\<lparr>tim_clock := (tim_clock s)(tim := False),
      tim_enabled := (\<lambda>n. n \<notin> timer_irqs tim \<and> tim_enabled s n),
      tim_objs := (tim_objs s)(obj := (tim_objs s obj)\<lparr>tim_State := HAL_TIM_STATE_RESET\<rparr>)\<rparr>"
proof -
  let ?h = "obj + tim_offset_handle" and ?s = "set_htim_State (obj + tim_offset_handle) HAL_TIM_STATE_BUSY s"
  have inst: "htim_Instance ?s ?h = tim" by (simp add: htim_Instance_def tim_def set_htim_State_def)
  show tim: "tim \<in> set TIM_BASES"
  proof (rule ccontr)
    assume "tim \<notin> set TIM_BASES"
    then have "HAL_TIM_Base_MspDeInit ?h ?s = None" by (intro MspDeInit_unknown) (simp only: inst not_False_eq_True)
    then show False using assms(1) by (simp add: timerHandleDeinit_def HAL_TIM_Base_DeInit_def)
  qed
  then obtain u c where uc: "getTimerUpIrq tim = Some u" "getTimerCCIrq tim = Some c" "0 \<le> u" "0 \<le> c"
    "timer_irqs tim = {u, c}" using irqs_known by metis
  have en: "(tim_enabled s)(u := False, c := False) = (\<lambda>n. n \<notin> timer_irqs tim \<and> tim_enabled s n)"
    by (auto simp: uc(5) fun_eq_iff)
  show "s' = s\<lparr>tim_clock := (tim_clock s)(tim := False),
      tim_enabled := (\<lambda>n. n \<notin> timer_irqs tim \<and> tim_enabled s n),
      tim_objs := (tim_objs s)(obj := (tim_objs s obj)\<lparr>tim_State := HAL_TIM_STATE_RESET\<rparr>)\<rparr>"
    using assms(1) MspDeInit_eq [of ?s ?h u c] uc tim inst
    by (simp add: timerHandleDeinit_def HAL_TIM_Base_DeInit_def set_htim_State_def en)
qed

lemma release_inv:
  assumes "timers_inv s" and "obj = timer_of s (tim_Instance (tim_objs s obj))"
    and shared: "\<forall>c \<in> set TIM_BASES. in_use s c \<and> c \<noteq> tim_Instance (tim_objs s obj) \<longrightarrow>
      timer_irqs c \<inter> timer_irqs (tim_Instance (tim_objs s obj)) = {}"
    and r: "timerHandleDeinit obj s = Some s'"
  shows "timers_inv s'"
proof -
  let ?tim = "tim_Instance (tim_objs s obj)"
  note tim = release_eq(1) [OF r] and s' = release_eq(2) [OF r]
  have of: "timer_of s' b = timer_of s b" for b by (simp add: s' timer_of_def)
  have "timer_inv s' b" if b: "b \<in> set TIM_BASES" for b
  proof (cases "b = ?tim")
    case True
    then have "tim_State (tim_objs s' (timer_of s b)) = HAL_TIM_STATE_RESET"
      using assms(2) by (simp add: s')
    moreover have "timer_of s b \<noteq> 0 \<longrightarrow> tim_Instance (tim_objs s' (timer_of s b)) = b"
      using True assms(2) by (simp add: s')
    ultimately show ?thesis by (simp add: timer_inv_def in_use_def of)
  next
    case False
    have "timer_inv s b" using assms(1) b by (simp add: timers_inv_def)
    moreover have "timer_irqs b \<inter> timer_irqs ?tim = {}" if "in_use s b" using shared that False b by blast
    ultimately show ?thesis
      using False of by - (rule timer_inv_frame [of s], auto simp: s')
  qed
  then show ?thesis using assms(1) by (simp add: timers_inv_def s')
qed

lemma priority_inv:
  assumes "timers_inv s" and "setInterruptPriority obj pre sub s = Some s'"
  shows "timers_inv s'"
proof -
  from assms(2) obtain q where s': "s' = s\<lparr>tim_prio := q,
      tim_objs := (tim_objs s)(obj := (tim_objs s obj)\<lparr>preemptPriority := pre, subPriority := sub\<rparr>)\<rparr>"
    by (auto simp: setInterruptPriority_def nvic_SetPriority_def put_timer_obj_def Let_def
      split: if_splits bind_splits)
  have "timer_inv s' b" if "timer_inv s b" for b
    using that by - (rule timer_inv_frame [of s], simp_all add: s' timer_of_def)
  then show ?thesis using assms(1) by (simp add: timers_inv_def s')
qed

lemma timers_inv0: "timers_inv timers0"
  by (simp add: timers_inv_def timers0_def timer_inv_def in_use_def timer_of_def tim_known(2))

lemma tim_step_inv: "tim_step s s' \<Longrightarrow> timers_inv s \<Longrightarrow> timers_inv s'"
  by (induction rule: tim_step.induct)
    (blast intro: construct_inv setup_inv destroy_inv release_inv priority_inv)+

lemma tim_reachable_inv: "tim_reachable s \<Longrightarrow> timers_inv s"
  unfolding tim_reachable_def
  by (induction rule: rtranclp_induct) (auto intro: timers_inv0 tim_step_inv)

text \<open>The handler at either vector of a timer serves its object.\<close>

lemma vector_serves:
  assumes "b \<in> set TIM_BASES" and "timer_of s b \<noteq> 0" and "n \<in> timer_irqs b"
  shows "timer_of s b + tim_offset_handle \<in> set (tim_irq n s)"
  using assms by (cases rule: tim_base_cases)
    (auto simp: timer_irqs_def getTimerUpIrq_def getTimerCCIrq_def tim_bases tim_irqs tim_irq_def serve_def
      TIM8_IRQHandler_def timer_of_def get_timer_index_def)


lemma timers0_fields:
  "length (HardwareTimer_Handle timers0) = TIMER_NUM" "tim_Instance (tim_objs timers0 obj) = 0"
  "i < TIMER_NUM \<Longrightarrow> HardwareTimer_Handle timers0 ! i = 0"
  by (simp_all add: timers0_def)


section \<open>Shared vectors\<close>

text \<open>Of all timers only 8 and 13 share a vector.\<close>

lemma timer_irqs_eq:
  "timer_irqs TIM1_BASE = {25, 27}" "timer_irqs TIM2_BASE = {28}" "timer_irqs TIM3_BASE = {29}"
  "timer_irqs TIM4_BASE = {30}" "timer_irqs TIM5_BASE = {50}" "timer_irqs TIM6_BASE = {54}"
  "timer_irqs TIM7_BASE = {55}" "timer_irqs TIM8_BASE = {44, 46}" "timer_irqs TIM12_BASE = {43}"
  "timer_irqs TIM13_BASE = {44}" "timer_irqs TIM14_BASE = {45}" "timer_irqs TIM15_BASE = {116}"
  "timer_irqs TIM16_BASE = {117}" "timer_irqs TIM17_BASE = {118}"
  by (simp_all add: timer_irqs_def getTimerUpIrq_def getTimerCCIrq_def tim_bases tim_irqs)

definition vector_owner :: "int \<Rightarrow> u32" where
  "vector_owner n = (if n \<in> {25, 27} then TIM1_BASE else if n = 28 then TIM2_BASE else if n = 29 then TIM3_BASE
    else if n = 30 then TIM4_BASE else if n = 50 then TIM5_BASE else if n = 54 then TIM6_BASE
    else if n = 55 then TIM7_BASE else if n = 46 then TIM8_BASE else if n = 43 then TIM12_BASE
    else if n = 45 then TIM14_BASE else if n = 116 then TIM15_BASE else if n = 117 then TIM16_BASE else TIM17_BASE)"

lemma owner_of_vector:
  assumes "b \<in> set TIM_BASES" and "n \<in> timer_irqs b" and "n \<noteq> 44"
  shows "b = vector_owner n"
  using assms by (cases rule: tim_base_cases) (auto simp: timer_irqs_eq vector_owner_def)

lemma shared_vectors:
  assumes "b \<in> set TIM_BASES" and "c \<in> set TIM_BASES" and "b \<noteq> c"
  shows "timer_irqs b \<inter> timer_irqs c \<noteq> {} \<longleftrightarrow> {b, c} = {TIM8_BASE, TIM13_BASE}"
proof -
  have irqs: "n \<in> timer_irqs b \<Longrightarrow> n \<in> timer_irqs c \<Longrightarrow> b = c \<or> n = 44" for n
    using owner_of_vector [OF assms(1)] owner_of_vector [OF assms(2)] by metis
  have "44 \<in> timer_irqs b \<Longrightarrow> b \<in> {TIM8_BASE, TIM13_BASE}" if "b \<in> set TIM_BASES" for b
    using that by (cases rule: tim_base_cases) (simp_all add: timer_irqs_eq)
  then have "timer_irqs b \<inter> timer_irqs c \<noteq> {} \<Longrightarrow> {b, c} = {TIM8_BASE, TIM13_BASE}"
    using irqs assms by blast
  moreover have "{b, c} = {TIM8_BASE, TIM13_BASE} \<Longrightarrow> 44 \<in> timer_irqs b \<inter> timer_irqs c"
    by (auto simp: doubleton_eq_iff timer_irqs_eq)
  ultimately show ?thesis by blast
qed

text \<open>C34: Timers 8 and 13 share an interrupt, and releasing one disables it for the other: after
  \<^verbatim>\<open>timerHandleDeinit\<close> of timer 13, timer 8 is still set up and its clock runs, but its update interrupt is off.\<close>

theorem timer13_release_silences_timer8:
  assumes "tim_reachable s" and "in_use s TIM8_BASE" and "in_use s TIM13_BASE"
  shows "\<exists>s'. timerHandleDeinit (timer_of s TIM13_BASE) s = Some s' \<and>
    in_use s' TIM8_BASE \<and> tim_clock s' TIM8_BASE \<and> getTimerUpIrq TIM8_BASE = Some TIM8_IRQn \<and>
    tim_enabled s TIM8_IRQn \<and> \<not> tim_enabled s' TIM8_IRQn"
proof -
  have b: "TIM8_BASE \<in> set TIM_BASES" "TIM13_BASE \<in> set TIM_BASES" by (simp_all add: TIM_BASES_def)
  have irqs: "getTimerUpIrq TIM8_BASE = Some TIM8_IRQn" "getTimerUpIrq TIM13_BASE = Some TIM8_IRQn"
    "getTimerCCIrq TIM13_BASE = Some TIM8_IRQn" "timer_irqs TIM13_BASE = {TIM8_IRQn}" "TIM8_IRQn \<in> timer_irqs TIM8_BASE"
    by (simp_all add: getTimerUpIrq_def getTimerCCIrq_def timer_irqs_def tim_bases tim_irqs)
  have inv: "timer_inv s TIM8_BASE" "timer_inv s TIM13_BASE"
    using tim_reachable_inv [OF assms(1)] b by (auto simp: timers_inv_def)
  let ?o = "timer_of s TIM13_BASE"
  have o13: "tim_Instance (tim_objs s ?o) = TIM13_BASE" using inv(2) assms(3) by (simp add: timer_inv_def in_use_def)
  have o8: "timer_of s TIM8_BASE \<noteq> ?o"
    using inv(1) assms(2) o13 by (auto simp: timer_inv_def in_use_def TIM8_BASE_def TIM13_BASE_def)
  let ?s = "set_htim_State (?o + tim_offset_handle) HAL_TIM_STATE_BUSY s"
  have "htim_Instance ?s (?o + tim_offset_handle) = TIM13_BASE" using o13 by (simp add: htim_Instance_def set_htim_State_def)
  from MspDeInit_eq [of ?s "?o + tim_offset_handle" TIM8_IRQn TIM8_IRQn] this irqs b obtain s'
    where s': "timerHandleDeinit ?o s = Some s'"
    by (simp add: timerHandleDeinit_def HAL_TIM_Base_DeInit_def tim_irqs)
  note eq = release_eq(2) [OF s', unfolded o13]
  have "in_use s' TIM8_BASE" using assms(2) o8 by (simp add: eq in_use_def timer_of_def)
  moreover have "tim_clock s' TIM8_BASE" "tim_enabled s TIM8_IRQn"
    using inv(1) assms(2) irqs(5) by (simp_all add: eq timer_inv_def TIM8_BASE_def TIM13_BASE_def)
  moreover have "\<not> tim_enabled s' TIM8_IRQn" using irqs(4) by (simp add: eq)
  ultimately show ?thesis using s' irqs(1) by blast
qed

theorem timer13_release_silences_timer8_witness:
  "\<exists>s s'. tim_reachable s \<and> in_use s TIM8_BASE \<and> in_use s TIM13_BASE \<and>
    timerHandleDeinit (timer_of s TIM13_BASE) s = Some s' \<and>
    in_use s' TIM8_BASE \<and> tim_clock s' TIM8_BASE \<and> getTimerUpIrq TIM8_BASE = Some TIM8_IRQn \<and>
    tim_enabled s TIM8_IRQn \<and> \<not> tim_enabled s' TIM8_IRQn"
proof -
  have b: "TIM8_BASE \<in> set TIM_BASES" "TIM13_BASE \<in> set TIM_BASES" by (simp_all add: TIM_BASES_def)
  note len = timers0_fields(1)
  obtain s1 where s1: "timer_setup 0x24000100 0x24000000 TIM8_BASE timers0 = Some s1"
    using b timers0_fields(2) by (simp add: timer_setup_eq [OF len])
  have e1: "length (HardwareTimer_Handle s1) = TIMER_NUM" "tim_Instance (tim_objs s1 0x24000300) = 0"
    "HardwareTimer_Handle s1 ! 7 = 0x24000100" "tim_State (tim_objs s1 0x24000100) = HAL_TIM_STATE_READY"
    using s1 b unfolding timer_setup_eq [OF len]
    by (auto simp: timers0_fields get_timer_index_def tim_bases TIMER_NUM_def)
  obtain s where s: "timer_setup 0x24000300 0x24000200 TIM13_BASE s1 = Some s"
    using b e1 by (simp add: timer_setup_eq [OF e1(1)])
  have "tim_step timers0 s1" by (rule tim_step.begins [OF _ s1]) simp
  moreover have "tim_step s1 s" by (rule tim_step.begins [OF _ s]) simp
  ultimately have r: "tim_reachable s" by (simp add: tim_reachable_def)
  have u: "in_use s TIM8_BASE" "in_use s TIM13_BASE"
    using s b e1 unfolding timer_setup_eq [OF e1(1)]
    by (auto simp: in_use_def timer_of_def get_timer_index_def tim_bases TIMER_NUM_def)
  show ?thesis using r u timer13_release_silences_timer8 [OF r u] by blast
qed

text \<open>An object that was constructed without a timer and never set up cannot be destroyed: the destructor
  stores beyond the table of handles.\<close>

theorem destroy_without_setup:
  "length (HardwareTimer_Handle s) = TIMER_NUM \<Longrightarrow> timer_destroy obj (timer_construct obj s) = None"
  by (simp add: timer_destroy_def timer_construct_def put_timer_obj_def set_HardwareTimer_Handle_def
    disableTimerClock_eq htim_Instance_def get_timer_index_def tim_bases consts_simp Let_def)

text \<open>A priority set on a timer is that of both its vectors and is kept in its object.\<close>

theorem priority_applies:
  assumes "tim_Instance (tim_objs s obj) = b" and "b \<in> set TIM_BASES"
  shows "\<exists>s'. setInterruptPriority obj pre sub s = Some s' \<and> (\<forall>n \<in> timer_irqs b. tim_prio s' n = (pre, sub)) \<and>
    (\<forall>n. n \<notin> timer_irqs b \<longrightarrow> tim_prio s' n = tim_prio s n) \<and>
    preemptPriority (tim_objs s' obj) = pre \<and> subPriority (tim_objs s' obj) = sub"
proof -
  obtain u c where "getTimerUpIrq b = Some u" "getTimerCCIrq b = Some c" "0 \<le> u" "0 \<le> c" "timer_irqs b = {u, c}"
    using irqs_known [OF assms(2)] by metis
  then show ?thesis
    using assms(1) by (simp add: setInterruptPriority_def nvic_SetPriority_def put_timer_obj_def Let_def)
qed

end
