(* ===== verification/Usb_Strings.thy ===== *)
theory Usb_Strings
  imports Usb_Cdc_Desc Udp_Server
begin

text \<open>
  The device and string descriptors of the USB device
  (\<^verbatim>\<open>cores/arduino/stm32/usb/usbd_desc.c\<close>, \<^verbatim>\<open>usbd_desc.h\<close>) for the CDC class, and the function of the USB
  library that turns a C string into a string descriptor (\<^verbatim>\<open>USBD_GetString\<close> of \<^verbatim>\<open>usbd_ctlreq.c\<close>). A
  C string is the list of bytes up to and with its zero; one without a zero has no result. The name of the board is a
  parameter.
\<close>

section \<open>Constants\<close>

definition USB_DESC_TYPE_DEVICE :: u8 where [consts_simp]: "USB_DESC_TYPE_DEVICE = 1"
definition USB_DESC_TYPE_STRING :: u8 where [consts_simp]: "USB_DESC_TYPE_STRING = 3"
definition USBD_IDX_MFC_STR :: u8 where [consts_simp]: "USBD_IDX_MFC_STR = 1"
definition USBD_IDX_PRODUCT_STR :: u8 where [consts_simp]: "USBD_IDX_PRODUCT_STR = 2"
definition USBD_IDX_SERIAL_STR :: u8 where [consts_simp]: "USBD_IDX_SERIAL_STR = 3"
definition USBD_MAX_NUM_CONFIGURATION :: u8 where [consts_simp]: "USBD_MAX_NUM_CONFIGURATION = 1"
definition USBD_MAX_STR_DESC_SIZ :: nat where [consts_simp]: "USBD_MAX_STR_DESC_SIZ = 0x100"
definition USB_LEN_LANGID_STR_DESC :: u8 where [consts_simp]: "USB_LEN_LANGID_STR_DESC = 4"
definition USB_SIZ_STRING_SERIAL :: u8 where [consts_simp]: "USB_SIZ_STRING_SERIAL = 0x1A"
definition USBD_VID :: nat where [consts_simp]: "USBD_VID = 0x0483"
definition USBD_PID :: nat where [consts_simp]: "USBD_PID = 0x5740"
definition USBD_LANGID_STRING :: nat where [consts_simp]: "USBD_LANGID_STRING = 0x409"

text \<open>\<^verbatim>\<open>CONCATS\<close> joins its arguments by a blank; the literals of the code with their zero.\<close>

definition CONCATS :: "string \<Rightarrow> string \<Rightarrow> u8 list" where
  "CONCATS s1 s2 = bytes_of (s1 @ '' '' @ s2) @ [0]"

definition USBD_MANUFACTURER_STRING :: "u8 list" where
  "USBD_MANUFACTURER_STRING = bytes_of ''STMicroelectronics'' @ [0]"

definition USBD_CLASS_PRODUCT_HS_STRING :: "string \<Rightarrow> u8 list" where
  "USBD_CLASS_PRODUCT_HS_STRING name = CONCATS name ''CDC in HS Mode''"
definition USBD_CLASS_PRODUCT_FS_STRING :: "string \<Rightarrow> u8 list" where
  "USBD_CLASS_PRODUCT_FS_STRING name = CONCATS name ''CDC in FS Mode''"
definition USBD_CLASS_CONFIGURATION_HS_STRING :: "string \<Rightarrow> u8 list" where
  "USBD_CLASS_CONFIGURATION_HS_STRING name = CONCATS name ''CDC Config''"
definition USBD_CLASS_INTERFACE_HS_STRING :: "string \<Rightarrow> u8 list" where
  "USBD_CLASS_INTERFACE_HS_STRING name = CONCATS name ''CDC Interface''"
definition USBD_CLASS_CONFIGURATION_FS_STRING :: "string \<Rightarrow> u8 list" where
  "USBD_CLASS_CONFIGURATION_FS_STRING name = CONCATS name ''CDC Config''"
definition USBD_CLASS_INTERFACE_FS_STRING :: "string \<Rightarrow> u8 list" where
  "USBD_CLASS_INTERFACE_FS_STRING name = CONCATS name ''CDC Interface''"

definition USBD_Class_DeviceDesc :: "u8 list" where
  "USBD_Class_DeviceDesc =
     [0x12, USB_DESC_TYPE_DEVICE, 0x00, 0x02, 0x02, 0x02, 0x00, of_nat USB_MAX_EP0_SIZE,
      LOBYTE USBD_VID, HIBYTE USBD_VID, LOBYTE USBD_PID, HIBYTE USBD_PID, 0x00, 0x00,
      USBD_IDX_MFC_STR, USBD_IDX_PRODUCT_STR, USBD_IDX_SERIAL_STR, USBD_MAX_NUM_CONFIGURATION]"

definition USBD_LangIDDesc :: "u8 list" where
  "USBD_LangIDDesc =
     [USB_LEN_LANGID_STR_DESC, USB_DESC_TYPE_STRING, LOBYTE USBD_LANGID_STRING, HIBYTE USBD_LANGID_STRING]"

section \<open>String descriptors\<close>

definition mem_put :: "'a list \<Rightarrow> nat \<Rightarrow> 'a \<Rightarrow> 'a list option" where
  "mem_put xs i v = (if i < length xs then Some (xs[i := v]) else None)"

fun USBD_GetLen_loop :: "u8 list \<Rightarrow> u8 \<Rightarrow> u8 option" where
  "USBD_GetLen_loop [] len = None"
| "USBD_GetLen_loop (c # pbuff) len = (if c \<noteq> 0 then USBD_GetLen_loop pbuff (len + 1) else Some len)"

definition USBD_GetLen :: "u8 list \<Rightarrow> u8 option" where
  "USBD_GetLen buf = USBD_GetLen_loop buf 0"

text \<open>The index is a byte.\<close>

fun GetString_loop :: "u8 list \<Rightarrow> u8 \<Rightarrow> u8 list \<Rightarrow> u8 list option" where
  "GetString_loop [] idx unicode = None"
| "GetString_loop (c # pdesc) idx unicode =
     (if c \<noteq> 0 then
        do { u1 \<leftarrow> mem_put unicode (unat idx) c;
             u2 \<leftarrow> mem_put u1 (unat (idx + 1)) 0;
             GetString_loop pdesc (idx + 2) u2 }
      else Some unicode)"

text \<open>The descriptor and the length, which the caller of the code passes by reference. A null string leaves both
  as they are.\<close>

definition USBD_GetString :: "u8 list option \<Rightarrow> u8 list \<Rightarrow> u16 \<Rightarrow> (u8 list \<times> u16) option" where
  "USBD_GetString desc unicode len =
     (case desc of
        None \<Rightarrow> Some (unicode, len)
      | Some d \<Rightarrow>
          do { l \<leftarrow> USBD_GetLen d;
               let len' = (ucast l :: u16) * 2 + 2;
               u0 \<leftarrow> mem_put unicode 0 (ucast len');
               u1 \<leftarrow> mem_put u0 1 USB_DESC_TYPE_STRING;
               u2 \<leftarrow> GetString_loop d 2 u1;
               Some (u2, len') })"

text \<open>The buffers of \<^verbatim>\<open>usbd_desc.c\<close> and the words of the unique device identifier.\<close>

record usb_strings =
  USBD_StrDesc :: "u8 list"
  USBD_StringSerial :: "u8 list"
  DEVICE_ID1 :: u32
  DEVICE_ID2 :: u32
  DEVICE_ID3 :: u32

definition string_desc :: "u8 list \<Rightarrow> u16 \<Rightarrow> usb_strings \<Rightarrow> (u8 list \<times> u16 \<times> usb_strings) option" where
  "string_desc d len s =
     do { (u, len') \<leftarrow> USBD_GetString (Some d) (USBD_StrDesc s) len;
          Some (u, len', s\<lparr>USBD_StrDesc := u\<rparr>) }"

definition USBD_Class_DeviceDescriptor :: "usb_strings \<Rightarrow> u8 list \<times> u16 \<times> usb_strings" where
  "USBD_Class_DeviceDescriptor s = (USBD_Class_DeviceDesc, of_nat (length USBD_Class_DeviceDesc), s)"

definition USBD_LangIDStrDescriptor :: "usb_strings \<Rightarrow> u8 list \<times> u16 \<times> usb_strings" where
  "USBD_LangIDStrDescriptor s = (USBD_LangIDDesc, of_nat (length USBD_LangIDDesc), s)"

definition USBD_Class_ProductStrDescriptor ::
  "string \<Rightarrow> usb_speed \<Rightarrow> u16 \<Rightarrow> usb_strings \<Rightarrow> (u8 list \<times> u16 \<times> usb_strings) option" where
  "USBD_Class_ProductStrDescriptor name speed len s =
     (if speed = USBD_SPEED_HIGH then string_desc (USBD_CLASS_PRODUCT_HS_STRING name) len s
      else string_desc (USBD_CLASS_PRODUCT_FS_STRING name) len s)"

definition USBD_ManufacturerStrDescriptor :: "u16 \<Rightarrow> usb_strings \<Rightarrow> (u8 list \<times> u16 \<times> usb_strings) option" where
  "USBD_ManufacturerStrDescriptor len s = string_desc USBD_MANUFACTURER_STRING len s"

definition USBD_Class_ConfigStrDescriptor ::
  "string \<Rightarrow> usb_speed \<Rightarrow> u16 \<Rightarrow> usb_strings \<Rightarrow> (u8 list \<times> u16 \<times> usb_strings) option" where
  "USBD_Class_ConfigStrDescriptor name speed len s =
     (if speed = USBD_SPEED_HIGH then string_desc (USBD_CLASS_CONFIGURATION_HS_STRING name) len s
      else string_desc (USBD_CLASS_CONFIGURATION_FS_STRING name) len s)"

definition USBD_Class_InterfaceStrDescriptor ::
  "string \<Rightarrow> usb_speed \<Rightarrow> u16 \<Rightarrow> usb_strings \<Rightarrow> (u8 list \<times> u16 \<times> usb_strings) option" where
  "USBD_Class_InterfaceStrDescriptor name speed len s =
     (if speed = USBD_SPEED_HIGH then string_desc (USBD_CLASS_INTERFACE_HS_STRING name) len s
      else string_desc (USBD_CLASS_INTERFACE_FS_STRING name) len s)"

section \<open>The serial number\<close>

text \<open>One digit for each pass, from the upper four bits of the value.\<close>

definition unicode_digit :: "u32 \<Rightarrow> u8" where
  "unicode_digit value =
     (if drop_bit 28 value < 0xA then ucast (drop_bit 28 value + 0x30)
      else ucast (drop_bit 28 value + 0x41 - 10))"

function IntToUnicode_loop :: "u32 \<Rightarrow> u8 list \<Rightarrow> nat \<Rightarrow> nat \<Rightarrow> nat \<Rightarrow> u8 list option" where
  "IntToUnicode_loop value pbuf off idx len =
     (if idx < len then
        do { b1 \<leftarrow> mem_put pbuf (off + 2 * idx) (unicode_digit value);
             b2 \<leftarrow> mem_put b1 (off + 2 * idx + 1) 0;
             IntToUnicode_loop (push_bit 4 value) b2 off (idx + 1) len }
      else Some pbuf)"
  by pat_completeness auto
termination by (relation "measure (\<lambda>(_, _, _, idx, len). len - idx)") auto

declare IntToUnicode_loop.simps [simp del]

text \<open>\<open>off\<close> is the position of the pointer in its array.\<close>

definition IntToUnicode :: "u32 \<Rightarrow> u8 list \<Rightarrow> nat \<Rightarrow> u8 \<Rightarrow> u8 list option" where
  "IntToUnicode value pbuf off len = IntToUnicode_loop value pbuf off 0 (unat len)"

definition Get_SerialNum :: "usb_strings \<Rightarrow> usb_strings option" where
  "Get_SerialNum s =
     (let deviceserial0 = DEVICE_ID1 s + DEVICE_ID3 s; deviceserial1 = DEVICE_ID2 s in
      if deviceserial0 \<noteq> 0 then
        do { b1 \<leftarrow> IntToUnicode deviceserial0 (USBD_StringSerial s) 2 8;
             b2 \<leftarrow> IntToUnicode deviceserial1 b1 18 4;
             Some (s\<lparr>USBD_StringSerial := b2\<rparr>) }
      else Some s)"

definition USBD_SerialStrDescriptor :: "usb_strings \<Rightarrow> (u8 list \<times> u16 \<times> usb_strings) option" where
  "USBD_SerialStrDescriptor s =
     do { s' \<leftarrow> Get_SerialNum s; Some (USBD_StringSerial s', ucast USB_SIZ_STRING_SERIAL, s') }"

text \<open>The buffers at the start of the program.\<close>

definition usb_strings0 :: "u32 \<Rightarrow> u32 \<Rightarrow> u32 \<Rightarrow> usb_strings" where
  "usb_strings0 id1 id2 id3 =
     \<lparr>USBD_StrDesc = replicate USBD_MAX_STR_DESC_SIZ 0,
      USBD_StringSerial = [USB_SIZ_STRING_SERIAL, USB_DESC_TYPE_STRING] @ replicate 24 0,
      DEVICE_ID1 = id1, DEVICE_ID2 = id2, DEVICE_ID3 = id3\<rparr>"

section \<open>What the host reads\<close>

text \<open>The host takes as many bytes as the length says, checks the header and reads 16 bit characters.\<close>

fun utf16 :: "u8 list \<Rightarrow> u16 list" where
  "utf16 (a # b # xs) = (ucast a OR push_bit 8 (ucast b)) # utf16 xs"
| "utf16 _ = []"

definition host_string :: "u8 list \<times> u16 \<times> usb_strings \<Rightarrow> u16 list option" where
  "host_string r = (case r of (d, len, _) \<Rightarrow>
     if 2 \<le> len \<and> unat len \<le> length d \<and> d ! 0 = ucast len \<and> ucast (d ! 0) = len \<and> d ! 1 = USB_DESC_TYPE_STRING
     then Some (utf16 (drop 2 (take (unat len) d))) else None)"

lemma mem_put_Some [simp]: "i < length xs \<Longrightarrow> mem_put xs i v = Some (xs[i := v])"
  by (simp add: mem_put_def)

text \<open>Both loops store characters with a zero byte after each.\<close>

definition wide :: "u8 list \<Rightarrow> u8 list" where
  "wide xs = concat (map (\<lambda>c. [c, 0]) xs)"

lemma wide_simps [simp]:
  "wide [] = []" "wide (c # xs) = c # 0 # wide xs" "wide (xs @ ys) = wide xs @ wide ys" "length (wide xs) = 2 * length xs"
  by (simp_all add: wide_def length_concat comp_def sum_list_triv)

lemma utf16_wide [simp]: "utf16 (wide xs) = map ucast xs"
  by (induction xs) simp_all

lemma byte_size:
  assumes "m < 256"
  shows "unat (of_nat m :: u8) = m" and "unat (of_nat m :: u16) = m" and "(ucast (of_nat m :: u8) :: u16) = of_nat m"
  using assms by (simp_all add: unsigned_of_nat take_bit_nat_eq_self)

lemma low_byte_u16: "ucast (of_nat m :: u16) = (of_nat m :: u8)"
  by (simp add: unsigned_of_nat word_of_nat_eq_iff)

lemma put_pair:
  assumes "i + 2 \<le> length u"
  shows "take (i + 2) (u[i := a, i + 1 := b]) = take i u @ [a, b]"
    and "i + 2 \<le> k \<Longrightarrow> drop k (u[i := a, i + 1 := b]) = drop k u"
proof -
  have "take (i + 2) (u[i := a, i + 1 := b]) = take (i + 1) (u[i := a]) @ [b]"
    using assms by (simp add: take_Suc_conv_app_nth)
  also have "take (i + 1) (u[i := a]) = take i u @ [a]"
    using assms by (simp add: take_Suc_conv_app_nth)
  finally show "take (i + 2) (u[i := a, i + 1 := b]) = take i u @ [a, b]" by simp
qed simp

lemma GetLen_eq: "0 \<notin> set xs \<Longrightarrow> USBD_GetLen_loop (xs @ 0 # r) l = Some (l + of_nat (length xs))"
  by (induction xs arbitrary: l) (auto simp: algebra_simps)

lemma GetString_eq:
  assumes "0 \<notin> set xs" and "length u = 256" and "i + 2 * length xs \<le> 256"
  shows "GetString_loop (xs @ 0 # r) (of_nat i) u = Some (take i u @ wide xs @ drop (i + 2 * length xs) u)"
  using assms
proof (induction xs arbitrary: i u)
  case Nil
  then show ?case by simp
next
  case (Cons c xs)
  have i: "unat (of_nat i :: u8) = i" "unat (of_nat (i + 1) :: u8) = i + 1"
    using Cons.prems(3) by (intro byte_size(1); simp)+
  let ?u = "u[i := c, i + 1 := 0]"
  have "GetString_loop ((c # xs) @ 0 # r) (of_nat i) u = GetString_loop (xs @ 0 # r) (of_nat i + 2) ?u"
    using Cons.prems i by (simp add: add.commute)
  also have "(of_nat i + 2 :: u8) = of_nat (i + 2)" by simp
  also have "GetString_loop (xs @ 0 # r) (of_nat (i + 2)) ?u = Some (take (i + 2) ?u @ wide xs @ drop (i + 2 + 2 * length xs) ?u)"
    using Cons.IH [of ?u "i + 2"] Cons.prems by simp
  also have "take (i + 2) ?u = take i u @ [c, 0]" using Cons.prems by (intro put_pair(1)) simp
  also have "drop (i + 2 + 2 * length xs) ?u = drop (i + 2 * length (c # xs)) u"
    using Cons.prems by (subst put_pair(2)) simp_all
  finally show ?case by simp
qed

lemma USBD_GetString_eq:
  assumes "0 \<notin> set xs" and "length buf = 256" and "length xs \<le> 127"
  shows "USBD_GetString (Some (xs @ 0 # r)) buf len =
    Some ([of_nat (2 * length xs + 2), USB_DESC_TYPE_STRING] @ wide xs @ drop (2 + 2 * length xs) buf, of_nat (2 * length xs + 2))"
proof -
  define n where "n = 2 * length xs + 2"
  have l: "(ucast (of_nat (length xs) :: u8) :: u16) * 2 + 2 = of_nat n"
    using byte_size(3) [of "length xs"] assms(3) by (simp only: n_def of_nat_add of_nat_mult) simp
  obtain b0 b1 bs where buf: "buf = b0 # b1 # bs" using assms(2) by (cases buf; cases "tl buf") auto
  have g: "GetString_loop (xs @ 0 # r) 2 (buf[0 := v, Suc 0 := w]) = Some ([v, w] @ wide xs @ drop n buf)" for v w
    using GetString_eq [of xs "buf[0 := v, Suc 0 := w]" 2 r] assms by (simp add: buf n_def)
  have "USBD_GetString (Some (xs @ 0 # r)) buf len =
    Some ([of_nat n, USB_DESC_TYPE_STRING] @ wide xs @ drop n buf, of_nat n)"
    using assms(2) GetLen_eq [OF assms(1), of r 0]
    by (simp add: USBD_GetString_def USBD_GetLen_def Let_def l low_byte_u16 g)
  then show ?thesis by (simp add: n_def)
qed

text \<open>The host reads back every string of up to 126 characters: the descriptor that \<^verbatim>\<open>USBD_GetString\<close>
  builds has the right length, type and characters, whatever the buffer held before, and is built inside it.\<close>

theorem string_descriptor_read:
  assumes "0 \<notin> set xs" and "length xs \<le> 126" and "length (USBD_StrDesc s) = USBD_MAX_STR_DESC_SIZ"
  shows "\<exists>r. string_desc (xs @ [0]) len s = Some r \<and> host_string r = Some (map ucast xs) \<and>
    length (USBD_StrDesc (snd (snd r))) = USBD_MAX_STR_DESC_SIZ"
proof -
  have m: "2 * length xs + 2 < 256" using assms(2) by simp
  note n = byte_size [OF m] low_byte_u16 [of "2 * length xs + 2"]
  have "2 \<le> (of_nat (2 * length xs + 2) :: u16)"
    using n(2) by (simp only: word_le_nat_alt) simp
  moreover have "length xs \<le> 127" using assms(2) by simp
  ultimately show ?thesis
    using USBD_GetString_eq [of xs "USBD_StrDesc s" "[]" len] assms n
    by (simp add: string_desc_def host_string_def USBD_MAX_STR_DESC_SIZ_def del: of_nat_add of_nat_mult of_nat_Suc)
qed

text \<open>One character more, and the length byte is zero.\<close>

theorem string_127_lost:
  assumes "0 \<notin> set xs" and "length xs = 127" and "length (USBD_StrDesc s) = USBD_MAX_STR_DESC_SIZ"
  shows "\<exists>r. string_desc (xs @ [0]) len s = Some r \<and> fst r ! 0 = 0 \<and> host_string r = None"
  using USBD_GetString_eq [of xs "USBD_StrDesc s" "[]" len] assms
  by (simp add: string_desc_def host_string_def USBD_MAX_STR_DESC_SIZ_def)

theorem string_descriptor_read_witness:
  "\<exists>r. string_desc (bytes_of ''PLC CDC'' @ [0]) 0 (usb_strings0 1 2 3) = Some r \<and>
    host_string r = Some (map ucast (bytes_of ''PLC CDC'')) \<and> length (USBD_StrDesc (snd (snd r))) = USBD_MAX_STR_DESC_SIZ"
  by (rule string_descriptor_read) (simp_all add: bytes_of_def usb_strings0_def)

section \<open>Digits of the serial number\<close>

lemma shifted_nibble:
  fixes v :: u32
  assumes "i < 8"
  shows "drop_bit 28 (push_bit (4 * i) v) = drop_bit (4 * (7 - i)) v AND 0xF"
proof (rule bit_word_eqI)
  fix n
  assume "n < LENGTH(32)"
  then have n: "n < 32" by simp
  have m: "bit (0xF :: u32) n \<longleftrightarrow> n < 4"
    using bit_mask_iff [of 4 n, where ?'a = u32] n by (simp add: mask_eq_exp_minus_1)
  have "bit (drop_bit 28 (push_bit (4 * i) v)) n \<longleftrightarrow> n < 4 \<and> bit v (28 + n - 4 * i)"
    using n assms by (auto simp: bit_simps)
  moreover have "28 + n - 4 * i = 4 * (7 - i) + n" using assms by simp
  ultimately show "bit (drop_bit 28 (push_bit (4 * i) v)) n \<longleftrightarrow> bit (drop_bit (4 * (7 - i)) v AND 0xF) n"
    using m n by (auto simp: bit_simps)
qed

lemma nibble_digit:
  fixes w :: u32
  assumes "unat w < 16"
  shows "(if w < 0xA then ucast (w + 0x30) else ucast (w + 0x41 - 10)) = upper_digit (unat w)"
proof -
  have "\<forall>d \<in> set [0..<16]. (if (of_nat d :: u32) < 0xA then ucast (of_nat d + 0x30 :: u32)
      else ucast (of_nat d + 0x41 - 10 :: u32)) = upper_digit d"
    by code_simp
  moreover have "unat w \<in> set [0..<16]" using assms by simp
  ultimately have "(if (of_nat (unat w) :: u32) < 0xA then ucast (of_nat (unat w) + 0x30 :: u32)
      else ucast (of_nat (unat w) + 0x41 - 10 :: u32)) = upper_digit (unat w)" by blast
  then show ?thesis by (simp only: of_nat_unat ucast_id)
qed

lemma unicode_digit_eq:
  "i < 8 \<Longrightarrow> unicode_digit (push_bit (4 * i) v) = upper_digit (unat (drop_bit (4 * (7 - i)) v AND 0xF))"
  unfolding unicode_digit_def by (subst nibble_digit) (simp_all only: shifted_nibble nibble_less)

text \<open>The loop stores the upper digits of the value.\<close>

lemma IntToUnicode_loop_eq:
  assumes "idx \<le> len" and "off + 2 * len \<le> length pbuf"
  shows "IntToUnicode_loop (push_bit (4 * idx) v) pbuf off idx len =
    Some (take (off + 2 * idx) pbuf @ wide (map (\<lambda>i. unicode_digit (push_bit (4 * i) v)) [idx..<len]) @
      drop (off + 2 * len) pbuf)"
  using assms
proof (induction "len - idx" arbitrary: idx pbuf)
  case 0
  then show ?case by (simp add: IntToUnicode_loop.simps)
next
  case (Suc k)
  then have lt: "idx < len" by simp
  let ?u = "pbuf[off + 2 * idx := unicode_digit (push_bit (4 * idx) v), off + 2 * idx + 1 := 0]"
  have "IntToUnicode_loop (push_bit (4 * idx) v) pbuf off idx len =
      IntToUnicode_loop (push_bit (4 * (idx + 1)) v) ?u off (idx + 1) len"
    using lt Suc.prems by (subst IntToUnicode_loop.simps) (simp add: algebra_simps)
  also have "\<dots> = Some (take (off + 2 * idx + 2) ?u @ wide (map (\<lambda>i. unicode_digit (push_bit (4 * i) v)) [idx + 1..<len]) @
      drop (off + 2 * len) ?u)"
    using Suc.hyps(1) [of "idx + 1" ?u] Suc.hyps(2) lt Suc.prems by (simp add: algebra_simps)
  also have "take (off + 2 * idx + 2) ?u = take (off + 2 * idx) pbuf @ [unicode_digit (push_bit (4 * idx) v), 0]"
    using lt Suc.prems by (intro put_pair(1)) simp
  also have "drop (off + 2 * len) ?u = drop (off + 2 * len) pbuf"
    using lt Suc.prems by (intro put_pair(2)) simp_all
  finally show ?case using lt by (simp add: upt_conv_Cons [of idx])
qed

lemma upper_digits:
  "n \<le> 8 \<Longrightarrow> map (\<lambda>i. unicode_digit (push_bit (4 * i) v)) [0..<n] = take n (hex8 v)"
proof -
  assume n: "n \<le> 8"
  have "[7, 6, 5, 4, 3, 2, 1, 0] = map (\<lambda>i. 7 - i) [0..<8::nat]" by (simp add: upt_rec)
  then have "hex8 v = map (\<lambda>i. upper_digit (unat (drop_bit (4 * (7 - i)) v AND 0xF))) [0..<8]"
    by (simp only: hex8_def map_map comp_def)
  then show ?thesis using n by (simp add: unicode_digit_eq take_map)
qed

lemma IntToUnicode_eq:
  assumes "len \<le> 8" and "off + 2 * unat len \<le> length pbuf"
  shows "IntToUnicode v pbuf off len =
    Some (take off pbuf @ wide (take (unat len) (hex8 v)) @ drop (off + 2 * unat len) pbuf)"
proof -
  have "unat len \<le> 8" using assms(1) by (simp add: word_le_nat_alt)
  then show ?thesis
    using IntToUnicode_loop_eq [of 0 "unat len" off pbuf v] assms(2) by (simp add: IntToUnicode_def upper_digits)
qed

definition serial_text :: "usb_strings \<Rightarrow> u8 list" where
  "serial_text s = hex8 (DEVICE_ID1 s + DEVICE_ID3 s) @ take 4 (hex8 (DEVICE_ID2 s))"

lemma serial_read:
  assumes "length (USBD_StringSerial s) = 26" and "take 2 (USBD_StringSerial s) = [USB_SIZ_STRING_SERIAL, USB_DESC_TYPE_STRING]"
    and "DEVICE_ID1 s + DEVICE_ID3 s \<noteq> 0"
  shows "\<exists>r. USBD_SerialStrDescriptor s = Some r \<and> host_string r = Some (map ucast (serial_text s)) \<and>
    take 2 (USBD_StringSerial (snd (snd r))) = take 2 (USBD_StringSerial s) \<and>
    length (USBD_StringSerial (snd (snd r))) = 26"
proof -
  let ?b = "USBD_StringSerial s"
  have 1: "IntToUnicode v ?b 2 8 = Some (take 2 ?b @ wide (hex8 v) @ drop 18 ?b)" for v
    using IntToUnicode_eq [of 8 2 ?b v] assms(1) by simp
  have 2: "IntToUnicode w (take 2 ?b @ wide (hex8 v) @ drop 18 ?b) 18 4 = Some (take 2 ?b @ wide (hex8 v) @ wide (take 4 (hex8 w)))" for v w
    using IntToUnicode_eq [of 4 18 "take 2 ?b @ wide (hex8 v) @ drop 18 ?b" w] assms(1) by simp
  have "Get_SerialNum s = Some (s\<lparr>USBD_StringSerial := take 2 ?b @ wide (serial_text s)\<rparr>)"
    using assms(3) by (simp add: Get_SerialNum_def Let_def 1 2 serial_text_def)
  moreover have "length (serial_text s) = 12" by (simp add: serial_text_def)
  ultimately show ?thesis
    using assms(1) by (simp add: USBD_SerialStrDescriptor_def assms(2) host_string_def consts_simp)
qed

lemma upper_half_eq:
  fixes v w :: u32
  shows "take 4 (hex8 v) = take 4 (hex8 w) \<longleftrightarrow> drop_bit 16 v = drop_bit 16 w"
proof
  have h: "take 4 (hex8 x) = map (\<lambda>i. upper_digit (unat (drop_bit (4 * i) (drop_bit 16 x) AND 0xF))) [3, 2, 1, 0]" for x
    by (simp add: hex8_def drop_bit_drop_bit)
  show "drop_bit 16 v = drop_bit 16 w \<Longrightarrow> take 4 (hex8 v) = take 4 (hex8 w)" by (simp only: h)
  assume eq: "take 4 (hex8 v) = take 4 (hex8 w)"
  have nib: "drop_bit (4 * j) (drop_bit 16 v) AND 0xF = drop_bit (4 * j) (drop_bit 16 w) AND 0xF" if "j \<in> {3, 2, 1, 0}" for j
  proof -
    have "upper_digit (unat (drop_bit (4 * j) (drop_bit 16 v) AND 0xF)) = upper_digit (unat (drop_bit (4 * j) (drop_bit 16 w) AND 0xF))"
      using eq that unfolding h by auto
    then have "unat (drop_bit (4 * j) (drop_bit 16 v) AND 0xF) = unat (drop_bit (4 * j) (drop_bit 16 w) AND 0xF)"
      using upper_digit_inj nibble_less by blast
    then show ?thesis by (simp only: word_unat_eq_iff)
  qed
  show "drop_bit 16 v = drop_bit 16 w"
  proof (rule nibbles_eq)
    fix i :: nat
    assume i: "i < 8"
    show "drop_bit (4 * i) (drop_bit 16 v) AND 0xF = drop_bit (4 * i) (drop_bit 16 w) AND 0xF"
    proof (cases "i < 4")
      case True
      then have "i \<in> {3, 2, 1, 0}" by auto
      then show ?thesis by (rule nib)
    next
      case False
      then have "drop_bit (4 * i) (drop_bit 16 x) = 0" for x :: u32
        by (intro bit_word_eqI) (auto simp: bit_simps)
      then show ?thesis by simp
    qed
  qed
qed



section \<open>The strings of the board\<close>

text \<open>All strings that the device descriptor and the configuration may refer to can be read, for a board
  name of up to 110 characters.\<close>

theorem board_strings_read:
  fixes speed :: usb_speed
  assumes "0 \<notin> set (bytes_of name)" and "length name \<le> 110" and "length (USBD_StrDesc s) = USBD_MAX_STR_DESC_SIZ"
  defines "mode \<equiv> if speed = USBD_SPEED_HIGH then ''HS'' else ''FS''"
  shows "\<exists>r. USBD_Class_ProductStrDescriptor name speed len s = Some r \<and>
      host_string r = Some (map ucast (bytes_of (name @ '' '' @ ''CDC in '' @ mode @ '' Mode'')))"
    and "\<exists>r. USBD_Class_ConfigStrDescriptor name speed len s = Some r \<and>
      host_string r = Some (map ucast (bytes_of (name @ '' '' @ ''CDC Config'')))"
    and "\<exists>r. USBD_Class_InterfaceStrDescriptor name speed len s = Some r \<and>
      host_string r = Some (map ucast (bytes_of (name @ '' '' @ ''CDC Interface'')))"
    and "\<exists>r. USBD_ManufacturerStrDescriptor len s = Some r \<and>
      host_string r = Some (map ucast (bytes_of ''STMicroelectronics''))"
proof -
  have app: "bytes_of (x @ y) = bytes_of x @ bytes_of y" for x y by (simp add: bytes_of_def)
  have read: "\<exists>r. string_desc (bytes_of x @ [0]) len s = Some r \<and> host_string r = Some (map ucast (bytes_of x))"
    if "0 \<notin> set (bytes_of x)" "length x \<le> 126" for x
    using string_descriptor_read [of "bytes_of x" s len] that assms(3) by (auto simp: bytes_of_def)
  have joined: "0 \<notin> set (bytes_of (name @ '' '' @ y)) \<and> length (name @ '' '' @ y) \<le> 126"
    if "0 \<notin> set (bytes_of y)" "length y \<le> 15" for y
    using that assms(1,2) by (simp add: app) (simp add: bytes_of_def)
  note at = read [OF joined [THEN conjunct1] joined [THEN conjunct2]]
  show "\<exists>r. USBD_Class_ProductStrDescriptor name speed len s = Some r \<and>
      host_string r = Some (map ucast (bytes_of (name @ '' '' @ ''CDC in '' @ mode @ '' Mode'')))"
    using at [of "''CDC in HS Mode''"] at [of "''CDC in FS Mode''"]
    by (simp add: USBD_Class_ProductStrDescriptor_def USBD_CLASS_PRODUCT_HS_STRING_def USBD_CLASS_PRODUCT_FS_STRING_def
      CONCATS_def mode_def bytes_of_def)
  show "\<exists>r. USBD_Class_ConfigStrDescriptor name speed len s = Some r \<and>
      host_string r = Some (map ucast (bytes_of (name @ '' '' @ ''CDC Config'')))"
    using at [of "''CDC Config''"]
    by (simp add: USBD_Class_ConfigStrDescriptor_def USBD_CLASS_CONFIGURATION_HS_STRING_def
      USBD_CLASS_CONFIGURATION_FS_STRING_def CONCATS_def bytes_of_def)
  show "\<exists>r. USBD_Class_InterfaceStrDescriptor name speed len s = Some r \<and>
      host_string r = Some (map ucast (bytes_of (name @ '' '' @ ''CDC Interface'')))"
    using at [of "''CDC Interface''"]
    by (simp add: USBD_Class_InterfaceStrDescriptor_def USBD_CLASS_INTERFACE_HS_STRING_def
      USBD_CLASS_INTERFACE_FS_STRING_def CONCATS_def bytes_of_def)
  show "\<exists>r. USBD_ManufacturerStrDescriptor len s = Some r \<and>
      host_string r = Some (map ucast (bytes_of ''STMicroelectronics''))"
    using read [of "''STMicroelectronics''"]
    by (simp add: USBD_ManufacturerStrDescriptor_def USBD_MANUFACTURER_STRING_def bytes_of_def)
qed

end
