(* ===== verification/Usb_Conf.thy ===== *)
theory Usb_Conf
  imports Usb_Cdc_Desc Board
begin

text \<open>
  The layer between the USB device library and the controller of the vendor
  (\<^verbatim>\<open>cores/arduino/stm32/usb/usbd_conf.c\<close>, \<^verbatim>\<open>usbd_ep_conf.c\<close>, \<^verbatim>\<open>usbd_if.c\<close>), and how its pins meet the terminals of the
  board. The functions of the controller driver that configure the packet memory
  (\<^verbatim>\<open>stm32h7xx_hal_pcd_ex.c\<close>) are modelled on their registers. Other calls into the driver
  and into the device library are recorded in a log. Whether the controller could be initialised or stopped is a parameter.
\<close>

section \<open>State\<close>

datatype pcd_speed = PCD_SPEED_HIGH | PCD_SPEED_HIGH_IN_FULL | PCD_SPEED_FULL
datatype pcd_phy = PCD_PHY_ULPI | PCD_PHY_EMBEDDED

record pcd_init =
  pcd_dev_endpoints :: nat
  pcd_ep0_mps :: u32
  pcd_lpm_enable :: bool
  pcd_battery_charging_enable :: bool
  pcd_low_power_enable :: bool
  pcd_Sof_enable :: bool
  pcd_use_dedicated_ep1 :: bool
  pcd_dma_enable :: bool
  pcd_phy_itface :: pcd_phy
  pcd_speed :: pcd_speed
  pcd_vbus_sensing_enable :: bool
  pcd_use_external_vbus :: bool

datatype pcd_call =
    Dev_Disconnect peripheral | Pcd_Delay nat | Dev_Connect peripheral
  | Enable_Voltage_Detector | Wakeup_Exti peripheral
  | Core_Init_Hw | Pcd_DeInit_Hw | Pcd_Start | Pcd_Stop
  | Ep_Open u8 nat usb_ep_type | Ep_Close u8 | Ep_Flush u8 | Ep_SetStall u8 | Ep_ClrStall u8 | Set_Address u8
  | Ep_Transmit u8 "u8 list" | Ep_Receive u8 nat
  | Stack_SetupStage | Stack_DataOut u8 | Stack_DataIn u8 | Stack_SOF | Stack_Reset | Stack_SetSpeed usb_speed
  | Stack_Suspend | Stack_Resume | Stack_IsoOUTIncomplete u8 | Stack_IsoINIncomplete u8
  | Stack_DevConnected | Stack_DevDisconnected
  | Gate_Phyclock | Ungate_Phyclock | Clock_Config | Pcd_IRQHandler

record usb_pcd = gpio +
  pcd_Instance :: peripheral
  pcd_Init :: pcd_init
  pcd_state_reset :: bool
  pcd_linked :: bool
  GRXFSIZ :: u32
  DIEPTXF0 :: u32
  DIEPTXF :: "u32 list"
  IN_stall :: "bool list"
  OUT_stall :: "bool list"
  otg_clock :: "peripheral \<Rightarrow> bool"
  ulpi_clock :: bool
  otg_irq :: "int \<Rightarrow> bool"
  otg_prio :: "int \<Rightarrow> nat \<times> nat"
  usb_detector :: bool
  sleep_deep :: bool
  pcd_log :: "pcd_call list"

definition pcd_call :: "pcd_call \<Rightarrow> 'a usb_pcd_scheme \<Rightarrow> 'a usb_pcd_scheme" where
  "pcd_call c s = s\<lparr>pcd_log := pcd_log s @ [c]\<rparr>"

definition DEV_NUM_EP :: nat where [consts_simp]: "DEV_NUM_EP = 4"
definition USBD_IRQ_PRIO :: nat where [consts_simp]: "USBD_IRQ_PRIO = 1"
definition USBD_IRQ_SUBPRIO :: nat where [consts_simp]: "USBD_IRQ_SUBPRIO = 0"
definition USBD_ENUM_DELAY :: nat where [consts_simp]: "USBD_ENUM_DELAY = 10"
definition EP_MPS_64 :: u32 where [consts_simp]: "EP_MPS_64 = 0"
definition OTG_FS_IRQn :: int where [consts_simp]: "OTG_FS_IRQn = 101"
definition OTG_FS_WKUP_IRQn :: int where [consts_simp]: "OTG_FS_WKUP_IRQn = 100"
definition OTG_HS_IRQn :: int where [consts_simp]: "OTG_HS_IRQn = 77"
definition OTG_HS_WKUP_IRQn :: int where [consts_simp]: "OTG_HS_WKUP_IRQn = 76"

text \<open>The board menu offers full speed (\<open>False\<close>) and high speed over an external transceiver (\<open>True\<close>).\<close>

definition ep_def :: "bool \<Rightarrow> (u8 \<times> nat) list" where
  "ep_def hs =
     (if hs then
        [(0x00, CDC_DATA_HS_MAX_PACKET_SIZE), (0x80, CDC_DATA_HS_MAX_PACKET_SIZE),
         (CDC_OUT_EP, CDC_DATA_HS_MAX_PACKET_SIZE), (CDC_IN_EP, CDC_DATA_HS_MAX_PACKET_SIZE),
         (CDC_CMD_EP, CDC_CMD_PACKET_SIZE)]
      else
        [(0x00, CDC_DATA_FS_MAX_PACKET_SIZE), (0x80, CDC_DATA_FS_MAX_PACKET_SIZE),
         (CDC_OUT_EP, CDC_DATA_FS_MAX_PACKET_SIZE), (CDC_IN_EP, CDC_DATA_FS_MAX_PACKET_SIZE),
         (CDC_CMD_EP, CDC_CMD_PACKET_SIZE)])"

section \<open>Pins, clock and interrupt\<close>

fun configure_map :: "PinMap list \<Rightarrow> 'a gpio_scheme \<Rightarrow> 'a gpio_scheme option" where
  "configure_map [] s = None"
| "configure_map ((p, per, f) # m) s =
     (if p \<noteq> NC then do { s1 \<leftarrow> pin_function p f s; configure_map m s1 } else Some s)"

definition set_irq :: "int \<Rightarrow> 'a usb_pcd_scheme \<Rightarrow> 'a usb_pcd_scheme" where
  "set_irq n s = s\<lparr>otg_prio := (otg_prio s)(n := (USBD_IRQ_PRIO, USBD_IRQ_SUBPRIO)), otg_irq := (otg_irq s)(n := True)\<rparr>"

definition HAL_PCD_MspInit :: "'a usb_pcd_scheme \<Rightarrow> 'a usb_pcd_scheme option" where
  "HAL_PCD_MspInit s =
     do { let s = (if \<not> usb_detector s then pcd_call Enable_Voltage_Detector (s\<lparr>usb_detector := True\<rparr>) else s);
          s \<leftarrow> (if pcd_Instance s = USB_OTG_FS then
                 do { s \<leftarrow> configure_map PinMap_USB_OTG_FS s;
                      let s = set_irq OTG_FS_IRQn (s\<lparr>otg_clock := (otg_clock s)(USB_OTG_FS := True)\<rparr>);
                      Some (if pcd_low_power_enable (pcd_Init s)
                            then set_irq OTG_FS_WKUP_IRQn (pcd_call (Wakeup_Exti USB_OTG_FS) s) else s) }
               else Some s);
          if pcd_Instance s = USB_OTG_HS then
            do { s \<leftarrow> configure_map PinMap_USB_OTG_HS s;
                 let s = set_irq OTG_HS_IRQn (s\<lparr>ulpi_clock := True, otg_clock := (otg_clock s)(USB_OTG_HS := True)\<rparr>);
                 Some (if pcd_low_power_enable (pcd_Init s)
                       then set_irq OTG_HS_WKUP_IRQn (pcd_call (Wakeup_Exti USB_OTG_HS) s) else s) }
          else Some s }"

definition HAL_PCD_MspDeInit :: "'a usb_pcd_scheme \<Rightarrow> 'a usb_pcd_scheme" where
  "HAL_PCD_MspDeInit s =
     (let s1 = (if pcd_Instance s = USB_OTG_FS then s\<lparr>otg_clock := (otg_clock s)(USB_OTG_FS := False)\<rparr> else s)
      in if pcd_Instance s1 = USB_OTG_HS then s1\<lparr>otg_clock := (otg_clock s1)(USB_OTG_HS := False)\<rparr> else s1)"

section \<open>Packet memory\<close>

text \<open>The size of a region of the packet memory is in the upper half of its register, the place in the lower.\<close>

definition HAL_PCDEx_SetRxFiFo :: "u16 \<Rightarrow> 'a usb_pcd_scheme \<Rightarrow> 'a usb_pcd_scheme" where
  "HAL_PCDEx_SetRxFiFo sz s = s\<lparr>GRXFSIZ := ucast sz\<rparr>"

definition tx_offset :: "u8 \<Rightarrow> 'a usb_pcd_scheme \<Rightarrow> u32" where
  "tx_offset fifo s =
     GRXFSIZ s + drop_bit 16 (DIEPTXF0 s) + sum_list (map (drop_bit 16) (take (unat (fifo - 1)) (DIEPTXF s)))"

definition HAL_PCDEx_SetTxFiFo :: "u8 \<Rightarrow> u16 \<Rightarrow> 'a usb_pcd_scheme \<Rightarrow> 'a usb_pcd_scheme option" where
  "HAL_PCDEx_SetTxFiFo fifo sz s =
     (if fifo = 0 then Some (s\<lparr>DIEPTXF0 := push_bit 16 (ucast sz) OR GRXFSIZ s\<rparr>)
      else if unat (fifo - 1) < length (DIEPTXF s)
      then Some (s\<lparr>DIEPTXF := (DIEPTXF s)[unat (fifo - 1) := push_bit 16 (ucast sz) OR tx_offset fifo s]\<rparr>)
      else None)"

fun set_fifos :: "(u8 \<times> nat) list \<Rightarrow> 'a usb_pcd_scheme \<Rightarrow> 'a usb_pcd_scheme option" where
  "set_fifos [] s = Some s"
| "set_fifos ((ep_adress, ep_size) # eps) s =
     do { s1 \<leftarrow> HAL_PCDEx_SetTxFiFo (ep_adress AND 0xF) (of_nat ep_size) s; set_fifos eps s1 }"

section \<open>Start and stop\<close>

text \<open>The board has no pin to switch the pull-up: the controller detaches by itself.\<close>

definition USBD_reenumerate :: "peripheral \<Rightarrow> 'a usb_pcd_scheme \<Rightarrow> 'a usb_pcd_scheme" where
  "USBD_reenumerate per s =
     pcd_call (Dev_Connect per) (pcd_call (Pcd_Delay USBD_ENUM_DELAY) (pcd_call (Dev_Disconnect per) s))"

text \<open>Of the driver's initialisation: the call of \<^verbatim>\<open>HAL_PCD_MspInit\<close> from the reset state, and that the sizes of the
  transmit regions are cleared (\<^verbatim>\<open>USB_DevInit\<close>). The reset state is left even if it fails.\<close>

definition HAL_PCD_Init :: "bool \<Rightarrow> 'a usb_pcd_scheme \<Rightarrow> (bool \<times> 'a usb_pcd_scheme) option" where
  "HAL_PCD_Init ok s =
     do { s \<leftarrow> (if pcd_state_reset s then HAL_PCD_MspInit s else Some s);
          let s = pcd_call Core_Init_Hw (s\<lparr>pcd_state_reset := False\<rparr>);
          Some (if ok then (True, s\<lparr>DIEPTXF := replicate 15 0\<rparr>) else (False, s)) }"

definition pcd_params :: "bool \<Rightarrow> pcd_init" where
  "pcd_params hs =
     \<lparr>pcd_dev_endpoints = DEV_NUM_EP, pcd_ep0_mps = EP_MPS_64, pcd_lpm_enable = False,
      pcd_battery_charging_enable = False, pcd_low_power_enable = False, pcd_Sof_enable = False,
      pcd_use_dedicated_ep1 = False, pcd_dma_enable = False,
      pcd_phy_itface = (if hs then PCD_PHY_ULPI else PCD_PHY_EMBEDDED),
      pcd_speed = (if hs then PCD_SPEED_HIGH else PCD_SPEED_FULL),
      pcd_vbus_sensing_enable = False, pcd_use_external_vbus = False\<rparr>"

definition USBD_USB_INSTANCE :: "bool \<Rightarrow> peripheral" where
  "USBD_USB_INSTANCE hs = (if hs then USB_OTG_HS else USB_OTG_FS)"

definition USBD_LL_Init :: "bool \<Rightarrow> bool \<Rightarrow> 'a usb_pcd_scheme \<Rightarrow> 'a usb_pcd_scheme option" where
  "USBD_LL_Init hs ok s =
     do { let s = USBD_reenumerate (USBD_USB_INSTANCE hs) s;
          let s = s\<lparr>pcd_Init := pcd_params hs, pcd_Instance := USBD_USB_INSTANCE hs, pcd_linked := True\<rparr>;
          (st, s) \<leftarrow> HAL_PCD_Init ok s;
          if \<not> st then None
          else set_fifos (tl (ep_def hs)) (HAL_PCDEx_SetRxFiFo (of_nat (snd (hd (ep_def hs)))) s) }"

text \<open>If the controller cannot be stopped, its driver keeps the clock on and does not return to the reset state.\<close>

definition HAL_PCD_DeInit :: "bool \<Rightarrow> 'a usb_pcd_scheme \<Rightarrow> bool \<times> 'a usb_pcd_scheme" where
  "HAL_PCD_DeInit ok s =
     (let s1 = pcd_call Pcd_DeInit_Hw (s\<lparr>pcd_state_reset := False\<rparr>)
      in if ok then (True, (HAL_PCD_MspDeInit s1)\<lparr>pcd_state_reset := True\<rparr>) else (False, s1))"

definition pcd_LL_DeInit :: "bool \<Rightarrow> 'a usb_pcd_scheme \<Rightarrow> usb_status \<times> 'a usb_pcd_scheme" where
  "pcd_LL_DeInit ok s = (USBD_OK, snd (HAL_PCD_DeInit ok s))"

definition pcd_LL_Start :: "'a usb_pcd_scheme \<Rightarrow> usb_status \<times> 'a usb_pcd_scheme" where
  "pcd_LL_Start s = (USBD_OK, pcd_call Pcd_Start s)"

definition pcd_LL_Stop :: "'a usb_pcd_scheme \<Rightarrow> usb_status \<times> 'a usb_pcd_scheme" where
  "pcd_LL_Stop s = (USBD_OK, pcd_call Pcd_Stop s)"

text \<open>The functions on endpoints drop the status of the driver.\<close>

definition pcd_LL_OpenEP :: "u8 \<Rightarrow> usb_ep_type \<Rightarrow> nat \<Rightarrow> 'a usb_pcd_scheme \<Rightarrow> usb_status \<times> 'a usb_pcd_scheme" where
  "pcd_LL_OpenEP ep t mps s = (USBD_OK, pcd_call (Ep_Open ep mps t) s)"

definition pcd_LL_CloseEP :: "u8 \<Rightarrow> 'a usb_pcd_scheme \<Rightarrow> usb_status \<times> 'a usb_pcd_scheme" where
  "pcd_LL_CloseEP ep s = (USBD_OK, pcd_call (Ep_Close ep) s)"

definition pcd_LL_FlushEP :: "u8 \<Rightarrow> 'a usb_pcd_scheme \<Rightarrow> usb_status \<times> 'a usb_pcd_scheme" where
  "pcd_LL_FlushEP ep s = (USBD_OK, pcd_call (Ep_Flush ep) s)"

definition pcd_LL_StallEP :: "u8 \<Rightarrow> 'a usb_pcd_scheme \<Rightarrow> usb_status \<times> 'a usb_pcd_scheme" where
  "pcd_LL_StallEP ep s = (USBD_OK, pcd_call (Ep_SetStall ep) s)"

definition pcd_LL_ClearStallEP :: "u8 \<Rightarrow> 'a usb_pcd_scheme \<Rightarrow> usb_status \<times> 'a usb_pcd_scheme" where
  "pcd_LL_ClearStallEP ep s = (USBD_OK, pcd_call (Ep_ClrStall ep) s)"

definition pcd_LL_SetUSBAddress :: "u8 \<Rightarrow> 'a usb_pcd_scheme \<Rightarrow> usb_status \<times> 'a usb_pcd_scheme" where
  "pcd_LL_SetUSBAddress a s = (USBD_OK, pcd_call (Set_Address a) s)"

definition pcd_LL_Transmit :: "u8 \<Rightarrow> u8 list \<Rightarrow> 'a usb_pcd_scheme \<Rightarrow> usb_status \<times> 'a usb_pcd_scheme" where
  "pcd_LL_Transmit ep xs s = (USBD_OK, pcd_call (Ep_Transmit ep xs) s)"

definition pcd_LL_PrepareReceive :: "u8 \<Rightarrow> nat \<Rightarrow> 'a usb_pcd_scheme \<Rightarrow> usb_status \<times> 'a usb_pcd_scheme" where
  "pcd_LL_PrepareReceive ep n s = (USBD_OK, pcd_call (Ep_Receive ep n) s)"

text \<open>The driver has 16 endpoints in either direction.\<close>

definition USBD_LL_IsStallEP :: "u8 \<Rightarrow> 'a usb_pcd_scheme \<Rightarrow> bool option" where
  "USBD_LL_IsStallEP ep_addr s =
     (if ep_addr AND 0x80 = 0x80 then mem_get (IN_stall s) (unat (ep_addr AND 0x7F))
      else mem_get (OUT_stall s) (unat (ep_addr AND 0x7F)))"

section \<open>Callbacks of the driver\<close>

definition HAL_PCD_SetupStageCallback :: "'a usb_pcd_scheme \<Rightarrow> 'a usb_pcd_scheme" where
  "HAL_PCD_SetupStageCallback s = pcd_call Stack_SetupStage s"
definition HAL_PCD_DataOutStageCallback :: "u8 \<Rightarrow> 'a usb_pcd_scheme \<Rightarrow> 'a usb_pcd_scheme" where
  "HAL_PCD_DataOutStageCallback epnum s = pcd_call (Stack_DataOut epnum) s"
definition HAL_PCD_DataInStageCallback :: "u8 \<Rightarrow> 'a usb_pcd_scheme \<Rightarrow> 'a usb_pcd_scheme" where
  "HAL_PCD_DataInStageCallback epnum s = pcd_call (Stack_DataIn epnum) s"
definition HAL_PCD_SOFCallback :: "'a usb_pcd_scheme \<Rightarrow> 'a usb_pcd_scheme" where
  "HAL_PCD_SOFCallback s = pcd_call Stack_SOF s"

definition HAL_PCD_ResetCallback :: "'a usb_pcd_scheme \<Rightarrow> 'a usb_pcd_scheme" where
  "HAL_PCD_ResetCallback s =
     (let speed = (case pcd_speed (pcd_Init s) of PCD_SPEED_HIGH \<Rightarrow> USBD_SPEED_HIGH
                   | PCD_SPEED_FULL \<Rightarrow> USBD_SPEED_FULL | _ \<Rightarrow> USBD_SPEED_FULL)
      in pcd_call (Stack_SetSpeed speed) (pcd_call Stack_Reset s))"

definition HAL_PCD_SuspendCallback :: "'a usb_pcd_scheme \<Rightarrow> 'a usb_pcd_scheme" where
  "HAL_PCD_SuspendCallback s =
     (let s1 = pcd_call Gate_Phyclock (pcd_call Stack_Suspend s)
      in if pcd_low_power_enable (pcd_Init s1) then s1\<lparr>sleep_deep := True\<rparr> else s1)"

definition HAL_PCD_ResumeCallback :: "'a usb_pcd_scheme \<Rightarrow> 'a usb_pcd_scheme" where
  "HAL_PCD_ResumeCallback s =
     (let s1 = (if pcd_low_power_enable (pcd_Init s) then (pcd_call Clock_Config s)\<lparr>sleep_deep := False\<rparr> else s)
      in pcd_call Stack_Resume (pcd_call Ungate_Phyclock s1))"

definition HAL_PCD_ISOOUTIncompleteCallback :: "u8 \<Rightarrow> 'a usb_pcd_scheme \<Rightarrow> 'a usb_pcd_scheme" where
  "HAL_PCD_ISOOUTIncompleteCallback epnum s = pcd_call (Stack_IsoOUTIncomplete epnum) s"
definition HAL_PCD_ISOINIncompleteCallback :: "u8 \<Rightarrow> 'a usb_pcd_scheme \<Rightarrow> 'a usb_pcd_scheme" where
  "HAL_PCD_ISOINIncompleteCallback epnum s = pcd_call (Stack_IsoINIncomplete epnum) s"
definition HAL_PCD_ConnectCallback :: "'a usb_pcd_scheme \<Rightarrow> 'a usb_pcd_scheme" where
  "HAL_PCD_ConnectCallback s = pcd_call Stack_DevConnected s"
definition HAL_PCD_DisconnectCallback :: "'a usb_pcd_scheme \<Rightarrow> 'a usb_pcd_scheme" where
  "HAL_PCD_DisconnectCallback s = pcd_call Stack_DevDisconnected s"

definition OTG_IRQHandler :: "'a usb_pcd_scheme \<Rightarrow> 'a usb_pcd_scheme" where
  "OTG_IRQHandler s = pcd_call Pcd_IRQHandler s"

definition OTG_WKUP_IRQHandler :: "'a usb_pcd_scheme \<Rightarrow> 'a usb_pcd_scheme" where
  "OTG_WKUP_IRQHandler s =
     (if pcd_low_power_enable (pcd_Init s)
      then pcd_call Ungate_Phyclock (pcd_call Clock_Config (s\<lparr>sleep_deep := False\<rparr>)) else s)"

section \<open>The pins\<close>

lemma digital_configurable:
  "f AND STM_MODE_ANALOG \<noteq> STM_MODE_ANALOG \<Longrightarrow> \<exists>sw. is_dualpad_switch_gpio_configurable p f = (True, sw)"
proof -
  assume f: "f AND STM_MODE_ANALOG \<noteq> STM_MODE_ANALOG"
  have "\<exists>sw. dualpad_loop p f m = (True, sw)" for m
    using f by (induction m) auto
  then show ?thesis by (simp add: is_dualpad_switch_gpio_configurable_def)
qed

text \<open>What a row asks for, and a table of such rows for different pins.\<close>

definition row_set :: "PinMap \<Rightarrow> 'a gpio_scheme \<Rightarrow> bool" where
  "row_set r s = (case r of (p, per, f) \<Rightarrow>
     MODER s (STM_PORT p) (STM_PIN p) = mode_of (STM_PIN_FUNCTION f) \<and>
     (STM_PIN_FUNCTION f = 2 \<longrightarrow> alternate s (STM_PORT p) (STM_PIN p) = STM_PIN_AFNUM f))"

definition usb_row :: "PinMap \<Rightarrow> bool" where
  "usb_row r = (case r of (p, per, f) \<Rightarrow> p \<noteq> NC \<and> row_ok r \<and> f AND STM_MODE_ANALOG \<noteq> STM_MODE_ANALOG \<and>
     (STM_PIN_FUNCTION f = 2 \<longrightarrow> STM_PIN_AFNUM f \<noteq> 0x7F))"

lemma row_set_regs: "row_set (p, per, f) s \<longleftrightarrow> row_set (p, per, f) s'"
  if "pin_regs s (STM_PORT p) (STM_PIN p) = pin_regs s' (STM_PORT p) (STM_PIN p)"
  for s s' :: "'a gpio_scheme"
  using that by (simp add: row_set_def pin_regs_def)

lemma configure_map_regs:
  fixes s :: "'a gpio_scheme"
  assumes "list_all usb_row rows" and "distinct (map (phys \<circ> fst) rows)"
  shows "\<exists>s'. configure_map (rows @ [(NC, NP, 0)]) s = Some s' \<and> gpio.more s' = gpio.more s \<and>
    (\<forall>r \<in> set rows. row_set r s') \<and>
    (\<forall>port n. (port, n) \<notin> (phys \<circ> fst) ` set rows \<longrightarrow> n \<le> 15 \<longrightarrow> pin_regs s' port n = pin_regs s port n)"
  using assms
proof (induction rows arbitrary: s)
  case Nil
  then show ?case by simp
next
  case (Cons r rows)
  obtain p per f where r: "r = (p, per, f)" by (cases r)
  have ok: "p \<noteq> NC" "STM_PORT p \<le> LastPort" "STM_PIN_FUNCTION f \<le> 3" "STM_PIN_FUNCTION f = 2 \<longrightarrow> STM_PIN_AFNUM f \<noteq> 0x7F"
    using Cons.prems(1) by (simp_all add: r usb_row_def row_ok_def)
  obtain sw where sw: "is_dualpad_switch_gpio_configurable p f = (True, sw)"
    using digital_configurable Cons.prems(1) by (auto simp: r usb_row_def)
  obtain s1 where s1: "pin_function p f s = Some s1" "pin_regs s1 (STM_PORT p) (STM_PIN p) =
      (mode_of (STM_PIN_FUNCTION f),
       if STM_PIN_FUNCTION f \<in> {1, 2}
       then (if STM_PIN_OD f = 1 then LL_GPIO_OUTPUT_OPENDRAIN else LL_GPIO_OUTPUT_PUSHPULL)
       else OTYPER s (STM_PORT p) (STM_PIN p),
       LL_GPIO_SPEED_FREQ_VERY_HIGH, pull_of (STM_PIN_PUPD f),
       if STM_PIN_FUNCTION f = 2 \<and> STM_PIN_AFNUM f \<noteq> 0x7F then STM_PIN_AFNUM f
       else alternate s (STM_PORT p) (STM_PIN p))"
    "\<forall>port n. (port, n) \<noteq> phys p \<longrightarrow> n \<le> 15 \<longrightarrow> pin_regs s1 port n = pin_regs s port n"
    using pin_function_regs [OF ok(2,3) sw, of s] by (auto simp: phys_def)
  have set1: "row_set r s1" using s1(2) ok(4) by (simp add: row_set_def pin_regs_def r)
  have prems: "list_all usb_row rows" "distinct (map (phys \<circ> fst) rows)" "phys p \<notin> (phys \<circ> fst) ` set rows"
    using Cons.prems by (simp_all add: r comp_def)
  from Cons.IH [OF prems(1,2), of s1] obtain s' where s': "configure_map (rows @ [(NC, NP, 0)]) s1 = Some s'"
    "gpio.more s' = gpio.more s1" "\<forall>r \<in> set rows. row_set r s'"
    "\<forall>port n. (port, n) \<notin> (phys \<circ> fst) ` set rows \<longrightarrow> n \<le> 15 \<longrightarrow> pin_regs s' port n = pin_regs s1 port n"
    by blast
  have "pin_regs s' (STM_PORT p) (STM_PIN p) = pin_regs s1 (STM_PORT p) (STM_PIN p)"
    using s'(4) prems(3) nibble by (simp add: phys_def)
  then have "row_set r s'" using set1 row_set_regs r by blast
  moreover have "pin_regs s' port n = pin_regs s port n"
    if "(port, n) \<notin> (phys \<circ> fst) ` set (r # rows)" "n \<le> 15" for port n
    using that s'(4) s1(3) by (auto simp: r)
  ultimately show ?case
    using s' s1(1) ok(1) pin_function_more [OF s1(1)] by (simp add: r)
qed

lemma usb_fs_rows: "list_all usb_row (butlast PinMap_USB_OTG_FS)" "distinct (map (phys \<circ> fst) (butlast PinMap_USB_OTG_FS))"
  "(phys \<circ> fst) ` set (butlast PinMap_USB_OTG_FS) = {(0, 8), (0, 9), (0, 10), (0, 11), (0, 12)}"
  by (simp_all add: PinMap_USB_OTG_FS_def usb_row_def row_ok_def STM_PIN_AFNUM_def table_defs phys_def STM_PIN_def)

lemma usb_hs_rows: "list_all usb_row (butlast PinMap_USB_OTG_HS)" "distinct (map (phys \<circ> fst) (butlast PinMap_USB_OTG_HS))"
  by (simp_all add: PinMap_USB_OTG_HS_def usb_row_def row_ok_def STM_PIN_AFNUM_def table_defs phys_def STM_PIN_def)

lemma table_end: "table_ok t \<Longrightarrow> t = butlast t @ [(NC, NP, 0)]"
  by (rule table_rows(1))

section \<open>Initialisation\<close>

lemma pcd_more:
  "gpio.more s' = gpio.more s \<Longrightarrow> pcd_Instance s' = pcd_Instance s \<and> pcd_Init s' = pcd_Init s \<and>
     otg_clock s' = otg_clock s \<and> otg_irq s' = otg_irq s \<and> pcd_linked s' = pcd_linked s \<and>
     pcd_state_reset s' = pcd_state_reset s \<and> pcd_log s' = pcd_log s"
  for s s' :: "'a usb_pcd_scheme"
  by (cases s; cases s') auto

lemma pcd_frame [simp]:
  fixes s :: "'a usb_pcd_scheme"
  shows "pin_regs (pcd_call c s) = pin_regs s" "pin_regs (set_irq n s) = pin_regs s"
    "pin_regs (s\<lparr>usb_detector := a\<rparr>) = pin_regs s" "pin_regs (s\<lparr>otg_clock := b\<rparr>) = pin_regs s"
    "pin_regs (s\<lparr>ulpi_clock := d\<rparr>) = pin_regs s" "pin_regs (s\<lparr>pcd_Init := e\<rparr>) = pin_regs s"
    "pin_regs (s\<lparr>pcd_Instance := f\<rparr>) = pin_regs s" "pin_regs (s\<lparr>pcd_linked := g\<rparr>) = pin_regs s"
    "pin_regs (s\<lparr>pcd_state_reset := h\<rparr>) = pin_regs s" "pin_regs (s\<lparr>DIEPTXF := i\<rparr>) = pin_regs s"
    "pin_regs (s\<lparr>GRXFSIZ := j\<rparr>) = pin_regs s" "pin_regs (s\<lparr>DIEPTXF0 := k\<rparr>) = pin_regs s"
  by (simp_all add: pcd_call_def set_irq_def pin_regs_def alternate_def fun_eq_iff)

definition usb_table :: "bool \<Rightarrow> PinMap list" where
  "usb_table hs = (if hs then PinMap_USB_OTG_HS else PinMap_USB_OTG_FS)"

definition usb_irqn :: "bool \<Rightarrow> int" where
  "usb_irqn hs = (if hs then OTG_HS_IRQn else OTG_FS_IRQn)"

lemma usb_table_rows:
  "usb_table hs = butlast (usb_table hs) @ [(NC, NP, 0)]" "list_all usb_row (butlast (usb_table hs))"
  "distinct (map (phys \<circ> fst) (butlast (usb_table hs)))"
  using table_end PinMap_USB_OTG_FS_ok PinMap_USB_OTG_HS_ok usb_fs_rows usb_hs_rows by (auto simp: usb_table_def)

lemma MspInit_regs:
  assumes "pcd_Instance s = USBD_USB_INSTANCE hs" and "\<not> pcd_low_power_enable (pcd_Init s)"
  shows "\<exists>s'. HAL_PCD_MspInit s = Some s' \<and> (\<forall>r \<in> set (butlast (usb_table hs)). row_set r s') \<and>
    (\<forall>port n. (port, n) \<notin> (phys \<circ> fst) ` set (butlast (usb_table hs)) \<longrightarrow> n \<le> 15 \<longrightarrow> pin_regs s' port n = pin_regs s port n) \<and>
    pcd_Instance s' = pcd_Instance s \<and> pcd_Init s' = pcd_Init s \<and> pcd_linked s' = pcd_linked s \<and>
    otg_clock s' (USBD_USB_INSTANCE hs) \<and> otg_irq s' (usb_irqn hs) \<and>
    otg_prio s' (usb_irqn hs) = (USBD_IRQ_PRIO, USBD_IRQ_SUBPRIO)"
proof -
  let ?t = "butlast (usb_table hs)"
  define x where "x = (if \<not> usb_detector s then pcd_call Enable_Voltage_Detector (s\<lparr>usb_detector := True\<rparr>) else s)"
  obtain s1 where s1: "configure_map (usb_table hs) x = Some s1" "gpio.more s1 = gpio.more x" "\<forall>r \<in> set ?t. row_set r s1"
    "\<forall>port n. (port, n) \<notin> (phys \<circ> fst) ` set ?t \<longrightarrow> n \<le> 15 \<longrightarrow> pin_regs s1 port n = pin_regs x port n"
    using configure_map_regs [OF usb_table_rows(2,3), of hs x] usb_table_rows(1) [of hs, symmetric] by auto
  have eq: "pcd_Instance x = pcd_Instance s" "pcd_Init x = pcd_Init s" "pcd_linked x = pcd_linked s"
    by (simp_all add: x_def pcd_call_def)
  have regs: "pin_regs x = pin_regs s" by (simp add: x_def)
  note more = pcd_more [OF s1(2), unfolded eq]
  let ?r = "set_irq (usb_irqn hs) ((if hs then s1\<lparr>ulpi_clock := True\<rparr> else s1)\<lparr>otg_clock := (otg_clock s1)(USBD_USB_INSTANCE hs := True)\<rparr>)"
  have "HAL_PCD_MspInit s = Some ?r"
    using s1(1) more assms unfolding HAL_PCD_MspInit_def x_def [symmetric] Let_def
    by (cases hs) (simp_all add: usb_table_def usb_irqn_def USBD_USB_INSTANCE_def set_irq_def eq)
  moreover have "pin_regs ?r = pin_regs s1" by simp
  moreover have "row_set r ?r = row_set r s1" for r
    by (cases r, simp only:, rule row_set_regs) simp
  ultimately show ?thesis
    using s1(3,4) more regs by (intro exI [of _ ?r]) (simp add: set_irq_def)
qed

text \<open>A region of the packet memory: where it starts and how many words it has.\<close>

definition fifo_region :: "u32 \<Rightarrow> nat \<times> nat" where
  "fifo_region r = (unat (r AND 0xFFFF), unat (drop_bit 16 r))"

definition packet_memory :: "'a usb_pcd_scheme \<Rightarrow> (nat \<times> nat) list" where
  "packet_memory s = (0, unat (GRXFSIZ s)) # map fifo_region (DIEPTXF0 s # take (DEV_NUM_EP - 1) (DIEPTXF s))"

text \<open>Regions one behind the other, in the order of the list.\<close>

fun contiguous :: "nat \<Rightarrow> (nat \<times> nat) list \<Rightarrow> bool" where
  "contiguous at [] \<longleftrightarrow> True"
| "contiguous at ((start, words) # rs) \<longleftrightarrow> start = at \<and> contiguous (at + words) rs"

lemma third:
  "(x # y # z # r)[2 := v] = x # y # v # r" "take 2 (x # y # r) = [x, y]" "take 3 (x # y # z # r) = [x, y, z]"
  by (simp_all add: numeral_2_eq_2 numeral_3_eq_3)

lemma fifos_set:
  fixes s :: "'a usb_pcd_scheme"
  assumes "DIEPTXF s = replicate 15 0"
  shows "\<exists>s'. set_fifos (tl (ep_def hs)) (HAL_PCDEx_SetRxFiFo (of_nat (snd (hd (ep_def hs)))) s) = Some s' \<and>
    packet_memory s' = (if hs then [(0, 512), (512, 512), (1024, 512), (1536, 512), (2048, 8)]
      else [(0, 64), (64, 64), (128, 64), (192, 64), (256, 8)]) \<and>
    (\<exists>a b c. s' = s\<lparr>GRXFSIZ := a, DIEPTXF0 := b, DIEPTXF := c\<rparr>)"
proof -
  obtain rest where d: "DIEPTXF s = 0 # 0 # 0 # rest"
    using assms by (simp add: numeral_eq_Suc)
  show ?thesis
    by (cases hs) (auto simp: ep_def_def HAL_PCDEx_SetRxFiFo_def HAL_PCDEx_SetTxFiFo_def tx_offset_def packet_memory_def
      fifo_region_def third d consts_simp)
qed

lemma ll_init:
  fixes s :: "'a usb_pcd_scheme"
  assumes "pcd_state_reset s"
  shows "\<exists>s'. USBD_LL_Init hs True s = Some s' \<and> (\<forall>r \<in> set (butlast (usb_table hs)). row_set r s') \<and>
    (\<forall>port n. (port, n) \<notin> (phys \<circ> fst) ` set (butlast (usb_table hs)) \<longrightarrow> n \<le> 15 \<longrightarrow> pin_regs s' port n = pin_regs s port n) \<and>
    pcd_Instance s' = USBD_USB_INSTANCE hs \<and> pcd_Init s' = pcd_params hs \<and> pcd_linked s' \<and>
    otg_clock s' (USBD_USB_INSTANCE hs) \<and> otg_irq s' (usb_irqn hs) \<and>
    packet_memory s' = (if hs then [(0, 512), (512, 512), (1024, 512), (1536, 512), (2048, 8)]
      else [(0, 64), (64, 64), (128, 64), (192, 64), (256, 8)])"
proof -
  let ?i = "USBD_USB_INSTANCE hs"
  define x where "x = (USBD_reenumerate ?i s)\<lparr>pcd_Init := pcd_params hs, pcd_Instance := ?i, pcd_linked := True\<rparr>"
  have x: "pcd_Instance x = ?i" "pcd_Init x = pcd_params hs" "pcd_linked x" "pcd_state_reset x" "pin_regs x = pin_regs s"
    using assms by (simp_all add: x_def USBD_reenumerate_def) (simp add: pcd_call_def)
  have low: "\<not> pcd_low_power_enable (pcd_Init x)" by (simp add: x pcd_params_def)
  obtain s1 where s1: "HAL_PCD_MspInit x = Some s1" "\<forall>r \<in> set (butlast (usb_table hs)). row_set r s1"
    "\<forall>port n. (port, n) \<notin> (phys \<circ> fst) ` set (butlast (usb_table hs)) \<longrightarrow> n \<le> 15 \<longrightarrow> pin_regs s1 port n = pin_regs x port n"
    "pcd_Instance s1 = ?i" "pcd_Init s1 = pcd_params hs" "pcd_linked s1" "otg_clock s1 ?i" "otg_irq s1 (usb_irqn hs)"
    using MspInit_regs [OF x(1) low] x by auto
  define y where "y = (pcd_call Core_Init_Hw (s1\<lparr>pcd_state_reset := False\<rparr>))\<lparr>DIEPTXF := replicate 15 0\<rparr>"
  have init: "HAL_PCD_Init True x = Some (True, y)"
    using x(4) s1(1) by (simp add: HAL_PCD_Init_def y_def)
  have "DIEPTXF y = replicate 15 0" by (simp add: y_def)
  from fifos_set [OF this, of hs] obtain s' a b c where s': "set_fifos (tl (ep_def hs))
      (HAL_PCDEx_SetRxFiFo (of_nat (snd (hd (ep_def hs)))) y) = Some s'"
    "packet_memory s' = (if hs then [(0, 512), (512, 512), (1024, 512), (1536, 512), (2048, 8)]
      else [(0, 64), (64, 64), (128, 64), (192, 64), (256, 8)])"
    "s' = y\<lparr>GRXFSIZ := a, DIEPTXF0 := b, DIEPTXF := c\<rparr>" by blast
  have run: "USBD_LL_Init hs True s = Some s'"
    using init s'(1) unfolding USBD_LL_Init_def Let_def x_def by simp
  have regs: "pin_regs s' = pin_regs s1" by (simp add: s'(3) y_def)
  have "row_set r s' = row_set r s1" for r by (cases r, simp only:, rule row_set_regs) (simp add: regs)
  moreover have "pcd_Instance s' = ?i" "pcd_Init s' = pcd_params hs" "pcd_linked s'" "otg_clock s' ?i" "otg_irq s' (usb_irqn hs)"
    using s1(4-8) by (simp_all add: s'(3) y_def pcd_call_def)
  ultimately show ?thesis
    using run s'(2) s1(2,3) x(5) regs by (intro exI [of _ s']) (simp only: simp_thms)
qed


definition usb_pcd0 :: usb_pcd where
  "usb_pcd0 = gpio.extend gpio0 \<lparr>pcd_Instance = NP, pcd_Init = pcd_params False, pcd_state_reset = True, pcd_linked = False,
     GRXFSIZ = 0x400, DIEPTXF0 = 0x02000400, DIEPTXF = replicate 15 0, IN_stall = replicate 16 False,
     OUT_stall = replicate 16 False, otg_clock = (\<lambda>_. False), ulpi_clock = False, otg_irq = (\<lambda>_. False),
     otg_prio = (\<lambda>_. (0, 0)), usb_detector = False, sleep_deep = False, pcd_log = []\<rparr>"


section \<open>USB and the terminals\<close>

lemma DOUT_1_pin: "digitalPinToPinName DOUT_1 = PA 8" "phys (PA 8) = (0, 8)"
  by (simp_all add: digitalPinToPinName_def digitalPin_def board_defs consts_simp phys_def STM_PORT_def STM_PIN_def port_defs)

lemma fs_terminals: "t \<in> set terminals \<Longrightarrow> t \<noteq> DOUT_1 \<Longrightarrow> phys (digitalPinToPinName t) \<notin> {(0, 8), (0, 9), (0, 10), (0, 11), (0, 12)}"
proof -
  assume t: "t \<in> set terminals" "t \<noteq> DOUT_1"
  have "(phys \<circ> digitalPinToPinName) t \<in> set (map (phys \<circ> digitalPinToPinName) terminals)"
    using t(1) unfolding set_map by (rule imageI)
  then have "(phys \<circ> digitalPinToPinName) t \<notin> {(0, 9), (0, 10), (0, 11), (0, 12)}"
    unfolding terminal_phys by auto
  moreover have "DOUT_1 \<in> set terminals" by (simp add: terminals_def digital_terminals_def)
  then have "(phys \<circ> digitalPinToPinName) t \<noteq> (phys \<circ> digitalPinToPinName) DOUT_1"
    using terminals_distinct t by (metis inj_onD)
  ultimately show ?thesis using DOUT_1_pin by simp
qed

text \<open>C36: Starting USB takes the first digital output. Its terminal is the pin that the table of the
  controller names for the start-of-frame signal: whatever a sketch made of it before, it is routed to the
  controller afterwards. Every other terminal and the Ethernet controller keep their pins.\<close>

theorem usb_start_takes_output:
  fixes s :: "'a usb_pcd_scheme"
  assumes "pcd_state_reset s" and "eth_up s"
  shows "\<exists>s'. USBD_LL_Init False True s = Some s' \<and>
    (case phys (digitalPinToPinName DOUT_1) of (port, n) \<Rightarrow>
       MODER s' port n = LL_GPIO_MODE_ALTERNATE \<and> alternate s' port n = 10) \<and>
    (\<forall>t \<in> set terminals - {DOUT_1}. case phys (digitalPinToPinName t) of (port, n) \<Rightarrow> pin_regs s' port n = pin_regs s port n) \<and>
    eth_up s'"
proof -
  from ll_init [OF assms(1), of False] obtain s' where s': "USBD_LL_Init False True s = Some s'"
    "\<forall>r \<in> set (butlast PinMap_USB_OTG_FS). row_set r s'"
    "\<And>port n. (port, n) \<notin> {(0, 8), (0, 9), (0, 10), (0, 11), (0, 12)} \<Longrightarrow> n \<le> 15 \<Longrightarrow> pin_regs s' port n = pin_regs s port n"
    unfolding usb_table_def if_False usb_fs_rows(3) by blast
  have "(PA 8, USB_OTG_FS, STM_PIN_DATA STM_MODE_AF_PP GPIO_PULLUP 10) \<in> set (butlast PinMap_USB_OTG_FS)"
    by (simp add: PinMap_USB_OTG_FS_def)
  with s'(2) have "row_set (PA 8, USB_OTG_FS, STM_PIN_DATA STM_MODE_AF_PP GPIO_PULLUP 10) s'" by blast
  then have out: "MODER s' 0 8 = LL_GPIO_MODE_ALTERNATE \<and> alternate s' 0 8 = 10"
    using DOUT_1_pin(2) by (simp add: row_set_def phys_def STM_PIN_FUNCTION_def STM_PIN_AFNUM_def STM_PIN_DATA_def mode_of_def consts_simp)
  have "pin_regs s' port n = pin_regs s port n"
    if "t \<in> set terminals - {DOUT_1}" "phys (digitalPinToPinName t) = (port, n)" for t port n
    using s'(3) [of port n] fs_terminals [of t] that nibble by (auto simp: phys_def)
  moreover have "eth_up s'"
  proof -
    have "eth_pos \<inter> {(0, 8), (0, 9), (0, 10), (0, 11), (0, 12)} = {}" by (simp add: eth_pos_simp)
    then have "pin_regs s' (STM_PORT p) (STM_PIN p) = pin_regs s (STM_PORT p) (STM_PIN p)" if "p \<in> set eth_pins" for p
      using that nibble [of p] by (intro s'(3)) (auto simp: eth_pos_def phys_def)
    then show ?thesis using assms(2) by (simp add: eth_up_def)
  qed
  ultimately show ?thesis using s'(1) out DOUT_1_pin by (auto intro!: exI [of _ s'])
qed

lemma eth_up_more: "eth_up (gpio.extend (gpio.truncate s) m) \<longleftrightarrow> eth_up s"
  by (simp add: eth_up_def pin_regs_def alternate_def gpio.defs)

theorem usb_start_takes_output_witness:
  "\<exists>(s :: usb_pcd) s'. eth_up s \<and> USBD_LL_Init False True s = Some s' \<and>
    (case phys (digitalPinToPinName DOUT_1) of (port, n) \<Rightarrow>
       MODER s' port n = LL_GPIO_MODE_ALTERNATE \<and> alternate s' port n = 10) \<and> eth_up s'"
proof -
  let ?s = "gpio.extend (gpio.truncate (HAL_ETH_MspInit ETH eth_msp0)) (gpio.more usb_pcd0) :: usb_pcd"
  have up: "eth_up ?s" by (simp only: eth_up_more eth_up_start)
  have reset: "pcd_state_reset ?s" by (simp add: usb_pcd0_def gpio.defs)
  from usb_start_takes_output [OF reset up] obtain s' where "USBD_LL_Init False True ?s = Some s'"
    "case phys (digitalPinToPinName DOUT_1) of (port, n) \<Rightarrow>
       MODER s' port n = LL_GPIO_MODE_ALTERNATE \<and> alternate s' port n = 10" "eth_up s'"
    by (elim exE conjE) (rule that)
  with up show ?thesis by (intro exI [of _ ?s] exI [of _ s'] conjI)
qed

text \<open>At high speed the table names two pins of the Ethernet controller, and the sizes in bytes taken as words
  need more than the controller's 1024 words of packet memory.\<close>

theorem high_speed_takes_ethernet:
  fixes s :: "'a usb_pcd_scheme"
  assumes "pcd_state_reset s"
  shows "\<exists>s'. USBD_LL_Init True True s = Some s' \<and> \<not> eth_up s' \<and> sum_list (map snd (packet_memory s')) = 2056"
proof -
  from ll_init [OF assms, of True] obtain s' where s': "USBD_LL_Init True True s = Some s'"
    "\<forall>r \<in> set (butlast PinMap_USB_OTG_HS). row_set r s'"
    "packet_memory s' = [(0, 512), (512, 512), (1024, 512), (1536, 512), (2048, 8)]"
    unfolding usb_table_def if_True by blast
  have "(PB 12, USB_OTG_HS, STM_PIN_DATA STM_MODE_AF_PP GPIO_PULLUP 10) \<in> set (butlast PinMap_USB_OTG_HS)"
    by (simp add: PinMap_USB_OTG_HS_def)
  with s'(2) have "row_set (PB 12, USB_OTG_HS, STM_PIN_DATA STM_MODE_AF_PP GPIO_PULLUP 10) s'" by blast
  then have "alternate s' (STM_PORT (PB 12)) (STM_PIN (PB 12)) = 10"
    by (simp add: row_set_def STM_PIN_FUNCTION_def STM_PIN_AFNUM_def STM_PIN_DATA_def consts_simp)
  moreover have "PB 12 \<in> set eth_pins" by (simp add: eth_pins_def)
  ultimately have "\<not> eth_up s'" by (force simp: eth_up_def eth_regs_def pin_regs_def)
  then show ?thesis using s'(1,3) by simp
qed

text \<open>A request for the status of an endpoint may name one that the driver does not have: the read is
  outside the arrays for every number from 16 on.\<close>

theorem stall_of_unknown_endpoint:
  "length (IN_stall s) = 16 \<Longrightarrow> length (OUT_stall s) = 16 \<Longrightarrow>
     USBD_LL_IsStallEP ep_addr s = None \<longleftrightarrow> 16 \<le> unat (ep_addr AND 0x7F)"
  by (simp add: USBD_LL_IsStallEP_def mem_get_def not_less)

end
