(* ===== verification/Usb_Hid.thy ===== *)
theory Usb_Hid
  imports Usb_Cdc_Desc Udp_Server
begin

text \<open>
  The USB keyboard and mouse, which a build may choose instead of the serial port: the class driver
  \<^verbatim>\<open>cores/arduino/stm32/usb/hid/usbd_hid_composite.c\<close>, its interface
  \<^verbatim>\<open>usbd_hid_composite_if.c\<close>, and the two libraries above, \<^verbatim>\<open>libraries/Keyboard\<close> and
  \<^verbatim>\<open>libraries/Mouse\<close>. Calls into the USB device library and the low level driver are recorded in a log, a report with
  the bytes it has when it is handed over. A use of the class data while there are none has no result.
\<close>

section \<open>Constants and state\<close>

definition HID_MOUSE_INTERFACE :: u8 where [consts_simp]: "HID_MOUSE_INTERFACE = 0"
definition HID_KEYBOARD_INTERFACE :: u8 where [consts_simp]: "HID_KEYBOARD_INTERFACE = 1"
definition USB_COMPOSITE_HID_CONFIG_DESC_SIZ :: nat where [consts_simp]: "USB_COMPOSITE_HID_CONFIG_DESC_SIZ = 59"
definition USB_HID_DESC_SIZ :: nat where [consts_simp]: "USB_HID_DESC_SIZ = 9"
definition HID_MOUSE_REPORT_DESC_SIZE :: nat where [consts_simp]: "HID_MOUSE_REPORT_DESC_SIZE = 74"
definition HID_KEYBOARD_REPORT_DESC_SIZE :: nat where [consts_simp]: "HID_KEYBOARD_REPORT_DESC_SIZE = 45"
definition HID_DESCRIPTOR_TYPE :: u8 where [consts_simp]: "HID_DESCRIPTOR_TYPE = 0x21"
definition HID_REPORT_DESC :: u8 where [consts_simp]: "HID_REPORT_DESC = 0x22"
definition HID_HS_BINTERVAL :: u8 where [consts_simp]: "HID_HS_BINTERVAL = 7"
definition HID_FS_BINTERVAL :: u8 where [consts_simp]: "HID_FS_BINTERVAL = 10"
definition HID_REQ_SET_PROTOCOL :: u8 where [consts_simp]: "HID_REQ_SET_PROTOCOL = 0x0B"
definition HID_REQ_GET_PROTOCOL :: u8 where [consts_simp]: "HID_REQ_GET_PROTOCOL = 0x03"
definition HID_REQ_SET_IDLE :: u8 where [consts_simp]: "HID_REQ_SET_IDLE = 0x0A"
definition HID_REQ_GET_IDLE :: u8 where [consts_simp]: "HID_REQ_GET_IDLE = 0x02"
definition HID_MOUSE_EPIN_ADDR :: u8 where [consts_simp]: "HID_MOUSE_EPIN_ADDR = 0x81"
definition HID_KEYBOARD_EPIN_ADDR :: u8 where [consts_simp]: "HID_KEYBOARD_EPIN_ADDR = 0x82"
definition HID_MOUSE_EPIN_SIZE :: nat where [consts_simp]: "HID_MOUSE_EPIN_SIZE = 4"
definition HID_KEYBOARD_EPIN_SIZE :: nat where [consts_simp]: "HID_KEYBOARD_EPIN_SIZE = 8"

datatype HID_State = HID_IDLE | HID_BUSY
datatype HID_Interface = HID_KEYBOARD | HID_MOUSE

record hid_handle =
  hid_Protocol :: u32
  hid_IdleState :: u32
  hid_AltSetting :: u32
  Mousestate :: HID_State
  Keyboardstate :: HID_State

datatype hid_call = Hid_Lib usb_call | Hid_Report u8 "u8 list"

record usb_hid =
  hid_class :: "hid_handle option"
  hid_dev_state :: nat
  hid_dev_speed :: usb_speed
  hid_is_used :: "u8 \<Rightarrow> bool"
  hid_bInterval :: "u8 \<Rightarrow> u8"
  HID_keyboard_initialized :: bool
  HID_mouse_initialized :: bool
  hid_log :: "hid_call list"

definition hid_call :: "hid_call \<Rightarrow> 'a usb_hid_scheme \<Rightarrow> 'a usb_hid_scheme" where
  "hid_call c s = s\<lparr>hid_log := hid_log s @ [c]\<rparr>"

abbreviation hid_lib :: "usb_call \<Rightarrow> 'a usb_hid_scheme \<Rightarrow> 'a usb_hid_scheme" where
  "hid_lib c \<equiv> hid_call (Hid_Lib c)"

section \<open>Descriptors\<close>

definition USBD_HID_CfgFSDesc :: "u8 list" where
  "USBD_HID_CfgFSDesc =
     [0x09, USB_DESC_TYPE_CONFIGURATION, LOBYTE USB_COMPOSITE_HID_CONFIG_DESC_SIZ,
      HIBYTE USB_COMPOSITE_HID_CONFIG_DESC_SIZ, 0x02, 0x01, 0x00, 0xC0, USBD_MAX_POWER, 0x09,
      USB_DESC_TYPE_INTERFACE, HID_MOUSE_INTERFACE, 0x00, 0x01, 0x03, 0x01, 0x02, 0x00, 0x09,
      HID_DESCRIPTOR_TYPE, 0x11, 0x01, 0x00, 0x01, 0x22, of_nat HID_MOUSE_REPORT_DESC_SIZE, 0x00,
      0x07, USB_DESC_TYPE_ENDPOINT, HID_MOUSE_EPIN_ADDR, 0x03, of_nat HID_MOUSE_EPIN_SIZE, 0x00,
      HID_FS_BINTERVAL, 0x09, USB_DESC_TYPE_INTERFACE, HID_KEYBOARD_INTERFACE, 0x00, 0x01, 0x03,
      0x01, 0x01, 0x00, 0x09, HID_DESCRIPTOR_TYPE, 0x11, 0x01, 0x00, 0x01, 0x22,
      of_nat HID_KEYBOARD_REPORT_DESC_SIZE, 0x00, 0x07, USB_DESC_TYPE_ENDPOINT,
      HID_KEYBOARD_EPIN_ADDR, 0x03, of_nat HID_KEYBOARD_EPIN_SIZE, 0x00, HID_FS_BINTERVAL]"

definition USBD_HID_CfgHSDesc :: "u8 list" where
  "USBD_HID_CfgHSDesc =
     [0x09, USB_DESC_TYPE_CONFIGURATION, LOBYTE USB_COMPOSITE_HID_CONFIG_DESC_SIZ,
      HIBYTE USB_COMPOSITE_HID_CONFIG_DESC_SIZ, 0x02, 0x01, 0x00, 0xC0, USBD_MAX_POWER, 0x09,
      USB_DESC_TYPE_INTERFACE, HID_MOUSE_INTERFACE, 0x00, 0x01, 0x03, 0x01, 0x02, 0, 0x09,
      HID_DESCRIPTOR_TYPE, 0x11, 0x01, 0x00, 0x01, 0x22, of_nat HID_MOUSE_REPORT_DESC_SIZE, 0x00,
      0x07, USB_DESC_TYPE_ENDPOINT, HID_MOUSE_EPIN_ADDR, 0x03, of_nat HID_MOUSE_EPIN_SIZE, 0x00,
      HID_HS_BINTERVAL, 0x09, USB_DESC_TYPE_INTERFACE, HID_KEYBOARD_INTERFACE, 0x00, 0x01, 0x03,
      0x01, 0x01, 0x00, 0x09, HID_DESCRIPTOR_TYPE, 0x11, 0x01, 0x00, 0x01, 0x22,
      of_nat HID_KEYBOARD_REPORT_DESC_SIZE, 0x00, 0x07, USB_DESC_TYPE_ENDPOINT,
      HID_KEYBOARD_EPIN_ADDR, 0x03, of_nat HID_KEYBOARD_EPIN_SIZE, 0x00, HID_HS_BINTERVAL]"

definition USBD_HID_OtherSpeedCfgDesc :: "u8 list" where
  "USBD_HID_OtherSpeedCfgDesc =
     [0x09, USB_DESC_TYPE_CONFIGURATION, LOBYTE USB_COMPOSITE_HID_CONFIG_DESC_SIZ,
      HIBYTE USB_COMPOSITE_HID_CONFIG_DESC_SIZ, 0x02, 0x01, 0x00, 0xC0, USBD_MAX_POWER, 0x09,
      USB_DESC_TYPE_INTERFACE, HID_MOUSE_INTERFACE, 0x00, 0x01, 0x03, 0x01, 0x02, 0, 0x09,
      HID_DESCRIPTOR_TYPE, 0x11, 0x01, 0x00, 0x01, 0x22, of_nat HID_MOUSE_REPORT_DESC_SIZE, 0x00,
      0x07, USB_DESC_TYPE_ENDPOINT, HID_MOUSE_EPIN_ADDR, 0x03, of_nat HID_MOUSE_EPIN_SIZE, 0x00,
      HID_FS_BINTERVAL, 0x09, USB_DESC_TYPE_INTERFACE, HID_KEYBOARD_INTERFACE, 0x00, 0x01, 0x03,
      0x01, 0x01, 0x00, 0x09, HID_DESCRIPTOR_TYPE, 0x11, 0x01, 0x00, 0x01, 0x22,
      of_nat HID_KEYBOARD_REPORT_DESC_SIZE, 0x00, 0x07, USB_DESC_TYPE_ENDPOINT,
      HID_KEYBOARD_EPIN_ADDR, 0x03, of_nat HID_KEYBOARD_EPIN_SIZE, 0x00, HID_FS_BINTERVAL]"

definition USBD_MOUSE_HID_Desc :: "u8 list" where
  "USBD_MOUSE_HID_Desc =
     [0x09, HID_DESCRIPTOR_TYPE, 0x11, 0x01, 0x00, 0x01, 0x22, of_nat HID_MOUSE_REPORT_DESC_SIZE,
      0x00]"

definition USBD_KEYBOARD_HID_Desc :: "u8 list" where
  "USBD_KEYBOARD_HID_Desc =
     [0x09, HID_DESCRIPTOR_TYPE, 0x11, 0x01, 0x00, 0x01, 0x22,
      of_nat HID_KEYBOARD_REPORT_DESC_SIZE, 0x00]"

definition USBD_HID_DeviceQualifierDesc :: "u8 list" where
  "USBD_HID_DeviceQualifierDesc =
     [USB_LEN_DEV_QUALIFIER_DESC, USB_DESC_TYPE_DEVICE_QUALIFIER, 0x00, 0x02, 0x00, 0x00, 0x00,
      0x40, 0x01, 0x00]"

definition HID_MOUSE_ReportDesc :: "u8 list" where
  "HID_MOUSE_ReportDesc =
     [0x05, 0x01, 0x09, 0x02, 0xA1, 0x01, 0x09, 0x01, 0xA1, 0x00, 0x05, 0x09, 0x19, 0x01, 0x29,
      0x03, 0x15, 0x00, 0x25, 0x01, 0x95, 0x03, 0x75, 0x01, 0x81, 0x02, 0x95, 0x01, 0x75, 0x05,
      0x81, 0x01, 0x05, 0x01, 0x09, 0x30, 0x09, 0x31, 0x09, 0x38, 0x15, 0x81, 0x25, 0x7F, 0x75,
      0x08, 0x95, 0x03, 0x81, 0x06, 0xC0, 0x09, 0x3C, 0x05, 0xFF, 0x09, 0x01, 0x15, 0x00, 0x25,
      0x01, 0x75, 0x01, 0x95, 0x02, 0xB1, 0x22, 0x75, 0x06, 0x95, 0x01, 0xB1, 0x01, 0xC0]"

definition HID_KEYBOARD_ReportDesc :: "u8 list" where
  "HID_KEYBOARD_ReportDesc =
     [0x05, 0x01, 0x09, 0x06, 0xA1, 0x01, 0x05, 0x07, 0x19, 0xE0, 0x29, 0xE7, 0x15, 0x00, 0x25,
      0x01, 0x75, 0x01, 0x95, 0x08, 0x81, 0x02, 0x95, 0x01, 0x75, 0x08, 0x81, 0x03, 0x95, 0x06,
      0x75, 0x08, 0x15, 0x00, 0x25, 0x73, 0x05, 0x07, 0x19, 0x00, 0x29, 0x73, 0x81, 0x00, 0xC0]"

definition USBD_HID_GetFSCfgDesc :: "u8 list \<times> nat" where
  "USBD_HID_GetFSCfgDesc = (USBD_HID_CfgFSDesc, to_u16 (int (length USBD_HID_CfgFSDesc)))"

definition USBD_HID_GetHSCfgDesc :: "u8 list \<times> nat" where
  "USBD_HID_GetHSCfgDesc = (USBD_HID_CfgHSDesc, to_u16 (int (length USBD_HID_CfgHSDesc)))"

definition USBD_HID_GetOtherSpeedCfgDesc :: "u8 list \<times> nat" where
  "USBD_HID_GetOtherSpeedCfgDesc = (USBD_HID_OtherSpeedCfgDesc, to_u16 (int (length USBD_HID_OtherSpeedCfgDesc)))"

definition USBD_HID_GetDeviceQualifierDesc :: "u8 list \<times> nat" where
  "USBD_HID_GetDeviceQualifierDesc = (USBD_HID_DeviceQualifierDesc, to_u16 (int (length USBD_HID_DeviceQualifierDesc)))"

section \<open>The class driver\<close>

text \<open>\<open>alloc\<close> is what \<^verbatim>\<open>USBD_malloc\<close> returns, with the content it happens to have.\<close>

definition USBD_HID_Init :: "hid_handle option \<Rightarrow> 'a usb_hid_scheme \<Rightarrow> usb_status \<times> 'a usb_hid_scheme" where
  "USBD_HID_Init alloc s =
     (case alloc of
        None \<Rightarrow> (USBD_EMEM, s\<lparr>hid_class := None\<rparr>)
      | Some hhid \<Rightarrow>
          (let m = ep_index HID_MOUSE_EPIN_ADDR; k = ep_index HID_KEYBOARD_EPIN_ADDR;
               interval = (if hid_dev_speed s = USBD_SPEED_HIGH then HID_HS_BINTERVAL else HID_FS_BINTERVAL);
               s1 = s\<lparr>hid_bInterval := (hid_bInterval s)(m := interval, k := interval)\<rparr>;
               s2 = hid_lib (LL_OpenEP HID_MOUSE_EPIN_ADDR USBD_EP_TYPE_INTR HID_MOUSE_EPIN_SIZE) s1;
               s3 = s2\<lparr>hid_is_used := (hid_is_used s2)(m := True)\<rparr>;
               s4 = hid_lib (LL_OpenEP HID_KEYBOARD_EPIN_ADDR USBD_EP_TYPE_INTR HID_KEYBOARD_EPIN_SIZE) s3;
               s5 = s4\<lparr>hid_is_used := (hid_is_used s4)(k := True)\<rparr>
           in (USBD_OK, s5\<lparr>hid_class := Some (hhid\<lparr>Mousestate := HID_IDLE, Keyboardstate := HID_IDLE\<rparr>)\<rparr>)))"

definition USBD_HID_DeInit :: "'a usb_hid_scheme \<Rightarrow> usb_status \<times> 'a usb_hid_scheme" where
  "USBD_HID_DeInit s =
     (let m = ep_index HID_MOUSE_EPIN_ADDR; k = ep_index HID_KEYBOARD_EPIN_ADDR;
          s1 = hid_lib (LL_CloseEP HID_MOUSE_EPIN_ADDR) s;
          s2 = s1\<lparr>hid_is_used := (hid_is_used s1)(m := False), hid_bInterval := (hid_bInterval s1)(m := 0)\<rparr>;
          s3 = hid_lib (LL_CloseEP HID_KEYBOARD_EPIN_ADDR) s2;
          s4 = s3\<lparr>hid_is_used := (hid_is_used s3)(k := False), hid_bInterval := (hid_bInterval s3)(k := 0)\<rparr>
      in (USBD_OK, if hid_class s4 \<noteq> None then s4\<lparr>hid_class := None\<rparr> else s4))"

text \<open>The two setup functions differ in the descriptors and in that only the one of the mouse tests for the class
  data. The class data are read for the requests below that name them.\<close>

definition hid_class_request :: "setup_req \<Rightarrow> 'a usb_hid_scheme \<Rightarrow> (usb_status \<times> 'a usb_hid_scheme) option" where
  "hid_class_request req s =
     (if bRequest req = HID_REQ_SET_PROTOCOL then
        do { hhid \<leftarrow> hid_class s;
             Some (USBD_OK, s\<lparr>hid_class := Some (hhid\<lparr>hid_Protocol := ucast (ucast (wValue req) :: u8)\<rparr>)\<rparr>) }
      else if bRequest req = HID_REQ_GET_PROTOCOL then
        do { hhid \<leftarrow> hid_class s; Some (USBD_OK, hid_lib (CtlSendData [ucast (hid_Protocol hhid)]) s) }
      else if bRequest req = HID_REQ_SET_IDLE then
        do { hhid \<leftarrow> hid_class s;
             Some (USBD_OK, s\<lparr>hid_class := Some (hhid\<lparr>hid_IdleState := ucast (ucast (drop_bit 8 (wValue req)) :: u8)\<rparr>)\<rparr>) }
      else if bRequest req = HID_REQ_GET_IDLE then
        do { hhid \<leftarrow> hid_class s; Some (USBD_OK, hid_lib (CtlSendData [ucast (hid_IdleState hhid)]) s) }
      else Some (USBD_FAIL, hid_lib CtlError s))"

definition hid_standard_request ::
  "nat \<Rightarrow> u8 list \<Rightarrow> u8 list \<Rightarrow> setup_req \<Rightarrow> 'a usb_hid_scheme \<Rightarrow> (usb_status \<times> 'a usb_hid_scheme) option" where
  "hid_standard_request desc_size report_desc hid_desc req s =
     (if bRequest req = 0x00 then
        if hid_dev_state s = USBD_STATE_CONFIGURED then Some (USBD_OK, hid_lib (CtlSendData [0, 0]) s)
        else Some (USBD_FAIL, hid_lib CtlError s)
      else if bRequest req = 0x06 then
        if drop_bit 8 (wValue req) = ucast HID_REPORT_DESC
        then Some (USBD_OK, hid_lib (CtlSendData (take (min desc_size (unat (wLength req))) report_desc)) s)
        else if drop_bit 8 (wValue req) = ucast HID_DESCRIPTOR_TYPE
        then Some (USBD_OK, hid_lib (CtlSendData (take (min USB_HID_DESC_SIZ (unat (wLength req))) hid_desc)) s)
        else Some (USBD_FAIL, hid_lib CtlError s)
      else if bRequest req = 0x0A then
        if hid_dev_state s = USBD_STATE_CONFIGURED
        then do { hhid \<leftarrow> hid_class s; Some (USBD_OK, hid_lib (CtlSendData [ucast (hid_AltSetting hhid)]) s) }
        else Some (USBD_FAIL, hid_lib CtlError s)
      else if bRequest req = 0x0B then
        if hid_dev_state s = USBD_STATE_CONFIGURED
        then do { hhid \<leftarrow> hid_class s;
                  Some (USBD_OK, s\<lparr>hid_class := Some (hhid\<lparr>hid_AltSetting := ucast (ucast (wValue req) :: u8)\<rparr>)\<rparr>) }
        else Some (USBD_FAIL, hid_lib CtlError s)
      else if bRequest req = 0x01 then Some (USBD_OK, s)
      else Some (USBD_FAIL, hid_lib CtlError s))"

definition USBD_HID_MOUSE_Setup :: "setup_req \<Rightarrow> 'a usb_hid_scheme \<Rightarrow> (usb_status \<times> 'a usb_hid_scheme) option" where
  "USBD_HID_MOUSE_Setup req s =
     (if hid_class s = None then Some (USBD_FAIL, s)
      else if bmRequest req AND 0x60 = 0x20 then hid_class_request req s
      else if bmRequest req AND 0x60 = 0x00 then hid_standard_request HID_MOUSE_REPORT_DESC_SIZE HID_MOUSE_ReportDesc USBD_MOUSE_HID_Desc req s
      else Some (USBD_FAIL, hid_lib CtlError s))"

definition USBD_HID_KEYBOARD_Setup :: "setup_req \<Rightarrow> 'a usb_hid_scheme \<Rightarrow> (usb_status \<times> 'a usb_hid_scheme) option" where
  "USBD_HID_KEYBOARD_Setup req s =
     (if bmRequest req AND 0x60 = 0x20 then hid_class_request req s
      else if bmRequest req AND 0x60 = 0x00 then hid_standard_request HID_KEYBOARD_REPORT_DESC_SIZE HID_KEYBOARD_ReportDesc USBD_KEYBOARD_HID_Desc req s
      else Some (USBD_FAIL, hid_lib CtlError s))"

definition USBD_COMPOSITE_HID_Setup :: "setup_req \<Rightarrow> 'a usb_hid_scheme \<Rightarrow> (usb_status \<times> 'a usb_hid_scheme) option" where
  "USBD_COMPOSITE_HID_Setup req s =
     (if wIndex req AND 0x00FF = ucast HID_KEYBOARD_INTERFACE then USBD_HID_KEYBOARD_Setup req s
      else USBD_HID_MOUSE_Setup req s)"

definition USBD_HID_MOUSE_SendReport :: "u8 list \<Rightarrow> 'a usb_hid_scheme \<Rightarrow> usb_status \<times> 'a usb_hid_scheme" where
  "USBD_HID_MOUSE_SendReport report s =
     (case hid_class s of
        None \<Rightarrow> (USBD_FAIL, s)
      | Some hhid \<Rightarrow>
          if hid_dev_state s = USBD_STATE_CONFIGURED then
            if Mousestate hhid = HID_IDLE
            then (USBD_OK, hid_call (Hid_Report HID_MOUSE_EPIN_ADDR report)
                   (s\<lparr>hid_class := Some (hhid\<lparr>Mousestate := HID_BUSY\<rparr>)\<rparr>))
            else (USBD_BUSY, s)
          else (USBD_OK, s))"

definition USBD_HID_KEYBOARD_SendReport :: "u8 list \<Rightarrow> 'a usb_hid_scheme \<Rightarrow> usb_status \<times> 'a usb_hid_scheme" where
  "USBD_HID_KEYBOARD_SendReport report s =
     (case hid_class s of
        None \<Rightarrow> (USBD_FAIL, s)
      | Some hhid \<Rightarrow>
          if hid_dev_state s = USBD_STATE_CONFIGURED then
            if Keyboardstate hhid = HID_IDLE
            then (USBD_OK, hid_call (Hid_Report HID_KEYBOARD_EPIN_ADDR report)
                   (s\<lparr>hid_class := Some (hhid\<lparr>Keyboardstate := HID_BUSY\<rparr>)\<rparr>))
            else (USBD_BUSY, s)
          else (USBD_OK, s))"

definition USBD_HID_GetPollingInterval :: "'a usb_hid_scheme \<Rightarrow> u32" where
  "USBD_HID_GetPollingInterval s =
     (if hid_dev_speed s = USBD_SPEED_HIGH then push_bit (unat (HID_HS_BINTERVAL - 1)) 1 div 8 else ucast HID_FS_BINTERVAL)"

definition USBD_HID_DataIn :: "u8 \<Rightarrow> 'a usb_hid_scheme \<Rightarrow> (usb_status \<times> 'a usb_hid_scheme) option" where
  "USBD_HID_DataIn epnum s =
     (if epnum = HID_KEYBOARD_EPIN_ADDR AND 0x7F then
        do { hhid \<leftarrow> hid_class s; Some (USBD_OK, s\<lparr>hid_class := Some (hhid\<lparr>Keyboardstate := HID_IDLE\<rparr>)\<rparr>) }
      else if epnum = HID_MOUSE_EPIN_ADDR AND 0x7F then
        do { hhid \<leftarrow> hid_class s; Some (USBD_OK, s\<lparr>hid_class := Some (hhid\<lparr>Mousestate := HID_IDLE\<rparr>)\<rparr>) }
      else Some (USBD_OK, s))"

section \<open>The interface\<close>

text \<open>The status of the two library calls is an argument.\<close>

definition HID_Composite_Init :: "usb_status \<Rightarrow> usb_status \<Rightarrow> HID_Interface \<Rightarrow> 'a usb_hid_scheme \<Rightarrow> 'a usb_hid_scheme" where
  "HID_Composite_Init init_status class_status device s =
     (let s1 = (if \<not> HID_keyboard_initialized s \<and> \<not> HID_mouse_initialized s then
                  (let s1 = hid_lib Core_Init s in
                   if init_status = USBD_OK then
                     (let s2 = hid_lib Core_RegisterClass s1 in
                      if class_status = USBD_OK
                      then (hid_lib Core_Start s2)\<lparr>HID_keyboard_initialized := True, HID_mouse_initialized := True\<rparr>
                      else s2)
                   else s1)
                else s);
          s2 = (if device = HID_KEYBOARD then s1\<lparr>HID_keyboard_initialized := HID_mouse_initialized s1\<rparr> else s1)
      in if device = HID_MOUSE then s2\<lparr>HID_mouse_initialized := HID_keyboard_initialized s2\<rparr> else s2)"

definition HID_Composite_DeInit :: "HID_Interface \<Rightarrow> 'a usb_hid_scheme \<Rightarrow> 'a usb_hid_scheme" where
  "HID_Composite_DeInit device s =
     (let s1 = (if HID_keyboard_initialized s \<and> \<not> HID_mouse_initialized s \<or>
                   HID_mouse_initialized s \<and> \<not> HID_keyboard_initialized s
                then hid_lib Core_DeInit (hid_lib Core_Stop s) else s);
          s2 = (if device = HID_KEYBOARD then s1\<lparr>HID_keyboard_initialized := False\<rparr> else s1)
      in if device = HID_MOUSE then s2\<lparr>HID_mouse_initialized := False\<rparr> else s2)"

definition HID_Composite_mouse_sendReport :: "u8 list \<Rightarrow> 'a usb_hid_scheme \<Rightarrow> 'a usb_hid_scheme" where
  "HID_Composite_mouse_sendReport report s = snd (USBD_HID_MOUSE_SendReport report s)"

definition HID_Composite_keyboard_sendReport :: "u8 list \<Rightarrow> 'a usb_hid_scheme \<Rightarrow> 'a usb_hid_scheme" where
  "HID_Composite_keyboard_sendReport report s = snd (USBD_HID_KEYBOARD_SendReport report s)"

section \<open>Keyboard\<close>

record key_report =
  modifiers :: u8
  reserved :: u8
  keys :: "u8 list"

record hid_sketch = usb_hid +
  keyReport :: key_report
  key_write_error :: bool
  mouse_buttons :: u8

text \<open>The table with \<^verbatim>\<open>SHIFT\<close> as the upper bit.\<close>

definition asciimap :: "u8 list" where
  "asciimap =
     [0x00, 0x00, 0x00, 0x00, 0x00, 0x00, 0x00, 0x00, 0x2a, 0x2b, 0x28, 0x00, 0x00, 0x00, 0x00, 0x00,
      0x00, 0x00, 0x00, 0x00, 0x00, 0x00, 0x00, 0x00, 0x00, 0x00, 0x00, 0x00, 0x00, 0x00, 0x00, 0x00,
      0x2c, 0x9e, 0xb4, 0xa0, 0xa1, 0xa2, 0xa4, 0x34, 0xa6, 0xa7, 0xa5, 0xae, 0x36, 0x2d, 0x37, 0x38,
      0x27, 0x1e, 0x1f, 0x20, 0x21, 0x22, 0x23, 0x24, 0x25, 0x26, 0xb3, 0x33, 0xb6, 0x2e, 0xb7, 0xb8,
      0x9f, 0x84, 0x85, 0x86, 0x87, 0x88, 0x89, 0x8a, 0x8b, 0x8c, 0x8d, 0x8e, 0x8f, 0x90, 0x91, 0x92,
      0x93, 0x94, 0x95, 0x96, 0x97, 0x98, 0x99, 0x9a, 0x9b, 0x9c, 0x9d, 0x2f, 0x31, 0x30, 0xa3, 0xad,
      0x35, 0x04, 0x05, 0x06, 0x07, 0x08, 0x09, 0x0a, 0x0b, 0x0c, 0x0d, 0x0e, 0x0f, 0x10, 0x11, 0x12,
      0x13, 0x14, 0x15, 0x16, 0x17, 0x18, 0x19, 0x1a, 0x1b, 0x1c, 0x1d, 0xaf, 0xb1, 0xb0, 0xb5, 0x00]"

text \<open>\<open>host\<close> is what interrupts do while the function waits for 20 milliseconds.\<close>

definition Keyboard_sendReport :: "(hid_sketch \<Rightarrow> hid_sketch option) \<Rightarrow> key_report \<Rightarrow> hid_sketch \<Rightarrow> hid_sketch option" where
  "Keyboard_sendReport host r s =
     host (HID_Composite_keyboard_sendReport ([modifiers r, reserved r] @ keys r) s)"

definition press_code :: "u8 \<Rightarrow> key_report \<Rightarrow> (u8 \<times> key_report) option" where
  "press_code k r =
     (if k \<ge> 136 then Some (k - 136, r)
      else if k \<ge> 128 then Some (0, r\<lparr>modifiers := modifiers r OR push_bit (unat (k - 128)) 1\<rparr>)
      else (let k = asciimap ! unat k in
            if k = 0 then None
            else if k AND 0x80 \<noteq> 0 then Some (k AND 0x7F, r\<lparr>modifiers := modifiers r OR 0x02\<rparr>)
            else Some (k, r)))"

text \<open>The key takes the first free place; none if there is no free place.\<close>

fun put_key :: "u8 \<Rightarrow> u8 list \<Rightarrow> u8 list option" where
  "put_key k [] = None"
| "put_key k (x # xs) = (if x = 0 then Some (k # xs) else map_option ((#) x) (put_key k xs))"

definition Keyboard_press :: "(hid_sketch \<Rightarrow> hid_sketch option) \<Rightarrow> u8 \<Rightarrow> hid_sketch \<Rightarrow> (nat \<times> hid_sketch) option" where
  "Keyboard_press host k s =
     (case press_code k (keyReport s) of
        None \<Rightarrow> Some (0, s\<lparr>key_write_error := True\<rparr>)
      | Some (k, r) \<Rightarrow>
          (case (if k \<notin> set (keys r) then put_key k (keys r) else Some (keys r)) of
             None \<Rightarrow> Some (0, s\<lparr>keyReport := r, key_write_error := True\<rparr>)
           | Some ks \<Rightarrow>
               do { s' \<leftarrow> Keyboard_sendReport host (r\<lparr>keys := ks\<rparr>) (s\<lparr>keyReport := r\<lparr>keys := ks\<rparr>\<rparr>);
                    Some (1, s') }))"

definition release_code :: "u8 \<Rightarrow> key_report \<Rightarrow> (u8 \<times> key_report) option" where
  "release_code k r =
     (if k \<ge> 136 then Some (k - 136, r)
      else if k \<ge> 128 then Some (0, r\<lparr>modifiers := modifiers r AND NOT (push_bit (unat (k - 128)) 1)\<rparr>)
      else (let k = asciimap ! unat k in
            if k = 0 then None
            else if k AND 0x80 \<noteq> 0 then Some (k AND 0x7F, r\<lparr>modifiers := modifiers r AND NOT 0x02\<rparr>)
            else Some (k, r)))"

definition Keyboard_release :: "(hid_sketch \<Rightarrow> hid_sketch option) \<Rightarrow> u8 \<Rightarrow> hid_sketch \<Rightarrow> (nat \<times> hid_sketch) option" where
  "Keyboard_release host k s =
     (case release_code k (keyReport s) of
        None \<Rightarrow> Some (0, s)
      | Some (k, r) \<Rightarrow>
          (let r' = r\<lparr>keys := map (\<lambda>x. if 0 \<noteq> k \<and> x = k then 0 else x) (keys r)\<rparr>
           in do { s' \<leftarrow> Keyboard_sendReport host r' (s\<lparr>keyReport := r'\<rparr>); Some (1, s') }))"

definition Keyboard_releaseAll :: "(hid_sketch \<Rightarrow> hid_sketch option) \<Rightarrow> hid_sketch \<Rightarrow> hid_sketch option" where
  "Keyboard_releaseAll host s =
     (let r = (keyReport s)\<lparr>keys := replicate 6 0, modifiers := 0\<rparr>
      in Keyboard_sendReport host r (s\<lparr>keyReport := r\<rparr>))"

definition Keyboard_write :: "(hid_sketch \<Rightarrow> hid_sketch option) \<Rightarrow> u8 \<Rightarrow> hid_sketch \<Rightarrow> (nat \<times> hid_sketch) option" where
  "Keyboard_write host c s =
     do { (p, s1) \<leftarrow> Keyboard_press host c s; (_, s2) \<leftarrow> Keyboard_release host c s1; Some (p, s2) }"

text \<open>\<^verbatim>\<open>Print::write\<close> of a buffer: it stops at the first byte that is not written.\<close>

fun Keyboard_print :: "(hid_sketch \<Rightarrow> hid_sketch option) \<Rightarrow> u8 list \<Rightarrow> nat \<Rightarrow> hid_sketch \<Rightarrow> (nat \<times> hid_sketch) option" where
  "Keyboard_print host [] n s = Some (n, s)"
| "Keyboard_print host (c # cs) n s =
     do { (p, s1) \<leftarrow> Keyboard_write host c s;
          if p \<noteq> 0 then Keyboard_print host cs (n + 1) s1 else Some (n, s1) }"

section \<open>Mouse\<close>

definition Mouse_move :: "u8 \<Rightarrow> u8 \<Rightarrow> u8 \<Rightarrow> hid_sketch \<Rightarrow> hid_sketch" where
  "Mouse_move x y wheel s = HID_Composite_mouse_sendReport [mouse_buttons s, x, y, wheel] s"

definition Mouse_click :: "u8 \<Rightarrow> hid_sketch \<Rightarrow> hid_sketch" where
  "Mouse_click b s =
     (let s1 = Mouse_move 0 0 0 (s\<lparr>mouse_buttons := b\<rparr>)
      in Mouse_move 0 0 0 (s1\<lparr>mouse_buttons := 0\<rparr>))"

definition Mouse_set_buttons :: "u8 \<Rightarrow> hid_sketch \<Rightarrow> hid_sketch" where
  "Mouse_set_buttons b s =
     (if b \<noteq> mouse_buttons s then Mouse_move 0 0 0 (s\<lparr>mouse_buttons := b\<rparr>) else s)"

definition Mouse_press :: "u8 \<Rightarrow> hid_sketch \<Rightarrow> hid_sketch" where
  "Mouse_press b s = Mouse_set_buttons (mouse_buttons s OR b) s"

definition Mouse_release :: "u8 \<Rightarrow> hid_sketch \<Rightarrow> hid_sketch" where
  "Mouse_release b s = Mouse_set_buttons (mouse_buttons s AND NOT b) s"

definition Mouse_isPressed :: "u8 \<Rightarrow> hid_sketch \<Rightarrow> bool" where
  "Mouse_isPressed b s \<longleftrightarrow> b AND mouse_buttons s > 0"


section \<open>What the descriptors say\<close>

text \<open>A host adds up the fields of the input items of a report descriptor: size times count, in bits. The data of an
  item is one byte in these tables.\<close>

fun input_bits :: "nat \<Rightarrow> nat \<Rightarrow> nat \<Rightarrow> u8 list \<Rightarrow> nat option" where
  "input_bits n field_size field_count [] = Some 0"
| "input_bits 0 field_size field_count (b # bs) = None"
| "input_bits (Suc n) field_size field_count (b # bs) =
     (if b AND 3 = 0 then input_bits n field_size field_count bs
      else if b AND 3 = 1 then
        (case bs of
           [] \<Rightarrow> None
         | v # bs \<Rightarrow>
             if b AND 0xFC = 0x74 then input_bits n (unat v) field_count bs
             else if b AND 0xFC = 0x94 then input_bits n field_size (unat v) bs
             else if b AND 0xFC = 0x80 then map_option ((+) (field_size * field_count)) (input_bits n field_size field_count bs)
             else input_bits n field_size field_count bs)
      else None)"

lemmas hid_desc_defs = USBD_HID_CfgFSDesc_def USBD_HID_CfgHSDesc_def USBD_HID_OtherSpeedCfgDesc_def
  USBD_MOUSE_HID_Desc_def USBD_KEYBOARD_HID_Desc_def HID_MOUSE_ReportDesc_def HID_KEYBOARD_ReportDesc_def

lemma hid_config_ok:
  "config_ok USB_DESC_TYPE_CONFIGURATION USBD_HID_CfgFSDesc"
  "config_ok USB_DESC_TYPE_CONFIGURATION USBD_HID_CfgHSDesc"
  "config_ok USB_DESC_TYPE_CONFIGURATION USBD_HID_OtherSpeedCfgDesc"
  by code_simp+

lemma hid_config_eps:
  "config_eps USBD_HID_CfgFSDesc = [(0x81, 3, 4), (0x82, 3, 8)]"
  "config_eps USBD_HID_CfgHSDesc = [(0x81, 3, 4), (0x82, 3, 8)]"
  "config_eps USBD_HID_OtherSpeedCfgDesc = [(0x81, 3, 4), (0x82, 3, 8)]"
  by code_simp+

lemma hid_desc_lengths:
  "length HID_MOUSE_ReportDesc = HID_MOUSE_REPORT_DESC_SIZE" "length HID_KEYBOARD_ReportDesc = HID_KEYBOARD_REPORT_DESC_SIZE"
  "length USBD_MOUSE_HID_Desc = USB_HID_DESC_SIZ" "length USBD_KEYBOARD_HID_Desc = USB_HID_DESC_SIZ"
  by code_simp+

lemma hid_input_bits:
  "input_bits 74 0 0 HID_MOUSE_ReportDesc = Some (8 * HID_MOUSE_EPIN_SIZE)"
  "input_bits 45 0 0 HID_KEYBOARD_ReportDesc = Some (8 * HID_KEYBOARD_EPIN_SIZE)"
  by code_simp+

section \<open>Typing\<close>

text \<open>The US layout of the HID usage tables from usage 4 on, without and with shift; 0 is no character.\<close>

definition us_plain :: "u8 list" where
  "us_plain = map of_nat [97..<123] @ map of_nat [49..<58] @
     [48, 10, 27, 8, 9, 32, 45, 61, 91, 93, 92, 0, 59, 39, 96, 44, 46, 47]"

definition us_shift :: "u8 list" where
  "us_shift = map of_nat [65..<91] @
     [33, 64, 35, 36, 37, 94, 38, 42, 40, 41, 10, 27, 8, 9, 32, 95, 43, 123, 125, 124, 0, 58, 34, 126, 60, 62, 63]"

definition us_key :: "u8 \<Rightarrow> u8 \<Rightarrow> u8" where
  "us_key mods k =
     (if 4 \<le> k \<and> unat k - 4 < length us_plain
      then (if mods AND 0x22 \<noteq> 0 then us_shift else us_plain) ! (unat k - 4) else 0)"

text \<open>A host takes for typed every key of a report that was not pressed in the report before.\<close>

fun host_typed :: "u8 list \<Rightarrow> u8 list list \<Rightarrow> u8 list" where
  "host_typed pressed [] = []"
| "host_typed pressed (r # rs) =
     map (us_key (r ! 0)) (filter (\<lambda>k. k \<noteq> 0 \<and> k \<notin> set pressed) (drop 2 r)) @ host_typed (drop 2 r) rs"

definition typeable :: "u8 \<Rightarrow> bool" where
  "typeable c \<longleftrightarrow> c < 128 \<and> asciimap ! unat c \<noteq> 0"

definition no_keys :: key_report where
  "no_keys = \<lparr>modifiers = 0, reserved = 0, keys = replicate 6 0\<rparr>"

text \<open>During the wait the host takes the report.\<close>

definition host_polls :: "hid_sketch \<Rightarrow> hid_sketch option" where
  "host_polls s = map_option snd (USBD_HID_DataIn 2 s)"

definition key_ready :: "hid_sketch \<Rightarrow> bool" where
  "key_ready s \<longleftrightarrow> hid_dev_state s = USBD_STATE_CONFIGURED \<and>
     (\<exists>h. hid_class s = Some h \<and> Keyboardstate h = HID_IDLE)"

lemma sendReport_ready:
  assumes "key_ready s"
  shows "\<exists>s'. Keyboard_sendReport host_polls r s = Some s' \<and> key_ready s' \<and> keyReport s' = keyReport s \<and>
    hid_log s' = hid_log s @ [Hid_Report HID_KEYBOARD_EPIN_ADDR ([modifiers r, reserved r] @ keys r)]"
  using assms
  by (auto simp: key_ready_def Keyboard_sendReport_def HID_Composite_keyboard_sendReport_def
      USBD_HID_KEYBOARD_SendReport_def host_polls_def USBD_HID_DataIn_def hid_call_def consts_simp)

text \<open>The codes of the table, and what the host makes of them.\<close>

definition key_of :: "u8 \<Rightarrow> u8" where "key_of c = asciimap ! unat c AND 0x7F"
definition mods_of :: "u8 \<Rightarrow> u8" where "mods_of c = (if asciimap ! unat c AND 0x80 \<noteq> 0 then 2 else 0)"

lemma ascii_table:
  "list_all (\<lambda>n. let c = of_nat n in asciimap ! n \<noteq> 0 \<longrightarrow> key_of c \<noteq> 0 \<and> us_key (mods_of c) (key_of c) = c \<and>
     (asciimap ! n AND 0x80 = 0 \<longrightarrow> asciimap ! n AND 0x7F = asciimap ! n)) [0..<128]"
  by code_simp

lemma typeable_facts:
  assumes "typeable c"
  shows "key_of c \<noteq> 0" "us_key (mods_of c) (key_of c) = c"
    "asciimap ! unat c AND 0x80 = 0 \<Longrightarrow> asciimap ! unat c = key_of c" "\<not> 128 \<le> c" "asciimap ! unat c \<noteq> 0" "\<not> 136 \<le> c"
proof -
  have lt: "unat c < 128" "c < 128" using assms by (simp_all add: typeable_def word_less_nat_alt)
  have "of_nat (unat c) = c" by simp
  then show "key_of c \<noteq> 0" "us_key (mods_of c) (key_of c) = c" "asciimap ! unat c AND 0x80 = 0 \<Longrightarrow> asciimap ! unat c = key_of c"
    using ascii_table lt(1) assms by (auto simp: list_all_iff typeable_def key_of_def Let_def dest!: bspec [of _ _ "unat c"])
  show "\<not> 128 \<le> c" using lt(2) by simp
  show "\<not> 136 \<le> c" using lt(1) by (simp add: word_le_nat_alt)
  show "asciimap ! unat c \<noteq> 0" using assms by (simp add: typeable_def)
qed

definition typed_reports :: "u8 \<Rightarrow> u8 list list" where
  "typed_reports c = [[mods_of c, 0, key_of c, 0, 0, 0, 0, 0], replicate 8 0]"

lemma press_types:
  assumes "key_ready s" and "keyReport s = no_keys" and "typeable c"
  shows "\<exists>s'. Keyboard_press host_polls c s = Some (1, s') \<and> key_ready s' \<and>
    keyReport s' = \<lparr>modifiers = mods_of c, reserved = 0, keys = [key_of c, 0, 0, 0, 0, 0]\<rparr> \<and>
    hid_log s' = hid_log s @ [Hid_Report HID_KEYBOARD_EPIN_ADDR [mods_of c, 0, key_of c, 0, 0, 0, 0, 0]]"
proof -
  note f = typeable_facts [OF assms(3)]
  let ?r = "\<lparr>modifiers = mods_of c, reserved = 0, keys = replicate 6 0\<rparr>"
  let ?r' = "\<lparr>modifiers = mods_of c, reserved = 0, keys = [key_of c, 0, 0, 0, 0, 0]\<rparr>"
  have code: "press_code c (keyReport s) = Some (key_of c, ?r)"
    using f assms(2) by (auto simp: press_code_def no_keys_def mods_of_def key_of_def Let_def not_le)
  have keys: "replicate 6 (0 :: u8) = [0, 0, 0, 0, 0, 0]" by (simp add: numeral_eq_Suc)
  have "key_ready (s\<lparr>keyReport := ?r'\<rparr>)" using assms(1) by (simp add: key_ready_def)
  from sendReport_ready [OF this, of ?r'] obtain s' where s': "Keyboard_sendReport host_polls ?r' (s\<lparr>keyReport := ?r'\<rparr>) = Some s'"
    "key_ready s'" "keyReport s' = ?r'" "hid_log s' = hid_log s @ [Hid_Report HID_KEYBOARD_EPIN_ADDR [mods_of c, 0, key_of c, 0, 0, 0, 0, 0]]"
    by auto
  then show ?thesis using f(1) by (simp add: Keyboard_press_def code keys)
qed

lemma release_types:
  assumes "key_ready s" and "typeable c"
    and "keyReport s = \<lparr>modifiers = mods_of c, reserved = 0, keys = [key_of c, 0, 0, 0, 0, 0]\<rparr>"
  shows "\<exists>s'. Keyboard_release host_polls c s = Some (1, s') \<and> key_ready s' \<and> keyReport s' = no_keys \<and>
    hid_log s' = hid_log s @ [Hid_Report HID_KEYBOARD_EPIN_ADDR (replicate 8 0)]"
proof -
  note f = typeable_facts [OF assms(2)]
  let ?r = "\<lparr>modifiers = 0, reserved = 0, keys = [key_of c, 0, 0, 0, 0, 0]\<rparr>"
  have code: "release_code c (keyReport s) = Some (key_of c, ?r)"
    using f assms(3) by (auto simp: release_code_def mods_of_def key_of_def Let_def not_le)
  have keys: "no_keys = \<lparr>modifiers = 0, reserved = 0, keys = [0, 0, 0, 0, 0, 0]\<rparr>" "replicate 8 (0 :: u8) = [0, 0, 0, 0, 0, 0, 0, 0]"
    by (simp_all add: no_keys_def) (simp_all add: numeral_eq_Suc)
  have "key_ready (s\<lparr>keyReport := no_keys\<rparr>)" using assms(1) by (simp add: key_ready_def)
  from sendReport_ready [OF this, of no_keys] obtain s' where "Keyboard_sendReport host_polls no_keys (s\<lparr>keyReport := no_keys\<rparr>) = Some s'"
    "key_ready s'" "keyReport s' = no_keys" "hid_log s' = hid_log s @ [Hid_Report HID_KEYBOARD_EPIN_ADDR (replicate 8 0)]"
    by (auto simp: keys)
  then show ?thesis using f(1) by (simp add: Keyboard_release_def code keys)
qed

lemma print_types:
  assumes "key_ready s" and "keyReport s = no_keys" and "\<forall>c \<in> set str. typeable c"
  shows "\<exists>s'. Keyboard_print host_polls str n s = Some (n + length str, s') \<and> key_ready s' \<and> keyReport s' = no_keys \<and>
    hid_log s' = hid_log s @ map (Hid_Report HID_KEYBOARD_EPIN_ADDR) (concat (map typed_reports str))"
  using assms
proof (induction str arbitrary: s n)
  case Nil
  then show ?case by simp
next
  case (Cons c str)
  have c: "typeable c" and rest: "\<forall>c \<in> set str. typeable c" using Cons.prems(3) by simp_all
  obtain s1 where s1: "Keyboard_press host_polls c s = Some (1, s1)" "key_ready s1"
    "keyReport s1 = \<lparr>modifiers = mods_of c, reserved = 0, keys = [key_of c, 0, 0, 0, 0, 0]\<rparr>"
    "hid_log s1 = hid_log s @ [Hid_Report HID_KEYBOARD_EPIN_ADDR [mods_of c, 0, key_of c, 0, 0, 0, 0, 0]]"
    using press_types [OF Cons.prems(1,2) c] by blast
  obtain s2 where s2: "Keyboard_release host_polls c s1 = Some (1, s2)" "key_ready s2" "keyReport s2 = no_keys"
    "hid_log s2 = hid_log s1 @ [Hid_Report HID_KEYBOARD_EPIN_ADDR (replicate 8 0)]"
    using release_types [OF s1(2) c s1(3)] by blast
  have "Keyboard_write host_polls c s = Some (1, s2)" by (simp add: Keyboard_write_def s1(1) s2(1))
  with Cons.IH [OF s2(2,3) rest, of "n + 1"] s1(4) s2(4) show ?case
    by (auto simp: typed_reports_def)
qed

lemma host_types:
  assumes "\<forall>c \<in> set str. typeable c"
  shows "host_typed (replicate 6 0) (concat (map typed_reports str)) = str"
  using assms
proof (induction str)
  case (Cons c str)
  have "drop 2 (replicate 8 (0 :: u8)) = replicate 6 0" by simp
  with Cons typeable_facts [of c] show ?case by (simp add: typed_reports_def)
qed simp

text \<open>C38: A text is typed as it is printed. For a text of characters that the keyboard knows, printed when no key
  is held, with a host that takes each report during the wait after it, \<^verbatim>\<open>print\<close> returns the length of the text and the
  host reads from the reports, by the US layout of the usage tables, exactly the text; no key stays pressed.\<close>

theorem keyboard_types_text:
  assumes "key_ready s" and "keyReport s = no_keys" and "\<forall>c \<in> set str. typeable c"
  shows "\<exists>s' rs. Keyboard_print host_polls str 0 s = Some (length str, s') \<and>
    hid_log s' = hid_log s @ map (Hid_Report HID_KEYBOARD_EPIN_ADDR) rs \<and>
    host_typed (replicate 6 0) rs = str \<and> keyReport s' = no_keys \<and> key_ready s'"
proof -
  from print_types [OF assms, of 0] obtain s' where "Keyboard_print host_polls str 0 s = Some (length str, s')"
    "key_ready s'" "keyReport s' = no_keys"
    "hid_log s' = hid_log s @ map (Hid_Report HID_KEYBOARD_EPIN_ADDR) (concat (map typed_reports str))" by auto
  with host_types [OF assms(3)] show ?thesis by blast
qed

definition hid_handle0 :: hid_handle where
  "hid_handle0 = \<lparr>hid_Protocol = 0, hid_IdleState = 0, hid_AltSetting = 0, Mousestate = HID_IDLE, Keyboardstate = HID_IDLE\<rparr>"

definition hid_sketch0 :: hid_sketch where
  "hid_sketch0 = \<lparr>hid_class = Some hid_handle0, hid_dev_state = USBD_STATE_CONFIGURED, hid_dev_speed = USBD_SPEED_FULL,
     hid_is_used = (\<lambda>_. False), hid_bInterval = (\<lambda>_. 0), HID_keyboard_initialized = True,
     HID_mouse_initialized = True, hid_log = [], keyReport = no_keys, key_write_error = False, mouse_buttons = 0\<rparr>"

theorem keyboard_types_text_witness:
  "\<exists>s' rs. Keyboard_print host_polls (bytes_of ''Go, 1!'') 0 hid_sketch0 = Some (length (bytes_of ''Go, 1!''), s') \<and>
    hid_log s' = hid_log hid_sketch0 @ map (Hid_Report HID_KEYBOARD_EPIN_ADDR) rs \<and>
    host_typed (replicate 6 0) rs = bytes_of ''Go, 1!'' \<and> keyReport s' = no_keys \<and> key_ready s'"
proof (rule keyboard_types_text)
  show "key_ready hid_sketch0" "keyReport hid_sketch0 = no_keys"
    by (simp_all add: key_ready_def hid_sketch0_def hid_handle0_def)
  show "\<forall>c \<in> set (bytes_of ''Go, 1!''). typeable c" by code_simp
qed

text \<open>Keys that are held limit what can be pressed. With six keys held no other key can be pressed, which
  the code reports; but a modifier is refused as well, although it needs no place, and the modifier or the shift of the
  refused key stays in the report that is sent next.\<close>

theorem six_keys_refuse:
  assumes "length (keys (keyReport s)) = 6" and "0 \<notin> set (keys (keyReport s))" and "128 \<le> k" and "k < 136"
  shows "Keyboard_press host k s =
    Some (0, s\<lparr>keyReport := (keyReport s)\<lparr>modifiers := modifiers (keyReport s) OR push_bit (unat (k - 128)) 1\<rparr>,
               key_write_error := True\<rparr>)"
proof -
  have full: "0 \<notin> set xs \<Longrightarrow> put_key k xs = None" for k xs by (induction xs) auto
  have "\<not> 136 \<le> k" using assms(4) by (simp add: not_le)
  then show ?thesis using assms(2,3) by (simp add: Keyboard_press_def press_code_def full)
qed

theorem shift_stays_after_refusal:
  assumes "0 \<notin> set (keys (keyReport s))" and "typeable c" and "asciimap ! unat c AND 0x80 \<noteq> 0"
    and "key_of c \<notin> set (keys (keyReport s))"
  shows "Keyboard_press host c s =
    Some (0, s\<lparr>keyReport := (keyReport s)\<lparr>modifiers := modifiers (keyReport s) OR 2\<rparr>, key_write_error := True\<rparr>)"
proof -
  have full: "0 \<notin> set xs \<Longrightarrow> put_key k xs = None" for k xs by (induction xs) auto
  have "press_code c (keyReport s) = Some (key_of c, (keyReport s)\<lparr>modifiers := modifiers (keyReport s) OR 2\<rparr>)"
    using typeable_facts [OF assms(2)] assms(3) by (simp add: press_code_def key_of_def Let_def)
  then show ?thesis using assms(1,4) by (simp add: Keyboard_press_def full)
qed

section \<open>Clicking\<close>

text \<open>The buttons a host sees: those of the last report of the mouse that was handed over.\<close>

fun mouse_seen :: "hid_call list \<Rightarrow> u8" where
  "mouse_seen [] = 0"
| "mouse_seen (Hid_Report ep r # cs) = (if ep = HID_MOUSE_EPIN_ADDR then r ! 0 else mouse_seen cs)"
| "mouse_seen (c # cs) = mouse_seen cs"

text \<open>C40: A click leaves the button pressed. The report of the release follows that of the press at once, while
  the endpoint is still busy with it, and is dropped: the host sees the button held from then on, also after it has taken
  the report. The library believes it released, so \<^verbatim>\<open>release\<close> sends nothing.\<close>

theorem mouse_click_sticks:
  assumes "hid_class s = Some h" and "hid_dev_state s = USBD_STATE_CONFIGURED" and "Mousestate h = HID_IDLE" and "b \<noteq> 0"
  shows "\<exists>s'. USBD_HID_DataIn 1 (Mouse_click b s) = Some (USBD_OK, s') \<and> mouse_seen (rev (hid_log s')) = b \<and>
    mouse_buttons s' = 0 \<and> \<not> Mouse_isPressed b s' \<and> Mouse_release b s' = s'"
  using assms
  by (simp add: Mouse_click_def Mouse_move_def HID_Composite_mouse_sendReport_def USBD_HID_MOUSE_SendReport_def
    USBD_HID_DataIn_def hid_call_def Mouse_isPressed_def Mouse_release_def Mouse_set_buttons_def consts_simp Let_def)

theorem mouse_click_sticks_witness:
  "\<exists>s'. USBD_HID_DataIn 1 (Mouse_click 1 hid_sketch0) = Some (USBD_OK, s') \<and> mouse_seen (rev (hid_log s')) = 1 \<and>
    mouse_buttons s' = 0 \<and> \<not> Mouse_isPressed 1 s' \<and> Mouse_release 1 s' = s'"
  by (rule mouse_click_sticks [of _ hid_handle0]) (simp_all add: hid_sketch0_def hid_handle0_def)

section \<open>Starting and stopping\<close>

text \<open>A keyboard and a mouse that are both started and both stopped start the device once and stop it once, in
  whichever order they are stopped.\<close>

lemma composite_both:
  fixes s :: "'a usb_hid_scheme"
  assumes "\<not> HID_keyboard_initialized s" and "\<not> HID_mouse_initialized s" and "d \<noteq> e"
  shows "hid_log (HID_Composite_DeInit e (HID_Composite_DeInit d
      (HID_Composite_Init USBD_OK USBD_OK HID_MOUSE (HID_Composite_Init USBD_OK USBD_OK HID_KEYBOARD s)))) =
    hid_log s @ map Hid_Lib [Core_Init, Core_RegisterClass, Core_Start, Core_Stop, Core_DeInit]"
  using assms by (cases d; cases e) (simp_all add: HID_Composite_Init_def HID_Composite_DeInit_def hid_call_def Let_def)

text \<open>A keyboard that is started and stopped alone does not stop the device. A mouse started afterwards
  clears both flags: when it is stopped as well the device still runs, and the next start initialises it a second
  time.\<close>

theorem composite_left_running:
  fixes s :: "'a usb_hid_scheme"
  assumes "\<not> HID_keyboard_initialized s" and "\<not> HID_mouse_initialized s"
  defines "s1 \<equiv> HID_Composite_DeInit HID_KEYBOARD (HID_Composite_Init USBD_OK USBD_OK HID_KEYBOARD s)"
  defines "s2 \<equiv> HID_Composite_DeInit HID_MOUSE (HID_Composite_Init USBD_OK USBD_OK HID_MOUSE s1)"
  shows "hid_log s1 = hid_log s @ map Hid_Lib [Core_Init, Core_RegisterClass, Core_Start]"
    and "hid_log s2 = hid_log s1" and "\<not> HID_keyboard_initialized s2" and "\<not> HID_mouse_initialized s2"
    and "hid_log (HID_Composite_Init USBD_OK USBD_OK d s2) = hid_log s2 @ map Hid_Lib [Core_Init, Core_RegisterClass, Core_Start]"
  using assms(1,2) unfolding s1_def s2_def
  by (simp_all add: HID_Composite_Init_def HID_Composite_DeInit_def hid_call_def Let_def)

section \<open>Configuration and requests\<close>

text \<open>The endpoints opened are those of the configuration that a host reads at either speed, with the
  polling interval of that speed, and reports fill their endpoint exactly.\<close>

theorem hid_configuration:
  fixes s :: "'a usb_hid_scheme"
  shows "\<exists>s'. USBD_HID_Init (Some h) s = (USBD_OK, s') \<and>
    hid_log s' = hid_log s @ map (\<lambda>(a, t, n). Hid_Lib (LL_OpenEP a USBD_EP_TYPE_INTR n)) (config_eps USBD_HID_CfgFSDesc) \<and>
    config_eps USBD_HID_CfgHSDesc = config_eps USBD_HID_CfgFSDesc \<and>
    (\<forall>(a, t, n) \<in> set (config_eps USBD_HID_CfgFSDesc). t = ep_type_code USBD_EP_TYPE_INTR \<and> hid_is_used s' (ep_index a) \<and>
       hid_bInterval s' (ep_index a) = (if hid_dev_speed s = USBD_SPEED_HIGH then HID_HS_BINTERVAL else HID_FS_BINTERVAL)) \<and>
    input_bits 74 0 0 HID_MOUSE_ReportDesc = Some (8 * HID_MOUSE_EPIN_SIZE) \<and>
    input_bits 45 0 0 HID_KEYBOARD_ReportDesc = Some (8 * HID_KEYBOARD_EPIN_SIZE)"
  unfolding hid_config_eps hid_input_bits
  by (simp add: USBD_HID_Init_def hid_call_def Let_def consts_simp ep_index_def)

text \<open>A device that is not configured has no class data. A request for the idle rate then fails when it is for
  the mouse, and uses a null pointer when it is for the keyboard. The library passes both on from the moment the device has
  an address.\<close>

theorem keyboard_request_unconfigured:
  fixes s :: "'a usb_hid_scheme"
  assumes "hid_class s = None" and "bmRequest req AND 0x60 = 0x20"
    and "bRequest req \<in> {HID_REQ_SET_PROTOCOL, HID_REQ_GET_PROTOCOL, HID_REQ_SET_IDLE, HID_REQ_GET_IDLE}"
  shows "USBD_COMPOSITE_HID_Setup req s =
    (if wIndex req AND 0x00FF = ucast HID_KEYBOARD_INTERFACE then None else Some (USBD_FAIL, s))"
  using assms
  by (auto simp: USBD_COMPOSITE_HID_Setup_def USBD_HID_KEYBOARD_Setup_def USBD_HID_MOUSE_Setup_def hid_class_request_def)

lemma keyboard_request_unconfigured_witness:
  "USBD_COMPOSITE_HID_Setup \<lparr>bmRequest = 0x21, bRequest = HID_REQ_SET_IDLE, wValue = 0, wIndex = 1, wLength = 0\<rparr>
     (hid_sketch0\<lparr>hid_class := None\<rparr>) = None"
  by (subst keyboard_request_unconfigured) (simp_all add: consts_simp)

section \<open>One report at a time\<close>

text \<open>The class and its endpoints with the reports that the host has not taken yet. The host takes a report
  that was handed over; a configuration and its end abandon the transfers.\<close>

inductive hid_step :: "usb_hid \<times> u8 set \<Rightarrow> usb_hid \<times> u8 set \<Rightarrow> bool" where
  mouse: "hid_step (s, F) (HID_Composite_mouse_sendReport r s,
      F \<union> (if hid_log (HID_Composite_mouse_sendReport r s) = hid_log s then {} else {HID_MOUSE_EPIN_ADDR}))"
| keyboard: "hid_step (s, F) (HID_Composite_keyboard_sendReport r s,
      F \<union> (if hid_log (HID_Composite_keyboard_sendReport r s) = hid_log s then {} else {HID_KEYBOARD_EPIN_ADDR}))"
| taken: "ep \<in> F \<Longrightarrow> USBD_HID_DataIn (ep AND 0x7F) s = Some (st, s') \<Longrightarrow> hid_step (s, F) (s', F - {ep})"
| requested: "USBD_COMPOSITE_HID_Setup req s = Some (st, s') \<Longrightarrow> hid_step (s, F) (s', F)"
| configured: "hid_step (s, F) ((snd (USBD_HID_Init alloc s))\<lparr>hid_dev_state := USBD_STATE_CONFIGURED\<rparr>, {})"
| deconfigured: "hid_step (s, F) ((snd (USBD_HID_DeInit s))\<lparr>hid_dev_state := st\<rparr>, {})"

definition hid_inv :: "usb_hid \<times> u8 set \<Rightarrow> bool" where
  "hid_inv x = (case x of (s, F) \<Rightarrow> F \<subseteq> {HID_MOUSE_EPIN_ADDR, HID_KEYBOARD_EPIN_ADDR} \<and>
     (case hid_class s of None \<Rightarrow> F = {}
      | Some h \<Rightarrow> (Mousestate h = HID_BUSY \<longleftrightarrow> HID_MOUSE_EPIN_ADDR \<in> F) \<and>
          (Keyboardstate h = HID_BUSY \<longleftrightarrow> HID_KEYBOARD_EPIN_ADDR \<in> F)))"

definition hid_start :: "usb_hid \<times> u8 set \<Rightarrow> bool" where
  "hid_start x \<longleftrightarrow> hid_class (fst x) = None \<and> snd x = {}"

lemma HID_State_cases: "st \<noteq> HID_IDLE \<longleftrightarrow> st = HID_BUSY" by (cases st) auto

lemma mouse_report_inv: "hid_inv (s, F) \<Longrightarrow> hid_inv (HID_Composite_mouse_sendReport r s,
      F \<union> (if hid_log (HID_Composite_mouse_sendReport r s) = hid_log s then {} else {HID_MOUSE_EPIN_ADDR}))"
  by (auto simp: hid_inv_def HID_Composite_mouse_sendReport_def USBD_HID_MOUSE_SendReport_def hid_call_def
      HID_MOUSE_EPIN_ADDR_def HID_KEYBOARD_EPIN_ADDR_def split: option.splits if_splits)

lemma keyboard_report_inv: "hid_inv (s, F) \<Longrightarrow> hid_inv (HID_Composite_keyboard_sendReport r s,
      F \<union> (if hid_log (HID_Composite_keyboard_sendReport r s) = hid_log s then {} else {HID_KEYBOARD_EPIN_ADDR}))"
  by (auto simp: hid_inv_def HID_Composite_keyboard_sendReport_def USBD_HID_KEYBOARD_SendReport_def hid_call_def
      HID_MOUSE_EPIN_ADDR_def HID_KEYBOARD_EPIN_ADDR_def split: option.splits if_splits)

lemma taken_inv: "hid_inv (s, F) \<Longrightarrow> ep \<in> F \<Longrightarrow> USBD_HID_DataIn (ep AND 0x7F) s = Some (st, s') \<Longrightarrow> hid_inv (s', F - {ep})"
  by (auto simp: hid_inv_def USBD_HID_DataIn_def HID_MOUSE_EPIN_ADDR_def HID_KEYBOARD_EPIN_ADDR_def
      split: option.splits if_splits bind_splits)

lemma class_request_keeps: "hid_class_request req s = Some (st, s') \<Longrightarrow> hid_inv (s, F) \<Longrightarrow> hid_inv (s', F)"
  by (auto simp: hid_class_request_def hid_inv_def hid_call_def split: option.splits if_splits bind_splits)

lemma standard_request_keeps: "hid_standard_request n d e req s = Some (st, s') \<Longrightarrow> hid_inv (s, F) \<Longrightarrow> hid_inv (s', F)"
  by (auto simp: hid_standard_request_def hid_inv_def hid_call_def split: option.splits if_splits bind_splits)

lemma setup_inv_hid: "USBD_COMPOSITE_HID_Setup req s = Some (st, s') \<Longrightarrow> hid_inv (s, F) \<Longrightarrow> hid_inv (s', F)"
  by (auto simp: USBD_COMPOSITE_HID_Setup_def USBD_HID_KEYBOARD_Setup_def USBD_HID_MOUSE_Setup_def
      split: if_splits dest: class_request_keeps standard_request_keeps)
    (simp_all add: hid_inv_def hid_call_def)

lemma hid_step_inv: "hid_step x y \<Longrightarrow> hid_inv x \<Longrightarrow> hid_inv y"
proof (induction rule: hid_step.induct)
  case (configured s F alloc)
  then show ?case by (auto simp: hid_inv_def USBD_HID_Init_def hid_call_def Let_def split: option.splits)
next
  case (deconfigured s F st)
  then show ?case by (simp add: hid_inv_def USBD_HID_DeInit_def hid_call_def Let_def)
qed (simp_all only: mouse_report_inv keyboard_report_inv taken_inv setup_inv_hid)

text \<open>C39: The keyboard and the mouse hand at most one report each to the host at a time. Whatever reports,
  requests, configurations and ends of configurations came before, a report is handed over only if its endpoint has none that the
  host has not taken, and on a configured device one is refused only if there is such a report.\<close>

theorem hid_one_report_in_flight:
  assumes "hid_start x" and "hid_step\<^sup>*\<^sup>* x (s, F)" and "hid_class s \<noteq> None" and "hid_dev_state s = USBD_STATE_CONFIGURED"
  shows "(fst (USBD_HID_MOUSE_SendReport r s) = (if HID_MOUSE_EPIN_ADDR \<in> F then USBD_BUSY else USBD_OK)) \<and>
    (fst (USBD_HID_KEYBOARD_SendReport r s) = (if HID_KEYBOARD_EPIN_ADDR \<in> F then USBD_BUSY else USBD_OK)) \<and>
    hid_log (snd (USBD_HID_MOUSE_SendReport r s)) =
      hid_log s @ (if HID_MOUSE_EPIN_ADDR \<in> F then [] else [Hid_Report HID_MOUSE_EPIN_ADDR r]) \<and>
    hid_log (snd (USBD_HID_KEYBOARD_SendReport r s)) =
      hid_log s @ (if HID_KEYBOARD_EPIN_ADDR \<in> F then [] else [Hid_Report HID_KEYBOARD_EPIN_ADDR r])"
proof -
  have start: "hid_inv x" using assms(1) by (cases x) (simp add: hid_start_def hid_inv_def)
  have "hid_inv (s, F)" using assms(2) start by (induction rule: rtranclp_induct) (blast intro: hid_step_inv)+
  then show ?thesis
    using assms(3,4) HID_State_cases
    by (auto simp: hid_inv_def USBD_HID_MOUSE_SendReport_def USBD_HID_KEYBOARD_SendReport_def hid_call_def)
qed

definition hid_start0 :: usb_hid where
  "hid_start0 = \<lparr>hid_class = None, hid_dev_state = 0, hid_dev_speed = USBD_SPEED_FULL, hid_is_used = (\<lambda>_. False),
     hid_bInterval = (\<lambda>_. 0), HID_keyboard_initialized = True, HID_mouse_initialized = True, hid_log = []\<rparr>"

theorem hid_one_report_in_flight_witness:
  "\<exists>(s :: usb_hid) F. HID_MOUSE_EPIN_ADDR \<in> F \<and> HID_KEYBOARD_EPIN_ADDR \<notin> F \<and> hid_dev_state s = USBD_STATE_CONFIGURED \<and>
    fst (USBD_HID_MOUSE_SendReport [0, 1, 1, 0] s) = USBD_BUSY \<and> fst (USBD_HID_KEYBOARD_SendReport [0, 1, 1, 0] s) = USBD_OK"
proof -
  let ?start = hid_start0
  let ?conf = "(snd (USBD_HID_Init (Some hid_handle0) ?start))\<lparr>hid_dev_state := USBD_STATE_CONFIGURED\<rparr>"
  define sent where "sent = HID_Composite_mouse_sendReport [1, 0, 0, 0] ?conf"
  define F where "F = {} \<union> (if hid_log sent = hid_log ?conf then {} else {HID_MOUSE_EPIN_ADDR})"
  have start: "hid_start (?start, {})" by (simp add: hid_start_def hid_start0_def)
  have "hid_step (?start, {}) (?conf, {})" by (rule hid_step.configured)
  moreover have "hid_step (?conf, {}) (sent, F)" unfolding sent_def F_def by (rule hid_step.mouse)
  ultimately have run: "hid_step\<^sup>*\<^sup>* (?start, {}) (sent, F)" by (rule converse_rtranclp_into_rtranclp [OF _ r_into_rtranclp])
  have s: "hid_class sent \<noteq> None" "hid_dev_state sent = USBD_STATE_CONFIGURED" "hid_log sent \<noteq> hid_log ?conf"
    by (simp_all add: sent_def hid_start0_def USBD_HID_Init_def HID_Composite_mouse_sendReport_def USBD_HID_MOUSE_SendReport_def hid_call_def Let_def)
  have F: "HID_MOUSE_EPIN_ADDR \<in> F" "HID_KEYBOARD_EPIN_ADDR \<notin> F"
    using s(3) by (simp_all add: F_def HID_MOUSE_EPIN_ADDR_def HID_KEYBOARD_EPIN_ADDR_def)
  from hid_one_report_in_flight [OF start run s(1,2), of "[0, 1, 1, 0]"]
  have "fst (USBD_HID_MOUSE_SendReport [0, 1, 1, 0] sent) = USBD_BUSY" "fst (USBD_HID_KEYBOARD_SendReport [0, 1, 1, 0] sent) = USBD_OK"
    using F by (simp_all only: if_True if_False simp_thms)
  with F s(2) show ?thesis by blast
qed

end
