(* ===== verification/Core_Clock.thy ===== *)
theory Core_Clock
  imports Core_Time
begin

text \<open>
  Clocks and the tick: \<^verbatim>\<open>enableClock\<close>, \<^verbatim>\<open>configIPClock\<close> and \<^verbatim>\<open>SysTick_Handler\<close> of
  \<^verbatim>\<open>libraries/SrcWrapper/src/stm32/clock.c\<close>, with \<^verbatim>\<open>enableBackupDomain\<close> of
  \<^verbatim>\<open>cores/arduino/stm32/backup.h\<close>. The function of the HAL that starts an oscillator is a parameter. The
  semaphores of \<^verbatim>\<open>lock_resource.h\<close> do nothing on this processor.
\<close>

datatype sourceClock = LSI_CLOCK | HSI_CLOCK | LSE_CLOCK | HSE_CLOCK

record clock_state =
  osc_ready :: "sourceClock \<Rightarrow> bool"
  backup_access :: bool
  lse_drive_low :: bool
  hsem_clock :: bool
  syscfg_clock :: bool
  crc_clock :: bool
  uwTick :: u32

text \<open>The oscillator that is asked for and the state it is to have; none stands for \<^verbatim>\<open>RCC_OSCILLATORTYPE_NONE\<close>. A
  number that names no source is \<^term>\<open>None\<close> as well.\<close>

definition enableBackupDomain :: "clock_state \<Rightarrow> clock_state" where
  "enableBackupDomain s = s\<lparr>backup_access := True\<rparr>"

definition osc_request :: "sourceClock option \<Rightarrow> clock_state \<Rightarrow> sourceClock option \<times> clock_state" where
  "osc_request source s =
     (case source of
        None \<Rightarrow> (None, s)
      | Some LSI_CLOCK \<Rightarrow> if \<not> osc_ready s LSI_CLOCK then (Some LSI_CLOCK, s) else (None, s)
      | Some HSI_CLOCK \<Rightarrow> if \<not> osc_ready s HSI_CLOCK then (Some HSI_CLOCK, s) else (None, s)
      | Some LSE_CLOCK \<Rightarrow>
          if \<not> osc_ready s LSE_CLOCK then (Some LSE_CLOCK, s\<lparr>lse_drive_low := True\<rparr>) else (None, s)
      | Some HSE_CLOCK \<Rightarrow> if \<not> osc_ready s HSE_CLOCK then (Some HSE_CLOCK, s) else (None, s))"

definition enableClock ::
  "(sourceClock \<Rightarrow> clock_state \<Rightarrow> bool \<times> clock_state) \<Rightarrow> sourceClock option \<Rightarrow> clock_state \<Rightarrow> clock_state option" where
  "enableClock HAL_RCC_OscConfig source s =
     (case osc_request source (enableBackupDomain s) of
        (None, s1) \<Rightarrow> Some s1
      | (Some osc, s1) \<Rightarrow> (case HAL_RCC_OscConfig osc s1 of (ok, s2) \<Rightarrow> if ok then Some s2 else None))"

definition configIPClock :: "clock_state \<Rightarrow> clock_state" where
  "configIPClock s = s\<lparr>hsem_clock := True, syscfg_clock := True, crc_clock := True\<rparr>"

text \<open>The frequency of the tick is one millisecond; the two hooks after it are empty.\<close>

definition SysTick_Handler :: "clock_state \<Rightarrow> clock_state" where
  "SysTick_Handler s = s\<lparr>uwTick := uwTick s + 1\<rparr>"

text \<open>If the HAL starts what it is asked for, and needs access to the backup domain for the low speed external
  oscillator, every source can be enabled: afterwards it runs, sources that ran before run still, and no other
  was started. A second request changes nothing.\<close>

theorem clock_enabled:
  assumes hal: "\<And>osc s. (osc = LSE_CLOCK \<longrightarrow> backup_access s) \<Longrightarrow>
      rcc osc s = (True, s\<lparr>osc_ready := (osc_ready s)(osc := True)\<rparr>)"
  shows "\<exists>s'. enableClock rcc (Some c) s = Some s' \<and> osc_ready s' = (osc_ready s)(c := True) \<and>
    backup_access s' \<and> enableClock rcc (Some c) s' = Some s'"
proof -
  have run: "enableClock rcc (Some c) s = Some (if osc_ready s c then s\<lparr>backup_access := True\<rparr>
      else (if c = LSE_CLOCK then s\<lparr>lse_drive_low := True\<rparr> else s)\<lparr>backup_access := True, osc_ready := (osc_ready s)(c := True)\<rparr>)" for s
    by (cases c) (simp_all add: enableClock_def osc_request_def enableBackupDomain_def hal)
  show ?thesis unfolding run by (cases "osc_ready s c") (auto simp: fun_upd_idem)
qed

theorem clock_enabled_witness:
  "\<exists>s'. enableClock (\<lambda>osc s. (True, s\<lparr>osc_ready := (osc_ready s)(osc := True)\<rparr>)) (Some LSE_CLOCK)
      \<lparr>osc_ready = (\<lambda>_. False), backup_access = False, lse_drive_low = False, hsem_clock = False, syscfg_clock = False,
       crc_clock = False, uwTick = 0\<rparr> = Some s' \<and> osc_ready s' LSE_CLOCK"
  using clock_enabled [of "\<lambda>osc s. (True, s\<lparr>osc_ready := (osc_ready s)(osc := True)\<rparr>)" LSE_CLOCK
      "\<lparr>osc_ready = (\<lambda>_. False), backup_access = False, lse_drive_low = False, hsem_clock = False, syscfg_clock = False,
       crc_clock = False, uwTick = 0\<rparr>"] by auto

end
