(* ===== verification/Spec2Isabelle.thy ===== *)
theory Spec2Isabelle
  imports Cdc_Properties Cdc_Rx_Race Virtio_Buffer Itoa Net_Properties Udp_Server Eeprom
    Wiring_Properties Shift_Properties
    Core_Callback Core_Time Twi_Timing_Properties Twi_Init_Properties Board
    Serial_Properties Uart_Init_Properties Timer_Driver Usb_Strings Usb_Conf
    Usb_Hid Core_Clock
begin

text \<open>
  The Arduino core of a PLC board with an STM32H743, and its network library: a verification
  library of the code that is the repository's own or that its sketches run on directly. All paths are
  relative to \<^verbatim>\<open>src/\<close>.

  \<^bold>\<open>The program.\<close> A sketch calls the Arduino functions of \<^verbatim>\<open>cores/arduino\<close>. Below them, drivers in C turn pins
  into peripherals (\<^verbatim>\<open>libraries/SrcWrapper\<close>) and move bytes over USB, serial ports, SPI, I2C and a
  shared memory link; \<^verbatim>\<open>libraries/EEPROM\<close> keeps bytes in flash; \<^verbatim>\<open>libraries/OpenPLC_Net\<close> runs LwIP
  over the Ethernet controller and answers discovery requests. The tables of
  \<^verbatim>\<open>variants/STM32H7xx/H743\<close> say which pin serves which peripheral. The drivers meet in three
  places: they share the pin tables and registers, they share byte buffers with interrupts, and they are
  polled from the main loop.

  \<^bold>\<open>Conventions.\<close> Structs are records with the names of the code, enumerations are datatypes, \<^verbatim>\<open>uintN_t\<close> is
  a word of that width or, for an index, a number with the bounds written out. A function takes the
  state and returns it. Undefined behaviour (an access outside an array, a null pointer, a
  shift by too much) and a call of \<^verbatim>\<open>Error_Handler\<close> are \<^term>\<open>None\<close>, so a \<^term>\<open>Some\<close> result is also memory
  safety. The HAL, LwIP and the hardware are parameters, or calls recorded in a log; what is relied
  on is a named hypothesis or a locale. Of the HAL only the pins (\<open>Hal_Gpio\<close>), the interrupt driven
  transfers of a serial port (\<open>Uart\<close>) and the packet memory of USB (\<open>Usb_Conf\<close>) are modelled themselves. A loop that waits for hardware is a \<^verbatim>\<open>partial_function\<close> without
  a result if it does not end; that it ends is then a theorem.

  \<^bold>\<open>Shared theories.\<close> \<open>Prelude\<close>: C integers, truncating remainder, arrays and \<^verbatim>\<open>memcpy\<close>. \<open>Ring\<close>: the
  content of a cyclic buffer, and what storing and taking do to it. \<open>Fifo_Interface\<close>: the contract of a byte
  buffer as the locales \<open>byte_fifo\<close> and \<open>bounded_fifo\<close>, with the theorems their clients use; interpreted on
  the CDC transmit queue, the CDC receive queue and the virtio buffer.

  \<^bold>\<open>USB serial port\<close> (\<^verbatim>\<open>cores/arduino/stm32/usb/cdc\<close>). \<open>Cdc_Queue\<close> has the two queues of \<^verbatim>\<open>cdc_queue.c\<close>;
  \<open>Cdc_Rx_Queue\<close> shows that the receive queue, which leaves gaps at the end of its array, is a FIFO;
  \<open>Cdc_Rx_Race\<close> cuts its reader into the accesses to shared memory, interleaves them with the interrupt
  and shows that no lock is needed. \<open>Usb_Cdc\<close> is \<^verbatim>\<open>usbd_cdc.c\<close> and \<^verbatim>\<open>usbd_cdc_if.c\<close>, \<open>Usb_Cdc_Class\<close> the invariant its callbacks
  keep, \<open>Usb_Cdc_Desc\<close> the descriptors, \<open>Cdc_System\<close> the loops of \<^verbatim>\<open>USBSerial.cpp\<close> with the events
  of the bus, and \<open>Cdc_Properties\<close> the end-to-end properties: streams in order, everything queued is sent,
  flow control, and the control requests.

  \<^bold>\<open>USB device\<close> (\<^verbatim>\<open>cores/arduino/stm32/usb\<close>). \<open>Usb_Conf\<close> starts and stops the controller (\<^verbatim>\<open>usbd_conf.c\<close>,
  \<^verbatim>\<open>usbd_ep_conf.c\<close>, \<^verbatim>\<open>usbd_if.c\<close>) on the registers of the pins and of the packet memory, and shows what that does to the
  terminals and to Ethernet. \<open>Usb_Strings\<close> has the device and string descriptors of \<^verbatim>\<open>usbd_desc.c\<close>, with the
  strings a host reads and the serial number. \<open>Usb_Hid\<close> is the keyboard and mouse that a build may choose instead of the
  serial port (\<^verbatim>\<open>usb/hid\<close>, \<^verbatim>\<open>libraries/Keyboard\<close>, \<^verbatim>\<open>libraries/Mouse\<close>), from descriptors to the
  text that a host reads from the reports; \<open>hid_step\<close> interleaves reports with the host. The calls of the class drivers
  into this layer are those that \<open>Usb_Cdc\<close> and \<open>Usb_Hid\<close> record.

  \<^bold>\<open>Shared memory link.\<close> \<open>Virtio_Buffer\<close> is \<^verbatim>\<open>OpenAMP/virtio_buffer.c\<close> with its refinement to a FIFO.

  \<^bold>\<open>Serial ports.\<close> \<open>Uart\<close> has the transfers: the callbacks of \<^verbatim>\<open>libraries/SrcWrapper/src/stm32/uart.c\<close>, the HAL interrupt
  handler with its routines for bytes, and the two functions of \<^verbatim>\<open>HardwareSerial.cpp\<close> that run at the end of
  a transfer. \<open>Hardware_Serial\<close> has the member functions for the sketch, with \<^verbatim>\<open>write\<close> cut at every access to
  state the interrupt changes, and the step relation \<open>serial_step\<close> that interleaves them.
  \<open>Serial_Invariant\<close> is the invariant of that relation, \<open>Serial_Properties\<close> what follows: order in both
  directions, the end of \<^verbatim>\<open>flush\<close>, bounds, half duplex, and the one interleaving that breaks a transmission.
  \<open>Uart_Init\<close> and \<open>Uart_Init_Properties\<close> are opening and closing a port with its pins and the
  table of handles, and the debug output. One C object \<^verbatim>\<open>serial_t\<close> appears as two records: \<open>serial_t\<close> of \<open>Uart\<close> with
  the fields of transfers, \<open>uart_obj\<close> of \<open>Uart_Init\<close> with those of the set-up.

  \<^bold>\<open>Ethernet\<close> (\<^verbatim>\<open>libraries/OpenPLC_Net/src\<close>). \<open>Lan8742\<close> is the PHY driver, with the locale \<open>phy_bus\<close> for a bus that
  answers; \<open>Ethernetif\<close> the interface below LwIP, whose bus functions are an instance of that locale (\<open>working_mdio\<close>);
  \<open>Net_Port\<close> start, poll and queries; \<open>Net_Properties\<close> the link supervision, the receive buffers and the
  errors without a PHY. \<open>Eth_Msp\<close> configures the pins through \<open>Hal_Gpio\<close>, and shows the result to be that of the
  pin table. \<open>Udp_Server\<close> is the discovery and reboot service.

  \<^bold>\<open>Pins.\<close> \<open>Pinmap\<close> has the encodings, the lookups and the configuration of a pin (\<^verbatim>\<open>pinmap.c\<close>,
  \<^verbatim>\<open>PortNames.c\<close>, \<^verbatim>\<open>pinconfig.h\<close>), \<open>Pin_Tables\<close> the 25 tables of the board, \<open>Pin_Lookup\<close> and \<open>Pin_Config\<close> their
  properties, \<open>Pin_Alternate\<close> what a driver gets that routes pins to its peripheral. \<open>Wiring\<close> is the
  Arduino interface to pins, with \<open>Wiring_Properties\<close> and \<open>Shift_Properties\<close>. \<open>Board\<close> names the
  terminals, and shows which uses of pins leave the Ethernet controller alone and which do not.

  \<^bold>\<open>Buses.\<close> \<open>Spi_Com\<close> with \<open>Spi_Properties\<close> is \<^verbatim>\<open>spi_com.c\<close>: clock divider, initialisation, transfer.
  \<^verbatim>\<open>twi.c\<close> is in five theories: \<open>Twi_Slave\<close> (callbacks of a slave), \<open>Twi_Master\<close> (transfers with their two
  waiting loops), \<open>Twi_Timing\<close> and \<open>Twi_Timing_Properties\<close> (the search for a timing, against the times of the bus
  specification), \<open>Twi_Init\<close> and \<open>Twi_Init_Properties\<close> (clock, pins, handles and interrupts).

  \<^bold>\<open>Timers.\<close> \<open>Timer_Driver\<close> is \<^verbatim>\<open>timer.c\<close> and the life of a timer object in \<^verbatim>\<open>HardwareTimer.cpp\<close>: the step
  relation \<open>tim_step\<close> of set-up, release, destruction and priorities, with the invariant that the interrupts of a timer in
  use reach its handler, as long as no timer that shares a vector is released; and what happens if one is.

  \<^bold>\<open>Other.\<close> \<open>Eeprom\<close>: the emulated EEPROM over flash with the law of NOR flash (locale
  \<open>nor_flash\<close>). \<open>Itoa\<close>: number conversion with its digit loop. \<open>Core_Callback\<close>: the callbacks of the main
  loop, refined to a bag. \<open>Core_Time\<close>: micros, millis and \<^verbatim>\<open>delay\<close>. \<open>Core_Clock\<close>: oscillators and the tick.

  \<^bold>\<open>Bounds and fuel.\<close> No model runs out of fuel. Loops over a table recurse over the table; the digit loop of
  \<open>Itoa\<close> stops with a buffer of 33 bytes, enough for 32 digits and the end; the byte loops of the queues recurse over the
  free cells. \<^verbatim>\<open>delay\<close>, the loops of the I2C master and of the debug output are partial functions; those of \<^verbatim>\<open>delay\<close> and the I2C master
  are proved to end when the clock advances. A flush needs at most 191 interrupts: three for each of 63 bytes, and two.

  \<^bold>\<open>Not modelled.\<close> Of \<^verbatim>\<open>HardwareTimer.cpp\<close> only what decides whether an interrupt
  arrives: counter values and channel modes are C++. The drivers of ADC, DAC and PWM are C++ files and parameters of
  \<open>Wiring\<close>. Of the other C++ classes only the bodies named above. HAL, CMSIS, the USB device library (but for its
  string conversion) and LwIP are third-party code. The order in which a processor makes memory accesses of different
  threads visible is taken to be that of the program: there is one processor.
\<close>

end
